(* ===== verification/Prelude.thy ===== *)
theory Prelude
  imports Main
begin

text \<open>
  Shared vocabulary of the development: byte strings and their indexing, slices, the
  character constants the compiler compares bytes with, and the fact collections
  (\<open>scan_defs\<close>, \<open>progress\<close>, \<open>slice\<close>) the component theories add to.

  A Go \<open>string\<close> is a byte sequence, so it is the HOL type \<^typ>\<open>string\<close>
  (a list of 8-bit characters); a Go \<open>int\<close> used as an index or a counter that
  starts at zero or one and only grows is a \<^typ>\<open>nat\<close>. Every read \<open>s ! i\<close> in
  the models stands under the bound check the source has.
\<close>

named_theorems scan_defs
named_theorems progress
named_theorems slice

section \<open>Byte constants\<close>

abbreviation LF :: char where "LF \<equiv> CHR 0x0A"
abbreviation CR :: char where "CR \<equiv> CHR 0x0D"
abbreviation TAB :: char where "TAB \<equiv> CHR 0x09"
abbreviation DQUOTE :: char where "DQUOTE \<equiv> CHR 0x22"
abbreviation SQUOTE :: char where "SQUOTE \<equiv> CHR 0x27"
abbreviation BACKSLASH :: char where "BACKSLASH \<equiv> CHR 0x5C"

text \<open>The numeric value of a byte, as Go's comparisons read it.\<close>

abbreviation byte_val :: "char \<Rightarrow> nat" where "byte_val c \<equiv> of_char c"

lemma byte_val_less_256 [simp]: "byte_val c < 256"
  using of_char_mod_256 [of c, where 'a = nat] by (metis mod_less_divisor zero_less_numeral)

definition byte_between :: "char \<Rightarrow> char \<Rightarrow> char \<Rightarrow> bool" where
  "byte_between lo c hi \<longleftrightarrow> byte_val lo \<le> byte_val c \<and> byte_val c \<le> byte_val hi"

section \<open>Guarded indexing and slices\<close>

text \<open>\<open>index < len(source) && source[index] == c\<close>.\<close>

definition at :: "string \<Rightarrow> nat \<Rightarrow> char \<Rightarrow> bool" where
  "at s i c \<longleftrightarrow> i < length s \<and> s ! i = c"

text \<open>\<open>s[i:j]\<close> for \<open>0 <= i <= j <= len(s)\<close>.\<close>

definition substring :: "string \<Rightarrow> nat \<Rightarrow> nat \<Rightarrow> string" where
  "substring s i j = take (j - i) (drop i s)"

lemma at_less [simp, dest]: "at s i c \<Longrightarrow> i < length s"
  by (simp add: at_def)

lemma at_nth: "at s i c \<Longrightarrow> s ! i = c"
  by (simp add: at_def)

lemma length_substring [simp]: "j \<le> length s \<Longrightarrow> length (substring s i j) = j - i"
  by (simp add: substring_def)

lemma substring_empty [simp]: "substring s i i = []"
  by (simp add: substring_def)

lemma substring_Suc: "i < length s \<Longrightarrow> substring s i (Suc i) = [s ! i]"
  by (simp add: substring_def take_Suc_conv_app_nth hd_drop_conv_nth take_Suc)

lemma substring_snoc:
  assumes "i \<le> j" "j < length s"
  shows "substring s i (Suc j) = substring s i j @ [s ! j]"
proof -
  have "Suc j - i = Suc (j - i)" using assms by simp
  moreover have "j - i < length (drop i s)" using assms by simp
  ultimately show ?thesis
    using assms by (simp add: substring_def take_Suc_conv_app_nth)
qed

lemma substring_cons:
  assumes "i < j" "j \<le> length s"
  shows "substring s i j = s ! i # substring s (Suc i) j"
proof -
  have "drop i s = s ! i # drop (Suc i) s"
    using assms by (simp add: Cons_nth_drop_Suc)
  moreover have "j - i = Suc (j - Suc i)" using assms by simp
  ultimately show ?thesis by (simp add: substring_def)
qed

lemma substring_nth:
  assumes "i + k < j" "j \<le> length s"
  shows "substring s i j ! k = s ! (i + k)"
  using assms by (simp add: substring_def)

lemma set_substring: "set (substring s i j) \<subseteq> set s"
  unfolding substring_def by (meson order_trans set_drop_subset set_take_subset)

lemma substring_append_left:
  "length p = i \<Longrightarrow> substring (p @ q @ r) i (i + length q) = q"
  by (simp add: substring_def)

section \<open>List facts\<close>

lemma last_append_single [simp]: "last (xs @ [x]) = x"
  by simp

lemma filter_sorted_le_append:
  assumes "\<forall>x\<in>set xs. x \<le> n" "\<forall>y\<in>set ys. n < y"
  shows "filter (\<lambda>z. z \<le> (n::nat)) (xs @ ys) = xs"
proof -
  have "filter (\<lambda>z. z \<le> n) ys = []" using assms(2) by (auto simp: filter_empty_conv)
  moreover have "filter (\<lambda>z. z \<le> n) xs = xs" using assms(1) by simp
  ultimately show ?thesis by simp
qed

end
