(* ===== verification/SpanTable.thy ===== *)
theory SpanTable
  imports Prelude
begin

text \<open>
  The source-position model of \<open>compiler/span/span.go\<close>: half-open byte spans, the table
  of line starts a compilation builds from its sources, and the resolution of a span's start
  to a one-based line and byte column. Go's \<open>slices.BinarySearch\<close> is modelled with its
  own loop. The reference definition \<open>offset_position\<close> counts line starts directly.
\<close>

section \<open>Spans and positions\<close>

record span =
  sp_file :: string
  sp_start :: int
  sp_end :: int

record position =
  pos_line :: int
  pos_column :: int

definition zero_span :: span where
  "zero_span = \<lparr>sp_file = [], sp_start = 0, sp_end = 0\<rparr>"

definition zero_position :: position where
  "zero_position = \<lparr>pos_line = 0, pos_column = 0\<rparr>"

section \<open>The table\<close>

text \<open>\<open>Table.lines\<close>: each logical file to the byte offsets of its line starts.\<close>

record span_table =
  tab_lines :: "string \<rightharpoonup> nat list"

definition new_table :: span_table where
  "new_table = \<lparr>tab_lines = Map.empty\<rparr>"

text \<open>The loop of \<open>Table.Add\<close> from byte \<open>i\<close> on.\<close>

function line_starts_from :: "string \<Rightarrow> nat \<Rightarrow> nat list" where
  "line_starts_from src i =
     (if i < length src then
        (if src ! i = LF then Suc i # line_starts_from src (Suc i)
         else if src ! i = CR then
           (if at src (Suc i) LF then line_starts_from src (Suc i)
            else Suc i # line_starts_from src (Suc i))
         else line_starts_from src (Suc i))
      else [])"
  by pat_completeness auto
termination by (relation "measure (\<lambda>(src, i). length src - i)") auto

declare line_starts_from.simps [simp del]

definition line_starts :: "string \<Rightarrow> nat list" where
  "line_starts src = 0 # line_starts_from src 0"

definition table_add :: "span_table \<Rightarrow> string \<Rightarrow> string \<Rightarrow> span_table" where
  "table_add t file src = t\<lparr>tab_lines := (tab_lines t)(file \<mapsto> line_starts src)\<rparr>"

text \<open>\<open>slices.BinarySearch\<close> of the Go library: the least index whose element is not
  below the target, and whether that element is the target.\<close>

function binary_search_loop :: "nat list \<Rightarrow> nat \<Rightarrow> nat \<Rightarrow> nat \<Rightarrow> nat" where
  "binary_search_loop xs target i j =
     (if i < j then
        (let h = (i + j) div 2 in
         if xs ! h < target then binary_search_loop xs target (Suc h) j
         else binary_search_loop xs target i h)
      else i)"
  by pat_completeness auto
termination by (relation "measure (\<lambda>(xs, t, i, j). j - i)") auto

declare binary_search_loop.simps [simp del]

definition binary_search :: "nat list \<Rightarrow> nat \<Rightarrow> nat \<times> bool" where
  "binary_search xs target =
     (let i = binary_search_loop xs target 0 (length xs)
      in (i, i < length xs \<and> xs ! i = target))"

definition table_position :: "span_table \<Rightarrow> span \<Rightarrow> position" where
  "table_position t s =
     (if sp_start s < 0 then zero_position
      else case tab_lines t (sp_file s) of
        None \<Rightarrow> zero_position
      | Some starts \<Rightarrow>
          (let start = nat (sp_start s);
               (index, exact) = binary_search starts start;
               line = (if exact then index + 1 else index)
           in \<lparr>pos_line = int line,
               pos_column = sp_start s - int (starts ! (line - 1)) + 1\<rparr>))"

section \<open>Reference semantics\<close>

text \<open>A line starts at \<open>i\<close>: at the beginning, after a line feed, or after a carriage
  return that no line feed follows.\<close>

definition break_after :: "string \<Rightarrow> nat \<Rightarrow> bool" where
  "break_after src i \<longleftrightarrow>
     i < length src \<and> (src ! i = LF \<or> src ! i = CR \<and> \<not> at src (Suc i) LF)"

definition offset_position :: "string \<Rightarrow> nat \<Rightarrow> nat \<times> nat" where
  "offset_position src offset =
     (let starts = filter (\<lambda>s. s \<le> offset) (line_starts src)
      in (length starts, offset - last starts + 1))"

section \<open>Line starts\<close>

lemma line_starts_from_step:
  "line_starts_from src i =
     (if i < length src then
        (if break_after src i then [Suc i] else []) @ line_starts_from src (Suc i)
      else [])"
  by (simp add: line_starts_from.simps [of src i] break_after_def)

lemma line_starts_from_eq:
  "line_starts_from src i = map Suc (filter (break_after src) [i..<length src])"
proof (induction src i rule: line_starts_from.induct)
  case (1 src i)
  show ?case
  proof (cases "i < length src")
    case True
    have "line_starts_from src (Suc i) = map Suc (filter (break_after src) [Suc i..<length src])"
      using 1 True by blast
    with True show ?thesis
      by (simp add: line_starts_from_step [of src i] upt_conv_Cons)
  next
    case False
    then show ?thesis by (simp add: line_starts_from_step [of src i])
  qed
qed

lemma line_starts_eq: "line_starts src = 0 # map Suc (filter (break_after src) [0..<length src])"
  by (simp add: line_starts_def line_starts_from_eq)

lemma line_starts_nonempty [simp]: "line_starts src \<noteq> []"
  by (simp add: line_starts_def)

lemma line_starts_sorted: "sorted_wrt (<) (line_starts src)"
  by (auto simp: line_starts_eq sorted_wrt_map intro: sorted_wrt_filter)

lemma line_starts_bound: "s \<in> set (line_starts src) \<Longrightarrow> s \<le> length src"
  by (auto simp: line_starts_eq)

lemma line_starts_le:
  assumes "offset \<le> length src"
  shows "filter (\<lambda>s. s \<le> offset) (line_starts src) =
     0 # map Suc (filter (break_after src) [0..<offset])"
proof -
  have split: "[0..<length src] = [0..<offset] @ [offset..<length src]"
    using assms by (metis le0 le_add_diff_inverse upt_add_eq_append)
  show ?thesis
    by (auto simp: line_starts_eq split filter_map o_def filter_empty_conv
      intro!: arg_cong [where f = "map Suc"] filter_cong)
qed

text \<open>The position advances by one byte at a time: the convention the lexer's counters follow.\<close>

lemma offset_position_0: "offset_position src 0 = (1, 1)"
  by (simp add: offset_position_def line_starts_le Let_def del: le_zero_eq)

lemma last_line_start_le:
  assumes "offset \<le> length src"
  shows "last (0 # map Suc (filter (break_after src) [0..<offset])) \<le> offset"
proof -
  have "last (0 # map Suc (filter (break_after src) [0..<offset]))
      \<in> set (0 # map Suc (filter (break_after src) [0..<offset]))"
    by (rule last_in_set) simp
  then show ?thesis by auto
qed

lemma offset_position_Suc:
  assumes "i < length src"
  shows "offset_position src (Suc i) =
     (let (l, c) = offset_position src i
      in if break_after src i then (l + 1, 1) else (l, c + 1))"
  using assms last_line_start_le [of i src]
  by (auto simp: offset_position_def line_starts_le Let_def Suc_diff_le)

section \<open>Binary search and the table lookup\<close>

lemma binary_search_loop_spec:
  assumes "sorted_wrt (<) xs" "i \<le> j" "j \<le> length xs"
    "\<forall>k<i. xs ! k < target" "\<forall>k<length xs. j \<le> k \<longrightarrow> target \<le> xs ! k"
  shows "binary_search_loop xs target i j = length (filter (\<lambda>x. x < target) xs)"
  using assms
proof (induction xs target i j rule: binary_search_loop.induct)
  case (1 xs target i j)
  show ?case
  proof (cases "i < j")
    case True
    define h where "h = (i + j) div 2"
    have h: "i \<le> h" "h < j" using True by (auto simp: h_def)
    have mono: "xs ! a \<le> xs ! b" if "a \<le> b" "b < length xs" for a b
      using that "1.prems"(1) by (metis le_neq_implies_less less_imp_le order_refl sorted_wrt_nth_less)
    show ?thesis
    proof (cases "xs ! h < target")
      case lt: True
      have "\<forall>k<Suc h. xs ! k < target"
        using lt mono h "1.prems"(3) by (metis le_less_trans less_Suc_eq_le less_le_trans)
      then have "binary_search_loop xs target (Suc h) j = length (filter (\<lambda>x. x < target) xs)"
        using "1.IH"(1) [OF True h_def] lt "1.prems" h by simp
      then show ?thesis
        using True lt by (simp add: binary_search_loop.simps [of xs target i j] h_def Let_def)
    next
      case ge: False
      have "\<forall>k<length xs. h \<le> k \<longrightarrow> target \<le> xs ! k"
        using ge mono by (meson leI order_trans)
      then have "binary_search_loop xs target i h = length (filter (\<lambda>x. x < target) xs)"
        using "1.IH"(2) [OF True h_def] ge "1.prems" h by simp
      then show ?thesis
        using True ge by (simp add: binary_search_loop.simps [of xs target i j] h_def Let_def)
    qed
  next
    case False
    then have ij: "i = j" using "1.prems"(2) by simp
    have xs: "xs = take i xs @ drop i xs" by simp
    have A: "filter (\<lambda>x. x < target) (take i xs) = take i xs"
      using "1.prems"(3,4) ij by (auto simp: filter_id_conv in_set_conv_nth)
    have B: "filter (\<lambda>x. x < target) (drop i xs) = []"
      using "1.prems"(3,5) ij by (auto simp: filter_empty_conv in_set_conv_nth not_less)
    have "length (filter (\<lambda>x. x < target) xs) = i"
      by (subst xs, subst filter_append) (use A B ij "1.prems"(3) in simp)
    then show ?thesis using False by (simp add: binary_search_loop.simps [of xs target i j])
  qed
qed

lemma binary_search_count:
  assumes "sorted_wrt (<) xs"
  shows "fst (binary_search xs target) = length (filter (\<lambda>x. x < target) xs)"
  using binary_search_loop_spec [of xs 0 "length xs" target] assms
  by (simp add: binary_search_def Let_def)

lemma filter_less_take:
  fixes xs :: "nat list"
  assumes "sorted_wrt (<) xs"
  shows "filter (\<lambda>x. x < t) xs = take (length (filter (\<lambda>x. x < t) xs)) xs"
  using assms
proof (induction xs)
  case (Cons x xs)
  show ?case
  proof (cases "x < t")
    case False
    then have "filter (\<lambda>x. x < t) xs = []"
      using Cons.prems by (auto simp: filter_empty_conv)
    with False show ?thesis by simp
  qed (use Cons in simp)
qed simp

lemma binary_search_line:
  assumes "sorted_wrt (<) xs"
  shows "(case binary_search xs target of (i, exact) \<Rightarrow> if exact then i + 1 else i)
     = length (filter (\<lambda>x. x \<le> target) xs)"
proof -
  define n where "n = length (filter (\<lambda>x. x < target) xs)"
  have fst: "fst (binary_search xs target) = n" using binary_search_count [OF assms] by (simp add: n_def)
  have snd: "snd (binary_search xs target) \<longleftrightarrow> n < length xs \<and> xs ! n = target"
    using fst by (simp add: binary_search_def Let_def)
  have le: "\<And>x. x \<le> target \<longleftrightarrow> x < Suc target" by auto
  have "length (filter (\<lambda>x. x < Suc target) xs)
      = n + length (filter (\<lambda>x. x = target) xs)"
    unfolding n_def by (induction xs) auto
  moreover have "length (filter (\<lambda>x. x = target) xs) = (if target \<in> set xs then 1 else 0)"
    using assms by (induction xs) auto
  moreover have "target \<in> set xs \<longleftrightarrow> n < length xs \<and> xs ! n = target"
  proof
    assume "target \<in> set xs"
    then obtain k where k: "k < length xs" "xs ! k = target" by (auto simp: in_set_conv_nth)
    have "k = n"
    proof (rule ccontr)
      assume "k \<noteq> n"
      have nlen: "n \<le> length xs" by (simp add: n_def)
      consider "k < n" | "n < k" using \<open>k \<noteq> n\<close> by linarith
      then show False
      proof cases
        case 1
        have "xs ! k \<in> set (filter (\<lambda>x. x < target) xs)"
          using 1 filter_less_take [OF assms, of target] nlen
          by (metis n_def in_set_conv_nth length_take min.absorb2 nth_take)
        with k show False by simp
      next
        case 2
        then have "xs ! n < target" using assms k by (metis sorted_wrt_nth_less)
        moreover have "n < length xs" using 2 k by simp
        ultimately have "xs ! n \<in> set (filter (\<lambda>x. x < target) xs)" by simp
        then obtain m where m: "m < n" "xs ! m = xs ! n"
          using filter_less_take [OF assms, of target] nlen
          by (metis n_def in_set_conv_nth length_take min.absorb2 nth_take)
        with assms \<open>n < length xs\<close> show False by (metis less_irrefl sorted_wrt_nth_less)
      qed
    qed
    with k show "n < length xs \<and> xs ! n = target" by simp
  qed auto
  ultimately show ?thesis
    using fst snd by (auto simp: le split: prod.split)
qed

lemma table_position_offset:
  "table_position (table_add t file src) \<lparr>sp_file = file, sp_start = int offset, sp_end = e\<rparr> =
     (let (l, c) = offset_position src offset in \<lparr>pos_line = int l, pos_column = int c\<rparr>)"
proof -
  define n where "n = length (filter (\<lambda>s. s \<le> offset) (line_starts src))"
  have sorted: "sorted_wrt (<) (line_starts src)" by (rule line_starts_sorted)
  have n0: "0 < n" by (simp add: n_def line_starts_def)
  have pre: "filter (\<lambda>s. s \<le> offset) (line_starts src) = take n (line_starts src)"
    using filter_less_take [OF sorted, of "Suc offset"] by (simp add: n_def less_Suc_eq_le)
  have nlen: "n \<le> length (line_starts src)" by (simp add: n_def)
  have lst: "last (filter (\<lambda>s. s \<le> offset) (line_starts src)) = line_starts src ! (n - 1)"
    using n0 nlen by (simp add: pre last_conv_nth)
  have "line_starts src ! (n - 1) \<in> set (filter (\<lambda>s. s \<le> offset) (line_starts src))"
    using n0 by (metis lst last_in_set length_greater_0_conv n_def)
  then have le: "line_starts src ! (n - 1) \<le> offset" by simp
  have line: "(case binary_search (line_starts src) offset of (i, exact) \<Rightarrow> if exact then i + 1 else i) = n"
    by (simp add: binary_search_line [OF sorted] n_def)
  show ?thesis
    using line le lst
    by (auto simp: table_position_def table_add_def offset_position_def Let_def n_def [symmetric]
        of_nat_diff split: prod.splits if_splits)
qed

section \<open>Properties\<close>

text \<open>
  Resolving a span through the table gives the position of its start under the documented
  convention: the line is the number of line starts at or before the offset, the column is the
  distance from the last of them, one-based.
\<close>

theorem table_position_correct:
  "table_position (table_add t file src) \<lparr>sp_file = file, sp_start = int offset, sp_end = e\<rparr> =
     (let (l, c) = offset_position src offset in \<lparr>pos_line = int l, pos_column = int c\<rparr>)"
  by (rule table_position_offset)

text \<open>
  The position advances with the bytes: a line feed, and a carriage return that no line
  feed follows, moves to column one of the next line, every other byte to the next column.
\<close>

theorem position_step:
  assumes "i < length src"
  shows "offset_position src (Suc i) =
     (if src ! i = LF \<or> src ! i = CR \<and> \<not> at src (Suc i) LF
      then (fst (offset_position src i) + 1, 1)
      else (fst (offset_position src i), snd (offset_position src i) + 1))"
  using offset_position_Suc [OF assms] assms
  by (simp add: break_after_def split: prod.splits)

theorem position_step_witness:
  "offset_position [CHR ''a'', CR, LF, CHR ''b''] 3 = (2, 1)"
  using position_step [of 2 "[CHR ''a'', CR, LF, CHR ''b'']"]
    position_step [of 1 "[CHR ''a'', CR, LF, CHR ''b'']"]
    position_step [of 0 "[CHR ''a'', CR, LF, CHR ''b'']"]
  by (simp add: offset_position_0 at_def numeral_3_eq_3 numeral_2_eq_2)

end
