(* ===== verification/Utf8.thy ===== *)
theory Utf8
  imports Prelude
begin

text \<open>
  The parts of Go's \<open>unicode/utf8\<close> and \<open>strconv\<close> packages the lexer uses: encoding of a
  rune as bytes (\<open>string(rune(v))\<close>), decoding of the first rune (\<open>utf8.DecodeRune\<close>),
  validity of a byte sequence (\<open>utf8.Valid\<close>) and unsigned hexadecimal parsing
  (\<open>strconv.ParseUint(s, 16, bits)\<close>). These model the documented behaviour of the
  standard library, so no source lines are mapped here.
\<close>

section \<open>Well-formed sequences\<close>

text \<open>Go's tables \<open>first\<close> and \<open>acceptRanges\<close>: the length announced by a leading byte and
  the range its second byte must lie in.\<close>

definition lead_info :: "nat \<Rightarrow> (nat \<times> nat \<times> nat) option" where
  "lead_info b =
     (if b < 128 then Some (1, 0, 0)
      else if b < 194 then None
      else if b < 224 then Some (2, 128, 191)
      else if b = 224 then Some (3, 160, 191)
      else if b < 237 then Some (3, 128, 191)
      else if b = 237 then Some (3, 128, 159)
      else if b < 240 then Some (3, 128, 191)
      else if b = 240 then Some (4, 144, 191)
      else if b < 244 then Some (4, 128, 191)
      else if b = 244 then Some (4, 128, 143)
      else None)"

definition continuation :: "char \<Rightarrow> bool" where
  "continuation c \<longleftrightarrow> 128 \<le> byte_val c \<and> byte_val c \<le> 191"

text \<open>The width of the well-formed sequence a string starts with, if it starts with one.\<close>

fun sequence_width :: "string \<Rightarrow> nat option" where
  "sequence_width [] = None"
| "sequence_width (c # s) =
     (case lead_info (byte_val c) of
        None \<Rightarrow> None
      | Some (n, lo, hi) \<Rightarrow>
          if n = 1 then Some 1
          else if length s < n - 1 then None
          else if byte_val (s ! 0) < lo \<or> hi < byte_val (s ! 0) then None
          else if 3 \<le> n \<and> \<not> continuation (s ! 1) then None
          else if 4 \<le> n \<and> \<not> continuation (s ! 2) then None
          else Some n)"

lemma sequence_width_bounds:
  assumes "sequence_width s = Some n"
  shows "1 \<le> n" "n \<le> 4" "n \<le> length s"
proof -
  obtain c t where s: "s = c # t" using assms by (cases s) auto
  show "1 \<le> n" "n \<le> 4" "n \<le> length s"
    using assms by (auto simp: s lead_info_def Suc_le_eq split: if_splits)
qed

function utf8_valid :: "string \<Rightarrow> bool" where
  "utf8_valid s =
     (if s = [] then True
      else case sequence_width s of
        None \<Rightarrow> False
      | Some n \<Rightarrow> utf8_valid (drop n s))"
  by pat_completeness auto
termination
  by (relation "measure length") (auto dest: sequence_width_bounds)

declare utf8_valid.simps [simp del]

definition rune_error :: nat where "rune_error = 65533"

text \<open>\<open>utf8.DecodeRune\<close>: the rune and its width; an ill-formed start yields
  \<open>(RuneError, 1)\<close>, an empty string \<open>(RuneError, 0)\<close>.\<close>

definition decode_rune :: "string \<Rightarrow> nat \<times> nat" where
  "decode_rune s =
     (if s = [] then (rune_error, 0)
      else case sequence_width s of
        None \<Rightarrow> (rune_error, 1)
      | Some n \<Rightarrow>
          (let b = (\<lambda>i. byte_val (s ! i)) in
           if n = 1 then (b 0, 1)
           else if n = 2 then (b 0 mod 32 * 64 + b 1 mod 64, 2)
           else if n = 3 then (b 0 mod 16 * 4096 + b 1 mod 64 * 64 + b 2 mod 64, 3)
           else (b 0 mod 8 * 262144 + b 1 mod 64 * 4096 + b 2 mod 64 * 64 + b 3 mod 64, 4)))"

definition is_scalar_value :: "nat \<Rightarrow> bool" where
  "is_scalar_value v \<longleftrightarrow> v \<le> 1114111 \<and> \<not> (55296 \<le> v \<and> v \<le> 57343)"

text \<open>\<open>string(rune(v))\<close>: values that are no Unicode scalar become U+FFFD.\<close>

definition encode_rune :: "nat \<Rightarrow> string" where
  "encode_rune w =
     (let v = (if is_scalar_value w then w else rune_error) in
      if v < 128 then [char_of v]
      else if v < 2048 then [char_of (192 + v div 64), char_of (128 + v mod 64)]
      else if v < 65536 then
        [char_of (224 + v div 4096), char_of (128 + v div 64 mod 64), char_of (128 + v mod 64)]
      else
        [char_of (240 + v div 262144), char_of (128 + v div 4096 mod 64),
         char_of (128 + v div 64 mod 64), char_of (128 + v mod 64)])"

section \<open>Encoding and decoding agree\<close>

lemma horner64_3: "a * 4096 + b * 64 + c = (a * 64 + b) * 64 + (c::nat)"
  by simp

lemma horner64_4: "a * 262144 + b * 4096 + c * 64 + d = (a * 4096 + b * 64 + c) * 64 + (d::nat)"
  by simp

lemma radix64_3: "v div 4096 * 4096 + v div 64 mod 64 * 64 + v mod 64 = (v::nat)"
proof -
  have "v div 4096 = v div 64 div 64" using div_mult2_eq [of v 64 64] by simp
  then show ?thesis by (simp only: horner64_3 div_mult_mod_eq)
qed

lemma radix64_4:
  "v div 262144 * 262144 + v div 4096 mod 64 * 4096 + v div 64 mod 64 * 64 + v mod 64 = (v::nat)"
proof -
  have q: "v div 262144 = v div 64 div 4096" using div_mult2_eq [of v 64 4096] by simp
  have m: "v div 4096 = v div 64 div 64" using div_mult2_eq [of v 64 64] by simp
  show ?thesis by (simp only: q m horner64_4 radix64_3 div_mult_mod_eq)
qed

lemma encode_rune_width:
  "is_scalar_value v \<Longrightarrow> sequence_width (encode_rune v @ s) = Some (length (encode_rune v))"
proof -
  assume v: "is_scalar_value v"
  consider "v < 128" | "128 \<le> v" "v < 2048" | "2048 \<le> v" "v < 65536" | "65536 \<le> v" by linarith
  then show ?thesis
  proof cases
    case 1
    then show ?thesis by (simp add: encode_rune_def v lead_info_def)
  next
    case 2
    then have "192 + v div 64 < 224" "194 \<le> 192 + v div 64" by auto
    with 2 show ?thesis by (simp add: encode_rune_def v lead_info_def)
  next
    case 3
    define q where "q = v div 4096"
    define m where "m = v div 64 mod 64"
    have q: "q < 16" using 3 by (simp add: q_def)
    have m: "m < 64" by (simp add: m_def)
    have v64: "v div 64 = 64 * q + m"
      by (simp add: q_def m_def div_mult2_eq [of v 64 64, simplified])
    have lo: "32 \<le> m \<or> 0 < q" using 3(1) v64 by (cases "q = 0") auto
    have hi: "q = 13 \<Longrightarrow> m < 32"
    proof -
      assume q13: "q = 13"
      have "v < 55296 \<or> 57343 < v" using v by (auto simp: is_scalar_value_def)
      then have "v div 64 < 864 \<or> 896 \<le> v div 64" by auto
      then show "m < 32" using q13 m v64 by auto
    qed
    have "encode_rune v = [char_of (224 + q), char_of (128 + m), char_of (128 + v mod 64)]"
      using 3 by (simp add: encode_rune_def v q_def m_def)
    then show ?thesis using q m lo hi by (auto simp: lead_info_def continuation_def)
  next
    case 4
    define q where "q = v div 262144"
    define m where "m = v div 4096 mod 64"
    have vle: "v \<le> 1114111" using v by (simp add: is_scalar_value_def)
    have q: "q < 5" using vle by (simp add: q_def)
    have m: "m < 64" by (simp add: m_def)
    have v4096: "v div 4096 = 64 * q + m"
      by (simp add: q_def m_def div_mult2_eq [of v 4096 64, simplified])
    have lo: "16 \<le> m \<or> 0 < q" using 4 v4096 by (cases "q = 0") auto
    have "v div 4096 < 272" using vle by simp
    then have hi: "m < 16 \<or> q < 4" using v4096 q by linarith
    have "encode_rune v = [char_of (240 + q), char_of (128 + m),
        char_of (128 + v div 64 mod 64), char_of (128 + v mod 64)]"
      using 4 by (simp add: encode_rune_def v q_def m_def)
    then show ?thesis using q m lo hi by (auto simp: lead_info_def continuation_def)
  qed
qed

declare sequence_width.simps [simp del]

lemma cont_byte_mod [simp]: "(128 + x mod 64) mod 256 mod 64 = x mod (64::nat)"
proof -
  have "(128 + x mod 64) mod 256 = 128 + x mod 64"
    using mod_less_divisor [of 64 x] by (intro mod_less) linarith
  then show ?thesis using mod_mult_self3 [of 2 64 "x mod 64"] by simp
qed

lemma cont_mod [simp]: "(128 + x mod 64) mod 64 = x mod (64::nat)"
  using mod_mult_self3 [of 2 64 "x mod 64"] by simp

lemma encode_rune_nonempty [simp]: "encode_rune v \<noteq> []"
  by (simp add: encode_rune_def Let_def)

lemma length_encode_rune: "1 \<le> length (encode_rune v)" "length (encode_rune v) \<le> 4"
  by (auto simp: encode_rune_def Let_def)

lemma decode_encode_rune:
  assumes v: "is_scalar_value v"
  shows "decode_rune (encode_rune v @ s) = (v, length (encode_rune v))"
proof -
  note w = encode_rune_width [OF v, of s]
  consider "v < 128" | "128 \<le> v" "v < 2048" | "2048 \<le> v" "v < 65536" | "65536 \<le> v" by linarith
  then show ?thesis
  proof cases
    case 1
    then have e: "encode_rune v = [char_of v]" by (simp add: encode_rune_def v)
    show ?thesis using w 1 by (simp add: decode_rune_def e)
  next
    case 2
    then have e: "encode_rune v = [char_of (192 + v div 64), char_of (128 + v mod 64)]"
      by (simp add: encode_rune_def v)
    have "192 + v div 64 < 256" using 2 by simp
    moreover have "(192 + v div 64) mod 32 = v div 64"
      using 2 mod_mult_self3 [of 6 32 "v div 64"] by simp
    ultimately show ?thesis using w by (simp add: decode_rune_def e)
  next
    case 3
    then have e: "encode_rune v = [char_of (224 + v div 4096),
        char_of (128 + v div 64 mod 64), char_of (128 + v mod 64)]"
      by (simp add: encode_rune_def v)
    have "224 + v div 4096 < 256" using 3 by simp
    moreover have "(224 + v div 4096) mod 16 = v div 4096"
      using 3 mod_mult_self3 [of 14 16 "v div 4096"] by simp
    ultimately show ?thesis using w radix64_3 [of v] by (simp add: decode_rune_def e numeral_2_eq_2)
  next
    case 4
    then have e: "encode_rune v = [char_of (240 + v div 262144), char_of (128 + v div 4096 mod 64),
        char_of (128 + v div 64 mod 64), char_of (128 + v mod 64)]"
      by (simp add: encode_rune_def v)
    have "v \<le> 1114111" using v by (simp add: is_scalar_value_def)
    then have q: "v div 262144 < 5" by simp
    then have "240 + v div 262144 < 256" by simp
    moreover have "(240 + v div 262144) mod 8 = v div 262144"
      using q mod_mult_self3 [of 30 8 "v div 262144"] by simp
    ultimately show ?thesis using w radix64_4 [of v] by (simp add: decode_rune_def e numeral_2_eq_2 numeral_3_eq_3)
  qed
qed

lemma utf8_valid_Nil [simp]: "utf8_valid []"
  by (simp add: utf8_valid.simps)

lemma utf8_valid_encode [simp]:
  "is_scalar_value v \<Longrightarrow> utf8_valid (encode_rune v @ s) = utf8_valid s"
  using encode_rune_width [of v s] by (subst utf8_valid.simps) simp

lemma utf8_valid_ascii:
  "byte_val c < 128 \<Longrightarrow> utf8_valid (c # s) = utf8_valid s"
  by (subst utf8_valid.simps) (simp add: lead_info_def sequence_width.simps)

text \<open>Conversely every well-formed sequence is the encoding of the scalar value it decodes to.\<close>

lemma char_of_byte: "byte_val c = n \<Longrightarrow> char_of n = c"
  by auto

lemma cont_split:
  assumes "128 \<le> b" "b \<le> (191::nat)"
  obtains m where "b = 128 + m" "m < 64"
  using assms that [of "b - 128"] by simp

lemma encode_decode_rune:
  assumes w: "sequence_width s = Some n"
  shows "is_scalar_value (fst (decode_rune s)) \<and> take n s = encode_rune (fst (decode_rune s))"
proof -
  obtain c t where s: "s = c # t" using w by (cases s) (auto simp: sequence_width.simps)
  note def = w [unfolded s sequence_width.simps lead_info_def]
  define b where "b = byte_val c"
  consider "n = 1" "b < 128" | "n = 2" | "n = 3" | "n = 4"
    using def by (auto simp: b_def split: if_splits)
  then show ?thesis
  proof cases
    case 1
    then show ?thesis
      using w by (simp add: s decode_rune_def encode_rune_def is_scalar_value_def b_def)
  next
    case 2
    then obtain c1 u where t: "t = c1 # u" and r: "194 \<le> b" "b < 224" "128 \<le> byte_val c1" "byte_val c1 \<le> 191"
      using def by (cases t) (auto simp: b_def split: if_splits)
    define q where "q = b - 192"
    have q: "b = 192 + q" "2 \<le> q" "q < 32" using r by (auto simp: q_def)
    obtain m where m: "byte_val c1 = 128 + m" "m < 64" using cont_split r(3,4) by blast
    have "b mod 32 = q" "byte_val c1 mod 64 = m"
      using q m mod_mult_self3 [of 6 32 q] mod_mult_self3 [of 2 64 m] by simp_all
    then have d: "fst (decode_rune s) = q * 64 + m" using w 2 by (simp add: decode_rune_def s t b_def)
    have "encode_rune (q * 64 + m) = [c, c1]"
      using q m char_of_byte [of c "192 + q"] char_of_byte [of c1 "128 + m"]
      by (simp add: encode_rune_def is_scalar_value_def b_def)
    with d 2 q m show ?thesis by (simp add: s t is_scalar_value_def)
  next
    case 3
    then obtain c1 c2 u where t: "t = c1 # c2 # u" and r: "224 \<le> b" "b < 240"
        "128 \<le> byte_val c1" "byte_val c1 \<le> 191" "128 \<le> byte_val c2" "byte_val c2 \<le> 191"
        "b = 224 \<longrightarrow> 160 \<le> byte_val c1" "b = 237 \<longrightarrow> byte_val c1 \<le> 159"
      using def by (cases t; cases "tl t") (auto simp: b_def continuation_def split: if_splits)
    define q where "q = b - 224"
    have q: "b = 224 + q" "q < 16" using r by (auto simp: q_def)
    obtain m where m: "byte_val c1 = 128 + m" "m < 64" using cont_split r(3,4) by blast
    obtain k where k: "byte_val c2 = 128 + k" "k < 64" using cont_split r(5,6) by blast
    define v where "v = (q * 64 + m) * 64 + k"
    have v64: "v div 64 = q * 64 + m" using k by (simp add: v_def)
    have dm: "v div 64 = q * 64 + m" "v mod 64 = k" "v div 4096 = q"
      using v64 m k div_mult2_eq [of v 64 64] mod_mult_self3 [of "q * 64 + m" 64 k]
      by (simp_all only: v_def) simp_all
    have lo: "2048 \<le> v" using q m k r by (cases "q = 0") (auto simp: v_def)
    have hi: "v < 65536" using q m k by (simp add: v_def)
    have sc: "is_scalar_value v"
    proof -
      consider "q < 13" | "q = 13" | "13 < q" by linarith
      then show ?thesis using q m k r hi by cases (auto simp: is_scalar_value_def v_def)
    qed
    have "b mod 16 = q" "byte_val c1 mod 64 = m" "byte_val c2 mod 64 = k"
      using q m k mod_mult_self3 [of 14 16 q] mod_mult_self3 [of 2 64 m] mod_mult_self3 [of 2 64 k]
      by simp_all
    then have d: "fst (decode_rune s) = v"
      using w 3 by (simp add: decode_rune_def s t b_def v_def numeral_2_eq_2)
    have "encode_rune v = [c, c1, c2]"
      using q m k lo hi sc dm char_of_byte [of c "224 + q"] char_of_byte [of c1 "128 + m"]
        char_of_byte [of c2 "128 + k"]
      by (simp add: encode_rune_def b_def)
    with d 3 sc show ?thesis by (simp add: s t)
  next
    case 4
    then obtain c1 c2 c3 u where t: "t = c1 # c2 # c3 # u" and r: "240 \<le> b" "b < 245"
        "128 \<le> byte_val c1" "byte_val c1 \<le> 191" "128 \<le> byte_val c2" "byte_val c2 \<le> 191"
        "128 \<le> byte_val c3" "byte_val c3 \<le> 191"
        "b = 240 \<longrightarrow> 144 \<le> byte_val c1" "b = 244 \<longrightarrow> byte_val c1 \<le> 143"
      using def
      by (cases t; cases "tl t"; cases "tl (tl t)")
        (auto simp: b_def continuation_def numeral_2_eq_2 split: if_splits)
    define q where "q = b - 240"
    have q: "b = 240 + q" "q < 5" using r by (auto simp: q_def)
    obtain m where m: "byte_val c1 = 128 + m" "m < 64" using cont_split r(3,4) by blast
    obtain k where k: "byte_val c2 = 128 + k" "k < 64" using cont_split r(5,6) by blast
    obtain l where l: "byte_val c3 = 128 + l" "l < 64" using cont_split r(7,8) by blast
    define v where "v = ((q * 64 + m) * 64 + k) * 64 + l"
    have v64: "v div 64 = (q * 64 + m) * 64 + k" "v mod 64 = l"
      using l mod_mult_self3 [of "(q * 64 + m) * 64 + k" 64 l] by (simp_all only: v_def) simp_all
    have v4096: "v div 4096 = q * 64 + m" using v64 k div_mult2_eq [of v 64 64] by simp
    have vq: "v div 262144 = q" using v4096 m div_mult2_eq [of v 4096 64] by simp
    have dm: "v div 64 mod 64 = k" "v div 4096 mod 64 = m"
      using k m mod_mult_self3 [of "q * 64 + m" 64 k] mod_mult_self3 [of q 64 m]
      by (simp_all only: v64 v4096) simp_all
    have lo: "65536 \<le> v" using q m k l r by (cases "q = 0") (auto simp: v_def)
    have sc: "is_scalar_value v"
      using q m k l r lo by (cases "q = 4") (auto simp: is_scalar_value_def v_def)
    have "b mod 8 = q" "byte_val c1 mod 64 = m" "byte_val c2 mod 64 = k" "byte_val c3 mod 64 = l"
      using q m k l mod_mult_self3 [of 30 8 q] mod_mult_self3 [of 2 64 m] mod_mult_self3 [of 2 64 k]
        mod_mult_self3 [of 2 64 l]
      by simp_all
    then have d: "fst (decode_rune s) = v"
      using w 4 by (simp add: decode_rune_def s t b_def v_def numeral_2_eq_2 numeral_3_eq_3)
    have "encode_rune v = [c, c1, c2, c3]"
      using q m k l lo sc dm vq v64(2) char_of_byte [of c "240 + q"] char_of_byte [of c1 "128 + m"]
        char_of_byte [of c2 "128 + k"] char_of_byte [of c3 "128 + l"]
      by (simp add: encode_rune_def b_def)
    with d 4 sc show ?thesis by (simp add: s t)
  qed
qed

section \<open>Hexadecimal numbers\<close>

definition hex_digit_value :: "char \<Rightarrow> nat option" where
  "hex_digit_value c =
     (if byte_between (CHR ''0'') c (CHR ''9'') then Some (byte_val c - 48)
      else if byte_between (CHR ''a'') c (CHR ''f'') then Some (byte_val c - 87)
      else if byte_between (CHR ''A'') c (CHR ''F'') then Some (byte_val c - 55)
      else None)"

fun parse_hex_loop :: "nat \<Rightarrow> nat \<Rightarrow> string \<Rightarrow> nat option" where
  "parse_hex_loop maxv n [] = Some n"
| "parse_hex_loop maxv n (c # cs) =
     (case hex_digit_value c of
        None \<Rightarrow> None
      | Some d \<Rightarrow> if 16 * n + d > maxv then None else parse_hex_loop maxv (16 * n + d) cs)"

definition parse_hex_uint :: "nat \<Rightarrow> string \<Rightarrow> nat option" where
  "parse_hex_uint bits s = (if s = [] then None else parse_hex_loop (2 ^ bits - 1) 0 s)"

lemma parse_hex_loop_bound:
  "parse_hex_loop maxv n s = Some r \<Longrightarrow> n \<le> maxv \<Longrightarrow> r \<le> maxv"
  by (induction s arbitrary: n) (auto split: option.splits if_splits)

lemma parse_hex_uint_bound: "parse_hex_uint bits s = Some r \<Longrightarrow> r < 2 ^ bits"
  using parse_hex_loop_bound [of "2 ^ bits - 1" 0 s r] Suc_pred [of "2 ^ bits"]
  by (auto simp: parse_hex_uint_def less_Suc_eq_le [symmetric] simp del: Suc_pred split: if_splits)

end
