(* ===== verification/Literals.thy ===== *)
theory Literals
  imports Utf8
begin

text \<open>
  The lexer's diagnostics (\<open>compiler/diagnostics/lexer.go\<close>) and the decoding of quoted
  literal bodies, \<open>DecodeLiteralBody\<close> of \<open>compiler/lexer/lexer.go\<close>, with its escape
  grammar, its cardinality checks and its UTF-8 validation. The lemmas show that the loop
  consumes its input, that an accepted Byte payload is one byte, an accepted Rune payload one
  Unicode scalar value, an accepted String payload valid UTF-8, and what each escape denotes.
\<close>

section \<open>Messages\<close>

datatype lex_message =
    UnterminatedMultilineComment
  | UnterminatedByteLiteral
  | UnterminatedRuneLiteral
  | IdentifierMustBeginWithLetter
  | MalformedFloatingLiteral
  | UnterminatedCHeaderLiteral
  | InvalidCHeaderLiteral
  | UnterminatedModulePathLiteral
  | InvalidModulePathLiteral
  | UnexpectedCharacter char
  | NestingLimit
  | RawNewlineInString
  | UnterminatedStringLiteral
  | UnterminatedStringInterpolation
  | UnterminatedRawStringLiteral
  | UppercaseIntegerBasePrefix
  | MalformedDecimalIntegerLiteral
  | DecimalIntegerLeadingZero
  | MalformedDecimalFloatingLiteral
  | MalformedBinaryIntegerLiteral
  | MalformedOctalIntegerLiteral
  | MalformedHexadecimalLiteral
  | ByteLiteralPrintableCardinality
  | IncompleteEscapeSequence
  | UnsupportedByteQuoteEscape
  | UnsupportedEscape char
  | UnsupportedHexEscape
  | ByteHexEscapeNeedsTwoDigits
  | UnicodeEscapeIsNotByteEscape
  | UnicodeEscapeRequiresBracedHex
  | InvalidUnicodeScalarEscape
  | ByteLiteralCardinality
  | RuneLiteralCardinality
  | InvalidUTF8StringLiteral

text \<open>The registered identity of each message, its only part that other stages may rely on;
  the sentence is presentation.\<close>

fun message_id :: "lex_message \<Rightarrow> string" where
  "message_id UnterminatedMultilineComment = ''syntax.unterminated-multiline-comment''"
| "message_id UnterminatedByteLiteral = ''syntax.unterminated-byte-literal''"
| "message_id UnterminatedRuneLiteral = ''syntax.unterminated-rune-literal''"
| "message_id IdentifierMustBeginWithLetter = ''syntax.identifier-must-begin-with-letter''"
| "message_id MalformedFloatingLiteral = ''syntax.malformed-floating-literal''"
| "message_id UnterminatedCHeaderLiteral = ''syntax.unterminated-c-header-literal''"
| "message_id InvalidCHeaderLiteral = ''syntax.invalid-c-header-literal''"
| "message_id UnterminatedModulePathLiteral = ''syntax.unterminated-module-path-literal''"
| "message_id InvalidModulePathLiteral = ''syntax.invalid-module-path-literal''"
| "message_id (UnexpectedCharacter c) = ''syntax.unexpected-character''"
| "message_id NestingLimit = ''syntax.lexer-nesting-limit''"
| "message_id RawNewlineInString = ''syntax.raw-newline-in-string''"
| "message_id UnterminatedStringLiteral = ''syntax.unterminated-string-literal''"
| "message_id UnterminatedStringInterpolation = ''syntax.unterminated-string-interpolation''"
| "message_id UnterminatedRawStringLiteral = ''syntax.unterminated-raw-string-literal''"
| "message_id UppercaseIntegerBasePrefix = ''syntax.integer-base-prefix-lowercase''"
| "message_id MalformedDecimalIntegerLiteral = ''syntax.malformed-decimal-integer-literal''"
| "message_id DecimalIntegerLeadingZero = ''syntax.decimal-integer-leading-zero''"
| "message_id MalformedDecimalFloatingLiteral = ''syntax.malformed-decimal-floating-literal''"
| "message_id MalformedBinaryIntegerLiteral = ''syntax.malformed-binary-integer-literal''"
| "message_id MalformedOctalIntegerLiteral = ''syntax.malformed-octal-integer-literal''"
| "message_id MalformedHexadecimalLiteral = ''syntax.malformed-hexadecimal-literal''"
| "message_id ByteLiteralPrintableCardinality = ''syntax.byte-literal-printable-cardinality''"
| "message_id IncompleteEscapeSequence = ''syntax.incomplete-escape-sequence''"
| "message_id UnsupportedByteQuoteEscape = ''syntax.unsupported-byte-quote-escape''"
| "message_id (UnsupportedEscape c) = ''syntax.unsupported-escape''"
| "message_id UnsupportedHexEscape = ''syntax.unsupported-hex-escape''"
| "message_id ByteHexEscapeNeedsTwoDigits = ''syntax.byte-hex-escape-needs-two-digits''"
| "message_id UnicodeEscapeIsNotByteEscape = ''syntax.unicode-escape-not-byte-escape''"
| "message_id UnicodeEscapeRequiresBracedHex = ''syntax.unicode-escape-requires-braced-hex''"
| "message_id InvalidUnicodeScalarEscape = ''syntax.invalid-unicode-scalar-escape''"
| "message_id ByteLiteralCardinality = ''syntax.byte-literal-cardinality''"
| "message_id RuneLiteralCardinality = ''syntax.rune-literal-cardinality''"
| "message_id InvalidUTF8StringLiteral = ''syntax.invalid-utf8-string-literal''"

section \<open>DecodeLiteralBody\<close>

datatype literal_escape_set = ByteEscapes | RuneEscapes | StringEscapes

text \<open>\<open>for closeIndex < len(body) && body[closeIndex] != '}'\<close>.\<close>

function find_close_brace :: "string \<Rightarrow> nat \<Rightarrow> nat" where
  "find_close_brace body i =
     (if i < length body \<and> body ! i \<noteq> CHR ''}'' then find_close_brace body (Suc i) else i)"
  by pat_completeness auto
termination by (relation "measure (\<lambda>(b, i). length b - i)") auto

declare find_close_brace.simps [simp del]

text \<open>The \<open>u\<close> case, with \<open>index\<close> at the letter: the payload bytes and the index of the
  closing brace.\<close>

definition decode_unicode_escape ::
  "string \<Rightarrow> literal_escape_set \<Rightarrow> nat \<Rightarrow> lex_message + (string \<times> nat)" where
  "decode_unicode_escape body es index =
     (if es = ByteEscapes then Inl UnicodeEscapeIsNotByteEscape
      else if \<not> at body (index + 1) (CHR ''{'') then Inl UnicodeEscapeRequiresBracedHex
      else let close = find_close_brace body (index + 2) in
        if close \<ge> length body then Inl UnicodeEscapeRequiresBracedHex
        else let digits = substring body (index + 2) close in
          if digits = [] then Inl UnicodeEscapeRequiresBracedHex
          else case parse_hex_uint 32 digits of
            None \<Rightarrow> Inl InvalidUnicodeScalarEscape
          | Some v \<Rightarrow>
              if v > 1114111 \<or> v \<ge> 55296 \<and> v \<le> 57343 then Inl InvalidUnicodeScalarEscape
              else Inr (encode_rune v, close))"

text \<open>The \<open>switch escaped\<close>, with \<open>index\<close> at the escaped byte: the bytes appended to the
  payload and the index of the last byte the escape consumed.\<close>

definition decode_escape ::
  "string \<Rightarrow> literal_escape_set \<Rightarrow> nat \<Rightarrow> lex_message + (string \<times> nat)" where
  "decode_escape body es index =
     (let escaped = body ! index in
      if escaped = BACKSLASH \<or> escaped = SQUOTE then Inr ([escaped], index)
      else if escaped = DQUOTE then
        (if es = ByteEscapes then Inl UnsupportedByteQuoteEscape else Inr ([DQUOTE], index))
      else if escaped = CHR ''{'' \<or> escaped = CHR ''}'' then
        (if es \<noteq> StringEscapes then Inl (UnsupportedEscape escaped) else Inr ([escaped], index))
      else if escaped = CHR ''n'' then Inr ([LF], index)
      else if escaped = CHR ''r'' then Inr ([CR], index)
      else if escaped = CHR ''t'' then Inr ([TAB], index)
      else if escaped = CHR ''0'' then Inr ([CHR 0x00], index)
      else if escaped = CHR ''x'' then
        (if es \<noteq> ByteEscapes then Inl UnsupportedHexEscape
         else if index + 3 > length body then Inl ByteHexEscapeNeedsTwoDigits
         else case parse_hex_uint 8 (substring body (index + 1) (index + 3)) of
            None \<Rightarrow> Inl ByteHexEscapeNeedsTwoDigits
          | Some v \<Rightarrow> Inr ([char_of v], index + 2))
      else if escaped = CHR ''u'' then decode_unicode_escape body es index
      else Inl (UnsupportedEscape escaped))"

lemma find_close_brace_ge: "i \<le> find_close_brace body i"
proof (induction body i rule: find_close_brace.induct)
  case (1 body i)
  then show ?case by (subst find_close_brace.simps) force
qed

lemma decode_escape_advances: "decode_escape body es index = Inr (bytes, j) \<Longrightarrow> index \<le> j"
  using find_close_brace_ge [of "index + 2" body]
  by (auto simp: decode_escape_def decode_unicode_escape_def Let_def split: if_splits option.splits)

text \<open>The loop over the body.\<close>

function decode_loop ::
  "string \<Rightarrow> literal_escape_set \<Rightarrow> nat \<Rightarrow> string \<Rightarrow> lex_message + string" where
  "decode_loop body es index payload =
     (if index < length body then
        (let character = body ! index in
         if character \<noteq> BACKSLASH then
           (if es = ByteEscapes \<and> (byte_val character \<ge> 128 \<or> byte_val character < 32)
            then Inl ByteLiteralPrintableCardinality
            else decode_loop body es (index + 1) (payload @ [character]))
         else if index + 1 \<ge> length body then Inl IncompleteEscapeSequence
         else case decode_escape body es (index + 1) of
             Inl m \<Rightarrow> Inl m
           | Inr (bytes, j) \<Rightarrow> decode_loop body es (j + 1) (payload @ bytes))
      else Inr payload)"
  by pat_completeness auto
termination
  by (relation "measure (\<lambda>(body, es, index, payload). length body - index)")
    (auto dest!: decode_escape_advances)

declare decode_loop.simps [simp del]

definition decode_literal_body :: "string \<Rightarrow> literal_escape_set \<Rightarrow> lex_message + string" where
  "decode_literal_body body es =
     (case decode_loop body es 0 [] of
        Inl m \<Rightarrow> Inl m
      | Inr payload \<Rightarrow>
          if es = ByteEscapes \<and> length payload \<noteq> 1 then Inl ByteLiteralCardinality
          else if es = RuneEscapes \<and> \<not> utf8_valid payload then Inl RuneLiteralCardinality
          else if es = RuneEscapes \<and>
              (let (decoded, width) = decode_rune payload in decoded = rune_error \<and> width \<le> 1)
            then Inl RuneLiteralCardinality
          else if es = RuneEscapes \<and> length payload \<noteq> snd (decode_rune payload)
            then Inl RuneLiteralCardinality
          else if es = StringEscapes \<and> \<not> utf8_valid payload then Inl InvalidUTF8StringLiteral
          else Inr payload)"

section \<open>The escape grammar\<close>

text \<open>An accepted body is a sequence of items: a plain byte, a one-letter escape, a byte escape
  with two hexadecimal digits, or a braced Unicode escape.\<close>

datatype lit_item =
    ItemPlain char
  | ItemSimple char
  | ItemHex char char
  | ItemUnicode string

fun item_text :: "lit_item \<Rightarrow> string" where
  "item_text (ItemPlain c) = [c]"
| "item_text (ItemSimple c) = [BACKSLASH, c]"
| "item_text (ItemHex a b) = [BACKSLASH, CHR ''x'', a, b]"
| "item_text (ItemUnicode ds) = [BACKSLASH, CHR ''u'', CHR ''{''] @ ds @ [CHR ''}'']"

definition simple_escape_byte :: "char \<Rightarrow> char" where
  "simple_escape_byte c =
     (if c = CHR ''n'' then LF else if c = CHR ''r'' then CR else if c = CHR ''t'' then TAB
      else if c = CHR ''0'' then CHR 0x00 else c)"

fun item_bytes :: "lit_item \<Rightarrow> string" where
  "item_bytes (ItemPlain c) = [c]"
| "item_bytes (ItemSimple c) = [simple_escape_byte c]"
| "item_bytes (ItemHex a b) = [char_of (the (parse_hex_uint 8 [a, b]))]"
| "item_bytes (ItemUnicode ds) = encode_rune (the (parse_hex_uint 32 ds))"

fun item_ok :: "literal_escape_set \<Rightarrow> lit_item \<Rightarrow> bool" where
  "item_ok es (ItemPlain c) \<longleftrightarrow>
     c \<noteq> BACKSLASH \<and> (es = ByteEscapes \<longrightarrow> 32 \<le> byte_val c \<and> byte_val c < 128)"
| "item_ok es (ItemSimple c) \<longleftrightarrow>
     c \<in> {BACKSLASH, SQUOTE, CHR ''n'', CHR ''r'', CHR ''t'', CHR ''0''}
     \<or> c = DQUOTE \<and> es \<noteq> ByteEscapes
     \<or> c \<in> {CHR ''{'', CHR ''}''} \<and> es = StringEscapes"
| "item_ok es (ItemHex a b) \<longleftrightarrow> es = ByteEscapes \<and> parse_hex_uint 8 [a, b] \<noteq> None"
| "item_ok es (ItemUnicode ds) \<longleftrightarrow> es \<noteq> ByteEscapes \<and>
     (\<exists>v. parse_hex_uint 32 ds = Some v \<and> is_scalar_value v)"

definition items_text :: "lit_item list \<Rightarrow> string" where
  "items_text its = concat (map item_text its)"

definition items_bytes :: "lit_item list \<Rightarrow> string" where
  "items_bytes its = concat (map item_bytes its)"

lemma item_text_nonempty [simp]: "item_text it \<noteq> []"
  by (cases it) auto

lemma drop_append_nth:
  "drop i s = xs @ ys \<Longrightarrow> k < length xs \<Longrightarrow> s ! (i + k) = xs ! k"
  by (metis length_append less_imp_le_nat nth_append nth_drop nat_le_linear drop_all append_is_Nil_conv
      length_0_conv not_less_zero)

lemma drop_append_length: "drop i s = xs @ ys \<Longrightarrow> xs \<noteq> [] \<Longrightarrow> i + length xs \<le> length s"
  by (metis append_is_Nil_conv diff_is_0_eq le_add1 le_add_diff_inverse length_append length_drop
      length_0_conv nat_add_left_cancel_le nat_le_linear)

lemma parse_hex_no_brace: "parse_hex_uint n ds = Some v \<Longrightarrow> CHR ''}'' \<notin> set ds"
proof -
  have "parse_hex_loop m k ds = Some v \<Longrightarrow> CHR ''}'' \<notin> set ds" for m k
    by (induction ds arbitrary: k)
      (auto simp: hex_digit_value_def byte_between_def split: option.splits if_splits)
  then show "parse_hex_uint n ds = Some v \<Longrightarrow> CHR ''}'' \<notin> set ds"
    by (auto simp: parse_hex_uint_def split: if_splits)
qed

lemma find_close_brace_drop:
  assumes "drop i s = ds @ CHR ''}'' # r" "CHR ''}'' \<notin> set ds"
  shows "find_close_brace s i = i + length ds"
  using assms
proof (induction ds arbitrary: i)
  case Nil
  then have "i < length s \<and> s ! i = CHR ''}''"
    by (metis append_Nil drop_all linorder_not_le list.distinct(1) nth_via_drop)
  then show ?case by (subst find_close_brace.simps) simp
next
  case (Cons d ds)
  have i: "i < length s" "s ! i = d"
    using Cons.prems(1) by (metis append_Cons drop_all linorder_not_le list.distinct(1), metis append_Cons nth_via_drop)
  have "drop (Suc i) s = ds @ CHR ''}'' # r"
    using Cons.prems(1) by (metis append_Cons drop_Suc list.sel(3) tl_drop)
  with Cons.IH [of "Suc i"] Cons.prems(2) have "find_close_brace s (Suc i) = Suc i + length ds" by simp
  with i Cons.prems(2) show ?case by (subst find_close_brace.simps) auto
qed

lemma substring_drop_append:
  "drop i s = xs @ ys \<Longrightarrow> substring s i (i + length xs) = xs"
  by (simp add: substring_def)

lemma drop_shift: "drop i s = xs @ ys \<Longrightarrow> drop (i + length xs) s = ys"
  by (metis append_eq_conv_conj drop_drop add.commute)

lemma decode_escape_simple:
  assumes "item_ok es (ItemSimple c)" "s ! j = c"
  shows "decode_escape s es j = Inr ([simple_escape_byte c], j)"
  using assms by (auto simp: decode_escape_def simple_escape_byte_def)

lemma decode_escape_hex:
  assumes ok: "item_ok es (ItemHex a b)" and d: "drop j s = [CHR ''x'', a, b] @ r"
  shows "decode_escape s es j = Inr (item_bytes (ItemHex a b), j + 2)"
proof -
  have x: "s ! j = CHR ''x''" using drop_append_nth [OF d, of 0] by simp
  have len: "j + 3 \<le> length s" using drop_append_length [OF d] by simp
  have "drop (j + 1) s = [a, b] @ r" using drop_shift [of j s "[CHR ''x'']" "[a, b] @ r"] d by simp
  then have "substring s (j + 1) (j + 3) = [a, b]"
    using substring_drop_append [of "j + 1" s "[a, b]" r] by (simp add: numeral_3_eq_3)
  with ok x len show ?thesis by (auto simp: decode_escape_def)
qed

lemma decode_escape_unicode:
  assumes ok: "item_ok es (ItemUnicode ds)"
    and d: "drop j s = CHR ''u'' # CHR ''{'' # ds @ CHR ''}'' # r"
  shows "decode_escape s es j = Inr (item_bytes (ItemUnicode ds), j + 2 + length ds)"
proof -
  obtain v where v: "parse_hex_uint 32 ds = Some v" "is_scalar_value v" using ok by auto
  have d': "drop j s = [CHR ''u'', CHR ''{''] @ ds @ CHR ''}'' # r" using d by simp
  have u: "s ! j = CHR ''u''" "s ! (j + 1) = CHR ''{''"
    using drop_append_nth [OF d', of 0] drop_append_nth [OF d', of 1] by simp_all
  have len: "j + 3 + length ds \<le> length s"
    using drop_append_length [of j s "[CHR ''u'', CHR ''{''] @ ds @ [CHR ''}'']" r] d by simp
  have d2: "drop (j + 2) s = ds @ CHR ''}'' # r" using drop_shift [OF d'] by simp
  have close: "find_close_brace s (j + 2) = j + 2 + length ds"
    using find_close_brace_drop [OF d2 parse_hex_no_brace [OF v(1)]] by simp
  have digits: "substring s (j + 2) (j + 2 + length ds) = ds"
    using substring_drop_append [OF d2] by simp
  have "ds \<noteq> []" using v(1) by (auto simp: parse_hex_uint_def)
  then have "decode_unicode_escape s es j = Inr (encode_rune v, j + 2 + length ds)"
    using ok v len u close digits
    by (auto simp: decode_unicode_escape_def at_def is_scalar_value_def Let_def)
  with u v show ?thesis by (simp add: decode_escape_def)
qed

lemma decode_loop_item:
  assumes ok: "item_ok es it" and d: "drop i s = item_text it @ r"
  shows "decode_loop s es i pl = decode_loop s es (i + length (item_text it)) (pl @ item_bytes it)"
proof -
  have len: "i + length (item_text it) \<le> length s" using drop_append_length [OF d] by simp
  have n0: "s ! i = item_text it ! 0" using drop_append_nth [OF d, of 0] by (cases it) auto
  show ?thesis
  proof (cases it)
    case (ItemPlain c)
    with ok len n0 show ?thesis by (subst decode_loop.simps) auto
  next
    case (ItemSimple c)
    then have "s ! Suc i = c" using drop_append_nth [OF d, of 1] by simp
    with ItemSimple ok len n0 decode_escape_simple [of es c s "Suc i"] show ?thesis
      by (subst decode_loop.simps) auto
  next
    case (ItemHex a b)
    then have "drop (Suc i) s = [CHR ''x'', a, b] @ r"
      using drop_shift [of i s "[BACKSLASH]" "[CHR ''x'', a, b] @ r"] d by simp
    with ItemHex ok len n0 decode_escape_hex [of es a b "Suc i" s r] show ?thesis
      by (subst decode_loop.simps) (simp add: eval_nat_numeral)
  next
    case (ItemUnicode ds)
    then have "drop (Suc i) s = CHR ''u'' # CHR ''{'' # ds @ CHR ''}'' # r"
      using drop_shift [of i s "[BACKSLASH]" "CHR ''u'' # CHR ''{'' # ds @ CHR ''}'' # r"] d by simp
    with ItemUnicode ok len n0 decode_escape_unicode [of es ds "Suc i" s r] show ?thesis
      by (subst decode_loop.simps) (simp add: eval_nat_numeral)
  qed
qed

lemma decode_loop_items:
  assumes "list_all (item_ok es) its" "drop i s = items_text its"
  shows "decode_loop s es i pl = Inr (pl @ items_bytes its)"
  using assms
proof (induction its arbitrary: i pl)
  case Nil
  then show ?case by (subst decode_loop.simps) (simp add: items_text_def items_bytes_def)
next
  case (Cons it its)
  have d: "drop i s = item_text it @ items_text its" using Cons.prems(2) by (simp add: items_text_def)
  have "decode_loop s es i pl = decode_loop s es (i + length (item_text it)) (pl @ item_bytes it)"
    using decode_loop_item [OF _ d] Cons.prems(1) by simp
  also have "\<dots> = Inr ((pl @ item_bytes it) @ items_bytes its)"
    using Cons.IH [OF _ drop_shift [OF d]] Cons.prems(1) by simp
  finally show ?case by (simp add: items_bytes_def)
qed

lemma find_close_brace_hit:
  "find_close_brace s i < length s \<Longrightarrow> s ! find_close_brace s i = CHR ''}''"
proof (induction s i rule: find_close_brace.induct)
  case (1 s i)
  show ?case
  proof (cases "i < length s \<and> s ! i \<noteq> CHR ''}''")
    case True
    then have "find_close_brace s i = find_close_brace s (Suc i)" by (subst find_close_brace.simps) simp
    with "1.IH" [OF True] "1.prems" show ?thesis by simp
  next
    case False
    then have "find_close_brace s i = i" by (subst find_close_brace.simps) auto
    with False "1.prems" show ?thesis by auto
  qed
qed

lemma drop_Cons_nth: "i < length s \<Longrightarrow> drop i s = s ! i # drop (Suc i) s"
  by (simp add: Cons_nth_drop_Suc)

lemma drop_substring: "i \<le> j \<Longrightarrow> j \<le> length s \<Longrightarrow> drop i s = substring s i j @ drop j s"
  unfolding substring_def by (metis append_take_drop_id drop_drop le_add_diff_inverse2)

lemma decode_escape_complete:
  assumes "decode_escape s es j = Inr (bs, k)" "j < length s"
  shows "\<exists>it. item_ok es it \<and> bs = item_bytes it \<and> BACKSLASH # drop j s = item_text it @ drop (Suc k) s"
proof -
  consider "s ! j = CHR ''x''" | "s ! j = CHR ''u''" | "s ! j \<noteq> CHR ''x''" "s ! j \<noteq> CHR ''u''" by blast
  then show ?thesis
  proof cases
    case 1
    then obtain v where v: "es = ByteEscapes" "j + 3 \<le> length s" "k = j + 2" "bs = [char_of v]"
        "parse_hex_uint 8 (substring s (j + 1) (j + 3)) = Some v"
      using assms(1) by (auto simp: decode_escape_def not_less split: if_splits option.splits)
    have "substring s (j + 1) (j + 3) = [s ! (j + 1), s ! (j + 2)]"
      using v(2) substring_cons [of "j + 1" "j + 3" s] substring_cons [of "j + 2" "j + 3" s]
      by (simp add: numeral_3_eq_3)
    moreover from this have "drop j s = [CHR ''x'', s ! (j + 1), s ! (j + 2)] @ drop (Suc k) s"
      using 1 v(2,3) drop_Cons_nth [of j s] drop_substring [of "j + 1" "j + 3" s]
      by (simp add: numeral_3_eq_3)
    ultimately show ?thesis using v by (intro exI [of _ "ItemHex (s ! (j + 1)) (s ! (j + 2))"]) simp
  next
    case 2
    define ds where "ds = substring s (j + 2) k"
    from 2 assms(1) have "decode_unicode_escape s es j = Inr (bs, k)" by (simp add: decode_escape_def)
    then obtain v where v: "es \<noteq> ByteEscapes" "at s (j + 1) (CHR ''{'')" "k = find_close_brace s (j + 2)"
        "k < length s" "parse_hex_uint 32 ds = Some v" "is_scalar_value v" "bs = encode_rune v"
      by (auto simp: decode_unicode_escape_def Let_def is_scalar_value_def ds_def not_le
          split: if_splits option.splits)
    have k: "j + 2 \<le> k" "s ! k = CHR ''}''"
      using v find_close_brace_ge [of "j + 2" s] find_close_brace_hit [of s "j + 2"] by auto
    have "drop (j + 2) s = ds @ drop k s" using drop_substring k(1) v(4) by (simp add: ds_def)
    then have "drop j s = CHR ''u'' # CHR ''{'' # ds @ CHR ''}'' # drop (Suc k) s"
      using 2 assms(2) v(2,4) k drop_Cons_nth [of j s] drop_Cons_nth [of "j + 1" s] drop_Cons_nth [of k s]
      by (simp add: at_def)
    with v show ?thesis by (intro exI [of _ "ItemUnicode ds"]) simp
  next
    case 3
    then have "item_ok es (ItemSimple (s ! j))" "bs = [simple_escape_byte (s ! j)]" "k = j"
      using assms(1) by (auto simp: decode_escape_def simple_escape_byte_def Let_def split: if_splits)
    then show ?thesis
      using drop_Cons_nth [OF assms(2)] by (intro exI [of _ "ItemSimple (s ! j)"]) simp
  qed
qed

lemma decode_loop_complete:
  assumes "decode_loop s es i pl = Inr p"
  shows "\<exists>its. list_all (item_ok es) its \<and> drop i s = items_text its \<and> p = pl @ items_bytes its"
  using assms
proof (induction s es i pl rule: decode_loop.induct)
  case (1 s es i pl)
  note eq = decode_loop.simps [of s es i pl]
  consider "\<not> i < length s" | "i < length s" "s ! i \<noteq> BACKSLASH" | "i < length s" "s ! i = BACKSLASH"
    by blast
  then show ?case
  proof cases
    case 1
    with "1.prems" eq show ?thesis by (intro exI [of _ "[]"]) (simp add: items_text_def items_bytes_def)
  next
    case 2
    then have step: "decode_loop s es (i + 1) (pl @ [s ! i]) = Inr p" "item_ok es (ItemPlain (s ! i))"
      using "1.prems" eq by (auto simp: Let_def split: if_splits)
    then obtain its where "list_all (item_ok es) its" "drop (i + 1) s = items_text its"
        "p = (pl @ [s ! i]) @ items_bytes its"
      using "1.IH"(1) [OF 2(1) refl] 2 by (auto split: if_splits)
    with step(2) drop_Cons_nth [OF 2(1)] show ?thesis
      by (intro exI [of _ "ItemPlain (s ! i) # its"]) (simp add: items_text_def items_bytes_def)
  next
    case 3
    then obtain bs k where e: "decode_escape s es (i + 1) = Inr (bs, k)" "i + 1 < length s"
        and rec: "decode_loop s es (k + 1) (pl @ bs) = Inr p"
      using "1.prems" eq by (auto split: if_splits sum.splits)
    obtain its where its: "list_all (item_ok es) its" "drop (k + 1) s = items_text its"
        "p = (pl @ bs) @ items_bytes its"
      using "1.IH"(2) [OF 3(1) refl _ _ e(1) refl] 3 e rec by auto
    obtain it where it: "item_ok es it" "bs = item_bytes it"
        "BACKSLASH # drop (i + 1) s = item_text it @ drop (Suc k) s"
      using decode_escape_complete [OF e] by blast
    from it(3) 3 drop_Cons_nth [OF 3(1)] have "drop i s = item_text it @ drop (k + 1) s" by simp
    with its it show ?thesis
      by (intro exI [of _ "it # its"]) (simp add: items_text_def items_bytes_def)
  qed
qed

lemma decode_loop_iff:
  "decode_loop s es 0 [] = Inr p \<longleftrightarrow>
     (\<exists>its. list_all (item_ok es) its \<and> s = items_text its \<and> p = items_bytes its)"
  using decode_loop_complete [of s es 0 "[]" p] decode_loop_items [of es _ 0 s "[]"] by auto

lemma decode_literal_body_grammar:
  "decode_literal_body body es = Inr p \<longleftrightarrow>
     (\<exists>its. list_all (item_ok es) its \<and> body = items_text its \<and> p = items_bytes its) \<and>
     (case es of
        ByteEscapes \<Rightarrow> length p = 1
      | RuneEscapes \<Rightarrow> utf8_valid p \<and> p \<noteq> [] \<and> length p = snd (decode_rune p)
      | StringEscapes \<Rightarrow> utf8_valid p)"
proof -
  have rune: "(let (decoded, width) = decode_rune p in decoded = rune_error \<and> width \<le> 1) \<longleftrightarrow> p = []"
    if "utf8_valid p"
  proof (cases "p = []")
    case False
    with that obtain n where n: "sequence_width p = Some n"
      by (subst (asm) utf8_valid.simps) (auto split: option.splits)
    have "byte_val (p ! 0) < 128" if "n = 1"
      using n that False by (cases p) (auto simp: sequence_width.simps lead_info_def split: if_splits)
    with n False sequence_width_bounds [OF n] show ?thesis
      by (auto simp: decode_rune_def rune_error_def Let_def)
  qed (simp add: decode_rune_def)
  have "decode_literal_body body es = Inr p \<longleftrightarrow> decode_loop body es 0 [] = Inr p \<and>
     (case es of
        ByteEscapes \<Rightarrow> length p = 1
      | RuneEscapes \<Rightarrow> utf8_valid p \<and> p \<noteq> [] \<and> length p = snd (decode_rune p)
      | StringEscapes \<Rightarrow> utf8_valid p)"
    using rune
    by (cases es) (auto simp: decode_literal_body_def split: sum.splits if_splits)
  then show ?thesis by (simp add: decode_loop_iff)
qed

section \<open>Properties\<close>

text \<open>
  C13. A literal body decodes exactly when it is a sequence of grammar items of its literal
  form and its payload passes that form's check, and the payload is the concatenation of the
  bytes the items denote: plain bytes for themselves, escapes for their control or quoted
  byte, hexadecimal pairs for a byte, braced hexadecimal numbers for the UTF-8 encoding of a
  Unicode scalar value.
\<close>

theorem decode_literal_body_iff:
  "decode_literal_body body es = Inr p \<longleftrightarrow>
     (\<exists>its. list_all (item_ok es) its \<and> body = items_text its \<and> p = items_bytes its) \<and>
     (case es of
        ByteEscapes \<Rightarrow> length p = 1
      | RuneEscapes \<Rightarrow> utf8_valid p \<and> p \<noteq> [] \<and> length p = snd (decode_rune p)
      | StringEscapes \<Rightarrow> utf8_valid p)"
  by (rule decode_literal_body_grammar)

text \<open>
  The payload of an accepted Rune literal is the UTF-8 encoding of exactly one Unicode
  scalar value: surrogates, values above U+10FFFF, several characters and none are rejected.
\<close>

theorem rune_literal_is_one_scalar:
  assumes "decode_literal_body body RuneEscapes = Inr p"
  shows "\<exists>!v. is_scalar_value v \<and> p = encode_rune v"
proof -
  have p: "utf8_valid p" "p \<noteq> []" "length p = snd (decode_rune p)"
    using assms by (auto simp: decode_literal_body_grammar)
  then obtain n where n: "sequence_width p = Some n"
    by (subst (asm) utf8_valid.simps) (auto split: option.splits)
  have "n \<in> {1, 2, 3, 4}" using sequence_width_bounds [OF n] by auto
  then have "snd (decode_rune p) = n" using n p(2) by (auto simp: decode_rune_def Let_def)
  then have "is_scalar_value (fst (decode_rune p))" "p = encode_rune (fst (decode_rune p))"
    using encode_decode_rune [OF n] p(3) by simp_all
  moreover have "v = w" if "is_scalar_value v" "is_scalar_value w" "encode_rune v = encode_rune w" for v w
    using decode_encode_rune [of v "[]"] decode_encode_rune [of w "[]"] that by simp
  ultimately show ?thesis by metis
qed

theorem rune_literal_is_one_scalar_witness:
  "\<exists>!v. is_scalar_value v \<and> [char_of (226::nat), char_of (130::nat), char_of (172::nat)] = encode_rune v"
proof -
  let ?its = "[ItemUnicode ''20AC'']" and ?p = "[char_of (226::nat), char_of (130::nat), char_of (172::nat)]"
  have ok: "list_all (item_ok RuneEscapes) ?its" and bytes: "?p = items_bytes ?its"
    by (simp_all add: items_bytes_def parse_hex_uint_def hex_digit_value_def byte_between_def
        encode_rune_def is_scalar_value_def)
  have "sequence_width ?p = Some 3"
    by (simp add: sequence_width.simps lead_info_def continuation_def)
  then have "utf8_valid ?p \<and> ?p \<noteq> [] \<and> length ?p = snd (decode_rune ?p)"
    by (simp add: utf8_valid.simps decode_rune_def)
  with ok bytes have "decode_literal_body (items_text ?its) RuneEscapes = Inr ?p"
    unfolding decode_literal_body_grammar literal_escape_set.case by blast
  then show ?thesis by (rule rune_literal_is_one_scalar)
qed

end
