(* ===== verification/Tokens.thy ===== *)
theory Tokens
  imports SpanTable Literals
begin

text \<open>
  Tokens of \<open>compiler/lexer/lexer.go\<close>: the kinds, the keyword table, the names used in
  diagnostics, the token record and the diagnostics the lexer emits. Constructors are the
  source's names prefixed with \<open>T_\<close>, because several of them are HOL constants.
\<close>

section \<open>Kinds\<close>

text \<open>\<open>type TokenKind uint8\<close> with its \<open>iota\<close> constants: a kind is its number.\<close>

datatype token_kind = TokenKind nat

abbreviation T_Identifier :: token_kind where "T_Identifier \<equiv> TokenKind 0"
abbreviation T_Colon :: token_kind where "T_Colon \<equiv> TokenKind 1"
abbreviation T_Equal :: token_kind where "T_Equal \<equiv> TokenKind 2"
abbreviation T_Less :: token_kind where "T_Less \<equiv> TokenKind 3"
abbreviation T_Greater :: token_kind where "T_Greater \<equiv> TokenKind 4"
abbreviation T_Minus :: token_kind where "T_Minus \<equiv> TokenKind 5"
abbreviation T_Integer :: token_kind where "T_Integer \<equiv> TokenKind 6"
abbreviation T_HexInteger :: token_kind where "T_HexInteger \<equiv> TokenKind 7"
abbreviation T_BinaryInteger :: token_kind where "T_BinaryInteger \<equiv> TokenKind 8"
abbreviation T_OctalInteger :: token_kind where "T_OctalInteger \<equiv> TokenKind 9"
abbreviation T_DecimalFloat :: token_kind where "T_DecimalFloat \<equiv> TokenKind 10"
abbreviation T_True :: token_kind where "T_True \<equiv> TokenKind 11"
abbreviation T_False :: token_kind where "T_False \<equiv> TokenKind 12"
abbreviation T_NilLiteral :: token_kind where "T_NilLiteral \<equiv> TokenKind 13"
abbreviation T_Eos :: token_kind where "T_Eos \<equiv> TokenKind 14"
abbreviation T_Mut :: token_kind where "T_Mut \<equiv> TokenKind 15"
abbreviation T_Type :: token_kind where "T_Type \<equiv> TokenKind 16"
abbreviation T_Dot :: token_kind where "T_Dot \<equiv> TokenKind 17"
abbreviation T_LeftBrace :: token_kind where "T_LeftBrace \<equiv> TokenKind 18"
abbreviation T_RightBrace :: token_kind where "T_RightBrace \<equiv> TokenKind 19"
abbreviation T_Comma :: token_kind where "T_Comma \<equiv> TokenKind 20"
abbreviation T_Bang :: token_kind where "T_Bang \<equiv> TokenKind 21"
abbreviation T_BangEqual :: token_kind where "T_BangEqual \<equiv> TokenKind 22"
abbreviation T_EqualEqual :: token_kind where "T_EqualEqual \<equiv> TokenKind 23"
abbreviation T_LessEqual :: token_kind where "T_LessEqual \<equiv> TokenKind 24"
abbreviation T_GreaterEqual :: token_kind where "T_GreaterEqual \<equiv> TokenKind 25"
abbreviation T_Plus :: token_kind where "T_Plus \<equiv> TokenKind 26"
abbreviation T_Star :: token_kind where "T_Star \<equiv> TokenKind 27"
abbreviation T_Slash :: token_kind where "T_Slash \<equiv> TokenKind 28"
abbreviation T_Percent :: token_kind where "T_Percent \<equiv> TokenKind 29"
abbreviation T_LeftParen :: token_kind where "T_LeftParen \<equiv> TokenKind 30"
abbreviation T_RightParen :: token_kind where "T_RightParen \<equiv> TokenKind 31"
abbreviation T_LeftBracket :: token_kind where "T_LeftBracket \<equiv> TokenKind 32"
abbreviation T_RightBracket :: token_kind where "T_RightBracket \<equiv> TokenKind 33"
abbreviation T_Amp :: token_kind where "T_Amp \<equiv> TokenKind 34"
abbreviation T_At :: token_kind where "T_At \<equiv> TokenKind 35"
abbreviation T_Caret :: token_kind where "T_Caret \<equiv> TokenKind 36"
abbreviation T_Tilde :: token_kind where "T_Tilde \<equiv> TokenKind 37"
abbreviation T_ShiftLeft :: token_kind where "T_ShiftLeft \<equiv> TokenKind 38"
abbreviation T_ShiftRight :: token_kind where "T_ShiftRight \<equiv> TokenKind 39"
abbreviation T_And :: token_kind where "T_And \<equiv> TokenKind 40"
abbreviation T_Or :: token_kind where "T_Or \<equiv> TokenKind 41"
abbreviation T_Pipe :: token_kind where "T_Pipe \<equiv> TokenKind 42"
abbreviation T_Is :: token_kind where "T_Is \<equiv> TokenKind 43"
abbreviation T_StringLiteral :: token_kind where "T_StringLiteral \<equiv> TokenKind 44"
abbreviation T_RawStringLiteral :: token_kind where "T_RawStringLiteral \<equiv> TokenKind 45"
abbreviation T_InterpStringStart :: token_kind where "T_InterpStringStart \<equiv> TokenKind 46"
abbreviation T_InterpText :: token_kind where "T_InterpText \<equiv> TokenKind 47"
abbreviation T_InterpOpen :: token_kind where "T_InterpOpen \<equiv> TokenKind 48"
abbreviation T_InterpClose :: token_kind where "T_InterpClose \<equiv> TokenKind 49"
abbreviation T_InterpStringEnd :: token_kind where "T_InterpStringEnd \<equiv> TokenKind 50"
abbreviation T_Fun :: token_kind where "T_Fun \<equiv> TokenKind 51"
abbreviation T_Struct :: token_kind where "T_Struct \<equiv> TokenKind 52"
abbreviation T_Union :: token_kind where "T_Union \<equiv> TokenKind 53"
abbreviation T_Method :: token_kind where "T_Method \<equiv> TokenKind 54"
abbreviation T_End :: token_kind where "T_End \<equiv> TokenKind 55"
abbreviation T_Return :: token_kind where "T_Return \<equiv> TokenKind 56"
abbreviation T_If :: token_kind where "T_If \<equiv> TokenKind 57"
abbreviation T_ElseIf :: token_kind where "T_ElseIf \<equiv> TokenKind 58"
abbreviation T_Else :: token_kind where "T_Else \<equiv> TokenKind 59"
abbreviation T_While :: token_kind where "T_While \<equiv> TokenKind 60"
abbreviation T_Break :: token_kind where "T_Break \<equiv> TokenKind 61"
abbreviation T_Continue :: token_kind where "T_Continue \<equiv> TokenKind 62"
abbreviation T_Defer :: token_kind where "T_Defer \<equiv> TokenKind 63"
abbreviation T_Try :: token_kind where "T_Try \<equiv> TokenKind 64"
abbreviation T_Errdefer :: token_kind where "T_Errdefer \<equiv> TokenKind 65"
abbreviation T_Spawn :: token_kind where "T_Spawn \<equiv> TokenKind 66"
abbreviation T_As :: token_kind where "T_As \<equiv> TokenKind 67"
abbreviation T_Match :: token_kind where "T_Match \<equiv> TokenKind 68"
abbreviation T_Then :: token_kind where "T_Then \<equiv> TokenKind 69"
abbreviation T_Self :: token_kind where "T_Self \<equiv> TokenKind 70"
abbreviation T_For :: token_kind where "T_For \<equiv> TokenKind 71"
abbreviation T_In :: token_kind where "T_In \<equiv> TokenKind 72"
abbreviation T_Do :: token_kind where "T_Do \<equiv> TokenKind 73"
abbreviation T_Let :: token_kind where "T_Let \<equiv> TokenKind 74"
abbreviation T_ByteLiteral :: token_kind where "T_ByteLiteral \<equiv> TokenKind 75"
abbreviation T_RuneLiteral :: token_kind where "T_RuneLiteral \<equiv> TokenKind 76"
abbreviation T_Import :: token_kind where "T_Import \<equiv> TokenKind 77"
abbreviation T_Export :: token_kind where "T_Export \<equiv> TokenKind 78"
abbreviation T_Unsafe :: token_kind where "T_Unsafe \<equiv> TokenKind 79"
abbreviation T_ModulePathLiteral :: token_kind where "T_ModulePathLiteral \<equiv> TokenKind 80"
abbreviation T_CHeaderLiteral :: token_kind where "T_CHeaderLiteral \<equiv> TokenKind 81"
abbreviation T_Ellipsis :: token_kind where "T_Ellipsis \<equiv> TokenKind 82"
abbreviation T_EOF :: token_kind where "T_EOF \<equiv> TokenKind 83"

definition keyword_list :: "(string \<times> token_kind) list" where
  "keyword_list =
     [(''true'', T_True),
      (''false'', T_False),
      (''nil'', T_NilLiteral),
      (''eos'', T_Eos),
      (''mut'', T_Mut),
      (''type'', T_Type),
      (''and'', T_And),
      (''or'', T_Or),
      (''is'', T_Is),
      (''fun'', T_Fun),
      (''struct'', T_Struct),
      (''union'', T_Union),
      (''method'', T_Method),
      (''end'', T_End),
      (''return'', T_Return),
      (''if'', T_If),
      (''elseif'', T_ElseIf),
      (''else'', T_Else),
      (''while'', T_While),
      (''break'', T_Break),
      (''continue'', T_Continue),
      (''defer'', T_Defer),
      (''try'', T_Try),
      (''spawn'', T_Spawn),
      (''errdefer'', T_Errdefer),
      (''as'', T_As),
      (''match'', T_Match),
      (''then'', T_Then),
      (''self'', T_Self),
      (''for'', T_For),
      (''in'', T_In),
      (''do'', T_Do),
      (''let'', T_Let),
      (''import'', T_Import),
      (''export'', T_Export),
      (''unsafe'', T_Unsafe)]"

definition keyword_table :: "string \<rightharpoonup> token_kind" where
  "keyword_table = map_of keyword_list"

text \<open>\<open>TokenKind.String\<close>; kinds without a case fall through to the default.\<close>

definition kind_names :: "(token_kind \<times> string) list" where
  "kind_names =
     [(T_Identifier, ''identifier''),
      (T_Colon, '':''),
      (T_Let, ''let''),
      (T_Equal, ''=''),
      (T_Less, ''<''),
      (T_Greater, ''>''),
      (T_Minus, ''-''),
      (T_Integer, ''integer''),
      (T_HexInteger, ''hexadecimal integer''),
      (T_BinaryInteger, ''binary integer''),
      (T_OctalInteger, ''octal integer''),
      (T_DecimalFloat, ''decimal float''),
      (T_True, ''boolean''),
      (T_False, ''boolean''),
      (T_NilLiteral, ''nil''),
      (T_Eos, ''eos''),
      (T_StringLiteral, ''string literal''),
      (T_RawStringLiteral, ''raw string literal''),
      (T_InterpStringStart, [CHR 0x22]),
      (T_InterpStringEnd, [CHR 0x22]),
      (T_InterpText, ''string text''),
      (T_InterpOpen, ''{{''),
      (T_InterpClose, ''}}''),
      (T_ByteLiteral, ''byte literal''),
      (T_RuneLiteral, ''rune literal''),
      (T_Mut, ''mut''),
      (T_Type, ''type''),
      (T_Dot, ''.''),
      (T_Ellipsis, ''...''),
      (T_LeftBrace, ''{''),
      (T_RightBrace, ''}''),
      (T_Comma, '',''),
      (T_Bang, ''!''),
      (T_BangEqual, ''!=''),
      (T_EqualEqual, ''==''),
      (T_LessEqual, ''<=''),
      (T_GreaterEqual, ''>=''),
      (T_Plus, ''+''),
      (T_Star, ''*''),
      (T_Slash, ''/''),
      (T_Percent, ''%''),
      (T_LeftParen, ''(''),
      (T_RightParen, '')''),
      (T_And, ''and''),
      (T_Or, ''or''),
      (T_Pipe, ''|''),
      (T_Amp, ''&''),
      (T_At, ''@''),
      (T_Caret, ''^''),
      (T_Tilde, ''~''),
      (T_ShiftLeft, ''<<''),
      (T_ShiftRight, ''>>''),
      (T_Is, ''is''),
      (T_Fun, ''fun''),
      (T_Struct, ''struct''),
      (T_Union, ''union''),
      (T_Method, ''method''),
      (T_End, ''end''),
      (T_Return, ''return''),
      (T_If, ''if''),
      (T_ElseIf, ''elseif''),
      (T_Else, ''else''),
      (T_While, ''while''),
      (T_Break, ''break''),
      (T_Continue, ''continue''),
      (T_Defer, ''defer''),
      (T_Try, ''try''),
      (T_Spawn, ''spawn''),
      (T_Errdefer, ''errdefer''),
      (T_As, ''as''),
      (T_Match, ''match''),
      (T_Then, ''then''),
      (T_Self, ''self''),
      (T_For, ''for''),
      (T_In, ''in''),
      (T_Do, ''do''),
      (T_Import, ''import''),
      (T_Export, ''export''),
      (T_Unsafe, ''unsafe''),
      (T_ModulePathLiteral, ''module path literal''),
      (T_EOF, ''end of input'')]"

definition kind_string :: "token_kind \<Rightarrow> string" where
  "kind_string kind = (case map_of kind_names kind of Some name \<Rightarrow> name | None \<Rightarrow> ''unknown token'')"

section \<open>Tokens and diagnostics\<close>

record token =
  tk_kind :: token_kind
  tk_lexeme :: string
  tk_span :: span
  tk_line :: nat
  tk_column :: nat

text \<open>The zero value of \<open>Token\<close>: its kind is the first constant, \<open>Identifier\<close>.\<close>

definition zero_token :: token where
  "zero_token = \<lparr>tk_kind = T_Identifier, tk_lexeme = [], tk_span = zero_span, tk_line = 0, tk_column = 0\<rparr>"

text \<open>\<open>Token{Kind: EOF}\<close>, what \<open>scanNumber\<close> returns beside a diagnostic.\<close>

definition eof_token :: token where
  "eof_token = zero_token\<lparr>tk_kind := T_EOF\<rparr>"

definition new_token :: "token_kind \<Rightarrow> string \<Rightarrow> nat \<Rightarrow> nat \<Rightarrow> nat \<Rightarrow> token" where
  "new_token kind lexeme start line column =
     \<lparr>tk_kind = kind, tk_lexeme = lexeme,
      tk_span = \<lparr>sp_file = [], sp_start = int start, sp_end = int (start + length lexeme)\<rparr>,
      tk_line = line, tk_column = column\<rparr>"

lemma new_token_simps [simp]:
  "tk_kind (new_token k x s l c) = k"
  "tk_lexeme (new_token k x s l c) = x"
  "sp_start (tk_span (new_token k x s l c)) = int s"
  "sp_end (tk_span (new_token k x s l c)) = int (s + length x)"
  "tk_line (new_token k x s l c) = l"
  "tk_column (new_token k x s l c) = c"
  by (simp_all add: new_token_def)

lemma zero_token_simps [simp]:
  "tk_kind zero_token = T_Identifier" "tk_lexeme zero_token = []"
  "tk_line zero_token = 0" "tk_column zero_token = 0"
  "tk_kind eof_token = T_EOF"
  by (simp_all add: zero_token_def eof_token_def)

record diagnostic =
  dg_message :: lex_message
  dg_line :: nat
  dg_column :: nat

text \<open>\<open>literalDiagnostic(line, column, message)\<close>.\<close>

definition literal_diagnostic :: "nat \<Rightarrow> nat \<Rightarrow> lex_message \<Rightarrow> diagnostic" where
  "literal_diagnostic line column m = \<lparr>dg_message = m, dg_line = line, dg_column = column\<rparr>"

definition unexpected_character_diagnostic :: "nat \<Rightarrow> nat \<Rightarrow> char \<Rightarrow> diagnostic" where
  "unexpected_character_diagnostic line column c = literal_diagnostic line column (UnexpectedCharacter c)"

section \<open>The keyword table\<close>

lemma keyword_distinct: "distinct (map fst keyword_list)"
  by (simp add: keyword_list_def)

lemma keyword_table_member: "keyword_table s = Some k \<Longrightarrow> (s, k) \<in> set keyword_list"
  by (simp add: keyword_table_def map_of_SomeD)

lemma keyword_kinds: "keyword_table s = Some k \<Longrightarrow> k \<notin> {T_Identifier, T_EOF} \<and> s \<noteq> []"
proof -
  have "list_all (\<lambda>(s, k). k \<notin> {T_Identifier, T_EOF} \<and> s \<noteq> []) keyword_list" by code_simp
  then show "keyword_table s = Some k \<Longrightarrow> k \<notin> {T_Identifier, T_EOF} \<and> s \<noteq> []"
    by (auto simp: list_all_iff dest!: keyword_table_member)
qed

text \<open>
  A keyword's diagnostic name is its own spelling, except the two Boolean literals, which
  share the name boolean, so an expected-token message names what the user has to write.
\<close>

theorem keyword_named_by_spelling:
  assumes "keyword_table s = Some k"
  shows "kind_string k = (if s \<in> {''true'', ''false''} then ''boolean'' else s)"
proof -
  have "list_all (\<lambda>(s, k). kind_string k = (if s \<in> {''true'', ''false''} then ''boolean'' else s)) keyword_list"
    by code_simp
  moreover have "(s, k) \<in> set keyword_list" using assms by (rule keyword_table_member)
  ultimately show ?thesis by (auto simp: list_all_iff)
qed

theorem keyword_named_by_spelling_witness: "kind_string T_ElseIf = ''elseif''"
  using keyword_named_by_spelling [of "''elseif''" T_ElseIf]
  by (simp add: keyword_table_def keyword_list_def)

end
