(* ===== verification/Scanners.thy ===== *)
theory Scanners
  imports Tokens
begin

text \<open>
  The byte-level scanners of \<open>compiler/lexer/lexer.go\<close>: identifier and numeric tails, digit
  runs, the number literal grammar, quoted bodies, raw strings, comments and the recovery skip.
  Each definition is the loop or function of the source over the same index; the lemmas give
  for each scanner how far it moves and that it stays inside the source.
\<close>

section \<open>Character classes\<close>

definition is_identifier_start :: "char \<Rightarrow> bool" where
  "is_identifier_start ch \<longleftrightarrow>
     byte_between (CHR ''a'') ch (CHR ''z'') \<or> byte_between (CHR ''A'') ch (CHR ''Z'')"

definition is_identifier_part :: "char \<Rightarrow> bool" where
  "is_identifier_part ch \<longleftrightarrow>
     is_identifier_start ch \<or> ch = CHR ''_'' \<or> byte_between (CHR ''0'') ch (CHR ''9'')"

definition is_decimal_digit :: "char \<Rightarrow> bool" where
  "is_decimal_digit ch \<longleftrightarrow> byte_between (CHR ''0'') ch (CHR ''9'')"

definition is_binary_digit :: "char \<Rightarrow> bool" where
  "is_binary_digit ch \<longleftrightarrow> ch = CHR ''0'' \<or> ch = CHR ''1''"

definition is_octal_digit :: "char \<Rightarrow> bool" where
  "is_octal_digit ch \<longleftrightarrow> byte_between (CHR ''0'') ch (CHR ''7'')"

definition is_hex_digit :: "char \<Rightarrow> bool" where
  "is_hex_digit ch \<longleftrightarrow>
     is_decimal_digit ch \<or> byte_between (CHR ''a'') ch (CHR ''f'') \<or> byte_between (CHR ''A'') ch (CHR ''F'')"

definition is_identifier_part_at :: "string \<Rightarrow> nat \<Rightarrow> bool" where
  "is_identifier_part_at source index \<longleftrightarrow> index < length source \<and> is_identifier_part (source ! index)"

section \<open>Tails\<close>

text \<open>\<open>for index < len(source) && p(source[index]) { index++ }\<close>, the shape of the tail loops.\<close>

function skip_while :: "(char \<Rightarrow> bool) \<Rightarrow> string \<Rightarrow> nat \<Rightarrow> nat" where
  "skip_while p source index =
     (if index < length source \<and> p (source ! index) then skip_while p source (Suc index) else index)"
  by pat_completeness auto
termination by (relation "measure (\<lambda>(p, s, i). length s - i)") auto

declare skip_while.simps [simp del]

definition consume_numeric_tail :: "string \<Rightarrow> nat \<Rightarrow> nat" where
  "consume_numeric_tail source index =
     skip_while (\<lambda>c. is_identifier_part c \<or> c = CHR ''_'' \<or> c = CHR ''.'') source index"

definition consume_identifier_tail :: "string \<Rightarrow> nat \<Rightarrow> nat" where
  "consume_identifier_tail source index = skip_while is_identifier_part source index"

lemma skip_while_ge [progress]: "index \<le> skip_while p source index"
proof (induction p source index rule: skip_while.induct)
  case (1 p source index)
  then show ?case by (subst skip_while.simps) force
qed

lemma skip_while_le [progress]: "index \<le> length source \<Longrightarrow> skip_while p source index \<le> length source"
proof (induction p source index rule: skip_while.induct)
  case (1 p source index)
  then show ?case by (subst skip_while.simps) force
qed

lemma skip_while_all:
  "index \<le> k \<Longrightarrow> k < skip_while p source index \<Longrightarrow> k < length source \<and> p (source ! k)"
proof (induction p source index rule: skip_while.induct)
  case (1 p source index)
  show ?case
  proof (cases "index < length source \<and> p (source ! index)")
    case True
    then have "skip_while p source index = skip_while p source (Suc index)"
      by (subst skip_while.simps) simp
    with "1.IH" [OF True] "1.prems" True show ?thesis by (cases "k = index") auto
  next
    case False
    then have "skip_while p source index = index" by (subst skip_while.simps) auto
    with "1.prems" show ?thesis by simp
  qed
qed

lemma skip_while_stop:
  "skip_while p source index < length source \<Longrightarrow> \<not> p (source ! skip_while p source index)"
proof (induction p source index rule: skip_while.induct)
  case (1 p source index)
  show ?case
  proof (cases "index < length source \<and> p (source ! index)")
    case True
    then have "skip_while p source index = skip_while p source (Suc index)"
      by (subst skip_while.simps) simp
    with "1.IH" [OF True] "1.prems" show ?thesis by simp
  next
    case False
    then have "skip_while p source index = index" by (subst skip_while.simps) auto
    with False "1.prems" show ?thesis by auto
  qed
qed

lemma consume_numeric_tail_ge [progress]: "index \<le> consume_numeric_tail source index"
  by (simp add: consume_numeric_tail_def progress)

lemma consume_numeric_tail_le [progress]:
  "index \<le> length source \<Longrightarrow> consume_numeric_tail source index \<le> length source"
  by (simp add: consume_numeric_tail_def progress)

lemma consume_identifier_tail_ge [progress]: "index \<le> consume_identifier_tail source index"
  by (simp add: consume_identifier_tail_def progress)

lemma consume_identifier_tail_le [progress]:
  "index \<le> length source \<Longrightarrow> consume_identifier_tail source index \<le> length source"
  by (simp add: consume_identifier_tail_def progress)

section \<open>Digit runs and numbers\<close>

text \<open>The loop of \<open>scanDigitRun\<close>: digits, each underscore between two digits.\<close>

function digit_run_loop :: "(char \<Rightarrow> bool) \<Rightarrow> string \<Rightarrow> nat \<Rightarrow> nat \<times> bool" where
  "digit_run_loop is_digit source index =
     (if index < length source then
        (if is_digit (source ! index) then digit_run_loop is_digit source (index + 1)
         else if source ! index \<noteq> CHR ''_'' then (index, False)
         else if index + 1 \<ge> length source \<or> \<not> is_digit (source ! (index + 1)) then (index + 1, True)
         else digit_run_loop is_digit source (index + 2))
      else (index, False))"
  by pat_completeness auto
termination by (relation "measure (\<lambda>(p, s, i). length s - i)") auto

declare digit_run_loop.simps [simp del]

definition scan_digit_run :: "string \<Rightarrow> nat \<Rightarrow> (char \<Rightarrow> bool) \<Rightarrow> nat \<times> bool" where
  "scan_digit_run source start is_digit =
     (if start \<ge> length source \<or> \<not> is_digit (source ! start) then (start, True)
      else digit_run_loop is_digit source (start + 1))"

text \<open>\<open>scanDecimalWhole\<close>: the end, whether the run is malformed, whether it has a leading zero.\<close>

definition scan_decimal_whole :: "string \<Rightarrow> nat \<Rightarrow> nat \<times> bool \<times> bool" where
  "scan_decimal_whole source start =
     (if source ! start = CHR ''0'' then
        (if at source (start + 1) (CHR ''_'') then
           (consume_numeric_tail source (start + 1), False, True)
         else if start + 1 < length source \<and> is_decimal_digit (source ! (start + 1)) then
           (skip_while (\<lambda>c. is_decimal_digit c \<or> c = CHR ''_'') source (start + 1), False, True)
         else (start + 1, False, False))
      else let (end, malformed) = scan_digit_run source start is_decimal_digit
           in (end, malformed, False))"

type_synonym number_result = "token \<times> nat \<times> diagnostic option"

text \<open>\<open>Token{Kind: EOF}, end, literalDiagnostic(line, column, message)\<close>.\<close>

definition number_error :: "nat \<Rightarrow> nat \<Rightarrow> nat \<Rightarrow> lex_message \<Rightarrow> number_result" where
  "number_error end line column m = (eof_token, end, Some (literal_diagnostic line column m))"

text \<open>The \<open>0x\<close>, \<open>0b\<close> and \<open>0o\<close> branch of \<open>scanNumber\<close>.\<close>

definition scan_prefixed_number :: "string \<Rightarrow> nat \<Rightarrow> nat \<Rightarrow> nat \<Rightarrow> number_result" where
  "scan_prefixed_number source start line column =
     (let prefix = source ! (start + 1);
          (kind, digit, message) =
            (if prefix = CHR ''x'' then (T_HexInteger, is_hex_digit, MalformedHexadecimalLiteral)
             else if prefix = CHR ''b'' then (T_BinaryInteger, is_binary_digit, MalformedBinaryIntegerLiteral)
             else (T_OctalInteger, is_octal_digit, MalformedOctalIntegerLiteral));
          (end, malformed) = scan_digit_run source (start + 2) digit
      in if end = start + 2 \<or> malformed \<or> is_identifier_part_at source end \<or> at source end (CHR ''.'')
         then number_error (consume_numeric_tail source end) line column message
         else (new_token kind (substring source start end) start line column, end, None))"

text \<open>The fraction of a decimal: \<open>Inl\<close> the error's end, \<open>Inr\<close> the end and whether there was one.\<close>

definition scan_fraction :: "string \<Rightarrow> nat \<Rightarrow> nat + (nat \<times> bool)" where
  "scan_fraction source end =
     (if at source end (CHR ''.'') then
        (if end + 1 < length source \<and> is_decimal_digit (source ! (end + 1)) then
           (let (end', malformed) = scan_digit_run source (end + 1) is_decimal_digit
            in if malformed then Inl (consume_numeric_tail source end') else Inr (end', True))
         else Inl (end + 1))
      else Inr (end, False))"

definition scan_exponent :: "string \<Rightarrow> nat \<Rightarrow> nat + (nat \<times> bool)" where
  "scan_exponent source exponent_start =
     (if at source exponent_start (CHR ''e'') \<or> at source exponent_start (CHR ''E'') then
        (let signed = exponent_start + 1;
             digits = (if at source signed (CHR ''+'') \<or> at source signed (CHR ''-'') then signed + 1 else signed);
             (end, malformed) = scan_digit_run source digits is_decimal_digit
         in if exponent_start = end \<or> malformed \<or> end = exponent_start + 1
               \<or> (end > 0 \<and> \<not> is_decimal_digit (source ! (end - 1)))
            then Inl (consume_numeric_tail source end)
            else Inr (end, True))
      else Inr (exponent_start, False))"

definition scan_decimal_number :: "string \<Rightarrow> nat \<Rightarrow> nat \<Rightarrow> nat \<Rightarrow> number_result" where
  "scan_decimal_number source start line column =
     (let (whole, malformed, leading_zero) = scan_decimal_whole source start in
      if malformed then
        number_error (consume_numeric_tail source whole) line column MalformedDecimalIntegerLiteral
      else if leading_zero then
        number_error (consume_numeric_tail source whole) line column DecimalIntegerLeadingZero
      else case scan_fraction source whole of
        Inl e \<Rightarrow> number_error e line column MalformedDecimalFloatingLiteral
      | Inr (fraction_end, fraction) \<Rightarrow>
          (case scan_exponent source fraction_end of
             Inl e \<Rightarrow> number_error e line column MalformedDecimalFloatingLiteral
           | Inr (end, exponent) \<Rightarrow>
               if is_identifier_part_at source end
               then number_error (consume_numeric_tail source end) line column IdentifierMustBeginWithLetter
               else (new_token (if fraction \<or> exponent then T_DecimalFloat else T_Integer)
                       (substring source start end) start line column, end, None)))"

definition scan_number :: "string \<Rightarrow> nat \<Rightarrow> nat \<Rightarrow> nat \<Rightarrow> number_result" where
  "scan_number source start line column =
     (if source ! start = CHR ''0'' \<and> start + 1 < length source \<and>
         source ! (start + 1) \<in> {CHR ''X'', CHR ''B'', CHR ''O''}
      then number_error (consume_numeric_tail source (start + 2)) line column UppercaseIntegerBasePrefix
      else if source ! start = CHR ''0'' \<and> start + 1 < length source \<and>
         source ! (start + 1) \<in> {CHR ''x'', CHR ''b'', CHR ''o''}
      then scan_prefixed_number source start line column
      else scan_decimal_number source start line column)"

lemma digit_run_loop_bounds [progress]:
  assumes "digit_run_loop p source index = (end, malformed)" "index \<le> length source"
  shows "index \<le> end \<and> end \<le> length source"
  using assms
proof (induction p source index rule: digit_run_loop.induct)
  case (1 p source index)
  note eq = digit_run_loop.simps [of p source index]
  show ?case
  proof (cases "index < length source")
    case True
    consider "p (source ! index)" | "\<not> p (source ! index)" "source ! index \<noteq> CHR ''_''"
      | "\<not> p (source ! index)" "source ! index = CHR ''_''"
          "index + 1 \<ge> length source \<or> \<not> p (source ! (index + 1))"
      | "\<not> p (source ! index)" "source ! index = CHR ''_''"
          "\<not> (index + 1 \<ge> length source \<or> \<not> p (source ! (index + 1)))"
      by blast
    then show ?thesis
      using "1.IH" "1.prems" True eq by cases auto
  qed (use eq "1.prems" in simp)
qed

lemma scan_digit_run_bounds [progress]:
  assumes "scan_digit_run source start p = (end, malformed)" "start \<le> length source"
  shows "start \<le> end \<and> end \<le> length source"
  using assms digit_run_loop_bounds [of p source "start + 1" "end" malformed]
  by (auto simp: scan_digit_run_def split: if_splits)

lemma scan_digit_run_ok:
  assumes "scan_digit_run source start p = (end, False)"
  shows "start < end" "start < length source" "p (source ! start)"
  using assms digit_run_loop_bounds [of p source "start + 1" "end" False]
  by (auto simp: scan_digit_run_def split: if_splits)

lemma scan_decimal_whole_bounds:
  assumes w: "scan_decimal_whole source start = (end, malformed, leading)" and l: "start < length source"
  shows "start \<le> end \<and> end \<le> length source \<and> (\<not> malformed \<longrightarrow> start < end)"
proof -
  consider "source ! start = CHR ''0''" "at source (start + 1) (CHR ''_'')"
    | "source ! start = CHR ''0''" "\<not> at source (start + 1) (CHR ''_'')"
        "start + 1 < length source \<and> is_decimal_digit (source ! (start + 1))"
    | "source ! start = CHR ''0''" "\<not> at source (start + 1) (CHR ''_'')"
        "\<not> (start + 1 < length source \<and> is_decimal_digit (source ! (start + 1)))"
    | "source ! start \<noteq> CHR ''0''" by blast
  then show ?thesis
  proof cases
    case 1
    with w l consume_numeric_tail_ge [of "start + 1" source] consume_numeric_tail_le [of "start + 1" source]
    show ?thesis by (simp add: scan_decimal_whole_def)
  next
    case 2
    let ?p = "\<lambda>c. is_decimal_digit c \<or> c = CHR ''_''"
    from 2 w l skip_while_ge [of "start + 1" ?p source] skip_while_le [of "start + 1" source ?p]
    show ?thesis by (simp add: scan_decimal_whole_def)
  next
    case 3
    with w l show ?thesis by (auto simp: scan_decimal_whole_def)
  next
    case 4
    with w have "scan_digit_run source start is_decimal_digit = (end, malformed)"
      by (simp add: scan_decimal_whole_def split: prod.splits)
    with l scan_digit_run_bounds [OF this] scan_digit_run_ok(1) show ?thesis by (cases malformed) auto
  qed
qed

text \<open>The optional parts share one contract: the end they report, error or not, lies between
  where they start and the end of the source.\<close>

definition part_end :: "nat + (nat \<times> bool) \<Rightarrow> nat" where
  "part_end r = (case r of Inl e \<Rightarrow> e | Inr (e, _) \<Rightarrow> e)"

lemma scan_fraction_bounds [progress]:
  assumes l: "start \<le> length source"
  shows "start \<le> part_end (scan_fraction source start) \<and> part_end (scan_fraction source start) \<le> length source"
proof (cases "at source start (CHR ''.'')")
  case True
  obtain e m where run: "scan_digit_run source (start + 1) is_decimal_digit = (e, m)" by fastforce
  from True have "start < length source" by auto
  then have "start + 1 \<le> e \<and> e \<le> length source" using scan_digit_run_bounds [OF run] by simp
  with True run l \<open>start < length source\<close> consume_numeric_tail_ge [of e source]
    consume_numeric_tail_le [of e source]
  show ?thesis by (auto simp: scan_fraction_def part_end_def intro: order_trans [of start e])
qed (simp add: scan_fraction_def part_end_def l)

lemma scan_exponent_bounds [progress]:
  assumes l: "start \<le> length source"
  shows "start \<le> part_end (scan_exponent source start) \<and> part_end (scan_exponent source start) \<le> length source"
proof (cases "at source start (CHR ''e'') \<or> at source start (CHR ''E'')")
  case True
  define d where "d = (if at source (start + 1) (CHR ''+'') \<or> at source (start + 1) (CHR ''-'')
    then start + 1 + 1 else start + 1)"
  obtain e m where run: "scan_digit_run source d is_decimal_digit = (e, m)" by fastforce
  from True have sl: "start < length source" by auto
  then have "start \<le> d" "d \<le> length source" by (auto simp: d_def Suc_le_eq dest: at_less)
  then have e: "start \<le> e" "e \<le> length source" using scan_digit_run_bounds [OF run] by auto
  have "part_end (scan_exponent source start) \<in> {e, consume_numeric_tail source e}"
    using True run
    by (cases "at source (start + 1) (CHR ''+'') \<or> at source (start + 1) (CHR ''-'')")
      (auto simp: scan_exponent_def part_end_def Let_def d_def)
  with e consume_numeric_tail_ge [of e source] consume_numeric_tail_le [of e source]
  show ?thesis by (auto intro: order_trans [of start e])
qed (simp add: scan_exponent_def part_end_def l)

section \<open>What a number scan returns\<close>

text \<open>Either a token that is exactly the bytes it consumed, of a numeric kind, or a diagnostic
  and no token; in both cases at least one byte is consumed.\<close>

definition number_token_ok :: "string \<Rightarrow> nat \<Rightarrow> nat \<Rightarrow> nat \<Rightarrow> number_result \<Rightarrow> bool" where
  "number_token_ok source start line column r \<longleftrightarrow>
     (case r of (t, end, d) \<Rightarrow>
        start < end \<and> end \<le> length source \<and>
        (case d of
           Some _ \<Rightarrow> tk_kind t = T_EOF
         | None \<Rightarrow> (\<exists>k\<in>{T_Integer, T_HexInteger, T_BinaryInteger, T_OctalInteger, T_DecimalFloat}.
              t = new_token k (substring source start end) start line column)))"

lemma number_error_ok [simp]:
  "number_token_ok source start line column (number_error end l c m) \<longleftrightarrow> start < end \<and> end \<le> length source"
  by (simp add: number_token_ok_def number_error_def)

lemma scan_prefixed_number_ok:
  assumes "start + 1 < length source"
  shows "number_token_ok source start line column (scan_prefixed_number source start line column)"
proof -
  obtain k dg m where sel: "(if source ! (start + 1) = CHR ''x'' then (T_HexInteger, is_hex_digit, MalformedHexadecimalLiteral)
      else if source ! (start + 1) = CHR ''b'' then (T_BinaryInteger, is_binary_digit, MalformedBinaryIntegerLiteral)
      else (T_OctalInteger, is_octal_digit, MalformedOctalIntegerLiteral)) = (k, dg, m)"
    by (metis prod.exhaust)
  then have k: "k \<in> {T_HexInteger, T_BinaryInteger, T_OctalInteger}" by (auto split: if_splits)
  obtain e mal where run: "scan_digit_run source (start + 2) dg = (e, mal)" by fastforce
  have e: "start + 2 \<le> e" "e \<le> length source" using scan_digit_run_bounds [OF run] assms by auto
  then have "start < consume_numeric_tail source e" "consume_numeric_tail source e \<le> length source"
    using consume_numeric_tail_ge [of e source] consume_numeric_tail_le [of e source] by auto
  then show ?thesis
    unfolding scan_prefixed_number_def Let_def sel prod.case run
    using k e by (auto simp: number_token_ok_def number_error_def)
qed

text \<open>A decimal scan starts at a digit, so even a malformed run has consumed it.\<close>

lemma scan_decimal_number_ok:
  assumes l: "start < length source" and digit: "is_decimal_digit (source ! start)"
  shows "number_token_ok source start line column (scan_decimal_number source start line column)"
proof -
  obtain w mal lead where whole: "scan_decimal_whole source start = (w, mal, lead)"
    by (metis prod.exhaust)
  have w: "start < w" "w \<le> length source"
    using scan_decimal_whole_bounds [OF whole l] whole l digit digit_run_loop_bounds [of is_decimal_digit source "start + 1" w mal]
    by (auto simp: scan_decimal_whole_def scan_digit_run_def split: if_splits prod.splits)
  have tail: "start < consume_numeric_tail source e \<and> consume_numeric_tail source e \<le> length source"
    if "start < e" "e \<le> length source" for e
    using that consume_numeric_tail_ge [of e source] consume_numeric_tail_le [of e source] by auto
  define fe where "fe = part_end (scan_fraction source w)"
  have fe: "w \<le> fe" "fe \<le> length source" using scan_fraction_bounds [OF w(2)] by (simp_all add: fe_def)
  define ee where "ee = part_end (scan_exponent source fe)"
  have ee: "fe \<le> ee" "ee \<le> length source" using scan_exponent_bounds [OF fe(2)] by (simp_all add: ee_def)
  show ?thesis
  proof (cases "mal \<or> lead")
    case True
    then show ?thesis using tail [OF w] by (auto simp: scan_decimal_number_def whole)
  next
    case nm: False
    show ?thesis
    proof (cases "scan_fraction source w")
      case (Inl e)
      then show ?thesis using nm w fe by (simp add: scan_decimal_number_def whole fe_def part_end_def)
    next
      case (Inr p)
      then obtain fr where fr: "scan_fraction source w = Inr (fe, fr)"
        by (cases p) (simp add: fe_def part_end_def)
      show ?thesis
      proof (cases "scan_exponent source fe")
        case (Inl e)
        then show ?thesis
          using nm fr w fe ee by (simp add: scan_decimal_number_def whole ee_def part_end_def)
      next
        case (Inr p)
        then obtain ex where ex: "scan_exponent source fe = Inr (ee, ex)"
          by (cases p) (simp add: ee_def part_end_def)
        show ?thesis
          using nm fr ex w fe ee tail [of ee]
          by (simp add: scan_decimal_number_def whole number_token_ok_def number_error_def)
      qed
    qed
  qed
qed

lemma scan_number_ok:
  assumes "start < length source" "is_decimal_digit (source ! start)"
  shows "number_token_ok source start line column (scan_number source start line column)"
  using assms scan_prefixed_number_ok [of start source line column]
    scan_decimal_number_ok [of start source line column]
    consume_numeric_tail_ge [of "start + 2" source] consume_numeric_tail_le [of "start + 2" source]
  by (auto simp: scan_number_def)

section \<open>Quoted bodies\<close>

text \<open>The loop of \<open>scanQuotedBody\<close>: the index past the body and whether the quote closed.\<close>

function scan_quoted_body :: "string \<Rightarrow> nat \<Rightarrow> nat \<times> bool" where
  "scan_quoted_body source index =
     (if index < length source then
        (let character = source ! index in
         if character = BACKSLASH then
           (if index + 1 \<ge> length source then (index + 1, False)
            else scan_quoted_body source (index + 2))
         else if character = SQUOTE then (index + 1, True)
         else if character = LF \<or> character = CR then (index + 1, False)
         else scan_quoted_body source (index + 1))
      else (index, False))"
  by pat_completeness auto
termination by (relation "measure (\<lambda>(s, i). length s - i)") auto

declare scan_quoted_body.simps [simp del]

lemma scan_quoted_body_bounds [progress]:
  assumes "scan_quoted_body source index = (end, closed)" "index \<le> length source"
  shows "index \<le> end \<and> end \<le> length source \<and> (closed \<longrightarrow> index < end \<and> source ! (end - 1) = SQUOTE)"
  using assms
proof (induction source index rule: scan_quoted_body.induct)
  case (1 source index)
  note eq = scan_quoted_body.simps [of source index]
  consider "\<not> index < length source"
    | "index < length source" "source ! index = BACKSLASH" "index + 1 \<ge> length source"
    | "index < length source" "source ! index = BACKSLASH" "\<not> index + 1 \<ge> length source"
    | "index < length source" "source ! index \<noteq> BACKSLASH" "source ! index \<in> {SQUOTE, LF, CR}"
    | "index < length source" "source ! index \<noteq> BACKSLASH" "source ! index \<notin> {SQUOTE, LF, CR}"
    by blast
  then show ?case
  proof cases
    case 3
    with eq "1.prems" have "scan_quoted_body source (index + 2) = (end, closed)" by simp
    with "1.IH"(1) [OF 3(1) refl 3(2,3)] 3 show ?thesis by auto
  next
    case 5
    with eq "1.prems" have "scan_quoted_body source (index + 1) = (end, closed)" by simp
    with "1.IH"(2) [OF 5(1) refl 5(2)] 5 show ?thesis by auto
  qed (use eq "1.prems" in auto)
qed

section \<open>Raw strings\<close>

text \<open>\<open>rawStringOpens\<close>: \<open>Some\<close> of the hash count, \<open>None\<close> for the source's -1.\<close>

definition raw_string_opens :: "string \<Rightarrow> nat \<Rightarrow> nat option" where
  "raw_string_opens source after_r =
     (let index = skip_while (\<lambda>c. c = CHR ''#'') source after_r in
      if index \<ge> length source \<or> source ! index \<noteq> DQUOTE then None else Some (index - after_r))"

text \<open>\<open>closeHashes\<close>: the hashes that follow the quote at \<open>index\<close>.\<close>

definition close_hashes :: "string \<Rightarrow> nat \<Rightarrow> nat" where
  "close_hashes source index = skip_while (\<lambda>c. c = CHR ''#'') source (index + 1) - (index + 1)"

text \<open>A line break at \<open>index\<close> in the scanners that share the position convention: a carriage
  return takes a directly following line feed with it.\<close>

definition break_end :: "string \<Rightarrow> nat \<Rightarrow> nat" where
  "break_end source index =
     (if source ! index = CR \<and> at source (index + 1) LF then index + 2 else index + 1)"

type_synonym raw_result = "token \<times> nat \<times> nat \<times> nat \<times> diagnostic option"

function raw_string_loop ::
  "string \<Rightarrow> nat \<Rightarrow> nat \<Rightarrow> nat \<Rightarrow> nat \<Rightarrow> nat \<Rightarrow> nat \<Rightarrow> nat \<Rightarrow> raw_result" where
  "raw_string_loop source start line column hash_count index cur_line cur_column =
     (if index < length source then
        (if source ! index = DQUOTE \<and> close_hashes source index \<ge> hash_count then
           (let end = index + 1 + hash_count
            in (new_token T_RawStringLiteral (substring source start end) start line column,
                end, cur_line, cur_column + 1 + hash_count, None))
         else if source ! index = CR \<or> source ! index = LF then
           raw_string_loop source start line column hash_count (break_end source index) (cur_line + 1) 1
         else raw_string_loop source start line column hash_count (index + 1) cur_line (cur_column + 1))
      else
        (new_token T_RawStringLiteral (substring source start index) start line column,
         index, cur_line, cur_column,
         Some (literal_diagnostic line column UnterminatedRawStringLiteral)))"
  by pat_completeness auto
termination
  by (relation "measure (\<lambda>(s, a, b, c, d, i, e, f). length s - i)") (auto simp: break_end_def)

declare raw_string_loop.simps [simp del]

definition scan_raw_string :: "string \<Rightarrow> nat \<Rightarrow> nat \<Rightarrow> nat \<Rightarrow> nat \<Rightarrow> raw_result" where
  "scan_raw_string source start line column hash_count =
     raw_string_loop source start line column hash_count
       (start + 1 + hash_count + 1) line (column + 1 + hash_count + 1)"

lemma break_end_bounds [progress]:
  "index < length source \<Longrightarrow> index < break_end source index \<and> break_end source index \<le> length source"
  by (auto simp: break_end_def Suc_le_eq dest: at_less)

lemma raw_string_opens_bounds:
  assumes "raw_string_opens source r = Some h"
  shows "r + h < length source" "source ! (r + h) = DQUOTE"
    "\<forall>k. r \<le> k \<and> k < r + h \<longrightarrow> source ! k = CHR ''#''"
proof -
  let ?e = "skip_while (\<lambda>c. c = CHR ''#'') source r"
  have "r \<le> ?e" by (rule skip_while_ge)
  with assms have h: "?e = r + h" "?e < length source" "source ! ?e = DQUOTE"
    by (auto simp: raw_string_opens_def Let_def split: if_splits)
  then show "r + h < length source" "source ! (r + h) = DQUOTE" by simp_all
  show "\<forall>k. r \<le> k \<and> k < r + h \<longrightarrow> source ! k = CHR ''#''"
    using skip_while_all [of r _ "\<lambda>c. c = CHR ''#''" source] h(1) by auto
qed

lemma close_hashes_bound: "index < length source \<Longrightarrow> index + 1 + close_hashes source index \<le> length source"
  using skip_while_ge [of "index + 1" "\<lambda>c. c = CHR ''#''" source]
    skip_while_le [of "index + 1" source "\<lambda>c. c = CHR ''#''"]
  by (simp add: close_hashes_def)

text \<open>A raw scan yields one token that is the bytes from its start to where it stops.\<close>

lemma raw_string_loop_token [progress]:
  assumes "raw_string_loop source start line column h index cl cc = (t, end, nl, nc, d)"
    "start < index" "index \<le> length source"
  shows "index \<le> end \<and> end \<le> length source \<and>
    t = new_token T_RawStringLiteral (substring source start end) start line column"
  using assms
proof (induction source start line column h index cl cc rule: raw_string_loop.induct)
  case (1 source start line column h index cl cc)
  note eq = raw_string_loop.simps [of source start line column h index cl cc]
  consider "\<not> index < length source"
    | "index < length source" "source ! index = DQUOTE \<and> close_hashes source index \<ge> h"
    | "index < length source" "\<not> (source ! index = DQUOTE \<and> close_hashes source index \<ge> h)"
        "source ! index = CR \<or> source ! index = LF"
    | "index < length source" "\<not> (source ! index = DQUOTE \<and> close_hashes source index \<ge> h)"
        "\<not> (source ! index = CR \<or> source ! index = LF)"
    by blast
  then show ?case
  proof cases
    case 1
    with eq "1.prems" show ?thesis by auto
  next
    case 2
    with eq "1.prems" close_hashes_bound [OF 2(1)] show ?thesis by (auto simp: Let_def)
  next
    case 3
    with eq "1.prems" have "raw_string_loop source start line column h (break_end source index) (cl + 1) 1
        = (t, end, nl, nc, d)" by simp
    with "1.IH"(1) [OF 3] break_end_bounds [OF 3(1)] "1.prems" show ?thesis by auto
  next
    case 4
    with eq "1.prems" have "raw_string_loop source start line column h (index + 1) cl (cc + 1)
        = (t, end, nl, nc, d)" by simp
    with "1.IH"(2) [OF 4] 4 "1.prems" show ?thesis by auto
  qed
qed

section \<open>Recovery and comments\<close>

text \<open>\<open>skipToClosingQuote\<close>.\<close>

function skip_to_closing_quote :: "string \<Rightarrow> nat \<Rightarrow> nat \<Rightarrow> nat \<Rightarrow> nat \<times> nat \<times> nat" where
  "skip_to_closing_quote source index line column =
     (if index < length source then
        (let character = source ! index in
         if character = BACKSLASH then
           (if index + 1 \<ge> length source then (index + 1, line, column + 1)
            else skip_to_closing_quote source (index + 2) line (column + 2))
         else if character = DQUOTE then (index + 1, line, column + 1)
         else if character = LF \<or> character = CR then
           skip_to_closing_quote source (break_end source index) (line + 1) 1
         else skip_to_closing_quote source (index + 1) line (column + 1))
      else (index, line, column))"
  by pat_completeness auto
termination
  by (relation "measure (\<lambda>(s, i, l, c). length s - i)") (auto simp: break_end_def)

declare skip_to_closing_quote.simps [simp del]

lemma skip_to_closing_quote_bounds [progress]:
  assumes "skip_to_closing_quote source index line column = (i, l, c)" "index \<le> length source"
  shows "index \<le> i \<and> i \<le> length source"
  using assms
proof (induction source index line column rule: skip_to_closing_quote.induct)
  case (1 source index line column)
  note eq = skip_to_closing_quote.simps [of source index line column]
  consider "\<not> index < length source"
    | "index < length source" "source ! index = BACKSLASH" "index + 1 \<ge> length source"
    | "index < length source" "source ! index = BACKSLASH" "\<not> index + 1 \<ge> length source"
    | "index < length source" "source ! index = DQUOTE"
    | "index < length source" "source ! index = LF \<or> source ! index = CR"
    | "index < length source" "source ! index \<notin> {BACKSLASH, DQUOTE, LF, CR}"
    by blast
  then show ?case
  proof cases
    case 3
    with eq "1.prems" have "skip_to_closing_quote source (index + 2) line (column + 2) = (i, l, c)" by simp
    with "1.IH"(1) [OF 3(1) refl 3(2,3)] 3 show ?thesis by auto
  next
    case 5
    with eq "1.prems" have "skip_to_closing_quote source (break_end source index) (line + 1) 1 = (i, l, c)"
      by auto
    with "1.IH"(2) [OF 5(1) refl] break_end_bounds [OF 5(1)] 5 show ?thesis by auto
  next
    case 6
    with eq "1.prems" have "skip_to_closing_quote source (index + 1) line (column + 1) = (i, l, c)" by simp
    with "1.IH"(3) [OF 6(1) refl] 6 show ?thesis by auto
  qed (use eq "1.prems" in auto)
qed

text \<open>The body of a \<open>--[ ... ]--\<close> comment: whether it closed and where the scan stands.\<close>

function block_comment_loop :: "string \<Rightarrow> nat \<Rightarrow> nat \<Rightarrow> nat \<Rightarrow> bool \<times> nat \<times> nat \<times> nat" where
  "block_comment_loop source index line column =
     (if index < length source then
        (if source ! index = CHR '']'' \<and> at source (index + 1) (CHR ''-'') \<and> at source (index + 2) (CHR ''-'')
         then (True, index + 3, line, column + 3)
         else if source ! index = CR \<or> source ! index = LF then
           block_comment_loop source (break_end source index) (line + 1) 1
         else block_comment_loop source (index + 1) line (column + 1))
      else (False, index, line, column))"
  by pat_completeness auto
termination
  by (relation "measure (\<lambda>(s, i, l, c). length s - i)") (auto simp: break_end_def)

declare block_comment_loop.simps [simp del]

text \<open>A line comment runs to the next line feed.\<close>

definition line_comment_end :: "string \<Rightarrow> nat \<Rightarrow> nat" where
  "line_comment_end source index = skip_while (\<lambda>c. c \<noteq> LF) source index"

lemma block_comment_loop_bounds [progress]:
  assumes "block_comment_loop source index line column = (closed, i, l, c)" "index \<le> length source"
  shows "index \<le> i \<and> i \<le> length source"
  using assms
proof (induction source index line column rule: block_comment_loop.induct)
  case (1 source index line column)
  note eq = block_comment_loop.simps [of source index line column]
  let ?close = "source ! index = CHR '']'' \<and> at source (index + 1) (CHR ''-'') \<and> at source (index + 2) (CHR ''-'')"
  consider "\<not> index < length source" | "index < length source" ?close
    | "index < length source" "\<not> ?close" "source ! index = CR \<or> source ! index = LF"
    | "index < length source" "\<not> ?close" "\<not> (source ! index = CR \<or> source ! index = LF)"
    by blast
  then show ?case
  proof cases
    case 2
    then have "index + 3 \<le> length source" by (auto simp: at_def)
    with eq "1.prems" 2 show ?thesis by simp
  next
    case 3
    with eq "1.prems" have "block_comment_loop source (break_end source index) (line + 1) 1 = (closed, i, l, c)"
      by (auto split: if_splits)
    with "1.IH"(1) [OF 3] break_end_bounds [OF 3(1)] show ?thesis by auto
  next
    case 4
    with eq "1.prems" have "block_comment_loop source (index + 1) line (column + 1) = (closed, i, l, c)"
      by (auto split: if_splits)
    with "1.IH"(2) [OF 4] 4 show ?thesis by auto
  qed (use eq "1.prems" in auto)
qed

end
