(* ===== verification/Lexer.thy ===== *)
theory Lexer
  imports Scanners
begin

text \<open>
  The token scanner and the lexer of \<open>compiler/lexer/lexer.go\<close>: one definition per group of
  cases of \<open>scanToken\<close>, the interpreted-string scanner \<open>lexInterpretedString\<close> with its
  segment and expression loops, and \<open>Lex\<close>.

  \<open>scanToken\<close> and \<open>lexInterpretedString\<close> call each other with the interpolation depth
  growing by one; the depth limit makes that recursion finite, so \<open>scan_token\<close> is a
  function of the depth that passes itself, one level deeper, to the string scanner. The loops
  that advance to wherever a nested scan stopped return \<open>None\<close> for a step that does not
  advance, on which the source would not terminate; theory \<open>LexerProps\<close> proves that this
  never happens.
\<close>

type_synonym scan_output = "token list \<times> diagnostic list \<times> nat \<times> nat \<times> nat"
type_synonym scan_result = "scan_output option"
type_synonym scanner = "string \<Rightarrow> nat \<Rightarrow> nat \<Rightarrow> nat \<Rightarrow> token \<Rightarrow> token \<Rightarrow> token \<Rightarrow> scan_result"

definition max_interpolation_depth :: nat where
  "max_interpolation_depth = 128"

section \<open>Positions of foreign headers and module paths\<close>

definition is_c_header_position :: "token \<Rightarrow> token \<Rightarrow> token \<Rightarrow> nat \<Rightarrow> bool" where
  "is_c_header_position previous before_previous third_previous line =
     (if tk_kind previous \<noteq> T_Identifier \<or> tk_kind before_previous \<noteq> T_Identifier then False
      else if tk_lexeme previous = ''c'' \<and> tk_lexeme before_previous = ''from'' \<and>
              tk_line before_previous = line then True
      else tk_lexeme previous = ''from'' \<and> tk_lexeme before_previous = ''c'' \<and>
           tk_kind third_previous = T_Identifier \<and> tk_lexeme third_previous = ''extern'' \<and>
           tk_line before_previous = line)"

section \<open>Blanks and comments\<close>

definition scan_comment :: "string \<Rightarrow> nat \<Rightarrow> nat \<Rightarrow> nat \<Rightarrow> scan_output" where
  "scan_comment source index line column =
     (if at source (index + 2) (CHR ''['') then
        (let (closed, i, l, c) = block_comment_loop source (index + 3) line (column + 3)
         in ([], if closed then [] else [literal_diagnostic line column UnterminatedMultilineComment], i, l, c))
      else
        (let opening = (if at source (index + 2) (CHR ''-'') then 3 else 2);
             i = line_comment_end source (index + opening)
         in ([], [], i, line, column + (i - index))))"

section \<open>Quoted literals\<close>

text \<open>The body shared by the Byte and Rune cases: \<open>opening\<close> bytes open the literal.\<close>

definition scan_quoted_literal ::
  "nat \<Rightarrow> token_kind \<Rightarrow> literal_escape_set \<Rightarrow> lex_message \<Rightarrow> string \<Rightarrow> nat \<Rightarrow> nat \<Rightarrow> nat \<Rightarrow> scan_output" where
  "scan_quoted_literal opening kind es unterminated source start line column =
     (let index = start + opening;
          (end, closed) = scan_quoted_body source index;
          body_end = (if closed then end - 1 else end);
          open_diag = (if closed then [] else [literal_diagnostic line column unterminated])
      in case decode_literal_body (substring source index body_end) es of
           Inl m \<Rightarrow> ([new_token T_EOF [] start line column],
                      open_diag @ [literal_diagnostic line column m],
                      end, line, column + opening + (end - index))
         | Inr payload \<Rightarrow> ([new_token kind (substring source start end) start line column],
                      open_diag, end, line, column + opening + (end - index)))"

definition scan_byte_literal :: "string \<Rightarrow> nat \<Rightarrow> nat \<Rightarrow> nat \<Rightarrow> scan_output" where
  "scan_byte_literal = scan_quoted_literal 2 T_ByteLiteral ByteEscapes UnterminatedByteLiteral"

definition scan_rune_literal :: "string \<Rightarrow> nat \<Rightarrow> nat \<Rightarrow> nat \<Rightarrow> scan_output" where
  "scan_rune_literal = scan_quoted_literal 1 T_RuneLiteral RuneEscapes UnterminatedRuneLiteral"

definition scan_raw_token :: "string \<Rightarrow> nat \<Rightarrow> nat \<Rightarrow> nat \<Rightarrow> nat \<Rightarrow> scan_output" where
  "scan_raw_token source index line column hashes =
     (let (t, end, l, c, d) = scan_raw_string source index line column hashes
      in ([t], case d of None \<Rightarrow> [] | Some x \<Rightarrow> [x], end, l, c))"

section \<open>Words and numbers\<close>

definition scan_underscore :: "string \<Rightarrow> nat \<Rightarrow> nat \<Rightarrow> nat \<Rightarrow> scan_output" where
  "scan_underscore source index line column =
     (let end = consume_identifier_tail source (index + 1)
      in ([], [literal_diagnostic line column IdentifierMustBeginWithLetter], end, line, column + (end - index)))"

definition scan_identifier :: "string \<Rightarrow> nat \<Rightarrow> nat \<Rightarrow> nat \<Rightarrow> scan_output" where
  "scan_identifier source start line column =
     (let index = skip_while is_identifier_part source start;
          lexeme = substring source start index;
          kind = (case keyword_table lexeme of Some k \<Rightarrow> k | None \<Rightarrow> T_Identifier)
      in ([new_token kind lexeme start line column], [], index, line, column + (index - start)))"

definition scan_number_token :: "string \<Rightarrow> nat \<Rightarrow> nat \<Rightarrow> nat \<Rightarrow> scan_output" where
  "scan_number_token source index line column =
     (let (t, end, d) = scan_number source index line column
      in (if tk_kind t \<noteq> T_EOF then [t] else [], case d of None \<Rightarrow> [] | Some x \<Rightarrow> [x],
          end, line, column + (end - index)))"

definition scan_leading_dot_number :: "string \<Rightarrow> nat \<Rightarrow> nat \<Rightarrow> nat \<Rightarrow> scan_output" where
  "scan_leading_dot_number source index line column =
     (let end = consume_numeric_tail source (index + 1)
      in ([], [literal_diagnostic line column MalformedFloatingLiteral], end, line, column + (end - index)))"

section \<open>Operators and punctuation\<close>

text \<open>Emit one token of a fixed spelling and move past it.\<close>

definition emit_fixed :: "token_kind \<Rightarrow> string \<Rightarrow> nat \<Rightarrow> nat \<Rightarrow> nat \<Rightarrow> scan_output" where
  "emit_fixed kind lexeme index line column =
     ([new_token kind lexeme index line column], [], index + length lexeme, line, column + length lexeme)"

definition scan_bang :: "string \<Rightarrow> nat \<Rightarrow> nat \<Rightarrow> nat \<Rightarrow> scan_output" where
  "scan_bang source index =
     (if at source (index + 1) (CHR ''='') then emit_fixed T_BangEqual ''!='' index
      else emit_fixed T_Bang ''!'' index)"

definition scan_equal :: "string \<Rightarrow> nat \<Rightarrow> nat \<Rightarrow> nat \<Rightarrow> scan_output" where
  "scan_equal source index =
     (if at source (index + 1) (CHR ''='') then emit_fixed T_EqualEqual ''=='' index
      else emit_fixed T_Equal ''='' index)"

definition scan_less :: "string \<Rightarrow> nat \<Rightarrow> nat \<Rightarrow> nat \<Rightarrow> scan_output" where
  "scan_less source index =
     (if at source (index + 1) (CHR ''='') then emit_fixed T_LessEqual ''<='' index
      else if at source (index + 1) (CHR ''<'') then emit_fixed T_ShiftLeft ''<<'' index
      else emit_fixed T_Less ''<'' index)"

definition scan_greater :: "string \<Rightarrow> nat \<Rightarrow> nat \<Rightarrow> nat \<Rightarrow> scan_output" where
  "scan_greater source index =
     (if at source (index + 1) (CHR ''='') then emit_fixed T_GreaterEqual ''>='' index
      else if at source (index + 1) (CHR ''>'') then emit_fixed T_ShiftRight ''>>'' index
      else emit_fixed T_Greater ''>'' index)"

definition scan_dot :: "string \<Rightarrow> nat \<Rightarrow> nat \<Rightarrow> nat \<Rightarrow> scan_output" where
  "scan_dot source index =
     (if at source (index + 1) (CHR ''.'') \<and> at source (index + 2) (CHR ''.'')
      then emit_fixed T_Ellipsis ''...'' index else emit_fixed T_Dot ''.'' index)"

text \<open>The one-byte cases, in the order of the switch.\<close>

definition single_tokens :: "(char \<times> token_kind) list" where
  "single_tokens =
     [(CHR ''&'', T_Amp), (CHR ''@'', T_At), (CHR ''^'', T_Caret), (CHR ''~'', T_Tilde),
      (CHR ''-'', T_Minus), (CHR ''+'', T_Plus), (CHR ''*'', T_Star), (CHR ''/'', T_Slash),
      (CHR ''%'', T_Percent), (CHR ''|'', T_Pipe), (CHR ''('', T_LeftParen), (CHR '')'', T_RightParen),
      (CHR ''['', T_LeftBracket), (CHR '']'', T_RightBracket), (CHR ''{'', T_LeftBrace),
      (CHR ''}'', T_RightBrace), (CHR '','', T_Comma)]"

section \<open>Headers and module paths\<close>

text \<open>The loop of an angle-bracketed header: terminated, invalid, index, column.\<close>

function angle_header_loop :: "string \<Rightarrow> nat \<Rightarrow> nat \<Rightarrow> bool \<Rightarrow> bool \<times> bool \<times> nat \<times> nat" where
  "angle_header_loop source index column invalid =
     (if index < length source then
        (let character = source ! index in
         if character = CHR ''>'' then (True, invalid, index + 1, column + 1)
         else if character = LF \<or> character = CR then (False, invalid, index, column)
         else angle_header_loop source (index + 1) (column + 1)
                (invalid \<or> character \<in> {CHR ''<'', DQUOTE, BACKSLASH, CHR '' '', TAB}))
      else (False, invalid, index, column))"
  by pat_completeness auto
termination by (relation "measure (\<lambda>(s, i, c, v). length s - i)") auto

declare angle_header_loop.simps [simp del]

definition scan_angle_header :: "string \<Rightarrow> nat \<Rightarrow> nat \<Rightarrow> nat \<Rightarrow> scan_output" where
  "scan_angle_header source start line start_column =
     (let (terminated, invalid, index, column) = angle_header_loop source (start + 1) (start_column + 1) False
      in ([new_token T_CHeaderLiteral (substring source start index) start line start_column],
          (if terminated then [] else [literal_diagnostic line column UnterminatedCHeaderLiteral]) @
          (if invalid then [literal_diagnostic line start_column InvalidCHeaderLiteral] else []),
          index, line, column))"

text \<open>The loop shared by a quoted header and a module path: terminated, index, column.\<close>

function quoted_path_loop :: "string \<Rightarrow> nat \<Rightarrow> nat \<Rightarrow> bool \<times> nat \<times> nat" where
  "quoted_path_loop source index column =
     (if index < length source then
        (let character = source ! index in
         if character = DQUOTE then (True, index + 1, column + 1)
         else if character = LF \<or> character = CR then (False, index + 1, column + 1)
         else quoted_path_loop source (index + 1) (column + 1))
      else (False, index, column))"
  by pat_completeness auto
termination by (relation "measure (\<lambda>(s, i, c). length s - i)") auto

declare quoted_path_loop.simps [simp del]

definition scan_quoted_path ::
  "token_kind \<Rightarrow> lex_message \<Rightarrow> lex_message \<Rightarrow> string \<Rightarrow> nat \<Rightarrow> nat \<Rightarrow> nat \<Rightarrow> scan_output" where
  "scan_quoted_path kind unterminated bad source start line start_column =
     (let payload_start = start + 1;
          (terminated, index, column) = quoted_path_loop source payload_start (start_column + 1);
          payload_end = max (index - 1) payload_start
      in ([new_token kind (substring source start index) start line start_column],
          (if terminated then [] else [literal_diagnostic line column unterminated]) @
          (if BACKSLASH \<in> set (substring source payload_start payload_end)
           then [literal_diagnostic line start_column bad] else []),
          index, line, column))"

definition scan_quoted_header :: "string \<Rightarrow> nat \<Rightarrow> nat \<Rightarrow> nat \<Rightarrow> scan_output" where
  "scan_quoted_header = scan_quoted_path T_CHeaderLiteral UnterminatedCHeaderLiteral InvalidCHeaderLiteral"

definition scan_module_path :: "string \<Rightarrow> nat \<Rightarrow> nat \<Rightarrow> nat \<Rightarrow> scan_output" where
  "scan_module_path =
     scan_quoted_path T_ModulePathLiteral UnterminatedModulePathLiteral InvalidModulePathLiteral"

section \<open>Interpreted strings\<close>

text \<open>What ends one text segment. A raw line break carries the column it is reported at.\<close>

datatype text_stop = StopEnd | StopQuote | StopInterpolation | StopNewline nat

function string_text_loop :: "string \<Rightarrow> nat \<Rightarrow> nat \<Rightarrow> nat \<Rightarrow> text_stop \<times> nat \<times> nat \<times> nat" where
  "string_text_loop source index line column =
     (if index < length source then
        (let character = source ! index in
         if character = BACKSLASH then
           (if index + 1 \<ge> length source then (StopEnd, index, line, column)
            else if source ! (index + 1) = LF \<or> source ! (index + 1) = CR then
              (StopNewline column, break_end source (index + 1), line + 1, 1)
            else string_text_loop source (index + 2) line (column + 2))
         else if character = DQUOTE then (StopQuote, index + 1, line, column + 1)
         else if character = CHR ''{'' \<and> at source (index + 1) (CHR ''{'') then
           (StopInterpolation, index, line, column)
         else if character = LF \<or> character = CR then
           (StopNewline column, break_end source index, line + 1, 1)
         else string_text_loop source (index + 1) line (column + 1))
      else (StopEnd, index, line, column))"
  by pat_completeness auto
termination by (relation "measure (\<lambda>(s, i, l, c). length s - i)") auto

declare string_text_loop.simps [simp del]

text \<open>The bracket depth of the embedded expression after some tokens.\<close>

definition depth_step :: "nat \<Rightarrow> token \<Rightarrow> nat" where
  "depth_step depth t =
     (if tk_kind t \<in> {T_LeftParen, T_LeftBracket, T_LeftBrace} then depth + 1
      else if tk_kind t \<in> {T_RightParen, T_RightBracket, T_RightBrace} then depth - 1
      else depth)"

text \<open>The loop over an embedded expression: whether \<open>}}\<close> closed it, the tokens and
  diagnostics so far, and where the scan stands.\<close>

function interp_expr_loop ::
  "scanner \<Rightarrow> string \<Rightarrow> nat \<Rightarrow> nat \<Rightarrow> nat \<Rightarrow> nat \<Rightarrow> token \<Rightarrow> token list \<Rightarrow> diagnostic list
    \<Rightarrow> (bool \<times> scan_output) option" where
  "interp_expr_loop scan source index line column expr_depth previous tokens diags =
     (if index < length source then
        (if source ! index = CHR ''}'' \<and> at source (index + 1) (CHR ''}'') \<and> expr_depth = 0 then
           Some (True, tokens @ [new_token T_InterpClose ''}}'' index line column], diags,
             index + 2, line, column + 2)
         else case scan source index line column previous zero_token zero_token of
             None \<Rightarrow> None
           | Some (scanned, ds, index', line', column') \<Rightarrow>
               if index' \<le> index then None
               else interp_expr_loop scan source index' line' column'
                      (foldl depth_step expr_depth scanned)
                      (if scanned = [] then previous else last scanned)
                      (tokens @ scanned) (diags @ ds))
      else Some (False, tokens, diags, index, line, column))"
  by pat_completeness auto
termination
  by (relation "measure (\<lambda>(f, s, i, l, c, d, p, ts, ds). length s - i)") auto

declare interp_expr_loop.simps [simp del]

text \<open>The segment loop: \<open>start\<close>, \<open>line\<close> and \<open>column\<close> locate the opening quote.\<close>

function interp_segments ::
  "scanner \<Rightarrow> string \<Rightarrow> nat \<Rightarrow> nat \<Rightarrow> nat \<Rightarrow> nat \<Rightarrow> nat \<Rightarrow> nat \<Rightarrow> bool \<Rightarrow> token list \<Rightarrow> diagnostic list
    \<Rightarrow> scan_result" where
  "interp_segments scan source start line column index cur_line cur_column interpolating tokens diags =
     (case string_text_loop source index cur_line cur_column of
        (StopNewline c, i, l, _) \<Rightarrow>
          (let (e, el, ec) = skip_to_closing_quote source i l 1
           in Some ([], diags @ [literal_diagnostic cur_line c RawNewlineInString], e, el, ec))
      | (StopEnd, i, l, c) \<Rightarrow>
          (if \<not> interpolating then
             Some (tokens @ [new_token T_StringLiteral (substring source start i) start line column],
               diags @ [literal_diagnostic l c UnterminatedStringLiteral], i, l, c)
           else
             Some (tokens @ [new_token T_InterpText (substring source index i) index cur_line cur_column],
               diags @ [literal_diagnostic l c UnterminatedStringInterpolation], i, l, c))
      | (StopQuote, i, l, c) \<Rightarrow>
          (if \<not> interpolating then
             Some (tokens @ [new_token T_StringLiteral (substring source start i) start line column],
               diags, i, l, c)
           else
             Some (tokens @ [new_token T_InterpText (substring source index (i - 1)) index cur_line cur_column,
                 new_token T_InterpStringEnd [DQUOTE] (i - 1) l (c - 1)],
               diags, i, l, c))
      | (StopInterpolation, i, l, c) \<Rightarrow>
          (let opened = tokens @
                 (if interpolating then [] else [new_token T_InterpStringStart [DQUOTE] start line column]) @
                 [new_token T_InterpText (substring source index i) index cur_line cur_column,
                  new_token T_InterpOpen ''{{'' i l c]
           in case interp_expr_loop scan source (i + 2) l (c + 2) 0 zero_token opened diags of
                None \<Rightarrow> None
              | Some (closed, tokens', diags', i', l', c') \<Rightarrow>
                  if \<not> closed then
                    Some (tokens', diags' @ [literal_diagnostic l c UnterminatedStringInterpolation], i', l', c')
                  else if length source < i' \<or> i' \<le> index then None
                  else interp_segments scan source start line column i' l' c' True tokens' diags'))"
  by pat_completeness auto
termination
  by (relation "measure (\<lambda>(f, s, st, l, c, i, cl, cc, b, ts, ds). length s - i)") auto

declare interp_segments.simps [simp del]

definition lex_interpreted_string :: "nat \<Rightarrow> scanner \<Rightarrow> string \<Rightarrow> nat \<Rightarrow> nat \<Rightarrow> nat \<Rightarrow> scan_result" where
  "lex_interpreted_string depth scan source start line column =
     (if depth > max_interpolation_depth then
        (let (e, el, ec) = skip_to_closing_quote source (start + 1) line (column + 1)
         in Some ([], [literal_diagnostic line column NestingLimit], e, el, ec))
      else interp_segments scan source start line column (start + 1) line (column + 1) False [] [])"

section \<open>scanToken\<close>

text \<open>The double-quote case: a header, a module path or an interpreted string.\<close>

definition scan_double_quote ::
  "(string \<Rightarrow> nat \<Rightarrow> nat \<Rightarrow> nat \<Rightarrow> scan_result) \<Rightarrow> scanner" where
  "scan_double_quote lex_string source index line column previous before_previous third_previous =
     (if is_c_header_position previous before_previous third_previous line then
        Some (scan_quoted_header source index line column)
      else if tk_kind previous = T_Identifier \<and> tk_lexeme previous = ''from'' \<and> tk_line previous = line then
        Some (scan_module_path source index line column)
      else lex_string source index line column)"

text \<open>The switch of \<open>scanToken\<close>, over the string scanner of its nesting level.\<close>

definition scan_switch :: "(string \<Rightarrow> nat \<Rightarrow> nat \<Rightarrow> nat \<Rightarrow> scan_result) \<Rightarrow> scanner" where
  "scan_switch lex_string source index line column previous before_previous third_previous =
     (let ch = source ! index in
      if ch = CHR '' '' \<or> ch = TAB then Some ([], [], index + 1, line, column + 1)
      else if ch = CR then Some ([], [], break_end source index, line + 1, 1)
      else if ch = LF then Some ([], [], index + 1, line + 1, 1)
      else if ch = CHR ''-'' \<and> at source (index + 1) (CHR ''-'') then
        Some (scan_comment source index line column)
      else if ch = CHR ''b'' \<and> at source (index + 1) SQUOTE then
        Some (scan_byte_literal source index line column)
      else if ch = SQUOTE then Some (scan_rune_literal source index line column)
      else if ch = CHR ''r'' \<and> raw_string_opens source (index + 1) \<noteq> None then
        Some (scan_raw_token source index line column (the (raw_string_opens source (index + 1))))
      else if ch = CHR ''_'' then Some (scan_underscore source index line column)
      else if is_identifier_start ch then Some (scan_identifier source index line column)
      else if is_decimal_digit ch then Some (scan_number_token source index line column)
      else if ch = CHR ''.'' \<and> index + 1 < length source \<and> is_decimal_digit (source ! (index + 1)) then
        Some (scan_leading_dot_number source index line column)
      else if ch = CHR '':'' then Some (emit_fixed T_Colon '':'' index line column)
      else if ch = CHR ''!'' then Some (scan_bang source index line column)
      else if ch = CHR ''='' then Some (scan_equal source index line column)
      else if ch = CHR ''<'' then
        Some (if is_c_header_position previous before_previous third_previous line
              then scan_angle_header source index line column
              else scan_less source index line column)
      else if ch = CHR ''>'' then Some (scan_greater source index line column)
      else if ch = DQUOTE then
        scan_double_quote lex_string source index line column previous before_previous third_previous
      else if ch = CHR ''.'' then Some (scan_dot source index line column)
      else case map_of single_tokens ch of
          Some kind \<Rightarrow> Some (emit_fixed kind [ch] index line column)
        | None \<Rightarrow> Some ([], [unexpected_character_diagnostic line column ch], index + 1, line, column + 1))"

function scan_token :: "nat \<Rightarrow> scanner" where
  "scan_token depth =
     scan_switch (lex_interpreted_string depth
       (if depth \<le> max_interpolation_depth then scan_token (depth + 1)
        else (\<lambda>_ _ _ _ _ _ _. None)))"
  by pat_completeness auto
termination
  by (relation "measure (\<lambda>depth. max_interpolation_depth + 1 - depth)") auto

declare scan_token.simps [simp del]

section \<open>Lex\<close>

function lex_loop ::
  "scanner \<Rightarrow> string \<Rightarrow> nat \<Rightarrow> nat \<Rightarrow> nat \<Rightarrow> token \<Rightarrow> token \<Rightarrow> token \<Rightarrow> token list \<Rightarrow> diagnostic list
    \<Rightarrow> scan_result" where
  "lex_loop scan source index line column previous before_previous third_previous tokens diags =
     (if index < length source then
        (case scan source index line column previous before_previous third_previous of
           None \<Rightarrow> None
         | Some (scanned, ds, index', line', column') \<Rightarrow>
             if index' \<le> index then None
             else if scanned = [] then
               lex_loop scan source index' line' column' previous before_previous third_previous
                 tokens (diags @ ds)
             else
               lex_loop scan source index' line' column' (last scanned) previous before_previous
                 (tokens @ scanned) (diags @ ds))
      else Some (tokens, diags, index, line, column))"
  by pat_completeness auto
termination
  by (relation "measure (\<lambda>(f, s, i, l, c, p, b, t, ts, ds). length s - i)") auto

declare lex_loop.simps [simp del]

definition stamp_file :: "string \<Rightarrow> token \<Rightarrow> token" where
  "stamp_file file t = t\<lparr>tk_span := (tk_span t)\<lparr>sp_file := file\<rparr>\<rparr>"

definition lex :: "string \<Rightarrow> string \<Rightarrow> (token list \<times> diagnostic list) option" where
  "lex file source =
     (case lex_loop (scan_token 0) source 0 1 1 zero_token zero_token zero_token [] [] of
        None \<Rightarrow> None
      | Some (tokens, diags, index, line, column) \<Rightarrow>
          Some (map (stamp_file file) (tokens @ [new_token T_EOF [] (length source) line column]), diags))"

end
