(* ===== verification/LexerSlices.thy ===== *)
theory LexerSlices
  imports Lexer
begin

text \<open>
  What every call of \<open>scanToken\<close> guarantees its callers: it advances, stays inside the
  source, and its tokens are consecutive slices of the bytes it moved over, with the EOF kind
  only next to a diagnostic. The callers are the lexer's main loop and the
  embedded-expression loop of interpreted strings; the promise is the locale
  \<open>scanner_contract\<close>, the callers' lemmas are proved inside it, and \<open>scan_token\<close>
  satisfies it at every nesting depth.
\<close>

section \<open>Slices\<close>

text \<open>The tokens are slices of the source in order, without overlap, between two offsets.\<close>

fun tokens_within :: "string \<Rightarrow> nat \<Rightarrow> nat \<Rightarrow> token list \<Rightarrow> bool" where
  "tokens_within source i j [] \<longleftrightarrow> i \<le> j"
| "tokens_within source i j (t # ts) \<longleftrightarrow>
     int i \<le> sp_start (tk_span t) \<and> sp_start (tk_span t) \<le> sp_end (tk_span t) \<and>
     tk_lexeme t = substring source (nat (sp_start (tk_span t))) (nat (sp_end (tk_span t))) \<and>
     tokens_within source (nat (sp_end (tk_span t))) j ts"

definition slices :: "string \<Rightarrow> nat \<Rightarrow> scan_output \<Rightarrow> bool" where
  "slices source index out =
     (case out of (ts, ds, i, l, c) \<Rightarrow>
        index < i \<and> i \<le> length source \<and> tokens_within source index i ts \<and>
        (ds = [] \<longrightarrow> (\<forall>t \<in> set ts. tk_kind t \<noteq> T_EOF)))"

declare nat_int_add [simp]

lemma tokens_within_le: "tokens_within source i j ts \<Longrightarrow> i \<le> j"
  by (induction ts arbitrary: i) force+

lemma tokens_within_left: "tokens_within source i j ts \<Longrightarrow> k \<le> i \<Longrightarrow> tokens_within source k j ts"
  by (cases ts) auto

lemma tokens_within_right: "tokens_within source i j ts \<Longrightarrow> j \<le> k \<Longrightarrow> tokens_within source i k ts"
  by (induction ts arbitrary: i) auto

lemma tokens_within_append:
  "tokens_within source i j xs \<Longrightarrow> tokens_within source j k ys \<Longrightarrow> tokens_within source i k (xs @ ys)"
  by (induction xs arbitrary: i) (auto intro: tokens_within_left)

lemma tokens_within_single [simp]:
  "tokens_within source i j [new_token k x s l c] \<longleftrightarrow>
     i \<le> s \<and> x = substring source s (s + length x) \<and> s + length x \<le> j"
  by (auto simp: new_token_def nat_int_add)

lemma tokens_within_snoc:
  "tokens_within source i s ts \<Longrightarrow> x = substring source s (s + length x) \<Longrightarrow> s + length x \<le> j
    \<Longrightarrow> tokens_within source i j (ts @ [new_token k x s l c])"
  using tokens_within_append [of source i s ts j "[new_token k x s l c]"] tokens_within_single by blast

lemma substring_self:
  "i \<le> j \<Longrightarrow> j \<le> length s \<Longrightarrow> substring s i j = substring s i (i + length (substring s i j))"
  by simp

lemma slices_one:
  assumes "index < i" "i \<le> length source" "k \<noteq> T_EOF"
  shows "slices source index ([new_token k (substring source index i) index a b], ds, i, l, c)"
  using assms by (simp add: slices_def)

lemma slices_none:
  assumes "index < i" "i \<le> length source"
  shows "slices source index ([], ds, i, l, c)"
  using assms by (simp add: slices_def)

section \<open>The cases of scanToken that need no nested scan\<close>

named_theorems slice_cases

lemma slices_scan_comment [slice_cases]:
  assumes "at source (index + 1) (CHR ''-'')"
  shows "slices source index (scan_comment source index line column)"
proof -
  have i: "index + 2 \<le> length source" using assms by (auto dest: at_less)
  show ?thesis
  proof (cases "at source (index + 2) (CHR ''['')")
    case True
    obtain cl i l c where b: "block_comment_loop source (index + 3) line (column + 3) = (cl, i, l, c)"
      by (metis prod_cases4)
    have "index + 3 \<le> length source" using at_less [OF True] by simp
    from block_comment_loop_bounds [OF b this] show ?thesis
      by (simp add: scan_comment_def True [simplified] b slices_none)
  next
    case False
    define j where "j = index + (if at source (index + 2) (CHR ''-'') then 3 else 2)"
    have j: "index + 2 \<le> j" "j \<le> length source"
      using i at_less [of source "index + 2" "CHR ''-''"] by (auto simp: j_def)
    have "j \<le> line_comment_end source j" "line_comment_end source j \<le> length source"
      unfolding line_comment_end_def using j by (auto intro: skip_while_ge skip_while_le)
    with j False show ?thesis
      unfolding scan_comment_def Let_def j_def [symmetric] by (simp add: slices_none)
  qed
qed

lemma slices_scan_quoted_literal:
  assumes "start + opening \<le> length source" "0 < opening" "kind \<noteq> T_EOF"
  shows "slices source start (scan_quoted_literal opening kind es m source start line column)"
proof -
  obtain e cl where b: "scan_quoted_body source (start + opening) = (e, cl)" by force
  from scan_quoted_body_bounds [OF b assms(1)] assms(2) have "start < e" "e \<le> length source" by simp_all
  with assms(3) show ?thesis
    by (cases cl; cases "decode_literal_body (substring source (start + opening) (if cl then e - 1 else e)) es")
      (simp_all add: scan_quoted_literal_def b slices_def)
qed

lemma slices_scan_byte_literal [slice_cases]:
  "at source (index + 1) SQUOTE \<Longrightarrow> slices source index (scan_byte_literal source index line column)"
  unfolding scan_byte_literal_def by (rule slices_scan_quoted_literal) (auto dest: at_less)

lemma slices_scan_rune_literal [slice_cases]:
  "index < length source \<Longrightarrow> slices source index (scan_rune_literal source index line column)"
  unfolding scan_rune_literal_def by (rule slices_scan_quoted_literal) auto

lemma slices_scan_raw_token [slice_cases]:
  assumes "raw_string_opens source (index + 1) = Some hashes"
  shows "slices source index (scan_raw_token source index line column hashes)"
proof -
  obtain t e l c d where r: "scan_raw_string source index line column hashes = (t, e, l, c, d)"
    by (metis prod_cases5)
  have "index + 1 + hashes + 1 \<le> length source" using raw_string_opens_bounds(1) [OF assms] by simp
  from raw_string_loop_token [OF r [unfolded scan_raw_string_def] _ this] show ?thesis
    by (auto simp: scan_raw_token_def r intro!: slices_one)
qed

lemma slices_scan_underscore [slice_cases]:
  "index < length source \<Longrightarrow> slices source index (scan_underscore source index line column)"
  using consume_identifier_tail_ge [of "index + 1" source] consume_identifier_tail_le [of "index + 1" source]
  by (simp add: scan_underscore_def Let_def slices_none)

lemma slices_scan_identifier [slice_cases]:
  assumes "index < length source" "is_identifier_start (source ! index)"
  shows "slices source index (scan_identifier source index line column)"
proof -
  let ?i = "skip_while is_identifier_part source index"
  have "?i = skip_while is_identifier_part source (Suc index)"
    using assms by (subst skip_while.simps) (simp add: is_identifier_part_def)
  then have "index < ?i" using skip_while_ge [of "Suc index" is_identifier_part source] by simp
  moreover have "?i \<le> length source" using assms by (simp add: skip_while_le)
  moreover have "(case keyword_table s of Some k \<Rightarrow> k | None \<Rightarrow> T_Identifier) \<noteq> T_EOF" for s
    by (auto split: option.splits dest: keyword_kinds)
  ultimately show ?thesis by (simp add: scan_identifier_def Let_def slices_one)
qed

lemma slices_scan_number_token [slice_cases]:
  assumes "index < length source" "is_decimal_digit (source ! index)"
  shows "slices source index (scan_number_token source index line column)"
proof -
  obtain t e d where n: "scan_number source index line column = (t, e, d)" by (metis prod_cases3)
  from scan_number_ok [OF assms, of line column] n
  have "number_token_ok source index line column (t, e, d)" by simp
  then show ?thesis
    by (auto simp: scan_number_token_def n number_token_ok_def slices_one slices_none split: option.splits)
qed

lemma slices_scan_leading_dot_number [slice_cases]:
  "index < length source \<Longrightarrow> slices source index (scan_leading_dot_number source index line column)"
  using consume_numeric_tail_ge [of "index + 1" source] consume_numeric_tail_le [of "index + 1" source]
  by (simp add: scan_leading_dot_number_def Let_def slices_none)

lemma slices_emit_fixed:
  assumes "substring source index (index + length x) = x" "index + length x \<le> length source"
    "x \<noteq> []" "k \<noteq> T_EOF"
  shows "slices source index (emit_fixed k x index line column)"
  using assms by (simp add: emit_fixed_def slices_def)

lemma substring_1: "at source i c \<Longrightarrow> substring source i (i + 1) = [c]"
  by (simp add: substring_Suc at_def)

lemma substring_2: "at source i c \<Longrightarrow> at source (i + 1) d \<Longrightarrow> substring source i (i + 2) = [c, d]"
  using substring_snoc [of i "i + 1" source] substring_1 [of source i c] by (simp add: at_def)

lemma substring_3:
  "at source i c \<Longrightarrow> at source (i + 1) d \<Longrightarrow> at source (i + 2) e \<Longrightarrow> substring source i (i + 3) = [c, d, e]"
  using substring_snoc [of i "i + 2" source] substring_2 [of source i c d]
  by (simp add: at_def numeral_3_eq_3)

lemma slices_emit_1:
  "at source index c \<Longrightarrow> k \<noteq> T_EOF \<Longrightarrow> slices source index (emit_fixed k [c] index line column)"
  using at_less [of source index c]
  by (intro slices_emit_fixed) (simp_all add: substring_1 [simplified] Suc_leI)

lemma slices_emit_2:
  "at source index c \<Longrightarrow> at source (index + 1) d \<Longrightarrow> k \<noteq> T_EOF
    \<Longrightarrow> slices source index (emit_fixed k [c, d] index line column)"
  using at_less [of source "index + 1" d]
  by (intro slices_emit_fixed) (simp_all add: substring_2 [simplified] Suc_leI)

lemma slices_emit_3:
  "at source index c \<Longrightarrow> at source (index + 1) d \<Longrightarrow> at source (index + 2) e \<Longrightarrow> k \<noteq> T_EOF
    \<Longrightarrow> slices source index (emit_fixed k [c, d, e] index line column)"
  using at_less [of source "index + 2" e]
  by (intro slices_emit_fixed) (simp_all add: substring_3 [simplified numeral_3_eq_3, simplified] Suc_leI)

lemma slices_operators [slice_cases]:
  "at source index (CHR ''!'') \<Longrightarrow> slices source index (scan_bang source index line column)"
  "at source index (CHR ''='') \<Longrightarrow> slices source index (scan_equal source index line column)"
  "at source index (CHR ''<'') \<Longrightarrow> slices source index (scan_less source index line column)"
  "at source index (CHR ''>'') \<Longrightarrow> slices source index (scan_greater source index line column)"
  "at source index (CHR ''.'') \<Longrightarrow> slices source index (scan_dot source index line column)"
  unfolding scan_bang_def scan_equal_def scan_less_def scan_greater_def scan_dot_def
  by (simp_all add: slices_emit_1 slices_emit_2 slices_emit_3 split del: if_split split: if_split)

lemma single_tokens_kinds: "map_of single_tokens ch = Some k \<Longrightarrow> k \<noteq> T_EOF"
proof -
  have "list_all (\<lambda>(c, k). k \<noteq> T_EOF) single_tokens" by code_simp
  then show "map_of single_tokens ch = Some k \<Longrightarrow> k \<noteq> T_EOF"
    by (auto simp: list_all_iff dest!: map_of_SomeD)
qed

lemma angle_header_loop_bounds [progress]:
  assumes "angle_header_loop source index column invalid = (term, bad, i, c)" "index \<le> length source"
  shows "index \<le> i \<and> i \<le> length source"
  using assms
proof (induction source index column invalid rule: angle_header_loop.induct)
  case (1 source index column invalid)
  note eq = angle_header_loop.simps [of source index column invalid]
  consider "\<not> index < length source" | "index < length source" "source ! index \<in> {CHR ''>'', LF, CR}"
    | "index < length source" "source ! index \<notin> {CHR ''>'', LF, CR}" by blast
  then show ?case
  proof cases
    case 3
    with eq "1.prems" have "angle_header_loop source (index + 1) (column + 1)
      (invalid \<or> source ! index \<in> {CHR ''<'', DQUOTE, BACKSLASH, CHR '' '', TAB}) = (term, bad, i, c)"
      by (simp add: Let_def)
    with "1.IH" [OF 3(1) refl] 3 show ?thesis by auto
  qed (use eq "1.prems" in auto)
qed

lemma quoted_path_loop_bounds [progress]:
  assumes "quoted_path_loop source index column = (term, i, c)" "index \<le> length source"
  shows "index \<le> i \<and> i \<le> length source"
  using assms
proof (induction source index column rule: quoted_path_loop.induct)
  case (1 source index column)
  note eq = quoted_path_loop.simps [of source index column]
  consider "\<not> index < length source" | "index < length source" "source ! index \<in> {DQUOTE, LF, CR}"
    | "index < length source" "source ! index \<notin> {DQUOTE, LF, CR}" by blast
  then show ?case
  proof cases
    case 3
    with eq "1.prems" have "quoted_path_loop source (index + 1) (column + 1) = (term, i, c)"
      by (simp add: Let_def)
    with "1.IH" [OF 3(1) refl] 3 show ?thesis by auto
  qed (use eq "1.prems" in auto)
qed

lemma slices_scan_angle_header [slice_cases]:
  assumes "index < length source"
  shows "slices source index (scan_angle_header source index line column)"
proof -
  obtain t b i c where l: "angle_header_loop source (index + 1) (column + 1) False = (t, b, i, c)"
    by (metis prod_cases4)
  from angle_header_loop_bounds [OF l] assms have "index < i" "i \<le> length source" by simp_all
  then show ?thesis by (simp add: scan_angle_header_def l [simplified] slices_one)
qed

lemma slices_scan_quoted_path:
  assumes "index < length source" "k \<noteq> T_EOF"
  shows "slices source index (scan_quoted_path k m n source index line column)"
proof -
  obtain t i c where l: "quoted_path_loop source (index + 1) (column + 1) = (t, i, c)"
    by (metis prod_cases3)
  from quoted_path_loop_bounds [OF l] assms have "index < i" "i \<le> length source" by simp_all
  with assms(2) show ?thesis by (simp add: scan_quoted_path_def l [simplified] Let_def slices_one)
qed

lemma slices_paths [slice_cases]:
  assumes "index < length source"
  shows "slices source index (scan_quoted_header source index line column)"
    "slices source index (scan_module_path source index line column)"
  unfolding scan_quoted_header_def scan_module_path_def
  using assms by (simp_all add: slices_scan_quoted_path)

section \<open>The text segments of interpreted strings\<close>

text \<open>Bytes that are no line break: the scanners advance over them one column each.\<close>

definition plain :: "string \<Rightarrow> nat \<Rightarrow> nat \<Rightarrow> bool" where
  "plain source i j \<longleftrightarrow> (\<forall>k. i \<le> k \<and> k < j \<longrightarrow> source ! k \<noteq> LF \<and> source ! k \<noteq> CR)"

lemma plain_empty [simp]: "plain source i i"
  by (auto simp: plain_def)

lemma plain_extend: "source ! i \<noteq> LF \<Longrightarrow> source ! i \<noteq> CR \<Longrightarrow> plain source (i + 1) j \<Longrightarrow> plain source i j"
  unfolding plain_def by (metis Suc_eq_plus1 Suc_leI le_neq_implies_less)

lemma plain_join: "plain source i j \<Longrightarrow> plain source j k \<Longrightarrow> plain source i k"
  unfolding plain_def by (meson not_le)

lemma plain_sub: "plain source i j \<Longrightarrow> i \<le> a \<Longrightarrow> b \<le> j \<Longrightarrow> plain source a b"
  by (auto simp: plain_def)

definition segment_ok :: "string \<Rightarrow> nat \<Rightarrow> nat \<Rightarrow> nat \<Rightarrow> text_stop \<times> nat \<times> nat \<times> nat \<Rightarrow> bool" where
  "segment_ok source index line column r =
     (case r of (stop, i, l, c) \<Rightarrow>
        index \<le> i \<and> i \<le> length source \<and>
        (case stop of
           StopNewline _ \<Rightarrow> True
         | StopEnd \<Rightarrow> True
         | StopQuote \<Rightarrow> index < i \<and> source ! (i - 1) = DQUOTE
         | StopInterpolation \<Rightarrow> at source i (CHR ''{'') \<and> at source (i + 1) (CHR ''{'')) \<and>
        (case stop of
           StopNewline _ \<Rightarrow> True
         | _ \<Rightarrow> plain source index i \<and> l = line \<and> c = column + (i - index)))"

lemma segment_ok_step:
  assumes "segment_ok source (index + k) line (column + k) r" "plain source index (index + k)"
  shows "segment_ok source index line column r"
  using assms plain_join [of source index "index + k"]
  by (auto simp: segment_ok_def split: prod.splits text_stop.splits)

lemma string_text_loop_ok:
  "index \<le> length source \<Longrightarrow> segment_ok source index line column (string_text_loop source index line column)"
proof (induction source index line column rule: string_text_loop.induct)
  case (1 source index line column)
  note eq = string_text_loop.simps [of source index line column]
  let ?ch = "source ! index" and ?nx = "source ! (index + 1)"
  consider (stop) "\<not> index < length source"
    | (last) "index < length source" "?ch = BACKSLASH" "index + 1 \<ge> length source"
    | (escbreak) "index < length source" "?ch = BACKSLASH" "\<not> index + 1 \<ge> length source" "?nx = LF \<or> ?nx = CR"
    | (esc) "index < length source" "?ch = BACKSLASH" "\<not> index + 1 \<ge> length source" "\<not> (?nx = LF \<or> ?nx = CR)"
    | (quote) "index < length source" "?ch = DQUOTE"
    | (interp) "index < length source" "?ch = CHR ''{''" "at source (index + 1) (CHR ''{'')"
    | (brk) "index < length source" "?ch = LF \<or> ?ch = CR"
    | (other) "index < length source" "?ch \<noteq> BACKSLASH" "?ch \<noteq> DQUOTE"
        "\<not> (?ch = CHR ''{'' \<and> at source (index + 1) (CHR ''{''))" "\<not> (?ch = LF \<or> ?ch = CR)" by blast
  then show ?case
  proof cases
    case escbreak
    then have "break_end source (index + 1) \<le> length source" "index < break_end source (index + 1)"
      using break_end_bounds [of "index + 1" source] by auto
    with escbreak eq show ?thesis by (auto simp: segment_ok_def)
  next
    case esc
    then have "segment_ok source (index + 2) line (column + 2) (string_text_loop source (index + 2) line (column + 2))"
      using "1.IH"(1) [OF esc(1) refl esc(2,3,4)] by simp
    moreover have "plain source index (index + 2)"
      using esc by (auto simp: plain_def numeral_2_eq_2 less_Suc_eq le_less_Suc_eq)
    ultimately show ?thesis using esc eq segment_ok_step [of source index 2 line column] by simp
  next
    case quote
    with eq show ?thesis by (auto simp: segment_ok_def plain_def less_Suc_eq)
  next
    case interp
    with eq show ?thesis by (auto simp: segment_ok_def at_def)
  next
    case brk
    with eq break_end_bounds [of index source] show ?thesis by (auto simp: segment_ok_def)
  next
    case other
    then have "segment_ok source (index + 1) line (column + 1) (string_text_loop source (index + 1) line (column + 1))"
      using "1.IH"(2) [OF other(1) refl other(2,3,4,5)] by simp
    moreover have "plain source index (index + 1)"
      using other by (auto simp: plain_def less_Suc_eq)
    moreover have "string_text_loop source index line column = string_text_loop source (index + 1) line (column + 1)"
      using other eq by (auto simp: Let_def)
    ultimately show ?thesis using segment_ok_step [of source index 1 line column] by simp
  qed (use eq "1.prems" in \<open>auto simp: segment_ok_def\<close>)
qed

lemma string_text_loop_cases:
  assumes "string_text_loop source index line column = (stop, i, l, c)" "index \<le> length source"
  shows "segment_ok source index line column (stop, i, l, c)"
  using string_text_loop_ok [OF assms(2), of line column] assms(1) by simp

section \<open>The contract and its clients\<close>

locale scanner_contract =
  fixes scan :: scanner
  assumes advances:
    "index < length source \<Longrightarrow>
       \<exists>out. scan source index line column p b t = Some out \<and> slices source index out"
begin

lemma advancesE:
  assumes "index < length source"
  obtains ts ds i l c where "scan source index line column p b t = Some (ts, ds, i, l, c)"
    "index < i" "i \<le> length source" "tokens_within source index i ts"
    "ds = [] \<longrightarrow> (\<forall>t \<in> set ts. tk_kind t \<noteq> T_EOF)"
  using advances [OF assms, of line column p b t] that by (auto simp: slices_def)

text \<open>What a loop that accumulates tokens and diagnostics has when it stops.\<close>

definition grown :: "string \<Rightarrow> nat \<Rightarrow> token list \<Rightarrow> diagnostic list \<Rightarrow> nat \<Rightarrow> scan_output \<Rightarrow> bool" where
  "grown source s tokens diags index out =
     (case out of (ts, ds, i, l, c) \<Rightarrow>
        index \<le> i \<and> i \<le> length source \<and> tokens_within source s i ts \<and>
        (ds = [] \<longrightarrow> diags = [] \<and>
          ((\<forall>t \<in> set tokens. tk_kind t \<noteq> T_EOF) \<longrightarrow> (\<forall>t \<in> set ts. tk_kind t \<noteq> T_EOF))))"

lemma grown_step:
  assumes "grown source s (tokens @ xs) (diags @ ds) i out" "index \<le> i"
    "ds = [] \<longrightarrow> (\<forall>t \<in> set xs. tk_kind t \<noteq> T_EOF)"
  shows "grown source s tokens diags index out"
  using assms by (auto simp: grown_def split: prod.splits)

lemma grown_trans:
  assumes "grown source s opened diags a (ts, ds, j, m, n)" "grown source s ts ds j out" "index \<le> a"
    "(\<forall>t \<in> set tokens. tk_kind t \<noteq> T_EOF) \<longrightarrow> (\<forall>t \<in> set opened. tk_kind t \<noteq> T_EOF)"
  shows "grown source s tokens diags index out"
proof -
  obtain ts' ds' j' m' n' where out: "out = (ts', ds', j', m', n')" by (metis prod_cases5)
  have "index \<le> j'" using assms(1-3) by (simp add: grown_def out)
  with assms show ?thesis unfolding grown_def out prod.case by blast
qed

lemma expr_loop_grown:
  assumes "index \<le> length source" "tokens_within source s index tokens"
  shows "\<exists>closed out. interp_expr_loop scan source index line column d p tokens diags = Some (closed, out) \<and>
    grown source s tokens diags index out"
  using assms
proof (induction "length source - index" arbitrary: index line column d p tokens diags rule: less_induct)
  case less
  note eq = interp_expr_loop.simps [of scan source index line column d p tokens diags]
  show ?case
  proof (cases "index < length source")
    case False
    with less.prems eq show ?thesis by (auto simp: grown_def)
  next
    case here: True
    show ?thesis
    proof (cases "source ! index = CHR ''}'' \<and> at source (index + 1) (CHR ''}'') \<and> d = 0")
      case True
      then have "substring source index (index + 2) = ''}}''" "index + 2 \<le> length source"
        using here substring_2 [of source index "CHR ''}''" "CHR ''}''"] by (auto simp: at_def)
      with less.prems have "tokens_within source s (index + 2) (tokens @ [new_token T_InterpClose ''}}'' index line column])"
        by (intro tokens_within_snoc) simp_all
      with True here eq less.prems \<open>index + 2 \<le> length source\<close> show ?thesis by (auto simp: grown_def)
    next
      case False
      obtain ts ds i l c where scan: "scan source index line column p zero_token zero_token = Some (ts, ds, i, l, c)"
          "index < i" "i \<le> length source" "tokens_within source index i ts"
          "ds = [] \<longrightarrow> (\<forall>t \<in> set ts. tk_kind t \<noteq> T_EOF)"
        by (rule advancesE [OF here])
      let ?d = "foldl depth_step d ts" and ?p = "if ts = [] then p else last ts"
      have "tokens_within source s i (tokens @ ts)"
        using less.prems(2) scan(4) by (rule tokens_within_append)
      then have "\<exists>cl out. interp_expr_loop scan source i l c ?d ?p (tokens @ ts) (diags @ ds) = Some (cl, out) \<and>
          grown source s (tokens @ ts) (diags @ ds) i out"
        using scan(2,3) here by (intro less.hyps) simp_all
      then obtain cl out where rec: "interp_expr_loop scan source i l c ?d ?p (tokens @ ts) (diags @ ds) = Some (cl, out)"
          "grown source s (tokens @ ts) (diags @ ds) i out" by blast
      have "interp_expr_loop scan source index line column d p tokens diags = Some (cl, out)"
        using eq here False scan(1,2) rec(1) by auto
      moreover have "grown source s tokens diags index out"
        using grown_step [OF rec(2) _ scan(5)] scan(2) by simp
      ultimately show ?thesis by blast
    qed
  qed
qed

lemma expr_loop_closed:
  assumes "interp_expr_loop scan source index line column d p tokens diags = Some (True, ts, ds, i, l, c)"
    "index \<le> length source"
  shows "index < i"
proof -
  have "index < length source"
    using assms interp_expr_loop.simps [of scan source index line column d p tokens diags]
    by (auto split: if_splits)
  then show ?thesis using assms
  proof (induction "length source - index" arbitrary: index line column d p tokens diags rule: less_induct)
    case less
    note eq = interp_expr_loop.simps [of scan source index line column d p tokens diags]
    obtain xs es j m n where scan: "scan source index line column p zero_token zero_token = Some (xs, es, j, m, n)"
        "index < j" "j \<le> length source"
      by (rule advancesE [OF less.prems(1)])
    show ?case
    proof (cases "source ! index = CHR ''}'' \<and> at source (index + 1) (CHR ''}'') \<and> d = 0")
      case True
      with less.prems eq show ?thesis by auto
    next
      case False
      let ?d = "foldl depth_step d xs" and ?p = "if xs = [] then p else last xs"
      have rec: "interp_expr_loop scan source j m n ?d ?p (tokens @ xs) (diags @ es) = Some (True, ts, ds, i, l, c)"
        using eq less.prems False scan by auto
      then have "j < length source"
        using interp_expr_loop.simps [of scan source j m n ?d ?p "tokens @ xs" "diags @ es"]
        by (auto split: if_splits)
      then have "j < i" using less.hyps [OF _ _ rec scan(3)] less.prems scan by simp
      with scan show ?thesis by simp
    qed
  qed
qed

text \<open>The segment loop starts just after the opening quote and then after each \<open>}}\<close>.\<close>

lemma segments_grown:
  assumes "at source start DQUOTE" "start < index" "index \<le> length source"
    "tokens_within source start index tokens" "\<not> interpolating \<longrightarrow> tokens = [] \<and> index = start + 1"
  shows "\<exists>out. interp_segments scan source start line column index cl cc interpolating tokens diags = Some out \<and>
    grown source start tokens diags index out"
  using assms
proof (induction "length source - index" arbitrary: index cl cc interpolating tokens diags rule: less_induct)
  case less
  note eq = interp_segments.simps [of scan source start line column index cl cc interpolating tokens diags]
  note T = less.prems(4)
  obtain stop i l c where seg: "string_text_loop source index cl cc = (stop, i, l, c)" by (metis prod_cases4)
  note ok = string_text_loop_cases [OF seg less.prems(3)]
  then have i: "index \<le> i" "i \<le> length source" by (auto simp: segment_ok_def)
  have quote: "substring source start (Suc start) = [DQUOTE]"
    using substring_1 [OF less.prems(1)] by simp
  have lit: "tokens_within source start i [new_token k (substring source start i) start line column]" for k
    using i less.prems(2) by simp
  have piece: "tokens_within source start j (tokens @ [new_token k (substring source index j) index cl cc])"
    if "index \<le> j" "j \<le> length source" for j k
    using T that by (intro tokens_within_snoc) simp_all
  show ?case
  proof (cases stop)
    case (StopNewline n)
    obtain e el ec where sk: "skip_to_closing_quote source i l 1 = (e, el, ec)" by (metis prod_cases3)
    from skip_to_closing_quote_bounds [OF sk i(2)] less.prems(2) i show ?thesis
      by (simp add: eq seg StopNewline sk [simplified] grown_def)
  next
    case StopEnd
    show ?thesis
    proof (cases interpolating)
      case True
      with piece [of i] i show ?thesis unfolding eq seg StopEnd by (simp add: grown_def)
    next
      case False
      with lit i less.prems(5) show ?thesis unfolding eq seg StopEnd by (simp add: grown_def)
    qed
  next
    case StopQuote
    then have q: "index < i" "source ! (i - 1) = DQUOTE" using ok by (auto simp: segment_ok_def)
    show ?thesis
    proof (cases interpolating)
      case True
      have "substring source (i - 1) (Suc (i - 1)) = [DQUOTE]"
        using q i substring_Suc [of "i - 1" source] by simp
      then have "tokens_within source start i ((tokens @ [new_token T_InterpText (substring source index (i - 1)) index cl cc])
          @ [new_token T_InterpStringEnd [DQUOTE] (i - 1) l (c - 1)])"
        using q i by (intro tokens_within_snoc piece) simp_all
      with True i show ?thesis unfolding eq seg StopQuote by (simp add: grown_def)
    next
      case False
      with lit i less.prems(5) show ?thesis unfolding eq seg StopQuote by (simp add: grown_def)
    qed
  next
    case StopInterpolation
    then have b: "at source i (CHR ''{'')" "at source (i + 1) (CHR ''{'')" using ok by (auto simp: segment_ok_def)
    then have i2: "i + 2 \<le> length source" by (auto dest: at_less)
    define opened where "opened = tokens @
      (if interpolating then [] else [new_token T_InterpStringStart [DQUOTE] start line column]) @
      [new_token T_InterpText (substring source index i) index cl cc, new_token T_InterpOpen ''{{'' i l c]"
    have "tokens_within source start index (tokens @
      (if interpolating then [] else [new_token T_InterpStringStart [DQUOTE] start line column]))"
      using less.prems(5) T quote by (auto simp: nat_add_distrib)
    from tokens_within_append [OF this, of i "[new_token T_InterpText (substring source index i) index cl cc]"] i
    have "tokens_within source start i (tokens @
      (if interpolating then [] else [new_token T_InterpStringStart [DQUOTE] start line column]) @
      [new_token T_InterpText (substring source index i) index cl cc])" by simp
    from tokens_within_append [OF this, of "i + 2" "[new_token T_InterpOpen ''{{'' i l c]"] substring_2 [OF b]
    have opened: "tokens_within source start (i + 2) opened"
      by (auto simp: opened_def nat_add_distrib)
    have clean: "\<forall>t \<in> set tokens. tk_kind t \<noteq> T_EOF \<Longrightarrow> \<forall>t \<in> set opened. tk_kind t \<noteq> T_EOF"
      by (auto simp: opened_def)
    obtain cl' ts ds j m n where e: "interp_expr_loop scan source (i + 2) l (c + 2) 0 zero_token opened diags =
        Some (cl', ts, ds, j, m, n)" and g: "grown source start opened diags (i + 2) (ts, ds, j, m, n)"
    proof -
      obtain cl' out where r: "interp_expr_loop scan source (i + 2) l (c + 2) 0 zero_token opened diags = Some (cl', out)"
          "grown source start opened diags (i + 2) out"
        using expr_loop_grown [OF i2 opened, of l "c + 2" 0 zero_token diags] by (elim exE conjE) (rule that)
      obtain ts ds j m n where "out = (ts, ds, j, m, n)" by (metis prod_cases5)
      with r that show ?thesis by blast
    qed
    have j: "i + 2 \<le> j" "j \<le> length source" "tokens_within source start j ts" using g by (auto simp: grown_def)
    have weak: "grown source start tokens diags index out" if "grown source start ts ds j out" for out
      using grown_trans [OF g that] clean i by simp
    have run: "interp_segments scan source start line column index cl cc interpolating tokens diags =
      (if \<not> cl' then Some (ts, ds @ [literal_diagnostic l c UnterminatedStringInterpolation], j, m, n)
       else interp_segments scan source start line column j m n True ts ds)"
      using e j i unfolding opened_def by (simp add: eq seg StopInterpolation)
    show ?thesis
    proof (cases cl')
      case True
      have "\<exists>out. interp_segments scan source start line column j m n True ts ds = Some out \<and>
          grown source start ts ds j out"
        using j i less.prems(1,2) by (intro less.hyps) simp_all
      then obtain out where "interp_segments scan source start line column j m n True ts ds = Some out"
          "grown source start ts ds j out" by blast
      with True run weak show ?thesis by auto
    next
      case False
      have "grown source start ts ds j (ts, ds @ [literal_diagnostic l c UnterminatedStringInterpolation], j, m, n)"
        using j by (simp add: grown_def)
      with False run weak show ?thesis by auto
    qed
  qed
qed

text \<open>The main loop: total, and its tokens are the source's slices.\<close>

lemma loop_grown:
  assumes "index \<le> length source" "tokens_within source 0 index tokens"
  shows "\<exists>ts ds l c. lex_loop scan source index line column p b t tokens diags =
      Some (ts, ds, length source, l, c) \<and>
    grown source 0 tokens diags index (ts, ds, length source, l, c)"
  using assms
proof (induction "length source - index" arbitrary: index line column p b t tokens diags rule: less_induct)
  case less
  note eq = lex_loop.simps [of scan source index line column p b t tokens diags]
  show ?case
  proof (cases "index < length source")
    case False
    with less.prems eq show ?thesis by (auto simp: grown_def)
  next
    case True
    obtain xs es i l c where scan: "scan source index line column p b t = Some (xs, es, i, l, c)"
        "index < i" "i \<le> length source" "tokens_within source index i xs"
        "es = [] \<longrightarrow> (\<forall>t \<in> set xs. tk_kind t \<noteq> T_EOF)"
      by (rule advancesE [OF True])
    let ?p = "if xs = [] then p else last xs" and ?b = "if xs = [] then b else p"
      and ?t = "if xs = [] then t else b"
    have w: "tokens_within source 0 i (tokens @ xs)"
      using less.prems(2) scan(4) by (rule tokens_within_append)
    then have "\<exists>ts ds l' c'. lex_loop scan source i l c ?p ?b ?t (tokens @ xs) (diags @ es) =
        Some (ts, ds, length source, l', c') \<and>
        grown source 0 (tokens @ xs) (diags @ es) i (ts, ds, length source, l', c')"
      using scan(2,3) True by (intro less.hyps) simp_all
    then obtain ts ds l' c' where rec: "lex_loop scan source i l c ?p ?b ?t (tokens @ xs) (diags @ es) =
        Some (ts, ds, length source, l', c')"
        "grown source 0 (tokens @ xs) (diags @ es) i (ts, ds, length source, l', c')" by blast
    have "lex_loop scan source index line column p b t tokens diags = Some (ts, ds, length source, l', c')"
      using eq True scan(1,2) rec(1) by (auto split: if_splits)
    moreover have "grown source 0 tokens diags index (ts, ds, length source, l', c')"
      using grown_step [OF rec(2) _ scan(5)] scan(2) by simp
    ultimately show ?thesis by blast
  qed
qed

text \<open>The string scanner over a conforming nested scanner.\<close>

lemma string_slices:
  assumes "at source start DQUOTE"
  shows "\<exists>out. lex_interpreted_string depth scan source start line column = Some out \<and> slices source start out"
proof (cases "depth > max_interpolation_depth")
  case True
  obtain e el ec where sk: "skip_to_closing_quote source (start + 1) line (column + 1) = (e, el, ec)"
    by (metis prod_cases3)
  from skip_to_closing_quote_bounds [OF sk] at_less [OF assms] have "start < e" "e \<le> length source" by simp_all
  with True show ?thesis by (simp add: lex_interpreted_string_def sk [simplified] slices_none)
next
  case False
  have "\<exists>out. interp_segments scan source start line column (start + 1) line (column + 1) False [] [] = Some out \<and>
      grown source start [] [] (start + 1) out"
    using assms at_less [OF assms] by (intro segments_grown) (simp_all add: Suc_leI)
  then obtain out where
      "interp_segments scan source start line column (start + 1) line (column + 1) False [] [] = Some out"
      "grown source start [] [] (start + 1) out" by blast
  with False show ?thesis
    by (auto simp: lex_interpreted_string_def grown_def slices_def)
qed

end

section \<open>scanToken meets the contract\<close>

definition yields :: "string \<Rightarrow> nat \<Rightarrow> scan_result \<Rightarrow> bool" where
  "yields source index r \<longleftrightarrow> (\<exists>out. r = Some out \<and> slices source index out)"

lemma yields_Some: "slices source index out \<Longrightarrow> yields source index (Some out)"
  by (simp add: yields_def)

lemma yields_if:
  "(c \<Longrightarrow> yields source index x) \<Longrightarrow> (\<not> c \<Longrightarrow> yields source index y) \<Longrightarrow> yields source index (if c then x else y)"
  by simp

lemma slices_blank:
  "index < length source \<Longrightarrow> slices source index ([], ds, index + 1, l, c)"
  "index < length source \<Longrightarrow> slices source index ([], ds, break_end source index, l, c)"
  using break_end_bounds [of index source] by (auto intro: slices_none)

text \<open>The switch, over any string scanner that conforms on a double quote.\<close>

lemma scan_switch_slices:
  assumes str: "\<And>start. at source start DQUOTE \<Longrightarrow> yields source start (lex_string source start line column)"
    and i: "index < length source"
  shows "yields source index (scan_switch lex_string source index line column p b t)"
proof -
  have here: "source ! index = c \<Longrightarrow> at source index c" for c using i by (simp add: at_def)
  have raw: "slices source index (scan_raw_token source index line column (the (raw_string_opens source (index + 1))))"
    if "raw_string_opens source (index + 1) \<noteq> None"
    using that slices_scan_raw_token [of source index] by auto
  have quote: "yields source index (scan_double_quote lex_string source index line column p b t)"
    if "source ! index = DQUOTE"
    using str [OF here [OF that]] i
    by (simp add: scan_double_quote_def yields_Some slice_cases)
  have single: "yields source index (case map_of single_tokens (source ! index) of
        Some kind \<Rightarrow> Some (emit_fixed kind [source ! index] index line column)
      | None \<Rightarrow> Some ([], [unexpected_character_diagnostic line column (source ! index)], index + 1, line, column + 1))"
    using i by (auto split: option.splits simp: here dest: single_tokens_kinds
        intro!: yields_Some slices_emit_1 slices_none)
  have angle: "slices source index
      (if is_c_header_position p b t line then scan_angle_header source index line column
       else scan_less source index line column)" if "source ! index = CHR ''<''"
    using i here [OF that] by (simp add: slice_cases)
  show ?thesis
    unfolding scan_switch_def Let_def
    by (intro yields_if yields_Some)
      (use i raw quote single angle in \<open>simp_all add: slice_cases slices_blank [simplified] slices_emit_1 here\<close>)
qed

theorem scan_token_contract: "scanner_contract (scan_token depth)"
proof (induction "max_interpolation_depth + 1 - depth" arbitrary: depth rule: less_induct)
  case less
  let ?nested = "if depth \<le> max_interpolation_depth then scan_token (depth + 1) else (\<lambda>_ _ _ _ _ _ _. None)"
  have str: "yields source start (lex_interpreted_string depth ?nested source start line column)"
    if q: "at source start DQUOTE" for source start line column
  proof (cases "depth \<le> max_interpolation_depth")
    case True
    then have "scanner_contract (scan_token (depth + 1))" by (intro less) simp
    with True scanner_contract.string_slices [OF _ q] show ?thesis by (simp add: yields_def)
  next
    case False
    obtain e el ec where sk: "skip_to_closing_quote source (start + 1) line (column + 1) = (e, el, ec)"
      by (metis prod_cases3)
    from skip_to_closing_quote_bounds [OF sk] at_less [OF q] have "start < e" "e \<le> length source" by simp_all
    with False show ?thesis
      by (simp add: lex_interpreted_string_def sk [simplified] slices_none yields_Some)
  qed
  show ?case
  proof
    fix source :: string and index line column p b t
    assume "index < length source"
    then have "yields source index (scan_token depth source index line column p b t)"
      unfolding scan_token.simps [of depth] by (intro scan_switch_slices str)
    then show "\<exists>out. scan_token depth source index line column p b t = Some out \<and> slices source index out"
      by (simp only: yields_def)
  qed
qed

interpretation scan: scanner_contract "scan_token depth" for depth
  by (rule scan_token_contract)

lemma lex_total:
  "\<exists>ts ds l c. lex file source =
     Some (map (stamp_file file) (ts @ [new_token T_EOF [] (length source) l c]), ds) \<and>
     tokens_within source 0 (length source) ts \<and>
     (ds = [] \<longrightarrow> (\<forall>t \<in> set ts. tk_kind t \<noteq> T_EOF))"
proof -
  obtain ts ds l c where "lex_loop (scan_token 0) source 0 1 1 zero_token zero_token zero_token [] [] =
      Some (ts, ds, length source, l, c)" "scan.grown source 0 [] [] 0 (ts, ds, length source, l, c)"
    using scan.loop_grown [of 0 source "[]"] by fastforce
  then show ?thesis by (auto simp: lex_def scan.grown_def)
qed

end
