(* ===== verification/LexerPositions.thy ===== *)
theory LexerPositions
  imports LexerSlices
begin

text \<open>
  The line and column the lexer counts agree with the span table of \<open>compiler/span\<close>: when a
  source has no diagnostics, and every carriage return in it is followed by a line feed, each
  token's counters are the position of its first byte. The invariant is the locale
  \<open>positioned_scanner\<close>, which extends the slice contract. (A carriage return alone ends a line
  in the table and in block comments but not in line comments, hence the condition.)
\<close>

section \<open>Advancing the counters\<close>

definition no_lone_cr :: "string \<Rightarrow> bool" where
  "no_lone_cr source \<longleftrightarrow>
     list_all (\<lambda>k. source ! k = CR \<longrightarrow> at source (Suc k) LF) [0..<length source]"

lemma no_lone_crD: "no_lone_cr source \<Longrightarrow> k < length source \<Longrightarrow> source ! k = CR \<Longrightarrow> at source (Suc k) LF"
  by (simp add: no_lone_cr_def list_all_iff)

definition unbroken :: "string \<Rightarrow> nat \<Rightarrow> nat \<Rightarrow> bool" where
  "unbroken source i j \<longleftrightarrow> (\<forall>k. i \<le> k \<and> k < j \<longrightarrow> \<not> break_after source k)"

lemma plain_unbroken: "plain source i j \<Longrightarrow> unbroken source i j"
  by (auto simp: plain_def unbroken_def break_after_def)

lemma unbroken_position:
  assumes "unbroken source i j" "i \<le> j" "j \<le> length source" "(l, c) = offset_position source i"
  shows "offset_position source j = (l, c + (j - i))"
  using assms
proof (induction "j - i" arbitrary: j)
  case (Suc n)
  then obtain k where k: "j = Suc k" by (cases j) auto
  have "unbroken source i k" using Suc.prems(1) k by (auto simp: unbroken_def)
  then have "offset_position source k = (l, c + (k - i))" using Suc k by auto
  moreover have "\<not> break_after source k" using Suc.prems(1) Suc.hyps(2) k by (auto simp: unbroken_def)
  ultimately show ?case
    using offset_position_Suc [of k source] Suc.prems(3) Suc.hyps(2) k by (simp add: Suc_diff_le)
qed simp

lemma plain_position:
  "plain source i j \<Longrightarrow> i \<le> j \<Longrightarrow> j \<le> length source \<Longrightarrow> (l, c) = offset_position source i
    \<Longrightarrow> offset_position source j = (l, c + (j - i))"
  by (rule unbroken_position [OF plain_unbroken])

lemma step_position:
  assumes "index < length source" "source ! index \<noteq> LF" "source ! index \<noteq> CR"
    "(l, c) = offset_position source index"
  shows "offset_position source (index + 1) = (l, c + 1)"
proof -
  have "plain source index (index + 1)" using assms by (auto simp: plain_def less_Suc_eq)
  from plain_position [OF this _ _ assms(4)] assms(1) show ?thesis by simp
qed

lemma break_position:
  assumes "index < length source" "source ! index = LF \<or> source ! index = CR"
    "(l, c) = offset_position source index"
  shows "offset_position source (break_end source index) = (l + 1, 1)"
proof (cases "source ! index = CR \<and> at source (index + 1) LF")
  case True
  then have "\<not> break_after source index" "break_after source (index + 1)"
    by (auto simp: break_after_def at_def)
  with True assms show ?thesis
    using offset_position_Suc [of index source] offset_position_Suc [of "index + 1" source]
    by (auto simp: break_end_def split: prod.splits)
next
  case False
  with assms have "break_after source index" by (auto simp: break_after_def)
  with False assms show ?thesis
    using offset_position_Suc [of index source] by (auto simp: break_end_def split: prod.splits)
qed

section \<open>Placed tokens\<close>

definition token_placed :: "string \<Rightarrow> token \<Rightarrow> bool" where
  "token_placed source t \<longleftrightarrow>
     (tk_line t, tk_column t) = offset_position source (nat (sp_start (tk_span t)))"

definition placed :: "string \<Rightarrow> scan_output \<Rightarrow> bool" where
  "placed source out =
     (case out of (ts, ds, i, l, c) \<Rightarrow>
        ds = [] \<longrightarrow> (\<forall>t \<in> set ts. token_placed source t) \<and> (l, c) = offset_position source i)"

lemma token_placed_new [simp]:
  "token_placed source (new_token k x s l c) \<longleftrightarrow> (l, c) = offset_position source s"
  by (simp add: token_placed_def)

lemma placed_error [simp]: "placed source (ts, d # ds, i, l, c)"
  by (simp add: placed_def)

lemma placed_none: "(l, c) = offset_position source i \<Longrightarrow> placed source ([], ds, i, l, c)"
  by (simp add: placed_def)

lemma placed_plain:
  assumes "plain source index i" "index \<le> i" "i \<le> length source" "(l, c) = offset_position source index"
  shows "placed source ([new_token k x index l c], ds, i, l, c + (i - index))"
  using plain_position [OF assms] assms(4) by (simp add: placed_def)

section \<open>Which scans are plain\<close>

lemma skip_while_plain:
  assumes "\<And>c. p c \<Longrightarrow> c \<noteq> LF \<and> c \<noteq> CR"
  shows "plain source index (skip_while p source index)"
  unfolding plain_def using skip_while_all [of index _ p source] assms by blast

lemma digit_run_loop_plain:
  assumes "digit_run_loop p source index = (end, m)" "\<And>c. p c \<Longrightarrow> c \<noteq> LF \<and> c \<noteq> CR"
  shows "plain source index end"
  using assms
proof (induction p source index rule: digit_run_loop.induct)
  case (1 p source index)
  note eq = digit_run_loop.simps [of p source index]
  consider "\<not> index < length source" | "index < length source" "p (source ! index)"
    | "index < length source" "\<not> p (source ! index)" "source ! index \<noteq> CHR ''_''"
    | "index < length source" "\<not> p (source ! index)" "source ! index = CHR ''_''"
        "index + 1 \<ge> length source \<or> \<not> p (source ! (index + 1))"
    | "index < length source" "\<not> p (source ! index)" "source ! index = CHR ''_''"
        "\<not> (index + 1 \<ge> length source \<or> \<not> p (source ! (index + 1)))"
    by blast
  then show ?case
  proof cases
    case 2
    with eq "1.prems"(1) have "digit_run_loop p source (index + 1) = (end, m)" by simp
    with "1.IH"(1) [OF 2] "1.prems"(2) have "plain source (index + 1) end" by blast
    with 2 "1.prems"(2) show ?thesis by (intro plain_extend [of source index "end"]) auto
  next
    case 4
    with eq "1.prems"(1) have "end = index + 1" by auto
    with 4 show ?thesis by (intro plain_extend [of source index "end"]) auto
  next
    case 5
    with eq "1.prems"(1) have "digit_run_loop p source (index + 2) = (end, m)" by simp
    with "1.IH"(2) [OF 5(1,2) _ 5(4)] 5(3) "1.prems"(2) have "plain source (index + 2) end" by blast
    with 5 "1.prems"(2) have "plain source (index + 1) end"
      by (intro plain_extend [of source "index + 1" "end"]) auto
    with 5 show ?thesis by (intro plain_extend [of source index "end"]) auto
  qed (use eq "1.prems"(1) in auto)
qed

lemma scan_digit_run_plain:
  assumes "scan_digit_run source start p = (end, m)" "\<And>c. p c \<Longrightarrow> c \<noteq> LF \<and> c \<noteq> CR"
  shows "plain source start end"
proof (cases "start \<ge> length source \<or> \<not> p (source ! start)")
  case True
  with assms(1) show ?thesis by (auto simp: scan_digit_run_def)
next
  case False
  with assms(1) have "digit_run_loop p source (start + 1) = (end, m)" by (auto simp: scan_digit_run_def)
  then have "plain source (start + 1) end" using assms(2) by (rule digit_run_loop_plain)
  with False assms(2) show ?thesis
    by (intro plain_extend [of source start "end"]) auto
qed

lemma decimal_digit_plain: "is_decimal_digit c \<Longrightarrow> c \<noteq> LF \<and> c \<noteq> CR"
  by (auto simp: is_decimal_digit_def byte_between_def)

lemma base_digit_plain:
  "is_hex_digit c \<Longrightarrow> c \<noteq> LF \<and> c \<noteq> CR" "is_binary_digit c \<Longrightarrow> c \<noteq> LF \<and> c \<noteq> CR"
  "is_octal_digit c \<Longrightarrow> c \<noteq> LF \<and> c \<noteq> CR"
  by (auto simp: is_hex_digit_def is_binary_digit_def is_octal_digit_def is_decimal_digit_def byte_between_def)

lemma identifier_part_plain: "is_identifier_part c \<Longrightarrow> c \<noteq> LF \<and> c \<noteq> CR"
  by (auto simp: is_identifier_part_def is_identifier_start_def byte_between_def)

lemma scan_decimal_whole_plain:
  assumes "scan_decimal_whole source start = (w, False, lead)"
  shows "plain source start w"
proof (cases "source ! start = CHR ''0''")
  case True
  have "plain source (start + 1) (consume_numeric_tail source (start + 1))"
    unfolding consume_numeric_tail_def by (rule skip_while_plain) (auto dest: identifier_part_plain)
  moreover have "plain source (start + 1) (skip_while (\<lambda>c. is_decimal_digit c \<or> c = CHR ''_'') source (start + 1))"
    by (rule skip_while_plain) (auto dest: decimal_digit_plain)
  ultimately have "plain source (start + 1) w"
    using assms True by (auto simp: scan_decimal_whole_def split: if_splits)
  with True show ?thesis by (intro plain_extend [of source start w]) auto
next
  case False
  with assms scan_digit_run_plain [of source start is_decimal_digit w False] decimal_digit_plain
  show ?thesis by (auto simp: scan_decimal_whole_def split: prod.splits)
qed

lemma scan_fraction_plain:
  assumes "scan_fraction source start = Inr (e, fraction)"
  shows "plain source start e"
proof (cases "at source start (CHR ''.'')")
  case True
  obtain e' m where run: "scan_digit_run source (start + 1) is_decimal_digit = (e', m)" by fastforce
  with assms True have "e' = e" by (auto simp: scan_fraction_def split: if_splits)
  with scan_digit_run_plain [OF run] decimal_digit_plain True show ?thesis
    by (intro plain_extend [of source start e]) (auto simp: at_def)
qed (use assms in \<open>auto simp: scan_fraction_def\<close>)

lemma scan_exponent_plain:
  assumes "scan_exponent source start = Inr (e, exponent)"
  shows "plain source start e"
proof (cases "at source start (CHR ''e'') \<or> at source start (CHR ''E'')")
  case True
  define d where "d = (if at source (start + 1) (CHR ''+'') \<or> at source (start + 1) (CHR ''-'')
    then start + 1 + 1 else start + 1)"
  obtain e' m where run: "scan_digit_run source d is_decimal_digit = (e', m)" by fastforce
  have "e' = e" using assms True run unfolding scan_exponent_def Let_def d_def [symmetric]
    by (auto split: if_splits)
  then have "plain source d e" using scan_digit_run_plain [OF run] decimal_digit_plain by blast
  moreover have "plain source (start + 1) d" by (auto simp: plain_def d_def at_def less_Suc_eq)
  ultimately show ?thesis using True by (intro plain_extend [of source start e, OF _ _ plain_join [of source "start + 1" d]]) (auto simp: at_def)
qed (use assms in \<open>auto simp: scan_exponent_def\<close>)

lemma scan_number_plain:
  assumes "scan_number source start line column = (t, e, None)"
  shows "plain source start e"
proof -
  consider "source ! start = CHR ''0''" "start + 1 < length source"
        "source ! (start + 1) \<in> {CHR ''X'', CHR ''B'', CHR ''O''}"
    | "source ! start = CHR ''0''" "start + 1 < length source"
        "source ! (start + 1) \<in> {CHR ''x'', CHR ''b'', CHR ''o''}"
    | "\<not> (source ! start = CHR ''0'' \<and> start + 1 < length source \<and>
        source ! (start + 1) \<in> {CHR ''X'', CHR ''B'', CHR ''O''})"
      "\<not> (source ! start = CHR ''0'' \<and> start + 1 < length source \<and>
        source ! (start + 1) \<in> {CHR ''x'', CHR ''b'', CHR ''o''})" by blast
  then show ?thesis
  proof cases
    case 1
    with assms show ?thesis by (auto simp: scan_number_def number_error_def)
  next
    case 2
    obtain k dg m where sel: "(if source ! (start + 1) = CHR ''x'' then (T_HexInteger, is_hex_digit, MalformedHexadecimalLiteral)
      else if source ! (start + 1) = CHR ''b'' then (T_BinaryInteger, is_binary_digit, MalformedBinaryIntegerLiteral)
      else (T_OctalInteger, is_octal_digit, MalformedOctalIntegerLiteral)) = (k, dg, m)"
      by (metis prod_cases3)
    obtain e' mal where run: "scan_digit_run source (start + 2) dg = (e', mal)" by fastforce
    have "scan_prefixed_number source start line column = (t, e, None)"
      using 2 assms by (auto simp: scan_number_def)
    then have "e' = e"
      unfolding scan_prefixed_number_def Let_def sel prod.case run
      by (auto simp: number_error_def split: if_splits)
    moreover have "dg c \<Longrightarrow> c \<noteq> LF \<and> c \<noteq> CR" for c
      using sel base_digit_plain by (auto split: if_splits)
    ultimately have "plain source (start + 2) e" using scan_digit_run_plain [OF run] by blast
    with 2 have "plain source (start + 1) e" by (intro plain_extend [of source "start + 1" e]) auto
    with 2 show ?thesis by (intro plain_extend [of source start e]) auto
  next
    case 3
    then have dec: "scan_decimal_number source start line column = (t, e, None)"
      using assms unfolding scan_number_def by (simp only: if_False)
    obtain w mal lead where whole: "scan_decimal_whole source start = (w, mal, lead)" by (metis prod_cases3)
    obtain fe fr ee ex where parts: "\<not> mal" "scan_fraction source w = Inr (fe, fr)"
        "scan_exponent source fe = Inr (ee, ex)" "e = ee"
      using dec by (auto simp: scan_decimal_number_def whole number_error_def split: if_splits sum.splits)
    have "plain source start w" using scan_decimal_whole_plain [of source start w lead] whole parts(1) by simp
    with scan_fraction_plain [OF parts(2)] scan_exponent_plain [OF parts(3)] parts(4)
    show ?thesis by (metis plain_join)
  qed
qed

section \<open>Closed quoted bodies\<close>

text \<open>The bytes an item of the literal grammar takes: one plain byte, or an escape whose letter
  is no line break and whose rest is hexadecimal.\<close>

lemma hex_digit_shape: "hex_digit_value c = Some d \<Longrightarrow> c \<notin> {BACKSLASH, SQUOTE, LF, CR}"
  by (auto simp: hex_digit_value_def byte_between_def)

lemma parse_hex_loop_digits:
  "parse_hex_loop m n ds = Some v \<Longrightarrow> c \<in> set ds \<Longrightarrow> c \<notin> {BACKSLASH, SQUOTE, LF, CR}"
  by (induction ds arbitrary: n) (use hex_digit_shape in \<open>auto split: option.splits if_splits\<close>)

lemma item_shape:
  assumes "item_ok es it"
  obtains (one) c where "item_text it = [c]" "c \<noteq> BACKSLASH"
  | (escape) c run where "item_text it = BACKSLASH # c # run" "c \<noteq> LF" "c \<noteq> CR"
      "\<forall>x \<in> set run. x \<notin> {BACKSLASH, SQUOTE, LF, CR}"
proof (cases it)
  case (ItemPlain c)
  with assms show ?thesis by (intro one) auto
next
  case (ItemSimple c)
  with assms show ?thesis by (intro escape [of c "[]"]) auto
next
  case (ItemHex a b)
  with assms obtain v where "parse_hex_loop 255 0 [a, b] = Some v" by (auto simp: parse_hex_uint_def)
  from parse_hex_loop_digits [OF this] ItemHex show ?thesis by (intro escape [of "CHR ''x''" "[a, b]"]) auto
next
  case (ItemUnicode ds)
  with assms obtain v where "parse_hex_loop 4294967295 0 ds = Some v"
    by (auto simp: parse_hex_uint_def split: if_splits)
  from parse_hex_loop_digits [OF this] ItemUnicode show ?thesis
    by (intro escape [of "CHR ''u''" "CHR ''{'' # ds @ [CHR ''}'']"]) auto
qed

lemma scan_quoted_body_skip:
  assumes "drop i source = run @ rest" "\<forall>x \<in> set run. x \<notin> {BACKSLASH, SQUOTE, LF, CR}"
  shows "scan_quoted_body source i = scan_quoted_body source (i + length run)"
  using assms
proof (induction run arbitrary: i)
  case (Cons c run)
  have d: "drop i source = (c # run) @ rest" using Cons.prems(1) .
  have i: "i < length source" "source ! i = c"
    using drop_append_length [OF d] drop_append_nth [OF d, of 0] by simp_all
  have "drop (Suc i) source = run @ rest" using Cons.prems(1) by (metis append_Cons drop_Suc list.sel(3) tl_drop)
  with Cons.IH [of "Suc i"] Cons.prems(2) have "scan_quoted_body source (Suc i) = scan_quoted_body source (Suc i + length run)"
    by simp
  with i Cons.prems(2) show ?case by (subst scan_quoted_body.simps) (simp add: Let_def)
qed simp

lemma plain_run:
  assumes "drop i source = run @ rest" "\<forall>x \<in> set run. x \<noteq> LF \<and> x \<noteq> CR"
  shows "plain source i (i + length run)"
proof -
  have "source ! k \<in> set run" if "i \<le> k \<and> k < i + length run" for k
  proof -
    have "k - i < length run" using that by auto
    with drop_append_nth [OF assms(1) this] that show ?thesis by simp
  qed
  with assms(2) show ?thesis unfolding plain_def by blast
qed

lemma quoted_items_plain:
  assumes "list_all (item_ok es) its" "drop i source = items_text its @ rest"
    "scan_quoted_body source i = (i + length (items_text its) + 1, True)"
  shows "plain source i (i + length (items_text its))"
  using assms
proof (induction its arbitrary: i)
  case (Cons it its)
  let ?x = "item_text it"
  have d: "drop i source = ?x @ items_text its @ rest" using Cons.prems(2) by (simp add: items_text_def)
  have d': "drop (i + length ?x) source = items_text its @ rest" using drop_shift [OF d] .
  have len: "length (items_text (it # its)) = length ?x + length (items_text its)" by (simp add: items_text_def)
  have ok: "item_ok es it" using Cons.prems(1) by simp
  have "0 < length ?x" by simp
  then have i: "i < length source" using drop_append_length [OF d] item_text_nonempty [of it] by linarith
  have "plain source i (i + length ?x) \<and>
      scan_quoted_body source i = scan_quoted_body source (i + length ?x)"
  proof (cases rule: item_shape [OF ok])
    case (1 c)
    then have c: "source ! i = c" using drop_append_nth [OF d, of 0] by simp
    have "c \<notin> {SQUOTE, LF, CR}"
    proof
      assume "c \<in> {SQUOTE, LF, CR}"
      with i c 1 have "scan_quoted_body source i = (i + 1, c = SQUOTE)"
        by (subst scan_quoted_body.simps) auto
      with Cons.prems(3) len 1 show False by simp
    qed
    with i c 1 show ?thesis by (subst scan_quoted_body.simps) (auto simp: plain_def less_Suc_eq)
  next
    case (2 c run)
    have bs: "source ! i = BACKSLASH" using drop_append_nth [OF d, of 0] 2(1) by simp
    have len2: "i + 1 < length source" using drop_append_length [OF d] 2(1) by simp
    have "drop (i + 2) source = run @ items_text its @ rest"
      using drop_shift [of i source "[BACKSLASH, c]" "run @ items_text its @ rest"] d 2(1) by simp
    from scan_quoted_body_skip [OF this 2(4)] i bs len2 2(1)
    have "scan_quoted_body source i = scan_quoted_body source (i + length ?x)"
      by (subst scan_quoted_body.simps) simp
    moreover have "plain source i (i + length ?x)" using 2 by (intro plain_run [OF d]) auto
    ultimately show ?thesis by simp
  qed
  moreover from this have "scan_quoted_body source (i + length ?x) =
      (i + length ?x + length (items_text its) + 1, True)"
    using Cons.prems(3) len by (simp add: add.assoc)
  ultimately have p: "plain source i (i + length ?x)" "scan_quoted_body source (i + length ?x) =
      (i + length ?x + length (items_text its) + 1, True)" by blast+
  have "plain source (i + length ?x) (i + length ?x + length (items_text its))"
    using Cons.IH [OF _ d' p(2)] Cons.prems(1) by simp
  from plain_join [OF p(1) this] show ?case by (simp add: len add.assoc)
qed (simp add: items_text_def)

lemma quoted_body_plain:
  assumes "scan_quoted_body source i = (e, True)" "i \<le> length source"
    "decode_literal_body (substring source i (e - 1)) es = Inr payload"
  shows "plain source i e"
proof -
  have b: "i < e" "e \<le> length source" "source ! (e - 1) = SQUOTE"
    using scan_quoted_body_bounds [OF assms(1,2)] by auto
  have "\<exists>p. decode_loop (substring source i (e - 1)) es 0 [] = Inr p"
    using assms(3) by (auto simp: decode_literal_body_def split: sum.splits)
  then obtain its where its: "list_all (item_ok es) its" "substring source i (e - 1) = items_text its"
    unfolding decode_loop_iff by blast
  have e: "e = i + length (items_text its) + 1" using its(2) [symmetric] b by simp
  have "drop i source = items_text its @ drop (e - 1) source"
    using drop_substring [of i "e - 1" source] its(2) b by simp
  from quoted_items_plain [OF its(1) this] assms(1) e have "plain source i (i + length (items_text its))" by simp
  then show ?thesis using b(3) e by (auto simp: plain_def less_Suc_eq)
qed

section \<open>Comments, raw strings and paths\<close>

lemma block_comment_loop_position:
  assumes "block_comment_loop source index line column = (closed, i, l, c)" "index \<le> length source"
    "(line, column) = offset_position source index"
  shows "(l, c) = offset_position source i"
  using assms
proof (induction source index line column rule: block_comment_loop.induct)
  case (1 source index line column)
  note eq = block_comment_loop.simps [of source index line column]
  let ?close = "source ! index = CHR '']'' \<and> at source (index + 1) (CHR ''-'') \<and> at source (index + 2) (CHR ''-'')"
  consider "\<not> index < length source" | "index < length source" ?close
    | "index < length source" "\<not> ?close" "source ! index = CR \<or> source ! index = LF"
    | "index < length source" "\<not> ?close" "\<not> (source ! index = CR \<or> source ! index = LF)"
    by blast
  then show ?case
  proof cases
    case 1
    with eq "1.prems" show ?thesis by simp
  next
    case 2
    have "plain source index (index + 3)"
      unfolding plain_def
    proof (intro allI impI)
      fix k assume "index \<le> k \<and> k < index + 3"
      then have "k = index \<or> k = index + 1 \<or> k = index + 2" by linarith
      with 2 show "source ! k \<noteq> LF \<and> source ! k \<noteq> CR" by (auto simp: at_def)
    qed
    moreover have "index + 3 \<le> length source" using 2 by (auto simp: at_def)
    ultimately have "offset_position source (index + 3) = (line, column + 3)"
      using plain_position [OF _ _ _ "1.prems"(3)] by simp
    with eq "1.prems" 2 show ?thesis by simp
  next
    case 3
    with eq "1.prems" have "block_comment_loop source (break_end source index) (line + 1) 1 = (closed, i, l, c)"
      by (auto split: if_splits)
    moreover have "(line + 1, 1) = offset_position source (break_end source index)"
      using break_position [OF 3(1) _ "1.prems"(3)] 3(3) by auto
    ultimately show ?thesis using "1.IH"(1) [OF 3] break_end_bounds [OF 3(1)] by auto
  next
    case 4
    with eq "1.prems" have "block_comment_loop source (index + 1) line (column + 1) = (closed, i, l, c)"
      by (auto split: if_splits)
    moreover have "(line, column + 1) = offset_position source (index + 1)"
      using step_position [OF 4(1) _ _ "1.prems"(3)] 4(3) by auto
    ultimately show ?thesis using "1.IH"(2) [OF 4] 4(1) by auto
  qed
qed

lemma close_hashes_plain:
  assumes "h \<le> close_hashes source index" "source ! index = DQUOTE"
  shows "plain source index (index + 1 + h)"
proof -
  have "source ! k = CHR ''#''" if "index + 1 \<le> k" "k < index + 1 + h" for k
    using skip_while_all [of "index + 1" k "\<lambda>c. c = CHR ''#''" source] that assms(1)
      skip_while_ge [of "index + 1" "\<lambda>c. c = CHR ''#''" source]
    by (simp add: close_hashes_def)
  then have "plain source (index + 1) (index + 1 + h)" by (simp add: plain_def)
  with assms(2) show ?thesis by (intro plain_extend [of source index "index + 1 + h"]) auto
qed

lemma raw_string_loop_position:
  assumes "raw_string_loop source start line column h index cl cc = (t, end, nl, nc, None)"
    "index \<le> length source" "(cl, cc) = offset_position source index"
  shows "(nl, nc) = offset_position source end"
  using assms
proof (induction source start line column h index cl cc rule: raw_string_loop.induct)
  case (1 source start line column h index cl cc)
  note eq = raw_string_loop.simps [of source start line column h index cl cc]
  consider "\<not> index < length source"
    | "index < length source" "source ! index = DQUOTE \<and> close_hashes source index \<ge> h"
    | "index < length source" "\<not> (source ! index = DQUOTE \<and> close_hashes source index \<ge> h)"
        "source ! index = CR \<or> source ! index = LF"
    | "index < length source" "\<not> (source ! index = DQUOTE \<and> close_hashes source index \<ge> h)"
        "\<not> (source ! index = CR \<or> source ! index = LF)"
    by blast
  then show ?case
  proof cases
    case 2
    have "offset_position source (index + 1 + h) = (cl, cc + (index + 1 + h - index))"
      using plain_position [OF close_hashes_plain _ _ "1.prems"(3)] 2 close_hashes_bound [OF 2(1)] by auto
    with eq "1.prems" 2 show ?thesis by (auto simp: Let_def)
  next
    case 3
    with eq "1.prems" have "raw_string_loop source start line column h (break_end source index) (cl + 1) 1
        = (t, end, nl, nc, None)" by simp
    moreover have "(cl + 1, 1) = offset_position source (break_end source index)"
      using break_position [OF 3(1) _ "1.prems"(3)] 3(3) by auto
    ultimately show ?thesis using "1.IH"(1) [OF 3] break_end_bounds [OF 3(1)] by auto
  next
    case 4
    with eq "1.prems" have "raw_string_loop source start line column h (index + 1) cl (cc + 1)
        = (t, end, nl, nc, None)" by simp
    moreover have "(cl, cc + 1) = offset_position source (index + 1)"
      using step_position [OF 4(1) _ _ "1.prems"(3)] 4(3) by auto
    ultimately show ?thesis using "1.IH"(2) [OF 4] 4(1) by auto
  qed (use eq "1.prems" in auto)
qed

lemma angle_header_loop_plain:
  assumes "angle_header_loop source index column invalid = (True, bad, i, c)"
  shows "plain source index i \<and> c = column + (i - index) \<and> index \<le> i"
  using assms
proof (induction source index column invalid rule: angle_header_loop.induct)
  case (1 source index column invalid)
  note eq = angle_header_loop.simps [of source index column invalid]
  consider "\<not> index < length source" | "index < length source" "source ! index = CHR ''>''"
    | "index < length source" "source ! index \<in> {LF, CR}"
    | "index < length source" "source ! index \<notin> {CHR ''>'', LF, CR}" by blast
  then show ?case
  proof cases
    case 2
    with eq "1.prems" show ?thesis by (auto simp: plain_def less_Suc_eq)
  next
    case 4
    with eq "1.prems" have "angle_header_loop source (index + 1) (column + 1)
      (invalid \<or> source ! index \<in> {CHR ''<'', DQUOTE, BACKSLASH, CHR '' '', TAB}) = (True, bad, i, c)"
      by (simp add: Let_def)
    with "1.IH" [OF 4(1) refl] 4 show ?thesis by (auto intro: plain_extend [of source index i])
  qed (use eq "1.prems" in auto)
qed

lemma quoted_path_loop_plain:
  assumes "quoted_path_loop source index column = (True, i, c)"
  shows "plain source index i \<and> c = column + (i - index) \<and> index \<le> i"
  using assms
proof (induction source index column rule: quoted_path_loop.induct)
  case (1 source index column)
  note eq = quoted_path_loop.simps [of source index column]
  consider "\<not> index < length source" | "index < length source" "source ! index = DQUOTE"
    | "index < length source" "source ! index \<in> {LF, CR}"
    | "index < length source" "source ! index \<notin> {DQUOTE, LF, CR}" by blast
  then show ?case
  proof cases
    case 2
    with eq "1.prems" show ?thesis by (auto simp: plain_def less_Suc_eq)
  next
    case 4
    with eq "1.prems" have "quoted_path_loop source (index + 1) (column + 1) = (True, i, c)"
      by (simp add: Let_def)
    with "1.IH" [OF 4(1) refl] 4 show ?thesis by (auto intro: plain_extend [of source index i])
  qed (use eq "1.prems" in auto)
qed

section \<open>The cases of scanToken keep the position\<close>

named_theorems placed_cases

lemma placed_scan_comment [placed_cases]:
  assumes h: "at source index (CHR ''-'')" "at source (index + 1) (CHR ''-'')"
    and cr: "no_lone_cr source" and pos: "(line, column) = offset_position source index"
  shows "placed source (scan_comment source index line column)"
proof -
  have i: "index + 2 \<le> length source" using h(2) by (auto dest: at_less)
  show ?thesis
  proof (cases "at source (index + 2) (CHR ''['')")
    case True
    obtain cl i l c where b: "block_comment_loop source (index + 3) line (column + 3) = (cl, i, l, c)"
      by (metis prod_cases4)
    have "plain source index (index + 3)"
      unfolding plain_def
    proof (intro allI impI)
      fix k assume "index \<le> k \<and> k < index + 3"
      then have "k = index \<or> k = index + 1 \<or> k = index + 2" by linarith
      with h True show "source ! k \<noteq> LF \<and> source ! k \<noteq> CR" by (auto simp: at_def)
    qed
    moreover have "index + 3 \<le> length source" using at_less [OF True] by simp
    ultimately have "(l, c) = offset_position source i"
      using block_comment_loop_position [OF b] plain_position [OF _ _ _ pos, of "index + 3"] by simp
    then show ?thesis by (simp add: scan_comment_def True [simplified] b placed_def)
  next
    case False
    define j where "j = index + (if at source (index + 2) (CHR ''-'') then 3 else 2)"
    have j: "index + 2 \<le> j" "j \<le> length source"
      using i at_less [of source "index + 2" "CHR ''-''"] by (auto simp: j_def)
    let ?e = "line_comment_end source j"
    have e: "j \<le> ?e" "?e \<le> length source"
      unfolding line_comment_end_def using j by (auto intro: skip_while_ge skip_while_le)
    have "unbroken source index ?e"
      unfolding unbroken_def
    proof (intro allI impI)
      fix k assume k: "index \<le> k \<and> k < ?e"
      have "source ! k \<noteq> LF"
      proof (cases "k < j")
        case True
        then have "k = index \<or> k = index + 1 \<or> k = index + 2 \<and> at source (index + 2) (CHR ''-'')"
          using k by (auto simp: j_def split: if_splits)
        with h show ?thesis by (auto simp: at_def)
      next
        case False
        then show ?thesis
          using skip_while_all [of j k "\<lambda>c. c \<noteq> LF" source] k by (simp add: line_comment_end_def)
      qed
      then show "\<not> break_after source k" using no_lone_crD [OF cr] by (auto simp: break_after_def)
    qed
    then have "offset_position source ?e = (line, column + (?e - index))"
      using unbroken_position [OF _ _ e(2) pos] j e by simp
    with False show ?thesis
      unfolding scan_comment_def Let_def j_def [symmetric] by (simp add: placed_def)
  qed
qed

lemma placed_scan_quoted_literal:
  assumes "start + opening \<le> length source" "plain source start (start + opening)"
    and pos: "(line, column) = offset_position source start"
  shows "placed source (scan_quoted_literal opening kind es m source start line column)"
proof -
  obtain e cl where b: "scan_quoted_body source (start + opening) = (e, cl)" by force
  show ?thesis
  proof (cases "cl \<and> (\<exists>p. decode_literal_body (substring source (start + opening) (e - 1)) es = Inr p)")
    case True
    then obtain p where p: "decode_literal_body (substring source (start + opening) (e - 1)) es = Inr p" by blast
    have bs: "start + opening \<le> e" "e \<le> length source" using scan_quoted_body_bounds [OF b assms(1)] by simp_all
    have "plain source start e"
      using plain_join [OF assms(2) quoted_body_plain [OF _ assms(1) p]] b True by simp
    from placed_plain [OF this _ bs(2) pos] bs(1) True p b show ?thesis
      by (simp add: scan_quoted_literal_def)
  next
    case False
    then show ?thesis
      by (cases cl; cases "decode_literal_body (substring source (start + opening) (if cl then e - 1 else e)) es")
        (simp_all add: scan_quoted_literal_def b)
  qed
qed

lemma placed_scan_byte_literal [placed_cases]:
  assumes "at source index (CHR ''b'')" "at source (index + 1) SQUOTE"
    "(line, column) = offset_position source index"
  shows "placed source (scan_byte_literal source index line column)"
  unfolding scan_byte_literal_def
  using assms by (intro placed_scan_quoted_literal)
    (auto simp: plain_def at_def numeral_2_eq_2 less_Suc_eq dest: at_less)

lemma placed_scan_rune_literal [placed_cases]:
  assumes "at source index SQUOTE" "(line, column) = offset_position source index"
  shows "placed source (scan_rune_literal source index line column)"
  unfolding scan_rune_literal_def
  using assms by (intro placed_scan_quoted_literal) (auto simp: plain_def at_def less_Suc_eq)

lemma placed_scan_raw_token [placed_cases]:
  assumes "at source index (CHR ''r'')" "raw_string_opens source (index + 1) = Some h"
    and pos: "(line, column) = offset_position source index"
  shows "placed source (scan_raw_token source index line column h)"
proof -
  obtain t e l c d where r: "scan_raw_string source index line column h = (t, e, l, c, d)"
    by (metis prod_cases5)
  note b = raw_string_opens_bounds [OF assms(2)]
  have "plain source (index + 1) (index + 1 + h)" using b(3) by (simp add: plain_def)
  then have "plain source index (index + 1 + h)"
    using assms(1) by (intro plain_extend [of source index "index + 1 + h"]) (auto simp: at_def)
  with b(2) have "plain source index (index + 1 + h + 1)" by (auto simp: plain_def less_Suc_eq)
  moreover have le: "index + 1 + h + 1 \<le> length source" using b(1) by simp
  ultimately have "(line, column + 1 + h + 1) = offset_position source (index + 1 + h + 1)"
    using plain_position [OF _ _ _ pos, of "index + 1 + h + 1"] by simp
  with raw_string_loop_position [OF _ le] r have "d = None \<Longrightarrow> (l, c) = offset_position source e"
    by (simp add: scan_raw_string_def)
  moreover have "t = new_token T_RawStringLiteral (substring source index e) index line column"
    using raw_string_loop_token [OF r [unfolded scan_raw_string_def] _ le] by simp
  ultimately show ?thesis using pos by (auto simp: scan_raw_token_def r placed_def split: option.splits)
qed

lemma placed_scan_underscore [placed_cases]: "placed source (scan_underscore source index line column)"
  by (simp add: scan_underscore_def Let_def)

lemma placed_scan_identifier [placed_cases]:
  assumes "index < length source" "(line, column) = offset_position source index"
  shows "placed source (scan_identifier source index line column)"
proof -
  have "plain source index (skip_while is_identifier_part source index)"
    by (rule skip_while_plain) (rule identifier_part_plain)
  from placed_plain [OF this skip_while_ge _ assms(2)] assms(1) show ?thesis
    by (simp add: scan_identifier_def Let_def skip_while_le)
qed

lemma placed_scan_number_token [placed_cases]:
  assumes "index < length source" "is_decimal_digit (source ! index)"
    and pos: "(line, column) = offset_position source index"
  shows "placed source (scan_number_token source index line column)"
proof -
  obtain t e d where n: "scan_number source index line column = (t, e, d)" by (metis prod_cases3)
  from scan_number_ok [OF assms(1,2), of line column] n
  have ok: "number_token_ok source index line column (t, e, d)" by simp
  show ?thesis
  proof (cases d)
    case None
    with ok have "t = new_token (tk_kind t) (substring source index e) index line column \<and> tk_kind t \<noteq> T_EOF"
      by (auto simp: number_token_ok_def)
    moreover define k where "k = tk_kind t"
    ultimately have k: "k \<noteq> T_EOF" "t = new_token k (substring source index e) index line column"
        "index < e" "e \<le> length source"
      using ok by (simp_all add: number_token_ok_def)
    from placed_plain [OF scan_number_plain [OF n [unfolded None]] _ k(4) pos] k None show ?thesis
      by (simp add: scan_number_token_def n)
  qed (simp add: scan_number_token_def n)
qed

lemma placed_scan_leading_dot_number [placed_cases]:
  "placed source (scan_leading_dot_number source index line column)"
  by (simp add: scan_leading_dot_number_def Let_def)

lemma placed_emit:
  assumes "at source index a" "(line, column) = offset_position source index" "a \<noteq> LF \<and> a \<noteq> CR"
  shows "placed source (emit_fixed k [a] index line column)"
    "at source (index + 1) b \<Longrightarrow> b \<noteq> LF \<and> b \<noteq> CR \<Longrightarrow> placed source (emit_fixed k [a, b] index line column)"
    "at source (index + 1) b \<Longrightarrow> at source (index + 2) c \<Longrightarrow> b \<noteq> LF \<and> b \<noteq> CR \<Longrightarrow> c \<noteq> LF \<and> c \<noteq> CR
      \<Longrightarrow> placed source (emit_fixed k [a, b, c] index line column)"
proof -
  have 1: "(line, column + 1) = offset_position source (index + 1)"
    using step_position [OF at_less [OF assms(1)] _ _ assms(2)] assms by (simp add: at_def)
  then show "placed source (emit_fixed k [a] index line column)"
    using assms(2) by (simp add: emit_fixed_def placed_def)
  assume b: "at source (index + 1) b" "b \<noteq> LF \<and> b \<noteq> CR"
  have 2: "(line, column + 2) = offset_position source (index + 2)"
    using step_position [OF at_less [OF b(1)] _ _ 1] b by (simp add: at_def)
  then show "placed source (emit_fixed k [a, b] index line column)"
    using assms(2) by (simp add: emit_fixed_def placed_def)
  assume c: "at source (index + 2) c" "c \<noteq> LF \<and> c \<noteq> CR"
  have "(line, column + 3) = offset_position source (index + 3)"
    using step_position [OF at_less [OF c(1)] _ _ 2] c by (simp add: at_def numeral_3_eq_3)
  then show "placed source (emit_fixed k [a, b, c] index line column)"
    using assms(2) by (simp add: emit_fixed_def placed_def numeral_3_eq_3)
qed

lemma placed_operators [placed_cases]:
  assumes "(line, column) = offset_position source index"
  shows "at source index (CHR ''!'') \<Longrightarrow> placed source (scan_bang source index line column)"
    "at source index (CHR ''='') \<Longrightarrow> placed source (scan_equal source index line column)"
    "at source index (CHR ''<'') \<Longrightarrow> placed source (scan_less source index line column)"
    "at source index (CHR ''>'') \<Longrightarrow> placed source (scan_greater source index line column)"
    "at source index (CHR ''.'') \<Longrightarrow> placed source (scan_dot source index line column)"
  unfolding scan_bang_def scan_equal_def scan_less_def scan_greater_def scan_dot_def
  using assms by (simp_all add: placed_emit)

lemma placed_scan_angle_header [placed_cases]:
  assumes "at source index (CHR ''<'')" and pos: "(line, column) = offset_position source index"
  shows "placed source (scan_angle_header source index line column)"
proof -
  obtain t b i c where l: "angle_header_loop source (index + 1) (column + 1) False = (t, b, i, c)"
    by (metis prod_cases4)
  have i: "i \<le> length source" using angle_header_loop_bounds [OF l] at_less [OF assms(1)] by simp
  show ?thesis
  proof (cases "t \<and> \<not> b")
    case True
    with angle_header_loop_plain [of source "index + 1" "column + 1" False b i c] l
    have p: "plain source (index + 1) i" "index + 1 \<le> i" "c = column + (i - index)" by auto
    have "plain source index i"
      using p(1) assms(1) by (intro plain_extend [of source index i]) (auto simp: at_def)
    from placed_plain [OF this _ i pos] p True show ?thesis by (simp add: scan_angle_header_def l [simplified])
  next
    case False
    then show ?thesis by (auto simp: scan_angle_header_def l [simplified] placed_def)
  qed
qed

lemma placed_scan_quoted_path:
  assumes "at source index DQUOTE" and pos: "(line, column) = offset_position source index"
  shows "placed source (scan_quoted_path k m n source index line column)"
proof -
  obtain t i c where l: "quoted_path_loop source (index + 1) (column + 1) = (t, i, c)"
    by (metis prod_cases3)
  have i: "i \<le> length source" using quoted_path_loop_bounds [OF l] at_less [OF assms(1)] by simp
  show ?thesis
  proof (cases t)
    case True
    with quoted_path_loop_plain [of source "index + 1" "column + 1" i c] l
    have p: "plain source (index + 1) i" "index + 1 \<le> i" "c = column + (i - index)" by auto
    have "plain source index i"
      using p(1) assms(1) by (intro plain_extend [of source index i]) (auto simp: at_def)
    from placed_plain [OF this _ i pos] p True show ?thesis
      by (simp add: scan_quoted_path_def l [simplified] Let_def)
  next
    case False
    then show ?thesis by (simp add: scan_quoted_path_def l [simplified] Let_def)
  qed
qed

lemma placed_paths [placed_cases]:
  assumes "at source index DQUOTE" "(line, column) = offset_position source index"
  shows "placed source (scan_quoted_header source index line column)"
    "placed source (scan_module_path source index line column)"
  unfolding scan_quoted_header_def scan_module_path_def
  using assms by (simp_all add: placed_scan_quoted_path)

section \<open>The contract and its clients\<close>

locale positioned_scanner = scanner_contract +
  assumes places:
    "no_lone_cr source \<Longrightarrow> index < length source \<Longrightarrow> (line, column) = offset_position source index \<Longrightarrow>
       scan source index line column p b t = Some out \<Longrightarrow> placed source out"
begin

lemma placed_scan_step:
  assumes "no_lone_cr source" "index < length source" "placed source (tokens, diags, index, line, column)"
    "scan source index line column p b t = Some (ts, ds, i, l, c)"
  shows "placed source (tokens @ ts, diags @ ds, i, l, c)"
  using assms places [OF assms(1,2) _ assms(4)] by (auto simp: placed_def)

lemma expr_loop_placed:
  assumes "no_lone_cr source" "index \<le> length source" "placed source (tokens, diags, index, line, column)"
    "interp_expr_loop scan source index line column d p tokens diags = Some (closed, out)"
  shows "placed source out"
  using assms
proof (induction "length source - index" arbitrary: index line column d p tokens diags rule: less_induct)
  case less
  note eq = interp_expr_loop.simps [of scan source index line column d p tokens diags]
  show ?case
  proof (cases "index < length source")
    case False
    with less.prems eq show ?thesis by auto
  next
    case here: True
    show ?thesis
    proof (cases "source ! index = CHR ''}'' \<and> at source (index + 1) (CHR ''}'') \<and> d = 0")
      case True
      have "(line, column + 2) = offset_position source (index + 2)" if "(line, column) = offset_position source index"
      proof -
        from True have "(line, column + 1) = offset_position source (index + 1)"
          using step_position [OF here _ _ that] by simp
        with True show ?thesis
          using step_position [of "index + 1" source line "column + 1"] by (auto simp: at_def)
      qed
      with True here eq less.prems show ?thesis by (auto simp: placed_def)
    next
      case False
      obtain ts ds i l c where scan: "scan source index line column p zero_token zero_token = Some (ts, ds, i, l, c)"
          "index < i" "i \<le> length source"
        by (rule advancesE [OF here])
      have "interp_expr_loop scan source i l c (foldl depth_step d ts) (if ts = [] then p else last ts)
          (tokens @ ts) (diags @ ds) = Some (closed, out)"
        using eq here False scan(1,2) less.prems(4) by auto
      moreover have "placed source (tokens @ ts, diags @ ds, i, l, c)"
        using placed_scan_step [OF less.prems(1) here less.prems(3) scan(1)] .
      ultimately show ?thesis using less.hyps less.prems(1) scan(2,3) here by (metis diff_less_mono2)
    qed
  qed
qed

lemma segments_placed:
  assumes "no_lone_cr source" "at source start DQUOTE" "start < index" "index \<le> length source"
    "\<not> interpolating \<longrightarrow> tokens = [] \<and> index = start + 1"
    "(line, column) = offset_position source start" "placed source (tokens, diags, index, cl, cc)"
    "interp_segments scan source start line column index cl cc interpolating tokens diags = Some out"
  shows "placed source out"
  using assms
proof (induction "length source - index" arbitrary: index cl cc interpolating tokens diags rule: less_induct)
  case less
  note eq = interp_segments.simps [of scan source start line column index cl cc interpolating tokens diags]
  obtain stop i l c where seg: "string_text_loop source index cl cc = (stop, i, l, c)" by (metis prod_cases4)
  note ok = string_text_loop_cases [OF seg less.prems(4)]
  then have i: "index \<le> i" "i \<le> length source" by (auto simp: segment_ok_def)
  note run = less.prems(8) [unfolded eq seg prod.case]
  have moved: "(l, cc + (j - index)) = offset_position source j"
    if "plain source index i" "l = cl" "index \<le> j" "j \<le> i" "diags = []" for j
  proof -
    have "(cl, cc) = offset_position source index" using less.prems(7) that(5) by (simp add: placed_def)
    from plain_position [OF plain_sub [OF that(1)] that(3) _ this] that i show ?thesis by simp
  qed
  show ?case
  proof (cases stop)
    case (StopNewline n)
    then show ?thesis using run by (auto simp: placed_def split: prod.splits)
  next
    case StopEnd
    then show ?thesis using run by (auto simp: placed_def split: if_splits)
  next
    case StopQuote
    then have q: "plain source index i" "l = cl" "c = cc + (i - index)" "index < i" using ok by (auto simp: segment_ok_def)
    from q have "c - 1 = cc + (i - 1 - index)" by simp
    with q run StopQuote moved [of i] moved [of "i - 1"] less.prems(6,7) i show ?thesis
      by (auto simp: placed_def split: if_splits)
  next
    case StopInterpolation
    then have b: "at source i (CHR ''{'')" "at source (i + 1) (CHR ''{'')" "plain source index i" "l = cl"
        "c = cc + (i - index)"
      using ok by (auto simp: segment_ok_def)
    then have i2: "i + 2 \<le> length source" by (auto dest: at_less)
    define opened where "opened = tokens @
      (if interpolating then [] else [new_token T_InterpStringStart [DQUOTE] start line column]) @
      [new_token T_InterpText (substring source index i) index cl cc, new_token T_InterpOpen ''{{'' i l c]"
    have here: "(l, c) = offset_position source i" if "diags = []"
      using moved [of i] b i that by simp
    then have "(l, c + 2) = offset_position source (i + 2)" if "diags = []"
      using that step_position [of i source l c] step_position [of "i + 1" source l "c + 1"] b(1,2)
      by (auto simp: at_def)
    with here have opened: "placed source (opened, diags, i + 2, l, c + 2)"
      using less.prems(6,7) by (auto simp: opened_def placed_def)
    obtain cl' ts ds j m n where e: "interp_expr_loop scan source (i + 2) l (c + 2) 0 zero_token opened diags =
        Some (cl', ts, ds, j, m, n)"
      using run StopInterpolation unfolding opened_def by (auto simp: Let_def split: option.splits)
    have rest: "placed source (ts, ds, j, m, n)" by (rule expr_loop_placed [OF less.prems(1) i2 opened e])
    show ?thesis
    proof (cases cl')
      case False
      with run StopInterpolation e show ?thesis
        unfolding opened_def by (auto simp: placed_def Let_def)
    next
      case True
      with run StopInterpolation e i have j: "j \<le> length source" "index < j"
          "interp_segments scan source start line column j m n True ts ds = Some out"
        unfolding opened_def by (auto split: if_splits simp: Let_def)
      show ?thesis using less.hyps [of j True ts ds m n] j rest less.prems by simp
    qed
  qed
qed

lemma loop_placed:
  assumes "no_lone_cr source" "index \<le> length source" "placed source (tokens, diags, index, line, column)"
    "lex_loop scan source index line column p b t tokens diags = Some out"
  shows "placed source out"
  using assms
proof (induction "length source - index" arbitrary: index line column p b t tokens diags rule: less_induct)
  case less
  note eq = lex_loop.simps [of scan source index line column p b t tokens diags]
  show ?case
  proof (cases "index < length source")
    case False
    with less.prems eq show ?thesis by auto
  next
    case True
    obtain ts ds i l c where scan: "scan source index line column p b t = Some (ts, ds, i, l, c)"
        "index < i" "i \<le> length source"
      by (rule advancesE [OF True])
    have "lex_loop scan source i l c (if ts = [] then p else last ts) (if ts = [] then b else p)
        (if ts = [] then t else b) (tokens @ ts) (diags @ ds) = Some out"
      using eq True scan(1,2) less.prems(4) by (auto split: if_splits)
    moreover have "placed source (tokens @ ts, diags @ ds, i, l, c)"
      using placed_scan_step [OF less.prems(1) True less.prems(3) scan(1)] .
    ultimately show ?thesis using less.hyps less.prems(1) scan(2,3) True by (metis diff_less_mono2)
  qed
qed

lemma string_placed:
  assumes "no_lone_cr source" "at source start DQUOTE" "(line, column) = offset_position source start"
    "lex_interpreted_string depth scan source start line column = Some out"
  shows "placed source out"
proof (cases "depth > max_interpolation_depth")
  case True
  with assms(4) show ?thesis by (auto simp: lex_interpreted_string_def placed_def split: prod.splits)
next
  case False
  have start: "start < length source" using at_less [OF assms(2)] .
  have "placed source ([], [], start + 1, line, column + 1)"
    using step_position [OF start _ _ assms(3)] assms(2) by (simp add: placed_def at_def)
  moreover have "interp_segments scan source start line column (start + 1) line (column + 1) False [] [] = Some out"
    using False assms(4) unfolding lex_interpreted_string_def by (simp only: if_False)
  ultimately show ?thesis
    using segments_placed [of source start "start + 1" False "[]" line column "[]" line "column + 1" out] assms start
    by simp
qed

end

section \<open>scanToken meets the contract\<close>

definition places_to :: "string \<Rightarrow> scan_result \<Rightarrow> bool" where
  "places_to source r \<longleftrightarrow> (\<forall>out. r = Some out \<longrightarrow> placed source out)"

lemma places_Some: "placed source out \<Longrightarrow> places_to source (Some out)"
  by (simp add: places_to_def)

lemma places_if:
  "(c \<Longrightarrow> places_to source x) \<Longrightarrow> (\<not> c \<Longrightarrow> places_to source y) \<Longrightarrow> places_to source (if c then x else y)"
  by simp

lemma placed_blank:
  assumes "index < length source" "(l, c) = offset_position source index"
  shows "source ! index \<noteq> LF \<Longrightarrow> source ! index \<noteq> CR \<Longrightarrow> placed source ([], ds, index + 1, l, c + 1)"
    "source ! index = CR \<Longrightarrow> placed source ([], ds, break_end source index, l + 1, 1)"
    "source ! index = LF \<Longrightarrow> placed source ([], ds, index + 1, l + 1, 1)"
proof -
  assume "source ! index \<noteq> LF" "source ! index \<noteq> CR"
  with step_position [OF assms(1) _ _ assms(2)] show "placed source ([], ds, index + 1, l, c + 1)"
    by (simp add: placed_def)
next
  assume "source ! index = CR"
  with break_position [OF assms(1) _ assms(2)] show "placed source ([], ds, break_end source index, l + 1, 1)"
    by (simp add: placed_def)
next
  assume "source ! index = LF"
  with break_position [OF assms(1) _ assms(2)] show "placed source ([], ds, index + 1, l + 1, 1)"
    by (simp add: placed_def break_end_def)
qed

lemma single_tokens_plain: "map_of single_tokens ch = Some k \<Longrightarrow> ch \<noteq> LF \<and> ch \<noteq> CR"
proof -
  have "list_all (\<lambda>(c, k). c \<noteq> LF \<and> c \<noteq> CR) single_tokens" by code_simp
  then show "map_of single_tokens ch = Some k \<Longrightarrow> ch \<noteq> LF \<and> ch \<noteq> CR"
    by (auto simp: list_all_iff dest!: map_of_SomeD)
qed

lemma scan_switch_placed:
  assumes cr: "no_lone_cr source"
    and str: "at source index DQUOTE \<Longrightarrow> places_to source (lex_string source index line column)"
    and i: "index < length source" and pos: "(line, column) = offset_position source index"
  shows "places_to source (scan_switch lex_string source index line column p b t)"
proof -
  have here: "source ! index = c \<Longrightarrow> at source index c" for c using i by (simp add: at_def)
  have raw: "placed source (scan_raw_token source index line column (the (raw_string_opens source (index + 1))))"
    if "source ! index = CHR ''r''" "raw_string_opens source (index + 1) \<noteq> None"
    using that placed_scan_raw_token [OF here [OF that(1)] _ pos] by auto
  have quote: "places_to source (scan_double_quote lex_string source index line column p b t)"
    if "source ! index = DQUOTE"
    using str here [OF that] pos by (simp add: scan_double_quote_def places_Some placed_paths)
  have single: "places_to source (case map_of single_tokens (source ! index) of
        Some kind \<Rightarrow> Some (emit_fixed kind [source ! index] index line column)
      | None \<Rightarrow> Some ([], [unexpected_character_diagnostic line column (source ! index)], index + 1, line, column + 1))"
    using placed_emit(1) [OF here [OF refl] pos single_tokens_plain]
    by (auto split: option.splits intro!: places_Some)
  have angle: "placed source
      (if is_c_header_position p b t line then scan_angle_header source index line column
       else scan_less source index line column)" if "source ! index = CHR ''<''"
    using here [OF that] pos by (simp add: placed_cases)
  have comment: "placed source (scan_comment source index line column)"
    if "source ! index = CHR ''-'' \<and> at source (index + 1) (CHR ''-'')"
    using that by (intro placed_scan_comment here cr pos) auto
  have byte: "placed source (scan_byte_literal source index line column)"
    if "source ! index = CHR ''b'' \<and> at source (index + 1) SQUOTE"
    using that by (intro placed_scan_byte_literal here pos) auto
  have blank: "placed source ([], [], index + 1, line, column + 1)"
    if "source ! index = CHR '' '' \<or> source ! index = TAB"
    using that by (intro placed_blank(1) [OF i pos]) auto
  show ?thesis
    unfolding scan_switch_def Let_def
    by (intro places_if places_Some)
      (use i raw quote single angle comment byte pos blank placed_blank(2,3) [OF i pos] in \<open>simp_all add: placed_cases placed_emit here\<close>)
qed

theorem scan_token_positioned: "positioned_scanner (scan_token depth)"
proof (induction "max_interpolation_depth + 1 - depth" arbitrary: depth rule: less_induct)
  case less
  let ?nested = "if depth \<le> max_interpolation_depth then scan_token (depth + 1) else (\<lambda>_ _ _ _ _ _ _. None)"
  have str: "places_to source (lex_interpreted_string depth ?nested source start line column)"
    if q: "at source start DQUOTE" "no_lone_cr source" "(line, column) = offset_position source start"
    for source start line column
  proof (cases "depth \<le> max_interpolation_depth")
    case True
    then have "positioned_scanner (scan_token (depth + 1))" by (intro less) simp
    with True positioned_scanner.string_placed [OF _ q(2,1,3)] show ?thesis by (simp add: places_to_def)
  next
    case False
    then show ?thesis
      by (auto simp: lex_interpreted_string_def placed_def places_to_def split: prod.splits)
  qed
  show ?case
  proof
    fix source :: string and index line column p b t out
    assume a: "no_lone_cr source" "index < length source" "(line, column) = offset_position source index"
      "scan_token depth source index line column p b t = Some out"
    have "places_to source (scan_token depth source index line column p b t)"
      unfolding scan_token.simps [of depth] using a by (intro scan_switch_placed str) auto
    with a(4) show "placed source out" by (simp add: places_to_def)
  qed
qed

interpretation scan: positioned_scanner "scan_token depth" for depth
  by (rule scan_token_positioned)

end
