(* ===== verification/LexerProps.thy ===== *)
theory LexerProps
  imports LexerPositions
begin

text \<open>
  The properties of the lexer that its users rely on: it always returns, its tokens are the
  source's slices in order, an end-of-input token closes them and only it has that kind in a
  clean source, the counters agree with the span table, identifiers take the longest match and
  raw strings take their content verbatim.
\<close>

section \<open>Stamping\<close>

lemma stamp_file_simps [simp]:
  "tk_kind (stamp_file f t) = tk_kind t" "tk_lexeme (stamp_file f t) = tk_lexeme t"
  "sp_start (tk_span (stamp_file f t)) = sp_start (tk_span t)"
  "sp_end (tk_span (stamp_file f t)) = sp_end (tk_span t)"
  "sp_file (tk_span (stamp_file f t)) = f"
  "tk_line (stamp_file f t) = tk_line t" "tk_column (stamp_file f t) = tk_column t"
  by (simp_all add: stamp_file_def)

lemma tokens_within_stamp [simp]:
  "tokens_within source i j (map (stamp_file f) ts) \<longleftrightarrow> tokens_within source i j ts"
  by (induction ts arbitrary: i) auto

lemma token_placed_stamp [simp]: "token_placed source (stamp_file f t) \<longleftrightarrow> token_placed source t"
  by (simp add: token_placed_def)

lemma lex_placed:
  assumes "lex file source = Some (ts, [])" "no_lone_cr source" "t \<in> set ts"
  shows "token_placed source t \<and> sp_file (tk_span t) = file"
proof -
  obtain body i l c where run: "lex_loop (scan_token 0) source 0 1 1 zero_token zero_token zero_token [] [] =
      Some (body, [], i, l, c)"
      and ts: "ts = map (stamp_file file) (body @ [new_token T_EOF [] (length source) l c])"
    using assms(1) by (auto simp: lex_def split: option.splits prod.splits)
  have i: "i = length source"
    using scan.loop_grown [of 0 source "[]" 0 1 1 zero_token zero_token zero_token "[]"] run by auto
  have "placed source ([], [], 0, 1, 1)" by (simp add: placed_def offset_position_0)
  then have "placed source (body, [], i, l, c)" using scan.loop_placed [OF assms(2) _ _ run] by simp
  then show ?thesis using assms(3) by (auto simp: placed_def ts i)
qed

section \<open>Maximal munch and raw content\<close>

lemma skip_while_exact:
  assumes "i \<le> j" "j \<le> length source" "\<And>k. i \<le> k \<Longrightarrow> k < j \<Longrightarrow> p (source ! k)"
    "j < length source \<Longrightarrow> \<not> p (source ! j)"
  shows "skip_while p source i = j"
proof (rule ccontr)
  assume "skip_while p source i \<noteq> j"
  then consider "skip_while p source i < j" | "j < skip_while p source i" by linarith
  then show False
  proof cases
    case 1
    with assms skip_while_stop [of p source i] skip_while_ge [of i p source] show False by auto
  next
    case 2
    with assms skip_while_all [of i j p source] show False by auto
  qed
qed

lemma identifier_part_neq:
  "is_identifier_part c \<Longrightarrow> c \<noteq> SQUOTE \<and> c \<noteq> DQUOTE \<and> c \<noteq> CHR ''#''"
  by (auto simp: is_identifier_part_def is_identifier_start_def byte_between_def)

lemma identifier_start_neq:
  "is_identifier_start c \<Longrightarrow> c \<notin> {CHR '' '', TAB, CR, LF, CHR ''-'', SQUOTE, CHR ''_''}"
  by (auto simp: is_identifier_start_def byte_between_def)

text \<open>The number of hashes a text begins with.\<close>

definition hash_run :: "string \<Rightarrow> nat" where
  "hash_run s = length (takeWhile (\<lambda>c. c = CHR ''#'') s)"

lemma skip_hash_run:
  "i \<le> length source \<Longrightarrow> skip_while (\<lambda>c. c = CHR ''#'') source i = i + hash_run (drop i source)"
proof (induction "length source - i" arbitrary: i)
  case 0
  then show ?case by (subst skip_while.simps) (simp add: hash_run_def)
next
  case (Suc n)
  then have i: "i < length source" by simp
  with Suc have "skip_while (\<lambda>c. c = CHR ''#'') source (Suc i) = Suc i + hash_run (drop (Suc i) source)" by simp
  with i show ?case
    by (subst skip_while.simps) (simp add: hash_run_def Cons_nth_drop_Suc [symmetric])
qed

lemma close_hashes_run: "i < length source \<Longrightarrow> close_hashes source i = hash_run (drop (i + 1) source)"
  using skip_hash_run [of "i + 1" source] by (simp add: close_hashes_def)

lemma hash_run_replicate: "hash_run (replicate h (CHR ''#'') @ s) = h + hash_run s"
  by (induction h) (auto simp: hash_run_def)

lemma hash_run_stop: "hash_run (s @ DQUOTE # t) = hash_run s"
proof (induction s)
  case (Cons c s)
  then show ?case by (simp add: hash_run_def)
qed (simp add: hash_run_def)

text \<open>No quote of the content is followed by as many hashes as close the literal.\<close>

definition raw_content_ok :: "nat \<Rightarrow> string \<Rightarrow> bool" where
  "raw_content_ok h content \<longleftrightarrow>
     list_all (\<lambda>k. content ! k = DQUOTE \<longrightarrow> hash_run (drop (Suc k) content) < h) [0..<length content]"

lemma raw_loop_content:
  assumes "raw_content_ok h content" "drop base source = content @ DQUOTE # replicate h (CHR ''#'') @ rest"
    "base \<le> index" "index \<le> base + length content"
    "t = new_token T_RawStringLiteral (substring source start (base + length content + 1 + h)) start line column"
  shows "\<exists>l c. raw_string_loop source start line column h index cl cc =
      (t, base + length content + 1 + h, l, c, None)"
  using assms(3,4)
proof (induction "base + length content - index" arbitrary: index cl cc rule: less_induct)
  case less
  note eq = raw_string_loop.simps [of source start line column h index cl cc]
  let ?close = "base + length content"
  have len: "?close + 1 + h \<le> length source"
    using drop_append_length [of base source "content @ DQUOTE # replicate h (CHR ''#'')" rest] assms(2) by simp
  have il: "index < length source" using less.prems len by linarith
  show ?case
  proof (cases "index = ?close")
    case True
    have d: "drop ?close source = [DQUOTE] @ replicate h (CHR ''#'') @ rest"
      using drop_shift [of base source content] assms(2) by simp
    have "source ! index = DQUOTE" using drop_append_nth [OF d, of 0] True by simp
    moreover have "drop (index + 1) source = replicate h (CHR ''#'') @ rest"
      using drop_shift [OF d] True by simp
    then have "h \<le> close_hashes source index" using close_hashes_run [OF il] by (simp add: hash_run_replicate)
    ultimately show ?thesis using il True eq assms(5) by (auto simp: Let_def)
  next
    case False
    define k where "k = index - base"
    have k: "k < length content" "index = base + k" using False less.prems by (auto simp: k_def)
    have ck: "source ! index = content ! k" using drop_append_nth [OF assms(2) k(1)] k(2) by simp
    have "drop (index + 1) source = drop (Suc k) (drop base source)" using k(2) by (simp add: add.commute)
    then have "close_hashes source index = hash_run (drop (Suc k) content)"
      using close_hashes_run [OF il] assms(2) k(1) hash_run_stop by simp
    then have noclose: "\<not> (source ! index = DQUOTE \<and> close_hashes source index \<ge> h)"
      using assms(1) k(1) ck by (auto simp: raw_content_ok_def list_all_iff)
    show ?thesis
    proof (cases "source ! index = CR \<or> source ! index = LF")
      case True
      have "break_end source index \<le> ?close"
      proof (rule ccontr)
        assume "\<not> break_end source index \<le> ?close"
        then have "at source (index + 1) LF" "index + 1 = ?close"
          using k False less.prems by (auto simp: break_end_def split: if_splits)
        moreover have "source ! ?close = DQUOTE"
          using drop_append_nth [of base source "content @ [DQUOTE]" "replicate h (CHR ''#'') @ rest" "length content"]
            assms(2) by simp
        ultimately show False by (simp add: at_def)
      qed
      moreover have "index < break_end source index" using break_end_bounds [OF il] by simp
      ultimately have "\<exists>l c. raw_string_loop source start line column h (break_end source index) (cl + 1) 1 =
          (t, base + length content + 1 + h, l, c, None)"
        using less.prems False by (intro less.hyps) simp_all
      with il True eq show ?thesis by auto
    next
      case f: False
      have "\<exists>l c. raw_string_loop source start line column h (index + 1) cl (cc + 1) =
          (t, base + length content + 1 + h, l, c, None)"
        using less.prems False by (intro less.hyps) simp_all
      with il noclose f eq show ?thesis by auto
    qed
  qed
qed

section \<open>Properties\<close>

text \<open>
  C1. Lexing any source returns: the tokens are slices of the source, in order and without
  overlap, each lexeme being the bytes of its span; an end-of-input token at the source's end
  follows them; every token carries the file's name.
\<close>

theorem lex_returns_slices:
  "\<exists>body eof ds. lex file source = Some (body @ [eof], ds) \<and>
     tokens_within source 0 (length source) body \<and>
     tk_kind eof = T_EOF \<and> tk_lexeme eof = [] \<and>
     sp_start (tk_span eof) = int (length source) \<and> sp_end (tk_span eof) = int (length source) \<and>
     list_all (\<lambda>t. sp_file (tk_span t) = file) (body @ [eof])"
proof -
  obtain ts ds l c where "lex file source =
      Some (map (stamp_file file) (ts @ [new_token T_EOF [] (length source) l c]), ds)"
      "tokens_within source 0 (length source) ts"
    using lex_total by blast
  then show ?thesis by (auto simp: list_all_iff)
qed

text \<open>
  In a source without diagnostics the end-of-input kind occurs only at the end, so a parser
  that stops at the first such token has read everything.
\<close>

theorem lex_single_eof:
  assumes "lex file source = Some (ts, [])"
  shows "ts \<noteq> [] \<and> tk_kind (last ts) = T_EOF \<and> list_all (\<lambda>t. tk_kind t \<noteq> T_EOF) (butlast ts)"
  using assms lex_total [of "file" source] by (auto simp: list_all_iff)

theorem lex_single_eof_witness:
  "tk_kind (last (fst (the (lex ''m'' ''let x'')))) = T_EOF"
proof -
  have "\<exists>ts. lex ''m'' ''let x'' = Some (ts, [])"
  proof -
    have "map_option snd (lex ''m'' ''let x'') = Some []" by code_simp
    then show ?thesis by (cases "lex ''m'' ''let x''") auto
  qed
  then obtain ts where "lex ''m'' ''let x'' = Some (ts, [])" by blast
  then show ?thesis using lex_single_eof [of "''m''" "''let x''" ts] by simp
qed

text \<open>
  C32. In a source without diagnostics whose carriage returns are all part of a CRLF pair, the
  line and column a token carries are those the span table gives for its span.
\<close>

theorem lex_positions_agree:
  assumes "lex file source = Some (ts, [])" "no_lone_cr source" "t \<in> set ts"
  shows "table_position (table_add table file source) (tk_span t) =
    \<lparr>pos_line = int (tk_line t), pos_column = int (tk_column t)\<rparr>"
proof -
  obtain body where ts: "tokens_within source 0 (length source) body" "\<exists>l c. ts =
      map (stamp_file file) (body @ [new_token T_EOF [] (length source) l c])"
    using assms(1) lex_total [of "file" source] by auto
  have nonneg: "0 \<le> sp_start (tk_span u)" if "u \<in> set xs" "tokens_within source i j xs" for u xs i j
    using that by (induction xs arbitrary: i) force+
  have start: "0 \<le> sp_start (tk_span t)" using ts assms(3) nonneg [OF _ ts(1)] by auto
  have t: "token_placed source t" "sp_file (tk_span t) = file" using lex_placed [OF assms] by auto
  have "tk_span t = \<lparr>sp_file = file, sp_start = int (nat (sp_start (tk_span t))), sp_end = sp_end (tk_span t)\<rparr>"
    using start t(2) by (cases "tk_span t") simp
  then have "table_position (table_add table file source) (tk_span t) =
      (let (l, c) = offset_position source (nat (sp_start (tk_span t)))
       in \<lparr>pos_line = int l, pos_column = int c\<rparr>)"
    by (metis table_position_offset)
  with t(1) show ?thesis by (simp add: token_placed_def Let_def split: prod.splits)
qed

theorem lex_positions_agree_witness:
  "table_position (table_add new_table ''m'' [CHR ''a'', CR, LF, CHR ''b''])
     \<lparr>sp_file = ''m'', sp_start = 3, sp_end = 4\<rparr> = \<lparr>pos_line = 2, pos_column = 1\<rparr>"
proof -
  let ?src = "[CHR ''a'', CR, LF, CHR ''b'']"
  define t where "t = \<lparr>tk_kind = T_Identifier, tk_lexeme = ''b'',
    tk_span = \<lparr>sp_file = ''m'', sp_start = 3, sp_end = 4\<rparr>, tk_line = 2, tk_column = 1\<rparr>"
  have "map_option snd (lex ''m'' ?src) = Some []" "map_option (\<lambda>r. fst r ! 1) (lex ''m'' ?src) = Some t"
      "map_option (length \<circ> fst) (lex ''m'' ?src) = Some 3"
    unfolding t_def by code_simp+
  then obtain ts where ts: "lex ''m'' ?src = Some (ts, [])" "ts ! 1 = t" "length ts = 3"
    by (cases "lex ''m'' ?src") auto
  moreover from ts(2,3) have "t \<in> set ts" by (metis nth_mem one_less_numeral_iff semiring_norm(77))
  moreover have "no_lone_cr ?src" by code_simp
  ultimately show ?thesis using lex_positions_agree [of "''m''" ?src ts t new_table] by (simp add: t_def)
qed

text \<open>
  The condition on carriage returns is needed: in a line comment a lone carriage return
  is comment text to the lexer but a line break to the span table, so a clean source can have a
  token whose counters and span resolve to different positions.
\<close>

theorem lex_lone_cr_disagrees:
  "\<exists>t. lex ''m'' (''--'' @ [CR] @ ''x'') = Some ([t], []) \<and> (tk_line t, tk_column t) = (1, 5) \<and>
     table_position (table_add new_table ''m'' (''--'' @ [CR] @ ''x'')) (tk_span t) =
       \<lparr>pos_line = 2, pos_column = 2\<rparr>"
proof -
  define t where "t = \<lparr>tk_kind = T_EOF, tk_lexeme = [],
    tk_span = \<lparr>sp_file = ''m'', sp_start = 4, sp_end = 4\<rparr>, tk_line = 1, tk_column = 5\<rparr>"
  have "lex ''m'' (''--'' @ [CR] @ ''x'') = Some ([t], [])" unfolding t_def by code_simp
  moreover have "table_position (table_add new_table ''m'' (''--'' @ [CR] @ ''x'')) (tk_span t) =
      \<lparr>pos_line = 2, pos_column = 2\<rparr>" unfolding t_def by code_simp
  ultimately show ?thesis by (auto simp: t_def)
qed

text \<open>
  Longest match: at a letter, the scanner's next token is the whole run of identifier bytes,
  a keyword when the table has the run and an identifier otherwise, unless the letter opens a
  Byte literal or a raw string.
\<close>

theorem scan_identifier_longest:
  assumes "i < j" "j \<le> length source" "is_identifier_start (source ! i)"
    "list_all (\<lambda>k. is_identifier_part (source ! k)) [i..<j]"
    "\<not> is_identifier_part_at source j"
    "\<not> (source ! i = CHR ''b'' \<and> at source (i + 1) SQUOTE)"
    "\<not> (source ! i = CHR ''r'' \<and> raw_string_opens source (i + 1) \<noteq> None)"
  shows "scan_token depth source i line column p b t =
    (let w = substring source i j; k = (case keyword_table w of Some k \<Rightarrow> k | None \<Rightarrow> T_Identifier)
     in Some ([new_token k w i line column], [], j, line, column + (j - i)))"
proof -
  have "skip_while is_identifier_part source i = j"
    using assms by (intro skip_while_exact) (auto simp: list_all_iff is_identifier_part_at_def)
  moreover have "scan_token depth source i line column p b t = Some (scan_identifier source i line column)"
    unfolding scan_token.simps [of depth] scan_switch_def Let_def
    using assms(3,6,7) identifier_start_neq [OF assms(3)] by auto
  ultimately show ?thesis by (simp add: scan_identifier_def Let_def)
qed

theorem scan_identifier_longest_witness:
  "scan_token 0 ''elseif1 '' 0 1 1 zero_token zero_token zero_token =
     Some ([new_token T_Identifier ''elseif1'' 0 1 1], [], 7, 1, 8)"
proof -
  have c: "is_identifier_start (''elseif1 '' ! 0)"
    "list_all (\<lambda>k. is_identifier_part (''elseif1 '' ! k)) [0..<7]" "\<not> is_identifier_part_at ''elseif1 '' 7"
    by code_simp+
  have l: "substring ''elseif1 '' 0 7 = ''elseif1''" by code_simp
  have k: "keyword_table ''elseif1'' = None" by (simp add: keyword_table_def keyword_list_def)
  show ?thesis
    using scan_identifier_longest [OF _ _ c, of 0 1 1 zero_token zero_token zero_token]
    by (simp add: l k)
qed

text \<open>
  C28. A raw string takes its content verbatim: when no quote of the content is followed by as
  many hashes as the delimiters have, the token is exactly the literal, with no diagnostic,
  whatever bytes and escapes the content holds and whatever follows.
\<close>

theorem raw_string_verbatim:
  assumes "raw_content_ok h content"
    "drop i source = CHR ''r'' # replicate h (CHR ''#'') @ DQUOTE # content @ DQUOTE # replicate h (CHR ''#'') @ rest"
  shows "\<exists>l c. scan_token depth source i line column p b t =
    Some ([new_token T_RawStringLiteral
             (CHR ''r'' # replicate h (CHR ''#'') @ DQUOTE # content @ DQUOTE # replicate h (CHR ''#''))
             i line column], [], i + length content + 2 * h + 3, l, c)"
proof -
  let ?open = "CHR ''r'' # replicate h (CHR ''#'') @ [DQUOTE]"
  let ?lit = "CHR ''r'' # replicate h (CHR ''#'') @ DQUOTE # content @ DQUOTE # replicate h (CHR ''#'')"
  let ?base = "i + 1 + h + 1"
  have d: "drop i source = ?lit @ rest" using assms(2) by simp
  have il: "i < length source" using drop_append_length [OF d] by simp
  have r: "source ! i = CHR ''r''" using drop_append_nth [OF d, of 0] by simp
  have d1: "drop (i + 1) source = replicate h (CHR ''#'') @ DQUOTE # content @ DQUOTE # replicate h (CHR ''#'') @ rest"
    using drop_shift [of i source "[CHR ''r'']"] assms(2) by simp
  have base: "drop ?base source = content @ DQUOTE # replicate h (CHR ''#'') @ rest"
    using drop_shift [of i source ?open "content @ DQUOTE # replicate h (CHR ''#'') @ rest"] assms(2) by simp
  have skip: "skip_while (\<lambda>c. c = CHR ''#'') source (i + 1) = i + 1 + h"
    using skip_hash_run [of "i + 1" source] il d1 hash_run_replicate [of h] hash_run_stop [of "[]"]
    by (simp add: hash_run_def)
  have "drop (i + 1 + h) source = [DQUOTE] @ content @ DQUOTE # replicate h (CHR ''#'') @ rest"
    using drop_shift [of "i + 1" source "replicate h (CHR ''#'')"] d1 by simp
  from drop_append_nth [OF this, of 0] drop_append_length [OF this]
  have opens: "raw_string_opens source (i + 1) = Some h"
    using skip by (simp add: raw_string_opens_def Let_def)
  have close: "?base + length content + 1 + h = i + length content + 2 * h + 3" by simp
  have "substring source i (i + length ?lit) = ?lit" using substring_drop_append [OF d] .
  then have lexeme: "substring source i (?base + length content + 1 + h) = ?lit"
    by (simp add: mult_2 numeral_3_eq_3 add.assoc)
  obtain l c where run: "scan_raw_string source i line column h =
      (new_token T_RawStringLiteral ?lit i line column, ?base + length content + 1 + h, l, c, None)"
    using raw_loop_content [OF assms(1) base _ _ refl, of ?base i line column line "column + 1 + h + 1"]
    unfolding scan_raw_string_def lexeme by auto
  have "scan_token depth source i line column p b t = Some (scan_raw_token source i line column h)"
    unfolding scan_token.simps [of depth] scan_switch_def Let_def using r opens by simp
  then show ?thesis using run close by (simp add: scan_raw_token_def)
qed

theorem raw_string_verbatim_witness:
  "\<exists>l c. scan_token 0 ([CHR ''r'', CHR ''#'', DQUOTE, CHR ''a'', DQUOTE, CHR ''b'', DQUOTE, CHR ''#''] @ ''+1'')
      0 1 1 zero_token zero_token zero_token =
    Some ([new_token T_RawStringLiteral
      [CHR ''r'', CHR ''#'', DQUOTE, CHR ''a'', DQUOTE, CHR ''b'', DQUOTE, CHR ''#''] 0 1 1], [], 8, l, c)"
proof -
  let ?content = "[CHR ''a'', DQUOTE, CHR ''b'']"
  have ok: "raw_content_ok 1 ?content" by code_simp
  have d: "drop 0 ([CHR ''r'', CHR ''#'', DQUOTE, CHR ''a'', DQUOTE, CHR ''b'', DQUOTE, CHR ''#''] @ ''+1'') =
      CHR ''r'' # replicate 1 (CHR ''#'') @ DQUOTE # ?content @ DQUOTE # replicate 1 (CHR ''#'') @ ''+1''"
    by simp
  from raw_string_verbatim [OF ok d, of 0 1 1 zero_token zero_token zero_token]
  show ?thesis by (simp add: eval_nat_numeral)
qed

end
