(* ===== verification/ParserMessages.thy ===== *)
theory ParserMessages
  imports Tokens
begin

text \<open>
  The parser's diagnostics: the message record of \<open>compiler/diagnostics/diagnostics.go\<close>, one
  definition per message of \<open>compiler/diagnostics/parser.go\<close>, and the located diagnostic of
  \<open>compiler/types/diagnostic.go\<close>. A message's identity is registered with its category and
  stage; the model keeps all four parts.
\<close>

datatype category = CategorySemantic | CategoryType | CategoryName | CategoryModule
  | CategoryConfiguration | CategoryUnknown | CategorySyntax

datatype stage = StageCompile | StageLexer | StageParser | StageChecker | StageGenerator

record message =
  msg_id :: string
  msg_category :: category
  msg_stage :: stage
  msg_text :: string

definition syntax_message :: "string \<Rightarrow> string \<Rightarrow> message" where
  "syntax_message i t = \<lparr>msg_id = i, msg_category = CategorySyntax, msg_stage = StageParser, msg_text = t\<rparr>"

definition unknown_message :: "string \<Rightarrow> string \<Rightarrow> message" where
  "unknown_message i t = \<lparr>msg_id = i, msg_category = CategoryUnknown, msg_stage = StageParser, msg_text = t\<rparr>"

text \<open>\<open>types.Diagnostic\<close> and its constructors \<open>At\<close> and \<open>Locationless\<close>.\<close>

record located =
  ld_message :: message
  ld_module :: string
  ld_span :: span
  ld_position :: position

definition diagnostic_at :: "message \<Rightarrow> span \<Rightarrow> position \<Rightarrow> located" where
  "diagnostic_at m s p = \<lparr>ld_message = m, ld_module = [], ld_span = s, ld_position = p\<rparr>"

definition locationless :: "message \<Rightarrow> located" where
  "locationless m = diagnostic_at m zero_span zero_position"

section \<open>Messages\<close>

definition ParserExpectedDeclaration :: "message" where
  "ParserExpectedDeclaration =
     syntax_message ''syntax.expected-declaration'' (''expected a declaration'')"

definition ParserExpectedToken :: "string \<Rightarrow> message" where
  "ParserExpectedToken expected =
     syntax_message ''syntax.expected-token'' (''expected '' @ expected)"

definition ParserExpectedDelimiter :: "string \<Rightarrow> message" where
  "ParserExpectedDelimiter detail =
     syntax_message ''syntax.expected-delimiter'' (''expected '' @ detail)"

definition ParserExpectedFunctionBody :: "message" where
  "ParserExpectedFunctionBody =
     ParserExpectedDelimiter ([SQUOTE] @ ''do'' @ [SQUOTE] @ '' after function signature'')"

definition ParserExpectedMethodBody :: "message" where
  "ParserExpectedMethodBody =
     ParserExpectedDelimiter ([SQUOTE] @ ''do'' @ [SQUOTE] @ '' after method signature'')"

definition ParserExpectedIfThen :: "message" where
  "ParserExpectedIfThen =
     ParserExpectedDelimiter ([SQUOTE] @ ''then'' @ [SQUOTE] @ '' after if condition'')"

definition ParserExpectedElseIfThen :: "message" where
  "ParserExpectedElseIfThen =
     ParserExpectedDelimiter ([SQUOTE] @ ''then'' @ [SQUOTE] @ '' after elseif condition'')"

definition ParserExpectedEnd :: "string \<Rightarrow> message" where
  "ParserExpectedEnd owner =
     syntax_message ''syntax.expected-end'' (''expected end to close '' @ owner)"

definition ParserExpectedValue :: "message" where
  "ParserExpectedValue =
     syntax_message ''syntax.expected-value'' (''expected a value'')"

definition ParserPatternNegativeInteger :: "message" where
  "ParserPatternNegativeInteger =
     syntax_message ''syntax.pattern-negative-literal'' (''expected a scalar literal after '' @ [SQUOTE] @ ''-'' @ [SQUOTE] @ '' in a pattern'')"

definition ParserPatternLiteral :: "message" where
  "ParserPatternLiteral =
     syntax_message ''syntax.pattern-literal-expected'' (''expected a scalar literal in a pattern'')"

definition ParserMixedBinaryOperators :: "string \<Rightarrow> string \<Rightarrow> message" where
  "ParserMixedBinaryOperators found after =
     syntax_message ''syntax.mixed-binary-operators'' (''mixed binary operators require parentheses; found '' @ [SQUOTE] @ found @ [SQUOTE] @ '' after '' @ [SQUOTE] @ after @ [SQUOTE])"

definition ParserUnknownError :: "message" where
  "ParserUnknownError =
     unknown_message ''internal.parser-error'' (''internal compiler error'')"

definition ParserMaxNesting :: "message" where
  "ParserMaxNesting =
     syntax_message ''syntax.parser-nesting-limit'' (''nesting exceeds the maximum depth of 128'')"

definition ParserMissingCHeader :: "message" where
  "ParserMissingCHeader =
     syntax_message ''syntax.foreign-header-required'' (''foreign declaration requires a C header'')"

definition ParserUnsupportedForeignDeclaration :: "message" where
  "ParserUnsupportedForeignDeclaration =
     syntax_message ''syntax.unsupported-foreign-declaration'' (''unsupported foreign declaration'')"

definition ParserModuleLiteralAfterFrom :: "message" where
  "ParserModuleLiteralAfterFrom =
     syntax_message ''syntax.module-literal-after-from'' (''a module path literal after '' @ [SQUOTE] @ ''from'' @ [SQUOTE])"

definition ParserDeclarationTypeForm :: "message" where
  "ParserDeclarationTypeForm =
     syntax_message ''syntax.type-declaration-form'' (''type declarations use '' @ [SQUOTE] @ ''is'' @ [SQUOTE] @ '', not '' @ [SQUOTE] @ ''='' @ [SQUOTE])"

definition ParserAdtDeclarationForm :: "message" where
  "ParserAdtDeclarationForm =
     syntax_message ''syntax.adt-declaration-form'' (''ADT declarations use '' @ [SQUOTE] @ ''type Name is union ... end'' @ [SQUOTE])"

definition ParserStructDeclarationForm :: "message" where
  "ParserStructDeclarationForm =
     syntax_message ''syntax.struct-declaration-form'' (''struct declarations use '' @ [SQUOTE] @ ''struct ... end'' @ [SQUOTE])"

definition ParserIsTestChained :: "message" where
  "ParserIsTestChained =
     syntax_message ''syntax.is-test-chained'' (''is tests cannot be chained'')"

definition ParserMutRightHandSide :: "message" where
  "ParserMutRightHandSide =
     syntax_message ''syntax.mut-right-hand-side'' (''mut is not valid on the right-hand side; use @value'')"

definition ParserNamedConstructorArguments :: "message" where
  "ParserNamedConstructorArguments =
     syntax_message ''syntax.named-constructor-arguments'' (''constructors use named arguments in parentheses'')"

definition ParserSpreadArguments :: "message" where
  "ParserSpreadArguments =
     syntax_message ''syntax.spread-arguments'' (''spread arguments are not supported; pass explicit values'')"

definition ParserMethodCallOnLiteral :: "message" where
  "ParserMethodCallOnLiteral =
     syntax_message ''syntax.method-call-on-literal'' (''a method cannot be called on a literal; bind it with let first'')"

definition ParserNegativeNumber :: "message" where
  "ParserNegativeNumber =
     syntax_message ''syntax.negative-number'' (''expected an integer or decimal floating literal after '' @ [SQUOTE] @ ''-'' @ [SQUOTE])"

definition ParserPayloadNeedsField :: "message" where
  "ParserPayloadNeedsField =
     syntax_message ''syntax.adt-payload-needs-field'' (''a payload must declare at least one field'')"

definition ParserTypeAfterColon :: "message" where
  "ParserTypeAfterColon =
     syntax_message ''syntax.type-after-colon'' (''expected a type after '' @ [SQUOTE] @ '':'' @ [SQUOTE] @ '' in a '' @ [SQUOTE] @ ''let'' @ [SQUOTE] @ '' declaration'')"

definition ParserMissingEqualsLet :: "message" where
  "ParserMissingEqualsLet =
     syntax_message ''syntax.missing-equals-let'' (''expected '' @ [SQUOTE] @ ''='' @ [SQUOTE] @ '' in a '' @ [SQUOTE] @ ''let'' @ [SQUOTE] @ '' declaration'')"

definition ParserInvalidCSpelling :: "string \<Rightarrow> message" where
  "ParserInvalidCSpelling spelling =
     syntax_message ''syntax.invalid-c-spelling'' (''invalid C spelling '' @ spelling)"

definition ParserInvalidCHeaderName :: "string \<Rightarrow> message" where
  "ParserInvalidCHeaderName name =
     syntax_message ''syntax.invalid-c-header-name'' (''invalid C header name '' @ name)"

definition ParserExpectedCondition :: "string \<Rightarrow> message" where
  "ParserExpectedCondition keyword =
     syntax_message ''syntax.condition-after-keyword'' (''expected a condition after '' @ [SQUOTE] @ keyword @ [SQUOTE])"

definition ParserExternBeforeTopLevel :: "message" where
  "ParserExternBeforeTopLevel =
     syntax_message ''syntax.extern-block-order'' (''extern blocks must precede ordinary top-level items'')"

definition ParserExportLast :: "message" where
  "ParserExportLast =
     syntax_message ''syntax.export-block-order'' (''export block must be the final top-level construct'')"

definition ParserImportFirst :: "message" where
  "ParserImportFirst =
     syntax_message ''syntax.import-block-order'' (''import block must be the first top-level construct'')"

definition ParserImportNeedsEntry :: "message" where
  "ParserImportNeedsEntry =
     syntax_message ''syntax.import-block-empty'' (''import block requires at least one entry'')"

definition ParserImportFrom :: "message" where
  "ParserImportFrom =
     syntax_message ''syntax.import-from'' (''expected '' @ [SQUOTE] @ ''from'' @ [SQUOTE] @ '' after an import alias'')"

definition ParserImportRelative :: "message" where
  "ParserImportRelative =
     syntax_message ''syntax.import-relative'' (''quoted import paths must begin with ./ or ../'')"

definition ParserImportSameLine :: "message" where
  "ParserImportSameLine =
     syntax_message ''syntax.import-same-line'' (''module reference must begin on the same line as '' @ [SQUOTE] @ ''from'' @ [SQUOTE])"

definition ParserImportDots :: "message" where
  "ParserImportDots =
     syntax_message ''syntax.import-dots'' (''standard-library imports use dots between components'')"

definition ParserImportDotted :: "string \<Rightarrow> message" where
  "ParserImportDotted dotted =
     syntax_message ''syntax.import-dotted'' (''standard-library imports use dotted paths; write '' @ dotted)"

definition ParserImportComponent :: "message" where
  "ParserImportComponent =
     syntax_message ''syntax.import-component'' (''standard-library import requires a component after std.'')"

definition ParserImportComponentAfterDot :: "message" where
  "ParserImportComponentAfterDot =
     syntax_message ''syntax.import-component-after-dot'' (''expected a standard-library module component after '' @ [SQUOTE] @ ''.'' @ [SQUOTE])"

definition ParserExportNeedsEntry :: "message" where
  "ParserExportNeedsEntry =
     syntax_message ''syntax.export-block-empty'' (''export block requires at least one entry'')"

definition ParserModuleScopeOnly :: "string \<Rightarrow> message" where
  "ParserModuleScopeOnly kind =
     syntax_message ''syntax.module-scope-only'' (kind @ '' are module-level only'')"

definition ParserNamedFunctionScope :: "message" where
  "ParserNamedFunctionScope =
     syntax_message ''syntax.named-function-scope'' (''named function declarations are only valid at module scope'')"

definition ParserAnonymousStatement :: "message" where
  "ParserAnonymousStatement =
     syntax_message ''syntax.anonymous-function-statement'' (''anonymous functions cannot begin statements; bind the function first'')"

definition ParserAnonymousFunForm :: "message" where
  "ParserAnonymousFunForm =
     syntax_message ''syntax.anonymous-function-form'' (''anonymous function requires '' @ [SQUOTE] @ ''('' @ [SQUOTE] @ '' or '' @ [SQUOTE] @ ''<'' @ [SQUOTE] @ '' after '' @ [SQUOTE] @ ''fun'' @ [SQUOTE])"

definition ParserCallSameLine :: "message" where
  "ParserCallSameLine =
     syntax_message ''syntax.call-same-line'' (''a call'' @ [SQUOTE] @ ''s ( must follow its callee on the same line'')"

definition ParserElseifInWhile :: "message" where
  "ParserElseifInWhile =
     syntax_message ''syntax.elseif-in-while'' ([SQUOTE] @ ''elseif'' @ [SQUOTE] @ '' cannot appear inside a while body'')"

definition ParserElseifAfterElse :: "message" where
  "ParserElseifAfterElse =
     syntax_message ''syntax.elseif-after-else'' ([SQUOTE] @ ''elseif'' @ [SQUOTE] @ '' cannot appear after '' @ [SQUOTE] @ ''else'' @ [SQUOTE])"

definition ParserElseifOutsideIf :: "message" where
  "ParserElseifOutsideIf =
     syntax_message ''syntax.elseif-outside-if'' (''unexpected '' @ [SQUOTE] @ ''elseif'' @ [SQUOTE] @ '' outside an if statement'')"

definition ParserExportPrefix :: "message" where
  "ParserExportPrefix =
     syntax_message ''syntax.export-prefix'' (''export may prefix only a module-level type, function, or implementation declaration'')"

definition ParserElseInWhile :: "message" where
  "ParserElseInWhile =
     syntax_message ''syntax.else-in-while'' ([SQUOTE] @ ''else'' @ [SQUOTE] @ '' cannot appear inside a while body'')"

definition ParserElseFinal :: "message" where
  "ParserElseFinal =
     syntax_message ''syntax.else-final'' ([SQUOTE] @ ''else'' @ [SQUOTE] @ '' must be the final clause of an if statement'')"

definition ParserElseOutsideIf :: "message" where
  "ParserElseOutsideIf =
     syntax_message ''syntax.else-outside-if'' (''unexpected '' @ [SQUOTE] @ ''else'' @ [SQUOTE] @ '' outside an if statement'')"

definition ParserEndOutsideBlock :: "message" where
  "ParserEndOutsideBlock =
     syntax_message ''syntax.end-outside-block'' (''unexpected '' @ [SQUOTE] @ ''end'' @ [SQUOTE] @ '' outside a block'')"

definition ParserMutAfterLet :: "message" where
  "ParserMutAfterLet =
     syntax_message ''syntax.mut-after-let'' ([SQUOTE] @ ''mut'' @ [SQUOTE] @ '' appears only immediately after '' @ [SQUOTE] @ ''let'' @ [SQUOTE] @ '' in a declaration'')"

definition ParserReturnSameLine :: "message" where
  "ParserReturnSameLine =
     syntax_message ''syntax.return-same-line'' (''a return value must begin on the same line as return'')"

definition ParserAssignmentEquals :: "message" where
  "ParserAssignmentEquals =
     syntax_message ''syntax.assignment-equals'' (''expected '' @ [SQUOTE] @ ''='' @ [SQUOTE] @ '' for an assignment'')"

definition ParserRestFinal :: "message" where
  "ParserRestFinal =
     syntax_message ''syntax.rest-parameter-final'' (''rest parameter must be final'')"

definition ParserParameterAnnotation :: "message" where
  "ParserParameterAnnotation =
     syntax_message ''syntax.parameter-annotation'' (''function parameters require type annotations'')"

definition ParserForMaxBinders :: "message" where
  "ParserForMaxBinders =
     syntax_message ''syntax.for-max-binders'' (''a for-in loop takes at most 3 binders'')"

definition ParserForNeedsBinder :: "message" where
  "ParserForNeedsBinder =
     syntax_message ''syntax.for-needs-binder'' (''a for-in loop needs at least one binder'')"

definition ParserConditionAfterKeyword :: "string \<Rightarrow> message" where
  "ParserConditionAfterKeyword keyword =
     syntax_message ''syntax.condition-after-keyword'' (''expected a condition after '' @ [SQUOTE] @ keyword @ [SQUOTE])"

definition ParserDeprecatedColonEquals :: "message" where
  "ParserDeprecatedColonEquals =
     syntax_message ''syntax.deprecated-colon-equals'' ([SQUOTE] @ '':='' @ [SQUOTE] @ '' is not a declaration operator; use '' @ [SQUOTE] @ ''let name = value'' @ [SQUOTE])"

definition ParserDeclarationNeedsLet :: "message" where
  "ParserDeclarationNeedsLet =
     syntax_message ''syntax.declaration-needs-let'' (''declarations require '' @ [SQUOTE] @ ''let'' @ [SQUOTE])"

definition ParserAdtPayloadMutable :: "message" where
  "ParserAdtPayloadMutable =
     syntax_message ''syntax.adt-payload-mutable'' (''ADT payload fields cannot be mutable'')"

definition ParserMutInsidePtr :: "message" where
  "ParserMutInsidePtr =
     syntax_message ''syntax.mut-inside-ptr'' (''mut is only allowed immediately inside Ptr<...> or Slice<...>'')"

definition ParserSumUnionForm :: "message" where
  "ParserSumUnionForm =
     syntax_message ''syntax.sum-union-form'' (''structural sum declarations use '' @ [SQUOTE] @ ''union ... end'' @ [SQUOTE])"

definition ParserSumNeedsBar :: "message" where
  "ParserSumNeedsBar =
     syntax_message ''syntax.sum-needs-bar'' (''structural sum declarations require at least one '' @ [SQUOTE] @ ''|'' @ [SQUOTE])"

definition ParserAdtPayloadForm :: "message" where
  "ParserAdtPayloadForm =
     syntax_message ''syntax.adt-payload-form'' (''ADT payloads use '' @ [SQUOTE] @ ''as ... end'' @ [SQUOTE] @ '', not braces'')"

definition ParserMatchArmAfterBar :: "message" where
  "ParserMatchArmAfterBar =
     syntax_message ''syntax.match-arm-after-bar'' (''expected a match arm after '' @ [SQUOTE] @ ''|'' @ [SQUOTE])"

definition ParserInterpolationExpression :: "message" where
  "ParserInterpolationExpression =
     syntax_message ''syntax.interpolation-expression'' (''string interpolation requires an expression'')"

definition ParserExternC :: "message" where
  "ParserExternC =
     syntax_message ''syntax.extern-c'' (''expected '' @ [SQUOTE] @ ''c'' @ [SQUOTE] @ '' after '' @ [SQUOTE] @ ''extern'' @ [SQUOTE])"

definition ParserExternDo :: "message" where
  "ParserExternDo =
     syntax_message ''syntax.extern-do'' (''expected '' @ [SQUOTE] @ ''do'' @ [SQUOTE] @ '' after the foreign header'')"

end
