(* ===== verification/Ast.thy ===== *)
theory Ast
  imports ParserMessages
begin

text \<open>
  The syntax tree of \<open>compiler/parser/ast.go\<close> and \<open>compiler/parser/type_expressions.go\<close>:
  a Go node struct is a constructor whose arguments are its fields in order, an interface is
  the datatype of its implementations, a nil-able field is an option. Names that are
  constructors of the lexer's or of HOL's types carry a suffix.
\<close>

section \<open>Type expressions\<close>

datatype (plugins only: code size) type_expr =
    NamedTypeExpression token
  | QualifiedTypeExpression token "token list"
  | QualifiedGenericTypeExpression token token "type_expr list"
  | GenericTypeExpression token "type_expr list"
  | NilTypeExpression token
  | UnknownTypeExpression token
  | PtrTypeExpression token type_expr bool
  | SliceTypeExpression token type_expr bool
  | StringTypeExpression token "type_expr list"
  | LiteralTypeArgument token
  | MutTypeArgument token type_expr
  | FunctionTypeExpression token "type_expr list" "type_expr option" "bool list" "token list"
  | UnionTypeExpression "type_expr list" "token list"
  | GroupedTypeExpression token type_expr
  | ObjectTypeExpression token "(token \<times> bool \<times> type_expr) list" token
  | AdtDefinitionExpression "(token \<times> type_expr option) list"

text \<open>\<open>ObjectMemberDeclaration\<close>: name, mutable, type. \<open>AdtVariantDeclaration\<close>: name, payload
  (an \<open>ObjectTypeExpression\<close> or absent).\<close>

type_synonym object_member = "token \<times> bool \<times> type_expr"
type_synonym adt_variant = "token \<times> type_expr option"

section \<open>Expressions, patterns and statements\<close>

record parameter =
  pm_name :: token
  pm_type :: type_expr
  pm_rest :: bool
  pm_ellipsis :: token

text \<open>\<open>ForBinder\<close>: name and optional annotation.\<close>

type_synonym for_binder = "token \<times> type_expr option"

datatype (plugins only: code size) expr =
    IntegerLiteral token
  | DecimalLiteral token
  | BooleanLiteral token
  | NilLiteralExpression token
  | EosLiteral token
  | StringLiteralExpression token
  | ByteLiteralExpression token
  | RuneLiteralExpression token
  | RawStringLiteralExpression token
  | InterpolationTemplateExpression token "(token option \<times> expr option \<times> token \<times> token) list" token
  | VariableExpression token
  | PropertyExpression expr token
  | InlineListLiteralExpression token "expr list" token
  | IndexExpression expr token expr token
  | CallExpression expr token "expr list" "token option list" "type_expr list"
  | UnaryExpression token expr
  | BinaryExpression expr token expr
  | TypeTestExpression expr token type_expr
  | MatchExpression token expr bool "(token \<times> match_pattern \<times> token \<times> expr) list" token
  | AddressExpression token expr
  | DereferenceExpression token expr
  | NegatedNumericLiteral token expr
  | TryExpression token expr
  | SpawnExpression token expr
  | AnonymousFunctionLiteral token "token list" "parameter list" "type_expr option" "stmt list" token bool
and match_pattern =
    BoolPattern token
  | ElsePattern token
  | ScalarPattern token expr
  | EosPattern token
  | TypePattern type_expr
  | VariantPattern token "type_expr list" token
  | DottedPattern token token token
and stmt =
    Declaration token bool "type_expr option" expr token
  | Assignment token expr expr
  | CallStatement expr
  | ReturnStatement token "expr option"
  | IfStatement token expr "stmt list" "(token \<times> expr \<times> stmt list) list" "stmt list" token token
  | WhileStatement token expr "stmt list" token
  | UnsafeStatement token "stmt list" token
  | TryStatement token expr
  | ForStatement token "for_binder list" expr "stmt list" token
  | BreakStatement token
  | ContinueStatement token
  | DeferStatement token expr
  | ErrdeferStatement token expr

end
