(* ===== verification/ParserState.thy ===== *)
theory ParserState
  imports Ast
begin

text \<open>
  The parser's state and its token primitives, from \<open>compiler/parser/parser.go\<close>. A parsing
  function of the source is a function from the parser's state to its result and the state it
  leaves, on errors too: \<open>(perror + 'a) \<times> pstate\<close>. A Go \<open>return nil, err\<close> is \<open>p_fail\<close>, a
  sequence of calls with early returns on errors is \<open>p_bind\<close>, a branch on the state is
  \<open>p_if\<close>, and a \<open>for\<close> loop is \<open>p_loop\<close> over the state the loop carries.
\<close>

section \<open>State\<close>

datatype match_boundary = NoMatchBoundary | ScrutineeBoundary | ArmBoundary

text \<open>\<open>PDiagnostic\<close> an ordinary error, \<open>PBlockFailure\<close> and \<open>PBlockRecovery\<close> the block
  sentinels; \<open>PFuel\<close> is no value of the source: it marks a computation that was cut off.\<close>

datatype perror = PDiagnostic located | PBlockFailure located | PBlockRecovery | PFuel

record pstate =
  ps_tokens :: "token list"
  ps_current :: nat
  ps_brace_depth :: nat
  ps_body_depth :: nat
  ps_block_stack :: "string list"
  ps_diagnostics :: "located list"
  ps_pending_greater :: bool
  ps_pending_token :: token
  ps_match_boundary :: match_boundary
  ps_method_receiver :: bool
  ps_union_member_depth :: nat
  ps_operator_recorded :: bool
  ps_operator_kind :: token_kind
  ps_operator_token :: token
  ps_syntax_depth :: nat

definition max_syntax_depth :: nat where
  "max_syntax_depth = 128"

text \<open>\<open>Parser{tokens: tokens}\<close>.\<close>

definition initial_state :: "token list \<Rightarrow> pstate" where
  "initial_state tokens =
     \<lparr>ps_tokens = tokens, ps_current = 0, ps_brace_depth = 0, ps_body_depth = 0, ps_block_stack = [],
      ps_diagnostics = [], ps_pending_greater = False, ps_pending_token = zero_token,
      ps_match_boundary = NoMatchBoundary, ps_method_receiver = False, ps_union_member_depth = 0,
      ps_operator_recorded = False, ps_operator_kind = T_Identifier, ps_operator_token = zero_token,
      ps_syntax_depth = 0\<rparr>"

section \<open>Sequencing\<close>

type_synonym 'a result = "(perror + 'a) \<times> pstate"
type_synonym 'a parser = "pstate \<Rightarrow> 'a result"

definition p_return :: "'a \<Rightarrow> 'a parser" where
  "p_return x s = (Inr x, s)"

definition p_fail :: "perror \<Rightarrow> 'a parser" where
  "p_fail e s = (Inl e, s)"

definition p_bind :: "'a parser \<Rightarrow> ('a \<Rightarrow> 'b parser) \<Rightarrow> 'b parser" where
  "p_bind p f s = (case p s of (Inl e, s') \<Rightarrow> (Inl e, s') | (Inr x, s') \<Rightarrow> f x s')"

definition p_if :: "(pstate \<Rightarrow> bool) \<Rightarrow> 'a parser \<Rightarrow> 'a parser \<Rightarrow> 'a parser" where
  "p_if c p q s = (if c s then p s else q s)"

definition p_get :: "(pstate \<Rightarrow> 'b) \<Rightarrow> ('b \<Rightarrow> 'a parser) \<Rightarrow> 'a parser" where
  "p_get f p s = p (f s) s"

definition p_modify :: "(pstate \<Rightarrow> pstate) \<Rightarrow> unit parser" where
  "p_modify f s = (Inr (), f s)"

text \<open>The tokens not yet consumed.\<close>

definition remaining :: "pstate \<Rightarrow> nat" where
  "remaining s = length (ps_tokens s) - ps_current s"

text \<open>A loop of the source: the step breaks with \<open>Inr\<close>, continues with \<open>Inl\<close>. Its steps are
  counted down from one more than the tokens that remain.\<close>

fun p_repeat :: "nat \<Rightarrow> ('a \<Rightarrow> ('a + 'b) parser) \<Rightarrow> 'a \<Rightarrow> 'b parser" where
  "p_repeat 0 step x s = (Inl PFuel, s)"
| "p_repeat (Suc k) step x s =
     (case step x s of
        (Inl e, s') \<Rightarrow> (Inl e, s')
      | (Inr (Inl y), s') \<Rightarrow> p_repeat k step y s'
      | (Inr (Inr z), s') \<Rightarrow> (Inr z, s'))"

definition p_loop :: "('a \<Rightarrow> ('a + 'b) parser) \<Rightarrow> 'a \<Rightarrow> 'b parser" where
  "p_loop step x s = p_repeat (Suc (remaining s)) step x s"

definition p_continue :: "'a \<Rightarrow> ('a + 'b) parser" where
  "p_continue x = p_return (Inl x)"

definition p_break :: "'b \<Rightarrow> ('a + 'b) parser" where
  "p_break x = p_return (Inr x)"

section \<open>Token primitives\<close>

text \<open>The end-of-input token a read past the last token yields.\<close>

definition synthetic_eof :: token where
  "synthetic_eof = \<lparr>tk_kind = T_EOF, tk_lexeme = [], tk_span = zero_span, tk_line = 1, tk_column = 1\<rparr>"

definition peek :: "pstate \<Rightarrow> token" where
  "peek s = (if ps_current s \<ge> length (ps_tokens s) then synthetic_eof else ps_tokens s ! ps_current s)"

definition peek_at :: "nat \<Rightarrow> pstate \<Rightarrow> token" where
  "peek_at offset s =
     (let index = ps_current s + offset
      in if index \<ge> length (ps_tokens s) then synthetic_eof else ps_tokens s ! index)"

definition advance :: "token parser" where
  "advance s =
     (let token = peek s in
      if ps_current s < length (ps_tokens s) then
        (Inr token, s\<lparr>ps_current := ps_current s + 1,
           ps_brace_depth :=
             (if tk_kind token = T_LeftBrace then ps_brace_depth s + 1
              else if tk_kind token = T_RightBrace then ps_brace_depth s - 1
              else ps_brace_depth s)\<rparr>)
      else (Inr token, s))"

definition check :: "token_kind \<Rightarrow> pstate \<Rightarrow> bool" where
  "check kind s \<longleftrightarrow> tk_kind (peek s) = kind"

definition error_at :: "token \<Rightarrow> message \<Rightarrow> perror" where
  "error_at token m =
     PDiagnostic (diagnostic_at m (tk_span token)
       \<lparr>pos_line = int (tk_line token), pos_column = int (tk_column token)\<rparr>)"

definition fail_at :: "token \<Rightarrow> message \<Rightarrow> 'a parser" where
  "fail_at token m = p_fail (error_at token m)"

definition fail_current :: "message \<Rightarrow> 'a parser" where
  "fail_current m s = (Inl (error_at (peek s) m), s)"

text \<open>One byte of a \<open>>>\<close> token as a token of its own: the first at offset 0, the second at 1.\<close>

definition split_greater :: "token \<Rightarrow> nat \<Rightarrow> token" where
  "split_greater t offset =
     (let start = sp_start (tk_span t) + int offset
      in \<lparr>tk_kind = T_Greater, tk_lexeme = ''>'',
          tk_span = \<lparr>sp_file = sp_file (tk_span t), sp_start = start, sp_end = start + 1\<rparr>,
          tk_line = tk_line t, tk_column = tk_column t + offset\<rparr>)"

definition consume :: "token_kind \<Rightarrow> string \<Rightarrow> token parser" where
  "consume kind expected s =
     (if kind = T_Greater \<and> ps_pending_greater s then
        (Inr (split_greater (ps_pending_token s) 1), s\<lparr>ps_pending_greater := False\<rparr>)
      else if check kind s then advance s
      else fail_current (ParserExpectedToken expected) s)"

definition require_delimiter :: "token_kind \<Rightarrow> message \<Rightarrow> unit parser" where
  "require_delimiter kind m =
     p_if (check kind) (p_bind advance (\<lambda>_. p_return ())) (fail_current m)"

text \<open>\<open>consumeGenericClose\<close>: a \<open>>>\<close> is split and its second half left pending.\<close>

definition consume_generic_close :: "string \<Rightarrow> token parser" where
  "consume_generic_close expected =
     p_if ps_pending_greater (consume T_Greater expected)
       (p_if (check T_ShiftRight)
          (p_bind advance (\<lambda>token.
             p_bind (p_modify (\<lambda>s. s\<lparr>ps_pending_greater := True, ps_pending_token := token\<rparr>)) (\<lambda>_.
             p_return (split_greater token 0))))
          (consume T_Greater expected))"

section \<open>Depth, regions and boundaries\<close>

text \<open>\<open>enterSyntax\<close> around a production, with its deferred exit.\<close>

definition with_depth :: "'a parser \<Rightarrow> 'a parser" where
  "with_depth p s =
     (let s1 = s\<lparr>ps_syntax_depth := ps_syntax_depth s + 1\<rparr>;
          (r, s2) = (if ps_syntax_depth s1 > max_syntax_depth
                     then fail_current ParserMaxNesting s1 else p s1)
      in (r, s2\<lparr>ps_syntax_depth := ps_syntax_depth s2 - 1\<rparr>))"

text \<open>\<open>pushExpressionRegion\<close> around a production, with the restore it returns.\<close>

definition with_region :: "'a parser \<Rightarrow> 'a parser" where
  "with_region p s =
     (let (r, s') = p (s\<lparr>ps_operator_recorded := False\<rparr>)
      in (r, s'\<lparr>ps_operator_recorded := ps_operator_recorded s, ps_operator_kind := ps_operator_kind s,
               ps_operator_token := ps_operator_token s\<rparr>))"

text \<open>A production under a match boundary, the outer one restored on every path.\<close>

definition with_boundary :: "match_boundary \<Rightarrow> 'a parser \<Rightarrow> 'a parser" where
  "with_boundary b p s =
     (let (r, s') = p (s\<lparr>ps_match_boundary := b\<rparr>)
      in (r, s'\<lparr>ps_match_boundary := ps_match_boundary s\<rparr>))"

definition record_binary_operator :: "token \<Rightarrow> unit parser" where
  "record_binary_operator token s =
     (if \<not> ps_operator_recorded s then
        (Inr (), s\<lparr>ps_operator_recorded := True, ps_operator_kind := tk_kind token,
                  ps_operator_token := token\<rparr>)
      else if tk_kind token = ps_operator_kind s then (Inr (), s)
      else (Inl (error_at token (ParserMixedBinaryOperators (tk_lexeme token)
              (tk_lexeme (ps_operator_token s)))), s))"

section \<open>Lookahead\<close>

definition on_previous_token_line :: "pstate \<Rightarrow> bool" where
  "on_previous_token_line s \<longleftrightarrow>
     \<not> (ps_current s = 0 \<or> ps_current s \<ge> length (ps_tokens s)) \<and>
     tk_line (ps_tokens s ! ps_current s) = tk_line (ps_tokens s ! (ps_current s - 1))"

text \<open>The scan of \<open>balancedTypeArgumentEnd\<close> over the tokens from the current one: the offset of
  the closing token, \<open>None\<close> for -1. \<open>depth\<close> may go below zero.\<close>

fun balanced_end :: "int \<Rightarrow> token list \<Rightarrow> nat \<Rightarrow> nat option" where
  "balanced_end depth [] index = None"
| "balanced_end depth (t # ts) index =
     (if tk_kind t = T_Less then balanced_end (depth + 1) ts (index + 1)
      else if tk_kind t = T_Greater then
        (if depth - 1 = 0 then Some index else balanced_end (depth - 1) ts (index + 1))
      else if tk_kind t = T_ShiftRight then
        (if depth - 2 \<le> 0 then Some index else balanced_end (depth - 2) ts (index + 1))
      else balanced_end depth ts (index + 1))"

definition balanced_type_argument_end :: "pstate \<Rightarrow> nat option" where
  "balanced_type_argument_end s = balanced_end 0 (drop (ps_current s) (ps_tokens s)) (ps_current s)"

definition kind_at :: "pstate \<Rightarrow> nat \<Rightarrow> token_kind \<Rightarrow> bool" where
  "kind_at s index kind \<longleftrightarrow> index < length (ps_tokens s) \<and> tk_kind (ps_tokens s ! index) = kind"

definition generic_call_follows :: "pstate \<Rightarrow> bool" where
  "generic_call_follows s =
     (case balanced_type_argument_end s of None \<Rightarrow> False | Some e \<Rightarrow> kind_at s (e + 1) T_LeftParen)"

definition generic_constructor_follows :: "pstate \<Rightarrow> bool" where
  "generic_constructor_follows s =
     (case balanced_type_argument_end s of
        None \<Rightarrow> False
      | Some e \<Rightarrow> e + 3 < length (ps_tokens s) \<and> kind_at s (e + 1) T_Dot \<and>
          kind_at s (e + 2) T_Identifier \<and> kind_at s (e + 3) T_LeftParen)"

definition generic_variant_follows :: "pstate \<Rightarrow> bool" where
  "generic_variant_follows s =
     (case balanced_type_argument_end s of None \<Rightarrow> False | Some e \<Rightarrow> kind_at s (e + 1) T_Dot)"

definition token_after_fun :: "pstate \<Rightarrow> token_kind" where
  "token_after_fun s =
     (if ps_current s + 1 \<ge> length (ps_tokens s) then T_EOF
      else tk_kind (ps_tokens s ! (ps_current s + 1)))"

definition fun_begins_anonymous_literal :: "pstate \<Rightarrow> bool" where
  "fun_begins_anonymous_literal s \<longleftrightarrow> token_after_fun s = T_LeftParen \<or> token_after_fun s = T_Less"

definition value_only_token :: "token_kind \<Rightarrow> bool" where
  "value_only_token kind \<longleftrightarrow>
     kind \<in> {T_Integer, T_HexInteger, T_BinaryInteger, T_OctalInteger, T_DecimalFloat, T_True, T_False,
             T_NilLiteral, T_Eos, T_Minus, T_Bang, T_At, T_Caret, T_LeftBracket, T_StringLiteral, T_Match}"

definition starts_expression :: "token_kind \<Rightarrow> bool" where
  "starts_expression kind \<longleftrightarrow>
     kind \<in> {T_Identifier, T_Self, T_LeftParen} \<or> value_only_token kind"

text \<open>\<open>atContextual\<close>: an identifier with the given spelling.\<close>

definition at_contextual :: "string \<Rightarrow> pstate \<Rightarrow> bool" where
  "at_contextual name s \<longleftrightarrow> tk_kind (peek s) = T_Identifier \<and> tk_lexeme (peek s) = name"

definition at_extern_block :: "pstate \<Rightarrow> bool" where
  "at_extern_block = at_contextual ''extern''"

section \<open>Recovery\<close>

definition is_block_delimiter :: "token_kind \<Rightarrow> bool" where
  "is_block_delimiter kind \<longleftrightarrow> kind \<in> {T_ElseIf, T_Else, T_End}"

text \<open>The loop over \<open>.name\<close> pairs in \<open>atStatementStart\<close>.\<close>

function skip_members :: "token list \<Rightarrow> nat \<Rightarrow> nat" where
  "skip_members tokens index =
     (if index + 1 < length tokens \<and> tk_kind (tokens ! index) = T_Dot \<and>
         tk_kind (tokens ! (index + 1)) = T_Identifier
      then skip_members tokens (index + 2) else index)"
  by pat_completeness auto
termination by (relation "measure (\<lambda>(ts, i). length ts - i)") auto

declare skip_members.simps [simp del]

definition at_statement_start :: "pstate \<Rightarrow> bool" where
  "at_statement_start s =
     (let kind = tk_kind (peek s); tokens = ps_tokens s; current = ps_current s in
      if ps_brace_depth s \<noteq> 0 then False
      else if is_block_delimiter kind then True
      else if kind \<in> {T_Type, T_Fun, T_Method, T_Import, T_Export, T_Let, T_If, T_While, T_For,
                      T_Unsafe, T_Break, T_Continue, T_Return, T_Self} then True
      else if kind = T_Mut then False
      else if kind \<noteq> T_Identifier then False
      else if current + 1 \<ge> length tokens then False
      else
        (let next = tk_kind (tokens ! (current + 1)) in
         if next = T_Colon \<or> next = T_Equal then True
         else if next = T_LeftParen then tk_line (tokens ! (current + 1)) = tk_line (tokens ! current)
         else if next \<noteq> T_Dot then False
         else
           (let index = skip_members tokens (current + 1) in
            if index \<ge> length tokens then False
            else if tk_kind (tokens ! index) = T_Equal then True
            else tk_kind (tokens ! index) = T_LeftParen \<and>
                 tk_line (tokens ! index) = tk_line (tokens ! (index - 1)))))"

text \<open>\<open>for !check(EOF) && !atStatementStart() { advance() }\<close>.\<close>

definition skip_to_statement :: "unit parser" where
  "skip_to_statement =
     p_loop (\<lambda>_. p_if (\<lambda>s. \<not> check T_EOF s \<and> \<not> at_statement_start s)
        (p_bind advance (\<lambda>_. p_continue ())) (p_break ())) ()"

definition synchronize :: "nat \<Rightarrow> unit parser" where
  "synchronize start =
     p_bind (p_if (\<lambda>s. ps_current s = start \<and> \<not> check T_EOF s)
        (p_bind advance (\<lambda>_. p_return ())) (p_return ()))
       (\<lambda>_. skip_to_statement)"

definition synchronize_block :: "nat \<Rightarrow> unit parser" where
  "synchronize_block start =
     p_if (\<lambda>s. ps_current s = start \<and> is_block_delimiter (tk_kind (peek s)))
       (p_return ()) (synchronize start)"

text \<open>\<open>diagnosticsFrom\<close>; the sentinel of an already reported failure has no diagnostic of its
  own.\<close>

definition diagnostics_from :: "perror \<Rightarrow> located list" where
  "diagnostics_from e =
     (case e of PDiagnostic d \<Rightarrow> [d] | PBlockFailure d \<Rightarrow> [d]
      | _ \<Rightarrow> [locationless ParserUnknownError])"

definition report :: "located list \<Rightarrow> unit parser" where
  "report ds = p_modify (\<lambda>s. s\<lparr>ps_diagnostics := ps_diagnostics s @ ds\<rparr>)"

end
