(* ===== verification/ParserTypes.thy ===== *)
theory ParserTypes
  imports ParserState
begin

text \<open>
  The type grammar of \<open>compiler/parser/type_expressions.go\<close> and the type-argument lists of
  \<open>compiler/parser/expressions.go\<close>. Each production takes the recursive entry \<open>type_expression\<close>
  as its argument \<open>ty\<close>; \<open>type_expression\<close> itself is the production over the entry one level
  of fuel below.
\<close>

section \<open>Argument lists\<close>

definition numeric_kind :: "token_kind \<Rightarrow> bool" where
  "numeric_kind kind \<longleftrightarrow> kind \<in> {T_Integer, T_HexInteger, T_BinaryInteger, T_OctalInteger, T_DecimalFloat}"

definition type_argument :: "type_expr parser \<Rightarrow> type_expr parser" where
  "type_argument ty =
     p_if (\<lambda>s. numeric_kind (tk_kind (peek s)))
       (p_bind advance (\<lambda>token. p_return (LiteralTypeArgument token)))
       (p_if (check T_Mut)
          (p_bind advance (\<lambda>mut. p_bind ty (\<lambda>inner. p_return (MutTypeArgument mut inner))))
          ty)"

text \<open>\<open>item { "," item }\<close>, the loop both argument lists have.\<close>

definition comma_items :: "'a parser \<Rightarrow> 'a list parser" where
  "comma_items item =
     p_bind item (\<lambda>first.
     p_loop (\<lambda>items. p_if (check T_Comma)
         (p_bind advance (\<lambda>_. p_bind item (\<lambda>x. p_continue (items @ [x]))))
         (p_break items)) [first])"

definition type_argument_list :: "type_expr parser \<Rightarrow> type_expr list parser" where
  "type_argument_list ty =
     p_bind (consume T_Less (SQUOTE # ''<'' @ [SQUOTE])) (\<lambda>_.
     p_bind (comma_items (type_argument ty)) (\<lambda>arguments.
     p_bind (consume_generic_close (SQUOTE # ''>'' @ SQUOTE # '' after a generic argument list'')) (\<lambda>_.
     p_return arguments)))"

definition generic_argument_list :: "type_expr parser \<Rightarrow> type_expr list parser" where
  "generic_argument_list ty =
     p_bind advance (\<lambda>_.
     p_bind (comma_items ty) (\<lambda>arguments.
     p_bind (consume_generic_close (SQUOTE # ''>'' @ SQUOTE # '' after a generic type argument list'')) (\<lambda>_.
     p_return arguments)))"

section \<open>Primary type expressions\<close>

text \<open>The dotted chain of a qualified type: the components after the alias.\<close>

definition qualified_names :: "token list parser" where
  "qualified_names =
     p_loop (\<lambda>names.
       p_bind (consume T_Dot (SQUOTE # ''.'' @ SQUOTE # '' after a type name'')) (\<lambda>_.
       p_bind (consume T_Identifier (''a type name after '' @ SQUOTE # ''.'' @ [SQUOTE])) (\<lambda>component.
       p_if (check T_Dot) (p_continue (names @ [component])) (p_break (names @ [component]))))) []"

definition qualified_type :: "type_expr parser \<Rightarrow> token \<Rightarrow> type_expr parser" where
  "qualified_type ty name =
     p_bind qualified_names (\<lambda>names.
     p_if (\<lambda>s. length names = 1 \<and> check T_Less s)
       (p_bind (generic_argument_list ty) (\<lambda>arguments.
        p_return (QualifiedGenericTypeExpression name (hd names) arguments)))
       (p_return (QualifiedTypeExpression name names)))"

text \<open>\<open>Ptr<[mut] T>\<close> and \<open>Slice<[mut] T>\<close>.\<close>

definition pointer_like :: "type_expr parser \<Rightarrow> (token \<Rightarrow> type_expr \<Rightarrow> bool \<Rightarrow> type_expr) \<Rightarrow> token \<Rightarrow> type_expr parser" where
  "pointer_like ty build name =
     p_bind (consume T_Less (SQUOTE # ''<'' @ [SQUOTE])) (\<lambda>_.
     p_bind (p_if (check T_Mut) (p_bind advance (\<lambda>_. p_return True)) (p_return False)) (\<lambda>writable.
     p_bind ty (\<lambda>element.
     p_bind (consume_generic_close (SQUOTE # ''>'' @ [SQUOTE])) (\<lambda>_.
     p_return (build name element writable)))))"

text \<open>The parameter loop of a function type: types, rest flags and ellipsis tokens.\<close>

definition function_type_parameters ::
  "type_expr parser \<Rightarrow> (type_expr list \<times> bool list \<times> token list) parser" where
  "function_type_parameters ty =
     p_loop (\<lambda>(saw_rest, parameters, flags, tokens).
       if saw_rest then fail_current ParserRestFinal
       else p_bind ty (\<lambda>parameter.
         p_bind (p_if (check T_Ellipsis)
             (p_bind advance (\<lambda>ellipsis. p_return (True, ellipsis))) (p_return (False, zero_token)))
         (\<lambda>(rest, ellipsis).
         (let ps = parameters @ [parameter]; fs = flags @ [rest]; ts = tokens @ [ellipsis] in
          p_if (check T_Comma) (p_bind advance (\<lambda>_. p_continue (rest, ps, fs, ts)))
            (p_break (ps, fs, ts)))))) (False, [], [], [])"

definition function_type_expression :: "type_expr parser \<Rightarrow> token \<Rightarrow> type_expr parser" where
  "function_type_expression ty keyword =
     p_bind (consume T_Less (SQUOTE # ''<'' @ SQUOTE # '' after Fun'')) (\<lambda>_.
     p_bind (consume T_LeftParen (SQUOTE # ''('' @ SQUOTE # '' for the Fun parameter types'')) (\<lambda>_.
     p_bind (p_if (\<lambda>s. \<not> check T_RightParen s) (function_type_parameters ty) (p_return ([], [], [])))
     (\<lambda>(parameters, flags, tokens).
     p_bind (consume T_RightParen (SQUOTE # '')'' @ SQUOTE # '' after the Fun parameter types'')) (\<lambda>_.
     p_bind (p_if (check T_Colon) (p_bind advance (\<lambda>_. p_bind ty (\<lambda>r. p_return (Some r)))) (p_return None))
     (\<lambda>return_type.
     p_bind (consume_generic_close (SQUOTE # ''>'' @ SQUOTE # '' to close a Fun type'')) (\<lambda>_.
     p_return (FunctionTypeExpression keyword parameters return_type flags tokens)))))))"

text \<open>What follows the name of an unqualified type.\<close>

definition named_type :: "type_expr parser \<Rightarrow> token \<Rightarrow> type_expr parser" where
  "named_type ty name =
     (if tk_lexeme name = ''Nil'' then p_return (NilTypeExpression name)
      else if tk_lexeme name = ''Unknown'' then p_return (UnknownTypeExpression name)
      else if tk_lexeme name = ''Fun'' then function_type_expression ty name
      else p_if (\<lambda>s. tk_lexeme name = ''String'' \<and> check T_Less s)
        (p_bind (type_argument_list ty) (\<lambda>arguments. p_return (StringTypeExpression name arguments)))
      (p_if (\<lambda>s. tk_lexeme name = ''List'' \<and> check T_Less s)
        (p_bind (type_argument_list ty) (\<lambda>arguments. p_return (GenericTypeExpression name arguments)))
      (if tk_lexeme name = ''Ptr'' then pointer_like ty PtrTypeExpression name
       else if tk_lexeme name = ''Slice'' then pointer_like ty SliceTypeExpression name
       else p_if (check T_Less)
         (p_bind (generic_argument_list ty) (\<lambda>arguments. p_return (GenericTypeExpression name arguments)))
         (p_return (NamedTypeExpression name)))))"

definition primary_type_expression :: "type_expr parser \<Rightarrow> type_expr parser" where
  "primary_type_expression ty =
     p_if (check T_LeftParen)
       (p_bind advance (\<lambda>open.
        p_bind ty (\<lambda>inner.
        p_bind (consume T_RightParen (SQUOTE # '')'' @ SQUOTE # '' after a grouped type expression'')) (\<lambda>_.
        p_return (GroupedTypeExpression open inner)))))
     (p_if (check T_Mut) (fail_current ParserMutInsidePtr)
       (p_bind (consume T_Identifier ''a type name'') (\<lambda>name.
        p_if (\<lambda>s. check T_Dot s \<and> \<not> (ps_method_receiver s \<and> ps_union_member_depth s > 0))
          (qualified_type ty name) (named_type ty name))))"

section \<open>Type expressions\<close>

text \<open>A union member after a pipe is parsed one member deeper.\<close>

definition union_member :: "type_expr parser \<Rightarrow> type_expr parser" where
  "union_member ty s =
     (let (r, s') = primary_type_expression ty
            (s\<lparr>ps_union_member_depth := ps_union_member_depth s + 1\<rparr>)
      in (r, s'\<lparr>ps_union_member_depth := ps_union_member_depth s' - 1\<rparr>))"

definition type_expression_body :: "type_expr parser \<Rightarrow> type_expr parser" where
  "type_expression_body ty =
     with_depth
       (p_bind (primary_type_expression ty) (\<lambda>first.
        p_if (\<lambda>s. ps_pending_greater s \<or> \<not> check T_Pipe s) (p_return first)
          (p_loop (\<lambda>(members, pipes). p_if (check T_Pipe)
               (p_bind advance (\<lambda>pipe. p_bind (union_member ty) (\<lambda>member.
                p_continue (members @ [member], pipes @ [pipe]))))
               (p_break (UnionTypeExpression members pipes))) ([first], []))))"

fun type_expression :: "nat \<Rightarrow> type_expr parser" where
  "type_expression 0 s = (Inl PFuel, s)"
| "type_expression (Suc n) s = type_expression_body (type_expression n) s"

section \<open>Type definitions\<close>

definition alias_target :: "type_expr parser \<Rightarrow> type_expr parser" where
  "alias_target ty = primary_type_expression ty"

definition object_member_declaration :: "type_expr parser \<Rightarrow> object_member parser" where
  "object_member_declaration ty =
     p_bind (p_if (check T_Mut) (p_bind advance (\<lambda>_. p_return True)) (p_return False)) (\<lambda>mutable.
     p_bind (consume T_Identifier ''an object member name'') (\<lambda>name.
     p_bind (consume T_Colon (SQUOTE # '':'' @ SQUOTE # '' after an object member name'')) (\<lambda>_.
     p_bind ty (\<lambda>t.
     p_return (name, mutable, t)))))"

definition object_member_body :: "type_expr parser \<Rightarrow> token \<Rightarrow> bool \<Rightarrow> message \<Rightarrow> type_expr parser" where
  "object_member_body ty keyword allow_empty empty_diagnostic =
     p_if (check T_End)
       (if \<not> allow_empty then fail_current empty_diagnostic
        else p_bind advance (\<lambda>e. p_return (ObjectTypeExpression keyword [] e)))
       (p_bind (object_member_declaration ty) (\<lambda>first.
        p_bind (p_loop (\<lambda>members. p_if (check T_Comma)
            (p_bind advance (\<lambda>_. p_if (check T_End) (p_break members)
               (p_bind (object_member_declaration ty) (\<lambda>member. p_continue (members @ [member])))))
            (p_break members)) [first]) (\<lambda>members.
        p_bind (consume T_End (SQUOTE # ''end'' @ SQUOTE # '' after a member list'')) (\<lambda>e.
        p_return (ObjectTypeExpression keyword members e)))))"

definition struct_definition :: "type_expr parser \<Rightarrow> type_expr parser" where
  "struct_definition ty =
     p_bind advance (\<lambda>keyword. object_member_body ty keyword True ParserPayloadNeedsField)"

definition structural_union_definition :: "type_expr parser \<Rightarrow> type_expr parser" where
  "structural_union_definition ty =
     p_bind (primary_type_expression ty) (\<lambda>first.
     p_if (\<lambda>s. \<not> check T_Pipe s) (fail_current ParserSumNeedsBar)
       (p_bind (p_loop (\<lambda>(members, pipes). p_if (check T_Pipe)
            (p_bind advance (\<lambda>pipe. p_bind (primary_type_expression ty) (\<lambda>member.
             p_continue (members @ [member], pipes @ [pipe]))))
            (p_break (members, pipes))) ([first], [])) (\<lambda>(members, pipes).
        p_bind (consume T_End (SQUOTE # ''end'' @ SQUOTE # '' after a structural sum declaration'')) (\<lambda>_.
        p_return (UnionTypeExpression members pipes)))))"

text \<open>The payload fields' mutability check, in order.\<close>

definition mutable_member :: "type_expr \<Rightarrow> token option" where
  "mutable_member payload =
     (case payload of
        ObjectTypeExpression _ members _ \<Rightarrow> map_option fst (find (\<lambda>(name, mutable, t). mutable) members)
      | _ \<Rightarrow> None)"

definition adt_variant_body :: "type_expr parser \<Rightarrow> adt_variant parser" where
  "adt_variant_body ty =
     p_bind (consume T_Identifier (''a variant name after '' @ SQUOTE # ''|'' @ [SQUOTE])) (\<lambda>name.
     p_if (check T_LeftBrace) (fail_current ParserAdtPayloadForm)
     (p_if (check T_As)
       (p_bind advance (\<lambda>as_keyword.
        p_bind (object_member_body ty as_keyword False ParserPayloadNeedsField) (\<lambda>payload.
        case mutable_member payload of
          Some member \<Rightarrow> fail_at member ParserAdtPayloadMutable
        | None \<Rightarrow> p_return (name, Some payload))))
       (p_return (name, None))))"

definition adt_definition :: "type_expr parser \<Rightarrow> type_expr parser" where
  "adt_definition ty =
     p_bind (p_loop (\<lambda>variants. p_if (check T_Pipe)
         (p_bind advance (\<lambda>_. p_bind (adt_variant_body ty) (\<lambda>v. p_continue (variants @ [v]))))
         (p_break variants)) []) (\<lambda>variants.
     p_bind (consume T_End (SQUOTE # ''end'' @ SQUOTE # '' after ADT declaration'')) (\<lambda>_.
     p_return (AdtDefinitionExpression variants)))"

definition unit_adt_shorthand :: "type_expr parser" where
  "unit_adt_shorthand =
     p_bind (consume T_Identifier ''a variant name'') (\<lambda>first.
     p_bind (p_loop (\<lambda>variants. p_if (check T_Pipe)
         (p_bind advance (\<lambda>_.
          p_bind (consume T_Identifier (''a variant name after '' @ SQUOTE # ''|'' @ [SQUOTE])) (\<lambda>name.
          p_continue (variants @ [(name, None)]))))
         (p_break variants)) [(first, None)]) (\<lambda>variants.
     p_bind (consume T_End (SQUOTE # ''end'' @ SQUOTE # '' after an all-unit ADT declaration'')) (\<lambda>_.
     p_return (AdtDefinitionExpression variants))))"

definition type_definition :: "type_expr parser \<Rightarrow> type_expr parser" where
  "type_definition ty =
     p_if (check T_Struct) (struct_definition ty)
     (p_if (check T_Union)
       (p_bind advance (\<lambda>_. p_if (check T_Pipe) (adt_definition ty) (structural_union_definition ty)))
     (p_if (check T_LeftParen) (fail_current ParserSumUnionForm)
     (p_if (\<lambda>s. check T_Identifier s \<and> tk_kind (peek_at 1 s) = T_Pipe) unit_adt_shorthand
       (p_bind (alias_target ty) (\<lambda>target.
        p_if (check T_Pipe) (fail_current ParserSumUnionForm) (p_return target))))))"

end
