(* ===== verification/ParserExpressions.thy ===== *)
theory ParserExpressions
  imports ParserTypes
begin

text \<open>
  The expression grammar of \<open>compiler/parser/expressions.go\<close>, match patterns, and the
  signatures and bodies of \<open>compiler/parser/statements.go\<close> that function literals need. The
  productions that are entered recursively come as the record \<open>grammar\<close>; theory
  \<open>ParserStatements\<close> closes it.
\<close>

record grammar =
  g_expression :: "expr parser"
  g_unary :: "expr parser"
  g_address :: "expr parser"
  g_type :: "type_expr parser"
  g_block :: "string \<Rightarrow> token_kind list \<Rightarrow> stmt list parser"

section \<open>The precedence ladder\<close>

text \<open>One left-associative level: operands of the tighter level joined by the operators the
  guard admits.\<close>

definition binary_level :: "(pstate \<Rightarrow> bool) \<Rightarrow> expr parser \<Rightarrow> expr parser" where
  "binary_level guard operand =
     p_bind operand (\<lambda>first.
     p_loop (\<lambda>left. p_if guard
         (p_bind advance (\<lambda>operator.
          p_bind (record_binary_operator operator) (\<lambda>_.
          p_bind operand (\<lambda>right.
          p_continue (BinaryExpression left operator right)))))
         (p_break left)) first)"

definition multiplicative_expression :: "grammar \<Rightarrow> expr parser" where
  "multiplicative_expression g =
     binary_level (\<lambda>s. check T_Star s \<or> check T_Slash s \<or> check T_Percent s) (g_unary g)"

definition additive_expression :: "grammar \<Rightarrow> expr parser" where
  "additive_expression g =
     binary_level (\<lambda>s. check T_Plus s \<or> check T_Minus s) (multiplicative_expression g)"

definition shift_expression :: "grammar \<Rightarrow> expr parser" where
  "shift_expression g =
     binary_level (\<lambda>s. check T_ShiftLeft s \<or> check T_ShiftRight s) (additive_expression g)"

definition relational_expression :: "grammar \<Rightarrow> expr parser" where
  "relational_expression g =
     binary_level (\<lambda>s. check T_Less s \<or> check T_LessEqual s \<or> check T_Greater s \<or> check T_GreaterEqual s)
       (shift_expression g)"

definition type_test_expression :: "grammar \<Rightarrow> expr parser" where
  "type_test_expression g =
     p_bind (relational_expression g) (\<lambda>e.
     p_if (\<lambda>s. ps_match_boundary s = ScrutineeBoundary \<or> \<not> check T_Is s) (p_return e)
       (p_bind advance (\<lambda>is_token.
        p_bind (record_binary_operator is_token) (\<lambda>_.
        p_bind (g_type g) (\<lambda>t.
        p_if (check T_Is) (fail_current ParserIsTestChained)
          (p_return (TypeTestExpression e is_token t)))))))"

definition equality_expression :: "grammar \<Rightarrow> expr parser" where
  "equality_expression g =
     binary_level (\<lambda>s. check T_EqualEqual s \<or> check T_BangEqual s) (type_test_expression g)"

definition bitwise_and_expression :: "grammar \<Rightarrow> expr parser" where
  "bitwise_and_expression g = binary_level (check T_Amp) (equality_expression g)"

text \<open>The state before a caret is what a rewind returns to: the cursor and the recorded
  operator, nothing else.\<close>

definition rewind :: "pstate \<Rightarrow> pstate \<Rightarrow> pstate" where
  "rewind earlier s = s\<lparr>ps_current := ps_current earlier,
     ps_operator_recorded := ps_operator_recorded earlier, ps_operator_kind := ps_operator_kind earlier,
     ps_operator_token := ps_operator_token earlier\<rparr>"

definition bitwise_xor_expression :: "grammar \<Rightarrow> expr parser" where
  "bitwise_xor_expression g =
     p_bind (bitwise_and_expression g) (\<lambda>first.
     p_loop (\<lambda>left. p_if (\<lambda>s. check T_Caret s \<and> on_previous_token_line s)
         (p_get (\<lambda>s. s) (\<lambda>earlier.
          p_bind advance (\<lambda>operator.
          p_bind (record_binary_operator operator) (\<lambda>_.
          p_bind (bitwise_and_expression g) (\<lambda>right.
          p_if (check T_Equal)
            (p_bind (p_modify (rewind earlier)) (\<lambda>_. p_break left))
            (p_continue (BinaryExpression left operator right)))))))
         (p_break left)) first)"

definition bitwise_or_expression :: "grammar \<Rightarrow> expr parser" where
  "bitwise_or_expression g =
     binary_level (\<lambda>s. check T_Pipe s \<and> ps_match_boundary s = NoMatchBoundary)
       (bitwise_xor_expression g)"

definition and_expression :: "grammar \<Rightarrow> expr parser" where
  "and_expression g = binary_level (check T_And) (bitwise_or_expression g)"

definition or_expression :: "grammar \<Rightarrow> expr parser" where
  "or_expression g = binary_level (check T_Or) (and_expression g)"

section \<open>Postfix chains\<close>

definition is_literal_receiver :: "expr \<Rightarrow> bool" where
  "is_literal_receiver e =
     (case e of
        IntegerLiteral _ \<Rightarrow> True | DecimalLiteral _ \<Rightarrow> True | NegatedNumericLiteral _ _ \<Rightarrow> True
      | StringLiteralExpression _ \<Rightarrow> True | RawStringLiteralExpression _ \<Rightarrow> True
      | BooleanLiteral _ \<Rightarrow> True | NilLiteralExpression _ \<Rightarrow> True
      | InlineListLiteralExpression _ _ _ \<Rightarrow> True | _ \<Rightarrow> False)"

text \<open>The property token of a method selected on a literal.\<close>

definition literal_method :: "expr \<Rightarrow> token option" where
  "literal_method callee =
     (case callee of PropertyExpression receiver property \<Rightarrow>
        if is_literal_receiver receiver then Some property else None
      | _ \<Rightarrow> None)"

text \<open>One argument: an optional label and the value; a spread is refused.\<close>

definition call_argument :: "grammar \<Rightarrow> (token option \<times> expr) parser" where
  "call_argument g =
     p_bind (p_if (\<lambda>s. check T_Identifier s \<and> tk_kind (peek_at 1 s) = T_Equal)
         (p_bind advance (\<lambda>name. p_bind advance (\<lambda>_. p_return (Some name)))) (p_return None)) (\<lambda>label.
     p_bind (g_expression g) (\<lambda>argument.
     p_if (check T_Ellipsis) (fail_current ParserSpreadArguments) (p_return (label, argument))))"

definition call_arguments :: "grammar \<Rightarrow> expr \<Rightarrow> type_expr list \<Rightarrow> expr parser" where
  "call_arguments g callee type_arguments =
     (case literal_method callee of
        Some property \<Rightarrow> fail_at property ParserMethodCallOnLiteral
      | None \<Rightarrow>
          p_bind advance (\<lambda>open.
          p_bind (p_if (\<lambda>s. \<not> check T_RightParen s)
              (p_loop (\<lambda>(labels, arguments).
                 p_bind (call_argument g) (\<lambda>(label, argument).
                 (let ls = labels @ [label]; args = arguments @ [argument] in
                  p_if (check T_Comma)
                    (p_bind advance (\<lambda>_. p_if (check T_RightParen) (p_break (ls, args)) (p_continue (ls, args))))
                    (p_break (ls, args))))) ([], []))
              (p_return ([], []))) (\<lambda>(labels, arguments).
          p_bind (consume T_RightParen (SQUOTE # '')'' @ SQUOTE # '' after the argument list'')) (\<lambda>_.
          p_return (CallExpression callee open arguments labels type_arguments)))))"

definition parse_member_name :: "token parser" where
  "parse_member_name =
     p_if (\<lambda>s. check T_End s \<or> check T_Method s) advance
       (consume T_Identifier (''an identifier after '' @ SQUOTE # ''.'' @ [SQUOTE]))"

definition postfix_step :: "grammar \<Rightarrow> expr \<Rightarrow> (expr + expr) parser" where
  "postfix_step g e =
     p_if (\<lambda>s. check T_Less s \<and> generic_constructor_follows s)
       (p_bind (type_argument_list (g_type g)) (\<lambda>arguments.
        p_bind (consume T_Dot (SQUOTE # ''.'' @ SQUOTE # '' after generic owner arguments'')) (\<lambda>_.
        p_bind (consume T_Identifier (''a name after '' @ SQUOTE # ''.'' @ [SQUOTE])) (\<lambda>property.
        p_bind (call_arguments g (PropertyExpression e property) arguments) p_continue))))
     (p_if (check T_Dot)
       (p_bind advance (\<lambda>_. p_bind parse_member_name (\<lambda>property.
        p_continue (PropertyExpression e property))))
     (p_if (\<lambda>s. check T_LeftBrace s \<and> on_previous_token_line s)
       (fail_current ParserNamedConstructorArguments)
     (p_if (\<lambda>s. check T_Less s \<and> generic_call_follows s)
       (p_bind (type_argument_list (g_type g)) (\<lambda>arguments.
        p_bind (call_arguments g e arguments) p_continue))
     (p_if (check T_LeftBracket)
       (p_bind advance (\<lambda>open.
        p_bind (g_expression g) (\<lambda>index.
        p_bind (consume T_RightBracket (SQUOTE # '']'' @ SQUOTE # '' after the index expression'')) (\<lambda>close.
        p_continue (IndexExpression e open index close)))))
     (p_if (\<lambda>s. check T_LeftParen s \<and> on_previous_token_line s)
       (p_bind (call_arguments g e []) p_continue)
       (p_break e))))))"

definition postfix :: "grammar \<Rightarrow> expr \<Rightarrow> expr parser" where
  "postfix g e = p_loop (postfix_step g) e"

section \<open>Places\<close>

definition place :: "grammar \<Rightarrow> expr parser" where
  "place g =
     p_bind (p_if (check T_Self) advance (consume T_Identifier ''a place identifier'')) (\<lambda>name.
     p_loop (\<lambda>e. p_if (check T_Dot)
         (p_bind advance (\<lambda>_. p_bind parse_member_name (\<lambda>property.
          p_continue (PropertyExpression e property))))
       (p_if (check T_LeftBracket)
         (p_bind advance (\<lambda>open.
          p_bind (g_expression g) (\<lambda>index.
          p_bind (consume T_RightBracket (SQUOTE # '']'' @ [SQUOTE])) (\<lambda>close.
          p_continue (IndexExpression e open index close)))))
         (p_break e))) (VariableExpression name))"

definition address_operand_body :: "grammar \<Rightarrow> expr parser" where
  "address_operand_body g =
     p_if (check T_Caret)
       (p_bind advance (\<lambda>operator. p_bind (g_address g) (\<lambda>operand.
        p_return (DereferenceExpression operator operand))))
       (place g)"

section \<open>Signatures and bodies\<close>

definition generic_parameter_list :: "token list parser" where
  "generic_parameter_list =
     p_if (\<lambda>s. \<not> check T_Less s) (p_return [])
       (p_bind (consume T_Less (SQUOTE # ''<'' @ [SQUOTE])) (\<lambda>_.
        p_bind (comma_items (consume T_Identifier ''a generic parameter name'')) (\<lambda>parameters.
        p_bind (consume T_Greater (SQUOTE # ''>'' @ SQUOTE # '' after a generic parameter list'')) (\<lambda>_.
        p_return parameters))))"

definition parse_parameter :: "grammar \<Rightarrow> parameter parser" where
  "parse_parameter g =
     p_bind (consume T_Identifier ''a parameter name'') (\<lambda>name.
     p_if (\<lambda>s. \<not> check T_Colon s) (fail_at name ParserParameterAnnotation)
       (p_bind advance (\<lambda>_.
        p_bind (g_type g) (\<lambda>t.
        p_if (check T_Ellipsis)
          (p_bind advance (\<lambda>e. p_return \<lparr>pm_name = name, pm_type = t, pm_rest = True, pm_ellipsis = e\<rparr>))
          (p_return \<lparr>pm_name = name, pm_type = t, pm_rest = False, pm_ellipsis = zero_token\<rparr>)))))"

definition signature :: "grammar \<Rightarrow> (parameter list \<times> type_expr option) parser" where
  "signature g =
     p_bind (consume T_LeftParen (SQUOTE # ''('' @ SQUOTE # '' after a declaration name'')) (\<lambda>_.
     p_bind (p_if (\<lambda>s. \<not> check T_RightParen s)
         (p_loop (\<lambda>(saw_rest, parameters).
            if saw_rest then fail_current ParserRestFinal
            else p_bind (parse_parameter g) (\<lambda>p.
              p_if (check T_Comma) (p_bind advance (\<lambda>_. p_continue (pm_rest p, parameters @ [p])))
                (p_break (parameters @ [p])))) (False, []))
         (p_return [])) (\<lambda>parameters.
     p_bind (consume T_RightParen (SQUOTE # '')'' @ SQUOTE # '' after a parameter list'')) (\<lambda>_.
     p_if (\<lambda>s. \<not> check T_Colon s) (p_return (parameters, None))
       (p_bind advance (\<lambda>_. p_bind (g_type g) (\<lambda>r. p_return (parameters, Some r)))))))"

text \<open>\<open>body\<close>: a block up to its \<open>end\<close>, one body deeper, and the \<open>end\<close> token.\<close>

definition body :: "grammar \<Rightarrow> string \<Rightarrow> (stmt list \<times> token) parser" where
  "body g owner s =
     (let (r, s') = p_bind (g_block g owner [T_End]) (\<lambda>statements.
              p_bind advance (\<lambda>e. p_return (statements, e)))
            (s\<lparr>ps_body_depth := ps_body_depth s + 1\<rparr>)
      in (r, s'\<lparr>ps_body_depth := ps_body_depth s' - 1\<rparr>))"

text \<open>The signature, the \<open>do\<close>, and the body with whether it recorded diagnostics.\<close>

definition function_rest ::
  "grammar \<Rightarrow> message \<Rightarrow> string \<Rightarrow> (parameter list \<times> type_expr option \<times> stmt list \<times> token \<times> bool) parser" where
  "function_rest g missing_do owner =
     p_bind (signature g) (\<lambda>(parameters, return_type).
     p_bind (require_delimiter T_Do missing_do) (\<lambda>_.
     p_get (\<lambda>s. length (ps_diagnostics s)) (\<lambda>earlier.
     p_bind (body g owner) (\<lambda>(statements, e).
     p_get (\<lambda>s. length (ps_diagnostics s) > earlier) (\<lambda>errors.
     p_return (parameters, return_type, statements, e, errors))))))"

definition anonymous_function_literal :: "grammar \<Rightarrow> expr parser" where
  "anonymous_function_literal g =
     p_bind advance (\<lambda>keyword.
     p_bind generic_parameter_list (\<lambda>type_parameters.
     p_if (\<lambda>s. \<not> check T_LeftParen s) (fail_current ParserAnonymousFunForm)
       (p_bind (function_rest g ParserExpectedFunctionBody ''function literal'')
         (\<lambda>(parameters, return_type, statements, e, errors).
        p_return (AnonymousFunctionLiteral keyword type_parameters parameters return_type statements e errors)))))"

section \<open>Match expressions\<close>

definition integer_kind :: "token_kind \<Rightarrow> bool" where
  "integer_kind kind \<longleftrightarrow> kind \<in> {T_Integer, T_HexInteger, T_BinaryInteger, T_OctalInteger}"

definition scalar_pattern_kind :: "token_kind \<Rightarrow> bool" where
  "scalar_pattern_kind kind \<longleftrightarrow> integer_kind kind \<or> kind = T_ByteLiteral \<or> kind = T_RuneLiteral"

definition scalar_pattern :: "token \<Rightarrow> match_pattern parser" where
  "scalar_pattern neg =
     p_bind advance (\<lambda>token.
     if integer_kind (tk_kind token) then p_return (ScalarPattern neg (IntegerLiteral token))
     else if tk_kind token = T_ByteLiteral then p_return (ScalarPattern neg (ByteLiteralExpression token))
     else if tk_kind token = T_RuneLiteral then p_return (ScalarPattern neg (RuneLiteralExpression token))
     else fail_current ParserPatternLiteral)"

definition dotted_pattern :: "match_pattern parser" where
  "dotted_pattern =
     p_bind advance (\<lambda>owner. p_bind advance (\<lambda>_. p_bind advance (\<lambda>name.
     p_if (\<lambda>s. check T_Dot s \<and> tk_kind (peek_at 1 s) = T_Identifier)
       (p_bind advance (\<lambda>_. p_bind advance (\<lambda>member. p_return (DottedPattern owner name member))))
       (p_return (DottedPattern owner name zero_token)))))"

definition match_pattern_body :: "grammar \<Rightarrow> match_pattern parser" where
  "match_pattern_body g =
     p_if (check T_Else) (p_bind advance (\<lambda>t. p_return (ElsePattern t)))
     (p_if (\<lambda>s. check T_True s \<or> check T_False s) (p_bind advance (\<lambda>t. p_return (BoolPattern t)))
     (p_if (check T_Eos) (p_bind advance (\<lambda>t. p_return (EosPattern t)))
     (p_if (\<lambda>s. scalar_pattern_kind (tk_kind (peek s))) (scalar_pattern zero_token)
     (p_if (check T_Minus)
       (p_bind advance (\<lambda>neg.
        p_if (\<lambda>s. scalar_pattern_kind (tk_kind (peek_at 0 s))) (scalar_pattern neg)
          (fail_current ParserPatternNegativeInteger)))
     (p_if (\<lambda>s. check T_Identifier s \<and> tk_kind (peek_at 1 s) = T_Less \<and> generic_variant_follows s)
       (p_bind advance (\<lambda>owner.
        p_bind (type_argument_list (g_type g)) (\<lambda>arguments.
        p_bind (consume T_Dot (SQUOTE # ''.'' @ SQUOTE # '' after generic owner arguments'')) (\<lambda>_.
        p_bind advance (\<lambda>variant. p_return (VariantPattern owner arguments variant))))))
     (p_if (\<lambda>s. check T_Identifier s \<and> tk_kind (peek_at 1 s) = T_Dot \<and> tk_kind (peek_at 2 s) = T_Identifier)
       dotted_pattern
       (p_bind (primary_type_expression (g_type g)) (\<lambda>t. p_return (TypePattern t)))))))))"

text \<open>The scrutinee and arm positions: the ladder under a boundary, with its own depth and
  operator region.\<close>

definition match_operand :: "grammar \<Rightarrow> match_boundary \<Rightarrow> expr parser" where
  "match_operand g b = with_boundary b (with_depth (with_region (or_expression g)))"

definition match_expression :: "grammar \<Rightarrow> expr parser" where
  "match_expression g =
     p_bind advance (\<lambda>keyword.
     p_bind (match_operand g ScrutineeBoundary) (\<lambda>scrutinee.
     p_bind (p_if (check T_Is) (p_bind advance (\<lambda>_. p_return True)) (p_return False)) (\<lambda>type_mode.
     p_bind (p_loop (\<lambda>arms. p_if (check T_Pipe)
         (p_bind advance (\<lambda>pipe.
          p_bind (match_pattern_body g) (\<lambda>pattern.
          p_bind (consume T_Then (SQUOTE # ''then'' @ SQUOTE # '' after a match pattern'')) (\<lambda>arrow.
          p_bind (match_operand g ArmBoundary) (\<lambda>e.
          p_continue (arms @ [(pipe, pattern, arrow, e)]))))))
         (p_break arms)) []) (\<lambda>arms.
     if arms = [] then fail_current ParserMatchArmAfterBar
     else p_bind (consume T_End (SQUOTE # ''end'' @ SQUOTE # '' after a match expression'')) (\<lambda>e.
       p_return (MatchExpression keyword scrutinee type_mode arms e))))))"

section \<open>Primary and unary expressions\<close>

definition interpolation_template :: "grammar \<Rightarrow> expr parser" where
  "interpolation_template g =
     with_depth
       (p_bind (consume T_InterpStringStart ''an interpolated string'') (\<lambda>start.
        p_loop (\<lambda>segments.
          p_bind (consume T_InterpText ''interpolated string text'') (\<lambda>piece.
          (let segments' = segments @ [(Some piece, None, zero_token, zero_token)] in
           p_if (check T_InterpStringEnd)
             (p_bind advance (\<lambda>e. p_break (InterpolationTemplateExpression start segments' e)))
             (p_bind (consume T_InterpOpen (SQUOTE # ''{{'' @ SQUOTE # '' after interpolation text'')) (\<lambda>open.
              p_if (check T_InterpClose) (fail_current ParserInterpolationExpression)
                (p_bind (g_expression g) (\<lambda>value.
                 p_bind (consume T_InterpClose (SQUOTE # ''}}'' @ SQUOTE # '' after the interpolated expression''))
                 (\<lambda>close.
                 p_continue (segments' @ [(None, Some value, open, close)]))))))))) []))"

definition list_literal :: "grammar \<Rightarrow> expr parser" where
  "list_literal g =
     p_bind advance (\<lambda>open.
     p_bind (p_if (\<lambda>s. \<not> check T_RightBracket s)
         (p_loop (\<lambda>elements.
            p_bind (g_expression g) (\<lambda>element.
            p_if (\<lambda>s. \<not> check T_Comma s) (p_break (elements @ [element]))
              (p_bind advance (\<lambda>_. p_if (check T_RightBracket) (p_break (elements @ [element]))
                 (p_continue (elements @ [element])))))) [])
         (p_return [])) (\<lambda>elements.
     p_bind (consume T_RightBracket (SQUOTE # '']'' @ SQUOTE # '' after the array literal elements'')) (\<lambda>close.
     p_return (InlineListLiteralExpression open elements close))))"

definition grouped_expression :: "grammar \<Rightarrow> expr parser" where
  "grouped_expression g =
     p_bind advance (\<lambda>_.
     p_bind (with_boundary NoMatchBoundary (g_expression g)) (\<lambda>e.
     p_bind (consume T_RightParen (SQUOTE # '')'' @ SQUOTE # '' after expression'')) (\<lambda>_.
     p_return e)))"

text \<open>The switch of \<open>primaryExpression\<close>.\<close>

definition primary_start :: "grammar \<Rightarrow> expr parser" where
  "primary_start g s =
     (let kind = tk_kind (peek s);
          leaf = (\<lambda>node. p_bind advance (\<lambda>t. p_return (node t)) s) in
      if kind = T_Fun then
        (if \<not> fun_begins_anonymous_literal s then fail_current ParserAnonymousFunForm s
         else anonymous_function_literal g s)
      else if integer_kind kind then leaf IntegerLiteral
      else if kind = T_DecimalFloat then leaf DecimalLiteral
      else if kind = T_True \<or> kind = T_False then leaf BooleanLiteral
      else if kind = T_NilLiteral then leaf NilLiteralExpression
      else if kind = T_Eos then leaf EosLiteral
      else if kind = T_StringLiteral then leaf StringLiteralExpression
      else if kind = T_RawStringLiteral then leaf RawStringLiteralExpression
      else if kind = T_InterpStringStart then interpolation_template g s
      else if kind = T_ByteLiteral then leaf ByteLiteralExpression
      else if kind = T_RuneLiteral then leaf RuneLiteralExpression
      else if kind = T_Match then match_expression g s
      else if kind = T_Self \<or> kind = T_Identifier then leaf VariableExpression
      else if kind = T_LeftParen then grouped_expression g s
      else if kind = T_LeftBracket then list_literal g s
      else fail_current ParserExpectedValue s)"

definition primary_expression :: "grammar \<Rightarrow> expr parser" where
  "primary_expression g = p_bind (primary_start g) (postfix g)"

definition is_numeric_literal :: "pstate \<Rightarrow> bool" where
  "is_numeric_literal s \<longleftrightarrow> numeric_kind (tk_kind (peek s))"

definition numeric_literal :: "expr parser" where
  "numeric_literal =
     p_if (\<lambda>s. integer_kind (tk_kind (peek s))) (p_bind advance (\<lambda>t. p_return (IntegerLiteral t)))
     (p_if (check T_DecimalFloat) (p_bind advance (\<lambda>t. p_return (DecimalLiteral t)))
       (fail_current ParserNegativeNumber))"

text \<open>A prefix operator: its token, then the operand.\<close>

definition prefix_operator :: "(token \<Rightarrow> expr \<Rightarrow> expr) \<Rightarrow> expr parser \<Rightarrow> expr parser" where
  "prefix_operator node operand =
     p_bind advance (\<lambda>operator. p_bind operand (\<lambda>e. p_return (node operator e)))"

definition unary_expression_body :: "grammar \<Rightarrow> expr parser" where
  "unary_expression_body g =
     p_if (check T_Mut) (fail_current ParserMutRightHandSide)
     (p_if (check T_Minus)
       (p_bind advance (\<lambda>neg. p_if is_numeric_literal
          (p_bind numeric_literal (\<lambda>l. p_return (NegatedNumericLiteral neg l)))
          (p_bind (g_unary g) (\<lambda>e. p_return (UnaryExpression neg e)))))
     (p_if (\<lambda>s. check T_Bang s \<or> check T_Tilde s) (prefix_operator UnaryExpression (g_unary g))
     (p_if (check T_Try) (prefix_operator TryExpression (g_unary g))
     (p_if (check T_Spawn) (prefix_operator SpawnExpression (g_unary g))
     (p_if (check T_At) (prefix_operator AddressExpression (g_address g))
     (p_if (check T_Caret) (prefix_operator DereferenceExpression (g_unary g))
       (primary_expression g)))))))"

definition expression_body :: "grammar \<Rightarrow> expr parser" where
  "expression_body g = with_depth (with_region (or_expression g))"

end
