(* ===== verification/ParserStatements.thy ===== *)
theory ParserStatements
  imports ParserExpressions
begin

text \<open>
  Statements and blocks of \<open>compiler/parser/parser.go\<close> and \<open>compiler/parser/statements.go\<close>,
  and the knot that closes the grammar: \<open>expression\<close>, \<open>unary_expression\<close>,
  \<open>address_operand\<close>, \<open>type_expression\<close> and \<open>block\<close> call each other through the record
  \<open>grammar\<close>, one level of fuel below. Theory \<open>ParserTotal\<close> gives the fuel that suffices.
\<close>

text \<open>A call whose error the caller handles.\<close>

definition p_try :: "'a parser \<Rightarrow> ('a \<Rightarrow> 'b parser) \<Rightarrow> (perror \<Rightarrow> 'b parser) \<Rightarrow> 'b parser" where
  "p_try p ok handler s = (case p s of (Inl e, s') \<Rightarrow> handler e s' | (Inr x, s') \<Rightarrow> ok x s')"

section \<open>Simple statements\<close>

definition is_place_expression :: "expr \<Rightarrow> bool" where
  "is_place_expression e =
     (case e of VariableExpression _ \<Rightarrow> True | PropertyExpression _ _ \<Rightarrow> True
      | IndexExpression _ _ _ _ \<Rightarrow> True | AddressExpression _ _ \<Rightarrow> True
      | DereferenceExpression _ _ \<Rightarrow> True | _ \<Rightarrow> False)"

definition is_call_expression :: "expr \<Rightarrow> bool" where
  "is_call_expression e = (case e of CallExpression _ _ _ _ _ \<Rightarrow> True | _ \<Rightarrow> False)"

definition variable_name :: "expr \<Rightarrow> token" where
  "variable_name e = (case e of VariableExpression name \<Rightarrow> name | _ \<Rightarrow> zero_token)"

definition postfix_statement :: "grammar \<Rightarrow> expr \<Rightarrow> stmt parser" where
  "postfix_statement g start =
     p_bind (postfix g start) (\<lambda>target.
     p_if (check T_Equal)
       (p_bind advance (\<lambda>_. p_bind (g_expression g) (\<lambda>initializer.
        p_return (Assignment (variable_name start) target initializer))))
       (if is_call_expression target then p_return (CallStatement target)
        else fail_current ParserAssignmentEquals))"

text \<open>A statement that opens with a parenthesis: an assignment to a parenthesised place, or the
  split-call error reported at the parenthesis.\<close>

definition paren_statement :: "grammar \<Rightarrow> stmt parser" where
  "paren_statement g =
     p_get ps_current (\<lambda>start.
     (let refuse = p_bind (p_modify (\<lambda>s. s\<lparr>ps_current := start\<rparr>)) (\<lambda>_. fail_current ParserCallSameLine) in
      p_try (g_expression g)
        (\<lambda>target. p_if (\<lambda>s. is_place_expression target \<and> check T_Equal s)
           (p_bind advance (\<lambda>_. p_bind (g_expression g) (\<lambda>initializer.
            p_return (Assignment zero_token target initializer))))
           refuse)
        (\<lambda>e. if e = PFuel then p_fail PFuel else refuse)))"

definition return_statement :: "grammar \<Rightarrow> stmt parser" where
  "return_statement g =
     p_bind advance (\<lambda>keyword.
     p_get (\<lambda>s. (peek s, fun_begins_anonymous_literal s)) (\<lambda>(nxt, literal).
     (let with_value = p_bind (g_expression g) (\<lambda>value. p_return (ReturnStatement keyword (Some value)));
          bare = p_return (ReturnStatement keyword None) in
      if tk_kind nxt = T_Fun then
        (if tk_line nxt = tk_line keyword \<and> literal then with_value else bare)
      else if tk_line nxt = tk_line keyword \<and> starts_expression (tk_kind nxt) then with_value
      else if value_only_token (tk_kind nxt) then fail_at nxt ParserReturnSameLine
      else bare)))"

definition condition :: "grammar \<Rightarrow> string \<Rightarrow> expr parser" where
  "condition g keyword =
     p_if (\<lambda>s. tk_kind (peek s) \<in> {T_EOF, T_ElseIf, T_Else, T_End, T_Then})
       (fail_current (ParserExpectedCondition keyword)) (g_expression g)"

definition let_declaration :: "grammar \<Rightarrow> token \<Rightarrow> stmt parser" where
  "let_declaration g keyword =
     p_bind (p_if (check T_Mut) (p_bind advance (\<lambda>_. p_return True)) (p_return False)) (\<lambda>mutable.
     p_bind (consume T_Identifier (''an identifier after '' @ SQUOTE # ''let'' @ [SQUOTE])) (\<lambda>name.
     p_if (check T_Mut) (fail_current ParserMutAfterLet)
     (p_if (\<lambda>s. \<not> check T_Colon s)
       (p_bind (consume T_Equal (SQUOTE # ''='' @ SQUOTE # '' in a '' @ SQUOTE # ''let'' @ SQUOTE # '' declaration'')) (\<lambda>_.
        p_bind (g_expression g) (\<lambda>initializer.
        p_return (Declaration name mutable None initializer keyword))))
       (p_bind advance (\<lambda>colon.
        p_if (check T_Equal) (fail_at colon ParserTypeAfterColon)
          (p_bind (g_type g) (\<lambda>t.
           p_if (check T_Colon)
             (p_bind advance (\<lambda>second. p_if (check T_Equal)
                (fail_at second ParserDeprecatedColonEquals) (fail_at second ParserMissingEqualsLet)))
             (p_bind (consume T_Equal (SQUOTE # ''='' @ SQUOTE # '' in a '' @ SQUOTE # ''let'' @ SQUOTE # '' declaration'')) (\<lambda>_.
              p_bind (g_expression g) (\<lambda>initializer.
              p_return (Declaration name mutable (Some t) initializer keyword)))))))))))"

definition deprecated_declaration :: "grammar \<Rightarrow> token \<Rightarrow> stmt parser" where
  "deprecated_declaration g name =
     p_bind advance (\<lambda>colon.
     p_if (check T_Equal) (fail_at colon ParserDeprecatedColonEquals)
       (p_bind (g_type g) (\<lambda>_.
        p_if (check T_Colon)
          (p_bind advance (\<lambda>second. p_if (check T_Equal)
             (fail_at second ParserDeprecatedColonEquals) (fail_at name ParserDeclarationNeedsLet)))
          (fail_at name ParserDeclarationNeedsLet))))"

section \<open>Control flow\<close>

definition block_owner :: "string \<Rightarrow> string" where
  "block_owner owner =
     (if owner = ''while'' then ''while''
      else if owner = ''else'' then ''else''
      else if take 9 owner = ''function '' \<or> take 7 owner = ''method '' then ''function''
      else ''if'')"

definition if_statement :: "grammar \<Rightarrow> stmt parser" where
  "if_statement g =
     p_bind advance (\<lambda>keyword.
     p_bind (condition g ''if'') (\<lambda>cond.
     p_bind (require_delimiter T_Then ParserExpectedIfThen) (\<lambda>_.
     p_bind (g_block g ''if'' [T_ElseIf, T_Else, T_End]) (\<lambda>then_body.
     p_bind (p_loop (\<lambda>branches. p_if (check T_ElseIf)
         (p_bind advance (\<lambda>branch_keyword.
          p_bind (condition g ''elseif'') (\<lambda>branch_cond.
          p_bind (require_delimiter T_Then ParserExpectedElseIfThen) (\<lambda>_.
          p_bind (g_block g ''elseif'' [T_ElseIf, T_Else, T_End]) (\<lambda>branch_body.
          p_continue (branches @ [(branch_keyword, branch_cond, branch_body)]))))))
         (p_break branches)) []) (\<lambda>branches.
     p_bind (p_if (check T_Else)
         (p_bind advance (\<lambda>else_keyword.
          p_bind (g_block g ''else'' [T_End]) (\<lambda>else_body. p_return (else_keyword, else_body))))
         (p_return (zero_token, []))) (\<lambda>(else_keyword, else_body).
     p_bind (consume T_End (SQUOTE # ''end'' @ SQUOTE # '' to close if statement'')) (\<lambda>e.
     p_return (IfStatement keyword cond then_body branches else_body else_keyword e))))))))"

definition unsafe_statement :: "grammar \<Rightarrow> stmt parser" where
  "unsafe_statement g =
     p_bind advance (\<lambda>keyword.
     p_bind (consume T_Do (SQUOTE # ''do'' @ SQUOTE # '' after '' @ SQUOTE # ''unsafe'' @ [SQUOTE])) (\<lambda>_.
     p_bind (g_block g ''unsafe'' [T_End]) (\<lambda>statements.
     p_bind (consume T_End (SQUOTE # ''end'' @ SQUOTE # '' to close unsafe block'')) (\<lambda>e.
     p_return (UnsafeStatement keyword statements e)))))"

definition while_statement :: "grammar \<Rightarrow> stmt parser" where
  "while_statement g =
     p_bind advance (\<lambda>keyword.
     p_bind (condition g ''while'') (\<lambda>cond.
     p_bind (consume T_Do (SQUOTE # ''do'' @ SQUOTE # '' after while condition'')) (\<lambda>_.
     p_bind (g_block g ''while'' [T_End]) (\<lambda>statements.
     p_bind (consume T_End (SQUOTE # ''end'' @ SQUOTE # '' to close while statement'')) (\<lambda>e.
     p_return (WhileStatement keyword cond statements e))))))"

text \<open>The binder list: at most three, and a comma needs another binder.\<close>

definition for_binders :: "grammar \<Rightarrow> for_binder list parser" where
  "for_binders g =
     p_loop (\<lambda>binders.
       p_bind (consume T_Identifier (''a loop binder name after '' @ SQUOTE # ''for'' @ [SQUOTE])) (\<lambda>name.
       p_bind (p_if (check T_Colon)
           (p_bind advance (\<lambda>_. p_bind (g_type g) (\<lambda>t. p_return (Some t)))) (p_return None)) (\<lambda>annotation.
       (let bs = binders @ [(name, annotation)] in
        p_if (\<lambda>s. \<not> check T_Comma s) (p_break bs)
          (p_bind advance (\<lambda>_.
           if length bs = 3 then fail_current ParserForMaxBinders else p_continue bs)))))) []"

definition for_statement :: "grammar \<Rightarrow> stmt parser" where
  "for_statement g =
     p_bind advance (\<lambda>keyword.
     p_bind (for_binders g) (\<lambda>binders.
     if length binders < 1 then fail_at keyword ParserForNeedsBinder
     else
     p_bind (consume T_In (SQUOTE # ''in'' @ SQUOTE # '' after loop binders'')) (\<lambda>_.
     p_bind (g_expression g) (\<lambda>src.
     p_bind (consume T_Do (SQUOTE # ''do'' @ SQUOTE # '' after for source'')) (\<lambda>_.
     p_bind (g_block g ''for'' [T_End]) (\<lambda>statements.
     p_bind (consume T_End (SQUOTE # ''end'' @ SQUOTE # '' to close for statement'')) (\<lambda>e.
     p_return (ForStatement keyword binders src statements e))))))))"

section \<open>The statement switch\<close>

text \<open>The refusals of tokens that cannot open a statement, by the innermost open block.\<close>

definition stray_elseif :: "pstate \<Rightarrow> message" where
  "stray_elseif s =
     (if ps_block_stack s \<noteq> [] \<and> last (ps_block_stack s) = ''while'' then ParserElseifInWhile
      else if ps_block_stack s \<noteq> [] \<and> last (ps_block_stack s) = ''else'' then ParserElseifAfterElse
      else ParserElseifOutsideIf)"

definition stray_else :: "pstate \<Rightarrow> message" where
  "stray_else s =
     (if ps_block_stack s \<noteq> [] \<and> last (ps_block_stack s) = ''while'' then ParserElseInWhile
      else if ps_block_stack s \<noteq> [] \<and> last (ps_block_stack s) = ''else'' then ParserElseFinal
      else ParserElseOutsideIf)"

definition keyword_statement :: "(token \<Rightarrow> expr \<Rightarrow> stmt) \<Rightarrow> expr parser \<Rightarrow> stmt parser" where
  "keyword_statement node operand =
     p_bind advance (\<lambda>keyword. p_bind operand (\<lambda>e. p_return (node keyword e)))"

definition identifier_statement :: "grammar \<Rightarrow> stmt parser" where
  "identifier_statement g =
     p_if (check T_Mut) (fail_current ParserMutAfterLet)
       (p_bind (consume T_Identifier ''an identifier'') (\<lambda>name.
        p_if (check T_Colon) (deprecated_declaration g name)
          (postfix_statement g (VariableExpression name))))"

definition statement_body :: "grammar \<Rightarrow> stmt parser" where
  "statement_body g s =
     (let kind = tk_kind (peek s) in
      if at_extern_block s then fail_current ParserExternBeforeTopLevel s
      else if kind = T_Fun then
        (if token_after_fun s = T_Identifier then fail_current ParserNamedFunctionScope s
         else if fun_begins_anonymous_literal s then fail_current ParserAnonymousStatement s
         else fail_current ParserAnonymousFunForm s)
      else if kind = T_Method then fail_current (ParserModuleScopeOnly ''method declarations'') s
      else if kind = T_Type then fail_current (ParserModuleScopeOnly ''type declarations'') s
      else if kind = T_LeftParen then paren_statement g s
      else if kind = T_Return then return_statement g s
      else if kind = T_If then if_statement g s
      else if kind = T_While then while_statement g s
      else if kind = T_For then for_statement g s
      else if kind = T_Unsafe then unsafe_statement g s
      else if kind = T_Break then p_bind advance (\<lambda>t. p_return (BreakStatement t)) s
      else if kind = T_Continue then p_bind advance (\<lambda>t. p_return (ContinueStatement t)) s
      else if kind = T_Defer then keyword_statement DeferStatement (g_expression g) s
      else if kind = T_Errdefer then keyword_statement ErrdeferStatement (g_expression g) s
      else if kind = T_ElseIf then fail_current (stray_elseif s) s
      else if kind = T_Export then fail_current ParserExportPrefix s
      else if kind = T_Else then fail_current (stray_else s) s
      else if kind = T_End then fail_current ParserEndOutsideBlock s
      else if kind = T_Self then p_bind advance (\<lambda>t. postfix_statement g (VariableExpression t)) s
      else if kind = T_At \<or> kind = T_Caret then p_bind (g_unary g) (postfix_statement g) s
      else if kind = T_Try then keyword_statement TryStatement (g_unary g) s
      else if kind = T_Let then p_bind advance (let_declaration g) s
      else identifier_statement g s)"

section \<open>Blocks\<close>

definition at_block_stop :: "token_kind list \<Rightarrow> pstate \<Rightarrow> bool" where
  "at_block_stop stops s \<longleftrightarrow> list_ex (\<lambda>stop. check stop s) stops"

text \<open>The recovery after a failed statement that began at \<open>start\<close>: a sentinel propagates, an
  ordinary error is recorded and the parser moves to the next statement or delimiter.\<close>

definition block_recover :: "string \<Rightarrow> token_kind list \<Rightarrow> nat \<Rightarrow> 'a \<Rightarrow> perror \<Rightarrow> ('a + 'b) parser" where
  "block_recover owner stops start statements e =
     (case e of
        PDiagnostic d \<Rightarrow>
          p_bind (report (diagnostics_from e)) (\<lambda>_.
          p_bind (synchronize_block start) (\<lambda>_.
          p_if (check T_EOF)
            (p_get (\<lambda>s. error_at (peek s) (ParserExpectedEnd owner)) (\<lambda>missing.
             p_bind (report (diagnostics_from missing)) (\<lambda>_. p_fail PBlockRecovery)))
            (p_if (\<lambda>s. is_block_delimiter (tk_kind (peek s)) \<and> \<not> at_block_stop stops s)
               (p_bind advance (\<lambda>_. p_continue statements))
               (p_continue statements))))
      | _ \<Rightarrow> p_fail e)"

definition block_step :: "grammar \<Rightarrow> string \<Rightarrow> token_kind list \<Rightarrow> stmt list \<Rightarrow> (stmt list + stmt list) parser" where
  "block_step g owner stops statements =
     p_if (at_block_stop stops) (p_break statements)
     (p_if (check T_EOF)
       (p_get (\<lambda>s. diagnostics_from (error_at (peek s) (ParserExpectedEnd owner))) (\<lambda>ds.
        p_fail (PBlockFailure (hd ds))))
       (p_get ps_current (\<lambda>start.
        p_try (statement_body g) (\<lambda>statement. p_continue (statements @ [statement]))
          (block_recover owner stops start statements))))"

text \<open>The block stack holds the open block's owner while its statements are parsed.\<close>

definition with_block :: "string \<Rightarrow> 'a parser \<Rightarrow> 'a parser" where
  "with_block owner p s =
     (let (r, s') = p (s\<lparr>ps_block_stack := ps_block_stack s @ [block_owner owner]\<rparr>)
      in (r, s'\<lparr>ps_block_stack := butlast (ps_block_stack s')\<rparr>))"

definition block_body :: "grammar \<Rightarrow> string \<Rightarrow> token_kind list \<Rightarrow> stmt list parser" where
  "block_body g owner stops =
     with_depth (with_block owner (p_loop (block_step g owner stops) []))"

section \<open>The knot\<close>

fun expression :: "nat \<Rightarrow> expr parser"
  and unary_expression :: "nat \<Rightarrow> expr parser"
  and address_operand :: "nat \<Rightarrow> expr parser"
  and block :: "nat \<Rightarrow> string \<Rightarrow> token_kind list \<Rightarrow> stmt list parser" where
  "expression 0 s = (Inl PFuel, s)"
| "expression (Suc n) s =
     expression_body \<lparr>g_expression = expression n, g_unary = unary_expression n,
       g_address = address_operand n, g_type = type_expression n, g_block = block n\<rparr> s"
| "unary_expression 0 s = (Inl PFuel, s)"
| "unary_expression (Suc n) s =
     unary_expression_body \<lparr>g_expression = expression n, g_unary = unary_expression n,
       g_address = address_operand n, g_type = type_expression n, g_block = block n\<rparr> s"
| "address_operand 0 s = (Inl PFuel, s)"
| "address_operand (Suc n) s =
     address_operand_body \<lparr>g_expression = expression n, g_unary = unary_expression n,
       g_address = address_operand n, g_type = type_expression n, g_block = block n\<rparr> s"
| "block 0 owner stops s = (Inl PFuel, s)"
| "block (Suc n) owner stops s =
     block_body \<lparr>g_expression = expression n, g_unary = unary_expression n,
       g_address = address_operand n, g_type = type_expression n, g_block = block n\<rparr> owner stops s"

definition the_grammar :: "nat \<Rightarrow> grammar" where
  "the_grammar n =
     \<lparr>g_expression = expression n, g_unary = unary_expression n, g_address = address_operand n,
      g_type = type_expression n, g_block = block n\<rparr>"

end
