(* ===== verification/ParserTopLevel.thy ===== *)
theory ParserTopLevel
  imports ParserStatements
begin

text \<open>
  Top-level items, import and export blocks, foreign blocks and \<open>Parse\<close> itself, from
  \<open>compiler/parser/parser.go\<close>, \<open>statements.go\<close> and \<open>extern.go\<close>.
\<close>

section \<open>Top-level nodes\<close>

datatype (plugins only: code size) top_item =
    TypeDeclaration token token "token list" type_expr bool
  | FunctionDeclaration token token "token list" "parameter list" "type_expr option" "stmt list" token bool bool
  | MethodDeclaration token bool type_expr token "token list" "parameter list" "type_expr option" "stmt list" token bool bool
  | StatementItem stmt

datatype import_reference_kind =
  RelativeImportReference | StandardLibraryImportReference | CHeaderImportReference

record import_reference =
  ir_kind :: import_reference_kind
  ir_token :: token
  ir_display :: string
  ir_components :: "token list"
  ir_relative_path :: token
  ir_c_header :: string
  ir_system :: bool

text \<open>\<open>ImportEntry\<close>: alias, from, reference. \<open>ExportEntry\<close>: name, method.\<close>

type_synonym import_entry = "token \<times> token \<times> import_reference"
type_synonym export_entry = "token \<times> token option"

record import_block =
  ib_keyword :: token
  ib_entries :: "import_entry list"
  ib_end :: token

record export_block =
  eb_keyword :: token
  eb_entries :: "export_entry list"
  eb_end :: token

text \<open>\<open>ExternMember\<close>: mutable, name, C name, type. \<open>ExternParameter\<close>: name, type, C type.\<close>

type_synonym extern_member = "bool \<times> token \<times> token option \<times> type_expr"
type_synonym extern_parameter = "token \<times> type_expr \<times> token option"

datatype (plugins only: code size) extern_declaration =
    ExternType token token "token option" "type_expr option" bool "extern_member list" token
  | ExternFunction token token "token option" "extern_parameter list" "type_expr option" "token option"
  | ExternConstant token token "token option" type_expr
  | ExternGlobal token bool token "token option" type_expr

record extern_block =
  xb_keyword :: token
  xb_c :: token
  xb_from :: token
  xb_header :: import_reference
  xb_do :: token
  xb_declarations :: "extern_declaration list"
  xb_end :: token

record program =
  pr_import :: "import_block option"
  pr_externs :: "extern_block list"
  pr_items :: "top_item list"
  pr_statements :: "stmt list"
  pr_export :: "export_block option"

section \<open>String helpers of the standard library\<close>

definition has_prefix :: "string \<Rightarrow> string \<Rightarrow> bool" where
  "has_prefix s p \<longleftrightarrow> take (length p) s = p"

definition has_suffix :: "string \<Rightarrow> string \<Rightarrow> bool" where
  "has_suffix s p \<longleftrightarrow> length p \<le> length s \<and> drop (length s - length p) s = p"

definition trim_prefix :: "string \<Rightarrow> string \<Rightarrow> string" where
  "trim_prefix s p = (if has_prefix s p then drop (length p) s else s)"

definition trim_suffix :: "string \<Rightarrow> string \<Rightarrow> string" where
  "trim_suffix s p = (if has_suffix s p then take (length s - length p) s else s)"

text \<open>\<open>strings.FieldsFunc\<close>: the maximal nonempty runs of characters off the separators.\<close>

fun fields_func :: "(char \<Rightarrow> bool) \<Rightarrow> string \<Rightarrow> string \<Rightarrow> string list" where
  "fields_func sep acc [] = (if acc = [] then [] else [acc])"
| "fields_func sep acc (c # cs) =
     (if sep c then (if acc = [] then [] else [acc]) @ fields_func sep [] cs
      else fields_func sep (acc @ [c]) cs)"

section \<open>Declarations\<close>

definition type_declaration :: "grammar \<Rightarrow> bool \<Rightarrow> top_item parser" where
  "type_declaration g exported =
     p_bind (consume T_Type (SQUOTE # ''type'' @ [SQUOTE])) (\<lambda>keyword.
     p_bind (consume T_Identifier (''an identifier after '' @ SQUOTE # ''type'' @ [SQUOTE])) (\<lambda>name.
     p_bind generic_parameter_list (\<lambda>parameters.
     p_if (check T_Equal) (fail_current ParserDeclarationTypeForm)
     (p_if (check T_As) (fail_current ParserAdtDeclarationForm)
     (p_bind (consume T_Is (SQUOTE # ''is'' @ SQUOTE # '' after a type name'')) (\<lambda>_.
     p_if (check T_LeftBrace) (fail_current ParserStructDeclarationForm)
     (p_bind (type_definition (g_type g)) (\<lambda>target.
     p_return (TypeDeclaration keyword name parameters target exported)))))))))"

definition function_declaration :: "grammar \<Rightarrow> bool \<Rightarrow> top_item parser" where
  "function_declaration g exported =
     p_bind advance (\<lambda>keyword.
     p_bind (consume T_Identifier (''a function name after '' @ SQUOTE # ''fun'' @ [SQUOTE])) (\<lambda>name.
     p_bind generic_parameter_list (\<lambda>type_parameters.
     p_bind (function_rest g ParserExpectedFunctionBody (''function '' @ tk_lexeme name))
       (\<lambda>(parameters, return_type, statements, e, errors).
     p_return (FunctionDeclaration keyword name type_parameters parameters return_type statements e errors exported)))))"

text \<open>The receiver is parsed with the flag that makes a dot after a union member the method's.\<close>

definition receiver_type :: "grammar \<Rightarrow> type_expr parser" where
  "receiver_type g s =
     (let (r, s') = g_type g (s\<lparr>ps_method_receiver := True\<rparr>)
      in (r, s'\<lparr>ps_method_receiver := False\<rparr>))"

definition method_rest ::
  "grammar \<Rightarrow> token \<Rightarrow> bool \<Rightarrow> bool \<Rightarrow> type_expr \<Rightarrow> token \<Rightarrow> token list \<Rightarrow> top_item parser" where
  "method_rest g keyword mutating exported self_type name type_parameters =
     p_bind (function_rest g ParserExpectedMethodBody (''method '' @ tk_lexeme name))
       (\<lambda>(parameters, return_type, statements, e, errors).
     p_return (MethodDeclaration keyword mutating self_type name type_parameters parameters return_type
       statements e errors exported))"

definition method_declaration :: "grammar \<Rightarrow> bool \<Rightarrow> top_item parser" where
  "method_declaration g exported =
     p_bind advance (\<lambda>keyword.
     p_bind (p_if (check T_Mut) (p_bind advance (\<lambda>_. p_return True)) (p_return False)) (\<lambda>mutating.
     p_bind (receiver_type g) (\<lambda>self_type.
     case self_type of
       QualifiedTypeExpression qualifier names \<Rightarrow>
         method_rest g keyword mutating exported
           (if butlast names = [] then NamedTypeExpression qualifier
            else QualifiedTypeExpression qualifier (butlast names))
           (last names) []
     | _ \<Rightarrow>
         p_bind (consume T_Dot (SQUOTE # ''.'' @ SQUOTE # '' after a method receiver type'')) (\<lambda>_.
         p_bind (consume T_Identifier (''a method name after '' @ SQUOTE # ''.'' @ [SQUOTE])) (\<lambda>name.
         p_bind generic_parameter_list (\<lambda>type_parameters.
         method_rest g keyword mutating exported self_type name type_parameters))))))"

definition top_level_item :: "grammar \<Rightarrow> top_item parser" where
  "top_level_item g =
     p_if (check T_Type) (type_declaration g False)
     (p_if (check T_Fun) (function_declaration g False)
     (p_if (check T_Method) (method_declaration g False)
       (p_bind (statement_body g) (\<lambda>st. p_return (StatementItem st)))))"

section \<open>Imports and exports\<close>

definition valid_c_header_name :: "string \<Rightarrow> bool" where
  "valid_c_header_name payload \<longleftrightarrow>
     \<not> (payload = [] \<or> has_prefix payload ''/'' \<or> has_prefix payload [BACKSLASH]) \<and>
     \<not> (length payload \<ge> 2 \<and> payload ! 1 = CHR '':'') \<and>
     list_all (\<lambda>c. c \<noteq> ''..'') (fields_func (\<lambda>r. r = CHR ''/'' \<or> r = BACKSLASH) [] payload)"

text \<open>The payload of a header literal between its delimiters.\<close>

definition header_payload :: "string \<Rightarrow> string" where
  "header_payload lexeme =
     (if length lexeme \<ge> 2 \<and>
         (has_prefix lexeme ''<'' \<and> has_suffix lexeme ''>'' \<or>
          has_prefix lexeme [DQUOTE] \<and> has_suffix lexeme [DQUOTE])
      then substring lexeme 1 (length lexeme - 1) else lexeme)"

definition c_header_literal :: "token \<Rightarrow> import_reference parser" where
  "c_header_literal keyword =
     p_if (\<lambda>s. \<not> check T_CHeaderLiteral s) (fail_current ParserMissingCHeader)
       (p_bind advance (\<lambda>literal.
        (let payload = header_payload (tk_lexeme literal) in
         if \<not> valid_c_header_name payload then fail_at literal (ParserInvalidCHeaderName payload)
         else p_return \<lparr>ir_kind = CHeaderImportReference, ir_token = keyword,
            ir_display = tk_lexeme literal, ir_components = [], ir_relative_path = zero_token,
            ir_c_header = payload, ir_system = has_prefix (tk_lexeme literal) ''<''\<rparr>)))"

text \<open>A quoted module path: relative, or a refusal that names the dotted spelling.\<close>

definition quoted_reference :: "import_reference parser" where
  "quoted_reference =
     p_bind advance (\<lambda>path.
     (let payload = trim_suffix (trim_prefix (tk_lexeme path) [DQUOTE]) [DQUOTE] in
      if has_prefix payload ''./'' \<or> has_prefix payload ''../'' then
        p_return \<lparr>ir_kind = RelativeImportReference, ir_token = path, ir_display = payload,
          ir_components = [], ir_relative_path = path, ir_c_header = [], ir_system = False\<rparr>
      else if has_prefix payload ''std/'' \<or> payload = ''std'' then
        fail_at path (ParserImportDotted (map (\<lambda>c. if c = CHR ''/'' then CHR ''.'' else c) payload))
      else fail_at path ParserImportRelative))"

definition std_components :: "(string \<times> token list) parser" where
  "std_components =
     p_loop (\<lambda>(spelled, components).
       p_if (\<lambda>s. \<not> check T_Identifier s) (fail_current ParserImportComponentAfterDot)
         (p_bind advance (\<lambda>component.
          (let state = (spelled @ ''.'' @ tk_lexeme component, components @ [component]) in
           p_if (check T_Dot) (p_bind advance (\<lambda>_. p_continue state)) (p_break state))))) (''std'', [])"

definition std_reference :: "token \<Rightarrow> import_reference parser" where
  "std_reference from_token =
     p_get peek (\<lambda>std.
     if tk_kind std \<noteq> T_Identifier \<or> tk_lexeme std \<noteq> ''std'' then fail_current ParserModuleLiteralAfterFrom
     else if tk_line std \<noteq> tk_line from_token then fail_at std ParserImportSameLine
     else p_bind advance (\<lambda>_.
       p_if (check T_Slash) (fail_current ParserImportDots)
       (p_if (\<lambda>s. \<not> check T_Dot s) (fail_at std ParserImportComponent)
         (p_bind advance (\<lambda>_.
          p_bind std_components (\<lambda>(spelled, components).
          p_return \<lparr>ir_kind = StandardLibraryImportReference, ir_token = std, ir_display = spelled,
            ir_components = components, ir_relative_path = zero_token, ir_c_header = [],
            ir_system = False\<rparr>))))))"

definition import_reference_body :: "token \<Rightarrow> import_reference parser" where
  "import_reference_body from_token =
     p_if (check T_ModulePathLiteral) quoted_reference
     (p_if (at_contextual ''c'') (p_bind advance c_header_literal) (std_reference from_token))"

definition parse_import_block :: "import_block parser" where
  "parse_import_block =
     p_bind advance (\<lambda>keyword.
     p_if (check T_End) (p_bind advance (\<lambda>_. fail_at keyword ParserImportNeedsEntry))
       (p_bind (p_loop (\<lambda>entries.
            p_bind (consume T_Identifier ''an import alias'') (\<lambda>alias.
            p_get peek (\<lambda>from_token.
            p_if (\<lambda>s. \<not> at_contextual ''from'' s) (fail_current ParserImportFrom)
              (p_bind advance (\<lambda>_.
               p_bind (import_reference_body from_token) (\<lambda>reference.
               (let es = entries @ [(alias, from_token, reference)] in
                p_if (check T_Comma)
                  (p_bind advance (\<lambda>_. p_if (check T_End) (p_break es) (p_continue es)))
                  (p_break es)))))))) []) (\<lambda>entries.
        p_bind (consume T_End (SQUOTE # ''end'' @ SQUOTE # '' to close the import block'')) (\<lambda>e.
        p_return \<lparr>ib_keyword = keyword, ib_entries = entries, ib_end = e\<rparr>))))"

definition parse_export_block :: "export_block parser" where
  "parse_export_block =
     p_bind advance (\<lambda>keyword.
     p_if (check T_End) (p_bind advance (\<lambda>_. fail_at keyword ParserExportNeedsEntry))
       (p_bind (p_loop (\<lambda>entries.
            p_bind (consume T_Identifier ''an exported name'') (\<lambda>name.
            p_bind (p_if (check T_Dot)
                (p_bind advance (\<lambda>_.
                 p_bind (consume T_Identifier (''a method name after '' @ SQUOTE # ''.'' @ [SQUOTE])) (\<lambda>m.
                 p_return (Some m))))
                (p_return None)) (\<lambda>method.
            (let es = entries @ [(name, method)] in
             p_if (check T_Comma)
               (p_bind advance (\<lambda>_. p_if (check T_End) (p_break es) (p_continue es)))
               (p_break es))))) []) (\<lambda>entries.
        p_bind (consume T_End (SQUOTE # ''end'' @ SQUOTE # '' to close the export block'')) (\<lambda>e.
        p_return \<lparr>eb_keyword = keyword, eb_entries = entries, eb_end = e\<rparr>))))"

section \<open>Foreign blocks\<close>

definition trim_string_literal :: "string \<Rightarrow> string" where
  "trim_string_literal lexeme =
     (if length lexeme \<ge> 2 \<and> has_prefix lexeme [DQUOTE] \<and> has_suffix lexeme [DQUOTE]
      then substring lexeme 1 (length lexeme - 1) else lexeme)"

definition valid_c_spelling :: "string \<Rightarrow> bool" where
  "valid_c_spelling spelling \<longleftrightarrow> spelling \<noteq> [] \<and>
     list_all (\<lambda>c. c \<notin> {CHR ''['', CHR '']'', CHR ''('', CHR '')'', CHR ''{'', CHR ''}'', CHR ''='',
       CHR ''#'', CHR '';'', CHR '','', LF, CR, TAB}) spelling"

definition consume_c_spelling_attribute :: "token option parser" where
  "consume_c_spelling_attribute =
     p_if (\<lambda>s. \<not> check T_As s) (p_return None)
       (p_bind advance (\<lambda>_.
        p_bind (consume T_StringLiteral (''a quoted C spelling after '' @ SQUOTE # ''as'' @ [SQUOTE])) (\<lambda>literal.
        (let spelling = trim_string_literal (tk_lexeme literal) in
         if \<not> valid_c_spelling spelling then fail_at literal (ParserInvalidCSpelling spelling)
         else p_return (Some (literal\<lparr>tk_lexeme := spelling\<rparr>))))))"

definition extern_members :: "grammar \<Rightarrow> (extern_member list \<times> token) parser" where
  "extern_members g =
     p_bind (p_loop (\<lambda>members.
         p_if (\<lambda>s. check T_End s \<or> check T_EOF s) (p_break members)
           (p_bind (p_if (check T_Mut) (p_bind advance (\<lambda>_. p_return True)) (p_return False)) (\<lambda>mutable.
            p_bind (consume T_Identifier ''a foreign member name'') (\<lambda>name.
            p_bind consume_c_spelling_attribute (\<lambda>c_name.
            p_bind (consume T_Colon (SQUOTE # '':'' @ SQUOTE # '' after a foreign member name'')) (\<lambda>_.
            p_bind (g_type g) (\<lambda>t.
            (let ms = members @ [(mutable, name, c_name, t)] in
             p_if (check T_Comma)
               (p_bind advance (\<lambda>_. p_if (check T_End) (p_break ms) (p_continue ms)))
               (p_break ms))))))))) []) (\<lambda>members.
     p_bind (consume T_End (SQUOTE # ''end'' @ SQUOTE # '' to close the foreign struct'')) (\<lambda>e.
     p_return (members, e)))"

definition extern_type :: "grammar \<Rightarrow> extern_declaration parser" where
  "extern_type g =
     p_bind advance (\<lambda>keyword.
     p_bind (consume T_Identifier ''a foreign type name'') (\<lambda>name.
     p_bind consume_c_spelling_attribute (\<lambda>c_name.
     p_bind (consume T_Is (SQUOTE # ''is'' @ SQUOTE # '' in a foreign type declaration'')) (\<lambda>_.
     p_if (at_contextual ''opaque'')
       (p_bind advance (\<lambda>_. p_return (ExternType keyword name c_name None True [] zero_token)))
     (p_if (check T_Struct)
       (p_bind advance (\<lambda>_. p_bind (extern_members g) (\<lambda>(members, e).
        p_return (ExternType keyword name c_name None False members e))))
       (p_bind (alias_target (g_type g)) (\<lambda>target.
        p_return (ExternType keyword name c_name (Some target) False [] zero_token))))))))"

definition extern_parameters :: "grammar \<Rightarrow> extern_parameter list parser" where
  "extern_parameters g =
     p_loop (\<lambda>parameters.
       p_bind (consume T_Identifier ''a foreign parameter name'') (\<lambda>name.
       p_bind (consume T_Colon (SQUOTE # '':'' @ SQUOTE # '' after a foreign parameter name'')) (\<lambda>_.
       p_bind (g_type g) (\<lambda>t.
       p_bind consume_c_spelling_attribute (\<lambda>c_type.
       (let ps = parameters @ [(name, t, c_type)] in
        p_if (check T_Comma)
          (p_bind advance (\<lambda>_. p_if (check T_RightParen) (p_break ps) (p_continue ps)))
          (p_break ps))))))) []"

definition extern_function :: "grammar \<Rightarrow> extern_declaration parser" where
  "extern_function g =
     p_bind advance (\<lambda>keyword.
     p_bind (consume T_Identifier ''a foreign function name'') (\<lambda>name.
     p_bind consume_c_spelling_attribute (\<lambda>c_name.
     p_bind (consume T_LeftParen (SQUOTE # ''('' @ SQUOTE # '' after a foreign function name'')) (\<lambda>_.
     p_bind (p_if (\<lambda>s. \<not> check T_RightParen s) (extern_parameters g) (p_return [])) (\<lambda>parameters.
     p_bind (consume T_RightParen (SQUOTE # '')'' @ SQUOTE # '' after foreign parameters'')) (\<lambda>_.
     p_if (check T_Colon)
       (p_bind advance (\<lambda>_. p_bind (g_type g) (\<lambda>r.
        p_bind consume_c_spelling_attribute (\<lambda>c_type.
        p_return (ExternFunction keyword name c_name parameters (Some r) c_type)))))
       (p_return (ExternFunction keyword name c_name parameters None None))))))))"

definition extern_constant :: "grammar \<Rightarrow> extern_declaration parser" where
  "extern_constant g =
     p_bind advance (\<lambda>keyword.
     p_bind (consume T_Identifier ''a foreign constant name'') (\<lambda>name.
     p_bind consume_c_spelling_attribute (\<lambda>c_name.
     p_bind (consume T_Colon (SQUOTE # '':'' @ SQUOTE # '' after a foreign constant name'')) (\<lambda>_.
     p_bind (g_type g) (\<lambda>t.
     p_return (ExternConstant keyword name c_name t))))))"

definition extern_global :: "grammar \<Rightarrow> extern_declaration parser" where
  "extern_global g =
     p_bind advance (\<lambda>keyword.
     p_bind (p_if (check T_Mut) (p_bind advance (\<lambda>_. p_return True)) (p_return False)) (\<lambda>mutable.
     p_bind (consume T_Identifier ''a foreign global name'') (\<lambda>name.
     p_bind consume_c_spelling_attribute (\<lambda>c_name.
     p_bind (consume T_Colon (SQUOTE # '':'' @ SQUOTE # '' after a foreign global name'')) (\<lambda>_.
     p_bind (g_type g) (\<lambda>t.
     p_return (ExternGlobal keyword mutable name c_name t)))))))"

definition parse_extern_declaration :: "grammar \<Rightarrow> extern_declaration parser" where
  "parse_extern_declaration g =
     p_if (check T_Type) (extern_type g)
     (p_if (check T_Fun) (extern_function g)
     (p_if (at_contextual ''constant'') (extern_constant g)
     (p_if (at_contextual ''global'') (extern_global g)
       (fail_current ParserUnsupportedForeignDeclaration))))"

definition parse_extern_block :: "grammar \<Rightarrow> extern_block parser" where
  "parse_extern_block g =
     p_bind advance (\<lambda>keyword.
     p_get peek (\<lambda>c.
     p_if (\<lambda>s. \<not> at_contextual ''c'' s) (fail_current ParserExternC)
     (p_bind advance (\<lambda>_.
     p_get peek (\<lambda>from_token.
     p_if (\<lambda>s. \<not> at_contextual ''from'' s) (fail_current ParserMissingCHeader)
     (p_bind advance (\<lambda>_.
     p_bind (c_header_literal from_token) (\<lambda>header.
     p_get peek (\<lambda>do_token.
     p_if (\<lambda>s. \<not> check T_Do s) (fail_current ParserExternDo)
     (p_bind advance (\<lambda>_.
     p_bind (p_loop (\<lambda>declarations.
         p_if (\<lambda>s. \<not> check T_End s \<and> \<not> check T_EOF s)
           (p_bind (parse_extern_declaration g) (\<lambda>d. p_continue (declarations @ [d])))
           (p_break declarations)) []) (\<lambda>declarations.
     p_bind (consume T_End (SQUOTE # ''end'' @ SQUOTE # '' to close the foreign block'')) (\<lambda>e.
     p_return \<lparr>xb_keyword = keyword, xb_c = c, xb_from = from_token, xb_header = header,
       xb_do = do_token, xb_declarations = declarations, xb_end = e\<rparr>)))))))))))))"

section \<open>Parse\<close>

text \<open>Record an error's diagnostics and synchronise from the current token; the sentinel of an
  exhausted computation is passed on.\<close>

definition recover_here :: "perror \<Rightarrow> unit parser" where
  "recover_here e =
     (if e = PFuel then p_fail PFuel
      else p_bind (report (diagnostics_from e)) (\<lambda>_.
        p_get ps_current synchronize))"

definition leading_import :: "import_block option parser" where
  "leading_import =
     p_if (check T_Import)
       (p_try parse_import_block (\<lambda>b. p_return (Some b))
         (\<lambda>e. p_bind (recover_here e) (\<lambda>_. p_return None)))
       (p_return None)"

definition leading_externs :: "grammar \<Rightarrow> extern_block list parser" where
  "leading_externs g =
     p_loop (\<lambda>externs. p_if (\<lambda>s. at_extern_block s \<and> \<not> check T_EOF s)
         (p_try (parse_extern_block g) (\<lambda>b. p_continue (externs @ [b]))
           (\<lambda>e. p_bind (recover_here e) (\<lambda>_. p_continue externs)))
         (p_break externs)) []"

text \<open>The recovery of a failed top-level item that began at \<open>start\<close>; a propagated block
  boundary is consumed so that it is not tried again.\<close>

definition item_recover :: "nat \<Rightarrow> perror \<Rightarrow> unit parser" where
  "item_recover start e =
     (if e = PFuel then p_fail PFuel
      else
        p_bind (if e = PBlockRecovery then p_return () else report (diagnostics_from e)) (\<lambda>_.
        p_get ps_current (\<lambda>earlier.
        p_bind (synchronize start) (\<lambda>_.
        p_if (\<lambda>s. e = PBlockRecovery \<and> ps_current s = earlier \<and> \<not> check T_EOF s)
          (p_bind advance (\<lambda>_. p_return ())) (p_return ())))))"

type_synonym item_state = "top_item list \<times> export_block option"

text \<open>One turn of the item loop. \<open>exportClosed\<close> of the source is that an export block has been
  parsed.\<close>

definition item_step :: "grammar \<Rightarrow> item_state \<Rightarrow> (item_state + item_state) parser" where
  "item_step g st =
     (case st of (items, export) \<Rightarrow>
        p_if (check T_EOF) (p_break st)
        (p_if at_extern_block
          (p_get (\<lambda>s. error_at (peek s) ParserExternBeforeTopLevel) (\<lambda>e.
           p_bind (recover_here e) (\<lambda>_. p_continue st)))
        (if export \<noteq> None then
           p_get (\<lambda>s. error_at (peek s) ParserExportLast) (\<lambda>e.
           p_bind (recover_here e) (\<lambda>_.
           p_if (check T_EOF) (p_break st) (p_bind advance (\<lambda>_. p_continue st))))
         else
           p_if (check T_Import)
             (p_get (\<lambda>s. error_at (peek s) ParserImportFirst) (\<lambda>e.
              p_bind (recover_here e) (\<lambda>_. p_continue st)))
           (p_if (check T_Export)
             (p_try parse_export_block (\<lambda>b. p_continue (items, Some b))
               (\<lambda>e. p_bind (recover_here e) (\<lambda>_. p_continue st)))
             (p_get ps_current (\<lambda>start.
              p_try (top_level_item g) (\<lambda>item. p_continue (items @ [item], export))
                (\<lambda>e. p_bind (item_recover start e) (\<lambda>_. p_continue st))))))))"

definition item_statement :: "top_item \<Rightarrow> stmt option" where
  "item_statement item = (case item of StatementItem st \<Rightarrow> Some st | _ \<Rightarrow> None)"

definition parse_program :: "grammar \<Rightarrow> program parser" where
  "parse_program g =
     p_bind leading_import (\<lambda>imports.
     p_bind (leading_externs g) (\<lambda>externs.
     p_bind (p_loop (item_step g) ([], None)) (\<lambda>(items, export).
     p_return \<lparr>pr_import = imports, pr_externs = externs, pr_items = items,
       pr_statements = List.map_filter item_statement items, pr_export = export\<rparr>)))"

definition empty_program :: program where
  "empty_program = \<lparr>pr_import = None, pr_externs = [], pr_items = [], pr_statements = [], pr_export = None\<rparr>"

text \<open>\<open>Parse\<close> with \<open>n\<close> levels of the knot: the program and its diagnostics, \<open>None\<close> when the
  levels run out.\<close>

definition parse_levels :: "nat \<Rightarrow> token list \<Rightarrow> (program \<times> located list) option" where
  "parse_levels n tokens =
     (if tokens = [] then Some (empty_program, [locationless ParserExpectedDeclaration])
      else case parse_program (the_grammar n) (initial_state tokens) of
        (Inr program, s) \<Rightarrow> Some (program, ps_diagnostics s)
      | (Inl e, s) \<Rightarrow> None)"

definition parse :: "token list \<Rightarrow> (program \<times> located list) option" where
  "parse tokens = parse_levels (4 * length tokens + 8) tokens"

end
