(* ===== verification/ParserContract.thy ===== *)
theory ParserContract
  imports ParserTopLevel
begin

text \<open>
  A small program logic for the parser. \<open>meets N q C P p\<close> says what a parsing function \<open>p\<close>
  owes its callers from a state that satisfies \<open>P\<close>: it leaves the frame of the state alone
  (\<open>same_frame\<close>), it does not run out of fuel when four times the tokens that remain plus \<open>q\<close>
  are within the budget \<open>N\<close>, and a success whose result satisfies \<open>C\<close> has consumed a token.
  The rules compose these obligations along \<open>p_bind\<close>, \<open>p_if\<close>, \<open>p_loop\<close> and the brackets
  (\<open>with_depth\<close>, \<open>with_region\<close>, \<open>with_boundary\<close>, \<open>with_block\<close>, \<open>body\<close>).
\<close>

section \<open>The frame\<close>

text \<open>What a parsing function may not disturb: the tokens, the depths, the block stack, the match
  boundary and the diagnostics already recorded. The cursor never moves back and never past the
  end.\<close>

definition same_frame :: "pstate \<Rightarrow> pstate \<Rightarrow> bool" where
  "same_frame s s' \<longleftrightarrow>
     ps_tokens s' = ps_tokens s \<and>
     ps_current s \<le> ps_current s' \<and>
     (ps_current s' \<le> length (ps_tokens s) \<or> ps_current s' = ps_current s) \<and>
     ps_body_depth s' = ps_body_depth s \<and> ps_block_stack s' = ps_block_stack s \<and>
     ps_match_boundary s' = ps_match_boundary s \<and> ps_union_member_depth s' = ps_union_member_depth s \<and>
     ps_syntax_depth s' = ps_syntax_depth s \<and>
     (ps_method_receiver s' \<longrightarrow> ps_method_receiver s) \<and>
     (\<exists>ds. ps_diagnostics s' = ps_diagnostics s @ ds)"

lemma same_frame_refl [simp]: "same_frame s s"
  by (simp add: same_frame_def)

lemma same_frame_trans: "same_frame s t \<Longrightarrow> same_frame t u \<Longrightarrow> same_frame s u"
  unfolding same_frame_def by (elim conjE exE) (intro conjI; (simp; fail | force))

lemma same_frame_tokens: "same_frame s s' \<Longrightarrow> ps_tokens s' = ps_tokens s"
  by (simp add: same_frame_def)

lemma same_frame_current: "same_frame s s' \<Longrightarrow> ps_current s \<le> ps_current s'"
  by (simp add: same_frame_def)

lemma same_frame_remaining: "same_frame s s' \<Longrightarrow> remaining s' \<le> remaining s"
  by (auto simp: same_frame_def remaining_def)

lemma same_frame_consumed:
  "same_frame s s' \<Longrightarrow> ps_current s < ps_current s' \<Longrightarrow> remaining s' < remaining s"
  by (auto simp: same_frame_def remaining_def)

text \<open>A token is left to read.\<close>

definition in_tokens :: "pstate \<Rightarrow> bool" where
  "in_tokens s \<longleftrightarrow> ps_current s < length (ps_tokens s)"

lemma in_tokens_check: "check k s \<Longrightarrow> k \<noteq> T_EOF \<Longrightarrow> in_tokens s"
  by (auto simp: check_def peek_def synthetic_eof_def in_tokens_def split: if_splits)

lemma in_tokens_kind: "tk_kind (peek s) = k \<Longrightarrow> k \<noteq> T_EOF \<Longrightarrow> in_tokens s"
  using in_tokens_check[of k s] by (simp add: check_def)

lemma in_tokens_contextual: "at_contextual name s \<Longrightarrow> in_tokens s"
  using in_tokens_kind[of s T_Identifier] by (simp add: at_contextual_def)

lemma in_tokens_not_eof: "\<not> check T_EOF s \<Longrightarrow> in_tokens s \<or> tk_kind (peek s) \<noteq> T_EOF"
  by (simp add: check_def)

lemma in_tokens_iff: "tk_kind (peek s) \<noteq> T_EOF \<Longrightarrow> in_tokens s"
  by (auto simp: peek_def synthetic_eof_def in_tokens_def split: if_splits)

section \<open>The judgement\<close>

definition meets :: "nat \<Rightarrow> nat \<Rightarrow> ('a \<Rightarrow> bool) \<Rightarrow> (pstate \<Rightarrow> bool) \<Rightarrow> 'a parser \<Rightarrow> bool" where
  "meets N q C P p \<longleftrightarrow>
     (\<forall>s. P s \<longrightarrow> same_frame s (snd (p s)) \<and>
        (4 * remaining s + q \<le> N \<longrightarrow> fst (p s) \<noteq> Inl PFuel) \<and>
        (\<forall>x. fst (p s) = Inr x \<longrightarrow> C x \<longrightarrow> ps_current s < ps_current (snd (p s))))"

abbreviation anywhere :: "pstate \<Rightarrow> bool" where "anywhere \<equiv> \<lambda>_. True"
abbreviation always :: "'a \<Rightarrow> bool" where "always \<equiv> \<lambda>_. True"
abbreviation never :: "'a \<Rightarrow> bool" where "never \<equiv> \<lambda>_. False"

lemma meetsI:
  assumes "\<And>s. P s \<Longrightarrow> same_frame s (snd (p s))"
    and "\<And>s. P s \<Longrightarrow> 4 * remaining s + q \<le> N \<Longrightarrow> fst (p s) \<noteq> Inl PFuel"
    and "\<And>s x. P s \<Longrightarrow> fst (p s) = Inr x \<Longrightarrow> C x \<Longrightarrow> ps_current s < ps_current (snd (p s))"
  shows "meets N q C P p"
  using assms by (simp add: meets_def)

lemma meets_frame: "meets N q C P p \<Longrightarrow> P s \<Longrightarrow> same_frame s (snd (p s))"
  by (simp add: meets_def)

lemma meets_fuel: "meets N q C P p \<Longrightarrow> P s \<Longrightarrow> 4 * remaining s + q \<le> N \<Longrightarrow> fst (p s) \<noteq> Inl PFuel"
  by (simp add: meets_def)

lemma meets_consumes:
  "meets N q C P p \<Longrightarrow> P s \<Longrightarrow> fst (p s) = Inr x \<Longrightarrow> C x \<Longrightarrow> ps_current s < ps_current (snd (p s))"
  by (simp add: meets_def)

lemma meets_weaken:
  assumes "meets N q C P p" and "q \<le> q'" and "\<And>x. C' x \<Longrightarrow> C x" and "\<And>s. P' s \<Longrightarrow> P s"
  shows "meets N q' C' P' p"
proof (rule meetsI)
  fix s assume "P' s"
  then show "same_frame s (snd (p s))" using meets_frame[OF assms(1)] assms(4) by blast
next
  fix s assume P: "P' s" and b: "4 * remaining s + q' \<le> N"
  have "4 * remaining s + q \<le> N" using b assms(2) by linarith
  then show "fst (p s) \<noteq> Inl PFuel" using meets_fuel[OF assms(1)] assms(4)[OF P] by blast
next
  fix s x assume P: "P' s" and r: "fst (p s) = Inr x" and c: "C' x"
  then show "ps_current s < ps_current (snd (p s))"
    using meets_consumes[OF assms(1) assms(4)[OF P] r assms(3)[OF c]] by blast
qed

section \<open>Sequencing\<close>

lemma meets_return: "(\<And>s. P s \<Longrightarrow> \<not> C x) \<Longrightarrow> meets N q C P (p_return x)"
  by (rule meetsI) (auto simp: p_return_def)

lemma meets_continue: "(\<And>s. P s \<Longrightarrow> \<not> C (Inl x)) \<Longrightarrow> meets N q C P (p_continue x)"
  unfolding p_continue_def by (rule meets_return)

lemma meets_break: "(\<And>s. P s \<Longrightarrow> \<not> C (Inr x)) \<Longrightarrow> meets N q C P (p_break x)"
  unfolding p_break_def by (rule meets_return)

lemma meets_fail: "e \<noteq> PFuel \<Longrightarrow> meets N q C P (p_fail e)"
  by (rule meetsI) (auto simp: p_fail_def)

lemma meets_fail_at: "meets N q C P (fail_at t m)"
  by (simp add: fail_at_def error_at_def meets_fail)

lemma meets_fail_current: "meets N q C P (fail_current m)"
  by (rule meetsI) (auto simp: fail_current_def error_at_def)

lemma meets_if:
  "meets N q C (\<lambda>s. P s \<and> b s) p \<Longrightarrow> meets N q C (\<lambda>s. P s \<and> \<not> b s) p' \<Longrightarrow> meets N q C P (p_if b p p')"
  by (rule meetsI) (auto simp: p_if_def meets_def)

lemma meets_get: "(\<And>y. meets N q C (\<lambda>s. P s \<and> f s = y) (p y)) \<Longrightarrow> meets N q C P (p_get f p)"
  by (rule meetsI) (auto simp: p_get_def meets_def)

lemma meets_HOL_if:
  "(b \<Longrightarrow> meets N q C P p) \<Longrightarrow> (\<not> b \<Longrightarrow> meets N q C P p') \<Longrightarrow> meets N q C P (if b then p else p')"
  by simp

lemma meets_let: "meets N q C P (f v) \<Longrightarrow> meets N q C P (let x = v in f x)"
  by simp

lemma meets_prod: "(\<And>a b. x = (a, b) \<Longrightarrow> meets N q C P (f a b)) \<Longrightarrow> meets N q C P (case x of (a, b) \<Rightarrow> f a b)"
  by (cases x) simp

lemma meets_option:
  "(x = None \<Longrightarrow> meets N q C P p) \<Longrightarrow> (\<And>y. x = Some y \<Longrightarrow> meets N q C P (f y)) \<Longrightarrow>
   meets N q C P (case x of None \<Rightarrow> p | Some y \<Rightarrow> f y)"
  by (cases x) simp_all

text \<open>One level of fuel pays for one unit of offset.\<close>

lemma meets_raise:
  assumes "meets N q C P p" and "\<And>s. p' s = p s"
  shows "meets (Suc N) (Suc q) C P p'"
  using assms by (simp add: meets_def)

lemma p_bind_cases:
  "p_bind p f s = (case fst (p s) of Inl e \<Rightarrow> (Inl e, snd (p s)) | Inr x \<Rightarrow> f x (snd (p s)))"
  by (simp add: p_bind_def split: prod.splits sum.splits)

text \<open>After a step that consumes, the budget of what follows has room for a recursive call.\<close>

lemma meets_bind_consumed:
  assumes p: "meets N q always P p" and f: "\<And>x. meets N (q + 4) never anywhere (f x)"
  shows "meets N q C P (p_bind p f)"
proof (rule meetsI)
  fix s assume P: "P s"
  note fr = meets_frame[OF p P]
  show "same_frame s (snd (p_bind p f s))"
    using fr by (auto simp: p_bind_cases split: sum.splits intro: same_frame_trans[OF fr meets_frame[OF f]])
next
  fix s assume P: "P s" and b: "4 * remaining s + q \<le> N"
  show "fst (p_bind p f s) \<noteq> Inl PFuel"
  proof (cases "fst (p s)")
    case (Inl e) then show ?thesis using meets_fuel[OF p P b] by (simp add: p_bind_cases)
  next
    case (Inr x)
    have "remaining (snd (p s)) < remaining s"
      by (rule same_frame_consumed[OF meets_frame[OF p P] meets_consumes[OF p P Inr]]) simp
    then have "4 * remaining (snd (p s)) + (q + 4) \<le> N" using b by linarith
    from meets_fuel[OF f _ this] Inr show ?thesis by (simp add: p_bind_cases)
  qed
next
  fix s y assume P: "P s" and r: "fst (p_bind p f s) = Inr y"
  then obtain x where x: "fst (p s) = Inr x" by (auto simp: p_bind_cases split: sum.splits)
  have "ps_current s < ps_current (snd (p s))" using meets_consumes[OF p P x] by simp
  also have "\<dots> \<le> ps_current (snd (f x (snd (p s))))"
    by (rule same_frame_current[OF meets_frame[OF f]]) simp
  finally show "ps_current s < ps_current (snd (p_bind p f s))" using x by (simp add: p_bind_cases)
qed

lemma meets_bind:
  assumes p: "meets N q never P p" and f: "\<And>x. meets N q C anywhere (f x)"
  shows "meets N q C P (p_bind p f)"
proof (rule meetsI)
  fix s assume P: "P s"
  note fr = meets_frame[OF p P]
  show "same_frame s (snd (p_bind p f s))"
    using fr by (auto simp: p_bind_cases split: sum.splits intro: same_frame_trans[OF fr meets_frame[OF f]])
next
  fix s assume P: "P s" and b: "4 * remaining s + q \<le> N"
  show "fst (p_bind p f s) \<noteq> Inl PFuel"
  proof (cases "fst (p s)")
    case (Inl e) then show ?thesis using meets_fuel[OF p P b] by (simp add: p_bind_cases)
  next
    case (Inr x)
    have "4 * remaining (snd (p s)) + q \<le> N" using b same_frame_remaining[OF meets_frame[OF p P]] by linarith
    from meets_fuel[OF f _ this] Inr show ?thesis by (simp add: p_bind_cases)
  qed
next
  fix s y assume P: "P s" and r: "fst (p_bind p f s) = Inr y" and c: "C y"
  then obtain x where x: "fst (p s) = Inr x" by (auto simp: p_bind_cases split: sum.splits)
  have "ps_current s \<le> ps_current (snd (p s))" using same_frame_current[OF meets_frame[OF p P]] .
  also have "\<dots> < ps_current (snd (f x (snd (p s))))"
    using r x by (intro meets_consumes[OF f _ _ c]) (simp_all add: p_bind_cases)
  finally show "ps_current s < ps_current (snd (p_bind p f s))" using x by (simp add: p_bind_cases)
qed

lemma meets_try:
  assumes p: "meets N q never P p" and ok: "\<And>x. meets N q never anywhere (ok x)"
    and h: "\<And>e. e \<noteq> PFuel \<Longrightarrow> meets N q never anywhere (h e)"
    and hf: "\<And>s. h PFuel s = (Inl PFuel, s)"
  shows "meets N q never P (p_try p ok h)"
proof (rule meetsI)
  fix s assume P: "P s"
  note fr = meets_frame[OF p P]
  show "same_frame s (snd (p_try p ok h s))"
  proof (cases "p s")
    case (Pair r s')
    show ?thesis
    proof (cases r)
      case (Inl e)
      show ?thesis
        using fr Pair Inl hf same_frame_trans[OF fr, of "snd (h e s')"] meets_frame[OF h[of e], of s']
        by (cases "e = PFuel") (simp_all add: p_try_def)
    next
      case (Inr x)
      then show ?thesis using Pair same_frame_trans[OF fr, of "snd (ok x s')"] meets_frame[OF ok[of x], of s'] fr
        by (simp add: p_try_def)
    qed
  qed
next
  fix s assume P: "P s" and b: "4 * remaining s + q \<le> N"
  have b': "4 * remaining (snd (p s)) + q \<le> N"
    using b same_frame_remaining[OF meets_frame[OF p P]] by linarith
  show "fst (p_try p ok h s) \<noteq> Inl PFuel"
    using meets_fuel[OF p P b] meets_fuel[OF ok _ b'] meets_fuel[OF h _ b']
    by (auto simp: p_try_def split: prod.splits sum.splits)
qed simp

section \<open>Loops\<close>

lemma p_repeat_meets:
  assumes step: "\<And>x. meets N q isl anywhere (step x)"
  shows "same_frame s (snd (p_repeat k step x (s :: pstate))) \<and>
    (4 * remaining s + q \<le> N \<longrightarrow> remaining s < k \<longrightarrow> fst (p_repeat k step x s) \<noteq> Inl PFuel)"
proof (induction k arbitrary: x s)
  case (Suc k)
  obtain r s' where rs: "step x s = (r, s')" by (cases "step x s")
  have fr: "same_frame s s'" using meets_frame[OF step[of x], of s] rs by simp
  have nf: "4 * remaining s + q \<le> N \<Longrightarrow> r \<noteq> Inl PFuel" using meets_fuel[OF step[of x], of s] rs by simp
  show ?case
  proof (cases r)
    case (Inl e) then show ?thesis using rs fr nf by auto
  next
    case (Inr y)
    show ?thesis
    proof (cases y)
      case (Inr z) then show ?thesis using rs fr \<open>r = Inr y\<close> by simp
    next
      case (Inl z)
      have "ps_current s < ps_current s'"
        using meets_consumes[OF step[of x], of s y] rs \<open>r = Inr y\<close> Inl by simp
      then have "remaining s' < remaining s" by (rule same_frame_consumed[OF fr])
      then show ?thesis
        using rs \<open>r = Inr y\<close> Inl same_frame_trans[OF fr, of "snd (p_repeat k step z s')"] Suc.IH[of s' z] by auto
    qed
  qed
qed simp

lemma meets_loop:
  assumes "\<And>x. meets N q isl anywhere (step x)"
  shows "meets N q never P (p_loop step x)"
  by (rule meetsI) (use p_repeat_meets[OF assms] in \<open>auto simp: p_loop_def simp del: p_repeat.simps\<close>)

section \<open>Token primitives\<close>

lemma remaining_simps [simp]:
  "remaining (s\<lparr>ps_syntax_depth := d\<rparr>) = remaining s"
  "remaining (s\<lparr>ps_operator_recorded := b\<rparr>) = remaining s"
  "remaining (s\<lparr>ps_match_boundary := m\<rparr>) = remaining s"
  "remaining (s\<lparr>ps_block_stack := bs\<rparr>) = remaining s"
  "remaining (s\<lparr>ps_body_depth := d\<rparr>) = remaining s"
  "remaining (s\<lparr>ps_union_member_depth := d\<rparr>) = remaining s"
  "remaining (s\<lparr>ps_method_receiver := b\<rparr>) = remaining s"
  by (simp_all add: remaining_def)

lemma advance_frame: "same_frame s (snd (advance s))"
  by (simp add: advance_def same_frame_def Let_def)

lemma advance_current: "in_tokens s \<Longrightarrow> ps_current (snd (advance s)) = Suc (ps_current s)"
  by (simp add: advance_def in_tokens_def Let_def)

lemma advance_result: "fst (advance s) = Inr (peek s)"
  by (simp add: advance_def Let_def)

lemma meets_advance_any: "meets N q never P advance"
  by (rule meetsI) (simp_all add: advance_frame advance_result)

lemma meets_advance: "(\<And>s. P s \<Longrightarrow> in_tokens s) \<Longrightarrow> meets N q C P advance"
  by (rule meetsI) (simp_all add: advance_frame advance_result advance_current)

lemma consume_cases:
  "consume k m s =
     (if k = T_Greater \<and> ps_pending_greater s then
        (Inr (split_greater (ps_pending_token s) 1), s\<lparr>ps_pending_greater := False\<rparr>)
      else if check k s then (Inr (peek s), snd (advance s)) else fail_current (ParserExpectedToken m) s)"
  by (simp add: consume_def advance_result prod_eq_iff)

lemma same_frame_updates [simp]:
  "same_frame s (s\<lparr>ps_pending_greater := b\<rparr>)"
  "same_frame s (s\<lparr>ps_pending_greater := b, ps_pending_token := t\<rparr>)"
  "same_frame s (s\<lparr>ps_operator_recorded := b, ps_operator_kind := k, ps_operator_token := t\<rparr>)"
  "same_frame s (s\<lparr>ps_diagnostics := ps_diagnostics s @ ds\<rparr>)"
  by (simp_all add: same_frame_def)

lemma meets_consume_any: "meets N q never P (consume k m)"
  by (rule meetsI) (auto simp: consume_cases advance_frame fail_current_def error_at_def)

lemma meets_consume: "k \<noteq> T_EOF \<Longrightarrow> k \<noteq> T_Greater \<Longrightarrow> meets N q C P (consume k m)"
  by (rule meetsI)
    (auto simp: consume_cases advance_frame advance_current in_tokens_check fail_current_def error_at_def
      split: if_splits)

lemma meets_modify: "(\<And>s. same_frame s (f s)) \<Longrightarrow> meets N q never P (p_modify f)"
  by (rule meetsI) (simp_all add: p_modify_def)

lemma meets_report: "meets N q never P (report ds)"
  unfolding report_def by (rule meets_modify) simp

lemma meets_record_binary_operator: "meets N q never P (record_binary_operator t)"
  by (rule meetsI) (auto simp: record_binary_operator_def error_at_def)

text \<open>The rules for what consumes a token, for what may not, and for plain results; a proof tries
  them in this order.\<close>

lemmas meets_consumers = meets_advance meets_consume
lemmas meets_plain = meets_consume_any meets_advance_any meets_record_binary_operator meets_report
lemmas meets_results = meets_return meets_continue meets_break
lemmas meets_control = meets_if meets_get meets_let meets_prod meets_HOL_if meets_fail_at meets_fail_current
lemmas in_tokens_facts = in_tokens_check in_tokens_kind in_tokens_contextual in_tokens_iff

lemma meets_require_delimiter: "k \<noteq> T_EOF \<Longrightarrow> meets N q C P (require_delimiter k m)"
  unfolding require_delimiter_def
  by (rule meets_control | (rule meets_bind_consumed, (rule meets_consumers; force simp: in_tokens_facts))
      | (rule meets_results; simp))+

lemma meets_consume_generic_close: "meets N q never P (consume_generic_close m)"
  unfolding consume_generic_close_def
  by (rule meets_control meets_plain meets_bind meets_modify | (rule meets_results; simp) | simp)+

section \<open>Brackets\<close>

text \<open>A bracket runs its production from an adjusted state and undoes the adjustment.\<close>

lemma meets_bracket:
  assumes p: "meets N q C anywhere p"
    and enter: "\<And>s. ps_current (enter s) = ps_current s \<and> ps_tokens (enter s) = ps_tokens s"
    and leave: "\<And>s s'. same_frame (enter s) s' \<Longrightarrow> same_frame s (leave s s')"
    and current: "\<And>s s'. ps_current (leave s s') = ps_current s'"
    and run: "\<And>s. b s = (fst (p (enter s)), leave s (snd (p (enter s))))"
  shows "meets N q C P b"
proof (rule meetsI)
  fix s show "same_frame s (snd (b s))"
    using leave[OF meets_frame[OF p]] by (simp add: run)
next
  fix s assume "4 * remaining s + q \<le> N"
  then show "fst (b s) \<noteq> Inl PFuel"
    using meets_fuel[OF p, of "enter s"] enter[of s] by (simp add: run remaining_def)
next
  fix s x assume "fst (b s) = Inr x" and "C x"
  then show "ps_current s < ps_current (snd (b s))"
    using meets_consumes[OF p, of "enter s" x] enter[of s] by (simp add: run current)
qed

lemma meets_with_depth:
  assumes "meets N q C anywhere p"
  shows "meets N q C P (with_depth p)"
proof (rule meets_bracket)
  show "meets N q C anywhere (p_if (\<lambda>s. ps_syntax_depth s > max_syntax_depth) (fail_current ParserMaxNesting) p)"
    by (rule meets_if[OF meets_fail_current meets_weaken[OF assms]]) simp_all
  show "with_depth p s =
     (fst (p_if (\<lambda>s. ps_syntax_depth s > max_syntax_depth) (fail_current ParserMaxNesting) p
          (s\<lparr>ps_syntax_depth := ps_syntax_depth s + 1\<rparr>)),
      (snd (p_if (\<lambda>s. ps_syntax_depth s > max_syntax_depth) (fail_current ParserMaxNesting) p
          (s\<lparr>ps_syntax_depth := ps_syntax_depth s + 1\<rparr>)))\<lparr>ps_syntax_depth :=
        ps_syntax_depth (snd (p_if (\<lambda>s. ps_syntax_depth s > max_syntax_depth) (fail_current ParserMaxNesting) p
          (s\<lparr>ps_syntax_depth := ps_syntax_depth s + 1\<rparr>))) - 1\<rparr>)" for s
    by (simp add: with_depth_def p_if_def Let_def split: prod.split)
qed (auto simp: same_frame_def)

lemma meets_with_region: "meets N q C anywhere p \<Longrightarrow> meets N q C P (with_region p)"
  by (rule meets_bracket[where enter = "\<lambda>s. s\<lparr>ps_operator_recorded := False\<rparr>" and p = p and
        leave = "\<lambda>s s'. s'\<lparr>ps_operator_recorded := ps_operator_recorded s,
          ps_operator_kind := ps_operator_kind s, ps_operator_token := ps_operator_token s\<rparr>"])
    (auto simp: with_region_def same_frame_def Let_def split: prod.split)

lemma meets_with_boundary: "meets N q C anywhere p \<Longrightarrow> meets N q C P (with_boundary b p)"
  by (rule meets_bracket[where enter = "\<lambda>s. s\<lparr>ps_match_boundary := b\<rparr>" and p = p and
        leave = "\<lambda>s s'. s'\<lparr>ps_match_boundary := ps_match_boundary s\<rparr>"])
    (auto simp: with_boundary_def same_frame_def Let_def split: prod.split)

lemma meets_with_block: "meets N q C anywhere p \<Longrightarrow> meets N q C P (with_block owner p)"
  by (rule meets_bracket[where enter = "\<lambda>s. s\<lparr>ps_block_stack := ps_block_stack s @ [block_owner owner]\<rparr>" and p = p and
        leave = "\<lambda>s s'. s'\<lparr>ps_block_stack := butlast (ps_block_stack s')\<rparr>"])
    (auto simp: with_block_def same_frame_def Let_def split: prod.split)

lemma meets_body_depth:
  assumes "meets N q C anywhere p" and
    "\<And>s. b s = (let (r, s') = p (s\<lparr>ps_body_depth := ps_body_depth s + 1\<rparr>)
       in (r, s'\<lparr>ps_body_depth := ps_body_depth s' - 1\<rparr>))"
  shows "meets N q C P b"
  by (rule meets_bracket[where enter = "\<lambda>s. s\<lparr>ps_body_depth := ps_body_depth s + 1\<rparr>" and p = p and
        leave = "\<lambda>s s'. s'\<lparr>ps_body_depth := ps_body_depth s' - 1\<rparr>"])
    (auto simp: assms same_frame_def Let_def split: prod.split)

lemma meets_union_depth:
  assumes "meets N q C anywhere p" and
    "\<And>s. b s = (let (r, s') = p (s\<lparr>ps_union_member_depth := ps_union_member_depth s + 1\<rparr>)
       in (r, s'\<lparr>ps_union_member_depth := ps_union_member_depth s' - 1\<rparr>))"
  shows "meets N q C P b"
  by (rule meets_bracket[where enter = "\<lambda>s. s\<lparr>ps_union_member_depth := ps_union_member_depth s + 1\<rparr>" and p = p and
        leave = "\<lambda>s s'. s'\<lparr>ps_union_member_depth := ps_union_member_depth s' - 1\<rparr>"])
    (auto simp: assms same_frame_def Let_def split: prod.split)

end
