(* ===== verification/ParserTypeTotal.thy ===== *)
theory ParserTypeTotal
  imports ParserContract
begin

text \<open>
  The type grammar under the contract of theory \<open>ParserContract\<close>: what a type production owes
  when the recursive entry \<open>ty\<close> it is given keeps the contract. The locale states the interface;
  \<open>type_expression\<close> is shown to provide it for every level of fuel.
\<close>

lemma unit_adt_shorthand_meets: "meets N q never P unit_adt_shorthand"
  unfolding unit_adt_shorthand_def
  by (rule meets_control meets_loop | (rule meets_bind_consumed, (rule meets_consumers; force dest: in_tokens_facts))
      | (rule meets_results; simp) | rule meets_bind meets_plain)+

locale type_contract =
  fixes ty :: "type_expr parser" and N :: nat
  assumes ty_meets: "meets N 1 always anywhere ty"
begin

lemma ty_rule: "1 \<le> q \<Longrightarrow> meets N q C P ty"
  by (rule meets_weaken[OF ty_meets]) simp_all

lemma type_argument_meets: "1 \<le> q \<Longrightarrow> meets N q C P (type_argument ty)"
  unfolding type_argument_def
  by (rule meets_control meets_loop | (rule meets_bind_consumed, (rule meets_consumers ; force simp: numeric_kind_def dest: in_tokens_facts))
      | (rule meets_results; simp) | (rule ty_rule; simp) | rule meets_bind meets_plain meets_consume_generic_close)+

lemma comma_items_meets:
  assumes item: "\<And>q C P. 1 \<le> q \<Longrightarrow> meets N q C P item" and q: "1 \<le> q"
  shows "meets N q C P (comma_items item)"
  unfolding comma_items_def
  by (rule meets_bind_consumed, rule item[OF q])
    (rule meets_control meets_loop | (rule meets_bind_consumed, (rule meets_consumers; force dest: in_tokens_facts))
      | (rule meets_results; simp) | (rule item; simp) | rule meets_bind)+

lemma type_argument_list_meets: "meets N q C P (type_argument_list ty)"
  unfolding type_argument_list_def
  by (rule meets_control meets_loop | (rule meets_bind_consumed, (rule meets_consumers; force dest: in_tokens_facts))
      | (rule comma_items_meets type_argument_meets meets_results; simp)
      | rule meets_bind meets_plain meets_consume_generic_close)+

lemma generic_argument_list_meets: "(\<And>s. P s \<Longrightarrow> in_tokens s) \<Longrightarrow> meets N q C P (generic_argument_list ty)"
  unfolding generic_argument_list_def
  by (rule meets_control meets_loop | (rule meets_bind_consumed, (rule meets_consumers; force dest: in_tokens_facts))
      | (rule comma_items_meets ty_rule meets_results; simp)
      | rule meets_bind meets_plain meets_consume_generic_close)+

lemma qualified_names_meets: "meets N q never P qualified_names"
  unfolding qualified_names_def
  by (rule meets_control meets_loop | (rule meets_bind_consumed, (rule meets_consumers; force dest: in_tokens_facts))
      | (rule meets_results; simp) | rule meets_bind meets_plain)+

lemma qualified_type_meets: "meets N q never P (qualified_type ty name)"
  unfolding qualified_type_def
  by (rule meets_control qualified_names_meets | (rule generic_argument_list_meets; force dest: in_tokens_facts)
      | (rule meets_results; simp) | rule meets_bind)+

lemma pointer_like_meets: "meets N q never P (pointer_like ty build name)"
  unfolding pointer_like_def
  by (rule meets_control meets_loop | (rule meets_bind_consumed, (rule meets_consumers; force dest: in_tokens_facts))
      | (rule meets_results ty_rule; simp) | rule meets_bind meets_plain meets_consume_generic_close)+

lemma function_type_parameters_meets: "1 \<le> q \<Longrightarrow> meets N q never P (function_type_parameters ty)"
  unfolding function_type_parameters_def
  by (rule meets_control meets_loop | (rule meets_bind_consumed, (rule ty_rule; simp))
      | (rule meets_results; simp) | rule meets_bind meets_plain)+

lemma function_type_expression_meets: "meets N q never P (function_type_expression ty keyword)"
  unfolding function_type_expression_def
  by (rule meets_control meets_loop | (rule meets_bind_consumed, (rule meets_consumers; force dest: in_tokens_facts))
      | (rule meets_results ty_rule function_type_parameters_meets; simp)
      | rule meets_bind meets_plain meets_consume_generic_close)+

lemma named_type_meets: "meets N q never P (named_type ty name)"
  unfolding named_type_def
  by (rule meets_control pointer_like_meets function_type_expression_meets
      | (rule generic_argument_list_meets; force dest: in_tokens_facts)
      | rule type_argument_list_meets | (rule meets_results; simp) | rule meets_bind)+

lemma primary_type_expression_meets: "meets N q C P (primary_type_expression ty)"
  unfolding primary_type_expression_def
  by (rule meets_control qualified_type_meets named_type_meets
      | (rule meets_bind_consumed, (rule meets_consumers; force dest: in_tokens_facts))
      | (rule meets_results ty_rule; simp) | rule meets_bind meets_plain)+

lemma union_member_meets: "meets N q C P (union_member ty)"
  by (rule meets_union_depth[OF primary_type_expression_meets union_member_def])

lemma type_expression_body_meets: "meets N q C P (type_expression_body ty)"
  unfolding type_expression_body_def
  by (rule meets_with_depth meets_control meets_loop
      | (rule meets_bind_consumed, rule primary_type_expression_meets)
      | (rule meets_bind_consumed, (rule meets_consumers; force dest: in_tokens_facts))
      | (rule meets_results; simp) | rule meets_bind union_member_meets)+

lemma alias_target_meets: "meets N q C P (alias_target ty)"
  unfolding alias_target_def by (rule primary_type_expression_meets)

lemma object_member_declaration_meets: "meets N q C P (object_member_declaration ty)"
  unfolding object_member_declaration_def
  by (rule meets_bind, rule meets_weaken[of N q never anywhere]) 
    (rule meets_control | (rule meets_bind_consumed, (rule meets_consumers; force dest: in_tokens_facts))
      | (rule meets_results ty_rule; simp) | rule meets_bind meets_plain | simp)+

lemma object_member_body_meets: "meets N q never P (object_member_body ty keyword allow_empty m)"
  unfolding object_member_body_def
  by (rule meets_control meets_loop | (rule meets_bind_consumed, (rule meets_consumers; force dest: in_tokens_facts))
      | (rule meets_bind_consumed, rule object_member_declaration_meets)
      | (rule meets_results; simp) | rule meets_bind meets_plain object_member_declaration_meets)+

lemma struct_definition_meets: "meets N q never P (struct_definition ty)"
  unfolding struct_definition_def by (rule meets_bind meets_plain object_member_body_meets)+

lemma structural_union_definition_meets: "meets N q never P (structural_union_definition ty)"
  unfolding structural_union_definition_def
  by (rule meets_control meets_loop | (rule meets_bind_consumed, (rule meets_consumers; force dest: in_tokens_facts))
      | (rule meets_results; simp) | rule meets_bind meets_plain primary_type_expression_meets)+

lemma adt_variant_body_meets: "meets N q C P (adt_variant_body ty)"
  unfolding adt_variant_body_def
  by (rule meets_control | (rule meets_bind_consumed, (rule meets_consumers; force dest: in_tokens_facts))
      | (rule meets_results; simp) | rule meets_bind meets_plain object_member_body_meets meets_option)+

lemma adt_definition_meets: "meets N q never P (adt_definition ty)"
  unfolding adt_definition_def
  by (rule meets_control meets_loop | (rule meets_bind_consumed, (rule meets_consumers; force dest: in_tokens_facts))
      | (rule meets_results; simp) | rule meets_bind meets_plain adt_variant_body_meets)+

lemma type_definition_meets: "meets N q never P (type_definition ty)"
  unfolding type_definition_def
  by (rule meets_control struct_definition_meets adt_definition_meets structural_union_definition_meets
        unit_adt_shorthand_meets alias_target_meets
      | (rule meets_results; simp) | rule meets_bind meets_plain)+

end

lemma type_expression_meets: "meets n 1 always anywhere (type_expression n)"
proof (induction n)
  case 0
  show ?case by (rule meetsI) simp_all
next
  case (Suc n)
  have "meets n 0 always anywhere (type_expression_body (type_expression n))"
    by (rule type_contract.type_expression_body_meets) (rule type_contract.intro[OF Suc.IH])
  moreover have "type_expression (Suc n) = type_expression_body (type_expression n)"
    by (rule ext) simp
  ultimately show ?case by (simp only: One_nat_def meets_raise)
qed

interpretation types: type_contract "type_expression n" n for n
  by unfold_locales (rule type_expression_meets)

end
