(* ===== verification/ParserExpressionTotal.thy ===== *)
theory ParserExpressionTotal
  imports ParserTypeTotal
begin

text \<open>
  The expression grammar under the contract of theory \<open>ParserContract\<close>. The locale is the
  interface of the record \<open>grammar\<close>: with budget \<open>N\<close> the entry \<open>g_expression\<close> may be called when
  four times the remaining tokens plus 2 fit, the prefix and address entries and types plus 1,
  a block plus 3.
\<close>

locale grammar_contract = type_contract "g_type g" N for g :: grammar and N :: nat +
  assumes expression_call: "meets N 2 always anywhere (g_expression g)"
    and unary_call: "meets N 1 always anywhere (g_unary g)"
    and address_call: "meets N 1 always anywhere (g_address g)"
    and block_call: "meets N 3 never anywhere (g_block g owner stops)"
begin

lemma expression_rule: "2 \<le> q \<Longrightarrow> meets N q C P (g_expression g)"
  by (rule meets_weaken[OF expression_call]) simp_all

lemma unary_rule: "1 \<le> q \<Longrightarrow> meets N q C P (g_unary g)"
  by (rule meets_weaken[OF unary_call]) simp_all

lemma address_rule: "1 \<le> q \<Longrightarrow> meets N q C P (g_address g)"
  by (rule meets_weaken[OF address_call]) simp_all

lemma block_rule: "3 \<le> q \<Longrightarrow> meets N q never P (g_block g owner stops)"
  by (rule meets_weaken[OF block_call]) simp_all

lemmas calls = ty_rule expression_rule unary_rule address_rule block_rule

end

section \<open>The ladder\<close>

lemma binary_level_meets:
  assumes operand: "\<And>q C P. 1 \<le> q \<Longrightarrow> meets N q C P operand" and q: "1 \<le> q"
    and guard: "\<And>s. guard s \<Longrightarrow> in_tokens s"
  shows "meets N q C P (binary_level guard operand)"
  unfolding binary_level_def
  by (rule meets_bind_consumed, rule operand[OF q])
    (rule meets_control meets_loop | (rule meets_bind_consumed, (rule meets_consumers; force intro: guard))
      | (rule meets_results; simp) | (rule operand; simp) | rule meets_bind meets_plain)+

text \<open>A step that either goes on with what it parsed or rewinds to where it began.\<close>

lemma meets_speculation:
  assumes p: "meets N q always P p"
    and run: "\<And>s. P s \<Longrightarrow> step s = (case p s of (Inl e, s') \<Rightarrow> (Inl e, s')
      | (Inr x, s') \<Rightarrow> if b s' then (Inr (Inr z), rewind s s') else (Inr (Inl (f x)), s'))"
  shows "meets N q isl P step"
proof (rule meetsI)
  fix s assume P: "P s"
  note fr = meets_frame[OF p P]
  then have "same_frame s (rewind s (snd (p s)))" by (simp add: same_frame_def rewind_def)
  with fr show "same_frame s (snd (step s))" by (auto simp: run[OF P] split: prod.splits sum.splits)
next
  fix s assume P: "P s" and "4 * remaining s + q \<le> N"
  with meets_fuel[OF p P] show "fst (step s) \<noteq> Inl PFuel"
    by (auto simp: run[OF P] split: prod.splits sum.splits)
next
  fix s y assume P: "P s" and "fst (step s) = Inr y" and "isl y"
  then show "ps_current s < ps_current (snd (step s))"
    using meets_consumes[OF p P] by (auto simp: run[OF P] split: prod.splits sum.splits if_splits)
qed

context grammar_contract
begin

lemma multiplicative_meets: "1 \<le> q \<Longrightarrow> meets N q C P (multiplicative_expression g)"
  unfolding multiplicative_expression_def
  by (rule binary_level_meets) (force intro: unary_rule in_tokens_facts)+

lemma additive_meets: "1 \<le> q \<Longrightarrow> meets N q C P (additive_expression g)"
  unfolding additive_expression_def
  by (rule binary_level_meets) (force intro: multiplicative_meets in_tokens_facts)+

lemma shift_meets: "1 \<le> q \<Longrightarrow> meets N q C P (shift_expression g)"
  unfolding shift_expression_def
  by (rule binary_level_meets) (force intro: additive_meets in_tokens_facts)+

lemma relational_meets: "1 \<le> q \<Longrightarrow> meets N q C P (relational_expression g)"
  unfolding relational_expression_def
  by (rule binary_level_meets) (force intro: shift_meets in_tokens_facts)+

lemma type_test_meets: "1 \<le> q \<Longrightarrow> meets N q C P (type_test_expression g)"
  unfolding type_test_expression_def
  by (rule meets_bind_consumed, (rule relational_meets; simp))
    (rule meets_control | (rule meets_results ty_rule; simp) | rule meets_bind meets_plain)+

lemma equality_meets: "1 \<le> q \<Longrightarrow> meets N q C P (equality_expression g)"
  unfolding equality_expression_def
  by (rule binary_level_meets) (force intro: type_test_meets in_tokens_facts)+

lemma bitwise_and_meets: "1 \<le> q \<Longrightarrow> meets N q C P (bitwise_and_expression g)"
  unfolding bitwise_and_expression_def
  by (rule binary_level_meets) (force intro: equality_meets in_tokens_facts)+

lemma xor_step_meets:
  assumes "1 \<le> q" and "\<And>s. P s \<Longrightarrow> in_tokens s"
  shows "meets N q isl P (p_get (\<lambda>s. s) (\<lambda>earlier.
          p_bind advance (\<lambda>operator.
          p_bind (record_binary_operator operator) (\<lambda>_.
          p_bind (bitwise_and_expression g) (\<lambda>right.
          p_if (check T_Equal)
            (p_bind (p_modify (rewind earlier)) (\<lambda>_. p_break left))
            (p_continue (BinaryExpression left operator right)))))))"
proof (rule meets_speculation[where b = "check T_Equal" and z = left and
      f = "\<lambda>(operator, right). BinaryExpression left operator right"])
  show "meets N q always P (p_bind advance (\<lambda>operator. p_bind (record_binary_operator operator) (\<lambda>_.
      p_bind (bitwise_and_expression g) (\<lambda>right. p_return (operator, right)))))"
    by (rule meets_bind_consumed, rule meets_advance, erule assms)
      ((rule meets_results bitwise_and_meets; simp add: assms) | rule meets_bind meets_plain)+
qed (simp add: p_get_def p_bind_def p_if_def p_modify_def p_break_def p_continue_def p_return_def
    split: prod.splits sum.splits)

lemma bitwise_xor_meets: "1 \<le> q \<Longrightarrow> meets N q C P (bitwise_xor_expression g)"
  unfolding bitwise_xor_expression_def
  by (rule meets_bind_consumed, (rule bitwise_and_meets; simp))
    ((rule xor_step_meets; force dest: in_tokens_facts) | rule meets_loop meets_if | (rule meets_results; simp))+

lemma bitwise_or_meets: "1 \<le> q \<Longrightarrow> meets N q C P (bitwise_or_expression g)"
  unfolding bitwise_or_expression_def
  by (rule binary_level_meets) (force intro: bitwise_xor_meets in_tokens_facts)+

lemma and_meets: "1 \<le> q \<Longrightarrow> meets N q C P (and_expression g)"
  unfolding and_expression_def
  by (rule binary_level_meets) (force intro: bitwise_or_meets in_tokens_facts)+

lemma or_meets: "1 \<le> q \<Longrightarrow> meets N q C P (or_expression g)"
  unfolding or_expression_def
  by (rule binary_level_meets) (force intro: and_meets in_tokens_facts)+

lemma expression_body_meets: "1 \<le> q \<Longrightarrow> meets N q C P (expression_body g)"
  unfolding expression_body_def
  by (rule meets_with_depth meets_with_region or_meets)+

section \<open>Postfix chains, places and calls\<close>

lemma call_argument_meets: "2 \<le> q \<Longrightarrow> meets N q C P (call_argument g)"
  unfolding call_argument_def
  by (rule meets_bind, rule meets_weaken[of N q never anywhere])
    (rule meets_control | (rule meets_bind_consumed, (rule expression_rule; simp))
      | (rule meets_results; simp) | rule meets_bind meets_plain | simp)+

lemma call_arguments_meets: "(\<And>s. P s \<Longrightarrow> in_tokens s) \<Longrightarrow> meets N q C P (call_arguments g callee targs)"
  unfolding call_arguments_def
  by (rule meets_control meets_option meets_loop | (rule meets_bind_consumed, (rule meets_consumers; force dest: in_tokens_facts))
      | (rule meets_bind_consumed, (rule call_argument_meets; simp))
      | (rule meets_results; simp) | rule meets_bind meets_plain)+

lemma call_arguments_any: "2 \<le> q \<Longrightarrow> meets N q never P (call_arguments g callee targs)"
  unfolding call_arguments_def
  by (rule meets_control meets_loop meets_option | (rule meets_bind_consumed, (rule meets_consumers; force dest: in_tokens_facts))
      | (rule meets_results calls; simp) | (rule meets_bind_consumed, (rule call_argument_meets; simp)) | rule meets_bind meets_plain meets_consume_generic_close)+

lemma parse_member_name_meets: "meets N q C P parse_member_name"
  unfolding parse_member_name_def
  by (rule meets_control | (rule meets_consumers; force dest: in_tokens_facts))+

lemma postfix_step_meets: "meets N q isl anywhere (postfix_step g e)"
  unfolding postfix_step_def
  by (rule meets_control | (rule meets_bind_consumed, rule type_argument_list_meets)
      | (rule meets_bind_consumed, (rule call_arguments_meets; force dest: in_tokens_facts))
      | (rule meets_bind_consumed, (rule meets_consumers; force dest: in_tokens_facts))
      | (rule meets_results calls call_arguments_any; simp) | rule meets_bind meets_plain parse_member_name_meets)+

lemma postfix_meets: "meets N q never P (postfix g e)"
  unfolding postfix_def by (rule meets_loop) (rule postfix_step_meets)

lemma place_meets: "meets N q C P (place g)"
  unfolding place_def
  by (rule meets_bind_consumed)
    (rule meets_control meets_loop | (rule meets_consumers; force dest: in_tokens_facts)
      | (rule meets_bind_consumed, (rule meets_consumers; force dest: in_tokens_facts))
      | (rule meets_results calls; simp) | rule meets_bind meets_plain parse_member_name_meets)+

lemma address_operand_body_meets: "meets N q C P (address_operand_body g)"
  unfolding address_operand_body_def
  by (rule meets_control place_meets
      | (rule meets_bind_consumed, (rule meets_consumers; force dest: in_tokens_facts))
      | (rule meets_results calls; simp) | rule meets_bind)+

section \<open>Signatures and bodies\<close>

lemma generic_parameter_list_meets: "meets N q never P generic_parameter_list"
  unfolding generic_parameter_list_def
  by (rule meets_control | (rule meets_bind_consumed, (rule meets_consumers; force dest: in_tokens_facts))
      | (rule comma_items_meets[OF meets_consume] meets_results; simp) | rule meets_bind meets_plain)+

lemma parse_parameter_meets: "meets N q C P (parse_parameter g)"
  unfolding parse_parameter_def
  by (rule meets_control | (rule meets_bind_consumed, (rule meets_consumers; force dest: in_tokens_facts))
      | (rule meets_results calls; simp) | rule meets_bind meets_plain)+

lemma signature_meets: "meets N q never P (signature g)"
  unfolding signature_def
  by (rule meets_control meets_loop | (rule meets_bind_consumed, (rule meets_consumers; force dest: in_tokens_facts))
      | (rule meets_bind_consumed, rule parse_parameter_meets)
      | (rule meets_results calls; simp) | rule meets_bind meets_plain)+

lemma body_meets: "3 \<le> q \<Longrightarrow> meets N q never P (body g owner)"
  by (rule meets_body_depth[where b = "body g owner", OF _ body_def])
    ((rule meets_results calls; simp) | rule meets_bind meets_plain)+

lemma function_rest_meets: "3 \<le> q \<Longrightarrow> meets N q never P (function_rest g m owner)"
  unfolding function_rest_def
  by (rule meets_control | (rule meets_results body_meets meets_require_delimiter; simp)
      | rule meets_bind signature_meets)+

lemma anonymous_function_literal_meets:
  "(\<And>s. P s \<Longrightarrow> in_tokens s) \<Longrightarrow> meets N q C P (anonymous_function_literal g)"
  unfolding anonymous_function_literal_def
  by (rule meets_control | (rule meets_bind_consumed, (rule meets_consumers; force dest: in_tokens_facts))
      | (rule meets_results function_rest_meets; simp) | rule meets_bind generic_parameter_list_meets)+

section \<open>Match expressions\<close>

lemma scalar_pattern_meets: "meets N q never P (scalar_pattern neg)"
  unfolding scalar_pattern_def
  by (rule meets_control meets_bind meets_plain | (rule meets_results; simp))+

lemma dotted_pattern_meets: "meets N q never P dotted_pattern"
  unfolding dotted_pattern_def
  by (rule meets_control meets_bind meets_plain | (rule meets_results; simp))+

lemma match_pattern_body_meets: "meets N q never P (match_pattern_body g)"
  unfolding match_pattern_body_def
  by (rule meets_control scalar_pattern_meets dotted_pattern_meets type_argument_list_meets
        primary_type_expression_meets meets_bind meets_plain | (rule meets_results; simp))+

lemma match_operand_meets: "1 \<le> q \<Longrightarrow> meets N q C P (match_operand g b)"
  unfolding match_operand_def
  by (rule meets_with_boundary meets_with_depth meets_with_region or_meets)+

lemma match_expression_meets: "(\<And>s. P s \<Longrightarrow> in_tokens s) \<Longrightarrow> meets N q C P (match_expression g)"
  unfolding match_expression_def
  by (rule meets_control meets_loop | (rule meets_bind_consumed, (rule meets_consumers; force dest: in_tokens_facts))
      | (rule meets_results match_operand_meets; simp) | rule meets_bind meets_plain match_pattern_body_meets)+

section \<open>Primary and unary expressions\<close>

lemma interpolation_template_meets: "meets N q C P (interpolation_template g)"
  unfolding interpolation_template_def
  by (rule meets_with_depth meets_control meets_loop
      | (rule meets_bind_consumed, (rule meets_consumers; force dest: in_tokens_facts))
      | (rule meets_results calls; simp) | rule meets_bind meets_plain)+

lemma list_literal_meets: "(\<And>s. P s \<Longrightarrow> in_tokens s) \<Longrightarrow> meets N q C P (list_literal g)"
  unfolding list_literal_def
  by (rule meets_control meets_loop | (rule meets_bind_consumed, (rule meets_consumers calls; force dest: in_tokens_facts))
      | (rule meets_results; simp) | rule meets_bind meets_plain)+

lemma grouped_expression_meets: "(\<And>s. P s \<Longrightarrow> in_tokens s) \<Longrightarrow> meets N q C P (grouped_expression g)"
  unfolding grouped_expression_def
  by (rule meets_control meets_with_boundary | (rule meets_bind_consumed, (rule meets_consumers; force dest: in_tokens_facts))
      | (rule meets_results calls; simp) | rule meets_bind meets_plain)+

end

text \<open>The switch of \<open>primaryExpression\<close> read as nested conditionals on the state.\<close>

lemma primary_start_switch:
  "primary_start g =
     p_get (\<lambda>s. tk_kind (peek s)) (\<lambda>kind.
      (let leaf = (\<lambda>node. p_bind advance (\<lambda>t. p_return (node t))) in
      if kind = T_Fun then
        p_if (\<lambda>s. \<not> fun_begins_anonymous_literal s) (fail_current ParserAnonymousFunForm)
          (anonymous_function_literal g)
      else if integer_kind kind then leaf IntegerLiteral
      else if kind = T_DecimalFloat then leaf DecimalLiteral
      else if kind = T_True \<or> kind = T_False then leaf BooleanLiteral
      else if kind = T_NilLiteral then leaf NilLiteralExpression
      else if kind = T_Eos then leaf EosLiteral
      else if kind = T_StringLiteral then leaf StringLiteralExpression
      else if kind = T_RawStringLiteral then leaf RawStringLiteralExpression
      else if kind = T_InterpStringStart then interpolation_template g
      else if kind = T_ByteLiteral then leaf ByteLiteralExpression
      else if kind = T_RuneLiteral then leaf RuneLiteralExpression
      else if kind = T_Match then match_expression g
      else if kind = T_Self \<or> kind = T_Identifier then leaf VariableExpression
      else if kind = T_LeftParen then grouped_expression g
      else if kind = T_LeftBracket then list_literal g
      else fail_current ParserExpectedValue))"
  by (rule ext) (simp only: primary_start_def p_get_def p_if_def Let_def if_distribR)

context grammar_contract
begin

lemma primary_start_meets: "meets N q C P (primary_start g)"
  unfolding primary_start_switch
  by (rule meets_get meets_let meets_HOL_if meets_if meets_fail_current interpolation_template_meets
      | (rule match_expression_meets list_literal_meets grouped_expression_meets
            anonymous_function_literal_meets; force dest: in_tokens_facts)
      | (rule meets_bind_consumed, (rule meets_advance; force simp: integer_kind_def intro: in_tokens_facts))
      | (rule meets_results; simp))+

lemma primary_expression_meets: "meets N q C P (primary_expression g)"
  unfolding primary_expression_def
  by (rule meets_bind_consumed, rule primary_start_meets, rule postfix_meets)

lemma numeric_literal_meets: "meets N q never P numeric_literal"
  unfolding numeric_literal_def
  by (rule meets_control meets_bind meets_plain | (rule meets_results; simp))+

lemma unary_expression_body_meets: "meets N q C P (unary_expression_body g)"
  unfolding unary_expression_body_def prefix_operator_def
  by (rule meets_control primary_expression_meets numeric_literal_meets
      | (rule meets_bind_consumed, (rule meets_consumers; force dest: in_tokens_facts))
      | (rule meets_results calls; simp) | rule meets_bind)+

end

end
