(* ===== verification/ParserStatementTotal.thy ===== *)
theory ParserStatementTotal
  imports ParserExpressionTotal
begin

text \<open>
  Statements, blocks, recovery and the knot under the contract of theory \<open>ParserContract\<close>: every
  recovery makes progress, so every loop over statements and items ends; the recursive entries
  keep their contract at every level of fuel.
\<close>

section \<open>Recovery\<close>

lemma skip_to_statement_meets: "meets N q never P skip_to_statement"
  unfolding skip_to_statement_def
  by (rule meets_control meets_loop | (rule meets_bind_consumed, (rule meets_advance; force simp: check_def intro: in_tokens_iff))
      | (rule meets_results; simp))+

lemma synchronize_meets: "meets N q never P (synchronize start)"
  unfolding synchronize_def
  by (rule meets_control meets_bind meets_plain skip_to_statement_meets | (rule meets_results; simp))+

lemma synchronize_block_meets: "meets N q never P (synchronize_block start)"
  unfolding synchronize_block_def
  by (rule meets_control synchronize_meets | (rule meets_results; simp))+

lemma same_position_peek: "ps_tokens s' = ps_tokens s \<Longrightarrow> ps_current s' = ps_current s \<Longrightarrow> peek s' = peek s"
  by (simp add: peek_def)

text \<open>The recovery after a failure moves past the token where the failed parse began.\<close>

lemma synchronize_passes:
  assumes fr: "same_frame s s'" and eof: "\<not> check T_EOF s"
    and start: "start = ps_current s \<or> start = ps_current s'"
  shows "ps_current s < ps_current (snd (synchronize start s'))"
proof (cases "ps_current s < ps_current s'")
  case True
  also have "ps_current s' \<le> ps_current (snd (synchronize start s'))"
    by (rule same_frame_current[OF meets_frame[OF synchronize_meets]]) simp
  finally show ?thesis .
next
  case False
  then have pos: "ps_current s' = ps_current s" using same_frame_current[OF fr] by simp
  have peek: "peek s' = peek s" by (rule same_position_peek[OF same_frame_tokens[OF fr] pos])
  then have ne: "\<not> check T_EOF s'" using eof by (simp add: check_def)
  have "in_tokens s'" using ne by (simp add: check_def in_tokens_iff)
  moreover have "ps_current (snd (advance s')) \<le> ps_current (snd (skip_to_statement (snd (advance s'))))"
    by (rule same_frame_current[OF meets_frame[OF skip_to_statement_meets]]) simp
  ultimately show ?thesis
    using start pos ne
    by (auto simp: synchronize_def p_bind_cases p_if_def advance_result p_return_def advance_current)
qed

lemma p_repeat_no_error:
  assumes "\<And>x s. \<exists>y. fst (step x s) = Inr y"
  shows "fst (p_repeat k step x s) = Inl PFuel \<or> (\<exists>y. fst (p_repeat k step x s) = Inr y)"
proof (induction k arbitrary: x s)
  case (Suc k)
  obtain y s' where "step x s = (Inr y, s')" using assms[of x s] by (cases "step x s") auto
  then show ?case using Suc.IH by (cases y) simp_all
qed simp

lemma skip_to_statement_ok: "fst (skip_to_statement s) = Inr ()"
proof -
  have "fst (skip_to_statement s) \<noteq> Inl PFuel"
    by (rule meets_fuel[OF skip_to_statement_meets[of "4 * remaining s" 0 anywhere]]) simp_all
  then show ?thesis
    using p_repeat_no_error[of "\<lambda>_. p_if (\<lambda>s. \<not> check T_EOF s \<and> \<not> at_statement_start s)
        (p_bind advance (\<lambda>_. p_continue ())) (p_break ())" "Suc (remaining s)" "()" s]
    by (auto simp: skip_to_statement_def p_loop_def p_if_def p_bind_cases advance_result p_continue_def
        p_break_def p_return_def simp del: p_repeat.simps)
qed

lemma synchronize_ok: "fst (synchronize start s) = Inr ()"
  by (simp add: synchronize_def p_bind_cases p_if_def advance_result p_return_def skip_to_statement_ok)

lemma synchronize_block_ok: "fst (synchronize_block start s) = Inr ()"
  by (simp add: synchronize_block_def p_if_def p_return_def synchronize_ok)

lemma recover_here_meets:
  assumes "e \<noteq> PFuel" and eof: "\<And>s. P s \<Longrightarrow> \<not> check T_EOF s"
  shows "meets N q always P (recover_here e)"
proof (rule meetsI)
  have m: "meets M p never anywhere (recover_here e)" for M p
    unfolding recover_here_def
    by (rule meets_control meets_bind meets_plain synchronize_meets | simp add: assms)+
  fix s assume "P s"
  show "same_frame s (snd (recover_here e s))" by (rule meets_frame[OF m]) simp
  show "fst (recover_here e s) \<noteq> Inl PFuel" if "4 * remaining s + q \<le> N"
    by (rule meets_fuel[OF m _ that]) simp
  show "ps_current s < ps_current (snd (recover_here e s))"
    using synchronize_passes[OF same_frame_updates(4) eof[OF \<open>P s\<close>], of "ps_current s"] assms(1)
    by (simp add: recover_here_def p_bind_cases report_def p_modify_def p_get_def)
qed

text \<open>The obligation on the handler of a failed call: it may rely on the frame of the call.\<close>

lemma meets_try_recover:
  assumes p: "meets N q always P p" and ok: "\<And>x. meets N (q + 4) never anywhere (ok x)"
    and h: "\<And>e s s'. P s \<Longrightarrow> same_frame s s' \<Longrightarrow> e \<noteq> PFuel \<Longrightarrow>
      same_frame s (snd (h e s')) \<and> fst (h e s') \<noteq> Inl PFuel \<and>
      (\<forall>x. fst (h e s') = Inr x \<longrightarrow> C x \<longrightarrow> ps_current s < ps_current (snd (h e s')))"
    and hf: "\<And>s. h PFuel s = (Inl PFuel, s)"
  shows "meets N q C P (p_try p ok h)"
proof (rule meetsI)
  fix s assume P: "P s"
  note fr = meets_frame[OF p P]
  have run: "p_try p ok h s = (case fst (p s) of Inl e \<Rightarrow> h e (snd (p s)) | Inr x \<Rightarrow> ok x (snd (p s)))"
    by (simp add: p_try_def split: prod.split sum.split)
  have bound: "p_bind p ok s = p_try p ok h s" if "fst (p s) = Inr x" for x
    using that by (simp add: run p_bind_cases)
  have m: "meets N q C P (p_bind p ok)" by (rule meets_bind_consumed[OF p ok])
  have pf: "p_try p ok h s = (Inl PFuel, snd (p s))" if "fst (p s) = Inl PFuel"
    using that hf by (simp add: run)
  have handled: "same_frame s (snd (p_try p ok h s)) \<and> fst (p_try p ok h s) \<noteq> Inl PFuel \<and>
      (\<forall>x. fst (p_try p ok h s) = Inr x \<longrightarrow> C x \<longrightarrow> ps_current s < ps_current (snd (p_try p ok h s)))"
    if "fst (p s) = Inl e" "e \<noteq> PFuel" for e
    using h[OF P fr that(2)] that(1) by (simp add: run)
  consider x where "fst (p s) = Inr x" | "fst (p s) = Inl PFuel" | e where "fst (p s) = Inl e" "e \<noteq> PFuel"
    by (cases "fst (p s)") auto
  note split = this
  show "same_frame s (snd (p_try p ok h s))"
    using split by cases (use meets_frame[OF m P] bound pf handled fr in auto)
  show "fst (p_try p ok h s) \<noteq> Inl PFuel" if "4 * remaining s + q \<le> N"
    using split by cases (use meets_fuel[OF m P that] meets_fuel[OF p P that] bound handled in auto)
  show "ps_current s < ps_current (snd (p_try p ok h s))" if "fst (p_try p ok h s) = Inr x" "C x" for x
    using split by cases (use meets_consumes[OF m P, of x] that bound pf handled in auto)
qed

section \<open>Statements\<close>

text \<open>A call whose failure, or whose unsuitable result, makes the parser return to where it began
  and refuse.\<close>

lemma meets_try_refuse:
  assumes p: "meets N q always P p" and ok: "\<And>x. meets N (q + 4) never anywhere (ok x)"
    and refuse: "\<And>s s'. same_frame s s' \<Longrightarrow> same_frame s (snd (refuse s s'))"
      "\<And>s s'. \<exists>e. fst (refuse s s') = Inl e \<and> e \<noteq> PFuel"
    and run: "\<And>s. P s \<Longrightarrow> step s = (case p s of (Inl e, s') \<Rightarrow> if e = PFuel then (Inl PFuel, s') else refuse s s'
      | (Inr x, s') \<Rightarrow> if b x s' then ok x s' else refuse s s')"
  shows "meets N q C P step"
proof -
  define pb where "pb = p_bind p (\<lambda>x. p_if (b x) (ok x) (p_fail PBlockRecovery))"
  have m: "meets N q C P pb" unfolding pb_def
    by (rule meets_bind_consumed[OF p]) (rule meets_if, rule meets_weaken[OF ok], simp_all add: meets_fail)
  show ?thesis
  proof (rule meetsI)
    fix s assume P: "P s"
    note fr = meets_frame[OF p P]
    consider e where "fst (p s) = Inl e" "e \<noteq> PFuel" | "fst (p s) = Inl PFuel"
      | x where "fst (p s) = Inr x" "b x (snd (p s))" | x where "fst (p s) = Inr x" "\<not> b x (snd (p s))"
      by (cases "fst (p s)") auto
    then have split: "(\<exists>s'. same_frame s s' \<and> step s = refuse s s') \<or>
        step s = (Inl PFuel, snd (p s)) \<and> fst (p s) = Inl PFuel \<or> step s = pb s"
      using fr by cases (auto simp: run[OF P] pb_def p_bind_cases p_if_def split: prod.split)
    have refused: "fst (refuse s s') \<noteq> Inl PFuel" "fst (refuse s s') \<noteq> Inr x" for s' x
      using refuse(2)[of s s'] by auto
    show "same_frame s (snd (step s))"
      using split meets_frame[OF m P] fr refuse(1) by auto
    show "fst (step s) \<noteq> Inl PFuel" if "4 * remaining s + q \<le> N"
      using split meets_fuel[OF m P that] meets_fuel[OF p P that] refused(1) by auto
    show "ps_current s < ps_current (snd (step s))" if "fst (step s) = Inr x" "C x" for x
      using split meets_consumes[OF m P, of x] that refused(2) by auto
  qed
qed

context grammar_contract
begin

lemma postfix_statement_meets: "2 \<le> q \<Longrightarrow> meets N q never P (postfix_statement g start)"
  unfolding postfix_statement_def
  by (rule meets_control postfix_meets | (rule meets_results calls; simp) | rule meets_bind meets_plain)+

lemma paren_statement_meets: "2 \<le> q \<Longrightarrow> meets N q C P (paren_statement g)"
  by (rule meets_try_refuse[where p = "g_expression g" and b = "\<lambda>target s. is_place_expression target \<and> check T_Equal s" and
        ok = "\<lambda>target. p_bind advance (\<lambda>_. p_bind (g_expression g) (\<lambda>initializer.
            p_return (Assignment zero_token target initializer)))" and
        refuse = "\<lambda>s s'. fail_current ParserCallSameLine (s'\<lparr>ps_current := ps_current s\<rparr>)"])
    (((rule meets_results calls; simp) | rule meets_bind meets_plain)+,
     simp_all add: paren_statement_def fail_current_def error_at_def same_frame_def p_get_def p_try_def p_bind_def
       p_if_def p_modify_def p_fail_def Let_def split: prod.split sum.split)

lemma return_statement_meets: "(\<And>s. P s \<Longrightarrow> in_tokens s) \<Longrightarrow> meets N q C P (return_statement g)"
  unfolding return_statement_def
  by (rule meets_control meets_loop meets_option | (rule meets_bind_consumed, (rule meets_consumers; force dest: in_tokens_facts))
      | (rule meets_results calls meets_require_delimiter; simp) | rule meets_bind meets_plain)+

lemma condition_meets: "2 \<le> q \<Longrightarrow> meets N q never P (condition g keyword)"
  unfolding condition_def
  by (rule meets_control meets_loop meets_option | (rule meets_bind_consumed, (rule meets_consumers; force dest: in_tokens_facts))
      | (rule meets_results calls meets_require_delimiter; simp) | rule meets_bind meets_plain)+

lemma let_declaration_meets: "2 \<le> q \<Longrightarrow> meets N q never P (let_declaration g keyword)"
  unfolding let_declaration_def
  by (rule meets_control meets_loop meets_option | (rule meets_bind_consumed, (rule meets_consumers; force dest: in_tokens_facts))
      | (rule meets_results calls meets_require_delimiter; simp) | rule meets_bind meets_plain)+

lemma deprecated_declaration_meets: "2 \<le> q \<Longrightarrow> meets N q never P (deprecated_declaration g name)"
  unfolding deprecated_declaration_def
  by (rule meets_control meets_loop meets_option | (rule meets_bind_consumed, (rule meets_consumers; force dest: in_tokens_facts))
      | (rule meets_results calls meets_require_delimiter; simp) | rule meets_bind meets_plain)+

lemma if_statement_meets: "(\<And>s. P s \<Longrightarrow> in_tokens s) \<Longrightarrow> meets N q C P (if_statement g)"
  unfolding if_statement_def
  by (rule meets_control meets_loop meets_option | (rule meets_bind_consumed, (rule meets_consumers; force dest: in_tokens_facts))
      | (rule meets_results calls meets_require_delimiter condition_meets; simp) | rule meets_bind meets_plain)+

lemma unsafe_statement_meets: "(\<And>s. P s \<Longrightarrow> in_tokens s) \<Longrightarrow> meets N q C P (unsafe_statement g)"
  unfolding unsafe_statement_def
  by (rule meets_control meets_loop meets_option | (rule meets_bind_consumed, (rule meets_consumers; force dest: in_tokens_facts))
      | (rule meets_results calls meets_require_delimiter; simp) | rule meets_bind meets_plain)+

lemma while_statement_meets: "(\<And>s. P s \<Longrightarrow> in_tokens s) \<Longrightarrow> meets N q C P (while_statement g)"
  unfolding while_statement_def
  by (rule meets_control meets_loop meets_option | (rule meets_bind_consumed, (rule meets_consumers; force dest: in_tokens_facts))
      | (rule meets_results calls meets_require_delimiter condition_meets; simp) | rule meets_bind meets_plain)+

lemma for_binders_meets: "meets N q never P (for_binders g)"
  unfolding for_binders_def
  by (rule meets_control meets_loop meets_option | (rule meets_bind_consumed, (rule meets_consumers; force dest: in_tokens_facts))
      | (rule meets_results calls meets_require_delimiter; simp) | rule meets_bind meets_plain)+

lemma for_statement_meets: "(\<And>s. P s \<Longrightarrow> in_tokens s) \<Longrightarrow> meets N q C P (for_statement g)"
  unfolding for_statement_def
  by (rule meets_control meets_loop meets_option | (rule meets_bind_consumed, (rule meets_consumers; force dest: in_tokens_facts))
      | (rule meets_results calls meets_require_delimiter for_binders_meets; simp) | rule meets_bind meets_plain)+

lemma keyword_statement_meets:
  assumes "\<And>s. P s \<Longrightarrow> in_tokens s" and operand: "\<And>q C P. 2 \<le> q \<Longrightarrow> meets N q C P operand"
  shows "meets N q C P (keyword_statement node operand)"
  unfolding keyword_statement_def
  by (rule meets_bind_consumed, rule meets_advance, erule assms)
    ((rule meets_results operand; simp) | rule meets_bind)+

lemma identifier_statement_meets: "meets N q C P (identifier_statement g)"
  unfolding identifier_statement_def
  by (rule meets_control | (rule meets_bind_consumed, (rule meets_consumers; force dest: in_tokens_facts))
      | (rule postfix_statement_meets deprecated_declaration_meets; simp))+

end

text \<open>The statement switch read as nested conditionals on the state.\<close>

lemma statement_body_switch:
  "statement_body g =
     p_if at_extern_block (fail_current ParserExternBeforeTopLevel)
     (p_get (\<lambda>s. tk_kind (peek s)) (\<lambda>kind.
      if kind = T_Fun then
        p_if (\<lambda>s. token_after_fun s = T_Identifier) (fail_current ParserNamedFunctionScope)
          (p_if fun_begins_anonymous_literal (fail_current ParserAnonymousStatement)
             (fail_current ParserAnonymousFunForm))
      else if kind = T_Method then fail_current (ParserModuleScopeOnly ''method declarations'')
      else if kind = T_Type then fail_current (ParserModuleScopeOnly ''type declarations'')
      else if kind = T_LeftParen then paren_statement g
      else if kind = T_Return then return_statement g
      else if kind = T_If then if_statement g
      else if kind = T_While then while_statement g
      else if kind = T_For then for_statement g
      else if kind = T_Unsafe then unsafe_statement g
      else if kind = T_Break then p_bind advance (\<lambda>t. p_return (BreakStatement t))
      else if kind = T_Continue then p_bind advance (\<lambda>t. p_return (ContinueStatement t))
      else if kind = T_Defer then keyword_statement DeferStatement (g_expression g)
      else if kind = T_Errdefer then keyword_statement ErrdeferStatement (g_expression g)
      else if kind = T_ElseIf then p_get stray_elseif fail_current
      else if kind = T_Export then fail_current ParserExportPrefix
      else if kind = T_Else then p_get stray_else fail_current
      else if kind = T_End then fail_current ParserEndOutsideBlock
      else if kind = T_Self then p_bind advance (\<lambda>t. postfix_statement g (VariableExpression t))
      else if kind = T_At \<or> kind = T_Caret then p_bind (g_unary g) (postfix_statement g)
      else if kind = T_Try then keyword_statement TryStatement (g_unary g)
      else if kind = T_Let then p_bind advance (let_declaration g)
      else identifier_statement g))"
  by (rule ext) (simp only: statement_body_def p_get_def p_if_def Let_def if_distribR)

context grammar_contract
begin

lemma statement_body_meets: "2 \<le> q \<Longrightarrow> meets N q C P (statement_body g)"
  unfolding statement_body_switch
  by (rule meets_if meets_get meets_HOL_if meets_fail_current identifier_statement_meets
      | (rule paren_statement_meets; simp)
      | (rule return_statement_meets if_statement_meets while_statement_meets for_statement_meets
            unsafe_statement_meets; force dest: in_tokens_facts)
      | (rule keyword_statement_meets; force dest: in_tokens_facts intro: calls)
      | (rule meets_bind_consumed, (rule meets_advance; force dest: in_tokens_facts))
      | (rule meets_bind_consumed, (rule unary_rule; simp))
      | (rule meets_results postfix_statement_meets let_declaration_meets; simp))+

end

section \<open>Blocks\<close>

lemma delimiter_in_tokens: "is_block_delimiter (tk_kind (peek s)) \<Longrightarrow> in_tokens s"
  by (rule in_tokens_iff) (auto simp: is_block_delimiter_def)

lemma p_bind_ok: "fst (p s) = Inr x \<Longrightarrow> p_bind p f s = f x (snd (p s))"
  by (simp add: p_bind_cases)

lemma report_ok: "fst (report ds s) = Inr ()"
  by (simp add: report_def p_modify_def)

lemma block_recover_run:
  "block_recover owner stops start statements (PDiagnostic d) s' =
     (let s2 = snd (synchronize_block start (snd (report [d] s'))) in
      if check T_EOF s2 then
        (Inl PBlockRecovery,
         snd (report (diagnostics_from (error_at (peek s2) (ParserExpectedEnd owner))) s2))
      else if is_block_delimiter (tk_kind (peek s2)) \<and> \<not> at_block_stop stops s2 then
        (Inr (Inl statements), snd (advance s2))
      else (Inr (Inl statements), s2))"
  by (simp add: block_recover_def p_bind_ok[OF report_ok] p_bind_ok[OF synchronize_block_ok]
      p_bind_ok[OF advance_result] p_if_def p_get_def Let_def p_fail_def p_continue_def p_return_def
      diagnostics_from_def[of "PDiagnostic d"])

text \<open>The recovery of a statement that failed in the state \<open>s'\<close>: it leaves the block, or goes on
  past the token where the statement began.\<close>

lemma block_recover_passes:
  fixes owner :: string and statements :: "stmt list"
  assumes fr: "same_frame s s'" and e: "e \<noteq> PFuel"
    and s: "\<not> at_block_stop stops s" "\<not> check T_EOF s" and start: "start = ps_current s"
  defines "r \<equiv> (block_recover owner stops start statements e :: (stmt list + stmt list) parser) s'"
  shows "same_frame s (snd r)" and "fst r \<noteq> Inl PFuel"
    and "\<And>x. fst r = Inr x \<Longrightarrow> ps_current s < ps_current (snd r)"
proof -
  have plain: "r = (Inl e, s')" if "\<forall>d. e \<noteq> PDiagnostic d"
    using that by (cases e) (simp_all add: r_def block_recover_def p_fail_def)
  define s1 where "s1 = snd (report (diagnostics_from e) s')"
  define s2 where "s2 = snd (synchronize_block start s1)"
  have s1: "same_frame s s1" unfolding s1_def
    by (rule same_frame_trans[OF fr]) (simp add: report_def p_modify_def)
  have s2: "same_frame s s2" unfolding s2_def
    by (rule same_frame_trans[OF s1 meets_frame[OF synchronize_block_meets]]) simp
  have run: "r = (if check T_EOF s2 then (Inl PBlockRecovery,
         snd (report (diagnostics_from (error_at (peek s2) (ParserExpectedEnd owner))) s2))
      else if is_block_delimiter (tk_kind (peek s2)) \<and> \<not> at_block_stop stops s2 then
        (Inr (Inl statements), snd (advance s2))
      else (Inr (Inl statements), s2))" if "e = PDiagnostic d" for d
    using that by (simp add: r_def block_recover_run Let_def s1_def s2_def diagnostics_from_def)
  have "same_frame s (snd (report ds s2))" for ds
    by (rule same_frame_trans[OF s2]) (simp add: report_def p_modify_def)
  then show "same_frame s (snd r)"
    using plain run fr s2 same_frame_trans[OF s2 advance_frame] by (cases e) auto
  show "fst r \<noteq> Inl PFuel" using plain run e by (cases e) auto
  have passes: "ps_current s < ps_current s2"
    if "\<not> (ps_current s1 = start \<and> is_block_delimiter (tk_kind (peek s1)))"
    using synchronize_passes[OF s1 s(2), of start] that start
    by (auto simp: s2_def synchronize_block_def p_if_def)
  have stays: "s2 = s1 \<and> \<not> at_block_stop stops s1"
    if "ps_current s1 = start" "is_block_delimiter (tk_kind (peek s1))"
    using that s(1) same_position_peek[OF same_frame_tokens[OF s1]] start
    by (simp add: s2_def synchronize_block_def p_if_def p_return_def at_block_stop_def check_def)
  fix x assume x: "fst r = Inr x"
  then obtain d where "e = PDiagnostic d" using plain by (cases e) auto
  note last = run[OF this]
  show "ps_current s < ps_current (snd r)"
  proof (cases "ps_current s1 = start \<and> is_block_delimiter (tk_kind (peek s1))")
    case True
    then show ?thesis
      using stays last x start advance_current[OF delimiter_in_tokens[of s1]] by (auto split: if_splits)
  next
    case False
    have "ps_current s2 \<le> ps_current (snd r)"
      using last x same_frame_current[OF advance_frame[of s2]] by (auto split: if_splits)
    then show ?thesis using passes[OF False] by simp
  qed
qed

context grammar_contract
begin

lemma block_step_meets: "2 \<le> q \<Longrightarrow> meets N q isl anywhere (block_step g owner stops statements)"
  unfolding block_step_def
  by (rule meets_if meets_get | (rule meets_results meets_fail; simp)
      | (rule meets_try_recover, (rule statement_body_meets; simp)))+
    ((rule meets_results; simp) | (simp add: block_recover_def p_fail_def; fail) | (use block_recover_passes in force))+

lemma block_body_meets: "2 \<le> q \<Longrightarrow> meets N q never P (block_body g owner stops)"
  unfolding block_body_def
  by (rule meets_with_depth meets_with_block meets_loop block_step_meets | simp)+

end

end
