(* ===== verification/ParserTotal.thy ===== *)
theory ParserTotal
  imports ParserStatementTotal
begin

text \<open>
  The knot and the top level under the contract of theory \<open>ParserContract\<close>: the recursive entries
  keep it at every level of fuel, so \<open>parse\<close>, whose fuel is four times the tokens plus eight,
  always returns.
\<close>

section \<open>The knot\<close>

lemma the_grammar_step:
  "expression (Suc n) = expression_body (the_grammar n)"
  "unary_expression (Suc n) = unary_expression_body (the_grammar n)"
  "address_operand (Suc n) = address_operand_body (the_grammar n)"
  "block (Suc n) owner stops = block_body (the_grammar n) owner stops"
  by (rule ext, simp add: the_grammar_def)+

lemma the_grammar_sel [simp]:
  "g_expression (the_grammar n) = expression n" "g_unary (the_grammar n) = unary_expression n"
  "g_address (the_grammar n) = address_operand n" "g_type (the_grammar n) = type_expression n"
  "g_block (the_grammar n) = block n"
  by (simp_all add: the_grammar_def)

lemma the_grammar_contract: "grammar_contract (the_grammar n) n"
proof (induction n)
  case 0
  show ?case
    by unfold_locales (auto intro!: meetsI)
next
  case (Suc n)
  note up = meets_raise[OF _ refl]
  note IH = Suc.IH
  have "meets (Suc n) 2 always anywhere (expression (Suc n))"
    using up[OF grammar_contract.expression_body_meets[OF IH, of 1]] by (simp add: the_grammar_step numeral_2_eq_2)
  moreover have "meets (Suc n) 1 always anywhere (unary_expression (Suc n))"
    using up[OF grammar_contract.unary_expression_body_meets[OF IH, of 0]] by (simp add: the_grammar_step)
  moreover have "meets (Suc n) 1 always anywhere (address_operand (Suc n))"
    using up[OF grammar_contract.address_operand_body_meets[OF IH, of 0]] by (simp add: the_grammar_step)
  moreover have "meets (Suc n) 3 never anywhere (block (Suc n) owner stops)" for owner stops
    using up[OF grammar_contract.block_body_meets[OF IH, of 2]] by (simp add: the_grammar_step numeral_3_eq_3 numeral_2_eq_2)
  moreover note type_expression_meets[of "Suc n"]
  ultimately show ?case
    by unfold_locales (simp_all del: type_expression.simps expression.simps
      unary_expression.simps address_operand.simps block.simps)
qed

interpretation knot: grammar_contract "the_grammar n" n for n
  by (rule the_grammar_contract)

section \<open>Declarations\<close>

context grammar_contract
begin

lemma type_declaration_meets: "meets N q C P (type_declaration g exported)"
  unfolding type_declaration_def
  by (rule meets_control meets_loop meets_option type_definition_meets | (rule meets_bind_consumed, (rule meets_consumers; force dest: in_tokens_facts))
      | (rule meets_results calls generic_parameter_list_meets; simp) | rule meets_bind meets_plain)+

lemma function_declaration_meets: "(\<And>s. P s \<Longrightarrow> in_tokens s) \<Longrightarrow> meets N q C P (function_declaration g exported)"
  unfolding function_declaration_def
  by (rule meets_control meets_loop meets_option | (rule meets_bind_consumed, (rule meets_consumers; force dest: in_tokens_facts))
      | (rule meets_results calls generic_parameter_list_meets function_rest_meets; simp) | rule meets_bind meets_plain)+

lemma receiver_type_meets: "1 \<le> q \<Longrightarrow> meets N q C P (receiver_type g)"
  by (rule meets_bracket[where b = "receiver_type g" and p = "g_type g" and
        enter = "\<lambda>s. s\<lparr>ps_method_receiver := True\<rparr>" and leave = "\<lambda>s s'. s'\<lparr>ps_method_receiver := False\<rparr>"])
    (auto simp: receiver_type_def same_frame_def Let_def ty_rule split: prod.split)

lemma method_rest_meets: "3 \<le> q \<Longrightarrow> meets N q never P (method_rest g keyword mutating exported t name ps)"
  unfolding method_rest_def
  by (rule meets_control | (rule meets_results function_rest_meets; simp) | rule meets_bind)+

lemma meets_qualified:
  "(\<And>a b. meets N q C P (f a b)) \<Longrightarrow> meets N q C P p \<Longrightarrow>
   meets N q C P (case t of QualifiedTypeExpression a b \<Rightarrow> f a b | _ \<Rightarrow> p)"
  by (cases t) simp_all

lemma method_declaration_meets:
  "(\<And>s. P s \<Longrightarrow> in_tokens s) \<Longrightarrow> meets N q C P (method_declaration g exported)"
  unfolding method_declaration_def
  by (rule meets_bind_consumed, (rule meets_advance; simp))
    ((rule meets_if meets_plain meets_qualified)
      | (rule meets_results method_rest_meets receiver_type_meets generic_parameter_list_meets; simp)
      | rule meets_bind)+

lemma top_level_item_meets: "2 \<le> q \<Longrightarrow> meets N q C P (top_level_item g)"
  unfolding top_level_item_def
  by (rule meets_control type_declaration_meets
      | (rule function_declaration_meets method_declaration_meets; force dest: in_tokens_facts)
      | (rule meets_bind_consumed, (rule statement_body_meets; simp)) | (rule meets_results; simp))+

end

section \<open>Import, export and foreign blocks\<close>

lemma c_header_literal_meets: "meets N q never P (c_header_literal keyword)"
  unfolding c_header_literal_def
  by (rule meets_control meets_loop meets_option | (rule meets_bind_consumed, (rule meets_consumers; force dest: in_tokens_facts))
      | (rule meets_results; simp) | rule meets_bind meets_plain)+

lemma quoted_reference_meets: "meets N q never P quoted_reference"
  unfolding quoted_reference_def
  by (rule meets_control meets_loop meets_option | (rule meets_bind_consumed, (rule meets_consumers; force dest: in_tokens_facts))
      | (rule meets_results; simp) | rule meets_bind meets_plain)+

lemma std_components_meets: "meets N q never P std_components"
  unfolding std_components_def
  by (rule meets_control meets_loop meets_option | (rule meets_bind_consumed, (rule meets_consumers; force dest: in_tokens_facts))
      | (rule meets_results; simp) | rule meets_bind meets_plain)+

lemma std_reference_meets: "meets N q never P (std_reference from_token)"
  unfolding std_reference_def
  by (rule meets_control meets_loop meets_option std_components_meets | (rule meets_bind_consumed, (rule meets_consumers; force dest: in_tokens_facts))
      | (rule meets_results; simp) | rule meets_bind meets_plain)+

lemma import_reference_body_meets: "meets N q never P (import_reference_body from_token)"
  unfolding import_reference_body_def
  by (rule meets_control meets_loop meets_option std_reference_meets quoted_reference_meets c_header_literal_meets | (rule meets_bind_consumed, (rule meets_consumers; force dest: in_tokens_facts))
      | (rule meets_results; simp) | rule meets_bind meets_plain)+

lemma parse_import_block_meets: "(\<And>s. P s \<Longrightarrow> in_tokens s) \<Longrightarrow> meets N q C P parse_import_block"
  unfolding parse_import_block_def
  by (rule meets_control meets_loop meets_option import_reference_body_meets | (rule meets_bind_consumed, (rule meets_consumers; force dest: in_tokens_facts))
      | (rule meets_results; simp) | rule meets_bind meets_plain)+

lemma parse_export_block_meets: "(\<And>s. P s \<Longrightarrow> in_tokens s) \<Longrightarrow> meets N q C P parse_export_block"
  unfolding parse_export_block_def
  by (rule meets_control meets_loop meets_option | (rule meets_bind_consumed, (rule meets_consumers; force dest: in_tokens_facts))
      | (rule meets_results; simp) | rule meets_bind meets_plain)+

lemma consume_c_spelling_attribute_meets: "meets N q never P consume_c_spelling_attribute"
  unfolding consume_c_spelling_attribute_def
  by (rule meets_control meets_loop meets_option | (rule meets_bind_consumed, (rule meets_consumers; force dest: in_tokens_facts))
      | (rule meets_results; simp) | rule meets_bind meets_plain)+

context grammar_contract
begin

lemma extern_members_meets: "1 \<le> q \<Longrightarrow> meets N q never P (extern_members g)"
  unfolding extern_members_def
  by (rule meets_control meets_loop meets_option consume_c_spelling_attribute_meets | (rule meets_bind_consumed, (rule meets_consumers; force dest: in_tokens_facts))
      | (rule meets_results calls; simp) | rule meets_bind meets_plain)+

lemma extern_type_meets: "(\<And>s. P s \<Longrightarrow> in_tokens s) \<Longrightarrow> meets N q C P (extern_type g)"
  unfolding extern_type_def
  by (rule meets_control meets_loop meets_option consume_c_spelling_attribute_meets alias_target_meets | (rule meets_bind_consumed, (rule meets_consumers; force dest: in_tokens_facts))
      | (rule meets_results calls extern_members_meets; simp) | rule meets_bind meets_plain)+

lemma extern_parameters_meets: "1 \<le> q \<Longrightarrow> meets N q never P (extern_parameters g)"
  unfolding extern_parameters_def
  by (rule meets_control meets_loop meets_option consume_c_spelling_attribute_meets | (rule meets_bind_consumed, (rule meets_consumers; force dest: in_tokens_facts))
      | (rule meets_results calls; simp) | rule meets_bind meets_plain)+

lemma extern_function_meets: "(\<And>s. P s \<Longrightarrow> in_tokens s) \<Longrightarrow> meets N q C P (extern_function g)"
  unfolding extern_function_def
  by (rule meets_control meets_loop meets_option consume_c_spelling_attribute_meets | (rule meets_bind_consumed, (rule meets_consumers; force dest: in_tokens_facts))
      | (rule meets_results calls extern_parameters_meets; simp) | rule meets_bind meets_plain)+

lemma extern_constant_meets: "(\<And>s. P s \<Longrightarrow> in_tokens s) \<Longrightarrow> meets N q C P (extern_constant g)"
  unfolding extern_constant_def
  by (rule meets_control meets_loop meets_option consume_c_spelling_attribute_meets | (rule meets_bind_consumed, (rule meets_consumers; force dest: in_tokens_facts))
      | (rule meets_results calls; simp) | rule meets_bind meets_plain)+

lemma extern_global_meets: "(\<And>s. P s \<Longrightarrow> in_tokens s) \<Longrightarrow> meets N q C P (extern_global g)"
  unfolding extern_global_def
  by (rule meets_control meets_loop meets_option consume_c_spelling_attribute_meets | (rule meets_bind_consumed, (rule meets_consumers; force dest: in_tokens_facts))
      | (rule meets_results calls; simp) | rule meets_bind meets_plain)+

lemma parse_extern_declaration_meets: "meets N q C P (parse_extern_declaration g)"
  unfolding parse_extern_declaration_def
  by (rule meets_control | (rule extern_type_meets extern_function_meets extern_constant_meets
        extern_global_meets; force dest: in_tokens_facts))+

lemma parse_extern_block_meets:
  "(\<And>s. P s \<Longrightarrow> in_tokens s) \<Longrightarrow> meets N q C P (parse_extern_block g)"
  unfolding parse_extern_block_def
  by (rule meets_control meets_loop | (rule meets_bind_consumed, (rule meets_advance; force dest: in_tokens_facts))
      | (rule meets_bind_consumed, rule parse_extern_declaration_meets)
      | (rule meets_results; simp) | rule meets_bind meets_plain c_header_literal_meets)+

end

end
