(* ===== verification/ParserProgram.thy ===== *)
theory ParserProgram
  imports ParserTotal
begin

text \<open>
  \<open>Parse\<close> itself: every failure of an item is recovered from, so the only computation that does
  not give a program is one that ran out of fuel, and \<open>parse\<close> never does.
\<close>

section \<open>Recovery at the top level\<close>

lemma recover_here_run:
  "e \<noteq> PFuel \<Longrightarrow> recover_here e s =
     (Inr (), snd (synchronize (ps_current s) (snd (report (diagnostics_from e) s))))"
  by (simp add: recover_here_def p_bind_ok[OF report_ok] p_get_def prod_eq_iff synchronize_ok)
    (simp add: report_def p_modify_def)

lemma recover_here_ok: "e \<noteq> PFuel \<Longrightarrow> fst (recover_here e s) = Inr ()"
  by (simp add: recover_here_run)

lemma recover_here_fuel: "recover_here PFuel s = (Inl PFuel, s)"
  by (simp add: recover_here_def p_fail_def)

lemma recover_bind_fuel: "p_bind (recover_here PFuel) f s = (Inl PFuel, s)"
  by (simp add: p_bind_def recover_here_fuel)

lemma recover_here_passes:
  assumes "e \<noteq> PFuel" and fr: "same_frame s s'"
  shows "same_frame s (snd (recover_here e s'))"
    and "\<not> check T_EOF s \<Longrightarrow> ps_current s < ps_current (snd (recover_here e s'))"
proof -
  define s1 where "s1 = snd (report (diagnostics_from e) s')"
  have s1: "same_frame s s1" "ps_current s1 = ps_current s'"
    unfolding s1_def using same_frame_trans[OF fr] by (simp_all add: report_def p_modify_def)
  have run: "snd (recover_here e s') = snd (synchronize (ps_current s') s1)"
    using assms(1) by (simp add: recover_here_run s1_def)
  show "same_frame s (snd (recover_here e s'))" unfolding run
    by (rule same_frame_trans[OF s1(1) meets_frame[OF synchronize_meets]]) simp
  show "ps_current s < ps_current (snd (recover_here e s'))" if "\<not> check T_EOF s"
    unfolding run by (rule synchronize_passes[OF s1(1) that]) (simp add: s1(2))
qed

lemma item_recover_run:
  fixes s :: pstate
  assumes "e \<noteq> PFuel"
  defines "r \<equiv> snd (if e = PBlockRecovery then p_return () s else report (diagnostics_from e) s)"
  shows "item_recover start e s =
    (let s2 = snd (synchronize start r) in
     (Inr (), if e = PBlockRecovery \<and> ps_current s2 = ps_current r \<and> \<not> check T_EOF s2
              then snd (advance s2) else s2))"
  using assms
  by (auto simp: item_recover_def p_bind_cases[of "if b then p else q" for b p q] report_ok p_return_def
      p_get_def p_bind_ok[OF synchronize_ok] p_if_def Let_def p_bind_ok[OF advance_result])

lemma item_recover_passes:
  assumes "e \<noteq> PFuel" and fr: "same_frame s s'"
  shows "same_frame s (snd (item_recover start e s'))"
    and "\<not> check T_EOF s \<Longrightarrow> start = ps_current s \<Longrightarrow> ps_current s < ps_current (snd (item_recover start e s'))"
proof -
  define r where "r = snd (if e = PBlockRecovery then p_return () s' else report (diagnostics_from e) s')"
  define s2 where "s2 = snd (synchronize start r)"
  have r: "same_frame s r"
    unfolding r_def using same_frame_trans[OF fr] fr by (simp add: report_def p_modify_def p_return_def)
  have s2: "same_frame s s2" unfolding s2_def
    by (rule same_frame_trans[OF r meets_frame[OF synchronize_meets]]) simp
  have run: "snd (item_recover start e s') = (if e = PBlockRecovery \<and> ps_current s2 = ps_current r \<and>
      \<not> check T_EOF s2 then snd (advance s2) else s2)"
    using assms(1) by (auto simp: item_recover_run r_def s2_def Let_def)
  show "same_frame s (snd (item_recover start e s'))"
    using s2 same_frame_trans[OF s2 advance_frame] by (simp add: run)
  assume "\<not> check T_EOF s" and "start = ps_current s"
  then have "ps_current s < ps_current s2" unfolding s2_def by (intro synchronize_passes[OF r]) simp_all
  then show "ps_current s < ps_current (snd (item_recover start e s'))"
    using same_frame_current[OF advance_frame[of s2]] by (simp add: run)
qed

lemma item_recover_ok: "e \<noteq> PFuel \<Longrightarrow> fst (item_recover start e s) = Inr ()"
  by (simp add: item_recover_run Let_def)

lemma item_recover_bind_fuel: "p_bind (item_recover start PFuel) f s = (Inl PFuel, s)"
  by (simp add: p_bind_def item_recover_def p_fail_def)

section \<open>Nothing but fuel fails\<close>

text \<open>The error a parser may end in.\<close>

definition handled :: "'a parser \<Rightarrow> bool" where
  "handled p \<longleftrightarrow> (\<forall>s e. fst (p s) = Inl e \<longrightarrow> e = PFuel)"

lemma handled_return: "handled (p_return x)" "handled (p_continue x')" "handled (p_break x'')"
  by (simp_all add: handled_def p_return_def p_continue_def p_break_def)

lemma handled_advance: "handled advance"
  by (simp add: handled_def advance_result)

lemma handled_bind: "handled p \<Longrightarrow> (\<And>x. handled (f x)) \<Longrightarrow> handled (p_bind p f)"
  by (simp add: handled_def p_bind_cases split: sum.split)

lemma handled_if: "handled p \<Longrightarrow> handled q \<Longrightarrow> handled (p_if b p q)"
  by (simp add: handled_def p_if_def)

lemma handled_get: "(\<And>y. handled (p y)) \<Longrightarrow> handled (p_get f p)"
  by (simp add: handled_def p_get_def)

lemma handled_try: "(\<And>x. handled (ok x)) \<Longrightarrow> (\<And>e. handled (h e)) \<Longrightarrow> handled (p_try p ok h)"
  by (auto simp: handled_def p_try_def split: prod.split sum.split)

lemma handled_repeat: "(\<And>x. handled (step x)) \<Longrightarrow> handled (p_repeat k step x)"
proof (induction k arbitrary: x)
  case (Suc k)
  have "e = PFuel" if "step x s = (Inl e, s')" for e s s'
    using Suc.prems[of x] that unfolding handled_def by (metis fst_conv)
  then have "fst (p_repeat (Suc k) step x s) = Inl e \<Longrightarrow> e = PFuel" for s e
    using Suc.IH[OF Suc.prems, unfolded handled_def] by (auto split: sum.splits prod.splits)
  then show ?case by (simp add: handled_def del: p_repeat.simps)
qed (simp add: handled_def)

lemma handled_loop: "(\<And>x. handled (step x)) \<Longrightarrow> handled (p_loop step x)"
  using handled_repeat[of step] by (simp add: handled_def p_loop_def del: p_repeat.simps)

lemma handled_recover_here: "handled (recover_here e)"
  by (cases "e = PFuel") (simp_all add: handled_def recover_here_run, simp add: recover_here_fuel)

lemma handled_item_recover: "handled (item_recover start e)"
  by (cases "e = PFuel") (simp_all add: handled_def item_recover_run Let_def, simp add: item_recover_def p_fail_def)

lemmas handled_rules = handled_return handled_advance handled_bind handled_if handled_get handled_try
  handled_loop handled_recover_here handled_item_recover

lemma handled_item_step: "handled (item_step g st)"
proof -
  obtain items export where st: "st = (items, export)" by (cases st)
  show ?thesis unfolding item_step_def st prod.case
    by (cases export) (simp_all, (rule handled_rules)+)
qed

lemma handled_program: "handled (parse_program g)"
  unfolding parse_program_def leading_import_def leading_externs_def
  by (intro handled_bind handled_loop handled_item_step; auto intro!: handled_rules handled_item_step split: prod.split)

section \<open>The item loop\<close>

context grammar_contract
begin

lemma leading_import_meets: "meets N q never P leading_import"
  unfolding leading_import_def
  by (rule meets_if meets_try_recover | (rule parse_import_block_meets; force dest: in_tokens_facts)
      | (rule meets_results; simp))+
    (auto simp: p_bind_ok[OF recover_here_ok] recover_here_passes p_return_def recover_bind_fuel meets_return)

lemma leading_externs_meets: "2 \<le> q \<Longrightarrow> meets N q never P (leading_externs g)"
  unfolding leading_externs_def
  by (rule meets_if meets_loop meets_try_recover
      | (rule parse_extern_block_meets; force simp: at_extern_block_def dest: in_tokens_facts) | (rule meets_results; simp))+
    (auto simp: p_bind_ok[OF recover_here_ok] recover_here_passes p_continue_def p_return_def recover_bind_fuel
      meets_return meets_break)

text \<open>An item refused before it is parsed.\<close>

lemma meets_get_error:
  assumes eof: "\<And>s. P s \<Longrightarrow> \<not> check T_EOF s" and k: "meets N (q + 4) never anywhere k"
  shows "meets N q C P (p_get (\<lambda>s. error_at (peek s) m) (\<lambda>e. p_bind (recover_here e) (\<lambda>_. k)))"
proof -
  have "meets N q C P (p_bind (recover_here (error_at t m)) (\<lambda>_. k))" for t
    by (rule meets_bind_consumed[OF recover_here_meets k]) (simp_all add: error_at_def eof)
  then show ?thesis by (auto simp: meets_def p_get_def)
qed

lemma item_step_meets: "2 \<le> q \<Longrightarrow> meets N q isl anywhere (item_step g st)"
proof (cases st)
  case (Pair items export)
  assume q: "2 \<le> q"
  show ?thesis
    unfolding item_step_def Pair prod.case
    by (rule meets_if meets_HOL_if | (rule meets_get_error, force) | rule meets_get
        | (rule meets_try_recover, (rule parse_export_block_meets; force dest: in_tokens_facts))
        | (rule meets_try_recover, (rule top_level_item_meets; simp add: q))
        | (rule meets_results; simp) | rule meets_bind meets_plain
        | (auto simp: p_bind_ok[OF recover_here_ok] p_bind_ok[OF item_recover_ok] recover_here_passes
            item_recover_passes p_continue_def p_return_def recover_bind_fuel item_recover_bind_fuel; fail))+
qed

lemma parse_program_meets: "2 \<le> q \<Longrightarrow> meets N q never P (parse_program g)"
  unfolding parse_program_def
  by (rule meets_bind meets_prod leading_import_meets meets_loop
      | (rule leading_externs_meets item_step_meets meets_results; simp))+

end

section \<open>Parse\<close>

lemma remaining_initial: "remaining (initial_state tokens) = length tokens"
  by (simp add: remaining_def initial_state_def)

lemma parse_levels_some:
  assumes "4 * length tokens + 2 \<le> n"
  shows "\<exists>program s. parse_program (the_grammar n) (initial_state tokens) = (Inr program, s)"
proof -
  have "fst (parse_program (the_grammar n) (initial_state tokens)) \<noteq> Inl PFuel"
    using assms by (intro meets_fuel[OF knot.parse_program_meets[where q = 2]]) (simp_all add: remaining_initial)
  then obtain program where "fst (parse_program (the_grammar n) (initial_state tokens)) = Inr program"
    using handled_program[of "the_grammar n"] by (cases "fst (parse_program (the_grammar n) (initial_state tokens))")
      (auto simp: handled_def)
  then show ?thesis by (metis prod.collapse)
qed

text \<open>
  C2. Parse returns on every list of tokens: the levels of fuel the model runs it with are
  enough, no loop of the parser repeats without consuming a token and no recovery gets stuck.
\<close>

theorem parse_total: "\<exists>program diagnostics. parse tokens = Some (program, diagnostics)"
proof -
  obtain program s where
    "parse_program (the_grammar (4 * length tokens + 8)) (initial_state tokens) = (Inr program, s)"
    using parse_levels_some[of tokens "4 * length tokens + 8"] by auto
  then show ?thesis by (simp add: parse_def parse_levels_def)
qed

end
