(* ===== verification/ParserFuel.thy ===== *)
theory ParserFuel
  imports ParserProgram
begin

text \<open>
  Fuel is only a bound. \<open>extends p p'\<close> says that \<open>p'\<close> does what \<open>p\<close> does wherever \<open>p\<close> does
  not run out of fuel; every production preserves it, so more levels never change a result, and
  \<open>parse\<close> is what the unbounded recursion of the source computes.
\<close>

section \<open>Extension\<close>

definition extends :: "'a parser \<Rightarrow> 'a parser \<Rightarrow> bool" where
  "extends p p' \<longleftrightarrow> (\<forall>s. fst (p s) \<noteq> Inl PFuel \<longrightarrow> p' s = p s)"

lemma extends_refl: "extends p p"
  by (simp add: extends_def)

lemma extends_bind: "extends p p' \<Longrightarrow> (\<And>x. extends (f x) (f' x)) \<Longrightarrow> extends (p_bind p f) (p_bind p' f')"
  by (auto simp: extends_def p_bind_cases split: sum.splits)

lemma extends_if: "extends p p' \<Longrightarrow> extends q q' \<Longrightarrow> extends (p_if b p q) (p_if b p' q')"
  by (simp add: extends_def p_if_def)

lemma extends_get: "(\<And>y. extends (p y) (p' y)) \<Longrightarrow> extends (p_get f p) (p_get f p')"
  by (simp add: extends_def p_get_def)

lemma extends_HOL_if: "extends p p' \<Longrightarrow> extends q q' \<Longrightarrow> extends (if b then p else q) (if b then p' else q')"
  by simp

lemma extends_let: "extends (f v) (f' v') \<Longrightarrow> extends (let x = v in f x) (let x = v' in f' x)"
  by simp

lemma extends_prod: "(\<And>a b. extends (f a b) (f' a b)) \<Longrightarrow> extends (case x of (a, b) \<Rightarrow> f a b) (case x of (a, b) \<Rightarrow> f' a b)"
  by (cases x) simp

lemma extends_option: "extends p p' \<Longrightarrow> (\<And>y. extends (f y) (f' y)) \<Longrightarrow>
    extends (case x of None \<Rightarrow> p | Some y \<Rightarrow> f y) (case x of None \<Rightarrow> p' | Some y \<Rightarrow> f' y)"
  by (cases x) simp_all

lemma extends_try:
  assumes p: "extends p p'" and ok: "\<And>x. extends (ok x) (ok' x)" and h: "\<And>e. extends (h e) (h' e)"
    and fuel: "\<And>s. fst (h PFuel s) = Inl PFuel"
  shows "extends (p_try p ok h) (p_try p' ok' h')"
proof -
  have run: "p_try p ok h s = (case fst (p s) of Inl e \<Rightarrow> h e (snd (p s)) | Inr x \<Rightarrow> ok x (snd (p s)))"
    for p ok h and s :: pstate
    by (simp add: p_try_def split: prod.split sum.split)
  have "p_try p' ok' h' s = p_try p ok h s" if nf: "fst (p_try p ok h s) \<noteq> Inl PFuel" for s
  proof -
    have "fst (p s) \<noteq> Inl PFuel" using nf fuel by (auto simp: run)
    then have "p' s = p s" using p by (simp add: extends_def)
    then show ?thesis using nf ok h by (auto simp: run extends_def split: sum.splits)
  qed
  then show ?thesis by (simp add: extends_def)
qed

lemma extends_repeat: "(\<And>x. extends (step x) (step' x)) \<Longrightarrow> extends (p_repeat k step x) (p_repeat k step' x)"
proof (induction k arbitrary: x)
  case 0 show ?case by (simp add: extends_def)
next
  case (Suc k)
  have "p_repeat (Suc k) step' x s = p_repeat (Suc k) step x s"
    if nf: "fst (p_repeat (Suc k) step x s) \<noteq> Inl PFuel" for s
  proof -
    have "fst (step x s) \<noteq> Inl PFuel" using nf by (auto split: prod.splits)
    then have "step' x s = step x s" using Suc.prems[of x] by (simp add: extends_def)
    then show ?thesis using nf Suc.IH[OF Suc.prems]
      by (auto simp: extends_def split: prod.splits sum.splits)
  qed
  then show ?case by (simp add: extends_def del: p_repeat.simps)
qed

lemma extends_loop: "(\<And>x. extends (step x) (step' x)) \<Longrightarrow> extends (p_loop step x) (p_loop step' x)"
  using extends_repeat[of step step'] by (simp add: extends_def p_loop_def del: p_repeat.simps)

lemma extends_bracket:
  assumes "extends p p'" and "\<And>s. b s = (fst (p (enter s)), leave s (snd (p (enter s))))"
    and "\<And>s. b' s = (fst (p' (enter s)), leave s (snd (p' (enter s))))"
  shows "extends b b'"
  using assms by (simp add: extends_def)

lemma extends_with_depth: "extends p p' \<Longrightarrow> extends (with_depth p) (with_depth p')"
  by (auto simp: extends_def with_depth_def Let_def split: prod.splits if_splits)

lemma extends_with_region: "extends p p' \<Longrightarrow> extends (with_region p) (with_region p')"
  by (auto simp: extends_def with_region_def split: prod.splits)

lemma extends_with_boundary: "extends p p' \<Longrightarrow> extends (with_boundary b p) (with_boundary b p')"
  by (auto simp: extends_def with_boundary_def split: prod.splits)

lemma extends_with_block: "extends p p' \<Longrightarrow> extends (with_block owner p) (with_block owner p')"
  by (auto simp: extends_def with_block_def split: prod.splits)

lemmas extends_rules = extends_refl extends_bind extends_if extends_get extends_loop extends_HOL_if
  extends_let extends_prod extends_option extends_with_depth extends_with_region extends_with_boundary
  extends_with_block

section \<open>Types\<close>

lemma comma_items_extends: "extends item item' \<Longrightarrow> extends (comma_items item) (comma_items item')"
  unfolding comma_items_def by (rule extends_rules | assumption)+

locale type_extension =
  fixes ty ty' :: "type_expr parser"
  assumes ty_extends: "extends ty ty'"
begin

lemma type_argument_extends: "extends (type_argument ty) (type_argument ty')"
  unfolding type_argument_def by (rule extends_rules ty_extends)+

lemma type_argument_list_extends: "extends (type_argument_list ty) (type_argument_list ty')"
  unfolding type_argument_list_def by (rule extends_rules comma_items_extends type_argument_extends)+

lemma generic_argument_list_extends: "extends (generic_argument_list ty) (generic_argument_list ty')"
  unfolding generic_argument_list_def by (rule extends_rules comma_items_extends ty_extends)+

lemma qualified_type_extends: "extends (qualified_type ty name) (qualified_type ty' name)"
  unfolding qualified_type_def by (rule extends_rules generic_argument_list_extends)+

lemma pointer_like_extends: "extends (pointer_like ty build name) (pointer_like ty' build name)"
  unfolding pointer_like_def by (rule extends_rules ty_extends)+

lemma function_type_parameters_extends: "extends (function_type_parameters ty) (function_type_parameters ty')"
  unfolding function_type_parameters_def by (rule extends_rules ty_extends)+

lemma function_type_expression_extends: "extends (function_type_expression ty keyword) (function_type_expression ty' keyword)"
  unfolding function_type_expression_def by (rule extends_rules ty_extends function_type_parameters_extends)+

lemma named_type_extends: "extends (named_type ty name) (named_type ty' name)"
  unfolding named_type_def by (rule extends_rules type_argument_list_extends generic_argument_list_extends pointer_like_extends function_type_expression_extends)+

lemma primary_type_expression_extends: "extends (primary_type_expression ty) (primary_type_expression ty')"
  unfolding primary_type_expression_def by (rule extends_rules ty_extends qualified_type_extends named_type_extends)+

lemma union_member_extends: "extends (union_member ty) (union_member ty')"
  by (rule extends_bracket[OF primary_type_expression_extends, where
        enter = "\<lambda>s. s\<lparr>ps_union_member_depth := ps_union_member_depth s + 1\<rparr>" and
        leave = "\<lambda>s s'. s'\<lparr>ps_union_member_depth := ps_union_member_depth s' - 1\<rparr>"])
    (simp_all add: union_member_def split: prod.split)

lemma type_expression_body_extends: "extends (type_expression_body ty) (type_expression_body ty')"
  unfolding type_expression_body_def by (rule extends_rules primary_type_expression_extends union_member_extends)+

lemma alias_target_extends: "extends (alias_target ty) (alias_target ty')"
  unfolding alias_target_def by (rule extends_rules primary_type_expression_extends)+

lemma object_member_declaration_extends: "extends (object_member_declaration ty) (object_member_declaration ty')"
  unfolding object_member_declaration_def by (rule extends_rules ty_extends)+

lemma object_member_body_extends: "extends (object_member_body ty keyword allow_empty m) (object_member_body ty' keyword allow_empty m)"
  unfolding object_member_body_def by (rule extends_rules object_member_declaration_extends)+

lemma struct_definition_extends: "extends (struct_definition ty) (struct_definition ty')"
  unfolding struct_definition_def by (rule extends_rules object_member_body_extends)+

lemma structural_union_definition_extends: "extends (structural_union_definition ty) (structural_union_definition ty')"
  unfolding structural_union_definition_def by (rule extends_rules primary_type_expression_extends)+

lemma adt_variant_body_extends: "extends (adt_variant_body ty) (adt_variant_body ty')"
  unfolding adt_variant_body_def by (rule extends_rules object_member_body_extends)+

lemma adt_definition_extends: "extends (adt_definition ty) (adt_definition ty')"
  unfolding adt_definition_def by (rule extends_rules adt_variant_body_extends)+

lemma type_definition_extends: "extends (type_definition ty) (type_definition ty')"
  unfolding type_definition_def by (rule extends_rules struct_definition_extends adt_definition_extends structural_union_definition_extends alias_target_extends)+

end

section \<open>Expressions\<close>

lemma binary_level_extends: "extends operand operand' \<Longrightarrow> extends (binary_level guard operand) (binary_level guard operand')"
  unfolding binary_level_def by (rule extends_rules | assumption)+

locale grammar_extension = type_extension "g_type g" "g_type g'" for g g' :: grammar +
  assumes expression_extends: "extends (g_expression g) (g_expression g')"
    and unary_extends: "extends (g_unary g) (g_unary g')"
    and address_extends: "extends (g_address g) (g_address g')"
    and block_extends: "extends (g_block g owner stops) (g_block g' owner stops)"
begin

lemmas call_extends = ty_extends expression_extends unary_extends address_extends block_extends

lemma multiplicative_expression_extends: "extends (multiplicative_expression g) (multiplicative_expression g')"
  unfolding multiplicative_expression_def by (rule extends_rules binary_level_extends call_extends)+

lemma additive_expression_extends: "extends (additive_expression g) (additive_expression g')"
  unfolding additive_expression_def by (rule extends_rules binary_level_extends call_extends multiplicative_expression_extends)+

lemma shift_expression_extends: "extends (shift_expression g) (shift_expression g')"
  unfolding shift_expression_def by (rule extends_rules binary_level_extends call_extends additive_expression_extends)+

lemma relational_expression_extends: "extends (relational_expression g) (relational_expression g')"
  unfolding relational_expression_def by (rule extends_rules binary_level_extends call_extends shift_expression_extends)+

lemma type_test_expression_extends: "extends (type_test_expression g) (type_test_expression g')"
  unfolding type_test_expression_def by (rule extends_rules binary_level_extends call_extends relational_expression_extends)+

lemma equality_expression_extends: "extends (equality_expression g) (equality_expression g')"
  unfolding equality_expression_def by (rule extends_rules binary_level_extends call_extends type_test_expression_extends)+

lemma bitwise_and_expression_extends: "extends (bitwise_and_expression g) (bitwise_and_expression g')"
  unfolding bitwise_and_expression_def by (rule extends_rules binary_level_extends call_extends equality_expression_extends)+

lemma bitwise_xor_expression_extends: "extends (bitwise_xor_expression g) (bitwise_xor_expression g')"
  unfolding bitwise_xor_expression_def by (rule extends_rules binary_level_extends call_extends bitwise_and_expression_extends)+

lemma bitwise_or_expression_extends: "extends (bitwise_or_expression g) (bitwise_or_expression g')"
  unfolding bitwise_or_expression_def by (rule extends_rules binary_level_extends call_extends bitwise_xor_expression_extends)+

lemma and_expression_extends: "extends (and_expression g) (and_expression g')"
  unfolding and_expression_def by (rule extends_rules binary_level_extends call_extends bitwise_or_expression_extends)+

lemma or_expression_extends: "extends (or_expression g) (or_expression g')"
  unfolding or_expression_def by (rule extends_rules binary_level_extends call_extends and_expression_extends)+

lemma call_argument_extends: "extends (call_argument g) (call_argument g')"
  unfolding call_argument_def by (rule extends_rules call_extends)+

lemma call_arguments_extends: "extends (call_arguments g callee targs) (call_arguments g' callee targs)"
  unfolding call_arguments_def by (rule extends_rules call_argument_extends)+

lemma postfix_step_extends: "extends (postfix_step g e) (postfix_step g' e)"
  unfolding postfix_step_def by (rule extends_rules call_extends call_arguments_extends type_argument_list_extends)+

lemma postfix_extends: "extends (postfix g e) (postfix g' e)"
  unfolding postfix_def by (rule extends_rules postfix_step_extends)+

lemma place_extends: "extends (place g) (place g')"
  unfolding place_def by (rule extends_rules call_extends)+

lemma address_operand_body_extends: "extends (address_operand_body g) (address_operand_body g')"
  unfolding address_operand_body_def by (rule extends_rules call_extends place_extends)+

lemma parse_parameter_extends: "extends (parse_parameter g) (parse_parameter g')"
  unfolding parse_parameter_def by (rule extends_rules call_extends)+

lemma signature_extends: "extends (signature g) (signature g')"
  unfolding signature_def by (rule extends_rules call_extends parse_parameter_extends)+

lemma body_extends: "extends (body g owner) (body g' owner)"
proof (rule extends_bracket)
  show "extends (p_bind (g_block g owner [T_End]) (\<lambda>statements. p_bind advance (\<lambda>e. p_return (statements, e))))
    (p_bind (g_block g' owner [T_End]) (\<lambda>statements. p_bind advance (\<lambda>e. p_return (statements, e))))"
    by (rule extends_rules call_extends)+
qed (simp_all add: body_def Let_def case_prod_beta)

lemma function_rest_extends: "extends (function_rest g m owner) (function_rest g' m owner)"
  unfolding function_rest_def by (rule extends_rules signature_extends body_extends)+

lemma anonymous_function_literal_extends: "extends (anonymous_function_literal g) (anonymous_function_literal g')"
  unfolding anonymous_function_literal_def by (rule extends_rules function_rest_extends)+

lemma match_pattern_body_extends: "extends (match_pattern_body g) (match_pattern_body g')"
  unfolding match_pattern_body_def by (rule extends_rules type_argument_list_extends primary_type_expression_extends)+

lemma match_operand_extends: "extends (match_operand g b) (match_operand g' b)"
  unfolding match_operand_def by (rule extends_rules or_expression_extends)+

lemma match_expression_extends: "extends (match_expression g) (match_expression g')"
  unfolding match_expression_def by (rule extends_rules match_operand_extends match_pattern_body_extends)+

lemma interpolation_template_extends: "extends (interpolation_template g) (interpolation_template g')"
  unfolding interpolation_template_def by (rule extends_rules call_extends)+

lemma list_literal_extends: "extends (list_literal g) (list_literal g')"
  unfolding list_literal_def by (rule extends_rules call_extends)+

lemma grouped_expression_extends: "extends (grouped_expression g) (grouped_expression g')"
  unfolding grouped_expression_def by (rule extends_rules call_extends)+

lemma primary_start_extends: "extends (primary_start g) (primary_start g')"
  unfolding primary_start_switch
  by (rule extends_rules anonymous_function_literal_extends interpolation_template_extends match_expression_extends
      grouped_expression_extends list_literal_extends)+

lemma primary_expression_extends: "extends (primary_expression g) (primary_expression g')"
  unfolding primary_expression_def by (rule extends_rules primary_start_extends postfix_extends)+

lemma unary_expression_body_extends: "extends (unary_expression_body g) (unary_expression_body g')"
  unfolding unary_expression_body_def prefix_operator_def
  by (rule extends_rules call_extends primary_expression_extends)+

lemma expression_body_extends: "extends (expression_body g) (expression_body g')"
  unfolding expression_body_def by (rule extends_rules or_expression_extends)+

lemma postfix_statement_extends: "extends (postfix_statement g start) (postfix_statement g' start)"
  unfolding postfix_statement_def by (rule extends_rules call_extends postfix_extends)+

lemma return_statement_extends: "extends (return_statement g) (return_statement g')"
  unfolding return_statement_def by (rule extends_rules call_extends)+

lemma condition_extends: "extends (condition g keyword) (condition g' keyword)"
  unfolding condition_def by (rule extends_rules call_extends)+

lemma let_declaration_extends: "extends (let_declaration g keyword) (let_declaration g' keyword)"
  unfolding let_declaration_def by (rule extends_rules call_extends)+

lemma deprecated_declaration_extends: "extends (deprecated_declaration g name) (deprecated_declaration g' name)"
  unfolding deprecated_declaration_def by (rule extends_rules call_extends)+

lemma if_statement_extends: "extends (if_statement g) (if_statement g')"
  unfolding if_statement_def by (rule extends_rules call_extends condition_extends)+

lemma unsafe_statement_extends: "extends (unsafe_statement g) (unsafe_statement g')"
  unfolding unsafe_statement_def by (rule extends_rules call_extends)+

lemma while_statement_extends: "extends (while_statement g) (while_statement g')"
  unfolding while_statement_def by (rule extends_rules call_extends condition_extends)+

lemma for_binders_extends: "extends (for_binders g) (for_binders g')"
  unfolding for_binders_def by (rule extends_rules call_extends)+

lemma for_statement_extends: "extends (for_statement g) (for_statement g')"
  unfolding for_statement_def by (rule extends_rules call_extends for_binders_extends)+

lemma identifier_statement_extends: "extends (identifier_statement g) (identifier_statement g')"
  unfolding identifier_statement_def by (rule extends_rules deprecated_declaration_extends postfix_statement_extends)+

lemma paren_statement_extends: "extends (paren_statement g) (paren_statement g')"
  unfolding paren_statement_def
  by (rule extends_rules call_extends extends_try | simp add: p_fail_def)+

lemma statement_body_extends: "extends (statement_body g) (statement_body g')"
  unfolding statement_body_switch keyword_statement_def
  by (rule extends_rules call_extends paren_statement_extends return_statement_extends if_statement_extends
      while_statement_extends for_statement_extends unsafe_statement_extends postfix_statement_extends
      let_declaration_extends identifier_statement_extends)+

lemma block_step_extends: "extends (block_step g owner stops statements) (block_step g' owner stops statements)"
  unfolding block_step_def
  by (rule extends_rules statement_body_extends extends_try | simp add: p_fail_def block_recover_def)+

lemma block_body_extends: "extends (block_body g owner stops) (block_body g' owner stops)"
  unfolding block_body_def by (rule extends_rules block_step_extends)+

lemma type_declaration_extends: "extends (type_declaration g exported) (type_declaration g' exported)"
  unfolding type_declaration_def by (rule extends_rules type_definition_extends)+

lemma function_declaration_extends: "extends (function_declaration g exported) (function_declaration g' exported)"
  unfolding function_declaration_def by (rule extends_rules function_rest_extends)+

lemma receiver_type_extends: "extends (receiver_type g) (receiver_type g')"
  by (rule extends_bracket[OF ty_extends, where enter = "\<lambda>s. s\<lparr>ps_method_receiver := True\<rparr>" and
        leave = "\<lambda>s s'. s'\<lparr>ps_method_receiver := False\<rparr>"])
    (simp_all add: receiver_type_def split: prod.split)

lemma method_rest_extends: "extends (method_rest g keyword mutating exported t name ps) (method_rest g' keyword mutating exported t name ps)"
  unfolding method_rest_def by (rule extends_rules function_rest_extends)+

lemma extends_qualified:
  "(\<And>a b. extends (f a b) (f' a b)) \<Longrightarrow> extends p p' \<Longrightarrow>
   extends (case t of QualifiedTypeExpression a b \<Rightarrow> f a b | _ \<Rightarrow> p)
     (case t of QualifiedTypeExpression a b \<Rightarrow> f' a b | _ \<Rightarrow> p')"
  by (cases t) simp_all

lemma method_declaration_extends: "extends (method_declaration g exported) (method_declaration g' exported)"
  unfolding method_declaration_def by (rule extends_rules extends_qualified receiver_type_extends method_rest_extends)+

lemma top_level_item_extends: "extends (top_level_item g) (top_level_item g')"
  unfolding top_level_item_def by (rule extends_rules type_declaration_extends function_declaration_extends method_declaration_extends statement_body_extends)+

lemma extern_members_extends: "extends (extern_members g) (extern_members g')"
  unfolding extern_members_def by (rule extends_rules call_extends)+

lemma extern_type_extends: "extends (extern_type g) (extern_type g')"
  unfolding extern_type_def by (rule extends_rules extern_members_extends alias_target_extends)+

lemma extern_parameters_extends: "extends (extern_parameters g) (extern_parameters g')"
  unfolding extern_parameters_def by (rule extends_rules call_extends)+

lemma extern_function_extends: "extends (extern_function g) (extern_function g')"
  unfolding extern_function_def by (rule extends_rules call_extends extern_parameters_extends)+

lemma extern_constant_extends: "extends (extern_constant g) (extern_constant g')"
  unfolding extern_constant_def by (rule extends_rules call_extends)+

lemma extern_global_extends: "extends (extern_global g) (extern_global g')"
  unfolding extern_global_def by (rule extends_rules call_extends)+

lemma parse_extern_declaration_extends: "extends (parse_extern_declaration g) (parse_extern_declaration g')"
  unfolding parse_extern_declaration_def by (rule extends_rules extern_type_extends extern_function_extends extern_constant_extends extern_global_extends)+

lemma parse_extern_block_extends: "extends (parse_extern_block g) (parse_extern_block g')"
  unfolding parse_extern_block_def by (rule extends_rules parse_extern_declaration_extends)+

lemma leading_externs_extends: "extends (leading_externs g) (leading_externs g')"
  unfolding leading_externs_def
  by (rule extends_rules parse_extern_block_extends extends_try | simp add: recover_bind_fuel)+

lemma item_step_extends: "extends (item_step g st) (item_step g' st)"
  unfolding item_step_def
  by (rule extends_rules top_level_item_extends extends_try | simp add: recover_bind_fuel item_recover_bind_fuel)+

lemma parse_program_extends: "extends (parse_program g) (parse_program g')"
  unfolding parse_program_def by (rule extends_rules leading_externs_extends item_step_extends)+

end

section \<open>Levels\<close>

lemma type_expression_extends: "extends (type_expression n) (type_expression (Suc n))"
proof (induction n)
  case 0 show ?case by (simp add: extends_def)
next
  case (Suc n)
  have step: "type_expression (Suc n) = type_expression_body (type_expression n)" for n
    by (rule ext) simp
  show ?case
    using type_extension.type_expression_body_extends[OF type_extension.intro[OF Suc.IH]]
    by (simp only: step[symmetric])
qed

lemma the_grammar_extension: "grammar_extension (the_grammar n) (the_grammar (Suc n))"
proof (induction n)
  case 0
  show ?case
    by unfold_locales (simp_all add: extends_def)
next
  case (Suc n)
  note IH = Suc.IH
  show ?case
    by unfold_locales
      (simp_all only: the_grammar_sel type_expression_extends the_grammar_step
        grammar_extension.expression_body_extends[OF IH] grammar_extension.unary_expression_body_extends[OF IH]
        grammar_extension.address_operand_body_extends[OF IH] grammar_extension.block_body_extends[OF IH])
qed

interpretation levels: grammar_extension "the_grammar n" "the_grammar (Suc n)" for n
  by (rule the_grammar_extension)

lemma extends_levels: "extends (parse_program (the_grammar n)) (parse_program (the_grammar (n + k)))"
proof (induction k)
  case (Suc k)
  then show ?case using levels.parse_program_extends[of "n + k"] by (simp add: extends_def)
qed (simp add: extends_refl)

text \<open>
  The levels of fuel are only a bound: every number of levels from four times the tokens
  plus two on gives the same program and the same diagnostics.
\<close>

theorem parse_fuel_irrelevant:
  assumes "4 * length tokens + 2 \<le> n"
  shows "parse_levels n tokens = parse tokens"
proof -
  define m where "m = 4 * length tokens + 2"
  have same: "parse_levels (m + k) tokens = parse_levels m tokens" for k
  proof -
    obtain program s where run: "parse_program (the_grammar m) (initial_state tokens) = (Inr program, s)"
      using parse_levels_some[of tokens m] by (force simp: m_def)
    then have "parse_program (the_grammar (m + k)) (initial_state tokens) = (Inr program, s)"
      using extends_levels[of m k] by (simp add: extends_def)
    then show ?thesis using run by (simp add: parse_levels_def)
  qed
  obtain k where k: "n = m + k" using assms unfolding m_def by (metis le_Suc_ex)
  have "m + 6 = 4 * length tokens + 8" by (simp add: m_def)
  with same[of k] same[of 6] show ?thesis by (simp only: k parse_def)
qed

lemma parse_fuel_irrelevant_witness: "parse_levels 100 [zero_token, zero_token] = parse [zero_token, zero_token]"
  using parse_fuel_irrelevant[of "[zero_token, zero_token]" 100] by simp

end
