(* ===== verification/ParserProps.thy ===== *)
theory ParserProps
  imports ParserFuel
begin

text \<open>
  Properties of the parser beyond its termination: what the recursive entries give back, where
  recovery stops, how deep the syntax may nest, and two inputs on which the source departs from
  the language reference.
\<close>

text \<open>A token of a kind and spelling, for concrete inputs.\<close>

definition sample :: "token_kind \<Rightarrow> string \<Rightarrow> token" where
  "sample kind lexeme = \<lparr>tk_kind = kind, tk_lexeme = lexeme, tk_span = zero_span, tk_line = 1, tk_column = 1\<rparr>"

lemma sample_kind [simp]: "tk_kind (sample k l) = k"
  by (simp add: sample_def)

section \<open>Frames\<close>

lemma expression_frame: "same_frame s (snd (expression n s))"
  by (rule meets_frame[OF knot.expression_call[of n, simplified]]) simp

lemma type_expression_frame: "same_frame s (snd (type_expression n s))"
  by (rule meets_frame[OF type_expression_meets]) simp

lemma block_frame: "same_frame s (snd (block n owner stops s))"
  by (rule meets_frame[OF knot.block_call[of n, simplified]]) simp

definition operator_region :: "pstate \<Rightarrow> bool \<times> token_kind \<times> token" where
  "operator_region s = (ps_operator_recorded s, ps_operator_kind s, ps_operator_token s)"

lemma operator_region_depth [simp]: "operator_region (s\<lparr>ps_syntax_depth := d\<rparr>) = operator_region s"
  by (simp add: operator_region_def)

lemma with_depth_region:
  "(\<And>s. operator_region (snd (p s)) = operator_region s) \<Longrightarrow>
   operator_region (snd (with_depth p s)) = operator_region s"
  by (simp add: with_depth_def Let_def case_prod_beta fail_current_def)

lemma with_region_region: "operator_region (snd (with_region p s)) = operator_region s"
  by (simp add: with_region_def Let_def case_prod_beta operator_region_def)

lemma expression_region: "operator_region (snd (expression n s)) = operator_region s"
  by (cases n) (simp_all add: expression_body_def with_depth_region with_region_region)

text \<open>
  C9. Whatever it parses and however it fails, an expression hands back the frame it was called
  in: the tokens, the nesting depth, the match boundary, the block stack, the body depth and the
  operator kind of the enclosing region are what they were, no recorded diagnostic is lost, and
  the cursor has not moved back.
\<close>

theorem expression_restores:
  "let s' = snd (expression n s) in
     ps_tokens s' = ps_tokens s \<and> ps_syntax_depth s' = ps_syntax_depth s \<and>
     ps_match_boundary s' = ps_match_boundary s \<and> ps_block_stack s' = ps_block_stack s \<and>
     ps_body_depth s' = ps_body_depth s \<and> ps_union_member_depth s' = ps_union_member_depth s \<and>
     operator_region s' = operator_region s \<and>
     (\<exists>ds. ps_diagnostics s' = ps_diagnostics s @ ds) \<and> ps_current s \<le> ps_current s'"
  using expression_frame[of s n] expression_region[of n s] by (simp add: same_frame_def Let_def)

section \<open>Loops end where their step breaks\<close>

lemma p_repeat_break:
  assumes "p_repeat k step x s = (Inr y, s')"
    and "\<And>x s y s'. step x s = (Inr (Inr y), s') \<Longrightarrow> Q s'"
  shows "Q s'"
  using assms(1)
proof (induction k arbitrary: x s)
  case (Suc k)
  then show ?case using assms(2) by (auto split: prod.splits sum.splits)
qed simp

lemma p_loop_break:
  assumes "p_loop step x s = (Inr y, s')"
    and "\<And>x s y s'. step x s = (Inr (Inr y), s') \<Longrightarrow> Q s'"
  shows "Q s'"
  using assms(1) unfolding p_loop_def by (rule p_repeat_break) (rule assms(2))

lemma block_step_break:
  assumes "block_step g owner stops x s = (Inr (Inr y), s')"
  shows "at_block_stop stops s'"
proof -
  have never: "fst (block_recover owner stops start x e s1 :: (stmt list + stmt list) result) \<noteq> Inr (Inr y)" for start e s1
    by (cases e) (simp_all add: block_recover_run, simp_all add: block_recover_def p_fail_def Let_def)
  show ?thesis
    using assms never
    by (auto simp: block_step_def p_if_def p_break_def p_return_def p_get_def p_fail_def p_try_def p_continue_def
        split: if_splits prod.splits sum.splits) (metis fst_conv)
qed

text \<open>
  C11. A block, with all the statements in it, the diagnostics it records and the recoveries it
  makes, leaves the block stack, the nesting depth and the match boundary as it found them, and
  succeeds only at one of its own delimiters.
\<close>

theorem block_restores:
  "let (r, s') = block n owner stops s in
     ps_block_stack s' = ps_block_stack s \<and> ps_syntax_depth s' = ps_syntax_depth s \<and>
     ps_match_boundary s' = ps_match_boundary s \<and> ps_body_depth s' = ps_body_depth s \<and>
     (\<exists>ds. ps_diagnostics s' = ps_diagnostics s @ ds) \<and>
     (\<forall>statements. r = Inr statements \<longrightarrow> at_block_stop stops s')"
proof -
  have "at_block_stop stops (snd (block n owner stops s))" if "fst (block n owner stops s) = Inr statements" for statements
  proof (cases n)
    case 0 with that show ?thesis by simp
  next
    case (Suc m)
    from that obtain s1 s2 where
      run: "p_loop (block_step (the_grammar m) owner stops) [] s1 = (Inr statements, s2)" and
      end_state: "snd (block n owner stops s) =
        s2\<lparr>ps_block_stack := butlast (ps_block_stack s2), ps_syntax_depth := ps_syntax_depth s2 - 1\<rparr>"
      unfolding Suc the_grammar_step block_body_def
      by (auto simp: with_depth_def with_block_def fail_current_def Let_def split: prod.splits if_splits)
    have "at_block_stop stops s2" by (rule p_loop_break[OF run]) (rule block_step_break)
    moreover have "peek (snd (block n owner stops s)) = peek s2" by (simp add: end_state peek_def)
    ultimately show ?thesis by (simp add: at_block_stop_def check_def)
  qed
  then show ?thesis using block_frame[of s n owner stops]
    by (cases "block n owner stops s") (auto simp: same_frame_def)
qed

lemma block_restores_witness:
  "at_block_stop [T_End] (snd (block 1 ''if'' [T_End] (initial_state [sample T_End ''end'', sample T_EOF []])))"
proof -
  have "fst (block 1 ''if'' [T_End] (initial_state [sample T_End ''end'', sample T_EOF []])) = Inr []"
    by code_simp
  then show ?thesis
    using block_restores[of 1 "''if''" "[T_End]" "initial_state [sample T_End ''end'', sample T_EOF []]"]
    by (simp add: case_prod_beta del: block.simps)
qed

section \<open>Recovery\<close>

lemma skip_to_statement_stops:
  "check T_EOF (snd (skip_to_statement s)) \<or> at_statement_start (snd (skip_to_statement s))"
proof -
  have "skip_to_statement s = (Inr (), snd (skip_to_statement s))"
    using skip_to_statement_ok by (simp add: prod_eq_iff)
  then show ?thesis
    unfolding skip_to_statement_def
    by (rule p_loop_break)
      (auto simp: p_if_def p_bind_cases advance_result p_continue_def p_break_def p_return_def split: if_splits)
qed

text \<open>
  C17. Panic-mode recovery always succeeds and always stops where parsing can resume: at the end
  of the input, or at a token that opens a statement. It passes the token the failed parse began
  at unless that is the end of the input.
\<close>

theorem synchronize_resumes:
  "let (r, s') = synchronize start s in
     r = Inr () \<and> (check T_EOF s' \<or> at_statement_start s') \<and>
     ps_current s \<le> ps_current s' \<and>
     (start = ps_current s \<longrightarrow> check T_EOF s \<or> ps_current s < ps_current s')"
proof -
  have fst: "fst (synchronize start s) = Inr ()" by (rule synchronize_ok)
  have stop: "check T_EOF (snd (synchronize start s)) \<or> at_statement_start (snd (synchronize start s))"
    using skip_to_statement_stops
    by (simp add: synchronize_def p_bind_cases p_if_def advance_result p_return_def)
  have mono: "ps_current s \<le> ps_current (snd (synchronize start s))"
    by (rule same_frame_current[OF meets_frame[OF synchronize_meets]]) simp
  have "start = ps_current s \<longrightarrow> check T_EOF s \<or> ps_current s < ps_current (snd (synchronize start s))"
    using synchronize_passes[OF same_frame_refl, of s start] by blast
  with fst stop mono show ?thesis by (simp add: case_prod_beta)
qed

lemma synchronize_resumes_witness:
  "0 < ps_current (snd (synchronize 0 (initial_state [sample T_Comma '','', sample T_EOF []])))"
proof -
  have "\<not> check T_EOF (initial_state [sample T_Comma '','', sample T_EOF []])"
    and "ps_current (initial_state [sample T_Comma '','', sample T_EOF []]) = 0"
    by code_simp+
  then show ?thesis
    using synchronize_resumes[of 0 "initial_state [sample T_Comma '','', sample T_EOF []]"]
    by (simp add: case_prod_beta)
qed

section \<open>Nesting\<close>

lemma refused_at_limit:
  assumes "max_syntax_depth \<le> ps_syntax_depth s"
  shows "expression (Suc n) s = (Inl (error_at (peek s) ParserMaxNesting), s)"
    and "type_expression (Suc n) s = (Inl (error_at (peek s) ParserMaxNesting), s)"
    and "block (Suc n) owner stops s = (Inl (error_at (peek s) ParserMaxNesting), s)"
  using assms
  by (simp_all add: expression_body_def type_expression_body_def block_body_def with_depth_def
      fail_current_def peek_def Let_def)

text \<open>
  At the nesting limit of 128 every recursive entry refuses before it reads a token: an
  expression, a type expression and a block each report ParserMaxNesting at the current token
  and leave the parser where it was.
\<close>

theorem nesting_refused:
  assumes "max_syntax_depth \<le> ps_syntax_depth s"
  shows "expression (Suc n) s = (Inl (error_at (peek s) ParserMaxNesting), s) \<and>
    type_expression (Suc n) s = (Inl (error_at (peek s) ParserMaxNesting), s) \<and>
    block (Suc n) owner stops s = (Inl (error_at (peek s) ParserMaxNesting), s)"
  using refused_at_limit[OF assms] by blast

lemma nesting_refused_witness:
  "expression 1 ((initial_state [])\<lparr>ps_syntax_depth := 128\<rparr>) =
     (Inl (error_at synthetic_eof ParserMaxNesting), (initial_state [])\<lparr>ps_syntax_depth := 128\<rparr>)"
  using nesting_refused[of "(initial_state [])\<lparr>ps_syntax_depth := 128\<rparr>" 0]
  by (simp add: max_syntax_depth_def peek_def initial_state_def del: expression.simps)

text \<open>A type in \<open>k\<close> pairs of parentheses, and its tree.\<close>

definition nested_type :: "nat \<Rightarrow> token list" where
  "nested_type k = replicate k (sample T_LeftParen ''('') @ sample T_Identifier ''Int32'' #
     replicate k (sample T_RightParen '')'') @ [sample T_EOF []]"

fun nested_tree :: "nat \<Rightarrow> type_expr" where
  "nested_tree 0 = NamedTypeExpression (sample T_Identifier ''Int32'')"
| "nested_tree (Suc k) = GroupedTypeExpression (sample T_LeftParen ''('') (nested_tree k)"

lemma peek_drop: "drop (ps_current s) (ps_tokens s) = t # ts \<Longrightarrow> peek s = t \<and> in_tokens s"
  by (metis Cons_nth_drop_Suc drop_all in_tokens_def linorder_not_less list.distinct(1) list.inject peek_def)

lemma advance_drop:
  assumes "drop (ps_current s) (ps_tokens s) = t # ts"
    and "tk_kind t \<noteq> T_LeftBrace" and "tk_kind t \<noteq> T_RightBrace"
  shows "advance s = (Inr t, s\<lparr>ps_current := Suc (ps_current s)\<rparr>)"
  using peek_drop[OF assms(1)] assms(2,3) by (simp add: advance_def in_tokens_def Let_def)

lemma drop_nested: "drop (2 * k + 1) (replicate k a @ b # replicate k c @ zs) = zs"
  by (simp add: mult_2)

lemma with_depth_below:
  "ps_syntax_depth s < max_syntax_depth \<Longrightarrow>
   with_depth p s = (let q = p (s\<lparr>ps_syntax_depth := Suc (ps_syntax_depth s)\<rparr>)
     in (fst q, (snd q)\<lparr>ps_syntax_depth := ps_syntax_depth (snd q) - 1\<rparr>))"
  by (simp add: with_depth_def Let_def case_prod_beta)

lemma nested_type_parses:
  assumes "drop (ps_current s) (ps_tokens s) =
      replicate k (sample T_LeftParen ''('') @ sample T_Identifier ''Int32'' #
      replicate k (sample T_RightParen '')'') @ t # rest"
    and "tk_kind t \<notin> {T_Dot, T_Less, T_Pipe}" and "\<not> ps_pending_greater s"
    and "ps_syntax_depth s + k < max_syntax_depth" and "k < n"
  shows "type_expression n s = (Inr (nested_tree k), s\<lparr>ps_current := ps_current s + 2 * k + 1\<rparr>)"
  using assms
proof (induction k arbitrary: s n t rest)
  case 0
  obtain m where n: "n = Suc m" using "0.prems"(5) by (cases n) auto
  define s1 where "s1 = s\<lparr>ps_syntax_depth := Suc (ps_syntax_depth s)\<rparr>"
  have d1: "drop (ps_current s1) (ps_tokens s1) = sample T_Identifier ''Int32'' # t # rest"
    using "0.prems"(1) by (simp add: s1_def)
  define s2 where "s2 = s1\<lparr>ps_current := Suc (ps_current s1)\<rparr>"
  have adv: "advance s1 = (Inr (sample T_Identifier ''Int32''), s2)"
    using advance_drop[OF d1] by (simp add: sample_def s2_def)
  have p1: "peek s1 = sample T_Identifier ''Int32''" using peek_drop[OF d1] by simp
  have "drop (ps_current s2) (ps_tokens s2) = t # rest"
    using d1 by (simp add: s2_def drop_Suc drop_tl)
  then have p2: "peek s2 = t" using peek_drop by blast
  have pending: "\<not> ps_pending_greater s1" "\<not> ps_pending_greater s2"
    using "0.prems"(3) by (simp_all add: s1_def s2_def)
  have primary: "primary_type_expression (type_expression m) s1 = (Inr (nested_tree 0), s2)"
    using p2 "0.prems"(2)
    by (simp add: primary_type_expression_def p_if_def check_def p1 p_bind_def consume_def adv named_type_def
        p_return_def sample_def)
  show ?case
    using primary p2 "0.prems"(2,4) pending
    by (simp add: n type_expression_body_def with_depth_below s1_def[symmetric] p_bind_def p_if_def check_def
        p_return_def) (simp add: s2_def s1_def)
next
  case (Suc k)
  obtain m where n: "n = Suc m" using Suc.prems(5) by (cases n) auto
  define s1 where "s1 = s\<lparr>ps_syntax_depth := Suc (ps_syntax_depth s)\<rparr>"
  have d1: "drop (ps_current s1) (ps_tokens s1) = sample T_LeftParen ''('' #
      replicate k (sample T_LeftParen ''('') @ sample T_Identifier ''Int32'' #
      replicate k (sample T_RightParen '')'') @ sample T_RightParen '')'' # t # rest"
    using Suc.prems(1) by (simp add: s1_def replicate_app_Cons_same)
  define s2 where "s2 = s1\<lparr>ps_current := Suc (ps_current s1)\<rparr>"
  have adv: "advance s1 = (Inr (sample T_LeftParen ''(''), s2)"
    using advance_drop[OF d1] by (simp add: sample_def s2_def)
  have p1: "peek s1 = sample T_LeftParen ''(''" using peek_drop[OF d1] by simp
  have d2: "drop (ps_current s2) (ps_tokens s2) = replicate k (sample T_LeftParen ''('') @
      sample T_Identifier ''Int32'' # replicate k (sample T_RightParen '')'') @ sample T_RightParen '')'' # t # rest"
    using d1 by (simp add: s2_def drop_Suc drop_tl)
  define s3 where "s3 = s2\<lparr>ps_current := ps_current s2 + 2 * k + 1\<rparr>"
  have inner: "type_expression m s2 = (Inr (nested_tree k), s3)"
    unfolding s3_def
    by (rule Suc.IH[OF d2]) (use Suc.prems n in \<open>simp_all add: sample_def s1_def s2_def\<close>)
  have d3: "drop (ps_current s3) (ps_tokens s3) = sample T_RightParen '')'' # t # rest"
  proof -
    have "drop (ps_current s3) (ps_tokens s3) = drop (2 * k + 1) (drop (ps_current s2) (ps_tokens s2))"
      by (simp add: s3_def add.commute add.left_commute)
    then show ?thesis unfolding d2 by (simp only: drop_nested)
  qed
  define s4 where "s4 = s3\<lparr>ps_current := Suc (ps_current s3)\<rparr>"
  have adv3: "advance s3 = (Inr (sample T_RightParen '')''), s4)"
    using advance_drop[OF d3] by (simp add: sample_def s4_def)
  have p3: "peek s3 = sample T_RightParen '')''" using peek_drop[OF d3] by simp
  have "drop (ps_current s4) (ps_tokens s4) = t # rest"
    using d3 by (simp add: s4_def drop_Suc drop_tl)
  then have p4: "peek s4 = t" using peek_drop by blast
  have pending: "\<not> ps_pending_greater s3" "\<not> ps_pending_greater s4"
    using Suc.prems(3) by (simp_all add: s1_def s2_def s3_def s4_def)
  have primary: "primary_type_expression (type_expression m) s1 = (Inr (nested_tree (Suc k)), s4)"
    by (simp add: primary_type_expression_def p_if_def check_def p1 p3 p_bind_def consume_def adv adv3 inner
        p_return_def sample_def)
  show ?case
    using primary p4 Suc.prems(2,4) pending
    by (simp add: n type_expression_body_def with_depth_below s1_def[symmetric] p_bind_def p_if_def check_def
        p_return_def) (simp add: s4_def s3_def s2_def s1_def)
qed

lemma error_at_sample: "error_at (sample k l) m = error_at (sample k' l') m"
  by (simp add: error_at_def sample_def)

lemma nested_type_refused:
  assumes "drop (ps_current s) (ps_tokens s) =
      replicate k (sample T_LeftParen ''('') @ sample T_Identifier ''Int32'' # rest"
    and "ps_syntax_depth s \<le> max_syntax_depth" and "max_syntax_depth \<le> ps_syntax_depth s + k" and "k < n"
  shows "fst (type_expression n s) = Inl (error_at (sample T_LeftParen ''('') ParserMaxNesting)"
  using assms
proof (induction k arbitrary: s n)
  case 0
  then have "peek s = sample T_Identifier ''Int32''" using peek_drop by simp
  moreover have "fst (type_expression n s) = Inl (error_at (peek s) ParserMaxNesting)"
    using "0.prems" refused_at_limit(2)[of s "n - 1"] by simp
  ultimately show ?case using error_at_sample by metis
next
  case (Suc k)
  obtain m where n: "n = Suc m" using Suc.prems(4) by (cases n) auto
  have d: "drop (ps_current s) (ps_tokens s) = sample T_LeftParen ''('' #
      replicate k (sample T_LeftParen ''('') @ sample T_Identifier ''Int32'' # rest"
    using Suc.prems(1) by simp
  then have peek: "peek s = sample T_LeftParen ''(''" using peek_drop by blast
  show ?case
  proof (cases "ps_syntax_depth s = max_syntax_depth")
    case True
    then show ?thesis using refused_at_limit(2)[of s m] peek by (simp add: n)
  next
    case False
    then have below: "ps_syntax_depth s < max_syntax_depth" using Suc.prems(2) by simp
    define s1 where "s1 = s\<lparr>ps_syntax_depth := Suc (ps_syntax_depth s)\<rparr>"
    have d1: "drop (ps_current s1) (ps_tokens s1) = sample T_LeftParen ''('' #
      replicate k (sample T_LeftParen ''('') @ sample T_Identifier ''Int32'' # rest"
      using d by (simp add: s1_def)
    define s2 where "s2 = s1\<lparr>ps_current := Suc (ps_current s1)\<rparr>"
    have adv: "advance s1 = (Inr (sample T_LeftParen ''(''), s2)"
      using advance_drop[OF d1] by (simp add: sample_def s2_def)
    have p1: "peek s1 = sample T_LeftParen ''(''" using peek_drop[OF d1] by simp
    have "fst (type_expression m s2) = Inl (error_at (sample T_LeftParen ''('') ParserMaxNesting)"
    proof (rule Suc.IH)
      show "drop (ps_current s2) (ps_tokens s2) =
          replicate k (sample T_LeftParen ''('') @ sample T_Identifier ''Int32'' # rest"
        using d1 by (simp add: s2_def drop_Suc drop_tl)
    qed (use Suc.prems below n in \<open>simp_all add: s1_def s2_def\<close>)
    then have "fst (primary_type_expression (type_expression m) s1) =
        Inl (error_at (sample T_LeftParen ''('') ParserMaxNesting)"
      by (simp add: primary_type_expression_def p_if_def check_def p1 p_bind_cases adv)
    then show ?thesis
      by (simp add: n type_expression_body_def with_depth_below[OF below] s1_def[symmetric] p_bind_cases Let_def)
  qed
qed

text \<open>
  C33. Parenthesised types nest to exactly 127 pairs: with fewer than 128 pairs the type is parsed
  into its tree, from 128 pairs on it is refused with ParserMaxNesting.
\<close>

theorem nested_type_limit:
  "fst (type_expression (Suc k) (initial_state (nested_type k))) =
     (if k < 128 then Inr (nested_tree k)
      else Inl (error_at (sample T_LeftParen ''('') ParserMaxNesting))"
proof -
  define s where "s = initial_state (nested_type k)"
  have toks: "drop (ps_current s) (ps_tokens s) = replicate k (sample T_LeftParen ''('') @
      sample T_Identifier ''Int32'' # replicate k (sample T_RightParen '')'') @ sample T_EOF [] # []"
    by (simp add: s_def initial_state_def nested_type_def)
  have rest: "ps_syntax_depth s = 0" "\<not> ps_pending_greater s" by (simp_all add: s_def initial_state_def)
  have "fst (type_expression (Suc k) s) = Inr (nested_tree k)" if "k < 128"
    using nested_type_parses[OF toks, of "Suc k"] that rest
    by (simp add: max_syntax_depth_def del: type_expression.simps)
  moreover have "fst (type_expression (Suc k) s) = Inl (error_at (sample T_LeftParen ''('') ParserMaxNesting)"
    if "\<not> k < 128"
    using nested_type_refused[OF toks, of "Suc k"] that rest
    by (simp add: max_syntax_depth_def del: type_expression.simps)
  ultimately show ?thesis by (simp add: s_def del: type_expression.simps)
qed

section \<open>Departures from the language reference\<close>

text \<open>The two readings of one closing token: \<open>let a: Ptr<Int32>> = 1\<close> on one line.\<close>

definition stray_closer :: "token list" where
  "stray_closer =
     [sample T_Let ''let'', sample T_Identifier ''a'', sample T_Colon '':'', sample T_Identifier ''Ptr'',
      sample T_Less ''<'', sample T_Identifier ''Int32'', sample T_ShiftRight ''>>'', sample T_Equal ''='',
      sample T_Integer ''1'', sample T_EOF []]"

text \<open>
  A closer too many is accepted: one >> closes a type-argument list that is not nested in
  another, its second half stays pending and nothing reports it. The reference admits >> as
  two closers inside nested lists only.
\<close>

theorem stray_closer_accepted:
  "map_option snd (parse stray_closer) = Some []"
  by code_simp

text \<open>\<open>match x | 1 then f(b | c) | else then d end\<close> as an initializer.\<close>

definition arm_argument :: "token list" where
  "arm_argument =
     [sample T_Let ''let'', sample T_Identifier ''a'', sample T_Equal ''='', sample T_Match ''match'',
      sample T_Identifier ''x'', sample T_Pipe ''|'', sample T_Integer ''1'', sample T_Then ''then'',
      sample T_Identifier ''f'', sample T_LeftParen ''('', sample T_Identifier ''b'', sample T_Pipe ''|'',
      sample T_Identifier ''c'', sample T_RightParen '')'', sample T_Pipe ''|'', sample T_Else ''else'',
      sample T_Then ''then'', sample T_Identifier ''d'', sample T_End ''end'', sample T_EOF []]"

text \<open>
  Bitwise or inside a call's parentheses is refused when the call is a match arm: the argument
  list does not suspend the arm's boundary the way a parenthesised expression does, so the call is
  not closed where it should be.
\<close>

theorem arm_argument_refused:
  "case parse arm_argument of
     Some (program, d # ds) \<Rightarrow>
       pr_items program = [] \<and>
       ld_message d = ParserExpectedToken (SQUOTE # '')'' @ SQUOTE # '' after the argument list'')
   | _ \<Rightarrow> False"
  by code_simp

end
