(* ===== verification/ModuleNames.thy ===== *)
theory ModuleNames
  imports Prelude
begin

text \<open>
  The spellings a compilation derives from module paths and declared names, from
  \<open>compiler/types/types.go\<close> and \<open>compiler/types/generics.go\<close>: the encoded module owner every
  generated C name embeds, the include guard, the artifact path, the identifier a display name is
  sanitized to and the key a nominal type is interned under. The lemmas give a reader for encoded
  owners, so that encoding is injective and an owner can be read off the front of a longer name.
\<close>

section \<open>Decimal numerals\<close>

text \<open>\<open>strconv.Itoa\<close> and \<open>strconv.FormatUint(n, 10)\<close> of a non-negative number, and the value a
  numeral denotes.\<close>

definition digit_char :: "nat \<Rightarrow> char" where
  "digit_char d = char_of (48 + d)"

definition is_digit :: "char \<Rightarrow> bool" where
  "is_digit c = byte_between (CHR ''0'') c (CHR ''9'')"

fun decimal :: "nat \<Rightarrow> string" where
  "decimal n = (if n < 10 then [digit_char n] else decimal (n div 10) @ [digit_char (n mod 10)])"

declare decimal.simps [simp del]

definition numeral_value :: "string \<Rightarrow> nat" where
  "numeral_value s = foldl (\<lambda>v c. 10 * v + (byte_val c - 48)) 0 s"

lemma byte_val_digit_char: "d < 10 \<Longrightarrow> byte_val (digit_char d) = 48 + d"
  by (simp add: digit_char_def)

lemma is_digit_digit_char: "d < 10 \<Longrightarrow> is_digit (digit_char d)"
  by (simp add: is_digit_def byte_between_def byte_val_digit_char)

lemma decimal_digits: "c \<in> set (decimal n) \<Longrightarrow> is_digit c"
proof (induction n rule: decimal.induct)
  case (1 n)
  then show ?case
    by (subst (asm) (2) decimal.simps) (auto simp: is_digit_digit_char split: if_splits)
qed

lemma decimal_not_Nil [simp]: "decimal n \<noteq> []"
  by (subst decimal.simps) simp

lemma numeral_value_snoc:
  "numeral_value (s @ [c]) = 10 * numeral_value s + (byte_val c - 48)"
  by (simp add: numeral_value_def)

lemma numeral_value_decimal: "numeral_value (decimal n) = n"
proof (induction n rule: decimal.induct)
  case (1 n)
  show ?case
  proof (cases "n < 10")
    case True
    then show ?thesis
      by (subst decimal.simps) (simp add: numeral_value_def byte_val_digit_char)
  next
    case False
    then show ?thesis
      using 1 by (subst decimal.simps) (simp add: numeral_value_snoc byte_val_digit_char)
  qed
qed

lemma decimal_inject [simp]: "decimal m = decimal n \<longleftrightarrow> m = n"
  by (metis numeral_value_decimal)

section \<open>Module owners\<close>

text \<open>\<open>strings.Split(s, "/")\<close>.\<close>

fun split_slashes :: "string \<Rightarrow> string list" where
  "split_slashes [] = [[]]"
| "split_slashes (c # s) =
     (if c = CHR ''/'' then [] # split_slashes s
      else (case split_slashes s of [] \<Rightarrow> [[c]] | part # parts \<Rightarrow> (c # part) # parts))"

fun join_slashes :: "string list \<Rightarrow> string" where
  "join_slashes [] = []"
| "join_slashes [part] = part"
| "join_slashes (part # parts) = part @ CHR ''/'' # join_slashes parts"

definition IsStdlibModule :: "string \<Rightarrow> bool" where
  "IsStdlibModule canonical_id \<longleftrightarrow> take 4 canonical_id = ''std/''"

definition trim_std :: "string \<Rightarrow> string" where
  "trim_std canonical_id = (if IsStdlibModule canonical_id then drop 4 canonical_id else canonical_id)"

definition encode_component :: "string \<Rightarrow> string" where
  "encode_component part = decimal (length part) @ ''_'' @ part"

definition EncodeModuleOwner :: "string \<Rightarrow> string" where
  "EncodeModuleOwner canonical_id =
     (if canonical_id = [] then []
      else (if IsStdlibModule canonical_id then ''s'' else ''m'')
             @ concat (map encode_component (split_slashes (trim_std canonical_id))))"

definition ModuleHeaderGuard :: "string \<Rightarrow> string" where
  "ModuleHeaderGuard canonical_id = ''HEX_MODULE_'' @ EncodeModuleOwner canonical_id @ ''_H''"

definition ModuleArtifactStem :: "string \<Rightarrow> string" where
  "ModuleArtifactStem canonical_id =
     (if IsStdlibModule canonical_id then ''stdlib/'' @ trim_std canonical_id
      else ''modules/'' @ canonical_id)"

definition canonicalNominalKey :: "string \<Rightarrow> string \<Rightarrow> string" where
  "canonicalNominalKey nm module_id =
     (if module_id = [] then nm else EncodeModuleOwner module_id @ '':'' @ nm)"

section \<open>Sanitized identifiers and nominal C names\<close>

definition identifier_byte :: "char \<Rightarrow> bool" where
  "identifier_byte c \<longleftrightarrow>
     byte_between (CHR ''a'') c (CHR ''z'') \<or> byte_between (CHR ''A'') c (CHR ''Z'')
       \<or> is_digit c \<or> c = CHR ''_''"

definition SanitizeIdentifier :: "string \<Rightarrow> string" where
  "SanitizeIdentifier nm = map (\<lambda>c. if identifier_byte c then c else CHR ''_'') nm"

text \<open>The \<open>cName\<close> that \<open>BeginObject\<close> and \<open>BeginADT\<close> give a declared type: qualified by the owner
  of the environment, unless that is empty.\<close>

definition nominal_c_name :: "string \<Rightarrow> string \<Rightarrow> string" where
  "nominal_c_name owner nm =
     (if owner \<noteq> [] then ''hex_t_'' @ owner @ ''_'' @ SanitizeIdentifier nm
      else ''hex_t_'' @ SanitizeIdentifier nm)"

lemma sanitize_identifier_bytes: "c \<in> set (SanitizeIdentifier nm) \<Longrightarrow> identifier_byte c"
proof -
  have "identifier_byte (CHR ''_'')"
    by (simp add: identifier_byte_def)
  then show "c \<in> set (SanitizeIdentifier nm) \<Longrightarrow> identifier_byte c"
    by (auto simp: SanitizeIdentifier_def split: if_splits)
qed

lemma sanitize_identifier_id: "\<forall>c\<in>set nm. identifier_byte c \<Longrightarrow> SanitizeIdentifier nm = nm"
  by (simp add: SanitizeIdentifier_def map_idI)

lemma length_sanitize [simp]: "length (SanitizeIdentifier nm) = length nm"
  by (simp add: SanitizeIdentifier_def)

section \<open>Reading an encoded owner back\<close>

text \<open>One length-prefixed component from the front of a string: its text and what follows.\<close>

definition read_component :: "string \<Rightarrow> string \<times> string" where
  "read_component s =
     (let n = numeral_value (takeWhile is_digit s); body = drop 1 (dropWhile is_digit s)
      in (take n body, drop n body))"

function read_components :: "string \<Rightarrow> string list \<times> string" where
  "read_components s =
     (if s = [] \<or> \<not> is_digit (hd s) then ([], s)
      else let (part, rest) = read_component s; (parts, tail) = read_components rest
           in (part # parts, tail))"
  by pat_completeness auto
termination
proof (relation "measure length", goal_cases)
  case 1
  then show ?case by simp
next
  case (2 s x part rest)
  then have s: "s \<noteq> []" "is_digit (hd s)"
    and rest: "rest = drop (numeral_value (takeWhile is_digit s)) (drop 1 (dropWhile is_digit s))"
    by (simp_all add: read_component_def Let_def)
  from s have "length (dropWhile is_digit s) < length s"
    by (metis (no_types, lifting) dropWhile.simps(2) le_imp_less_Suc length_Cons length_dropWhile_le
        list.collapse)
  with rest show ?case by simp
qed

declare read_components.simps [simp del]

definition read_owner :: "string \<Rightarrow> string \<times> string" where
  "read_owner s =
     (if s = [] then ([], [])
      else let (parts, tail) = read_components (tl s)
           in ((if hd s = CHR ''s'' then ''std/'' else []) @ join_slashes parts, tail))"

lemma takeWhile_digits_decimal [simp]:
  "takeWhile is_digit (decimal n @ CHR ''_'' # s) = decimal n"
  "dropWhile is_digit (decimal n @ CHR ''_'' # s) = CHR ''_'' # s"
proof -
  have "\<not> is_digit (CHR ''_'')" by (simp add: is_digit_def byte_between_def)
  then show "takeWhile is_digit (decimal n @ CHR ''_'' # s) = decimal n"
    "dropWhile is_digit (decimal n @ CHR ''_'' # s) = CHR ''_'' # s"
    using decimal_digits by (simp_all add: takeWhile_append2 dropWhile_append2)
qed

lemma read_component_encode: "read_component (encode_component part @ s) = (part, s)"
  by (simp add: read_component_def encode_component_def numeral_value_decimal Let_def)

lemma encode_component_not_Nil [simp]: "encode_component part \<noteq> []"
  by (simp add: encode_component_def)

lemma encode_component_head [simp]: "is_digit (hd (encode_component part))"
  using decimal_digits [OF hd_in_set [OF decimal_not_Nil]] by (simp add: encode_component_def)

lemma read_components_encode:
  assumes "s = [] \<or> \<not> is_digit (hd s)"
  shows "read_components (concat (map encode_component parts) @ s) = (parts, s)"
proof (induction parts)
  case Nil
  then show ?case using assms by (subst read_components.simps) simp
next
  case (Cons part parts)
  have eq: "concat (map encode_component (part # parts)) @ s
      = encode_component part @ concat (map encode_component parts) @ s"
    by simp
  show ?case
    unfolding eq
    by (subst read_components.simps) (simp add: read_component_encode Cons)
qed

lemma split_slashes_not_Nil [simp]: "split_slashes s \<noteq> []"
  by (induction s) (auto split: list.splits)

lemma join_split_slashes [simp]: "join_slashes (split_slashes s) = s"
proof (induction s)
  case Nil
  then show ?case by simp
next
  case (Cons c s)
  obtain part parts where *: "split_slashes s = part # parts"
    by (meson neq_Nil_conv split_slashes_not_Nil)
  then show ?case
    using Cons by (cases parts) auto
qed

lemma std_trim: "IsStdlibModule canonical_id \<Longrightarrow> ''std/'' @ trim_std canonical_id = canonical_id"
  unfolding IsStdlibModule_def trim_std_def by (metis append_take_drop_id)

lemma trim_std_inject:
  "IsStdlibModule a \<Longrightarrow> IsStdlibModule b \<Longrightarrow> trim_std a = trim_std b \<longleftrightarrow> a = b"
  by (metis std_trim)

lemma read_owner_encode:
  assumes "canonical_id \<noteq> []" "s = [] \<or> \<not> is_digit (hd s)"
  shows "read_owner (EncodeModuleOwner canonical_id @ s) = (canonical_id, s)"
proof (cases "IsStdlibModule canonical_id")
  case True
  then show ?thesis
    using assms std_trim by (simp add: read_owner_def EncodeModuleOwner_def read_components_encode)
next
  case False
  then show ?thesis
    using assms by (simp add: read_owner_def EncodeModuleOwner_def read_components_encode trim_std_def)
qed

lemma EncodeModuleOwner_Nil_iff [simp]: "EncodeModuleOwner canonical_id = [] \<longleftrightarrow> canonical_id = []"
  by (simp add: EncodeModuleOwner_def)

lemma EncodeModuleOwner_inject [simp]: "EncodeModuleOwner a = EncodeModuleOwner b \<longleftrightarrow> a = b"
  by (metis EncodeModuleOwner_Nil_iff append_Nil2 prod.inject read_owner_encode)

lemma ModuleArtifactStem_inject [simp]: "ModuleArtifactStem a = ModuleArtifactStem b \<longleftrightarrow> a = b"
  by (cases "IsStdlibModule a"; cases "IsStdlibModule b")
    (auto simp: ModuleArtifactStem_def trim_std_inject)

lemma owner_then_name_inject:
  assumes "m \<noteq> []" "m' \<noteq> []" "\<not> is_digit c"
  shows "EncodeModuleOwner m @ c # s = EncodeModuleOwner m' @ c # s' \<longleftrightarrow> m = m' \<and> s = s'"
proof
  assume "EncodeModuleOwner m @ c # s = EncodeModuleOwner m' @ c # s'"
  then have "read_owner (EncodeModuleOwner m @ c # s) = read_owner (EncodeModuleOwner m' @ c # s')"
    by simp
  then show "m = m' \<and> s = s'"
    using assms by (simp add: read_owner_encode)
qed simp

end
