(* ===== verification/TypeModel.thy ===== *)
theory TypeModel
  imports ModuleNames
begin

text \<open>
  The interned types of \<open>compiler/types\<close>: the \<open>Type\<close> struct, the nominal records behind objects
  and unions with variants, and the shape predicates. A \<open>Type\<close> carries descriptive fields
  (\<open>type_head\<close>) and exactly one structural shape; the identity pointer that decides equality is a
  number, allocated in order, and the signature stored behind it is \<open>th_sig\<close>. The zero \<open>Type{}\<close> an
  operation answers on refusal is \<open>None\<close>. Object and variant records are shared and mutable in the
  source, so a type refers to them by index into a store.
\<close>

section \<open>Types\<close>

datatype scalar_kind =
  ScalarNone | ScalarSignedInteger | ScalarUnsignedInteger | ScalarFloat | ScalarBool

record type_head =
  th_name :: string
  th_cname :: string
  th_key :: string
  th_kind :: scalar_kind
  th_bits :: nat
  th_incomplete :: bool
  th_ident :: nat
  th_sig :: string

text \<open>The constructed families with one element type.\<close>

datatype container =
    SliceC bool
  | ListC
  | InlineListC nat
  | TaskC
  | ChannelC
  | AtomicC
  | StashC
  | PoolC
  | HttpC string

text \<open>\<open>FunT\<close>: parameters, result, rest mark, and the slice type of a rest parameter. \<open>GenericT\<close>: the
  declaration (an index) and the parameter's position.\<close>

datatype htype =
    Basic type_head
  | ObjectT type_head nat
  | AdtT type_head nat
  | PtrT type_head htype bool
  | NullableT type_head htype
  | FunT type_head "htype list" "htype option" bool "htype option"
  | UnionT type_head "htype list"
  | InlineStringT type_head nat
  | ContainerT type_head container htype
  | DictT type_head htype htype
  | GenericT type_head nat nat

fun head_of :: "htype \<Rightarrow> type_head" where
  "head_of (Basic h) = h"
| "head_of (ObjectT h _) = h"
| "head_of (AdtT h _) = h"
| "head_of (PtrT h _ _) = h"
| "head_of (NullableT h _) = h"
| "head_of (FunT h _ _ _ _) = h"
| "head_of (UnionT h _) = h"
| "head_of (InlineStringT h _) = h"
| "head_of (ContainerT h _ _) = h"
| "head_of (DictT h _ _) = h"
| "head_of (GenericT h _ _) = h"

abbreviation ty_name :: "htype \<Rightarrow> string" where "ty_name t \<equiv> th_name (head_of t)"
abbreviation ty_cname :: "htype \<Rightarrow> string" where "ty_cname t \<equiv> th_cname (head_of t)"
abbreviation ty_key :: "htype \<Rightarrow> string" where "ty_key t \<equiv> th_key (head_of t)"
abbreviation ty_kind :: "htype \<Rightarrow> scalar_kind" where "ty_kind t \<equiv> th_kind (head_of t)"
abbreviation ty_bits :: "htype \<Rightarrow> nat" where "ty_bits t \<equiv> th_bits (head_of t)"
abbreviation ty_incomplete :: "htype \<Rightarrow> bool" where "ty_incomplete t \<equiv> th_incomplete (head_of t)"
abbreviation ty_ident :: "htype \<Rightarrow> nat" where "ty_ident t \<equiv> th_ident (head_of t)"
abbreviation ty_sig :: "htype \<Rightarrow> string" where "ty_sig t \<equiv> th_sig (head_of t)"

text \<open>The descriptive fields of a type that is neither a scalar nor incomplete.\<close>

definition plain_head :: "string \<Rightarrow> string \<Rightarrow> string \<Rightarrow> nat \<Rightarrow> string \<Rightarrow> type_head" where
  "plain_head nm c_name key ident signature =
     \<lparr>th_name = nm, th_cname = c_name, th_key = key, th_kind = ScalarNone, th_bits = 0,
      th_incomplete = False, th_ident = ident, th_sig = signature\<rparr>"

lemma plain_head_simps [simp]:
  "th_name (plain_head nm c k i s) = nm" "th_cname (plain_head nm c k i s) = c"
  "th_key (plain_head nm c k i s) = k" "th_kind (plain_head nm c k i s) = ScalarNone"
  "th_bits (plain_head nm c k i s) = 0" "th_incomplete (plain_head nm c k i s) = False"
  "th_ident (plain_head nm c k i s) = i" "th_sig (plain_head nm c k i s) = s"
  by (simp_all add: plain_head_def)

section \<open>Nominal records\<close>

record object_field =
  om_name :: string
  om_type :: htype
  om_mutable :: bool
  om_cname :: string

record object_type =
  ot_name :: string
  ot_cname :: string
  ot_module :: string
  ot_members :: "object_field list"
  ot_line :: nat
  ot_column :: nat
  ot_incomplete :: bool
  ot_ident :: nat

record adt_type =
  at_name :: string
  at_cname :: string
  at_variants :: "(string \<times> object_field list) list"
  at_line :: nat
  at_column :: nat
  at_module :: string
  at_ident :: nat

record type_store =
  st_objects :: "object_type list"
  st_adts :: "adt_type list"

definition zero_object :: object_type where
  "zero_object =
     \<lparr>ot_name = [], ot_cname = [], ot_module = [], ot_members = [], ot_line = 0, ot_column = 0,
      ot_incomplete = False, ot_ident = 0\<rparr>"

definition zero_adt :: adt_type where
  "zero_adt =
     \<lparr>at_name = [], at_cname = [], at_variants = [], at_line = 0, at_column = 0, at_module = [],
      at_ident = 0\<rparr>"

definition object_at :: "'a type_store_scheme \<Rightarrow> nat \<Rightarrow> object_type" where
  "object_at st i = (if i < length (st_objects st) then st_objects st ! i else zero_object)"

definition adt_at :: "'a type_store_scheme \<Rightarrow> nat \<Rightarrow> adt_type" where
  "adt_at st i = (if i < length (st_adts st) then st_adts st ! i else zero_adt)"

text \<open>\<open>(*ObjectType).Member\<close>.\<close>

definition object_Member :: "object_type \<Rightarrow> string \<Rightarrow> object_field option" where
  "object_Member object nm = find (\<lambda>member. om_name member = nm) (ot_members object)"

definition adt_payload_types :: "adt_type \<Rightarrow> htype list" where
  "adt_payload_types adt = concat (map (\<lambda>variant. map om_type (snd variant)) (at_variants adt))"

section \<open>Shape predicates\<close>

text \<open>\<open>Type.Element\<close>, \<open>Type.Signature\<close> and \<open>Type.PointeeWritable\<close>: a nullable type copies them from
  its base.\<close>

fun element_of :: "htype \<Rightarrow> htype option" where
  "element_of (PtrT _ e _) = Some e"
| "element_of (NullableT _ b) = element_of b"
| "element_of _ = None"

fun pointee_writable :: "htype \<Rightarrow> bool" where
  "pointee_writable (PtrT _ _ w) = w"
| "pointee_writable (NullableT _ b) = pointee_writable b"
| "pointee_writable _ = False"

fun has_signature :: "htype \<Rightarrow> bool" where
  "has_signature (FunT _ _ _ _ _) = True"
| "has_signature (NullableT _ b) = has_signature b"
| "has_signature _ = False"

fun NullableBase :: "htype \<Rightarrow> htype option" where
  "NullableBase (NullableT _ b) = Some b"
| "NullableBase _ = None"

definition IsNullable :: "htype \<Rightarrow> bool" where
  "IsNullable t = (NullableBase t \<noteq> None)"

definition IsPointerLike :: "htype \<Rightarrow> bool" where
  "IsPointerLike t = (element_of t \<noteq> None \<or> has_signature t)"

definition IsSignedInteger :: "htype \<Rightarrow> bool" where
  "IsSignedInteger t = (ty_kind t = ScalarSignedInteger)"

definition IsUnsignedInteger :: "htype \<Rightarrow> bool" where
  "IsUnsignedInteger t = (ty_kind t = ScalarUnsignedInteger)"

definition IsInteger :: "htype \<Rightarrow> bool" where
  "IsInteger t = (ty_kind t = ScalarSignedInteger \<or> ty_kind t = ScalarUnsignedInteger)"

definition IsFloat :: "htype \<Rightarrow> bool" where
  "IsFloat t = (ty_kind t = ScalarFloat)"

text \<open>Types with an identity compare by it; two refused answers are equal.\<close>

definition Equal :: "htype \<Rightarrow> htype \<Rightarrow> bool" where
  "Equal left right = (ty_ident left = ty_ident right)"

lemma Equal_refl [simp]: "Equal t t"
  by (simp add: Equal_def)

lemma Equal_sym: "Equal s t \<Longrightarrow> Equal t s"
  by (simp add: Equal_def)

lemma Equal_trans: "Equal r s \<Longrightarrow> Equal s t \<Longrightarrow> Equal r t"
  by (simp add: Equal_def)

section \<open>References to nominal records\<close>

datatype nominal_ref = ObjectRef nat | AdtRef nat

definition known_refs :: "'a type_store_scheme \<Rightarrow> nominal_ref set" where
  "known_refs st = ObjectRef ` {..<length (st_objects st)} \<union> AdtRef ` {..<length (st_adts st)}"

text \<open>How many records a walk that has visited \<open>seen\<close> may still enter: the measure the recursive
  walks through nominal types descend by.\<close>

definition unseen :: "'a type_store_scheme \<Rightarrow> nominal_ref list \<Rightarrow> nat" where
  "unseen st seen = card (known_refs st - set seen)"

lemma finite_known_refs [simp]: "finite (known_refs st)"
  by (simp add: known_refs_def)

lemma known_ObjectRef [simp]: "ObjectRef i \<in> known_refs st \<longleftrightarrow> i < length (st_objects st)"
  by (auto simp: known_refs_def)

lemma known_AdtRef [simp]: "AdtRef i \<in> known_refs st \<longleftrightarrow> i < length (st_adts st)"
  by (auto simp: known_refs_def)

lemma unseen_Cons: "r \<in> known_refs st \<Longrightarrow> r \<notin> set seen \<Longrightarrow> unseen st (r # seen) < unseen st seen"
  unfolding unseen_def by (rule psubset_card_mono) auto

lemma unseen_mono: "set seen \<subseteq> set seen' \<Longrightarrow> unseen st seen' \<le> unseen st seen"
  unfolding unseen_def by (rule card_mono) auto

lemma unseen_union: "unseen st (List.union s seen) \<le> unseen st seen"
  by (rule unseen_mono) simp

text \<open>The second component of that measure, within one record: a weight for types and for lists of
  types that each step into a component lowers.\<close>

definition type_weight :: "htype \<Rightarrow> nat" where
  "type_weight t = 4 * size t"

fun types_weight :: "htype list \<Rightarrow> nat" where
  "types_weight [] = 1"
| "types_weight (t # ts) = type_weight t + types_weight ts + 1"

lemma types_weight_append: "types_weight (ts @ us) + 1 = types_weight ts + types_weight us"
  by (induction ts) simp_all

lemma types_weight_bound: "types_weight ts \<le> 4 * size_list size ts + 1"
  by (induction ts) (simp_all add: type_weight_def)

lemma type_weight_simps [simp]:
  "type_weight e < type_weight (PtrT h e w)"
  "type_weight e < type_weight (NullableT h e)"
  "type_weight e < type_weight (ContainerT h c e)"
  "Suc (Suc (Suc (type_weight k + type_weight v))) < type_weight (DictT h k v)"
  "types_weight ms < type_weight (UnionT h ms)"
  "types_weight (ps @ (case r of None \<Rightarrow> [] | Some x \<Rightarrow> [x])) < type_weight (FunT h ps r rest rs)"
proof -
  have "types_weight (ps @ (case r of None \<Rightarrow> [] | Some x \<Rightarrow> [x])) \<le> types_weight ps + 4 * size_option size r + 1"
    using types_weight_append [of ps "[the r]"] by (cases r) (simp_all add: type_weight_def)
  then show "types_weight (ps @ (case r of None \<Rightarrow> [] | Some x \<Rightarrow> [x])) < type_weight (FunT h ps r rest rs)"
    using types_weight_bound [of ps] by (simp add: type_weight_def)
qed (use types_weight_bound [of ms] in \<open>simp_all add: type_weight_def\<close>)

lemma type_weight_pos [simp]: "types_weight ts > 0"
  by (cases ts) simp_all

end
