(* ===== verification/TypeBuiltins.thy ===== *)
theory TypeBuiltins
  imports TypeModel
begin

text \<open>
  The compiler-owned types of \<open>compiler/types\<close>: the scalars and value types of \<open>builtins.go\<close>, the
  records and variant unions of \<open>error_kind.go\<close>, \<open>io.go\<close>, \<open>file.go\<close>, \<open>network.go\<close>, \<open>time.go\<close>,
  \<open>process.go\<close>, \<open>signal.go\<close>, \<open>terminal.go\<close>, \<open>json.go\<close>, \<open>regex.go\<close> and \<open>http.go\<close>, the registry of
  bare names, and \<open>ResolveSpecID\<close> of \<open>specid.go\<close>. Package-level initialisation allocates one
  identity per type; here it is the position in that list, below \<open>first_fresh_ident\<close>.
\<close>

section \<open>Configuration\<close>

definition MaxInlineStringCapacity :: nat where
  "MaxInlineStringCapacity = 4096"

definition ErrorHeaderCapacity :: nat where
  "ErrorHeaderCapacity = 128"

definition ErrorMessageCapacity :: nat where
  "ErrorMessageCapacity = 256"

section \<open>Keys and names of structural types\<close>

definition inlineStringKey :: "nat \<Rightarrow> string" where
  "inlineStringKey capacity = ''string:'' @ decimal capacity"

fun join_with :: "string \<Rightarrow> string list \<Rightarrow> string" where
  "join_with separator [] = []"
| "join_with separator [part] = part"
| "join_with separator (part # parts) = part @ separator @ join_with separator parts"

definition unionKey :: "htype list \<Rightarrow> string" where
  "unionKey members = ''union:'' @ join_with '','' (map ty_key members)"

definition unionName :: "htype list \<Rightarrow> string" where
  "unionName members = join_with '' | '' (map ty_name members)"

definition unionBaseName :: "htype list \<Rightarrow> string" where
  "unionBaseName members =
     ''hex_t_'' @ join_with ''_'' (map (\<lambda>member. SanitizeIdentifier (ty_name member)) members)"

section \<open>Scalars and value types\<close>

definition scalarType :: "string \<Rightarrow> string \<Rightarrow> scalar_kind \<Rightarrow> nat \<Rightarrow> nat \<Rightarrow> htype" where
  "scalarType nm c_name kind bits ident =
     Basic \<lparr>th_name = nm, th_cname = c_name, th_key = nm, th_kind = kind, th_bits = bits,
            th_incomplete = False, th_ident = ident, th_sig = ''scalar:'' @ nm\<rparr>"

definition opaqueType :: "string \<Rightarrow> string \<Rightarrow> nat \<Rightarrow> htype" where
  "opaqueType nm c_name ident = Basic (plain_head nm c_name nm ident [])"

definition Int8 :: htype where
  "Int8 = scalarType ''Int8'' ''int8_t'' ScalarSignedInteger 8 0"

definition Int16 :: htype where
  "Int16 = scalarType ''Int16'' ''int16_t'' ScalarSignedInteger 16 1"

definition Int32 :: htype where
  "Int32 = scalarType ''Int32'' ''int32_t'' ScalarSignedInteger 32 2"

definition Int64 :: htype where
  "Int64 = scalarType ''Int64'' ''int64_t'' ScalarSignedInteger 64 3"

definition UInt8 :: htype where
  "UInt8 = scalarType ''UInt8'' ''uint8_t'' ScalarUnsignedInteger 8 4"

definition UInt16 :: htype where
  "UInt16 = scalarType ''UInt16'' ''uint16_t'' ScalarUnsignedInteger 16 5"

definition UInt32 :: htype where
  "UInt32 = scalarType ''UInt32'' ''uint32_t'' ScalarUnsignedInteger 32 6"

definition UInt64 :: htype where
  "UInt64 = scalarType ''UInt64'' ''uint64_t'' ScalarUnsignedInteger 64 7"

definition Rune_type :: htype where
  "Rune_type = scalarType ''Rune'' ''uint32_t'' ScalarUnsignedInteger 32 8"

definition Float32 :: htype where
  "Float32 = scalarType ''Float32'' ''float'' ScalarFloat 32 9"

definition Float64 :: htype where
  "Float64 = scalarType ''Float64'' ''double'' ScalarFloat 64 10"

definition Bool_type :: htype where
  "Bool_type = scalarType ''Bool'' ''bool'' ScalarBool 1 11"

definition NilType :: htype where
  "NilType = opaqueType ''Nil'' ''nullptr_t'' 12"

definition EoSType :: htype where
  "EoSType = opaqueType ''EoS'' ''hex_eos'' 13"

definition UnknownType :: htype where
  "UnknownType = Basic ((plain_head ''Unknown'' ''void'' ''Unknown'' 14 [])\<lparr>th_incomplete := True\<rparr>)"

definition HeapType :: htype where
  "HeapType = opaqueType ''Heap'' ''hex_heap'' 15"

definition StringType :: htype where
  "StringType = opaqueType ''String'' ''hex_string'' 16"

definition SizeType :: htype where
  "SizeType = Basic ((plain_head ''Size'' ''size_t'' ''Size'' 17 [])
     \<lparr>th_kind := ScalarUnsignedInteger, th_bits := 64\<rparr>)"

definition MutexType :: htype where
  "MutexType = opaqueType ''Mutex'' ''hex_mutex'' 19"

definition ByteCursorType :: htype where
  "ByteCursorType = opaqueType ''ByteCursor'' ''hex_byte_cursor'' 20"

definition RuneCursorType :: htype where
  "RuneCursorType = opaqueType ''RuneCursor'' ''hex_rune_cursor'' 21"

definition GraphemeType :: htype where
  "GraphemeType = opaqueType ''Grapheme'' ''hex_grapheme'' 22"

definition GraphemeCursorType :: htype where
  "GraphemeCursorType = opaqueType ''GraphemeCursor'' ''hex_grapheme_cursor'' 23"

definition IOType :: htype where
  "IOType = opaqueType ''IO'' ''hex_io'' 27"

definition BytesType :: htype where
  "BytesType = opaqueType ''Bytes'' ''hex_bytes'' 28"

definition FileType :: htype where
  "FileType = opaqueType ''File'' ''hex_file'' 30"

definition TcpConnectionType :: htype where
  "TcpConnectionType = opaqueType ''TcpConnection'' ''hex_tcp_connection'' 35"

definition TcpListenerType :: htype where
  "TcpListenerType = opaqueType ''TcpListener'' ''hex_tcp_listener'' 36"

definition DurationType :: htype where
  "DurationType = opaqueType ''Duration'' ''hex_duration'' 37"

definition InstantType :: htype where
  "InstantType = opaqueType ''Instant'' ''hex_instant'' 38"

definition WallTimeType :: htype where
  "WallTimeType = opaqueType ''WallTime'' ''hex_wall_time'' 39"

definition ProcessType :: htype where
  "ProcessType = opaqueType ''Process'' ''hex_process'' 48"

definition PipeType :: htype where
  "PipeType = opaqueType ''Pipe'' ''hex_pipe'' 49"

definition SignalsType :: htype where
  "SignalsType = opaqueType ''Signals'' ''hex_signals'' 53"

definition RegexPatternType :: htype where
  "RegexPatternType = opaqueType ''Pattern'' ''hex_regex_pattern'' 59"

definition HttpRequestType :: htype where
  "HttpRequestType = Basic (plain_head ''Request'' ''hex_http_request'' ''HttpRequest'' 64 [])"

definition HttpWriterType :: htype where
  "HttpWriterType = Basic (plain_head ''Writer'' ''hex_http_writer'' ''HttpWriter'' 65 [])"

definition HttpFileServerType :: htype where
  "HttpFileServerType = Basic (plain_head ''FileServer'' ''hex_http_files'' ''HttpFileServer'' 66 [])"

text \<open>\<open>InlineStringType\<close> values fixed by the compiler, and the \<open>List\<close>, \<open>List<T, N>\<close>, \<open>Slice\<close> and
  \<open>T | Nil\<close> shapes that builtin records mention.\<close>

definition builtinInlineString :: "nat \<Rightarrow> nat \<Rightarrow> htype" where
  "builtinInlineString capacity ident =
     InlineStringT (plain_head (''String<'' @ decimal capacity @ ''>'') (''hex_string_'' @ decimal capacity)
       (inlineStringKey capacity) ident (inlineStringKey capacity)) capacity"

definition builtinInlineListType :: "htype \<Rightarrow> nat \<Rightarrow> nat \<Rightarrow> htype" where
  "builtinInlineListType element capacity ident =
     (let key = ''inline-list:'' @ ty_key element @ '','' @ decimal capacity
      in ContainerT (plain_head (''List<'' @ ty_name element @ '', '' @ decimal capacity @ ''>'')
           (''hex_list_inline_'' @ SanitizeIdentifier (ty_name element) @ ''_'' @ decimal capacity)
           key ident key) (InlineListC capacity) element)"

definition builtinListType :: "string \<Rightarrow> string \<Rightarrow> htype \<Rightarrow> nat \<Rightarrow> htype" where
  "builtinListType c_name key element ident =
     ContainerT (plain_head (''List<'' @ ty_name element @ ''>'') c_name key ident key) ListC element"

definition staticSliceType :: "htype \<Rightarrow> string \<Rightarrow> nat \<Rightarrow> htype" where
  "staticSliceType element c_name ident =
     (let key = ''slice:'' @ ty_key element
      in ContainerT (plain_head (''Slice<'' @ ty_name element @ ''>'') c_name key ident key)
           (SliceC False) element)"

definition builtinOptionalHandleUnion :: "htype \<Rightarrow> nat \<Rightarrow> htype" where
  "builtinOptionalHandleUnion base ident =
     (let members = [base, NilType]
      in UnionT (plain_head (unionName members) (unionBaseName members) (unionKey members) ident
           (unionKey members)) members)"

definition ErrorHeaderText :: htype where
  "ErrorHeaderText = builtinInlineString ErrorHeaderCapacity 71"

definition ErrorMessageText :: htype where
  "ErrorMessageText = builtinInlineString ErrorMessageCapacity 72"

definition addressIPv4Bytes :: htype where
  "addressIPv4Bytes = builtinInlineListType UInt8 4 32"

definition addressIPv6Bytes :: htype where
  "addressIPv6Bytes = builtinInlineListType UInt8 16 33"

section \<open>Records and variant unions\<close>

text \<open>A builtin type over the record at a position of the builtin store.\<close>

definition builtinObject :: "string \<Rightarrow> string \<Rightarrow> nat \<Rightarrow> nat \<Rightarrow> htype" where
  "builtinObject nm c_name index ident =
     ObjectT (plain_head nm c_name (canonicalNominalKey nm []) ident []) index"

definition builtinADT :: "string \<Rightarrow> string \<Rightarrow> nat \<Rightarrow> nat \<Rightarrow> htype" where
  "builtinADT nm c_name index ident =
     AdtT (plain_head nm c_name (canonicalNominalKey nm []) ident []) index"

definition builtin_member :: "string \<times> htype \<Rightarrow> object_field" where
  "builtin_member field = \<lparr>om_name = fst field, om_type = snd field, om_mutable = False, om_cname = []\<rparr>"

definition builtin_object_record :: "string \<Rightarrow> string \<Rightarrow> nat \<Rightarrow> (string \<times> htype) list \<Rightarrow> object_type" where
  "builtin_object_record nm c_name ident entries =
     zero_object\<lparr>ot_name := nm, ot_cname := c_name, ot_members := map builtin_member entries, ot_ident := ident\<rparr>"

definition builtin_adt_record ::
    "string \<Rightarrow> string \<Rightarrow> nat \<Rightarrow> (string \<times> (string \<times> htype) list) list \<Rightarrow> adt_type" where
  "builtin_adt_record nm c_name ident variants =
     zero_adt\<lparr>at_name := nm, at_cname := c_name,
       at_variants := map (\<lambda>variant. (fst variant, map builtin_member (snd variant))) variants,
       at_ident := ident\<rparr>"

definition ErrorKindType :: htype where
  "ErrorKindType = builtinADT ''ErrorKind'' ''hex_t_ErrorKind'' 0 24"

definition NormalizationFormType :: htype where
  "NormalizationFormType = builtinADT ''NormalizationForm'' ''hex_t_NormalizationForm'' 1 25"

definition UnicodeCategoryType :: htype where
  "UnicodeCategoryType = builtinADT ''UnicodeCategory'' ''hex_t_UnicodeCategory'' 2 26"

definition SeekType :: htype where
  "SeekType = builtinADT ''Seek'' ''hex_t_Seek'' 3 29"

definition FileModeType :: htype where
  "FileModeType = builtinADT ''FileMode'' ''hex_t_FileMode'' 4 31"

definition AddressType :: htype where
  "AddressType = builtinADT ''Address'' ''hex_t_Address'' 5 34"

definition EnvironmentType :: htype where
  "EnvironmentType = builtinADT ''Environment'' ''hex_t_Environment'' 6 42"

definition ProcessStreamType :: htype where
  "ProcessStreamType = builtinADT ''ProcessStream'' ''hex_t_ProcessStream'' 7 43"

definition ExitStatusType :: htype where
  "ExitStatusType = builtinADT ''ExitStatus'' ''hex_t_ExitStatus'' 8 47"

definition SignalType :: htype where
  "SignalType = builtinADT ''Signal'' ''hex_t_Signal'' 9 52"

definition JsonValueType :: htype where
  "JsonValueType = AdtT (plain_head ''Value'' ''hex_t_JsonValue'' (canonicalNominalKey ''JsonValue'' []) 55 []) 10"

definition ErrorType :: htype where
  "ErrorType = builtinObject ''Error'' ''hex_t_Error'' 0 18"

definition EnvironmentVariableType :: htype where
  "EnvironmentVariableType = builtinObject ''EnvironmentVariable'' ''hex_t_EnvironmentVariable'' 1 40"

definition ProcessOptionsType :: htype where
  "ProcessOptionsType = builtinObject ''ProcessOptions'' ''hex_t_ProcessOptions'' 2 46"

definition StartedProcessType :: htype where
  "StartedProcessType = builtinObject ''StartedProcess'' ''hex_t_StartedProcess'' 3 51"

definition TerminalSizeType :: htype where
  "TerminalSizeType = builtinObject ''TerminalSize'' ''hex_t_TerminalSize'' 4 54"

definition JsonMemberType :: htype where
  "JsonMemberType = builtinObject ''JsonValueMember'' ''hex_t_JsonValueMember'' 5 57"

definition RegexSpanType :: htype where
  "RegexSpanType = builtinObject ''Span'' ''hex_t_Span'' 6 60"

definition RegexMatchType :: htype where
  "RegexMatchType = builtinObject ''Match'' ''hex_t_Match'' 7 63"

definition HttpHeaderType :: htype where
  "HttpHeaderType = builtinObject ''Header'' ''hex_t_Header'' 8 68"

definition HttpServerConfigType :: htype where
  "HttpServerConfigType = builtinObject ''ServerConfig'' ''hex_t_ServerConfig'' 9 70"

definition environmentVariableList :: htype where
  "environmentVariableList = builtinListType ''hex_list_EnvironmentVariable'' (''list:'' @ ty_key EnvironmentVariableType)
     EnvironmentVariableType 41"

definition argumentsList :: htype where
  "argumentsList = builtinListType ''hex_list_String'' (''list:'' @ ty_key StringType) StringType 44"

definition nullableWorkingDirectory :: htype where
  "nullableWorkingDirectory = builtinOptionalHandleUnion StringType 45"

definition nullablePipe :: htype where
  "nullablePipe = builtinOptionalHandleUnion PipeType 50"

definition JsonValueListType :: htype where
  "JsonValueListType = builtinListType ''hex_list_JsonValue'' ''list:JsonValue'' JsonValueType 56"

definition JsonMemberListType :: htype where
  "JsonMemberListType = builtinListType ''hex_list_JsonValueMember'' ''list:JsonValueMember'' JsonMemberType 58"

definition RegexCaptureType :: htype where
  "RegexCaptureType = builtinOptionalHandleUnion RegexSpanType 61"

definition RegexCaptureListType :: htype where
  "RegexCaptureListType = builtinListType ''hex_list_regex_capture'' (''list:'' @ ty_key RegexCaptureType) RegexCaptureType 62"

definition HttpByteSliceType :: htype where
  "HttpByteSliceType = staticSliceType UInt8 ''hex_slice_UInt8'' 67"

definition HttpHeaderSliceType :: htype where
  "HttpHeaderSliceType = staticSliceType HttpHeaderType ''hex_slice_Header'' 69"

text \<open>\<open>errorKinds\<close> of \<open>specdata/errors.go\<close>: each variant, and whether it carries the header.\<close>

definition errorKinds :: "(string \<times> bool) list" where
  "errorKinds = map (\<lambda>nm. (nm, nm = ''Other''))
     [''NotFound'', ''PermissionDenied'', ''AlreadyExists'', ''InvalidInput'', ''InvalidPath'',
      ''NotADirectory'', ''IsADirectory'', ''DirectoryNotEmpty'', ''ReadOnly'', ''Busy'',
      ''Interrupted'', ''Cancelled'', ''TimedOut'', ''Unsupported'', ''ResourceExhausted'',
      ''Closed'', ''AddressInUse'', ''AddressUnavailable'', ''ConnectionRefused'', ''ConnectionReset'',
      ''ConnectionAborted'', ''HostUnreachable'', ''NetworkUnreachable'', ''BrokenPipe'', ''NotConnected'',
      ''Other'']"

definition ErrorKindIndex :: "string \<Rightarrow> nat option" where
  "ErrorKindIndex variant = find (\<lambda>i. fst (errorKinds ! i) = variant) [0..<length errorKinds]"

definition unit_variants :: "string list \<Rightarrow> (string \<times> (string \<times> htype) list) list" where
  "unit_variants names = map (\<lambda>nm. (nm, [])) names"

definition errorType :: object_type where
  "errorType = builtin_object_record ''Error'' ''hex_t_Error'' 18
     [(''file'', StringType),
      (''line'', SizeType),
      (''column'', SizeType),
      (''kind'', ErrorKindType),
      (''message'', ErrorMessageText)]"

definition environmentVariableType :: object_type where
  "environmentVariableType = builtin_object_record ''EnvironmentVariable'' ''hex_t_EnvironmentVariable'' 40
     [(''name'', StringType),
      (''value'', StringType)]"

definition processOptionsType :: object_type where
  "processOptionsType = builtin_object_record ''ProcessOptions'' ''hex_t_ProcessOptions'' 46
     [(''program'', StringType),
      (''arguments'', argumentsList),
      (''environment'', EnvironmentType),
      (''working_directory'', nullableWorkingDirectory),
      (''input'', ProcessStreamType),
      (''output'', ProcessStreamType),
      (''error'', ProcessStreamType)]"

definition startedProcessType :: object_type where
  "startedProcessType = builtin_object_record ''StartedProcess'' ''hex_t_StartedProcess'' 51
     [(''process'', ProcessType),
      (''input'', nullablePipe),
      (''output'', nullablePipe),
      (''error'', nullablePipe)]"

definition terminalSizeType :: object_type where
  "terminalSizeType = builtin_object_record ''TerminalSize'' ''hex_t_TerminalSize'' 54
     [(''columns'', SizeType),
      (''rows'', SizeType)]"

definition json_member_record :: object_type where
  "json_member_record = builtin_object_record ''JsonValueMember'' ''hex_t_JsonValueMember'' 57
     [(''name'', StringType),
      (''value'', JsonValueType)]"

definition regex_span_record :: object_type where
  "regex_span_record = builtin_object_record ''Span'' ''hex_t_Span'' 60
     [(''start'', SizeType),
      (''end'', SizeType)]"

definition regex_match_record :: object_type where
  "regex_match_record = builtin_object_record ''Match'' ''hex_t_Match'' 63
     [(''whole'', RegexSpanType),
      (''captures'', RegexCaptureListType)]"

definition http_header_record :: object_type where
  "http_header_record = builtin_object_record ''Header'' ''hex_t_Header'' 68
     [(''name'', HttpByteSliceType),
      (''value'', HttpByteSliceType)]"

text \<open>The members of \<open>ServerConfig\<close> are mutable.\<close>

definition http_server_config_record :: object_type where
  "http_server_config_record =
     (let entries = [(''host'', StringType), (''port'', UInt16)]
        @ map (\<lambda>nm. (nm, SizeType))
            [''max_request_line_bytes'', ''max_header_bytes'', ''max_header_count'',
             ''max_body_bytes'', ''max_trailer_bytes'', ''receive_buffer_bytes'',
             ''write_buffer_bytes'', ''max_connections'', ''backlog'']
        @ map (\<lambda>nm. (nm, DurationType))
            [''header_timeout'', ''body_timeout'', ''write_timeout'', ''idle_timeout'', ''shutdown_timeout'']
        @ [(''tcp_nodelay'', Bool_type)];
          record = builtin_object_record ''ServerConfig'' ''hex_t_ServerConfig'' 70 entries
      in record\<lparr>ot_members := map (\<lambda>m. m\<lparr>om_mutable := True\<rparr>) (ot_members record)\<rparr>)"

definition errorKindType :: adt_type where
  "errorKindType = builtin_adt_record ''ErrorKind'' ''hex_t_ErrorKind'' 24
     (map (\<lambda>spec. (fst spec, if snd spec then [(''header'', ErrorHeaderText)] else [])) errorKinds)"

definition normalizationFormType :: adt_type where
  "normalizationFormType = builtin_adt_record ''NormalizationForm'' ''hex_t_NormalizationForm'' 25
     (unit_variants [''NFC'', ''NFD'', ''NFKC'', ''NFKD''])"

definition unicodeCategoryType :: adt_type where
  "unicodeCategoryType = builtin_adt_record ''UnicodeCategory'' ''hex_t_UnicodeCategory'' 26
     (unit_variants
      [''Cn'', ''Lu'', ''Ll'', ''Lt'', ''Lm'', ''Lo'', ''Mn'', ''Mc'', ''Me'', ''Nd'',
       ''Nl'', ''No'', ''Pc'', ''Pd'', ''Ps'', ''Pe'', ''Pi'', ''Pf'', ''Po'', ''Sm'',
       ''Sc'', ''Sk'', ''So'', ''Zs'', ''Zl'', ''Zp'', ''Cc'', ''Cf'', ''Cs'', ''Co''])"

definition seekType :: adt_type where
  "seekType = builtin_adt_record ''Seek'' ''hex_t_Seek'' 29
     ([(''Start'', [(''position'', SizeType)]), (''Current'', [(''offset'', Int64)]),
      (''End'', [(''offset'', Int64)])])"

definition fileModeType :: adt_type where
  "fileModeType = builtin_adt_record ''FileMode'' ''hex_t_FileMode'' 31
     (unit_variants [''Read'', ''Write'', ''Append'', ''ReadWrite'', ''CreateNew''])"

definition addressType :: adt_type where
  "addressType = builtin_adt_record ''Address'' ''hex_t_Address'' 34
     ([(''IPv4'', [(''bytes'', addressIPv4Bytes), (''port'', UInt16)]),
      (''IPv6'', [(''bytes'', addressIPv6Bytes), (''port'', UInt16), (''scope'', UInt32)])])"

definition environmentType :: adt_type where
  "environmentType = builtin_adt_record ''Environment'' ''hex_t_Environment'' 42
     ([(''Inherit'', []), (''Replace'', [(''values'', environmentVariableList)])])"

definition processStreamType :: adt_type where
  "processStreamType = builtin_adt_record ''ProcessStream'' ''hex_t_ProcessStream'' 43
     (unit_variants [''Ignore'', ''Inherit'', ''Pipe''])"

definition exitStatusType :: adt_type where
  "exitStatusType = builtin_adt_record ''ExitStatus'' ''hex_t_ExitStatus'' 47
     ([(''Exited'', [(''code'', Int64)]), (''Terminated'', [])])"

definition signalType :: adt_type where
  "signalType = builtin_adt_record ''Signal'' ''hex_t_Signal'' 52
     (unit_variants [''Interrupt'', ''Hangup'', ''Terminate''])"

definition json_value_record :: adt_type where
  "json_value_record = builtin_adt_record ''Value'' ''hex_t_JsonValue'' 55
     ([(''Null'', []), (''Bool'', [(''value'', Bool_type)]), (''Int'', [(''value'', Int64)]),
      (''UInt'', [(''value'', UInt64)]), (''Float'', [(''value'', Float64)]), (''Text'', [(''value'', StringType)]),
      (''Array'', [(''items'', JsonValueListType)]), (''Object'', [(''entries'', JsonMemberListType)])])"

definition builtin_objects :: "object_type list" where
  "builtin_objects =
     [errorType, environmentVariableType, processOptionsType, startedProcessType, terminalSizeType,
      json_member_record, regex_span_record, regex_match_record, http_header_record,
      http_server_config_record]"

definition builtin_adts :: "adt_type list" where
  "builtin_adts =
     [errorKindType, normalizationFormType, unicodeCategoryType, seekType, fileModeType, addressType,
      environmentType, processStreamType, exitStatusType, signalType, json_value_record]"

definition first_fresh_ident :: nat where
  "first_fresh_ident = 73"

section \<open>The registry of bare names\<close>

definition builtinTypes :: "(string \<times> htype) list" where
  "builtinTypes =
     [(''Bool'', Bool_type), (''Int8'', Int8), (''Int16'', Int16),
      (''Int32'', Int32), (''Int64'', Int64), (''UInt8'', UInt8),
      (''UInt16'', UInt16), (''UInt32'', UInt32), (''UInt64'', UInt64),
      (''Rune'', Rune_type), (''Float32'', Float32), (''Float64'', Float64),
      (''Nil'', NilType), (''EoS'', EoSType), (''Unknown'', UnknownType),
      (''Heap'', HeapType), (''String'', StringType), (''Size'', SizeType),
      (''Error'', ErrorType), (''Mutex'', MutexType), (''Byte'', UInt8),
      (''ByteCursor'', ByteCursorType), (''RuneCursor'', RuneCursorType), (''Grapheme'', GraphemeType),
      (''GraphemeCursor'', GraphemeCursorType), (''ErrorKind'', ErrorKindType), (''NormalizationForm'', NormalizationFormType),
      (''UnicodeCategory'', UnicodeCategoryType)]"

text \<open>\<open>Lookup\<close> of \<open>builtins.go\<close>.\<close>

definition builtin_Lookup :: "string \<Rightarrow> htype option" where
  "builtin_Lookup nm = map_of builtinTypes nm"

definition IsProtectedTypeName :: "string \<Rightarrow> bool" where
  "IsProtectedTypeName nm \<longleftrightarrow>
     builtin_Lookup nm \<noteq> None
       \<or> nm \<in> set [''Ptr'', ''MutPtr'', ''Fun'', ''Array'', ''List'', ''Dict'', ''DictEntry'', ''View'', ''Slice'',
           ''Task'', ''Channel'', ''Atomic'', ''Stash'', ''Pool'']"

section \<open>Registry identifiers\<close>

text \<open>The identifiers of \<open>specdata/constructors.go\<close> that name a concrete type, in its order, and the
  type each resolves to.\<close>

definition ResolveSpecID_table :: "(string \<times> htype) list" where
  "ResolveSpecID_table =
     [(''Bool'', Bool_type), (''Int8'', Int8), (''Int16'', Int16),
      (''Int32'', Int32), (''Int64'', Int64), (''UInt8'', UInt8),
      (''Byte'', UInt8), (''UInt16'', UInt16), (''UInt32'', UInt32),
      (''UInt'', UInt32), (''UInt64'', UInt64), (''Int'', Int32),
      (''Rune'', Rune_type), (''Float32'', Float32), (''Float64'', Float64),
      (''Float'', Float64), (''Size'', SizeType), (''Nil'', NilType),
      (''EoS'', EoSType), (''Unknown'', UnknownType), (''Heap'', HeapType),
      (''String'', StringType), (''Error'', ErrorType), (''Mutex'', MutexType),
      (''ByteCursor'', ByteCursorType), (''RuneCursor'', RuneCursorType), (''Grapheme'', GraphemeType),
      (''GraphemeCursor'', GraphemeCursorType), (''ErrorKind'', ErrorKindType), (''NormalizationForm'', NormalizationFormType),
      (''UnicodeCategory'', UnicodeCategoryType), (''IO'', IOType), (''Bytes'', BytesType),
      (''Seek'', SeekType), (''File'', FileType), (''FileMode'', FileModeType),
      (''Duration'', DurationType), (''Instant'', InstantType), (''WallTime'', WallTimeType),
      (''Address'', AddressType), (''TcpConnection'', TcpConnectionType), (''TcpListener'', TcpListenerType),
      (''Process'', ProcessType), (''Pipe'', PipeType), (''ProcessOptions'', ProcessOptionsType),
      (''StartedProcess'', StartedProcessType), (''Environment'', EnvironmentType), (''EnvironmentVariable'', EnvironmentVariableType),
      (''ProcessStream'', ProcessStreamType), (''ExitStatus'', ExitStatusType), (''Signal'', SignalType),
      (''Signals'', SignalsType), (''TerminalSize'', TerminalSizeType), (''JsonValue'', JsonValueType),
      (''JsonMember'', JsonMemberType), (''Pattern'', RegexPatternType), (''Span'', RegexSpanType),
      (''Match'', RegexMatchType), (''HttpRequest'', HttpRequestType), (''HttpWriter'', HttpWriterType),
      (''HttpFileServer'', HttpFileServerType), (''HttpHeader'', HttpHeaderType), (''HttpServerConfig'', HttpServerConfigType)]"

definition ResolveSpecID :: "string \<Rightarrow> htype option" where
  "ResolveSpecID type_id = map_of ResolveSpecID_table type_id"

definition concreteTypeIDs :: "string list" where
  "concreteTypeIDs =
     [''Bool'', ''Int8'', ''Int16'', ''Int32'', ''Int64'', ''UInt8'',
      ''UInt16'', ''UInt32'', ''UInt64'', ''Byte'', ''Int'', ''UInt'',
      ''Rune'', ''Float32'', ''Float64'', ''Float'', ''Size'', ''Nil'',
      ''EoS'', ''Unknown'', ''Heap'', ''String'', ''Error'', ''Mutex'',
      ''ByteCursor'', ''RuneCursor'', ''Grapheme'', ''GraphemeCursor'', ''ErrorKind'', ''NormalizationForm'',
      ''UnicodeCategory'', ''IO'', ''Bytes'', ''Seek'', ''File'', ''FileMode'',
      ''Duration'', ''Instant'', ''WallTime'', ''Address'', ''TcpConnection'', ''TcpListener'',
      ''Process'', ''Pipe'', ''ProcessOptions'', ''StartedProcess'', ''Environment'', ''EnvironmentVariable'',
      ''ProcessStream'', ''ExitStatus'', ''Signal'', ''Signals'', ''TerminalSize'', ''JsonValue'',
      ''JsonMember'', ''Pattern'', ''Span'', ''Match'', ''HttpRequest'', ''HttpWriter'',
      ''HttpFileServer'', ''HttpHeader'', ''HttpServerConfig'']"

definition isConcreteTypeID :: "string \<Rightarrow> bool" where
  "isConcreteTypeID type_id \<longleftrightarrow> type_id \<in> set concreteTypeIDs"

text \<open>The identifier of a builtin scalar.\<close>

definition SpecID_table :: "(htype \<times> string) list" where
  "SpecID_table =
     [(Bool_type, ''Bool''), (Int8, ''Int8''), (Int16, ''Int16''), (Int32, ''Int32''), (Int64, ''Int64''),
      (UInt8, ''UInt8''), (UInt16, ''UInt16''), (UInt32, ''UInt32''), (UInt64, ''UInt64''), (Rune_type, ''Rune''),
      (SizeType, ''Size''), (Float32, ''Float32''), (Float64, ''Float64'')]"

definition SpecID :: "htype \<Rightarrow> string option" where
  "SpecID t = map_option snd (find (\<lambda>row. Equal t (fst row)) SpecID_table)"

section \<open>Identity predicates\<close>

definition IsNil :: "htype \<Rightarrow> bool" where
  "IsNil t = (ty_ident t = ty_ident NilType)"

definition IsEoS :: "htype \<Rightarrow> bool" where
  "IsEoS t = (ty_ident t = ty_ident EoSType)"

definition IsError :: "htype \<Rightarrow> bool" where
  "IsError t = (ty_ident t = ty_ident ErrorType)"

definition IsUnknown :: "htype \<Rightarrow> bool" where
  "IsUnknown t = (ty_ident t = ty_ident UnknownType)"

definition IsHeap :: "htype \<Rightarrow> bool" where
  "IsHeap t = (ty_ident t = ty_ident HeapType)"

definition IsRune :: "htype \<Rightarrow> bool" where
  "IsRune t = (ty_ident t = ty_ident Rune_type)"

definition IsSize :: "htype \<Rightarrow> bool" where
  "IsSize t = (ty_ident t = ty_ident SizeType)"

definition IsString :: "htype \<Rightarrow> bool" where
  "IsString t = (ty_ident t = ty_ident StringType)"

definition IsMutex :: "htype \<Rightarrow> bool" where
  "IsMutex t = (ty_ident t = ty_ident MutexType)"

definition IsByteCursor :: "htype \<Rightarrow> bool" where
  "IsByteCursor t = (ty_ident t = ty_ident ByteCursorType)"

definition IsRuneCursor :: "htype \<Rightarrow> bool" where
  "IsRuneCursor t = (ty_ident t = ty_ident RuneCursorType)"

definition IsGrapheme :: "htype \<Rightarrow> bool" where
  "IsGrapheme t = (ty_ident t = ty_ident GraphemeType)"

definition IsGraphemeCursor :: "htype \<Rightarrow> bool" where
  "IsGraphemeCursor t = (ty_ident t = ty_ident GraphemeCursorType)"

definition IsIO :: "htype \<Rightarrow> bool" where
  "IsIO t = (ty_ident t = ty_ident IOType)"

definition IsBytes :: "htype \<Rightarrow> bool" where
  "IsBytes t = (ty_ident t = ty_ident BytesType)"

definition IsDuration :: "htype \<Rightarrow> bool" where
  "IsDuration t = (ty_ident t = ty_ident DurationType)"

definition IsInstant :: "htype \<Rightarrow> bool" where
  "IsInstant t = (ty_ident t = ty_ident InstantType)"

definition IsWallTime :: "htype \<Rightarrow> bool" where
  "IsWallTime t = (ty_ident t = ty_ident WallTimeType)"

definition IsCursor :: "htype \<Rightarrow> bool" where
  "IsCursor t \<longleftrightarrow> IsByteCursor t \<or> IsRuneCursor t \<or> IsGraphemeCursor t"

definition IsTime :: "htype \<Rightarrow> bool" where
  "IsTime t \<longleftrightarrow> IsDuration t \<or> IsInstant t \<or> IsWallTime t"

fun IsInlineString :: "htype \<Rightarrow> bool" where
  "IsInlineString (InlineStringT _ _) = True"
| "IsInlineString _ = False"

definition IsText :: "htype \<Rightarrow> bool" where
  "IsText t \<longleftrightarrow> IsString t \<or> IsInlineString t"

fun IsUnionShape :: "htype \<Rightarrow> bool" where
  "IsUnionShape (UnionT _ _) = True"
| "IsUnionShape _ = False"

definition IsUnion :: "htype \<Rightarrow> bool" where
  "IsUnion t \<longleftrightarrow> IsUnionShape t \<or> IsNullable t"

text \<open>\<open>canonicalOpaqueTypes\<close>: the compiler-owned capability types whose canonicality is identity alone.\<close>

definition canonicalOpaqueTypes :: "nat list" where
  "canonicalOpaqueTypes =
     map ty_ident
       [IOType, BytesType, FileType, TcpConnectionType, TcpListenerType, ProcessType, PipeType, SignalsType,
        DurationType, InstantType, WallTimeType, RegexPatternType, HttpRequestType, HttpWriterType,
        HttpFileServerType]"

end
