(* ===== verification/Numerics.thy ===== *)
theory Numerics
  imports TypeBuiltins
begin

text \<open>
  The numeric registries and the rules over them: the operand matrix of operators, the ranks, the
  widening and conversion pairs (\<open>specdata/operators.go\<close>), the C scalar mappings of the targets
  (\<open>specdata/scalars.go\<close>, \<open>specdata/targets.go\<close>) with the checks each registry is validated by,
  and the widening relation and least common type of \<open>types/widening.go\<close>. A registry's
  \<open>validate\<close> function answers the first error it finds; here it answers whether there is none.
\<close>

section \<open>Identity sets\<close>

definition numericIdentities :: "string list" where
  "numericIdentities =
     [''Int8'', ''Int16'', ''Int32'', ''Int64'', ''UInt8'', ''UInt16'', ''UInt32'', ''UInt64'',
      ''Float32'', ''Float64'', ''Rune'', ''Size'']"

definition integerIdentities :: "string list" where
  "integerIdentities =
     [''Int8'', ''Int16'', ''Int32'', ''Int64'', ''UInt8'', ''UInt16'', ''UInt32'', ''UInt64'',
      ''Rune'', ''Size'']"

definition signedNumericIdentities :: "string list" where
  "signedNumericIdentities =
     [''Int8'', ''Int16'', ''Int32'', ''Int64'', ''Float32'', ''Float64'']"

definition scalarIdentities :: "string list" where
  "scalarIdentities =
     [''Bool'', ''Int8'', ''Int16'', ''Int32'', ''Int64'', ''UInt8'', ''UInt16'', ''UInt32'',
      ''UInt64'', ''Float32'', ''Float64'', ''Rune'', ''Size'']"

section \<open>The operator matrix\<close>

text \<open>A row lists its operand types or admits any operand.\<close>

record operator_spec =
  os_id :: string
  os_operands :: "string list"
  os_any_operand :: bool

definition operators :: "operator_spec list" where
  "operators =
     (let listed = (\<lambda>operator_id operands. \<lparr>os_id = operator_id, os_operands = operands, os_any_operand = False\<rparr>);
          open_row = (\<lambda>operator_id. \<lparr>os_id = operator_id, os_operands = [], os_any_operand = True\<rparr>)
      in [listed ''negate'' signedNumericIdentities,
          open_row ''logical_not'',
          listed ''bitwise_not'' integerIdentities,
          listed ''add'' numericIdentities,
          listed ''subtract'' numericIdentities,
          listed ''multiply'' numericIdentities,
          listed ''divide'' numericIdentities,
          listed ''remainder'' integerIdentities,
          listed ''bitwise_and'' integerIdentities,
          listed ''bitwise_xor'' integerIdentities,
          listed ''bitwise_or'' integerIdentities,
          listed ''shift_left'' integerIdentities,
          listed ''shift_right'' integerIdentities,
          listed ''equal'' scalarIdentities,
          listed ''not_equal'' scalarIdentities,
          listed ''less'' numericIdentities,
          listed ''less_equal'' numericIdentities,
          listed ''greater'' numericIdentities,
          listed ''greater_equal'' numericIdentities,
          open_row ''logical_and'',
          open_row ''logical_or''])"

definition Operator_row :: "string \<Rightarrow> operator_spec option" where
  "Operator_row operator_id = find (\<lambda>row. os_id row = operator_id) operators"

section \<open>Ranks, widening and conversion\<close>

definition numericRanks :: "(string \<times> int) list" where
  "numericRanks =
     [(''Int8'', 0), (''UInt8'', 1), (''Int16'', 2), (''UInt16'', 3), (''Int32'', 4),
      (''UInt32'', 5), (''Int64'', 6), (''UInt64'', 7), (''Float32'', 8), (''Float64'', 9)]"

definition wideningPairs :: "(string \<times> string) list" where
  "wideningPairs =
     [(''Int8'', ''Int16''), (''Int8'', ''Int32''), (''Int8'', ''Int64''), (''Int8'', ''Float32''),
      (''Int8'', ''Float64''), (''Int16'', ''Int32''), (''Int16'', ''Int64''), (''Int16'', ''Float32''),
      (''Int16'', ''Float64''), (''Int32'', ''Int64''), (''Int32'', ''Float64''), (''UInt8'', ''UInt16''),
      (''UInt8'', ''UInt32''), (''UInt8'', ''UInt64''), (''UInt8'', ''Int16''), (''UInt8'', ''Int32''),
      (''UInt8'', ''Int64''), (''UInt8'', ''Float32''), (''UInt8'', ''Float64''), (''UInt16'', ''UInt32''),
      (''UInt16'', ''UInt64''), (''UInt16'', ''Int32''), (''UInt16'', ''Int64''), (''UInt16'', ''Float32''),
      (''UInt16'', ''Float64''), (''UInt32'', ''UInt64''), (''UInt32'', ''Int64''), (''UInt32'', ''Float64''),
      (''Float32'', ''Float64'')]"

definition conversionMatrix :: "string list \<Rightarrow> (string \<times> string) list" where
  "conversionMatrix ids = concat (map (\<lambda>from_id. map (Pair from_id) ids) ids)"

definition conversions :: "(string \<times> string) list" where
  "conversions = conversionMatrix numericIdentities"

definition WideningTargets :: "string \<Rightarrow> string list" where
  "WideningTargets from_id = map snd (filter (\<lambda>pair. fst pair = from_id) wideningPairs)"

definition Widening :: "string \<Rightarrow> string \<Rightarrow> bool" where
  "Widening from_id to_id \<longleftrightarrow> (\<exists>pair\<in>set wideningPairs. fst pair = from_id \<and> snd pair = to_id)"

definition NumericRank :: "string \<Rightarrow> int option" where
  "NumericRank type_id = map_of numericRanks type_id"

definition Conversion :: "string \<Rightarrow> string \<Rightarrow> bool" where
  "Conversion from_id to_id \<longleftrightarrow> (\<exists>row\<in>set conversions. fst row = from_id \<and> snd row = to_id)"

section \<open>Registry validation\<close>

text \<open>A map from keys already seen is the list of those keys.\<close>

definition valid_operands :: "string list \<Rightarrow> bool" where
  "valid_operands operands \<longleftrightarrow> (\<forall>operand\<in>set operands. isConcreteTypeID operand) \<and> distinct operands"

definition validateOperatorMatrix :: "operator_spec list \<Rightarrow> bool" where
  "validateOperatorMatrix rows \<longleftrightarrow>
     (\<forall>row\<in>set rows. os_id row \<noteq> [] \<and> (os_operands row = [] \<longleftrightarrow> os_any_operand row) \<and> valid_operands (os_operands row))
       \<and> distinct (map os_id rows)"

definition validateNumericRanks :: "(string \<times> int) list \<Rightarrow> bool" where
  "validateNumericRanks ranks \<longleftrightarrow>
     (\<forall>entry\<in>set ranks. isConcreteTypeID (fst entry) \<and> 0 \<le> snd entry)
       \<and> distinct (map fst ranks) \<and> distinct (map snd ranks)"

definition validateWideningPairs :: "(string \<times> string) list \<Rightarrow> (string \<times> int) list \<Rightarrow> bool" where
  "validateWideningPairs pairs ranks \<longleftrightarrow>
     (\<forall>pair\<in>set pairs.
        (case (map_of (rev ranks) (fst pair), map_of (rev ranks) (snd pair)) of
           (Some from_rank, Some to_rank) \<Rightarrow> fst pair \<noteq> snd pair \<and> from_rank < to_rank
         | _ \<Rightarrow> False))
       \<and> distinct pairs"

definition validateConversions :: "(string \<times> string) list \<Rightarrow> string list \<Rightarrow> bool" where
  "validateConversions rows numeric \<longleftrightarrow>
     (\<forall>row\<in>set rows. fst row \<in> set numeric \<and> snd row \<in> set numeric) \<and> distinct rows
       \<and> (\<forall>from_id\<in>set numeric. \<forall>to_id\<in>set numeric. (from_id, to_id) \<in> set rows)"

definition validateOperators :: bool where
  "validateOperators \<longleftrightarrow>
     validateOperatorMatrix operators \<and> validateNumericRanks numericRanks
       \<and> validateWideningPairs wideningPairs numericRanks \<and> validateConversions conversions numericIdentities"

section \<open>Targets and C scalars\<close>

record target_facts =
  ta_id :: string
  ta_os :: string
  ta_architecture :: string
  ta_little_endian :: bool
  ta_pointer_width :: int
  ta_size_width :: int
  ta_windows :: bool
  ta_threading :: string
  ta_tls :: bool
  ta_fibers :: bool
  ta_native_io :: bool

definition targetFacts :: "target_facts list" where
  "targetFacts =
     [\<lparr>ta_id = ''windows-ucrt'', ta_os = ''windows'', ta_architecture = ''x86_64'', ta_little_endian = True,
       ta_pointer_width = 64, ta_size_width = 64, ta_windows = True, ta_threading = ''windows'', ta_tls = True,
       ta_fibers = True, ta_native_io = True\<rparr>,
      \<lparr>ta_id = ''linux-gnu'', ta_os = ''linux'', ta_architecture = ''x86_64'', ta_little_endian = True,
       ta_pointer_width = 64, ta_size_width = 64, ta_windows = False, ta_threading = ''posix'', ta_tls = True,
       ta_fibers = True, ta_native_io = True\<rparr>]"

definition Target :: "string \<Rightarrow> target_facts option" where
  "Target target_id = find (\<lambda>facts. ta_id facts = target_id) targetFacts"

definition validateTargets :: "target_facts list \<Rightarrow> bool" where
  "validateTargets facts \<longleftrightarrow>
     (\<forall>f\<in>set facts. ta_id f \<noteq> [] \<and> ta_os f \<noteq> [] \<and> ta_architecture f \<noteq> []
        \<and> 0 < ta_pointer_width f \<and> 0 < ta_size_width f \<and> ta_threading f \<noteq> [])
       \<and> distinct (map ta_id facts)"

definition targetScalars :: "(string \<times> (string \<times> string) list) list" where
  "targetScalars =
     [(''windows-ucrt'',
           [(''_Bool'', ''Bool''), (''bool'', ''Bool''), (''char'', ''Int8''),
             (''signed char'', ''Int8''), (''unsigned char'', ''UInt8''), (''short'', ''Int16''),
             (''short int'', ''Int16''), (''signed short'', ''Int16''), (''signed short int'', ''Int16''),
             (''unsigned short'', ''UInt16''), (''unsigned short int'', ''UInt16''), (''int'', ''Int32''),
             (''signed'', ''Int32''), (''signed int'', ''Int32''), (''unsigned'', ''UInt32''),
             (''unsigned int'', ''UInt32''), (''long'', ''Int32''), (''long int'', ''Int32''),
             (''signed long'', ''Int32''), (''signed long int'', ''Int32''), (''unsigned long'', ''UInt32''),
             (''unsigned long int'', ''UInt32''), (''long long'', ''Int64''), (''long long int'', ''Int64''),
             (''signed long long'', ''Int64''), (''signed long long int'', ''Int64''), (''unsigned long long'', ''UInt64''),
             (''unsigned long long int'', ''UInt64''), (''float'', ''Float32''), (''double'', ''Float64''),
             (''size_t'', ''Size''), (''int8_t'', ''Int8''), (''int16_t'', ''Int16''),
             (''int32_t'', ''Int32''), (''int64_t'', ''Int64''), (''uint8_t'', ''UInt8''),
             (''uint16_t'', ''UInt16''), (''uint32_t'', ''UInt32''), (''uint64_t'', ''UInt64'')]),
      (''linux-gnu'',
           [(''_Bool'', ''Bool''), (''bool'', ''Bool''), (''char'', ''Int8''),
             (''signed char'', ''Int8''), (''unsigned char'', ''UInt8''), (''short'', ''Int16''),
             (''short int'', ''Int16''), (''signed short'', ''Int16''), (''signed short int'', ''Int16''),
             (''unsigned short'', ''UInt16''), (''unsigned short int'', ''UInt16''), (''int'', ''Int32''),
             (''signed'', ''Int32''), (''signed int'', ''Int32''), (''unsigned'', ''UInt32''),
             (''unsigned int'', ''UInt32''), (''long'', ''Int64''), (''long int'', ''Int64''),
             (''signed long'', ''Int64''), (''signed long int'', ''Int64''), (''unsigned long'', ''UInt64''),
             (''unsigned long int'', ''UInt64''), (''long long'', ''Int64''), (''long long int'', ''Int64''),
             (''signed long long'', ''Int64''), (''signed long long int'', ''Int64''), (''unsigned long long'', ''UInt64''),
             (''unsigned long long int'', ''UInt64''), (''float'', ''Float32''), (''double'', ''Float64''),
             (''size_t'', ''Size''), (''int8_t'', ''Int8''), (''int16_t'', ''Int16''),
             (''int32_t'', ''Int32''), (''int64_t'', ''Int64''), (''uint8_t'', ''UInt8''),
             (''uint16_t'', ''UInt16''), (''uint32_t'', ''UInt32''), (''uint64_t'', ''UInt64'')])]"

text \<open>\<open>CScalar\<close> searches every set of the target; \<open>CScalars\<close> answers the first.\<close>

definition CScalar :: "string \<Rightarrow> string \<Rightarrow> (string \<times> string) option" where
  "CScalar target spelling =
     find (\<lambda>mapping. fst mapping = spelling)
       (concat (map snd (filter (\<lambda>entry. fst entry = target) targetScalars)))"

definition CScalars :: "string \<Rightarrow> (string \<times> string) list option" where
  "CScalars target = map_of targetScalars target"

definition last_mapping :: "string \<Rightarrow> (string \<times> string) list \<Rightarrow> string" where
  "last_mapping spelling mappings =
     (case find (\<lambda>mapping. fst mapping = spelling) (rev mappings) of None \<Rightarrow> [] | Some mapping \<Rightarrow> snd mapping)"

definition valid_mappings :: "(string \<times> string) list \<Rightarrow> bool" where
  "valid_mappings mappings \<longleftrightarrow>
     (\<forall>mapping\<in>set mappings. fst mapping \<noteq> [] \<and> isConcreteTypeID (snd mapping)) \<and> distinct (map fst mappings)
       \<and> (let long_type = last_mapping ''long'' mappings
          in (long_type = ''Int32'' \<or> long_type = ''Int64'')
             \<and> last_mapping ''unsigned long'' mappings = (if long_type = ''Int64'' then ''UInt64'' else ''UInt32''))"

definition validateScalars :: "(string \<times> (string \<times> string) list) list \<Rightarrow> bool" where
  "validateScalars sets \<longleftrightarrow>
     (\<forall>entry\<in>set sets. fst entry \<noteq> [] \<and> Target (fst entry) \<noteq> None \<and> valid_mappings (snd entry))
       \<and> distinct (map fst sets)"

section \<open>The widening relation\<close>

definition losslessWideningSet :: "htype \<Rightarrow> htype list" where
  "losslessWideningSet t =
     (if \<not> IsInteger t \<and> \<not> IsFloat t then []
      else t # (case SpecID t of
                  None \<Rightarrow> []
                | Some from_id \<Rightarrow> List.map_filter ResolveSpecID (WideningTargets from_id)))"

definition WidensTo :: "htype \<Rightarrow> htype \<Rightarrow> bool" where
  "WidensTo source target =
     (if Equal source target then True
      else if \<not> IsInteger source \<and> \<not> IsFloat source \<or> \<not> IsInteger target \<and> \<not> IsFloat target then False
      else case (SpecID source, SpecID target) of
             (Some from_id, Some to_id) \<Rightarrow> Widening from_id to_id
           | _ \<Rightarrow> False)"

text \<open>The best ranked candidate so far, replaced only by a strictly lower rank.\<close>

definition better_candidate :: "(htype \<times> int) option \<Rightarrow> htype \<Rightarrow> (htype \<times> int) option" where
  "better_candidate best t =
     (case Option.bind (SpecID t) NumericRank of
        None \<Rightarrow> best
      | Some rank \<Rightarrow>
          (case best of
             None \<Rightarrow> Some (t, rank)
           | Some (_, best_rank) \<Rightarrow> if rank < best_rank then Some (t, rank) else best))"

definition LosslessCommonType :: "htype \<Rightarrow> htype \<Rightarrow> htype option" where
  "LosslessCommonType left right =
     (if Equal left right then Some left
      else if \<not> IsInteger left \<and> \<not> IsFloat left \<or> \<not> IsInteger right \<and> \<not> IsFloat right then None
      else
        let candidates =
              filter (\<lambda>t. \<exists>other\<in>set (losslessWideningSet right). ty_name t = ty_name other)
                (losslessWideningSet left)
        in map_option fst (foldl better_candidate None candidates))"

end
