(* ===== verification/NumericLaws.thy ===== *)
theory NumericLaws
  imports Numerics Complex_Main
begin

text \<open>
  What the numeric registries promise. Every registry passes the checks it is validated by; implicit
  widening among the fixed-width types is exactly inclusion of their value sets, integers by range
  and floats as binary fractions; and the least common type of two operands is the least ranked type
  both widen to. The value sets are rational numbers.
\<close>

section \<open>The fixed-width types\<close>

definition fixed_width :: "htype list" where
  "fixed_width = [Int8, Int16, Int32, Int64, UInt8, UInt16, UInt32, UInt64, Float32, Float64]"

lemmas scalar_defs = Int8_def Int16_def Int32_def Int64_def UInt8_def UInt16_def UInt32_def
  UInt64_def Float32_def Float64_def Rune_type_def SizeType_def Bool_type_def

lemma scalar_idents [simp]:
  "ty_ident Int8 = 0" "ty_ident Int16 = 1" "ty_ident Int32 = 2" "ty_ident Int64 = 3"
  "ty_ident UInt8 = 4" "ty_ident UInt16 = 5" "ty_ident UInt32 = 6" "ty_ident UInt64 = 7"
  "ty_ident Rune_type = 8" "ty_ident Float32 = 9" "ty_ident Float64 = 10" "ty_ident Bool_type = 11"
  "ty_ident SizeType = 17"
  by (simp_all add: scalar_defs scalarType_def)

lemma scalar_names [simp]:
  "ty_name Int8 = ''Int8''" "ty_name Int16 = ''Int16''" "ty_name Int32 = ''Int32''"
  "ty_name Int64 = ''Int64''" "ty_name UInt8 = ''UInt8''" "ty_name UInt16 = ''UInt16''"
  "ty_name UInt32 = ''UInt32''" "ty_name UInt64 = ''UInt64''" "ty_name Float32 = ''Float32''"
  "ty_name Float64 = ''Float64''"
  by (simp_all add: scalar_defs scalarType_def)

lemma scalar_kinds [simp]:
  "ty_kind Int8 = ScalarSignedInteger" "ty_kind Int16 = ScalarSignedInteger"
  "ty_kind Int32 = ScalarSignedInteger" "ty_kind Int64 = ScalarSignedInteger"
  "ty_kind UInt8 = ScalarUnsignedInteger" "ty_kind UInt16 = ScalarUnsignedInteger"
  "ty_kind UInt32 = ScalarUnsignedInteger" "ty_kind UInt64 = ScalarUnsignedInteger"
  "ty_kind Rune_type = ScalarUnsignedInteger" "ty_kind SizeType = ScalarUnsignedInteger"
  "ty_kind Float32 = ScalarFloat" "ty_kind Float64 = ScalarFloat" "ty_kind Bool_type = ScalarBool"
  by (simp_all add: scalar_defs scalarType_def)

lemma scalar_bits [simp]:
  "ty_bits Int8 = 8" "ty_bits Int16 = 16" "ty_bits Int32 = 32" "ty_bits Int64 = 64"
  "ty_bits UInt8 = 8" "ty_bits UInt16 = 16" "ty_bits UInt32 = 32" "ty_bits UInt64 = 64"
  "ty_bits Rune_type = 32" "ty_bits SizeType = 64" "ty_bits Float32 = 32" "ty_bits Float64 = 64"
  by (simp_all add: scalar_defs scalarType_def)

lemma fixed_width_numeric: "t \<in> set fixed_width \<Longrightarrow> IsInteger t \<or> IsFloat t"
  by (auto simp: fixed_width_def IsInteger_def IsFloat_def)

section \<open>Registries\<close>

lemma conversionMatrix_product: "conversionMatrix ids = List.product ids ids"
  by (simp add: conversionMatrix_def List.product_concat_map)

lemma conversionMatrix_valid: "distinct ids \<Longrightarrow> validateConversions (conversionMatrix ids) ids"
  unfolding validateConversions_def conversionMatrix_product by (auto simp: distinct_product)

lemma validateOperators_holds: "validateOperators"
proof -
  have "validateOperatorMatrix operators" by code_simp
  moreover have "validateNumericRanks numericRanks" by code_simp
  moreover have "validateWideningPairs wideningPairs numericRanks" by code_simp
  moreover have "distinct numericIdentities" by code_simp
  ultimately show ?thesis
    by (simp add: validateOperators_def conversions_def conversionMatrix_valid)
qed

lemma Conversion_iff: "Conversion a b \<longleftrightarrow> a \<in> set numericIdentities \<and> b \<in> set numericIdentities"
  by (auto simp: Conversion_def conversions_def conversionMatrix_product)

text \<open>The spellings on which the two data models differ.\<close>

definition long_family :: "string list" where
  "long_family =
     [''long'', ''long int'', ''signed long'', ''signed long int'', ''unsigned long'', ''unsigned long int'']"

lemma cscalar_tables:
  "filter (\<lambda>row. fst row \<notin> set long_family) (snd (targetScalars ! 0))
     = filter (\<lambda>row. fst row \<notin> set long_family) (snd (targetScalars ! 1))"
  "map fst (snd (targetScalars ! 0)) = map fst (snd (targetScalars ! 1))"
  by code_simp+

section \<open>Value sets\<close>

text \<open>A binary float with \<open>p\<close> bits of precision: \<open>m * 2^e\<close> with \<open>|m| < 2^p\<close>.\<close>

definition float_values :: "nat \<Rightarrow> int \<Rightarrow> int \<Rightarrow> rat set" where
  "float_values p emin emax = {of_int m * 2 powi e |m e. \<bar>m\<bar> < 2 ^ p \<and> emin \<le> e \<and> e \<le> emax}"

definition scalar_values :: "htype \<Rightarrow> rat set" where
  "scalar_values t =
     (if IsSignedInteger t then of_int ` {- (2 ^ (ty_bits t - 1)) ..< 2 ^ (ty_bits t - 1)}
      else if IsUnsignedInteger t then of_int ` {0 ..< 2 ^ ty_bits t}
      else if IsFloat t then
        (if ty_bits t = 32 then float_values 24 (-149) 104 else float_values 53 (-1074) 971)
      else {})"

lemma int_values_subset:
  fixes a b c d :: int
  assumes "a < b"
  shows "(of_int ` {a..<b} :: rat set) \<subseteq> of_int ` {c..<d} \<longleftrightarrow> c \<le> a \<and> b \<le> d"
proof -
  have "(of_int ` {a..<b} :: rat set) \<subseteq> of_int ` {c..<d} \<longleftrightarrow> {a..<b} \<subseteq> {c..<d}"
    by (rule inj_image_subset_iff) (simp add: inj_def)
  then show ?thesis using assms by auto
qed

lemma int_in_float_values:
  assumes "\<bar>i\<bar> \<le> 2 ^ p" "0 < p" "emin \<le> 0" "1 \<le> emax"
  shows "of_int i \<in> float_values p emin emax"
proof (cases "\<bar>i\<bar> < 2 ^ p")
  case True
  then have "of_int i = (of_int i * 2 powi 0 :: rat) \<and> \<bar>i\<bar> < 2 ^ p \<and> emin \<le> 0 \<and> 0 \<le> emax"
    using assms by simp
  then show ?thesis unfolding float_values_def by blast
next
  case False
  define m :: int where "m = (if 0 \<le> i then 2 ^ (p - 1) else - (2 ^ (p - 1)))"
  obtain q where p: "p = Suc q" using assms(2) by (cases p) auto
  have "i = m * 2" using False assms(1) by (auto simp: m_def p split: if_splits)
  moreover have "\<bar>m\<bar> < 2 ^ p" by (simp add: m_def p)
  ultimately have "of_int i = (of_int m * 2 powi 1 :: rat) \<and> \<bar>m\<bar> < 2 ^ p \<and> emin \<le> 1 \<and> 1 \<le> emax"
    using assms by simp
  then show ?thesis unfolding float_values_def by blast
qed

lemma odd_not_in_float_values:
  assumes "0 < p"
  shows "of_int (2 ^ p + 1) \<notin> float_values p emin emax" "of_int (- (2 ^ p + 1)) \<notin> float_values p emin emax"
proof -
  have no: False if m: "\<bar>m\<bar> < 2 ^ p" and eq: "(of_int k :: rat) = of_int m * 2 powi e" and k: "\<bar>k\<bar> = 2 ^ p + 1"
    for m e k :: int
  proof (cases "0 < e")
    case True
    then have "(of_int k :: rat) = of_int (m * 2 ^ nat e)"
      using eq by (simp add: power_int_def)
    then have "k = m * 2 ^ nat e" by (simp only: of_int_eq_iff)
    then have "even k" using True by simp
    then have "even \<bar>k\<bar>" by simp
    then show False using assms unfolding k by simp
  next
    case False
    then have "(of_int (k * 2 ^ nat (- e)) :: rat) = of_int m"
      using eq by (simp add: power_int_def field_simps)
    then have "k * 2 ^ nat (- e) = m" by (simp only: of_int_eq_iff)
    then have "\<bar>k\<bar> * 2 ^ nat (- e) = \<bar>m\<bar>" by (metis abs_mult abs_numeral power_abs)
    moreover have "\<bar>k\<bar> * 1 \<le> \<bar>k\<bar> * 2 ^ nat (- e)" by (rule mult_left_mono) auto
    ultimately show False using m k by simp
  qed
  show "of_int (2 ^ p + 1) \<notin> float_values p emin emax"
    unfolding float_values_def using no [of _ "2 ^ p + 1"] by (auto simp del: of_int_add of_int_power)
  show "of_int (- (2 ^ p + 1)) \<notin> float_values p emin emax"
    unfolding float_values_def using no [of _ "- (2 ^ p + 1)"] by (auto simp del: of_int_add of_int_power of_int_minus)
qed

lemma int_float_values_subset:
  fixes a b :: int
  assumes "a \<le> 0" "0 < b" "0 < p" "emin \<le> 0" "1 \<le> emax"
  shows "of_int ` {a..<b} \<subseteq> float_values p emin emax \<longleftrightarrow> - (2 ^ p) \<le> a \<and> b \<le> 2 ^ p + 1"
proof
  assume *: "of_int ` {a..<b} \<subseteq> float_values p emin emax"
  have "2 ^ p + 1 \<notin> {a..<b}" "- (2 ^ p + 1) \<notin> {a..<b}"
    using * odd_not_in_float_values [OF assms(3)] by blast+
  moreover have "(0::int) < 2 ^ p" by simp
  ultimately show "- (2 ^ p) \<le> a \<and> b \<le> 2 ^ p + 1" using assms(1,2) by (smt (verit) atLeastLessThan_iff)
next
  assume "- (2 ^ p) \<le> a \<and> b \<le> 2 ^ p + 1"
  then have "\<bar>i\<bar> \<le> 2 ^ p" if "i \<in> {a..<b}" for i using that by auto
  then show "of_int ` {a..<b} \<subseteq> float_values p emin emax"
    using assms int_in_float_values by blast
qed

lemma float_int_values:
  assumes "0 < p" "emin \<le> -1" "0 \<le> emax"
  shows "\<not> float_values p emin emax \<subseteq> of_int ` A"
proof
  assume *: "float_values p emin emax \<subseteq> of_int ` A"
  have "(1 :: int) < 2 ^ p" using assms(1) by simp
  then have "(1 / 2 :: rat) = of_int 1 * 2 powi (-1) \<and> \<bar>1::int\<bar> < 2 ^ p \<and> emin \<le> -1 \<and> -1 \<le> emax"
    using assms by (simp add: power_int_def)
  then have "(1 / 2 :: rat) \<in> float_values p emin emax" unfolding float_values_def by blast
  then obtain i :: int where "(1 / 2 :: rat) = of_int i" using * by blast
  then have "(of_int 1 :: rat) = of_int (2 * i)" by (simp add: field_simps)
  then have "1 = 2 * i" by (simp only: of_int_eq_iff)
  then show False by presburger
qed

lemma float_values_mono:
  assumes "p \<le> q" "f \<le> emin" "emax \<le> g"
  shows "float_values p emin emax \<subseteq> float_values q f g"
proof -
  have "(2 :: int) ^ p \<le> 2 ^ q" using assms(1) by (rule power_increasing) simp
  then have "\<bar>m\<bar> < 2 ^ q" if "\<bar>m\<bar> < 2 ^ p" for m :: int using that by linarith
  moreover have "f \<le> e" "e \<le> g" if "emin \<le> e" "e \<le> emax" for e using that assms(2,3) by auto
  ultimately show ?thesis unfolding float_values_def by blast
qed

lemma float_values_wider:
  assumes "p < q" "0 < p" "f \<le> 0" "1 \<le> g"
  shows "\<not> float_values q f g \<subseteq> float_values p emin emax"
proof -
  have "(2 :: int) ^ Suc p \<le> 2 ^ q" using assms(1) by (intro power_increasing) auto
  moreover have one: "(1 :: int) \<le> 2 ^ p" by simp
  ultimately have "(2 :: int) ^ p + 1 \<le> 2 ^ q" unfolding power_Suc by linarith
  moreover have "\<bar>2 ^ p + 1 :: int\<bar> = 2 ^ p + 1" using one by linarith
  ultimately have "\<bar>2 ^ p + 1 :: int\<bar> \<le> 2 ^ q" by linarith
  then have "of_int (2 ^ p + 1) \<in> float_values q f g"
    using assms by (intro int_in_float_values) auto
  then show ?thesis using odd_not_in_float_values [OF assms(2)] by blast
qed

section \<open>Widening is value inclusion\<close>

lemma scalar_values_simps:
  "scalar_values Int8 = of_int ` {- 128 ..< 128}" "scalar_values Int16 = of_int ` {- 32768 ..< 32768}"
  "scalar_values Int32 = of_int ` {- 2147483648 ..< 2147483648}"
  "scalar_values Int64 = of_int ` {- 9223372036854775808 ..< 9223372036854775808}"
  "scalar_values UInt8 = of_int ` {0 ..< 256}" "scalar_values UInt16 = of_int ` {0 ..< 65536}"
  "scalar_values UInt32 = of_int ` {0 ..< 4294967296}"
  "scalar_values UInt64 = of_int ` {0 ..< 18446744073709551616}"
  "scalar_values Float32 = float_values 24 (-149) 104"
  "scalar_values Float64 = float_values 53 (-1074) 971"
  by (simp_all add: scalar_values_def IsSignedInteger_def IsUnsignedInteger_def IsFloat_def)

lemma SpecID_scalars [simp]:
  "SpecID Int8 = Some ''Int8''" "SpecID Int16 = Some ''Int16''" "SpecID Int32 = Some ''Int32''"
  "SpecID Int64 = Some ''Int64''" "SpecID UInt8 = Some ''UInt8''" "SpecID UInt16 = Some ''UInt16''"
  "SpecID UInt32 = Some ''UInt32''" "SpecID UInt64 = Some ''UInt64''" "SpecID Float32 = Some ''Float32''"
  "SpecID Float64 = Some ''Float64''" "SpecID Rune_type = Some ''Rune''" "SpecID SizeType = Some ''Size''"
  "SpecID Bool_type = Some ''Bool''"
  by (simp_all add: SpecID_def SpecID_table_def Equal_def)

lemma WideningTargets_simps:
  "WideningTargets ''Int8'' = [''Int16'', ''Int32'', ''Int64'', ''Float32'', ''Float64'']"
  "WideningTargets ''Int16'' = [''Int32'', ''Int64'', ''Float32'', ''Float64'']"
  "WideningTargets ''Int32'' = [''Int64'', ''Float64'']"
  "WideningTargets ''Int64'' = []"
  "WideningTargets ''UInt8'' =
     [''UInt16'', ''UInt32'', ''UInt64'', ''Int16'', ''Int32'', ''Int64'', ''Float32'', ''Float64'']"
  "WideningTargets ''UInt16'' = [''UInt32'', ''UInt64'', ''Int32'', ''Int64'', ''Float32'', ''Float64'']"
  "WideningTargets ''UInt32'' = [''UInt64'', ''Int64'', ''Float64'']"
  "WideningTargets ''UInt64'' = []"
  "WideningTargets ''Float32'' = [''Float64'']"
  "WideningTargets ''Float64'' = []"
  by code_simp+

lemma Widening_targets: "Widening a b \<longleftrightarrow> b \<in> set (WideningTargets a)"
  by (auto simp: Widening_def WideningTargets_def)

lemmas numeric_pair = int_values_subset int_float_values_subset float_int_values float_values_mono
  float_values_wider

lemma widening_of_pair:
  assumes "IsInteger s \<or> IsFloat s" "IsInteger t \<or> IsFloat t" "SpecID s = Some a" "SpecID t = Some b"
  shows "WidensTo s t \<longleftrightarrow> Equal s t \<or> b \<in> set (WideningTargets a)"
  using assms by (auto simp: WidensTo_def Widening_targets)

lemma widens_from:
  assumes "t \<in> set fixed_width"
  shows "WidensTo Int8 t \<longleftrightarrow> scalar_values Int8 \<subseteq> scalar_values t"
    "WidensTo Int16 t \<longleftrightarrow> scalar_values Int16 \<subseteq> scalar_values t"
    "WidensTo Int32 t \<longleftrightarrow> scalar_values Int32 \<subseteq> scalar_values t"
    "WidensTo Int64 t \<longleftrightarrow> scalar_values Int64 \<subseteq> scalar_values t"
    "WidensTo UInt8 t \<longleftrightarrow> scalar_values UInt8 \<subseteq> scalar_values t"
    "WidensTo UInt16 t \<longleftrightarrow> scalar_values UInt16 \<subseteq> scalar_values t"
    "WidensTo UInt32 t \<longleftrightarrow> scalar_values UInt32 \<subseteq> scalar_values t"
    "WidensTo UInt64 t \<longleftrightarrow> scalar_values UInt64 \<subseteq> scalar_values t"
    "WidensTo Float32 t \<longleftrightarrow> scalar_values Float32 \<subseteq> scalar_values t"
    "WidensTo Float64 t \<longleftrightarrow> scalar_values Float64 \<subseteq> scalar_values t"
  using assms unfolding fixed_width_def list.set insert_iff empty_iff
  by (elim disjE; simp add: widening_of_pair WideningTargets_simps Equal_def IsInteger_def IsFloat_def
        scalar_values_simps numeric_pair)+

lemma widening_is_inclusion:
  assumes "s \<in> set fixed_width" "t \<in> set fixed_width"
  shows "WidensTo s t \<longleftrightarrow> scalar_values s \<subseteq> scalar_values t"
  using assms(1) widens_from [OF assms(2)] unfolding fixed_width_def by auto

section \<open>The least common type\<close>

definition rank_of :: "htype \<Rightarrow> int option" where
  "rank_of t = Option.bind (SpecID t) NumericRank"

lemma rank_of_simps [simp]:
  "rank_of Int8 = Some 0" "rank_of UInt8 = Some 1" "rank_of Int16 = Some 2" "rank_of UInt16 = Some 3"
  "rank_of Int32 = Some 4" "rank_of UInt32 = Some 5" "rank_of Int64 = Some 6" "rank_of UInt64 = Some 7"
  "rank_of Float32 = Some 8" "rank_of Float64 = Some 9"
  by (simp_all add: rank_of_def NumericRank_def numericRanks_def)

lemma rank_of_fixed_width: "t \<in> set fixed_width \<Longrightarrow> \<exists>r. rank_of t = Some r"
  by (auto simp: fixed_width_def)

lemma rank_of_inject: "\<lbrakk>s \<in> set fixed_width; t \<in> set fixed_width; rank_of s = rank_of t\<rbrakk> \<Longrightarrow> s = t"
  by (auto simp: fixed_width_def)

lemma name_inject: "\<lbrakk>s \<in> set fixed_width; t \<in> set fixed_width; ty_name s = ty_name t\<rbrakk> \<Longrightarrow> s = t"
  by (auto simp: fixed_width_def)

lemma SpecID_inject: "\<lbrakk>s \<in> set fixed_width; t \<in> set fixed_width; SpecID s = SpecID t\<rbrakk> \<Longrightarrow> s = t"
  by (auto simp: fixed_width_def)

lemma Equal_fixed_width: "\<lbrakk>s \<in> set fixed_width; t \<in> set fixed_width; Equal s t\<rbrakk> \<Longrightarrow> s = t"
  by (auto simp: fixed_width_def Equal_def)

lemma better_candidate_rank:
  "better_candidate best t =
     (case rank_of t of None \<Rightarrow> best
      | Some r \<Rightarrow> (case best of None \<Rightarrow> Some (t, r) | Some (_, b) \<Rightarrow> if r < b then Some (t, r) else best))"
  by (simp add: better_candidate_def rank_of_def)

lemma foldl_better_candidate:
  assumes "\<forall>v\<in>set cs. rank_of v \<noteq> None" "cs \<noteq> []"
  shows "\<exists>u r. foldl better_candidate None cs = Some (u, r) \<and> u \<in> set cs \<and> rank_of u = Some r
    \<and> (\<forall>v\<in>set cs. r \<le> the (rank_of v))"
  using assms
proof (induction cs rule: rev_induct)
  case (snoc c cs)
  from snoc.prems obtain rc where rc: "rank_of c = Some rc" by auto
  show ?case
  proof (cases "cs = []")
    case True
    then show ?thesis using rc by (simp add: better_candidate_rank)
  next
    case False
    with snoc obtain u r where "foldl better_candidate None cs = Some (u, r)" "u \<in> set cs"
      "rank_of u = Some r" "\<forall>v\<in>set cs. r \<le> the (rank_of v)"
      by auto
    moreover have "better_candidate (Some (u, r)) c = (if rc < r then Some (c, rc) else Some (u, r))"
      by (simp add: better_candidate_rank rc)
    ultimately show ?thesis using rc by fastforce
  qed
qed simp

lemma ResolveSpecID_simps:
  "ResolveSpecID ''Int16'' = Some Int16" "ResolveSpecID ''Int32'' = Some Int32"
  "ResolveSpecID ''Int64'' = Some Int64" "ResolveSpecID ''UInt16'' = Some UInt16"
  "ResolveSpecID ''UInt32'' = Some UInt32" "ResolveSpecID ''UInt64'' = Some UInt64"
  "ResolveSpecID ''Float32'' = Some Float32" "ResolveSpecID ''Float64'' = Some Float64"
  by (simp_all add: ResolveSpecID_def ResolveSpecID_table_def)

lemma set_map_filter: "set (List.map_filter f xs) = {y. \<exists>x\<in>set xs. f x = Some y}"
  by (induction xs) (auto simp: map_filter_simps split: option.splits)

lemma target_names:
  "set (WideningTargets a)
     \<subseteq> {''Int16'', ''Int32'', ''Int64'', ''UInt16'', ''UInt32'', ''UInt64'', ''Float32'', ''Float64''}"
proof -
  have "set (WideningTargets a) \<subseteq> snd ` set wideningPairs" by (auto simp: WideningTargets_def)
  also have "\<dots> \<subseteq> {''Int16'', ''Int32'', ''Int64'', ''UInt16'', ''UInt32'', ''UInt64'', ''Float32'', ''Float64''}"
    by (simp add: wideningPairs_def)
  finally show ?thesis .
qed

lemma resolve_target:
  assumes "b \<in> set (WideningTargets a)"
  shows "ResolveSpecID b = Some (the (ResolveSpecID b)) \<and> the (ResolveSpecID b) \<in> set fixed_width
    \<and> SpecID (the (ResolveSpecID b)) = Some b"
  using subsetD [OF target_names assms]
  by (elim insertE emptyE) (simp_all add: ResolveSpecID_simps fixed_width_def)

lemma losslessWideningSet_iff:
  assumes "s \<in> set fixed_width"
  shows "v \<in> set (losslessWideningSet s) \<longleftrightarrow> v \<in> set fixed_width \<and> WidensTo s v"
proof -
  have member: "v \<in> set (losslessWideningSet s)
      \<longleftrightarrow> v = s \<or> (\<exists>b\<in>set (WideningTargets (the (SpecID s))). ResolveSpecID b = Some v)"
    using assms fixed_width_numeric [OF assms]
    by (auto simp: fixed_width_def losslessWideningSet_def set_map_filter)
  have target: "b \<in> set (WideningTargets (the (SpecID s))) \<Longrightarrow> \<exists>w\<in>set fixed_width.
      ResolveSpecID b = Some w \<and> SpecID w = Some b" for b
    using resolve_target by fastforce
  obtain a where a: "SpecID s = Some a" using assms by (auto simp: fixed_width_def)
  show ?thesis
  proof
    assume "v \<in> set (losslessWideningSet s)"
    then show "v \<in> set fixed_width \<and> WidensTo s v"
    proof (unfold member, elim disjE bexE)
      fix b assume b: "b \<in> set (WideningTargets (the (SpecID s)))" "ResolveSpecID b = Some v"
      then have v: "v \<in> set fixed_width" "SpecID v = Some b" using target by fastforce+
      then show ?thesis
        using b a widening_of_pair [OF fixed_width_numeric fixed_width_numeric, OF assms v(1) a v(2)] by simp
    qed (use assms in \<open>simp add: WidensTo_def\<close>)
  next
    assume v: "v \<in> set fixed_width \<and> WidensTo s v"
    then obtain b where b: "SpecID v = Some b" by (auto simp: fixed_width_def)
    have "Equal s v \<or> b \<in> set (WideningTargets a)"
      using widening_of_pair [OF fixed_width_numeric fixed_width_numeric, OF assms _ a b] v by blast
    moreover have "ResolveSpecID b = Some v" if "b \<in> set (WideningTargets a)"
      using resolve_target [OF that] SpecID_inject [of "the (ResolveSpecID b)" v] v b by simp
    ultimately show "v \<in> set (losslessWideningSet s)"
      unfolding member using Equal_fixed_width [OF assms, of v] v a by auto
  qed
qed

definition common_bounds :: "htype \<Rightarrow> htype \<Rightarrow> htype set" where
  "common_bounds s t = {v \<in> set fixed_width. WidensTo s v \<and> WidensTo t v}"

lemma widening_raises_rank:
  assumes "s \<in> set fixed_width" "t \<in> set fixed_width" "WidensTo s t"
  shows "the (rank_of s) \<le> the (rank_of t)"
proof -
  obtain a b where ab: "SpecID s = Some a" "SpecID t = Some b"
    using assms(1,2) by (auto simp: fixed_width_def)
  have "s = t \<or> b \<in> set (WideningTargets a)"
    using widening_of_pair [OF fixed_width_numeric fixed_width_numeric, OF assms(1,2) ab] assms
      Equal_fixed_width by blast
  then show ?thesis
    using assms(1,2) ab unfolding fixed_width_def by (auto simp: WideningTargets_simps)
qed

lemma common_type_least:
  assumes "s \<in> set fixed_width" "t \<in> set fixed_width"
  shows "case LosslessCommonType s t of
      None \<Rightarrow> common_bounds s t = {}
    | Some u \<Rightarrow> u \<in> common_bounds s t \<and> (\<forall>v\<in>common_bounds s t. the (rank_of u) \<le> the (rank_of v))"
proof (cases "Equal s t")
  case True
  then have "s = t" using Equal_fixed_width assms by blast
  then show ?thesis
    using assms widening_raises_rank by (auto simp: LosslessCommonType_def common_bounds_def WidensTo_def [of t t])
next
  case False
  define cs where "cs = filter (\<lambda>u. \<exists>other\<in>set (losslessWideningSet t). ty_name u = ty_name other) (losslessWideningSet s)"
  have cs: "set cs = common_bounds s t"
    unfolding cs_def common_bounds_def
    using losslessWideningSet_iff [OF assms(1)] losslessWideningSet_iff [OF assms(2)] name_inject by fastforce
  have eq: "LosslessCommonType s t = map_option fst (foldl better_candidate None cs)"
    using False fixed_width_numeric [OF assms(1)] fixed_width_numeric [OF assms(2)]
    by (auto simp: LosslessCommonType_def cs_def)
  have ranked: "\<forall>v\<in>set cs. rank_of v \<noteq> None"
    using rank_of_fixed_width by (fastforce simp: cs common_bounds_def)
  show ?thesis
  proof (cases "cs = []")
    case True
    then show ?thesis using cs by (simp add: eq)
  next
    case False
    from foldl_better_candidate [OF ranked this] show ?thesis by (auto simp: eq cs [symmetric])
  qed
qed

lemma common_type_sym:
  assumes "s \<in> set fixed_width" "t \<in> set fixed_width"
  shows "LosslessCommonType s t = LosslessCommonType t s"
proof -
  have bounds: "common_bounds t s = common_bounds s t" by (auto simp: common_bounds_def)
  have unique: "u = v"
    if "u \<in> common_bounds s t" "v \<in> common_bounds s t" "the (rank_of u) \<le> the (rank_of v)"
      "the (rank_of v) \<le> the (rank_of u)" for u v
    using that rank_of_inject [of u v] rank_of_fixed_width [of u] rank_of_fixed_width [of v]
    by (auto simp: common_bounds_def)
  show ?thesis
    using common_type_least [OF assms] common_type_least [OF assms(2,1)] unfolding bounds
    by (auto split: option.splits dest: unique)
qed

end
