(* ===== verification/TypeFacts.thy ===== *)
theory TypeFacts
  imports TypeBuiltins "HOL-Library.Word"
begin

text \<open>
  The facts the registry records of each compiler-owned type (\<open>specdata/constructors.go\<close>) and the
  storage rules decided from them (\<open>types/collections.go\<close>, \<open>types/generics.go\<close>, \<open>types/types.go\<close>):
  which positions a type may occupy, whether it contains a type parameter or an atomic, whether its
  layout is complete, and the truthiness category. The walks enter the records of nominal types and
  so carry the records already visited; each step enters a new one, which is the termination
  measure.
\<close>

unbundle bit_operations_syntax

section \<open>Registry facts\<close>

datatype representation = RepresentationValue | RepresentationHandle
datatype copy_mode = CopyValue | CopyShallow | CopyUnavailable
datatype comparison_form = ComparisonNever | ComparisonAlways | ComparisonStructural
datatype param_kind = ParamType | ParamInteger

text \<open>\<open>Position\<close>, in its declaration order, and the bit it selects.\<close>

datatype storage_position =
    PositionBinding | PositionObjectMember | PositionADTPayload | PositionUnionMember
  | PositionSliceElement | PositionListElement | PositionDictValue | PositionFunctionParam
  | PositionFunctionResult | PositionTaskArgument | PositionTaskResult | PositionChannelElement
  | PositionPointee | PositionHeapAllocation

fun position_index :: "storage_position \<Rightarrow> nat" where
  "position_index PositionBinding = 0"
| "position_index PositionObjectMember = 1"
| "position_index PositionADTPayload = 2"
| "position_index PositionUnionMember = 3"
| "position_index PositionSliceElement = 4"
| "position_index PositionListElement = 5"
| "position_index PositionDictValue = 6"
| "position_index PositionFunctionParam = 7"
| "position_index PositionFunctionResult = 8"
| "position_index PositionTaskArgument = 9"
| "position_index PositionTaskResult = 10"
| "position_index PositionChannelElement = 11"
| "position_index PositionPointee = 12"
| "position_index PositionHeapAllocation = 13"

type_synonym position_mask = "16 word"

definition mask_of :: "storage_position list \<Rightarrow> position_mask" where
  "mask_of positions = foldr (\<lambda>p m. push_bit (position_index p) 1 OR m) positions 0"

definition StorableFunction :: position_mask where
  "StorableFunction = mask_of
     [PositionBinding, PositionObjectMember, PositionADTPayload, PositionUnionMember, PositionSliceElement,
      PositionListElement, PositionDictValue, PositionFunctionParam, PositionFunctionResult,
      PositionTaskArgument, PositionTaskResult, PositionChannelElement]"

definition StorableEverywhere :: position_mask where
  "StorableEverywhere = StorableFunction OR mask_of [PositionPointee, PositionHeapAllocation]"

definition StorableNowhere :: position_mask where
  "StorableNowhere = 0"

definition StorableConstructionOnly :: position_mask where
  "StorableConstructionOnly = mask_of [PositionBinding, PositionObjectMember]"

definition StorableUnionMemberOnly :: position_mask where
  "StorableUnionMemberOnly = mask_of [PositionUnionMember]"

definition StorableIO :: position_mask where
  "StorableIO = mask_of
     [PositionBinding, PositionUnionMember, PositionFunctionParam, PositionFunctionResult,
      PositionTaskArgument, PositionTaskResult, PositionPointee]"

definition StorableBytes :: position_mask where
  "StorableBytes = mask_of
     [PositionBinding, PositionUnionMember, PositionFunctionParam, PositionFunctionResult, PositionPointee]"

text \<open>\<open>PositionMask.Allows\<close>.\<close>

definition mask_Allows :: "position_mask \<Rightarrow> nat \<Rightarrow> bool" where
  "mask_Allows m index \<longleftrightarrow> m AND push_bit index 1 \<noteq> 0"

record type_facts =
  tf_comparison :: comparison_form
  tf_ordered :: bool
  tf_managed :: bool
  tf_positions :: position_mask

record constructor_facts =
  cf_representation :: representation
  cf_copy_mode :: copy_mode
  cf_comparison :: comparison_form
  cf_ordered :: bool
  cf_managed :: bool
  cf_positions :: position_mask
  cf_component :: string

text \<open>\<open>ConstructorFacts.TypeFacts\<close>.\<close>

definition TypeFacts_of :: "constructor_facts \<Rightarrow> type_facts" where
  "TypeFacts_of f =
     \<lparr>tf_comparison = cf_comparison f, tf_ordered = cf_ordered f, tf_managed = cf_managed f,
      tf_positions = cf_positions f\<rparr>"

record constructor_spec =
  cs_id :: string
  cs_source_name :: string
  cs_params :: "param_kind list"
  cs_facts :: constructor_facts
  cs_constructible :: bool

definition value_facts :: "comparison_form \<Rightarrow> string \<Rightarrow> constructor_facts" where
  "value_facts comparison component =
     \<lparr>cf_representation = RepresentationValue, cf_copy_mode = CopyValue, cf_comparison = comparison,
      cf_ordered = False, cf_managed = False, cf_positions = StorableEverywhere, cf_component = component\<rparr>"

definition handle_facts :: "comparison_form \<Rightarrow> string \<Rightarrow> constructor_facts" where
  "handle_facts comparison component =
     (value_facts comparison component)\<lparr>cf_representation := RepresentationHandle, cf_copy_mode := CopyShallow\<rparr>"

definition constructor_row :: "string \<Rightarrow> string \<Rightarrow> param_kind list \<Rightarrow> constructor_facts \<Rightarrow> bool \<Rightarrow> constructor_spec" where
  "constructor_row type_id source_name params facts constructible =
     \<lparr>cs_id = type_id, cs_source_name = source_name, cs_params = params, cs_facts = facts,
      cs_constructible = constructible\<rparr>"

definition typeConstructors :: "constructor_spec list" where
  "typeConstructors =
     [constructor_row ''InlineString'' ''String'' [ParamInteger]
        ((value_facts ComparisonAlways ''string'')\<lparr>cf_ordered := True\<rparr>) False,
      constructor_row ''Slice'' ''Slice'' [ParamType]
        ((value_facts ComparisonStructural ''slice'')\<lparr>cf_managed := True\<rparr>) False,
      constructor_row ''List'' ''List'' [ParamType]
        ((handle_facts ComparisonStructural ''list'')\<lparr>cf_managed := True\<rparr>) True,
      constructor_row ''InlineList'' ''List'' [ParamType, ParamInteger]
        (value_facts ComparisonStructural ''list'') True,
      constructor_row ''Dict'' ''Dict'' [ParamType, ParamType]
        ((handle_facts ComparisonNever ''dict'')\<lparr>cf_managed := True\<rparr>) True,
      constructor_row ''Task'' ''Task'' [ParamType] (handle_facts ComparisonNever ''concurrency'') False,
      constructor_row ''Channel'' ''Channel'' [ParamType] (handle_facts ComparisonNever ''concurrency'') True,
      constructor_row ''Atomic'' ''Atomic'' [ParamType]
        ((value_facts ComparisonNever ''concurrency'')
           \<lparr>cf_copy_mode := CopyUnavailable, cf_positions := StorableConstructionOnly\<rparr>) True,
      constructor_row ''Stash'' ''Stash'' [ParamType] (handle_facts ComparisonNever ''stash'') True,
      constructor_row ''Pool'' ''Pool'' [ParamType] (handle_facts ComparisonNever ''pool'') True]"

definition concreteFacts :: "(string \<times> type_facts) list" where
  "concreteFacts =
     (let row = (\<lambda>type_id comparison ordered managed positions.
            (type_id, \<lparr>tf_comparison = comparison, tf_ordered = ordered, tf_managed = managed,
                       tf_positions = positions\<rparr>))
      in [row ''Nil'' ComparisonAlways False False StorableUnionMemberOnly,
          row ''Unknown'' ComparisonNever False False StorableNowhere,
          row ''Fun'' ComparisonNever False False StorableFunction,
          row ''Heap'' ComparisonNever False False StorableEverywhere,
          row ''String'' ComparisonAlways True True StorableEverywhere,
          row ''IO'' ComparisonNever False False StorableIO,
          row ''Bytes'' ComparisonNever False False StorableBytes])"

definition TypeConstructor :: "string \<Rightarrow> constructor_spec option" where
  "TypeConstructor type_id = find (\<lambda>spec. cs_id spec = type_id) typeConstructors"

definition Facts :: "string \<Rightarrow> type_facts option" where
  "Facts type_id =
     (case TypeConstructor type_id of
        Some spec \<Rightarrow> Some (TypeFacts_of (cs_facts spec))
      | None \<Rightarrow> map_of concreteFacts type_id)"

definition constructorShape :: "param_kind list \<Rightarrow> string" where
  "constructorShape params = map (\<lambda>p. if p = ParamType then CHR ''T'' else CHR ''N'') params"

definition TypeConstructorByShape :: "string \<Rightarrow> param_kind list \<Rightarrow> constructor_spec option" where
  "TypeConstructorByShape source_name params =
     find (\<lambda>spec. cs_source_name spec = source_name \<and> constructorShape (cs_params spec) = constructorShape params)
       typeConstructors"

definition bareConstructibleConcrete :: "string list" where
  "bareConstructibleConcrete = [''Heap'', ''Mutex'', ''Error'']"

definition BareConstructible :: "string \<Rightarrow> bool" where
  "BareConstructible nm \<longleftrightarrow>
     (\<exists>spec\<in>set typeConstructors. cs_source_name spec = nm \<and> cs_constructible spec)
       \<or> nm \<in> set bareConstructibleConcrete"

section \<open>Facts of a type\<close>

text \<open>\<open>resolveTypeFacts\<close>: the structural kind selects the record, never the name.\<close>

definition container_id :: "container \<Rightarrow> string option" where
  "container_id c =
     (case c of SliceC _ \<Rightarrow> Some ''Slice'' | ListC \<Rightarrow> Some ''List'' | InlineListC _ \<Rightarrow> Some ''InlineList''
      | TaskC \<Rightarrow> Some ''Task'' | ChannelC \<Rightarrow> Some ''Channel'' | AtomicC \<Rightarrow> Some ''Atomic''
      | StashC \<Rightarrow> Some ''Stash'' | PoolC \<Rightarrow> Some ''Pool'' | HttpC _ \<Rightarrow> None)"

definition fact_id :: "htype \<Rightarrow> string option" where
  "fact_id t =
     (case t of
        InlineStringT _ _ \<Rightarrow> Some ''InlineString''
      | ContainerT _ c _ \<Rightarrow> container_id c
      | DictT _ _ _ \<Rightarrow> Some ''Dict''
      | _ \<Rightarrow>
          if has_signature t then Some ''Fun''
          else if IsNil t then Some ''Nil''
          else if IsUnknown t then Some ''Unknown''
          else if IsHeap t then Some ''Heap''
          else if IsString t then Some ''String''
          else if IsIO t then Some ''IO''
          else if IsBytes t then Some ''Bytes''
          else None)"

definition resolveTypeFacts :: "htype \<Rightarrow> type_facts option" where
  "resolveTypeFacts t = Option.bind (fact_id t) Facts"

definition isManaged :: "htype \<Rightarrow> bool" where
  "isManaged t = (case resolveTypeFacts t of Some f \<Rightarrow> tf_managed f | None \<Rightarrow> False)"

section \<open>Complete values and truthiness\<close>

fun IsCompleteValue :: "'a type_store_scheme \<Rightarrow> htype \<Rightarrow> bool" where
  "IsCompleteValue st (ObjectT h i) = (\<not> ot_incomplete (object_at st i))"
| "IsCompleteValue st (ContainerT h (InlineListC n) e) = IsCompleteValue st e"
| "IsCompleteValue st (NullableT h b) = IsCompleteValue st b"
| "IsCompleteValue st (UnionT h ms) = True"
| "IsCompleteValue st (AdtT h i) = True"
| "IsCompleteValue st t = (\<not> ty_incomplete t)"

datatype truthiness_kind =
    TruthinessInvalid | TruthinessBool | TruthinessNil | TruthinessNullable | TruthinessUnion
  | TruthinessAlwaysTrue

definition Truthiness :: "htype \<Rightarrow> truthiness_kind" where
  "Truthiness t =
     (if ty_kind t = ScalarBool then TruthinessBool
      else if IsNil t then TruthinessNil
      else if IsNullable t then TruthinessNullable
      else if IsUnionShape t then TruthinessUnion
      else if ty_incomplete t then TruthinessInvalid
      else TruthinessAlwaysTrue)"

section \<open>Walks through nominal records\<close>

text \<open>\<open>containsTypeParameter\<close>. The records visited are shared by the whole walk, so the walk returns
  them; joining them with the ones it started from changes nothing and shows that the walk ends.\<close>

function contains_type_parameter ::
    "'a type_store_scheme \<Rightarrow> nominal_ref list \<Rightarrow> htype \<Rightarrow> bool \<times> nominal_ref list"
  and any_contains_type_parameter ::
    "'a type_store_scheme \<Rightarrow> nominal_ref list \<Rightarrow> htype list \<Rightarrow> bool \<times> nominal_ref list" where
  "contains_type_parameter st seen t =
     (case t of
        GenericT _ _ _ \<Rightarrow> (True, seen)
      | UnionT _ members \<Rightarrow> any_contains_type_parameter st seen members
      | NullableT _ base \<Rightarrow> contains_type_parameter st seen base
      | PtrT _ e _ \<Rightarrow> contains_type_parameter st seen e
      | ContainerT _ c e \<Rightarrow>
          (case c of
             SliceC _ \<Rightarrow> contains_type_parameter st seen e
           | ListC \<Rightarrow> contains_type_parameter st seen e
           | InlineListC _ \<Rightarrow> contains_type_parameter st seen e
           | _ \<Rightarrow> (False, seen))
      | DictT _ k v \<Rightarrow> any_contains_type_parameter st seen [k, v]
      | FunT _ params result _ _ \<Rightarrow>
          any_contains_type_parameter st seen (params @ (case result of None \<Rightarrow> [] | Some r \<Rightarrow> [r]))
      | ObjectT _ i \<Rightarrow>
          if ObjectRef i \<in> set seen \<or> i \<ge> length (st_objects st) then (False, seen)
          else any_contains_type_parameter st (ObjectRef i # seen) (map om_type (ot_members (object_at st i)))
      | AdtT _ i \<Rightarrow>
          if AdtRef i \<in> set seen \<or> i \<ge> length (st_adts st) then (False, seen)
          else any_contains_type_parameter st (AdtRef i # seen) (adt_payload_types (adt_at st i))
      | _ \<Rightarrow> (False, seen))"
| "any_contains_type_parameter st seen [] = (False, seen)"
| "any_contains_type_parameter st seen (t # ts) =
     (case contains_type_parameter st seen t of
        (True, seen') \<Rightarrow> (True, seen')
      | (False, seen') \<Rightarrow> any_contains_type_parameter st (List.union seen' seen) ts)"
  by pat_completeness auto
termination
  by (relation "measures
      [\<lambda>x. case x of Inl (st, seen, t) \<Rightarrow> unseen st seen | Inr (st, seen, ts) \<Rightarrow> unseen st seen,
       \<lambda>x. case x of Inl (st, seen, t) \<Rightarrow> type_weight t | Inr (st, seen, ts) \<Rightarrow> types_weight ts]")
    (auto simp: unseen_Cons nat_less_le [symmetric] intro: unseen_union le_neq_implies_less)

declare contains_type_parameter.simps [simp del] any_contains_type_parameter.simps [simp del]

definition ContainsTypeParameter :: "'a type_store_scheme \<Rightarrow> htype \<Rightarrow> bool" where
  "ContainsTypeParameter st t = fst (contains_type_parameter st [] t)"

text \<open>\<open>containsAtomic\<close>: here the visited records are those on the path, since each is removed on the
  way back.\<close>

function contains_atomic :: "'a type_store_scheme \<Rightarrow> nominal_ref list \<Rightarrow> htype \<Rightarrow> bool"
  and any_contains_atomic :: "'a type_store_scheme \<Rightarrow> nominal_ref list \<Rightarrow> htype list \<Rightarrow> bool" where
  "contains_atomic st path t =
     (case t of
        ContainerT _ AtomicC _ \<Rightarrow> True
      | ContainerT _ (InlineListC _) e \<Rightarrow> contains_atomic st path e
      | ObjectT _ i \<Rightarrow>
          (if ObjectRef i \<in> set path \<or> i \<ge> length (st_objects st) then False
           else any_contains_atomic st (ObjectRef i # path) (map om_type (ot_members (object_at st i))))
      | AdtT _ i \<Rightarrow>
          (if AdtRef i \<in> set path \<or> i \<ge> length (st_adts st) then False
           else any_contains_atomic st (AdtRef i # path) (adt_payload_types (adt_at st i)))
      | UnionT _ members \<Rightarrow> any_contains_atomic st path members
      | NullableT _ base \<Rightarrow> contains_atomic st path base
      | _ \<Rightarrow> False)"
| "any_contains_atomic st path [] = False"
| "any_contains_atomic st path (t # ts) = (contains_atomic st path t \<or> any_contains_atomic st path ts)"
  by pat_completeness auto
termination
  by (relation "measures
      [\<lambda>x. case x of Inl (st, path, t) \<Rightarrow> unseen st path | Inr (st, path, ts) \<Rightarrow> unseen st path,
       \<lambda>x. case x of Inl (st, path, t) \<Rightarrow> type_weight t | Inr (st, path, ts) \<Rightarrow> types_weight ts]")
    (auto simp: unseen_Cons)

declare contains_atomic.simps [simp del] any_contains_atomic.simps [simp del]

definition ContainsAtomic :: "'a type_store_scheme \<Rightarrow> htype \<Rightarrow> bool" where
  "ContainsAtomic st t = contains_atomic st [] t"

section \<open>Storage positions\<close>

definition Storable :: "'a type_store_scheme \<Rightarrow> htype \<Rightarrow> storage_position \<Rightarrow> bool" where
  "Storable st t p =
     (if \<not> IsCompleteValue st t \<or> ContainsTypeParameter st t then False
      else (case resolveTypeFacts t of
              None \<Rightarrow> True
            | Some f \<Rightarrow> mask_Allows (tf_positions f) (position_index p)))"

definition Eligible :: "'a type_store_scheme \<Rightarrow> htype \<Rightarrow> storage_position \<Rightarrow> bool" where
  "Eligible st t p \<longleftrightarrow> ContainsTypeParameter st t \<or> Storable st t p \<and> \<not> ContainsAtomic st t"

text \<open>\<open>isAtomicElement\<close> and \<open>IsDictKey\<close>.\<close>

definition isAtomicElement :: "htype \<Rightarrow> bool" where
  "isAtomicElement t \<longleftrightarrow>
     Equal t Bool_type \<or> Equal t Int32 \<or> Equal t UInt32 \<or> Equal t Int64 \<or> Equal t UInt64 \<or> Equal t SizeType"

fun IsGeneric :: "htype \<Rightarrow> bool" where
  "IsGeneric (GenericT _ _ _) = True"
| "IsGeneric _ = False"

definition IsDictKey :: "htype \<Rightarrow> bool" where
  "IsDictKey t \<longleftrightarrow>
     IsGeneric t \<or> ty_kind t = ScalarSignedInteger \<or> ty_kind t = ScalarUnsignedInteger
       \<or> ty_kind t = ScalarBool \<or> IsSize t \<or> IsInlineString t"

end
