(* ===== verification/TypeCanonical.thy ===== *)
theory TypeCanonical
  imports TypeFacts
begin

text \<open>
  Canonicality (\<open>compiler/types/canonical.go\<close>): that every nested type of a type is interned in
  this compilation. The walk carries the tolerance flags and the nominal records already entered; a
  list of types is checked in order and stops at the first that is not canonical.
\<close>

section \<open>Keys\<close>

definition funKey :: "htype list \<Rightarrow> htype option \<Rightarrow> bool \<Rightarrow> string" where
  "funKey params result rest =
     ''fun:'' @ concat (map (\<lambda>p. ty_key p @ '','') params) @ (if rest then '';rest'' else [])
       @ (case result of None \<Rightarrow> [] | Some r \<Rightarrow> '':'' @ ty_key r)"

definition funName :: "htype list \<Rightarrow> htype option \<Rightarrow> bool \<Rightarrow> string" where
  "funName params result rest =
     ''Fun<('' @ join_with '', '' (map ty_name params) @ (if rest \<and> params \<noteq> [] then ''...'' else [])
       @ '')'' @ (case result of None \<Rightarrow> [] | Some r \<Rightarrow> '' : '' @ ty_name r) @ ''>''"

text \<open>The key a one-element container is interned under, and signed with.\<close>

definition containerKey :: "container \<Rightarrow> htype \<Rightarrow> string" where
  "containerKey c e =
     (case c of
        SliceC w \<Rightarrow> (if w then ''slicemut:'' else ''slice:'') @ ty_key e
      | ListC \<Rightarrow> ''list:'' @ ty_key e
      | InlineListC n \<Rightarrow> ''inline-list:'' @ ty_key e @ '','' @ decimal n
      | TaskC \<Rightarrow> ''task:'' @ ty_key e
      | ChannelC \<Rightarrow> ''channel:'' @ ty_key e
      | AtomicC \<Rightarrow> ''atomic:'' @ ty_key e
      | StashC \<Rightarrow> ''stash:'' @ ty_key e
      | PoolC \<Rightarrow> ''pool:'' @ ty_key e
      | HttpC family \<Rightarrow> ''http-'' @ family @ '':'' @ ty_key e)"

definition pointerKey :: "htype \<Rightarrow> bool \<Rightarrow> string" where
  "pointerKey e writable = (if writable then ''MutPtr'' else ''Ptr'') @ '':'' @ ty_key e"

definition dictKey :: "htype \<Rightarrow> htype \<Rightarrow> string" where
  "dictKey k v = ''dict:'' @ ty_key k @ '','' @ ty_key v"

section \<open>Canonicality\<close>

record canon_flags =
  allowProvisionalObjects :: bool
  allowTypeParameters :: bool
  allowNilMember :: bool

text \<open>The tolerance every constructor validates its arguments with, and \<open>IsCanonical\<close>'s.\<close>

definition building_flags :: canon_flags where
  "building_flags = \<lparr>allowProvisionalObjects = True, allowTypeParameters = True, allowNilMember = False\<rparr>"

definition strict_flags :: canon_flags where
  "strict_flags = \<lparr>allowProvisionalObjects = False, allowTypeParameters = False, allowNilMember = False\<rparr>"

definition IsForeignRecord :: "htype \<Rightarrow> bool" where
  "IsForeignRecord t = (case t of ObjectT h _ \<Rightarrow> take 8 (th_key h) = ''foreign:'' | _ \<Rightarrow> False)"

definition isNumericSuffix :: "string \<Rightarrow> bool" where
  "isNumericSuffix suffix \<longleftrightarrow> suffix \<noteq> [] \<and> (\<forall>c\<in>set suffix. is_digit c)"

definition isCanonicalScalar :: "htype \<Rightarrow> bool" where
  "isCanonicalScalar t =
     (if ty_incomplete t then False
      else case builtin_Lookup (ty_name t) of
             None \<Rightarrow> False
           | Some builtin \<Rightarrow>
               ty_cname builtin = ty_cname t \<and> ty_kind builtin = ty_kind t \<and> ty_bits builtin = ty_bits t)"

text \<open>The C name of a union is its base name, or that and a counter, and with an environment the
  registry of definition names must give it back to this union.\<close>

definition union_name_canonical :: "(string \<times> htype) list option \<Rightarrow> htype \<Rightarrow> htype list \<Rightarrow> bool" where
  "union_name_canonical names t members =
     (let base = unionBaseName members; stem = base @ ''_''
      in (ty_cname t = base
            \<or> take (length stem) (ty_cname t) = stem \<and> isNumericSuffix (drop (length stem) (ty_cname t)))
         \<and> (case names of None \<Rightarrow> True
            | Some registry \<Rightarrow>
                (case map_of registry (ty_cname t) of None \<Rightarrow> False | Some owner \<Rightarrow> Equal owner t)))"

text \<open>The members of a union are validated with a copy of the walk's state: the sets of visited
  records are shared with it exactly when they exist already, that is when one has been entered.\<close>

fun is_object_ref :: "nominal_ref \<Rightarrow> bool" where
  "is_object_ref (ObjectRef _) = True"
| "is_object_ref (AdtRef _) = False"

definition after_members :: "nominal_ref list \<Rightarrow> nominal_ref list \<Rightarrow> nominal_ref list" where
  "after_members seen seen' = filter (\<lambda>r. \<exists>q\<in>set seen. is_object_ref q = is_object_ref r) seen'"

text \<open>What a shape requires before its nested types are looked at.\<close>

definition shape_canonical :: "'a type_store_scheme \<Rightarrow> (string \<times> htype) list option \<Rightarrow> htype \<Rightarrow> bool" where
  "shape_canonical st names t =
     (case t of
        NullableT _ b \<Rightarrow> IsPointerLike b
      | FunT h params result rest _ \<Rightarrow> th_sig h = funKey params result rest
      | PtrT h e w \<Rightarrow> th_sig h = pointerKey e w
      | UnionT _ members \<Rightarrow> 2 \<le> length members \<and> union_name_canonical names t members
      | InlineStringT h n \<Rightarrow> 1 \<le> n \<and> n \<le> MaxInlineStringCapacity \<and> th_sig h = inlineStringKey n
      | ContainerT h c e \<Rightarrow>
          th_sig h = containerKey c e
            \<and> (case c of
                 InlineListC n \<Rightarrow> n \<noteq> 0 \<and> Eligible st e PositionListElement
               | SliceC _ \<Rightarrow> Eligible st e PositionSliceElement
               | ListC \<Rightarrow> Eligible st e PositionListElement
               | _ \<Rightarrow> True)
      | DictT h k v \<Rightarrow> IsDictKey k \<and> Eligible st v PositionDictValue \<and> th_sig h = dictKey k v
      | _ \<Rightarrow> True)"

function canonical ::
    "'a type_store_scheme \<Rightarrow> (string \<times> htype) list option \<Rightarrow> canon_flags \<Rightarrow> nominal_ref list \<Rightarrow> bool
       \<Rightarrow> htype \<Rightarrow> bool \<times> nominal_ref list"
  and all_canonical ::
    "'a type_store_scheme \<Rightarrow> (string \<times> htype) list option \<Rightarrow> canon_flags \<Rightarrow> bool \<Rightarrow> nominal_ref list
       \<Rightarrow> htype list \<Rightarrow> bool \<times> nominal_ref list" where
  "canonical st names fl seen through_pointer t =
     (if IsNil t then (allowNilMember fl, seen)
      else if \<not> shape_canonical st names t then (False, seen)
      else case t of
        GenericT _ _ _ \<Rightarrow> (allowTypeParameters fl, seen)
      | ObjectT h i \<Rightarrow>
          let object = object_at st i in
          if ot_incomplete object \<and> \<not> allowProvisionalObjects fl
               \<and> \<not> (through_pointer \<and> IsForeignRecord t) then (False, seen)
          else if ot_ident object \<noteq> th_ident h then (False, seen)
          else if ObjectRef i \<in> set seen \<or> i \<ge> length (st_objects st) then (True, seen)
          else all_canonical st names fl False (ObjectRef i # seen) (map om_type (ot_members object))
      | AdtT h i \<Rightarrow>
          let adt = adt_at st i in
          if at_variants adt = [] \<and> \<not> allowProvisionalObjects fl then (False, seen)
          else if at_ident adt \<noteq> th_ident h then (False, seen)
          else if AdtRef i \<in> set seen \<or> i \<ge> length (st_adts st) then (True, seen)
          else all_canonical st names fl False (AdtRef i # seen) (adt_payload_types adt)
      | NullableT h b \<Rightarrow>
          (case canonical st names fl seen True b of
             (True, seen') \<Rightarrow> (th_cname h = ty_cname b, seen')
           | (False, seen') \<Rightarrow> (False, seen'))
      | FunT _ params result _ _ \<Rightarrow>
          all_canonical st names fl False seen (params @ (case result of None \<Rightarrow> [] | Some r \<Rightarrow> [r]))
      | PtrT _ e _ \<Rightarrow> canonical st names fl seen True e
      | UnionT _ members \<Rightarrow>
          (case all_canonical st names (fl\<lparr>allowNilMember := True\<rparr>) True seen members of
             (ok, seen') \<Rightarrow> (ok, after_members seen seen'))
      | InlineStringT _ _ \<Rightarrow> (True, seen)
      | ContainerT _ _ e \<Rightarrow> canonical st names fl seen False e
      | DictT _ k v \<Rightarrow> all_canonical st names fl False seen [k, v]
      | Basic h \<Rightarrow>
          if IsUnknown t then (through_pointer, seen)
          else if th_ident h \<in> set canonicalOpaqueTypes then (True, seen)
          else (isCanonicalScalar t, seen))"
| "all_canonical st names fl complete seen [] = (True, seen)"
| "all_canonical st names fl complete seen (t # ts) =
     (case canonical st names fl seen False t of
        (False, seen') \<Rightarrow> (False, seen')
      | (True, seen') \<Rightarrow>
          if complete \<and> \<not> IsCompleteValue st t then (False, seen')
          else all_canonical st names fl complete (List.union seen' seen) ts)"
  by pat_completeness auto
termination
  by (relation "measures
      [\<lambda>x. case x of Inl (st, _, _, seen, _, t) \<Rightarrow> unseen st seen
                   | Inr (st, _, _, _, seen, ts) \<Rightarrow> unseen st seen,
       \<lambda>x. case x of Inl (st, _, _, seen, _, t) \<Rightarrow> type_weight t
                   | Inr (st, _, _, _, seen, ts) \<Rightarrow> types_weight ts]")
    (auto simp: unseen_Cons intro: unseen_union le_neq_implies_less)

declare canonical.simps [simp del] all_canonical.simps [simp del]

text \<open>\<open>isCanonicalForEnvironment\<close> with a fresh state, and \<open>IsCanonical\<close>.\<close>

definition isCanonicalForEnvironment ::
    "'a type_store_scheme \<Rightarrow> (string \<times> htype) list option \<Rightarrow> canon_flags \<Rightarrow> bool \<Rightarrow> htype \<Rightarrow> bool" where
  "isCanonicalForEnvironment st names fl through_pointer t = fst (canonical st names fl [] through_pointer t)"

definition IsCanonical :: "'a type_store_scheme \<Rightarrow> htype \<Rightarrow> bool" where
  "IsCanonical st t = isCanonicalForEnvironment st None strict_flags False t"

end
