(* ===== verification/TypeArena.thy ===== *)
theory TypeArena
  imports TypeCanonical "HOL-Library.List_Lexorder" "HOL-Library.Char_ord"
begin

text \<open>
  Interning (\<open>compiler/types/arena.go\<close>, \<open>types.go\<close>, \<open>collections.go\<close>, \<open>unions.go\<close>, \<open>adt.go\<close>,
  \<open>generics.go\<close>, \<open>http.go\<close>): the compilation-wide arena, one map per constructed family, with the
  registries of generated C names; the constructors, each a guard, a key and a builder; and the
  module environment over it. A constructor returns the type, \<open>None\<close> for the zero \<open>Type{}\<close> of a
  refusal, and the state it leaves. Maps are association lists whose first entry for a key counts.
\<close>

section \<open>State\<close>

datatype family =
    PointerTypes | NullableTypes | FunTypes | InlineListTypes | StringTypes | SliceTypes | ListTypes
  | DictTypes | DictEntryTypes | TaskTypes | ChannelTypes | AtomicTypes | StashTypes | PoolTypes
  | HttpTypes | UnionTypes

record generic_declaration =
  gd_name :: string
  gd_arity :: nat
  gd_parameters :: "string list"
  gd_placeholders :: "htype option list"

record type_state = type_store +
  ar_families :: "family \<Rightarrow> (string \<times> htype) list"
  ar_definition_names :: "(string \<times> htype) list"
  ar_foreign_objects :: "(string \<times> htype) list"
  ar_collection_cnames :: "string list"
  ar_declarations :: "generic_declaration list"
  ar_next_ident :: nat

text \<open>The nominal records, all that the walks and the storage rules read.\<close>

definition store_of :: "type_state \<Rightarrow> type_store" where
  "store_of st = \<lparr>st_objects = st_objects st, st_adts = st_adts st\<rparr>"

definition family_lookup :: "type_state \<Rightarrow> family \<Rightarrow> string \<Rightarrow> htype option" where
  "family_lookup st f key = map_of (ar_families st f) key"

definition family_insert :: "type_state \<Rightarrow> family \<Rightarrow> string \<Rightarrow> htype \<Rightarrow> type_state" where
  "family_insert st f key t =
     st\<lparr>ar_families := (ar_families st)(f := (key, t) # ar_families st f)\<rparr>"

text \<open>\<open>newTypeIdentity\<close>.\<close>

definition newTypeIdentity :: "type_state \<Rightarrow> nat \<times> type_state" where
  "newTypeIdentity st = (ar_next_ident st, st\<lparr>ar_next_ident := Suc (ar_next_ident st)\<rparr>)"

text \<open>\<open>ReserveDefinitionName\<close>: the empty name is not reserved, and the newest owner wins.\<close>

definition ReserveDefinitionName :: "type_state \<Rightarrow> string \<Rightarrow> htype \<Rightarrow> type_state" where
  "ReserveDefinitionName st nm t =
     (if nm = [] then st else st\<lparr>ar_definition_names := (nm, t) # ar_definition_names st\<rparr>)"

section \<open>Names made unique by a counter\<close>

text \<open>The candidates in the order the loops try them: the stem, then the stem with a counter. The
  loops of the source are unbounded; one more candidate than there are names in use is always enough
  (\<open>first_free_not_taken\<close> below).\<close>

definition candidate :: "string \<Rightarrow> nat \<Rightarrow> string" where
  "candidate stem n = (case n of 0 \<Rightarrow> stem | Suc k \<Rightarrow> stem @ ''_'' @ decimal k)"

definition first_free :: "(string \<Rightarrow> bool) \<Rightarrow> nat \<Rightarrow> string \<Rightarrow> string" where
  "first_free taken bound stem =
     (case find (\<lambda>n. \<not> taken (candidate stem n)) [0..<Suc bound] of
        Some n \<Rightarrow> candidate stem n
      | None \<Rightarrow> stem)"

definition union_name_taken :: "(string \<times> htype) list \<Rightarrow> htype \<Rightarrow> string \<Rightarrow> bool" where
  "union_name_taken names t nm =
     (case map_of names nm of None \<Rightarrow> False | Some existing \<Rightarrow> \<not> Equal existing t)"

text \<open>\<open>ReserveUnionName\<close>; its result is stored in the type, so the type it registers carries it.\<close>

definition union_free_name :: "type_state \<Rightarrow> string \<Rightarrow> htype \<Rightarrow> string" where
  "union_free_name st base t =
     (if base = [] then base
      else first_free (union_name_taken (ar_definition_names st) t) (length (ar_definition_names st)) base)"

fun nominalModuleOf :: "'a type_store_scheme \<Rightarrow> htype \<Rightarrow> string"
  and first_nominal_module :: "'a type_store_scheme \<Rightarrow> htype list \<Rightarrow> string" where
  "nominalModuleOf st (ObjectT _ i) = ot_module (object_at st i)"
| "nominalModuleOf st (AdtT _ i) = at_module (adt_at st i)"
| "nominalModuleOf st (PtrT _ e _) = nominalModuleOf st e"
| "nominalModuleOf st (NullableT _ b) = nominalModuleOf st b"
| "nominalModuleOf st (ContainerT _ c e) = (case c of HttpC _ \<Rightarrow> [] | _ \<Rightarrow> nominalModuleOf st e)"
| "nominalModuleOf st (DictT _ k v) =
     (let m = nominalModuleOf st v in if m \<noteq> [] then m else nominalModuleOf st k)"
| "nominalModuleOf st (UnionT _ members) = first_nominal_module st members"
| "nominalModuleOf st _ = []"
| "first_nominal_module st [] = []"
| "first_nominal_module st (t # ts) =
     (let m = nominalModuleOf st t in if m \<noteq> [] then m else first_nominal_module st ts)"

definition uniqueCollectionCName :: "type_state \<Rightarrow> string \<Rightarrow> htype option \<Rightarrow> string \<times> type_state" where
  "uniqueCollectionCName st base element =
     (let used = ar_collection_cnames st;
          nm = (if base \<notin> set used then base
                else
                  let m = (case element of None \<Rightarrow> [] | Some e \<Rightarrow> nominalModuleOf (store_of st) e);
                      stem = (if m \<noteq> [] then base @ ''_'' @ EncodeModuleOwner m else base)
                  in first_free (\<lambda>c. c \<in> set used) (length used) stem)
      in (nm, st\<lparr>ar_collection_cnames := nm # used\<rparr>))"

section \<open>The shared constructor scheme\<close>

text \<open>Look the key up; on a miss build the type, with a fresh identity, and record it.\<close>

definition intern :: "type_state \<Rightarrow> family \<Rightarrow> string \<Rightarrow> (type_state \<Rightarrow> htype \<times> type_state) \<Rightarrow> htype option \<times> type_state" where
  "intern st f key build =
     (case family_lookup st f key of
        Some cached \<Rightarrow> (Some cached, st)
      | None \<Rightarrow> (case build st of (t, st') \<Rightarrow> (Some t, family_insert st' f key t)))"

definition canonical_argument :: "type_state \<Rightarrow> bool \<Rightarrow> htype \<Rightarrow> bool" where
  "canonical_argument st through_pointer t =
     isCanonicalForEnvironment (store_of st) (Some (ar_definition_names st)) building_flags through_pointer t"

text \<open>An element that is neither a parameter nor incomplete has to be storable in its position.\<close>

definition deferred_storable :: "type_state \<Rightarrow> htype \<Rightarrow> storage_position \<Rightarrow> bool" where
  "deferred_storable st e p \<longleftrightarrow>
     ContainsTypeParameter (store_of st) e \<or> \<not> IsCompleteValue (store_of st) e \<or> Storable (store_of st) e p \<and> \<not> ContainsAtomic (store_of st) e"

section \<open>Pointers, nullable and function types\<close>

definition pointer_admitted :: "type_state \<Rightarrow> htype \<Rightarrow> bool" where
  "pointer_admitted st e \<longleftrightarrow>
     canonical_argument st True e \<and> \<not> isManaged e
       \<and> (IsUnknown e \<or> ContainsTypeParameter (store_of st) e \<or> \<not> IsCompleteValue (store_of st) e \<or> Storable (store_of st) e PositionPointee)"

definition pointerType :: "type_state \<Rightarrow> htype \<Rightarrow> bool \<Rightarrow> htype option \<times> type_state" where
  "pointerType st e writable =
     (if \<not> pointer_admitted st e then (None, st)
      else
        let key = pointerKey e writable in
        intern st PointerTypes key (\<lambda>st.
          let c_name = (if IsUnknown e then ''void*'' else ty_cname e @ ''*'');
              (ident, st) = newTypeIdentity st;
              display = (if writable then ''Ptr<mut '' else ''Ptr<'') @ ty_name e @ ''>''
          in (PtrT (plain_head display c_name key ident key) e writable, st)))"

definition PtrType :: "type_state \<Rightarrow> htype \<Rightarrow> htype option \<times> type_state" where
  "PtrType st e = pointerType st e False"

definition MutPtrType :: "type_state \<Rightarrow> htype \<Rightarrow> htype option \<times> type_state" where
  "MutPtrType st e = pointerType st e True"

definition NullableType :: "type_state \<Rightarrow> htype \<Rightarrow> htype option \<times> type_state" where
  "NullableType st base =
     (if \<not> canonical_argument st False base \<or> \<not> IsPointerLike base then (None, st)
      else if IsNullable base then (Some base, st)
      else
        let key = ''nullable:'' @ ty_key base in
        intern st NullableTypes key (\<lambda>st.
          let (ident, st) = newTypeIdentity st
          in (NullableT (plain_head (ty_name base @ '' | Nil'') (ty_cname base) key ident key) base, st)))"

section \<open>Containers\<close>

definition container_family :: "container \<Rightarrow> family" where
  "container_family c =
     (case c of SliceC _ \<Rightarrow> SliceTypes | ListC \<Rightarrow> ListTypes | InlineListC _ \<Rightarrow> InlineListTypes
      | TaskC \<Rightarrow> TaskTypes | ChannelC \<Rightarrow> ChannelTypes | AtomicC \<Rightarrow> AtomicTypes | StashC \<Rightarrow> StashTypes
      | PoolC \<Rightarrow> PoolTypes | HttpC _ \<Rightarrow> HttpTypes)"

definition UnionMembers :: "htype \<Rightarrow> htype list" where
  "UnionMembers t =
     (case t of UnionT _ members \<Rightarrow> members | NullableT _ base \<Rightarrow> [base, NilType] | _ \<Rightarrow> [t])"

definition UnionContainsEoS :: "htype \<Rightarrow> bool" where
  "UnionContainsEoS t \<longleftrightarrow> (\<exists>m\<in>set (UnionMembers t). IsEoS m)"

text \<open>The guards of \<open>SliceType\<close>, \<open>ListType\<close>, \<open>InlineListType\<close>, \<open>TaskType\<close>, \<open>ChannelType\<close>,
  \<open>AtomicType\<close>, \<open>StashType\<close>, \<open>PoolType\<close> and \<open>httpGenericType\<close>.\<close>

definition container_admitted :: "type_state \<Rightarrow> container \<Rightarrow> htype \<Rightarrow> bool" where
  "container_admitted st c e \<longleftrightarrow>
     canonical_argument st False e
       \<and> (case c of
            SliceC _ \<Rightarrow> deferred_storable st e PositionSliceElement
          | ListC \<Rightarrow> deferred_storable st e PositionListElement
          | InlineListC n \<Rightarrow> n \<noteq> 0 \<and> Eligible (store_of st) e PositionListElement
          | TaskC \<Rightarrow> Eligible (store_of st) e PositionTaskResult
          | ChannelC \<Rightarrow> \<not> IsEoS e \<and> \<not> UnionContainsEoS e \<and> Eligible (store_of st) e PositionChannelElement
          | AtomicC \<Rightarrow> isAtomicElement e
          | StashC \<Rightarrow> deferred_storable st e PositionHeapAllocation
          | PoolC \<Rightarrow> deferred_storable st e PositionHeapAllocation
          | HttpC _ \<Rightarrow> True)"

definition containerName :: "container \<Rightarrow> htype \<Rightarrow> string" where
  "containerName c e =
     (case c of
        SliceC w \<Rightarrow> (if w then ''Slice<mut '' else ''Slice<'') @ ty_name e @ ''>''
      | ListC \<Rightarrow> ''List<'' @ ty_name e @ ''>''
      | InlineListC n \<Rightarrow> ''List<'' @ ty_name e @ '', '' @ decimal n @ ''>''
      | TaskC \<Rightarrow> ''Task<'' @ ty_name e @ ''>''
      | ChannelC \<Rightarrow> ''Channel<'' @ ty_name e @ ''>''
      | AtomicC \<Rightarrow> ''Atomic<'' @ ty_name e @ ''>''
      | StashC \<Rightarrow> ''Stash<'' @ ty_name e @ ''>''
      | PoolC \<Rightarrow> ''Pool<'' @ ty_name e @ ''>''
      | HttpC f \<Rightarrow> (if f = ''HttpRouter'' then ''Router'' else ''Server'') @ ''<'' @ ty_name e @ ''>'')"

text \<open>The C name a container wants, \<open>Inr\<close>, or the one all of its family share, \<open>Inl\<close>.\<close>

definition containerCName :: "container \<Rightarrow> htype \<Rightarrow> string + string" where
  "containerCName c e =
     (let nm = SanitizeIdentifier (ty_name e) in
      case c of
        SliceC w \<Rightarrow> Inr ((if w then ''hex_mut_slice_'' else ''hex_slice_'') @ nm)
      | ListC \<Rightarrow> Inr (''hex_list_'' @ nm)
      | InlineListC n \<Rightarrow> Inr (''hex_list_inline_'' @ nm @ ''_'' @ decimal n)
      | TaskC \<Rightarrow> Inr (''hex_task_'' @ nm)
      | ChannelC \<Rightarrow> Inr (''hex_channel_'' @ nm)
      | AtomicC \<Rightarrow> Inr (''hex_atomic_'' @ nm)
      | StashC \<Rightarrow> Inl ''hex_stash''
      | PoolC \<Rightarrow> Inr (''hex_pool_'' @ nm)
      | HttpC f \<Rightarrow> Inl (if f = ''HttpRouter'' then ''hex_http_router'' else ''hex_http_server''))"

definition containerType :: "type_state \<Rightarrow> container \<Rightarrow> htype \<Rightarrow> htype option \<times> type_state" where
  "containerType st c e =
     (if \<not> container_admitted st c e then (None, st)
      else
        let key = containerKey c e in
        intern st (container_family c) key (\<lambda>st.
          let (ident, st) = newTypeIdentity st;
              (c_name, st) =
                (case containerCName c e of
                   Inl fixed \<Rightarrow> (fixed, st)
                 | Inr base \<Rightarrow> uniqueCollectionCName st base (Some e))
          in (ContainerT (plain_head (containerName c e) c_name key ident key) c e, st)))"

text \<open>The constructors of the one-element families.\<close>

definition SliceType :: "type_state \<Rightarrow> htype \<Rightarrow> bool \<Rightarrow> htype option \<times> type_state" where
  "SliceType st e writable = containerType st (SliceC writable) e"

definition ListType :: "type_state \<Rightarrow> htype \<Rightarrow> htype option \<times> type_state" where
  "ListType st e = containerType st ListC e"

definition InlineListType :: "type_state \<Rightarrow> htype \<Rightarrow> nat \<Rightarrow> htype option \<times> type_state" where
  "InlineListType st e capacity = containerType st (InlineListC capacity) e"

definition TaskType :: "type_state \<Rightarrow> htype \<Rightarrow> htype option \<times> type_state" where
  "TaskType st e = containerType st TaskC e"

definition ChannelType :: "type_state \<Rightarrow> htype \<Rightarrow> htype option \<times> type_state" where
  "ChannelType st e = containerType st ChannelC e"

definition AtomicType :: "type_state \<Rightarrow> htype \<Rightarrow> htype option \<times> type_state" where
  "AtomicType st e = containerType st AtomicC e"

definition StashType :: "type_state \<Rightarrow> htype \<Rightarrow> htype option \<times> type_state" where
  "StashType st e = containerType st StashC e"

definition PoolType :: "type_state \<Rightarrow> htype \<Rightarrow> htype option \<times> type_state" where
  "PoolType st e = containerType st PoolC e"

definition httpGenericType :: "type_state \<Rightarrow> string \<Rightarrow> htype \<Rightarrow> htype option \<times> type_state" where
  "httpGenericType st http_family e = containerType st (HttpC http_family) e"

definition InlineStringType :: "type_state \<Rightarrow> nat \<Rightarrow> htype option \<times> type_state" where
  "InlineStringType st capacity =
     (if capacity = 0 \<or> MaxInlineStringCapacity < capacity then (None, st)
      else
        let key = inlineStringKey capacity in
        intern st StringTypes key (\<lambda>st.
          let (ident, st) = newTypeIdentity st;
              (c_name, st) = uniqueCollectionCName st (''hex_string_'' @ decimal capacity) None
          in (InlineStringT (plain_head (''String<'' @ decimal capacity @ ''>'') c_name key ident key) capacity,
              st)))"

definition DictType :: "type_state \<Rightarrow> htype \<Rightarrow> htype \<Rightarrow> htype option \<times> type_state" where
  "DictType st k v =
     (if \<not> (canonical_argument st False k \<and> IsDictKey k \<and> canonical_argument st False v
             \<and> deferred_storable st v PositionDictValue) then (None, st)
      else
        let key = dictKey k v in
        intern st DictTypes key (\<lambda>st.
          let (ident, st) = newTypeIdentity st;
              (c_name, st) = uniqueCollectionCName st
                (''hex_dict_'' @ SanitizeIdentifier (ty_name k) @ ''_'' @ SanitizeIdentifier (ty_name v)) (Some v)
          in (DictT (plain_head (''Dict<'' @ ty_name k @ '', '' @ ty_name v @ ''>'') c_name key ident key) k v,
              st)))"

section \<open>Function types\<close>

definition fun_admitted :: "type_state \<Rightarrow> htype list \<Rightarrow> htype option \<Rightarrow> bool \<Rightarrow> bool" where
  "fun_admitted st params result rest \<longleftrightarrow>
     \<not> (rest \<and> params = [])
       \<and> (let ts = params @ (case result of None \<Rightarrow> [] | Some r \<Rightarrow> [r])
          in fst (all_canonical (store_of st) (Some (ar_definition_names st)) building_flags False [] ts)
             \<and> (\<forall>t\<in>set ts. IsCompleteValue (store_of st) t \<or> ContainsTypeParameter (store_of st) t))"

definition FunTypeRest ::
    "type_state \<Rightarrow> htype list \<Rightarrow> htype option \<Rightarrow> bool \<Rightarrow> htype option \<times> type_state" where
  "FunTypeRest st params result rest =
     (if \<not> fun_admitted st params result rest then (None, st)
      else
        let key = funKey params result rest; nm = funName params result rest in
        intern st FunTypes key (\<lambda>st.
          let (ident, st) = newTypeIdentity st;
              (rest_slice, st) = (if rest then containerType st (SliceC False) (last params) else (None, st))
          in (FunT (plain_head nm [] key ident key) params result rest rest_slice, st)))"

definition FunType :: "type_state \<Rightarrow> htype list \<Rightarrow> htype option \<Rightarrow> htype option \<times> type_state" where
  "FunType st params result = FunTypeRest st params result False"

end
