(* ===== verification/TypeUnions.thy ===== *)
theory TypeUnions
  imports TypeArena
begin

text \<open>
  Structural unions (\<open>compiler/types/unions.go\<close>): the canonical order of members, the constructor
  that flattens, removes repetitions, sorts and interns, membership, and the removal of a member by
  narrowing. The order is lexicographic: a rank and a display key, then the canonical key.
\<close>

section \<open>The canonical order\<close>

definition zero_padded :: "nat \<Rightarrow> nat \<Rightarrow> string" where
  "zero_padded width n = replicate (width - length (decimal n)) (CHR ''0'') @ decimal n"

definition builtinUnionOrder :: "(string \<times> nat) list" where
  "builtinUnionOrder =
     [(''Bool'', 0), (''UInt8'', 1), (''UInt16'', 2), (''UInt32'', 3), (''UInt64'', 4), (''Int8'', 5),
      (''Int16'', 6), (''Int32'', 7), (''Int64'', 8), (''Float32'', 9), (''Float64'', 10)]"

definition unionDisplayKey :: "'a type_store_scheme \<Rightarrow> htype \<Rightarrow> nat \<times> string" where
  "unionDisplayKey st t =
     (if IsNil t then (4, [])
      else case map_of builtinUnionOrder (ty_name t) of
        Some rank \<Rightarrow> (0, zero_padded 2 rank)
      | None \<Rightarrow>
          (case t of
             ObjectT _ i \<Rightarrow>
               let object = object_at st i
               in (1, zero_padded 9 (ot_line object) @ '':'' @ zero_padded 9 (ot_column object) @ '':'' @ ot_name object)
           | _ \<Rightarrow>
               (case element_of t of
                  Some e \<Rightarrow> (2, (if pointee_writable t then ''MutPtr'' else ''Ptr'') @ '':'' @ ty_name e)
                | None \<Rightarrow> (3, ty_name t))))"

definition compareUnionMembers :: "'a type_store_scheme \<Rightarrow> htype \<Rightarrow> htype \<Rightarrow> int" where
  "compareUnionMembers st left right =
     (let (left_rank, left_key) = unionDisplayKey st left; (right_rank, right_key) = unionDisplayKey st right
      in if left_rank \<noteq> right_rank then (if left_rank < right_rank then -1 else 1)
         else if left_key < right_key then -1
         else if right_key < left_key then 1
         else if ty_key left < ty_key right then -1
         else if ty_key right < ty_key left then 1
         else 0)"

text \<open>\<open>slices.SortStableFunc\<close>: a stable sort by a comparison.\<close>

fun insert_by :: "('a \<Rightarrow> 'a \<Rightarrow> int) \<Rightarrow> 'a \<Rightarrow> 'a list \<Rightarrow> 'a list" where
  "insert_by cmp x [] = [x]"
| "insert_by cmp x (y # ys) = (if cmp x y \<le> 0 then x # y # ys else y # insert_by cmp x ys)"

definition sort_stable :: "('a \<Rightarrow> 'a \<Rightarrow> int) \<Rightarrow> 'a list \<Rightarrow> 'a list" where
  "sort_stable cmp xs = foldr (insert_by cmp) xs []"

section \<open>The constructor\<close>

definition union_member_admitted :: "type_state \<Rightarrow> htype \<Rightarrow> bool" where
  "union_member_admitted st m \<longleftrightarrow>
     ContainsTypeParameter (store_of st) m
       \<or> isCanonicalForEnvironment (store_of st) (Some (ar_definition_names st))
           (building_flags\<lparr>allowNilMember := True\<rparr>) False m
         \<and> Storable (store_of st) m PositionUnionMember"

text \<open>Members are taken in order, the first of those with one identity kept.\<close>

definition add_unique :: "htype list \<Rightarrow> htype \<Rightarrow> htype list" where
  "add_unique unique m = (if \<exists>existing\<in>set unique. Equal existing m then unique else unique @ [m])"

definition flatten_members :: "htype list \<Rightarrow> htype list" where
  "flatten_members members = concat (map UnionMembers members)"

definition unique_members :: "htype list \<Rightarrow> htype list" where
  "unique_members members = foldl add_unique [] (flatten_members members)"

definition UnionType :: "type_state \<Rightarrow> htype list \<Rightarrow> htype option \<times> type_state" where
  "UnionType st members =
     (if \<not> (\<forall>m\<in>set (flatten_members members). union_member_admitted st m) then (None, st)
      else
        let unique = unique_members members in
        if length unique < 2 then (None, st)
        else
          let sorted_members = sort_stable (compareUnionMembers (store_of st)) unique in
          if length sorted_members = 2 \<and> IsNil (sorted_members ! 1) \<and> IsPointerLike (sorted_members ! 0)
          then NullableType st (sorted_members ! 0)
          else
            let key = unionKey sorted_members in
            intern st UnionTypes key (\<lambda>st.
              let (ident, st) = newTypeIdentity st;
                  named = (\<lambda>c_name. UnionT (plain_head (unionName sorted_members) c_name key ident []) sorted_members);
                  c_name = union_free_name st (unionBaseName sorted_members) (named [])
              in (named c_name, ReserveDefinitionName st c_name (named c_name))))"

section \<open>Membership and removal\<close>

definition ContainsUnionMember :: "htype \<Rightarrow> htype \<Rightarrow> bool" where
  "ContainsUnionMember u m =
     (case u of
        UnionT _ members \<Rightarrow> (\<exists>candidate\<in>set members. Equal candidate m)
      | NullableT _ base \<Rightarrow> Equal base m \<or> IsNil m
      | _ \<Rightarrow> False)"

text \<open>\<open>UnionMemberView\<close>: its length and its bounds-checked reads.\<close>

definition view_Len :: "htype \<Rightarrow> nat" where
  "view_Len t = (case t of UnionT _ members \<Rightarrow> length members | NullableT _ _ \<Rightarrow> 2 | _ \<Rightarrow> 1)"

definition view_At :: "htype \<Rightarrow> int \<Rightarrow> htype option" where
  "view_At t index =
     (if index < 0 \<or> int (view_Len t) \<le> index then None
      else case t of
        UnionT _ members \<Rightarrow> Some (members ! nat index)
      | NullableT _ base \<Rightarrow> Some (if index = 0 then base else NilType)
      | _ \<Rightarrow> Some t)"

definition RemoveUnionMember :: "type_state \<Rightarrow> htype \<Rightarrow> htype \<Rightarrow> (htype option \<times> bool) \<times> type_state" where
  "RemoveUnionMember st u m =
     (if \<not> IsUnion u then ((None, False), st)
      else
        let members = UnionMembers u;
            remaining = filter (\<lambda>candidate. \<not> Equal candidate m) members
        in if length remaining = length members \<or> remaining = [] then ((None, False), st)
           else if length remaining = 1 then ((Some (hd remaining), True), st)
           else (case UnionType st remaining of (t, st') \<Rightarrow> ((t, True), st')))"

end
