(* ===== verification/Assignability.thy ===== *)
theory Assignability
  imports NumericLaws TypeUnions
begin

text \<open>
  \<open>Assignable\<close> of \<open>compiler/types/types.go\<close>, the conversions every assignment, argument and
  return admits, and what it promises: an abstract universe of values with the types they inhabit,
  and the proof that a value of an assignable source inhabits the target. The one conversion that
  trusts the program, recovering a pointee type from \<open>Ptr<Unknown>\<close>, is set apart.
\<close>

section \<open>The relation\<close>

fun slice_parts :: "htype \<Rightarrow> (htype \<times> bool) option" where
  "slice_parts (ContainerT _ (SliceC w) e) = Some (e, w)"
| "slice_parts _ = None"

fun IsList :: "htype \<Rightarrow> bool" where
  "IsList (ContainerT _ ListC _) = True"
| "IsList _ = False"

text \<open>The rules for two types neither of which is a union or nullable.\<close>

definition assignable_plain :: "htype \<Rightarrow> htype \<Rightarrow> bool" where
  "assignable_plain target source =
     (if IsNil source then False
      else if IsNullable source then False
      else
        case (slice_parts target, slice_parts source) of
          (Some (e, w), Some (e', w')) \<Rightarrow> Equal e e' \<and> \<not> w \<and> w'
        | _ \<Rightarrow>
            (case (element_of target, element_of source) of
               (Some e, Some e') \<Rightarrow>
                 (Equal e e' \<or> IsUnknown e \<noteq> IsUnknown e') \<and> \<not> (pointee_writable target \<and> \<not> pointee_writable source)
             | _ \<Rightarrow> IsList target \<and> IsList source \<and> ty_key target = ty_key source \<and> ty_key target \<noteq> []))"

fun Assignable :: "htype \<Rightarrow> htype \<Rightarrow> bool" where
  "Assignable (NullableT h base) source =
     (Equal (NullableT h base) source \<or> WidensTo source (NullableT h base) \<or> IsNil source
        \<or> (case NullableBase source of
             Some source_base \<Rightarrow> Assignable base source_base
           | None \<Rightarrow> Assignable base source))"
| "Assignable (UnionT h members) source =
     (Equal (UnionT h members) source \<or> WidensTo source (UnionT h members)
        \<or> (\<exists>m\<in>set members. Equal m source)
        \<or> IsUnion source \<and> (\<forall>m\<in>set (UnionMembers source). ContainsUnionMember (UnionT h members) m))"
| "Assignable target source =
     (Equal target source \<or> WidensTo source target \<or> assignable_plain target source)"

section \<open>Values and the types they inhabit\<close>

datatype hvalue =
    VNil
  | VNum rat
  | VOpaque nat
  | VPtr nat bool
  | VSlice nat bool
  | VList string

text \<open>A pointer or slice value knows the identity of what it refers to and whether it may write; a
  pointer to \<open>Unknown\<close> may refer to anything.\<close>

fun inhabits :: "hvalue \<Rightarrow> htype \<Rightarrow> bool" where
  "inhabits v (NullableT _ base) = (v = VNil \<or> inhabits v base)"
| "inhabits v (UnionT _ members) = (\<exists>m\<in>set members. inhabits v m)"
| "inhabits v (PtrT _ e w) = (\<exists>i w'. v = VPtr i w' \<and> (w \<longrightarrow> w') \<and> (i = ty_ident e \<or> IsUnknown e))"
| "inhabits v (ContainerT h (SliceC w) e) = (\<exists>w'. v = VSlice (ty_ident e) w' \<and> (w \<longrightarrow> w'))"
| "inhabits v (ContainerT h ListC e) = (v = VList (th_key h))"
| "inhabits v t =
     (if IsNil t then v = VNil
      else if IsInteger t \<or> IsFloat t then \<exists>q\<in>scalar_values t. v = VNum q
      else v = VOpaque (ty_ident t))"

text \<open>The types a type mentions at its top level, which assignment compares by identity.\<close>

fun parts :: "htype \<Rightarrow> htype set" where
  "parts (NullableT h base) = insert (NullableT h base) (parts base)"
| "parts (UnionT h members) = insert (UnionT h members) (set members \<union> {NilType})"
| "parts t = {t}"

text \<open>One type per identity, as interning gives; the copies of a nominal type, as it was declared and as it
  was completed, share theirs. A pointer recovered from an erased one is excluded.\<close>

definition nominal :: "htype \<Rightarrow> bool" where
  "nominal t \<longleftrightarrow>
     (case t of ObjectT _ _ \<Rightarrow> True | AdtT _ _ \<Rightarrow> True | GenericT _ _ _ \<Rightarrow> True | _ \<Rightarrow> False) \<and> ty_kind t = ScalarNone"

definition one_type_per_identity :: "htype set \<Rightarrow> bool" where
  "one_type_per_identity S \<longleftrightarrow> (\<forall>a\<in>S. \<forall>b\<in>S. Equal a b \<longrightarrow> a = b \<or> nominal a \<and> nominal b)"

definition erased_pointer :: "htype \<Rightarrow> bool" where
  "erased_pointer t \<longleftrightarrow> (\<exists>e. element_of t = Some e \<and> IsUnknown e)"

section \<open>Soundness\<close>

lemma SpecID_Some:
  "SpecID u = Some c \<Longrightarrow> \<exists>r\<in>set SpecID_table. Equal u (fst r) \<and> snd r = c"
proof -
  assume "SpecID u = Some c"
  then obtain r where "find (\<lambda>row. Equal u (fst row)) SpecID_table = Some r" "snd r = c"
    by (auto simp: SpecID_def)
  then show ?thesis by (auto simp: find_Some_iff)
qed

definition fixed_names :: "string list" where
  "fixed_names = map ty_name fixed_width"

lemma fixed_names_simp:
  "fixed_names = [''Int8'', ''Int16'', ''Int32'', ''Int64'', ''UInt8'', ''UInt16'', ''UInt32'', ''UInt64'',
     ''Float32'', ''Float64'']"
  by (simp add: fixed_names_def fixed_width_def)

lemma fixed_row:
  "\<lbrakk>r \<in> set SpecID_table; snd r \<in> set fixed_names\<rbrakk> \<Longrightarrow> fst r \<in> set fixed_width \<and> SpecID (fst r) = Some (snd r)"
  unfolding SpecID_table_def fixed_names_simp fixed_width_def by auto

lemma Widening_names: "Widening a b \<Longrightarrow> a \<in> set fixed_names \<and> b \<in> set fixed_names"
proof -
  have "set wideningPairs \<subseteq> set fixed_names \<times> set fixed_names"
    unfolding fixed_names_simp wideningPairs_def by simp
  then show "Widening a b \<Longrightarrow> a \<in> set fixed_names \<and> b \<in> set fixed_names"
    by (auto simp: Widening_def)
qed

lemma WidensTo_cases:
  assumes "WidensTo s t"
  shows "Equal s t \<or> (\<exists>s'\<in>set fixed_width. \<exists>t'\<in>set fixed_width. Equal s s' \<and> Equal t t' \<and> WidensTo s' t')"
proof (cases "Equal s t")
  case False
  with assms obtain a b where ab: "SpecID s = Some a" "SpecID t = Some b" "Widening a b"
    by (auto simp: WidensTo_def split: if_splits option.splits)
  obtain r q where r: "r \<in> set SpecID_table" "Equal s (fst r)" "snd r = a"
    and q: "q \<in> set SpecID_table" "Equal t (fst q)" "snd q = b"
    using SpecID_Some [OF ab(1)] SpecID_Some [OF ab(2)] by blast
  have r': "fst r \<in> set fixed_width" "SpecID (fst r) = Some a"
    and q': "fst q \<in> set fixed_width" "SpecID (fst q) = Some b"
    using fixed_row r q Widening_names [OF ab(3)] by auto
  have "WidensTo (fst r) (fst q)"
    using ab(3) r'(2) q'(2) fixed_width_numeric [OF r'(1)] fixed_width_numeric [OF q'(1)]
    by (auto simp: WidensTo_def)
  then show ?thesis using r(2) q(2) r'(1) q'(1) by blast
qed simp

lemma fixed_width_Basic: "t \<in> set fixed_width \<Longrightarrow> \<exists>h. t = Basic h"
  by (auto simp: fixed_width_def scalar_defs scalarType_def)

lemma ty_ident_NilType [simp]: "ty_ident NilType = 12"
  by (simp add: NilType_def opaqueType_def)

lemma fixed_width_not_Nil: "t \<in> set fixed_width \<Longrightarrow> \<not> IsNil t"
  by (auto simp: fixed_width_def IsNil_def)

lemma inhabits_fixed_width:
  assumes "t \<in> set fixed_width"
  shows "inhabits v t \<longleftrightarrow> (\<exists>q\<in>scalar_values t. v = VNum q)"
  using assms fixed_width_Basic [OF assms] fixed_width_not_Nil [OF assms] fixed_width_numeric [OF assms]
  by auto

lemma nominal_inhabits: "nominal a \<Longrightarrow> nominal b \<Longrightarrow> Equal a b \<Longrightarrow> inhabits v a = inhabits v b"
  by (cases a; cases b) (auto simp: nominal_def Equal_def IsNil_def IsInteger_def IsFloat_def)

lemma same_inhabits:
  "one_type_per_identity S \<Longrightarrow> Equal a b \<Longrightarrow> a \<in> S \<Longrightarrow> b \<in> S \<Longrightarrow> inhabits v a = inhabits v b"
  unfolding one_type_per_identity_def using nominal_inhabits by blast

lemma same_not_nominal:
  "one_type_per_identity S \<Longrightarrow> Equal a b \<Longrightarrow> a \<in> S \<Longrightarrow> b \<in> S \<Longrightarrow> \<not> nominal b \<Longrightarrow> a = b"
  unfolding one_type_per_identity_def by blast

lemma fixed_width_not_nominal: "t \<in> set fixed_width \<Longrightarrow> \<not> nominal t"
  by (auto simp: nominal_def dest: fixed_width_Basic)

lemma WidensTo_inhabits:
  assumes "WidensTo s t" "inhabits v s" "one_type_per_identity ({s, t} \<union> set fixed_width)"
  shows "inhabits v t"
  using WidensTo_cases [OF assms(1)]
proof
  assume "Equal s t"
  then show ?thesis using same_inhabits [OF assms(3), of s t] assms(2) by simp
next
  assume "\<exists>s'\<in>set fixed_width. \<exists>t'\<in>set fixed_width. Equal s s' \<and> Equal t t' \<and> WidensTo s' t'"
  then have st: "s \<in> set fixed_width" "t \<in> set fixed_width" "WidensTo s t"
    using same_not_nominal [OF assms(3)] fixed_width_not_nominal assms(1) by (metis UnI1 UnI2 insertCI)+
  then have "scalar_values s \<subseteq> scalar_values t" using widening_is_inclusion by blast
  then show ?thesis
    using assms(2) inhabits_fixed_width [OF st(1)] inhabits_fixed_width [OF st(2)] by blast
qed

lemma inhabits_UnionMembers: "inhabits v s \<Longrightarrow> \<exists>m\<in>set (UnionMembers s). inhabits v m"
  by (cases s) (auto simp: UnionMembers_def NilType_def opaqueType_def IsNil_def)

lemma parts_self [simp]: "t \<in> parts t"
  by (cases t) simp_all

lemma parts_UnionMembers: "IsUnion s \<Longrightarrow> set (UnionMembers s) \<subseteq> parts s \<union> {NilType}"
  by (cases s) (auto simp: UnionMembers_def IsUnion_def IsNullable_def)

lemma assignable_plain_inhabits:
  assumes "assignable_plain t s" "inhabits v s" "\<not> erased_pointer s" "\<not> IsUnion t"
  shows "inhabits v t"
  using assms
  by (cases t; cases s)
    (auto simp: assignable_plain_def IsUnion_def IsNullable_def erased_pointer_def Equal_def
      split: if_splits option.splits container.splits elim!: slice_parts.elims IsList.elims)

lemma Assignable_inhabits_in:
  assumes S: "one_type_per_identity S" "set fixed_width \<subseteq> S" "NilType \<in> S"
  shows "\<lbrakk>Assignable t s; inhabits v s; \<not> erased_pointer s; parts t \<subseteq> S; parts s \<subseteq> S\<rbrakk> \<Longrightarrow> inhabits v t"
proof -
  note same = same_inhabits [OF S(1)]
  have widen: "inhabits v b" if "WidensTo a b" "inhabits v a" "a \<in> S" "b \<in> S" for a b
  proof (rule WidensTo_inhabits [OF that(1,2)])
    show "one_type_per_identity ({a, b} \<union> set fixed_width)"
      using S that(3,4) unfolding one_type_per_identity_def by blast
  qed
  have nil: "v = VNil" if "IsNil a" "a \<in> S" "inhabits v a" for a
  proof -
    have "a = NilType"
      using same_not_nominal [OF S(1), of a NilType] that S(3)
      by (simp add: IsNil_def Equal_def nominal_def NilType_def opaqueType_def)
    then show ?thesis using that(3) by (simp add: NilType_def opaqueType_def IsNil_def)
  qed
  have self: "a \<in> S" if "parts a \<subseteq> S" for a using that parts_self by blast
  have plain: "inhabits v a"
    if "Equal a b \<or> WidensTo b a \<or> assignable_plain a b" "inhabits v b" "\<not> erased_pointer b" "a \<in> S" "b \<in> S"
      "\<not> IsUnion a" for a b
    using that(1)
  proof (elim disjE)
    assume "Equal a b"
    then show ?thesis using same [of a b] that by simp
  qed (use widen assignable_plain_inhabits that in blast)+
  show "\<lbrakk>Assignable t s; inhabits v s; \<not> erased_pointer s; parts t \<subseteq> S; parts s \<subseteq> S\<rbrakk> \<Longrightarrow> inhabits v t"
  proof (induction t s rule: Assignable.induct)
    case (1 h base source)
    let ?t = "NullableT h base"
    have S': "?t \<in> S" "source \<in> S" using 1 self by blast+
    from 1(3) consider "Equal ?t source" | "WidensTo source ?t" | "IsNil source"
      | b where "NullableBase source = Some b" "Assignable base b"
      | "NullableBase source = None" "Assignable base source"
      by (auto split: option.splits)
    then show ?case
    proof cases
      case a: 4
      then obtain h' where source: "source = NullableT h' b" by (cases source) auto
      have "inhabits v base" if "inhabits v b"
        using 1(2) [OF a(1,2) that] 1(5-7) by (simp add: source erased_pointer_def)
      then show ?thesis using 1(4) by (auto simp: source)
    next
      case a: 5
      then show ?thesis using 1(1) [OF a 1(4,5) _ 1(7)] 1(6) by simp
    qed (use same [of ?t source] widen [of source ?t] nil [of source] S' 1(4) in auto)
  next
    case (2 h members source)
    let ?t = "UnionT h members"
    have S': "?t \<in> S" "source \<in> S" "set members \<subseteq> S" using 2 self by auto
    have member: "inhabits v ?t" if "m \<in> S" "inhabits v m" "ContainsUnionMember ?t m" for m
      using that S'(3) same by (fastforce simp: ContainsUnionMember_def)
    from 2(1) consider "Equal ?t source" | "WidensTo source ?t" | m where "m \<in> set members" "Equal m source"
      | "IsUnion source" "\<forall>m\<in>set (UnionMembers source). ContainsUnionMember ?t m"
      by auto
    then show ?case
    proof cases
      case 1
      then show ?thesis using same [of ?t source] S' 2(2) by simp
    next
      case 3
      then show ?thesis using same [of m source] S' 2(2) by auto
    next
      case 4
      from inhabits_UnionMembers [OF 2(2)] obtain m where "m \<in> set (UnionMembers source)" "inhabits v m" by blast
      moreover have "set (UnionMembers source) \<subseteq> S"
        using parts_UnionMembers [OF 4(1)] 2(5) S(3) by blast
      ultimately show ?thesis using 4(2) member by blast
    qed (use widen S' 2(2) in blast)
  qed (rule plain, simp only: Assignable.simps, assumption, assumption, erule self, erule self,
      simp add: IsUnion_def IsNullable_def)+
qed

end
