(* ===== verification/TypeEnvironment.thy ===== *)
theory TypeEnvironment
  imports TypeUnions
begin

text \<open>
  Module environments over the shared arena (\<open>compiler/types/types.go\<close>, \<open>adt.go\<close>, \<open>generics.go\<close>,
  \<open>arena.go\<close>): the arena a compilation starts with, the names, aliases and generic declarations of
  one module, nominal declarations in their two steps, dictionary entries, foreign records, and the
  types written uses resolve to.
\<close>

section \<open>The initial arena\<close>

definition seed_family :: "family \<Rightarrow> htype list \<Rightarrow> (family \<Rightarrow> (string \<times> htype) list) \<Rightarrow> family \<Rightarrow> (string \<times> htype) list" where
  "seed_family f ts maps = maps(f := map (\<lambda>t. (ty_key t, t)) ts)"

definition builtinInlineStrings :: "htype list" where
  "builtinInlineStrings = [ErrorHeaderText, ErrorMessageText]"

definition builtinStructuralUnions :: "htype list" where
  "builtinStructuralUnions = [nullableWorkingDirectory, nullablePipe, RegexCaptureType]"

definition seeded_lists :: "htype list" where
  "seeded_lists = [JsonValueListType, JsonMemberListType, RegexCaptureListType]"

definition seeded_slices :: "htype list" where
  "seeded_slices = [HttpByteSliceType, HttpHeaderSliceType]"

definition seeded_inline_lists :: "htype list" where
  "seeded_inline_lists = [addressIPv4Bytes, addressIPv6Bytes]"

definition NewArena :: type_state where
  "NewArena =
     \<lparr>st_objects = builtin_objects, st_adts = builtin_adts,
      ar_families =
        seed_family StringTypes builtinInlineStrings
          (seed_family InlineListTypes seeded_inline_lists
            (seed_family ListTypes seeded_lists
              (seed_family SliceTypes seeded_slices
                (seed_family UnionTypes builtinStructuralUnions (\<lambda>_. []))))),
      ar_definition_names =
        map (\<lambda>t. (ty_cname t, t))
          (builtinStructuralUnions @ seeded_inline_lists @ builtinInlineStrings @ map snd builtinTypes),
      ar_foreign_objects = [],
      ar_collection_cnames =
        map ty_cname (builtinInlineStrings @ seeded_inline_lists @ seeded_lists @ seeded_slices),
      ar_declarations = [],
      ar_next_ident = first_fresh_ident\<rparr>"

section \<open>Written uses\<close>

text \<open>\<open>TypeUse\<close>: the type, the candidates of a written union in order, the use of a pointee, and the
  uses of parameters and result.\<close>

datatype type_use =
  TypeUse (use_type: htype) (use_candidates: "type_use list") (use_element: "type_use option")
    (use_parameters: "type_use list") (use_result: "type_use option")

definition NewTypeUse :: "htype \<Rightarrow> type_use" where
  "NewTypeUse t = TypeUse t [] None [] None"

definition UnionTypeUse :: "htype \<Rightarrow> type_use list \<Rightarrow> type_use" where
  "UnionTypeUse t candidates = TypeUse t candidates None [] None"

definition PointerTypeUse :: "htype \<Rightarrow> type_use \<Rightarrow> type_use" where
  "PointerTypeUse t e = TypeUse t [] (Some e) [] None"

definition FunctionTypeUse :: "htype \<Rightarrow> type_use list \<Rightarrow> type_use option \<Rightarrow> type_use" where
  "FunctionTypeUse t params result = TypeUse t [] None params result"

section \<open>Module environments\<close>

record environment =
  en_names :: "(string \<times> htype) list"
  en_aliases :: "(string \<times> htype) list"
  en_alias_uses :: "(string \<times> type_use) list"
  en_generics :: "(string \<times> nat) list"
  en_module :: string

definition NewCompilationEnvironment :: "string \<Rightarrow> environment" where
  "NewCompilationEnvironment module_id =
     \<lparr>en_names = [], en_aliases = [], en_alias_uses = [], en_generics = [], en_module = module_id\<rparr>"

definition en_owner :: "environment \<Rightarrow> string" where
  "en_owner en = EncodeModuleOwner (en_module en)"

definition Lookup :: "environment \<Rightarrow> string \<Rightarrow> htype option" where
  "Lookup en nm =
     (case map_of (en_names en) nm of
        Some t \<Rightarrow> Some t
      | None \<Rightarrow> (case map_of (en_aliases en) nm of Some t \<Rightarrow> Some t | None \<Rightarrow> builtin_Lookup nm))"

definition Contains :: "environment \<Rightarrow> string \<Rightarrow> bool" where
  "Contains en nm \<longleftrightarrow>
     map_of (en_names en) nm \<noteq> None \<or> map_of (en_aliases en) nm \<noteq> None
       \<or> map_of (en_alias_uses en) nm \<noteq> None \<or> builtin_Lookup nm \<noteq> None"

definition DeclareAlias :: "environment \<Rightarrow> string \<Rightarrow> htype \<Rightarrow> environment" where
  "DeclareAlias en nm t =
     en\<lparr>en_aliases := (nm, t) # en_aliases en, en_alias_uses := (nm, NewTypeUse t) # en_alias_uses en\<rparr>"

definition DeclareAliasUse :: "environment \<Rightarrow> string \<Rightarrow> type_use \<Rightarrow> environment" where
  "DeclareAliasUse en nm use = en\<lparr>en_alias_uses := (nm, use) # en_alias_uses en\<rparr>"

definition LookupUse :: "environment \<Rightarrow> string \<Rightarrow> type_use option" where
  "LookupUse en nm =
     (case map_of (en_alias_uses en) nm of
        Some use \<Rightarrow> Some use
      | None \<Rightarrow>
          (case map_of (en_names en) nm of
             Some t \<Rightarrow> Some (NewTypeUse t)
           | None \<Rightarrow> map_option NewTypeUse (builtin_Lookup nm)))"

section \<open>Nominal declarations\<close>

definition delete_name :: "environment \<Rightarrow> string \<Rightarrow> environment" where
  "delete_name en nm = en\<lparr>en_names := filter (\<lambda>entry. fst entry \<noteq> nm) (en_names en)\<rparr>"

definition BeginObject ::
    "environment \<Rightarrow> type_state \<Rightarrow> string \<Rightarrow> nat \<Rightarrow> nat \<Rightarrow> htype \<times> environment \<times> type_state" where
  "BeginObject en st nm line column =
     (let (ident, st) = newTypeIdentity st;
          c_name = nominal_c_name (en_owner en) nm;
          object = \<lparr>ot_name = nm, ot_cname = c_name, ot_module = en_module en, ot_members = [],
                    ot_line = line, ot_column = column, ot_incomplete = True, ot_ident = ident\<rparr>;
          t = ObjectT ((plain_head nm c_name (canonicalNominalKey nm (en_module en)) ident (''object:'' @ nm))
                \<lparr>th_incomplete := True\<rparr>) (length (st_objects st));
          st = st\<lparr>st_objects := st_objects st @ [object]\<rparr>
      in (t, en\<lparr>en_names := (nm, t) # en_names en\<rparr>, ReserveDefinitionName st c_name t))"

fun complete_head :: "htype \<Rightarrow> htype" where
  "complete_head (ObjectT h i) = ObjectT (h\<lparr>th_incomplete := False\<rparr>) i"
| "complete_head t = t"

fun object_index :: "htype \<Rightarrow> nat option" where
  "object_index (ObjectT _ i) = Some i"
| "object_index _ = None"

fun adt_index :: "htype \<Rightarrow> nat option" where
  "adt_index (AdtT _ i) = Some i"
| "adt_index _ = None"

definition set_members :: "type_state \<Rightarrow> nat \<Rightarrow> object_field list \<Rightarrow> type_state" where
  "set_members st i members =
     st\<lparr>st_objects := (st_objects st)[i := (object_at st i)\<lparr>ot_members := members, ot_incomplete := False\<rparr>]\<rparr>"

definition CompleteObject ::
    "environment \<Rightarrow> type_state \<Rightarrow> string \<Rightarrow> object_field list \<Rightarrow> htype option \<times> type_state" where
  "CompleteObject en st nm members =
     (case Option.bind (map_of (en_names en) nm) (\<lambda>t. map_option (Pair t) (object_index t)) of
        None \<Rightarrow> (None, st)
      | Some (t, i) \<Rightarrow> (Some (complete_head t), set_members st i members))"

definition AbandonObject :: "environment \<Rightarrow> string \<Rightarrow> environment" where
  "AbandonObject en nm = delete_name en nm"

definition BeginADT ::
    "environment \<Rightarrow> type_state \<Rightarrow> string \<Rightarrow> nat \<Rightarrow> nat \<Rightarrow> htype \<times> environment \<times> type_state" where
  "BeginADT en st nm line column =
     (let (ident, st) = newTypeIdentity st;
          c_name = nominal_c_name (en_owner en) nm;
          adt = \<lparr>at_name = nm, at_cname = c_name, at_variants = [], at_line = line, at_column = column,
                 at_module = en_module en, at_ident = ident\<rparr>;
          t = AdtT (plain_head nm c_name (canonicalNominalKey nm (en_module en)) ident []) (length (st_adts st));
          st = st\<lparr>st_adts := st_adts st @ [adt]\<rparr>
      in (t, en\<lparr>en_names := (nm, t) # en_names en\<rparr>, ReserveDefinitionName st c_name t))"

definition CompleteADT ::
    "environment \<Rightarrow> type_state \<Rightarrow> string \<Rightarrow> (string \<times> object_field list) list \<Rightarrow> htype option \<times> type_state" where
  "CompleteADT en st nm variants =
     (case Option.bind (map_of (en_names en) nm) (\<lambda>t. map_option (Pair t) (adt_index t)) of
        None \<Rightarrow> (None, st)
      | Some (t, i) \<Rightarrow> (Some t, st\<lparr>st_adts := (st_adts st)[i := (adt_at st i)\<lparr>at_variants := variants\<rparr>]\<rparr>))"

definition AbandonADT :: "environment \<Rightarrow> string \<Rightarrow> environment" where
  "AbandonADT en nm = delete_name en nm"

text \<open>\<open>(*Environment).AdtVariant\<close>.\<close>

definition environment_AdtVariant ::
    "environment \<Rightarrow> type_state \<Rightarrow> string \<Rightarrow> string \<Rightarrow> (string \<times> object_field list) option" where
  "environment_AdtVariant en st nm variant =
     (let t = (case map_of (en_names en) nm of Some t \<Rightarrow> Some t | None \<Rightarrow> builtin_Lookup nm)
      in case Option.bind t adt_index of
           None \<Rightarrow> None
         | Some i \<Rightarrow> find (\<lambda>v. fst v = variant) (at_variants (adt_at st i)))"

section \<open>Dictionary entries\<close>

definition DictEntryCName :: "htype \<Rightarrow> htype \<Rightarrow> string" where
  "DictEntryCName k v =
     ''hex_t_DictEntry_'' @ SanitizeIdentifier (ty_key k) @ ''_'' @ SanitizeIdentifier (ty_key v)"

definition dictEntryKey :: "htype \<Rightarrow> htype \<Rightarrow> string" where
  "dictEntryKey k v = ''dict-entry:'' @ ty_key k @ '','' @ ty_key v"

definition DictEntryType :: "type_state \<Rightarrow> htype \<Rightarrow> htype \<Rightarrow> htype option \<times> type_state" where
  "DictEntryType st k v =
     (if \<not> (canonical_argument st False k \<and> canonical_argument st False v \<and> IsCompleteValue (store_of st) k
             \<and> IsCompleteValue (store_of st) v \<and> \<not> has_signature k \<and> \<not> has_signature v) then (None, st)
      else
        let key = dictEntryKey k v in
        intern st DictEntryTypes key (\<lambda>st.
          let nm = ''DictEntry<'' @ ty_name k @ '', '' @ ty_name v @ ''>'';
              c_name = DictEntryCName k v;
              (ident, st) = newTypeIdentity st;
              object = zero_object\<lparr>ot_name := nm, ot_cname := c_name,
                ot_members := [builtin_member (''key'', k), builtin_member (''value'', v)], ot_ident := ident\<rparr>;
              t = ObjectT (plain_head nm c_name key ident key) (length (st_objects st))
          in (t, ReserveDefinitionName (st\<lparr>st_objects := st_objects st @ [object]\<rparr>) c_name t)))"

definition IsDictEntry :: "type_state \<Rightarrow> htype \<Rightarrow> bool" where
  "IsDictEntry st t =
     (case object_index t of
        None \<Rightarrow> False
      | Some i \<Rightarrow>
          (let object = object_at st i in
           case ot_members object of
             [k, v] \<Rightarrow>
               om_name k = ''key'' \<and> om_name v = ''value'' \<and> ty_key t = dictEntryKey (om_type k) (om_type v)
                 \<and> ty_cname t = DictEntryCName (om_type k) (om_type v) \<and> ot_cname object = ty_cname t
           | _ \<Rightarrow> False))"

section \<open>Foreign records\<close>

definition ForeignRecord ::
    "type_state \<Rightarrow> string \<Rightarrow> string \<Rightarrow> string \<Rightarrow> bool \<Rightarrow> nat \<Rightarrow> nat \<Rightarrow> (htype \<times> bool) \<times> type_state" where
  "ForeignRecord st key nm c_name incomplete line column =
     (case map_of (ar_foreign_objects st) key of
        Some existing \<Rightarrow> ((existing, True), st)
      | None \<Rightarrow>
          let (ident, st) = newTypeIdentity st;
              object = \<lparr>ot_name = nm, ot_cname = c_name, ot_module = [], ot_members = [], ot_line = line,
                        ot_column = column, ot_incomplete = incomplete, ot_ident = ident\<rparr>;
              full_key = ''foreign:'' @ key;
              t = ObjectT ((plain_head nm c_name full_key ident full_key)\<lparr>th_incomplete := incomplete\<rparr>)
                    (length (st_objects st))
          in ((t, False),
              st\<lparr>st_objects := st_objects st @ [object],
                 ar_foreign_objects := (key, t) # ar_foreign_objects st\<rparr>))"

definition CompleteForeignRecord :: "type_state \<Rightarrow> htype \<Rightarrow> object_field list \<Rightarrow> htype \<times> type_state" where
  "CompleteForeignRecord st t members =
     (case object_index t of
        None \<Rightarrow> (t, st)
      | Some i \<Rightarrow> (complete_head t, set_members st i members))"

definition ForeignRecordMembers :: "type_state \<Rightarrow> htype \<Rightarrow> object_field list" where
  "ForeignRecordMembers st t =
     (case object_index t of None \<Rightarrow> [] | Some i \<Rightarrow> ot_members (object_at st i))"

definition ForeignRecordIncomplete :: "type_state \<Rightarrow> htype \<Rightarrow> bool" where
  "ForeignRecordIncomplete st t =
     (case object_index t of None \<Rightarrow> False | Some i \<Rightarrow> ot_incomplete (object_at st i))"

section \<open>Generic declarations\<close>

definition DeclareGeneric ::
    "environment \<Rightarrow> type_state \<Rightarrow> string \<Rightarrow> int \<Rightarrow> string list \<Rightarrow> nat option \<times> environment \<times> type_state" where
  "DeclareGeneric en st nm arity parameters =
     (if arity < 0 \<or> int (length parameters) \<noteq> arity then (None, en, st)
      else case map_of (en_generics en) nm of
        Some existing \<Rightarrow>
          let d = ar_declarations st ! existing in
          if int (gd_arity d) = arity \<and> gd_parameters d = parameters then (Some existing, en, st)
          else (None, en, st)
      | None \<Rightarrow>
          let index = length (ar_declarations st);
              d = \<lparr>gd_name = nm, gd_arity = nat arity, gd_parameters = parameters,
                   gd_placeholders = replicate (nat arity) None\<rparr>
          in (Some index, en\<lparr>en_generics := (nm, index) # en_generics en\<rparr>,
              st\<lparr>ar_declarations := ar_declarations st @ [d]\<rparr>))"

text \<open>The placeholder of one parameter: created on first use, then kept with the declaration. Its
  canonical key is the parameter's name.\<close>

definition TypeParameter :: "type_state \<Rightarrow> nat \<Rightarrow> int \<Rightarrow> htype option \<times> type_state" where
  "TypeParameter st declaration index =
     (if declaration \<ge> length (ar_declarations st) then (None, st)
      else
        let d = ar_declarations st ! declaration in
        if index < 0 \<or> int (gd_arity d) \<le> index then (None, st)
        else case gd_placeholders d ! nat index of
          Some t \<Rightarrow> (Some t, st)
        | None \<Rightarrow>
            let (ident, st) = newTypeIdentity st;
                nm = gd_parameters d ! nat index;
                t = GenericT ((plain_head nm [] nm ident [])\<lparr>th_incomplete := True\<rparr>) declaration (nat index)
            in (Some t,
                st\<lparr>ar_declarations := (ar_declarations st)
                     [declaration := d\<lparr>gd_placeholders := (gd_placeholders d)[nat index := Some t]\<rparr>]\<rparr>))"

section \<open>Module owners and builtin records\<close>

text \<open>\<open>SetModuleOwner\<close> of the two record kinds; the encoded owner is a function of the module id.\<close>

definition SetObjectModuleOwner :: "type_state \<Rightarrow> nat \<Rightarrow> string \<Rightarrow> type_state" where
  "SetObjectModuleOwner st i module_id =
     st\<lparr>st_objects := (st_objects st)[i := (object_at st i)\<lparr>ot_module := module_id\<rparr>]\<rparr>"

definition SetAdtModuleOwner :: "type_state \<Rightarrow> nat \<Rightarrow> string \<Rightarrow> type_state" where
  "SetAdtModuleOwner st i module_id =
     st\<lparr>st_adts := (st_adts st)[i := (adt_at st i)\<lparr>at_module := module_id\<rparr>]\<rparr>"

definition ObjectNominalEncodedOwner :: "object_type \<Rightarrow> string" where
  "ObjectNominalEncodedOwner object = EncodeModuleOwner (ot_module object)"

definition AdtNominalEncodedOwner :: "adt_type \<Rightarrow> string" where
  "AdtNominalEncodedOwner adt = EncodeModuleOwner (at_module adt)"

definition NominalOwnerOf :: "htype \<Rightarrow> nominal_ref option" where
  "NominalOwnerOf t =
     (case t of ObjectT _ i \<Rightarrow> Some (ObjectRef i) | AdtT _ i \<Rightarrow> Some (AdtRef i) | _ \<Rightarrow> None)"

definition IsBuiltinAdt :: "htype \<Rightarrow> bool" where
  "IsBuiltinAdt t \<longleftrightarrow>
     (\<exists>b\<in>set [SeekType, FileModeType, ErrorKindType, UnicodeCategoryType, NormalizationFormType, AddressType,
               EnvironmentType, ProcessStreamType, ExitStatusType, SignalType, JsonValueType]. Equal t b)"

definition IsBuiltinObject :: "nat \<Rightarrow> bool" where
  "IsBuiltinObject object \<longleftrightarrow>
     object \<in> set (List.map_filter object_index
       [EnvironmentVariableType, ProcessOptionsType, StartedProcessType, TerminalSizeType, JsonMemberType,
        RegexSpanType, RegexMatchType])"

definition HttpGenericApp :: "htype \<Rightarrow> htype option" where
  "HttpGenericApp t = (case t of ContainerT _ (HttpC _) app \<Rightarrow> Some app | _ \<Rightarrow> None)"

definition HttpGenericFamily :: "htype \<Rightarrow> string option" where
  "HttpGenericFamily t = (case t of ContainerT _ (HttpC http_family) _ \<Rightarrow> Some http_family | _ \<Rightarrow> None)"

definition IsHttpRouter :: "htype \<Rightarrow> bool" where
  "IsHttpRouter t \<longleftrightarrow> HttpGenericFamily t = Some ''HttpRouter''"

definition IsHttpServer :: "htype \<Rightarrow> bool" where
  "IsHttpServer t \<longleftrightarrow> HttpGenericFamily t = Some ''HttpServer''"

section \<open>Stream capabilities\<close>

datatype stream_capability = StreamUnknown | StreamReadable | StreamWritable | StreamReadWrite

definition CapabilityFromConstructor :: "string \<Rightarrow> stream_capability option" where
  "CapabilityFromConstructor nm =
     (if nm = ''stdin'' then Some StreamReadable
      else if nm = ''stdout'' \<or> nm = ''stderr'' then Some StreamWritable
      else None)"

definition CapabilityFromFileMode :: "int \<Rightarrow> stream_capability" where
  "CapabilityFromFileMode variant =
     (if variant = 0 then StreamReadable else if variant = 3 then StreamReadWrite else StreamWritable)"

end
