(* ===== verification/TypeArenaLaws.thy ===== *)
theory TypeArenaLaws
  imports TypeEnvironment
begin

text \<open>
  Invariants of the arena. The free-name searches, stated once in a locale over a registry of used
  names, always end with an unused one; every entry is interned under its own canonical key, has an
  identity of its own below the next one, and, in the families that generate one definition per
  type, a C name of its own. The invariant holds of the initial arena and every operation keeps it;
  entries are never removed or replaced.
\<close>

section \<open>Free names\<close>

lemma candidate_inject: "candidate stem m = candidate stem n \<longleftrightarrow> m = n"
  by (auto simp: candidate_def split: nat.splits)

locale free_name_search =
  fixes taken :: "string \<Rightarrow> bool" and used :: "string list"
  assumes taken_used: "taken nm \<Longrightarrow> nm \<in> set used"
begin

lemma some_candidate_free: "\<exists>n\<le>length used. \<not> taken (candidate stem n)"
proof (rule ccontr)
  assume "\<not> ?thesis"
  then have "candidate stem ` {0..length used} \<subseteq> set used" using taken_used by auto
  then have "card (candidate stem ` {0..length used}) \<le> card (set used)" by (rule card_mono [OF finite_set])
  moreover have "card (candidate stem ` {0..length used}) = Suc (length used)"
    by (subst card_image) (auto simp: inj_on_def candidate_inject)
  ultimately show False using card_length [of used] by simp
qed

lemma first_free_spec:
  "\<exists>n. first_free taken (length used) stem = candidate stem n \<and> \<not> taken (candidate stem n)
     \<and> (\<forall>m<n. taken (candidate stem m))"
proof -
  obtain k where k: "k \<le> length used" "\<not> taken (candidate stem k)"
    using some_candidate_free by blast
  have "find (\<lambda>n. \<not> taken (candidate stem n)) [0..<Suc (length used)] \<noteq> None"
  proof
    assume "find (\<lambda>n. \<not> taken (candidate stem n)) [0..<Suc (length used)] = None"
    then show False using k by (auto simp: find_None_iff dest!: spec [of _ k])
  qed
  then obtain n where n: "find (\<lambda>n. \<not> taken (candidate stem n)) [0..<Suc (length used)] = Some n" by blast
  then obtain i where i: "i < length [0..<Suc (length used)]" "n = [0..<Suc (length used)] ! i"
    "\<not> taken (candidate stem n)" "\<forall>j<i. taken (candidate stem ([0..<Suc (length used)] ! j))"
    by (auto simp: find_Some_iff simp del: upt_Suc)
  then have "n = i" by (simp del: upt_Suc)
  with i have "\<forall>m<n. taken (candidate stem m)" by (auto simp del: upt_Suc)
  then show ?thesis using n i(3) by (auto simp: first_free_def simp del: upt_Suc)
qed

lemma first_free_not_taken: "\<not> taken (first_free taken (length used) stem)"
  using first_free_spec [of stem] by auto

lemma first_free_least:
  "first_free taken (length used) stem = candidate stem (LEAST n. \<not> taken (candidate stem n))"
proof -
  obtain n where "first_free taken (length used) stem = candidate stem n" "\<not> taken (candidate stem n)"
    "\<forall>m<n. taken (candidate stem m)"
    using first_free_spec [of stem] by auto
  moreover from this have "(LEAST n. \<not> taken (candidate stem n)) = n"
    by (intro Least_equality) (auto simp: not_less [symmetric])
  ultimately show ?thesis by simp
qed

end

interpretation collection_names: free_name_search "\<lambda>nm. nm \<in> set used" used
  for used :: "string list"
  by unfold_locales

lemma union_name_taken_used: "union_name_taken names t nm \<Longrightarrow> nm \<in> set (map fst names)"
  by (force simp: union_name_taken_def split: option.splits dest: map_of_SomeD)

interpretation definition_names: free_name_search "union_name_taken names t" "map fst names"
  for names :: "(string \<times> htype) list" and t :: htype
  by unfold_locales (rule union_name_taken_used)

lemma uniqueCollectionCName_fresh:
  assumes "uniqueCollectionCName st base e = (nm, st')"
  shows "nm \<notin> set (ar_collection_cnames st)" "ar_collection_cnames st' = nm # ar_collection_cnames st"
    "ar_families st' = ar_families st" "ar_next_ident st' = ar_next_ident st"
    "store_of st' = store_of st" "ar_definition_names st' = ar_definition_names st"
  using assms collection_names.first_free_not_taken
  by (auto simp: uniqueCollectionCName_def Let_def store_of_def split: if_splits)

lemma union_free_name_free:
  assumes "base \<noteq> []"
  shows "\<not> union_name_taken (ar_definition_names st) t (union_free_name st base t)"
  using definition_names.first_free_not_taken assms by (simp add: union_free_name_def)

section \<open>The invariant\<close>

text \<open>The builtin collection and handle families: their types take a C name from one index
  (\<open>collectionCNames\<close>). Unions and dictionary entries reserve
  their names elsewhere, and declared types are named by their module.\<close>

definition named_families :: "family set" where
  "named_families =
     {SliceTypes, ListTypes, InlineListTypes, StringTypes, DictTypes, TaskTypes, ChannelTypes, AtomicTypes,
      PoolTypes}"

definition keys_ok :: "type_state \<Rightarrow> bool" where
  "keys_ok st \<longleftrightarrow> (\<forall>f k t. family_lookup st f k = Some t \<longrightarrow> ty_key t = k \<and> ty_ident t < ar_next_ident st)"

definition idents_ok :: "type_state \<Rightarrow> bool" where
  "idents_ok st \<longleftrightarrow> (\<forall>f k t g l u. family_lookup st f k = Some t \<and> family_lookup st g l = Some u
     \<and> ty_ident t = ty_ident u \<longrightarrow> f = g \<and> k = l)"

definition cnames_ok :: "type_state \<Rightarrow> bool" where
  "cnames_ok st \<longleftrightarrow>
     (\<forall>f\<in>named_families. \<forall>k t. family_lookup st f k = Some t \<longrightarrow> ty_cname t \<in> set (ar_collection_cnames st))
       \<and> (\<forall>f\<in>named_families. \<forall>g\<in>named_families. \<forall>k t l u. family_lookup st f k = Some t
            \<and> family_lookup st g l = Some u \<and> ty_cname t = ty_cname u \<longrightarrow> f = g \<and> k = l)"

definition arena_ok :: "type_state \<Rightarrow> bool" where
  "arena_ok st \<longleftrightarrow> keys_ok st \<and> idents_ok st \<and> cnames_ok st"

text \<open>A type that may be added to a family.\<close>

definition fresh_entry :: "type_state \<Rightarrow> family \<Rightarrow> htype \<Rightarrow> bool" where
  "fresh_entry st f t \<longleftrightarrow>
     family_lookup st f (ty_key t) = None \<and> ty_ident t < ar_next_ident st
       \<and> (\<forall>g l u. family_lookup st g l = Some u \<longrightarrow> ty_ident u \<noteq> ty_ident t)
       \<and> (f \<in> named_families \<longrightarrow> ty_cname t \<in> set (ar_collection_cnames st)
            \<and> (\<forall>g\<in>named_families. \<forall>l u. family_lookup st g l = Some u \<longrightarrow> ty_cname u \<noteq> ty_cname t))"

lemma family_lookup_insert:
  "family_lookup (family_insert st f k t) g l = (if g = f \<and> l = k then Some t else family_lookup st g l)"
  by (simp add: family_lookup_def family_insert_def)

lemma family_insert_fields [simp]:
  "ar_next_ident (family_insert st f k t) = ar_next_ident st"
  "ar_collection_cnames (family_insert st f k t) = ar_collection_cnames st"
  "ar_definition_names (family_insert st f k t) = ar_definition_names st"
  "store_of (family_insert st f k t) = store_of st"
  by (simp_all add: family_insert_def store_of_def)

lemma arena_ok_insert:
  assumes "arena_ok st" "fresh_entry st f t"
  shows "arena_ok (family_insert st f (ty_key t) t)"
proof -
  note d = family_lookup_insert fresh_entry_def
  have "keys_ok (family_insert st f (ty_key t) t)"
    using assms by (auto simp: keys_ok_def arena_ok_def d)
  moreover have "idents_ok (family_insert st f (ty_key t) t)"
  proof -
    have old: "\<lbrakk>family_lookup st g k = Some u; family_lookup st g' l = Some w; ty_ident u = ty_ident w\<rbrakk>
        \<Longrightarrow> g = g' \<and> k = l" for g g' k l u w
      using assms(1) unfolding arena_ok_def idents_ok_def by blast
    have new: "family_lookup st g l = Some u \<Longrightarrow> ty_ident u \<noteq> ty_ident t" for g l u
      using assms(2) by (simp add: fresh_entry_def)
    show ?thesis
      unfolding idents_ok_def family_lookup_insert
    proof (intro allI impI)
      fix g k u g' l w
      assume *: "(if g = f \<and> k = ty_key t then Some t else family_lookup st g k) = Some u
          \<and> (if g' = f \<and> l = ty_key t then Some t else family_lookup st g' l) = Some w \<and> ty_ident u = ty_ident w"
      then show "g = g' \<and> k = l"
        by (metis old new option.inject)
    qed
  qed
  moreover have "cnames_ok (family_insert st f (ty_key t) t)"
  proof -
    have old: "\<lbrakk>g \<in> named_families; g' \<in> named_families; family_lookup st g k = Some u;
        family_lookup st g' l = Some w; ty_cname u = ty_cname w\<rbrakk> \<Longrightarrow> g = g' \<and> k = l" for g g' k l u w
      using assms(1) unfolding arena_ok_def cnames_ok_def by blast
    have used: "\<lbrakk>g \<in> named_families; family_lookup st g k = Some u\<rbrakk> \<Longrightarrow> ty_cname u \<in> set (ar_collection_cnames st)" for g k u
      using assms(1) unfolding arena_ok_def cnames_ok_def by blast
    have new: "\<lbrakk>f \<in> named_families; g \<in> named_families; family_lookup st g l = Some u\<rbrakk> \<Longrightarrow> ty_cname u \<noteq> ty_cname t" for g l u
      using assms(2) by (simp add: fresh_entry_def)
    have self: "f \<in> named_families \<Longrightarrow> ty_cname t \<in> set (ar_collection_cnames st)"
      using assms(2) by (simp add: fresh_entry_def)
    show ?thesis
      unfolding cnames_ok_def family_lookup_insert family_insert_fields
    proof (intro conjI ballI allI impI)
      fix g k u
      assume "g \<in> named_families" "(if g = f \<and> k = ty_key t then Some t else family_lookup st g k) = Some u"
      then show "ty_cname u \<in> set (ar_collection_cnames st)"
        using self used by (auto split: if_splits)
    next
      fix g g' k u l w
      assume *: "g \<in> named_families" "g' \<in> named_families"
        "(if g = f \<and> k = ty_key t then Some t else family_lookup st g k) = Some u
          \<and> (if g' = f \<and> l = ty_key t then Some t else family_lookup st g' l) = Some w \<and> ty_cname u = ty_cname w"
      then have "g = g' \<and> k = l"
        by (metis old new option.inject)
      then show "g = g'" "k = l" by simp_all
    qed
  qed
  ultimately show ?thesis by (simp add: arena_ok_def)
qed

lemma arena_ok_grow:
  assumes "arena_ok st" "ar_families st' = ar_families st"
    "set (ar_collection_cnames st) \<subseteq> set (ar_collection_cnames st')" "ar_next_ident st \<le> ar_next_ident st'"
  shows "arena_ok st'"
proof -
  have "family_lookup st' = family_lookup st" using assms(2) by (simp add: fun_eq_iff family_lookup_def)
  moreover have "keys_ok st'" if "keys_ok st" "family_lookup st' = family_lookup st"
    using that assms(4) by (auto simp: keys_ok_def dest!: order.strict_trans2)
  moreover have "cnames_ok st'" if "cnames_ok st" "family_lookup st' = family_lookup st"
    using that assms(3) unfolding cnames_ok_def by (metis subsetD)
  ultimately show ?thesis
    using assms(1) by (simp add: arena_ok_def idents_ok_def)
qed

text \<open>Growth: what every operation does to the entries.\<close>

definition extends_arena :: "type_state \<Rightarrow> type_state \<Rightarrow> bool" where
  "extends_arena st st' \<longleftrightarrow>
     (\<forall>f k t. family_lookup st f k = Some t \<longrightarrow> family_lookup st' f k = Some t)
       \<and> (\<forall>f k t. family_lookup st' f k = Some t \<longrightarrow> family_lookup st f k = Some t \<or> ar_next_ident st \<le> ty_ident t)
       \<and> ar_next_ident st \<le> ar_next_ident st'"

lemma extends_arena_refl [simp]: "extends_arena st st"
  by (simp add: extends_arena_def)

lemma extends_arena_trans: "extends_arena r s \<Longrightarrow> extends_arena s t \<Longrightarrow> extends_arena r t"
  unfolding extends_arena_def by (meson order.trans)

lemma extends_arena_families:
  "ar_families st' = ar_families st \<Longrightarrow> ar_next_ident st \<le> ar_next_ident st' \<Longrightarrow> extends_arena st st'"
  by (simp add: extends_arena_def family_lookup_def)

text \<open>What a builder owes, and the preservation of the invariant by interning.\<close>

definition builds :: "type_state \<Rightarrow> family \<Rightarrow> string \<Rightarrow> (type_state \<Rightarrow> htype \<times> type_state) \<Rightarrow> bool" where
  "builds st f key build \<longleftrightarrow>
     (\<forall>t st'. family_lookup st f key = None \<and> build st = (t, st')
        \<longrightarrow> arena_ok st' \<and> fresh_entry st' f t \<and> ty_key t = key \<and> extends_arena st st'
          \<and> ar_next_ident st \<le> ty_ident t)"

lemma intern_ok:
  assumes "arena_ok st" "builds st f key build" "intern st f key build = (r, st')"
  shows "arena_ok st' \<and> extends_arena st st' \<and> r \<noteq> None \<and> family_lookup st' f key = r"
proof (cases "family_lookup st f key")
  case None
  obtain t st1 where b: "build st = (t, st1)" by fastforce
  with assms(2) None have ok: "arena_ok st1" "fresh_entry st1 f t" "ty_key t = key" "extends_arena st st1"
      "ar_next_ident st \<le> ty_ident t"
    by (auto simp: builds_def)
  have "extends_arena st (family_insert st1 f key t)"
    using ok(2-5) by (auto simp: extends_arena_def family_lookup_insert fresh_entry_def)
  then show ?thesis
    using assms(3) None b ok arena_ok_insert [OF ok(1,2)]
    by (auto simp: intern_def family_lookup_insert)
next
  case (Some t)
  with assms(3) have "r = Some t" "st' = st" by (simp_all add: intern_def)
  then show ?thesis using assms(1) Some by simp
qed

lemma newTypeIdentity_fields:
  assumes "newTypeIdentity st = (ident, st')"
  shows "ident = ar_next_ident st" "ar_next_ident st' = Suc ident" "ar_families st' = ar_families st"
    "ar_collection_cnames st' = ar_collection_cnames st" "store_of st' = store_of st"
    "ar_definition_names st' = ar_definition_names st" "st_objects st' = st_objects st"
  using assms by (auto simp: newTypeIdentity_def store_of_def)

lemma fresh_identity:
  assumes "arena_ok st" "ar_families st' = ar_families st" "family_lookup st f (ty_key t) = None"
    "ty_ident t = ar_next_ident st" "ar_next_ident st < ar_next_ident st'"
    "f \<in> named_families \<Longrightarrow> ty_cname t \<notin> set (ar_collection_cnames st) \<and> ty_cname t \<in> set (ar_collection_cnames st')"
  shows "fresh_entry st' f t"
proof -
  have eq: "family_lookup st' = family_lookup st" using assms(2) by (simp add: fun_eq_iff family_lookup_def)
  have "ty_ident u < ar_next_ident st" if "family_lookup st g l = Some u" for g l u
    using assms(1) that by (auto simp: arena_ok_def keys_ok_def)
  moreover have "ty_cname u \<in> set (ar_collection_cnames st)"
    if "f \<in> named_families" "g \<in> named_families" "family_lookup st g l = Some u" for g l u
    using assms(1) that by (auto simp: arena_ok_def cnames_ok_def)
  ultimately show ?thesis
    using assms unfolding fresh_entry_def eq by (metis order.strict_implies_not_eq)
qed

section \<open>The constructors keep it\<close>

text \<open>A builder that takes one identity and then at most a C name of its own.\<close>

lemma builds_named:
  assumes "arena_ok st"
    "\<And>ident c_name. ty_key (mk ident c_name) = key" "\<And>ident c_name. ty_ident (mk ident c_name) = ident"
    "\<And>ident c_name. ty_cname (mk ident c_name) = c_name"
  shows "builds st f key (\<lambda>st. let (ident, st) = newTypeIdentity st; (c_name, st) = uniqueCollectionCName st base e
            in (mk ident c_name, st))"
  unfolding builds_def
proof (intro allI impI)
  fix t st'
  assume *: "family_lookup st f key = None \<and> (let (ident, st) = newTypeIdentity st;
      (c_name, st) = uniqueCollectionCName st base e in (mk ident c_name, st)) = (t, st')"
  obtain ident st1 where n: "newTypeIdentity st = (ident, st1)" by fastforce
  obtain c_name st2 where u: "uniqueCollectionCName st1 base e = (c_name, st2)" by fastforce
  note nf = newTypeIdentity_fields [OF n] and uf = uniqueCollectionCName_fresh [OF u]
  have t: "t = mk ident c_name" "st' = st2" using * n u by auto
  have "arena_ok st2"
    using assms(1) by (rule arena_ok_grow) (auto simp: nf uf)
  moreover have "fresh_entry st2 f t"
    using assms(1) by (rule fresh_identity) (use * nf uf in \<open>auto simp: t assms\<close>)
  moreover have "extends_arena st st2"
    by (rule extends_arena_families) (simp_all add: nf uf)
  ultimately show "arena_ok st' \<and> fresh_entry st' f t \<and> ty_key t = key \<and> extends_arena st st'
      \<and> ar_next_ident st \<le> ty_ident t"
    by (simp add: t assms nf)
qed

lemma builds_unnamed:
  assumes "arena_ok st" "f \<notin> named_families"
    "\<And>ident. ty_key (mk ident) = key" "\<And>ident. ty_ident (mk ident) = ident"
  shows "builds st f key (\<lambda>st. let (ident, st) = newTypeIdentity st in (mk ident, st))"
  unfolding builds_def
proof (intro allI impI)
  fix t st'
  assume *: "family_lookup st f key = None \<and> (let (ident, st) = newTypeIdentity st in (mk ident, st)) = (t, st')"
  obtain ident st1 where n: "newTypeIdentity st = (ident, st1)" by fastforce
  note nf = newTypeIdentity_fields [OF n]
  have t: "t = mk ident" "st' = st1" using * n by auto
  have "arena_ok st1"
    using assms(1) by (rule arena_ok_grow) (auto simp: nf)
  moreover have "fresh_entry st1 f t"
    using assms(1) by (rule fresh_identity) (use * nf assms in \<open>auto simp: t\<close>)
  moreover have "extends_arena st st1"
    by (rule extends_arena_families) (simp_all add: nf)
  ultimately show "arena_ok st' \<and> fresh_entry st' f t \<and> ty_key t = key \<and> extends_arena st st'
      \<and> ar_next_ident st \<le> ty_ident t"
    by (simp add: t assms nf)
qed

text \<open>What a constructor gives: the invariant, growth, and for a type it answers its entry.\<close>

definition constructs :: "type_state \<Rightarrow> htype option \<times> type_state \<Rightarrow> bool" where
  "constructs st outcome \<longleftrightarrow> arena_ok (snd outcome) \<and> extends_arena st (snd outcome)"

lemma constructs_refused [simp]: "arena_ok st \<Longrightarrow> constructs st (r, st)"
  by (simp add: constructs_def)

lemma constructs_intern: "arena_ok st \<Longrightarrow> builds st f key build \<Longrightarrow> constructs st (intern st f key build)"
  unfolding constructs_def using intern_ok by (metis prod.collapse)

lemma pointerType_ok: "arena_ok st \<Longrightarrow> constructs st (pointerType st e w)"
  unfolding pointerType_def Let_def
  by (auto intro!: constructs_intern builds_unnamed [unfolded Let_def] simp: named_families_def)

lemma NullableType_ok: "arena_ok st \<Longrightarrow> constructs st (NullableType st b)"
  unfolding NullableType_def Let_def
  by (auto intro!: constructs_intern builds_unnamed [unfolded Let_def] simp: named_families_def)

lemma InlineStringType_ok: "arena_ok st \<Longrightarrow> constructs st (InlineStringType st n)"
  unfolding InlineStringType_def Let_def
  by (auto intro!: constructs_intern builds_named [unfolded Let_def])

lemma DictType_ok: "arena_ok st \<Longrightarrow> constructs st (DictType st k v)"
  unfolding DictType_def Let_def
  by (auto intro!: constructs_intern builds_named [unfolded Let_def])

lemma containerType_ok: "arena_ok st \<Longrightarrow> constructs st (containerType st c e)"
  unfolding containerType_def
  by (cases "containerCName c e")
    (auto intro!: constructs_intern builds_named [unfolded Let_def] builds_unnamed [unfolded Let_def]
      simp: Let_def named_families_def container_family_def containerCName_def split: container.splits)

text \<open>A builder that changes families other than its own on the way, as a rest parameter's slice
  does.\<close>

lemma intern_other_family:
  assumes "\<And>t st'. build st = (t, st') \<Longrightarrow> \<forall>g l. g \<noteq> f \<longrightarrow> family_lookup st' g l = family_lookup st g l"
    "intern st f key build = (r, st')" "g \<noteq> f"
  shows "family_lookup st' g l = family_lookup st g l"
  using assms by (fastforce simp: intern_def family_lookup_insert split: option.splits prod.splits)

lemma containerType_other_family:
  assumes "containerType st c e = (r, st')" "g \<noteq> container_family c"
  shows "family_lookup st' g l = family_lookup st g l"
proof (cases "container_admitted st c e")
  case True
  let ?build = "\<lambda>st. let (ident, st) = newTypeIdentity st;
      (c_name, st) = (case containerCName c e of Inl fixed \<Rightarrow> (fixed, st)
        | Inr base \<Rightarrow> uniqueCollectionCName st base (Some e))
    in (ContainerT (plain_head (containerName c e) c_name (containerKey c e) ident (containerKey c e)) c e, st)"
  have "family_lookup st2 g l = family_lookup st g l" if b: "?build st = (t, st2)" for t st2 g l
  proof -
    obtain ident st1 where n: "newTypeIdentity st = (ident, st1)" by fastforce
    obtain c_name st3 where u: "(case containerCName c e of Inl fixed \<Rightarrow> (fixed, st1)
        | Inr base \<Rightarrow> uniqueCollectionCName st1 base (Some e)) = (c_name, st3)" by fastforce
    have "ar_families st3 = ar_families st1"
      using u uniqueCollectionCName_fresh(3) by (auto split: sum.splits)
    then show ?thesis using b n u newTypeIdentity_fields(3) [OF n] by (simp add: family_lookup_def)
  qed
  then show ?thesis
    using assms True intern_other_family [of ?build st "container_family c" "containerKey c e" r st' g l]
    by (simp add: containerType_def Let_def)
qed (use assms in \<open>simp add: containerType_def\<close>)

lemma FunTypeRest_ok:
  assumes "arena_ok st"
  shows "constructs st (FunTypeRest st params result rest)"
proof (cases "fun_admitted st params result rest")
  case True
  let ?key = "funKey params result rest"
  let ?build = "\<lambda>st. let (ident, st) = newTypeIdentity st;
      (rest_slice, st) = (if rest then containerType st (SliceC False) (last params) else (None, st))
    in (FunT (plain_head (funName params result rest) [] ?key ident ?key) params result rest rest_slice, st)"
  have "builds st FunTypes ?key ?build"
    unfolding builds_def
  proof (intro allI impI, elim conjE)
    fix t st'
    assume none: "family_lookup st FunTypes ?key = None" and b: "?build st = (t, st')"
    obtain ident st1 where n: "newTypeIdentity st = (ident, st1)" by fastforce
    note nf = newTypeIdentity_fields [OF n]
    obtain slice st2 where s: "(if rest then containerType st1 (SliceC False) (last params) else (None, st1)) = (slice, st2)"
      by fastforce
    have t: "t = FunT (plain_head (funName params result rest) [] ?key ident ?key) params result rest slice" "st' = st2"
      using b n s by simp_all
    have ok1: "arena_ok st1" using assms by (rule arena_ok_grow) (simp_all add: nf)
    have ok2: "arena_ok st2 \<and> extends_arena st1 st2"
      using s containerType_ok [OF ok1, of "SliceC False" "last params"] ok1
      by (auto simp: constructs_def split: if_splits)
    have ext1: "extends_arena st st1" by (rule extends_arena_families) (simp_all add: nf)
    have "family_lookup st2 FunTypes ?key = family_lookup st1 FunTypes ?key"
      using s containerType_other_family [of st1 "SliceC False" "last params" slice st2 FunTypes ?key]
      by (auto simp: container_family_def split: if_splits)
    then have none2: "family_lookup st2 FunTypes ?key = None" using none by (simp add: family_lookup_def nf)
    have "ty_ident u \<noteq> ident" if "family_lookup st2 g l = Some u" for g l u
    proof -
      have "family_lookup st1 g l = Some u \<or> ar_next_ident st1 \<le> ty_ident u"
        using ok2 that by (auto simp: extends_arena_def)
      moreover have "ty_ident u < ident" if "family_lookup st1 g l = Some u"
        using assms that by (simp add: arena_ok_def keys_ok_def family_lookup_def nf)
      ultimately show ?thesis using nf by fastforce
    qed
    moreover have "ident < ar_next_ident st2" using ok2 nf by (auto simp: extends_arena_def)
    ultimately have "fresh_entry st2 FunTypes t"
      using none2 by (simp add: fresh_entry_def t named_families_def)
    then show "arena_ok st' \<and> fresh_entry st' FunTypes t \<and> ty_key t = ?key \<and> extends_arena st st'
        \<and> ar_next_ident st \<le> ty_ident t"
      using ok2 extends_arena_trans [OF ext1] nf by (auto simp: t)
  qed
  then show ?thesis
    using True assms constructs_intern [of st FunTypes ?key ?build] by (simp add: FunTypeRest_def Let_def)
qed (use assms in \<open>simp add: FunTypeRest_def\<close>)

lemma ReserveDefinitionName_fields [simp]:
  "ar_families (ReserveDefinitionName st nm t) = ar_families st"
  "ar_next_ident (ReserveDefinitionName st nm t) = ar_next_ident st"
  "ar_collection_cnames (ReserveDefinitionName st nm t) = ar_collection_cnames st"
  "store_of (ReserveDefinitionName st nm t) = store_of st"
  by (simp_all add: ReserveDefinitionName_def store_of_def)

text \<open>A builder that takes one identity and otherwise touches only names and records.\<close>

lemma builds_with_names:
  assumes "arena_ok st" "f \<notin> named_families"
    "\<And>t st'. build st = (t, st') \<Longrightarrow> ty_key t = key \<and> ty_ident t = ar_next_ident st
       \<and> ar_families st' = ar_families st \<and> ar_next_ident st' = Suc (ar_next_ident st)
       \<and> ar_collection_cnames st' = ar_collection_cnames st"
  shows "builds st f key build"
  unfolding builds_def
proof (intro allI impI, elim conjE)
  fix t st'
  assume none: "family_lookup st f key = None" and b: "build st = (t, st')"
  note t = assms(3) [OF b]
  have "arena_ok st'" using assms(1) by (rule arena_ok_grow) (simp_all add: t)
  moreover have "fresh_entry st' f t"
    using assms(1) by (rule fresh_identity) (use t none assms(2) in auto)
  moreover have "extends_arena st st'" by (rule extends_arena_families) (simp_all add: t)
  ultimately show "arena_ok st' \<and> fresh_entry st' f t \<and> ty_key t = key \<and> extends_arena st st'
      \<and> ar_next_ident st \<le> ty_ident t"
    using t by simp
qed

lemma UnionType_ok:
  assumes "arena_ok st"
  shows "constructs st (UnionType st members)"
proof -
  have "builds st UnionTypes (unionKey ms) (\<lambda>st.
      let (ident, st) = newTypeIdentity st;
          named = (\<lambda>c_name. UnionT (plain_head (unionName ms) c_name (unionKey ms) ident []) ms);
          c_name = union_free_name st (unionBaseName ms) (named [])
      in (named c_name, ReserveDefinitionName st c_name (named c_name)))" for ms
    using assms
    by (rule builds_with_names) (auto simp: named_families_def newTypeIdentity_def Let_def)
  then show ?thesis
    using assms NullableType_ok
    by (auto simp: UnionType_def Let_def intro!: constructs_intern)
qed

lemma DictEntryType_ok:
  assumes "arena_ok st"
  shows "constructs st (DictEntryType st k v)"
  using assms unfolding DictEntryType_def Let_def
  by (auto intro!: constructs_intern builds_with_names simp: named_families_def newTypeIdentity_def)

section \<open>The environment's operations keep it\<close>

lemma arena_ok_frame:
  assumes "arena_ok st" "ar_families st' = ar_families st" "ar_collection_cnames st' = ar_collection_cnames st"
    "ar_next_ident st \<le> ar_next_ident st'"
  shows "constructs st (r, st')"
  using assms arena_ok_grow [OF assms(1,2)] extends_arena_families by (simp add: constructs_def)

lemma BeginObject_ok: "arena_ok st \<Longrightarrow> constructs st (r, snd (snd (BeginObject en st nm line column)))"
  by (rule arena_ok_frame) (simp_all add: BeginObject_def newTypeIdentity_def Let_def)

lemma CompleteObject_ok: "arena_ok st \<Longrightarrow> constructs st (r, snd (CompleteObject en st nm members))"
  by (rule arena_ok_frame) (simp_all add: CompleteObject_def set_members_def split: option.splits)

lemma BeginADT_ok: "arena_ok st \<Longrightarrow> constructs st (r, snd (snd (BeginADT en st nm line column)))"
  by (rule arena_ok_frame) (simp_all add: BeginADT_def newTypeIdentity_def Let_def)

lemma CompleteADT_ok: "arena_ok st \<Longrightarrow> constructs st (r, snd (CompleteADT en st nm variants))"
  by (rule arena_ok_frame) (simp_all add: CompleteADT_def split: option.splits)

lemma ForeignRecord_ok: "arena_ok st \<Longrightarrow> constructs st (r, snd (ForeignRecord st key nm c_name inc line column))"
  by (rule arena_ok_frame) (simp_all add: ForeignRecord_def newTypeIdentity_def Let_def split: option.splits)

lemma CompleteForeignRecord_ok: "arena_ok st \<Longrightarrow> constructs st (r, snd (CompleteForeignRecord st t members))"
  by (rule arena_ok_frame) (simp_all add: CompleteForeignRecord_def set_members_def split: option.splits)

lemma SetObjectModuleOwner_ok: "arena_ok st \<Longrightarrow> constructs st (r, SetObjectModuleOwner st i m)"
  by (rule arena_ok_frame) (simp_all add: SetObjectModuleOwner_def)

lemma SetAdtModuleOwner_ok: "arena_ok st \<Longrightarrow> constructs st (r, SetAdtModuleOwner st i m)"
  by (rule arena_ok_frame) (simp_all add: SetAdtModuleOwner_def)

lemma DeclareGeneric_ok: "arena_ok st \<Longrightarrow> constructs st (r, snd (snd (DeclareGeneric en st nm arity ps)))"
  by (rule arena_ok_frame) (simp_all add: DeclareGeneric_def Let_def split: option.splits)

lemma TypeParameter_ok: "arena_ok st \<Longrightarrow> constructs st (r, snd (TypeParameter st d i))"
  by (rule arena_ok_frame) (simp_all add: TypeParameter_def newTypeIdentity_def Let_def split: option.splits)

lemma RemoveUnionMember_ok: "arena_ok st \<Longrightarrow> constructs st (r, snd (RemoveUnionMember st u m))"
proof -
  assume "arena_ok st"
  then have "constructs st (r, snd (UnionType st ms))" for ms
    using UnionType_ok [of st ms] by (simp add: constructs_def)
  then show ?thesis
    using \<open>arena_ok st\<close> by (simp add: RemoveUnionMember_def Let_def split_beta)
qed

section \<open>The initial arena\<close>

definition arena_seeds :: "(family \<times> htype) list" where
  "arena_seeds =
     map (Pair StringTypes) builtinInlineStrings @ map (Pair InlineListTypes) seeded_inline_lists
       @ map (Pair ListTypes) seeded_lists @ map (Pair SliceTypes) seeded_slices
       @ map (Pair UnionTypes) builtinStructuralUnions"

lemma NewArena_lookup:
  assumes "family_lookup NewArena f k = Some t"
  shows "(f, t) \<in> set arena_seeds \<and> k = ty_key t"
proof -
  have seed: "map_of (map (\<lambda>t. (ty_key t, t)) ts) k = Some t \<Longrightarrow> t \<in> set ts \<and> k = ty_key t" for ts
    by (auto dest: map_of_SomeD)
  show ?thesis
    using assms
    by (auto simp: family_lookup_def NewArena_def seed_family_def arena_seeds_def split: if_splits dest!: seed)
qed

lemma arena_seeds_distinct:
  "distinct (map (ty_ident \<circ> snd) arena_seeds)"
  "distinct (map (ty_cname \<circ> snd) (filter (\<lambda>(f, t). f \<noteq> UnionTypes) arena_seeds))"
  "\<forall>(f, t)\<in>set arena_seeds. ty_ident t < first_fresh_ident"
  by code_simp+

lemma NewArena_ok: "arena_ok NewArena"
proof -
  have inj: "p = q" if "p \<in> set arena_seeds" "q \<in> set arena_seeds" "ty_ident (snd p) = ty_ident (snd q)" for p q
    using that arena_seeds_distinct(1) by (auto simp: distinct_map inj_on_def)
  have cinj: "p = q" if "p \<in> set arena_seeds" "q \<in> set arena_seeds" "fst p \<noteq> UnionTypes" "fst q \<noteq> UnionTypes"
      "ty_cname (snd p) = ty_cname (snd q)" for p q
  proof (rule inj_onD)
    show "inj_on (ty_cname \<circ> snd) (set (filter (\<lambda>(f, t). f \<noteq> UnionTypes) arena_seeds))"
      using arena_seeds_distinct(2) by (simp only: distinct_map)
  qed (use that in \<open>simp_all add: split_beta\<close>)
  have union: "f \<noteq> UnionTypes" if "f \<in> named_families" for f using that by (auto simp: named_families_def)
  have "keys_ok NewArena"
    unfolding keys_ok_def
  proof (intro allI impI)
    fix f k t assume "family_lookup NewArena f k = Some t"
    from NewArena_lookup [OF this] have "(f, t) \<in> set arena_seeds" "k = ty_key t" by simp_all
    then show "ty_key t = k \<and> ty_ident t < ar_next_ident NewArena"
      using arena_seeds_distinct(3) by (auto simp: NewArena_def)
  qed
  moreover have "idents_ok NewArena"
    unfolding idents_ok_def
  proof (intro allI impI, elim conjE)
    fix f k t g l u
    assume "family_lookup NewArena f k = Some t" "family_lookup NewArena g l = Some u" "ty_ident t = ty_ident u"
    then show "f = g \<and> k = l"
      using NewArena_lookup [of f k t] NewArena_lookup [of g l u] inj [of "(f, t)" "(g, u)"] by simp
  qed
  moreover have "cnames_ok NewArena"
    unfolding cnames_ok_def
  proof (intro conjI ballI allI impI, goal_cases)
    case (1 f k t)
    then show ?case
      using NewArena_lookup [of f k t] union [of f] by (auto simp: arena_seeds_def NewArena_def)
  next
    case (2 f g k t l u)
    then show ?case
      using NewArena_lookup [of f k t] NewArena_lookup [of g l u] cinj [of "(f, t)" "(g, u)"] union [of f] union [of g]
      by simp
  next
    case (3 f g k t l u)
    then show ?case
      using NewArena_lookup [of f k t] NewArena_lookup [of g l u] cinj [of "(f, t)" "(g, u)"] union [of f] union [of g]
      by simp
  qed
  ultimately show ?thesis by (simp add: arena_ok_def)
qed

end
