(* ===== verification/TypeReachability.thy ===== *)
theory TypeReachability
  imports TypeArenaLaws
begin

text \<open>
  The arena of one compilation as a state machine: one step per constructor and environment
  operation, the states reachable from the initial arena, and the invariant by rule induction. The
  constructors that intern by a key computed from their arguments alone are also given as requests,
  for which an answer never changes.
\<close>

section \<open>Steps\<close>

inductive arena_step :: "type_state \<Rightarrow> type_state \<Rightarrow> bool" where
  pointer: "pointerType st e w = (r, st') \<Longrightarrow> arena_step st st'"
| nullable: "NullableType st b = (r, st') \<Longrightarrow> arena_step st st'"
| container: "containerType st c e = (r, st') \<Longrightarrow> arena_step st st'"
| inline_string: "InlineStringType st n = (r, st') \<Longrightarrow> arena_step st st'"
| dict: "DictType st k v = (r, st') \<Longrightarrow> arena_step st st'"
| dict_entry: "DictEntryType st k v = (r, st') \<Longrightarrow> arena_step st st'"
| function_type: "FunTypeRest st params result rest = (r, st') \<Longrightarrow> arena_step st st'"
| union_type: "UnionType st members = (r, st') \<Longrightarrow> arena_step st st'"
| narrow: "RemoveUnionMember st u m = (pr, st') \<Longrightarrow> arena_step st st'"
| begin_object: "BeginObject en st nm line column = (t, en', st') \<Longrightarrow> arena_step st st'"
| complete_object: "CompleteObject en st nm members = (r, st') \<Longrightarrow> arena_step st st'"
| begin_adt: "BeginADT en st nm line column = (t, en', st') \<Longrightarrow> arena_step st st'"
| complete_adt: "CompleteADT en st nm variants = (r, st') \<Longrightarrow> arena_step st st'"
| foreign: "ForeignRecord st key nm c_name incomplete line column = (pr, st') \<Longrightarrow> arena_step st st'"
| complete_foreign: "CompleteForeignRecord st t members = (t', st') \<Longrightarrow> arena_step st st'"
| own_object: "SetObjectModuleOwner st i m = st' \<Longrightarrow> arena_step st st'"
| own_adt: "SetAdtModuleOwner st i m = st' \<Longrightarrow> arena_step st st'"
| declare_generic: "DeclareGeneric en st nm arity params = (d, en', st') \<Longrightarrow> arena_step st st'"
| type_parameter: "TypeParameter st d index = (r, st') \<Longrightarrow> arena_step st st'"

inductive_cases arena_stepE: "arena_step st st'"

inductive arena_reachable :: "type_state \<Rightarrow> bool" where
  initial: "arena_reachable NewArena"
| step: "arena_reachable st \<Longrightarrow> arena_step st st' \<Longrightarrow> arena_reachable st'"

abbreviation arena_steps :: "type_state \<Rightarrow> type_state \<Rightarrow> bool" where
  "arena_steps \<equiv> arena_step\<^sup>*\<^sup>*"

lemma arena_step_ok:
  assumes "arena_step st st'" "arena_ok st"
  shows "arena_ok st' \<and> extends_arena st st'"
proof -
  have "constructs st (None, st')"
    using assms
  proof (cases rule: arena_step.cases)
    case pointer then show ?thesis using pointerType_ok [OF assms(2)] by (metis constructs_def snd_conv)
  next
    case nullable then show ?thesis using NullableType_ok [OF assms(2)] by (metis constructs_def snd_conv)
  next
    case container then show ?thesis using containerType_ok [OF assms(2)] by (metis constructs_def snd_conv)
  next
    case inline_string then show ?thesis using InlineStringType_ok [OF assms(2)] by (metis constructs_def snd_conv)
  next
    case dict then show ?thesis using DictType_ok [OF assms(2)] by (metis constructs_def snd_conv)
  next
    case dict_entry then show ?thesis using DictEntryType_ok [OF assms(2)] by (metis constructs_def snd_conv)
  next
    case function_type then show ?thesis using FunTypeRest_ok [OF assms(2)] by (metis constructs_def snd_conv)
  next
    case union_type then show ?thesis using UnionType_ok [OF assms(2)] by (metis constructs_def snd_conv)
  next
    case narrow then show ?thesis using RemoveUnionMember_ok [OF assms(2)] by (metis snd_conv)
  next
    case begin_object then show ?thesis using BeginObject_ok [OF assms(2)] by (metis snd_conv)
  next
    case complete_object then show ?thesis using CompleteObject_ok [OF assms(2)] by (metis snd_conv)
  next
    case begin_adt then show ?thesis using BeginADT_ok [OF assms(2)] by (metis snd_conv)
  next
    case complete_adt then show ?thesis using CompleteADT_ok [OF assms(2)] by (metis snd_conv)
  next
    case foreign then show ?thesis using ForeignRecord_ok [OF assms(2)] by (metis snd_conv)
  next
    case complete_foreign then show ?thesis using CompleteForeignRecord_ok [OF assms(2)] by (metis snd_conv)
  next
    case own_object then show ?thesis using SetObjectModuleOwner_ok [OF assms(2)] by metis
  next
    case own_adt then show ?thesis using SetAdtModuleOwner_ok [OF assms(2)] by metis
  next
    case declare_generic then show ?thesis using DeclareGeneric_ok [OF assms(2)] by (metis snd_conv)
  next
    case type_parameter then show ?thesis using TypeParameter_ok [OF assms(2)] by (metis snd_conv)
  qed
  then show ?thesis by (simp add: constructs_def)
qed

lemma arena_reachable_ok: "arena_reachable st \<Longrightarrow> arena_ok st"
  by (induction rule: arena_reachable.induct) (auto simp: NewArena_ok dest: arena_step_ok)

lemma arena_steps_ok: "arena_steps st st' \<Longrightarrow> arena_ok st \<Longrightarrow> arena_ok st' \<and> extends_arena st st'"
  by (induction rule: rtranclp_induct) (auto dest: arena_step_ok intro: extends_arena_trans)

section \<open>Requests\<close>

datatype request =
    PointerR htype bool
  | ContainerR container htype
  | InlineStringR nat
  | DictR htype htype
  | DictEntryR htype htype
  | FunctionR "htype list" "htype option" bool

fun construct :: "type_state \<Rightarrow> request \<Rightarrow> htype option \<times> type_state" where
  "construct st (PointerR e w) = pointerType st e w"
| "construct st (ContainerR c e) = containerType st c e"
| "construct st (InlineStringR n) = InlineStringType st n"
| "construct st (DictR k v) = DictType st k v"
| "construct st (DictEntryR k v) = DictEntryType st k v"
| "construct st (FunctionR params result rest) = FunTypeRest st params result rest"

fun request_slot :: "request \<Rightarrow> family \<times> string" where
  "request_slot (PointerR e w) = (PointerTypes, pointerKey e w)"
| "request_slot (ContainerR c e) = (container_family c, containerKey c e)"
| "request_slot (InlineStringR n) = (StringTypes, inlineStringKey n)"
| "request_slot (DictR k v) = (DictTypes, dictKey k v)"
| "request_slot (DictEntryR k v) = (DictEntryTypes, dictEntryKey k v)"
| "request_slot (FunctionR params result rest) = (FunTypes, funKey params result rest)"

abbreviation request_entry :: "type_state \<Rightarrow> request \<Rightarrow> htype option" where
  "request_entry st request \<equiv> family_lookup st (fst (request_slot request)) (snd (request_slot request))"

lemma construct_step: "construct st request = (r, st') \<Longrightarrow> arena_step st st'"
  by (cases request) (auto intro: arena_step.intros)

lemma intern_answer: "intern st f key build = (r, st') \<Longrightarrow> family_lookup st' f key = r"
  by (auto simp: intern_def family_lookup_insert split: option.splits prod.splits)

lemma intern_cached: "family_lookup st f key = Some t \<Longrightarrow> intern st f key build = (Some t, st)"
  by (simp add: intern_def)

lemma construct_interned:
  "construct st request = (Some t, st') \<Longrightarrow> request_entry st' request = Some t"
  by (cases request)
    (auto simp: pointerType_def containerType_def InlineStringType_def DictType_def DictEntryType_def
      FunTypeRest_def Let_def split: if_splits dest: intern_answer)

lemma construct_again:
  "request_entry st request = Some t \<Longrightarrow> construct st request = (Some t, st) \<or> construct st request = (None, st)"
  by (cases request)
    (auto simp: pointerType_def containerType_def InlineStringType_def DictType_def DictEntryType_def
      FunTypeRest_def Let_def intern_cached)

lemma construct_cached:
  "construct st request = (Some u, st') \<Longrightarrow> request_entry st request = Some t \<Longrightarrow> u = t \<and> st' = st"
  by (cases request)
    (auto simp: pointerType_def containerType_def InlineStringType_def DictType_def DictEntryType_def
      FunTypeRest_def Let_def intern_cached split: if_splits)

end
