(* ===== verification/TypeIdentity.thy ===== *)
theory TypeIdentity
  imports Assignability TypeReachability
begin

text \<open>
  The types a compilation can come by, and their identities. A type is known to an arena when it is
  builtin, an interned entry, or a declared record, union with variants or type parameter with an identity that no
  entry has. In a reachable arena two known types with one identity are one type, or copies of one declared type. And
  what the constructors answer and the declarations introduce is known, and stays known.
\<close>

section \<open>Known types\<close>

text \<open>The types with a name or an identifier of their own, and the entries of the initial arena.\<close>

definition builtin_universe :: "htype list" where
  "builtin_universe =
     [Bool_type, Int8, Int16, Int32, Int64, UInt8, UInt16, UInt32, UInt64, Rune_type, Float32,
      Float64, SizeType, NilType, EoSType, UnknownType, HeapType, StringType, ErrorType, MutexType,
      ByteCursorType, RuneCursorType, GraphemeType, GraphemeCursorType, ErrorKindType,
      NormalizationFormType, UnicodeCategoryType, IOType, BytesType, SeekType, FileType, FileModeType,
      DurationType, InstantType, WallTimeType, AddressType, TcpConnectionType, TcpListenerType,
      ProcessType, PipeType, ProcessOptionsType, StartedProcessType, EnvironmentType,
      EnvironmentVariableType, ProcessStreamType, ExitStatusType, SignalType, SignalsType,
      TerminalSizeType, JsonValueType, JsonMemberType, RegexPatternType, RegexSpanType,
      RegexMatchType, HttpRequestType, HttpWriterType, HttpFileServerType, HttpHeaderType,
      HttpServerConfigType]
       @ map snd arena_seeds"

lemma builtin_universe_members:
  "set (map snd builtinTypes) \<subseteq> set builtin_universe" "set (map snd ResolveSpecID_table) \<subseteq> set builtin_universe"
  "(f, t) \<in> set arena_seeds \<Longrightarrow> t \<in> set builtin_universe"
proof -
  show "set (map snd builtinTypes) \<subseteq> set builtin_universe" by (simp add: builtinTypes_def builtin_universe_def)
  show "set (map snd ResolveSpecID_table) \<subseteq> set builtin_universe"
    by (simp add: ResolveSpecID_table_def builtin_universe_def)
  show "t \<in> set builtin_universe" if "(f, t) \<in> set arena_seeds"
    using imageI [OF that, of snd] by (simp add: builtin_universe_def)
qed

definition interned :: "type_state \<Rightarrow> htype \<Rightarrow> bool" where
  "interned st t \<longleftrightarrow> (\<exists>f k. family_lookup st f k = Some t)"

definition known_type :: "type_state \<Rightarrow> htype \<Rightarrow> bool" where
  "known_type st t \<longleftrightarrow>
     t \<in> set builtin_universe \<or> interned st t
       \<or> nominal t \<and> first_fresh_ident \<le> ty_ident t \<and> (\<forall>u. interned st u \<longrightarrow> \<not> Equal t u)"

lemma builtin_universe_identities:
  "distinct (map ty_ident builtin_universe)" "list_all (\<lambda>i. i < first_fresh_ident) (map ty_ident builtin_universe)"
  by code_simp+

lemma builtin_universe_same:
  "a \<in> set builtin_universe \<Longrightarrow> b \<in> set builtin_universe \<Longrightarrow> Equal a b \<Longrightarrow> a = b"
  using builtin_universe_identities(1) by (simp only: distinct_map inj_on_def Equal_def)

lemma builtin_universe_ident: "a \<in> set builtin_universe \<Longrightarrow> ty_ident a < first_fresh_ident"
  using builtin_universe_identities(2) by (simp only: list_all_iff) simp

lemma fixed_width_known: "t \<in> set fixed_width \<Longrightarrow> known_type st t" "known_type st NilType"
  by (auto simp: known_type_def builtin_universe_def fixed_width_def)

lemma reachable_extends_initial: "arena_reachable st \<Longrightarrow> extends_arena NewArena st"
proof (induction rule: arena_reachable.induct)
  case (step st st')
  then show ?case using arena_step_ok arena_reachable_ok extends_arena_trans by blast
qed simp

lemma interned_old_or_fresh:
  assumes "arena_reachable st" "interned st t"
  shows "t \<in> set builtin_universe \<or> first_fresh_ident \<le> ty_ident t"
proof -
  obtain f k where "family_lookup st f k = Some t" using assms(2) by (auto simp: interned_def)
  then have "family_lookup NewArena f k = Some t \<or> ar_next_ident NewArena \<le> ty_ident t"
    using reachable_extends_initial [OF assms(1)] by (simp add: extends_arena_def)
  moreover have "t \<in> set builtin_universe" if "family_lookup NewArena f k = Some t"
    using NewArena_lookup [OF that] builtin_universe_members(3) by blast
  ultimately show ?thesis by (auto simp: NewArena_def)
qed

lemma interned_same:
  assumes "arena_reachable st" "interned st a" "interned st b" "Equal a b"
  shows "a = b"
proof -
  have "idents_ok st" using arena_reachable_ok [OF assms(1)] by (simp add: arena_ok_def)
  then show ?thesis using assms(2-4) unfolding interned_def idents_ok_def Equal_def by (metis option.inject)
qed

lemma known_types_same:
  assumes st: "arena_reachable st" and known: "known_type st a" "known_type st b" and same: "Equal a b"
  shows "a = b \<or> nominal a \<and> nominal b"
proof (cases "nominal a \<and> nominal b")
  case False
  then consider "a \<in> set builtin_universe" "b \<in> set builtin_universe" | "interned st a" "interned st b"
    | "a \<in> set builtin_universe" "first_fresh_ident \<le> ty_ident b"
    | "b \<in> set builtin_universe" "first_fresh_ident \<le> ty_ident a"
    using known interned_old_or_fresh [OF st] same Equal_sym [OF same] unfolding known_type_def by blast
  then show ?thesis
  proof cases
    case 1
    then show ?thesis using builtin_universe_same [OF _ _ same] by simp
  next
    case 2
    then show ?thesis using interned_same [OF st _ _ same] by simp
  next
    case 3
    then show ?thesis using builtin_universe_ident [OF 3(1)] same by (simp add: Equal_def)
  next
    case 4
    then show ?thesis using builtin_universe_ident [OF 4(1)] same by (simp add: Equal_def)
  qed
qed simp

lemma known_one_type:
  assumes "arena_reachable st"
  shows "one_type_per_identity {t. known_type st t}"
  using known_types_same [OF assms] by (auto simp: one_type_per_identity_def)

section \<open>What becomes known\<close>

lemma known_later:
  assumes "arena_reachable st" "known_type st t" "ty_ident t < ar_next_ident st" "arena_steps st st'"
  shows "known_type st' t"
proof -
  have ext: "extends_arena st st'" using arena_steps_ok [OF assms(4) arena_reachable_ok [OF assms(1)]] by simp
  have "interned st' t" if "interned st t" using that ext by (fastforce simp: interned_def extends_arena_def)
  moreover have "\<not> Equal t u" if "\<forall>u. interned st u \<longrightarrow> \<not> Equal t u" "interned st' u" for u
    using that ext assms(3) by (fastforce simp: interned_def extends_arena_def Equal_def)
  ultimately show ?thesis using assms(2) unfolding known_type_def by blast
qed

lemma constructed_known:
  assumes "arena_reachable st" "construct st request = (Some t, st1)"
  shows "known_type st1 t \<and> ty_ident t < ar_next_ident st1" "ty_key t = snd (request_slot request)"
proof -
  have "request_entry st1 request = Some t" by (rule construct_interned [OF assms(2)])
  moreover have "keys_ok st1"
    using arena_reachable_ok [OF arena_reachable.step [OF assms(1) construct_step [OF assms(2)]]]
    by (simp add: arena_ok_def)
  ultimately show "known_type st1 t \<and> ty_ident t < ar_next_ident st1" "ty_key t = snd (request_slot request)"
    by (auto simp: known_type_def interned_def keys_ok_def)
qed

text \<open>A nominal type with the next identity, in an arena with the same entries.\<close>

lemma fresh_nominal_known:
  assumes "arena_reachable st" "nominal t" "ty_ident t = ar_next_ident st" "ar_families st1 = ar_families st"
    "ar_next_ident st1 = Suc (ar_next_ident st)"
  shows "known_type st1 t \<and> ty_ident t < ar_next_ident st1"
proof -
  have "first_fresh_ident \<le> ar_next_ident st"
    using reachable_extends_initial [OF assms(1)] by (simp add: extends_arena_def NewArena_def)
  moreover have "\<not> Equal t u" if "interned st1 u" for u
  proof -
    have "interned st u" using that assms(4) by (simp add: interned_def family_lookup_def)
    then have "ty_ident u < ar_next_ident st"
      using arena_reachable_ok [OF assms(1)] by (auto simp: interned_def arena_ok_def keys_ok_def)
    then show ?thesis using assms(3) by (simp add: Equal_def)
  qed
  ultimately show ?thesis using assms by (simp add: known_type_def)
qed

lemma BeginObject_known:
  assumes "arena_reachable st" "BeginObject en st nm line column = (t, en', st1)"
  shows "known_type st1 t \<and> ty_ident t < ar_next_ident st1" "known_type st1 (complete_head t)"
proof -
  have t: "nominal t" "nominal (complete_head t)" "ty_ident t = ar_next_ident st"
    "ty_ident (complete_head t) = ar_next_ident st" "ar_families st1 = ar_families st"
    "ar_next_ident st1 = Suc (ar_next_ident st)"
    using assms(2)
    by (auto simp: BeginObject_def newTypeIdentity_def ReserveDefinitionName_def nominal_def Let_def
        split: if_splits)
  show "known_type st1 t \<and> ty_ident t < ar_next_ident st1"
    using fresh_nominal_known [OF assms(1) t(1) t(3) t(5) t(6)] .
  show "known_type st1 (complete_head t)"
    using fresh_nominal_known [OF assms(1) t(2) t(4) t(5) t(6)] by blast
qed

lemma BeginADT_known:
  assumes "arena_reachable st" "BeginADT en st nm line column = (t, en', st1)"
  shows "known_type st1 t \<and> ty_ident t < ar_next_ident st1"
proof (rule fresh_nominal_known [OF assms(1)])
  show "nominal t" "ty_ident t = ar_next_ident st" "ar_families st1 = ar_families st"
    "ar_next_ident st1 = Suc (ar_next_ident st)"
    using assms(2)
    by (auto simp: BeginADT_def newTypeIdentity_def ReserveDefinitionName_def nominal_def Let_def
        split: if_splits)
qed

end
