(* ===== verification/TypeUnionLaws.thy ===== *)
theory TypeUnionLaws
  imports TypeArenaLaws "HOL-Library.Product_Lexorder" "HOL-Library.Multiset"
begin

text \<open>
  Laws of structural unions: the comparison of members is a linear preorder by a key, the stable
  insertion sort is the library's stable sort by that key, and therefore the interned union does not
  depend on the order or the repetition of the members written, as long as members are identified by
  their canonical keys. Membership and narrowing are set membership and set difference.
\<close>

section \<open>The comparison and the sort\<close>

definition member_order_key :: "'a type_store_scheme \<Rightarrow> htype \<Rightarrow> nat \<times> string \<times> string" where
  "member_order_key st t = (case unionDisplayKey st t of (rank, display) \<Rightarrow> (rank, display, ty_key t))"

lemma compareUnionMembers_le:
  "compareUnionMembers st s t \<le> 0 \<longleftrightarrow> member_order_key st s \<le> member_order_key st t"
  by (auto simp: compareUnionMembers_def member_order_key_def Let_def split: prod.splits)

lemma insert_by_insort:
  "(\<And>y. y \<in> set ys \<Longrightarrow> cmp x y \<le> 0 \<longleftrightarrow> f x \<le> f y) \<Longrightarrow> insert_by cmp x ys = insort_key f x ys"
  by (induction ys) auto

lemma sort_stable_sort_key:
  "(\<And>x y. cmp x y \<le> 0 \<longleftrightarrow> f x \<le> f y) \<Longrightarrow> sort_stable cmp xs = sort_key f xs"
  by (induction xs) (simp_all add: sort_stable_def sort_key_def insert_by_insort)

lemma sort_members:
  "sort_stable (compareUnionMembers st) xs = sort_key (member_order_key st) xs"
  by (rule sort_stable_sort_key) (rule compareUnionMembers_le)

section \<open>Repetitions\<close>

text \<open>Types that are told apart by their canonical keys, equal ones being the same value.\<close>

definition interned_set :: "htype set \<Rightarrow> bool" where
  "interned_set T \<longleftrightarrow> (\<forall>s\<in>T. \<forall>t\<in>T. (Equal s t \<longrightarrow> s = t) \<and> (ty_key s = ty_key t \<longrightarrow> s = t))"

lemma interned_set_Equal: "interned_set T \<Longrightarrow> s \<in> T \<Longrightarrow> t \<in> T \<Longrightarrow> Equal s t \<longleftrightarrow> s = t"
  unfolding interned_set_def by (metis Equal_refl)

lemma foldl_add_unique:
  assumes "interned_set (set acc \<union> set ms)" "distinct acc"
  shows "distinct (foldl add_unique acc ms) \<and> set (foldl add_unique acc ms) = set acc \<union> set ms"
  using assms
proof (induction ms arbitrary: acc)
  case (Cons m ms)
  have same: "(\<exists>e\<in>set acc. Equal e m) \<longleftrightarrow> m \<in> set acc"
    using interned_set_Equal [OF Cons.prems(1)] by (auto intro: bexI [of _ m])
  have next_acc: "set (add_unique acc m) = insert m (set acc)" "distinct (add_unique acc m)"
    using Cons.prems(2) same by (auto simp: add_unique_def)
  have "set (add_unique acc m) \<union> set ms = set acc \<union> set (m # ms)" using next_acc by auto
  then show ?case using Cons.IH [of "add_unique acc m"] Cons.prems(1) next_acc by simp
qed simp

lemma unique_members_set:
  "interned_set (set (flatten_members ms)) \<Longrightarrow>
     distinct (unique_members ms) \<and> set (unique_members ms) = set (flatten_members ms)"
  using foldl_add_unique [of "[]" "flatten_members ms"] by (simp add: unique_members_def)

lemma member_order_key_inj: "interned_set T \<Longrightarrow> inj_on (member_order_key st) T"
  by (auto simp: inj_on_def member_order_key_def interned_set_def split: prod.splits)

lemma sorted_members_determined:
  assumes "interned_set (set (flatten_members ms))" "set (flatten_members ms) = set (flatten_members ns)"
  shows "sort_stable (compareUnionMembers st) (unique_members ms)
       = sort_stable (compareUnionMembers st) (unique_members ns)"
proof -
  have "mset (unique_members ms) = mset (unique_members ns)"
    using unique_members_set assms by (metis set_eq_iff_mset_eq_distinct)
  moreover have "inj_on (member_order_key st) (set (unique_members ms))"
    using unique_members_set [OF assms(1)] member_order_key_inj [OF assms(1)] by simp
  ultimately show ?thesis
    unfolding sort_members by (metis sort_key_inj_key_eq sorted_sort_key mset_sort)
qed

lemma UnionType_determined:
  assumes "interned_set (set (flatten_members ms))" "set (flatten_members ms) = set (flatten_members ns)"
  shows "UnionType st ms = UnionType st ns"
proof -
  have "length (unique_members ms) = length (unique_members ns)"
    using unique_members_set assms by (metis distinct_card)
  then show ?thesis
    unfolding UnionType_def assms(2) [symmetric] sorted_members_determined [OF assms] Let_def by simp
qed

section \<open>Membership and narrowing\<close>

lemma ContainsUnionMember_members:
  "IsUnion u \<Longrightarrow> ContainsUnionMember u m \<longleftrightarrow> (\<exists>candidate\<in>set (UnionMembers u). Equal candidate m)"
  by (cases u) (auto simp: IsUnion_def IsNullable_def ContainsUnionMember_def UnionMembers_def
      IsNil_def Equal_def)

lemma view_At_members:
  "map (view_At t) (map int [0..<view_Len t]) = map Some (UnionMembers t)"
  by (rule nth_equalityI)
    (auto simp: view_At_def view_Len_def UnionMembers_def nth_Cons' split: htype.splits)

text \<open>Narrowing refuses exactly when no member or every member is the one removed; otherwise it
  answers the type of the members that remain.\<close>

lemma RemoveUnionMember_refused:
  "fst (fst (RemoveUnionMember st u m)) = None \<and> \<not> snd (fst (RemoveUnionMember st u m))
     \<longleftrightarrow> \<not> (IsUnion u \<and> ContainsUnionMember u m \<and> (\<exists>c\<in>set (UnionMembers u). \<not> Equal c m))"
proof (cases "IsUnion u")
  case True
  have "length (filter (\<lambda>c. \<not> Equal c m) (UnionMembers u)) = length (UnionMembers u)
      \<longleftrightarrow> \<not> ContainsUnionMember u m"
    unfolding ContainsUnionMember_members [OF True] by (metis filter_True length_filter_less nat_less_le)
  moreover have "filter (\<lambda>c. \<not> Equal c m) (UnionMembers u) = [] \<longleftrightarrow> \<not> (\<exists>c\<in>set (UnionMembers u). \<not> Equal c m)"
    by (simp add: filter_empty_conv)
  ultimately show ?thesis
    using True by (auto simp: RemoveUnionMember_def Let_def split: prod.splits)
qed (simp add: RemoveUnionMember_def)

lemma RemoveUnionMember_refused_state:
  "\<not> snd (fst (RemoveUnionMember st u m)) \<Longrightarrow> RemoveUnionMember st u m = ((None, False), st)"
  by (auto simp: RemoveUnionMember_def Let_def split: prod.splits if_splits)

lemma RemoveUnionMember_last:
  assumes "filter (\<lambda>c. \<not> Equal c m) (UnionMembers u) = [t]" "IsUnion u" "ContainsUnionMember u m"
  shows "RemoveUnionMember st u m = ((Some t, True), st)"
proof -
  have "length (filter (\<lambda>c. \<not> Equal c m) (UnionMembers u)) \<noteq> length (UnionMembers u)"
    using assms(2,3) ContainsUnionMember_members by (metis length_filter_less nat_less_le)
  then show ?thesis using assms by (simp add: RemoveUnionMember_def)
qed

end
