(* ===== verification/GenericInference.thy ===== *)
theory GenericInference
  imports TypeEnvironment
begin

text \<open>
  Argument inference for generic calls (\<open>checker/generic_calls.go\<close>): unification of the declared
  parameter types against the argument types, the search for the parameter to blame, and the checks
  on the bindings. Bindings are filled in place, also by an attempt that fails later, so they are
  threaded through success and failure alike.
\<close>

section \<open>Unification\<close>

type_synonym bindings = "htype option list"

lemma element_of_weight: "element_of t = Some e \<Longrightarrow> type_weight e < type_weight t"
  by (induction t) (auto simp: type_weight_def split: if_splits)

lemma nullable_element_weight: "Some e = element_of b \<Longrightarrow> type_weight e < type_weight (NullableT h b)"
  using element_of_weight [of "NullableT h b" e] by simp

lemma UnionMembers_weight: "IsUnion t \<Longrightarrow> types_weight (UnionMembers t) < type_weight t"
proof (cases t)
  case (NullableT h b)
  then show ?thesis by (simp add: UnionMembers_def type_weight_def NilType_def opaqueType_def)
qed (auto simp: UnionMembers_def IsUnion_def IsNullable_def)

text \<open>\<open>unifyTypes\<close>, the loop over the members of the actual union, and its inner loop over the
  expected members from an index on.\<close>

function unifyTypes ::
    "'a type_store_scheme \<Rightarrow> nat \<Rightarrow> htype \<Rightarrow> htype \<Rightarrow> bindings \<Rightarrow> bool \<times> bindings"
  and match_members ::
    "'a type_store_scheme \<Rightarrow> nat \<Rightarrow> htype list \<Rightarrow> nat set \<Rightarrow> htype list \<Rightarrow> bindings \<Rightarrow> bool \<times> bindings"
  and match_member ::
    "'a type_store_scheme \<Rightarrow> nat \<Rightarrow> nat \<Rightarrow> htype list \<Rightarrow> nat set \<Rightarrow> htype \<Rightarrow> bindings \<Rightarrow> nat option \<times> bindings" where
  "unifyTypes st d expected actual bs =
     (case expected of
        GenericT _ declaration i \<Rightarrow>
          if declaration \<noteq> d \<or> length bs \<le> i then (False, bs)
          else (case bs ! i of
                  None \<Rightarrow> (True, bs[i := Some actual])
                | Some bound \<Rightarrow> (Equal bound actual, bs))
      | _ \<Rightarrow>
          if Equal expected actual then (True, bs)
          else (case (element_of expected, element_of actual) of
             (Some e, Some a) \<Rightarrow>
               if (ContainsTypeParameter st e \<or> ContainsTypeParameter st a)
                    \<and> (pointee_writable expected = pointee_writable actual \<or> \<not> pointee_writable expected)
               then unifyTypes st d e a bs
               else (False, bs)
           | _ \<Rightarrow>
               if IsUnion expected \<and> IsUnion actual
                    \<and> length (UnionMembers expected) = length (UnionMembers actual)
               then match_members st d (UnionMembers expected) {} (UnionMembers actual) bs
               else (False, bs)))"
| "match_members st d expected used [] bs = (True, bs)"
| "match_members st d expected used (a # as) bs =
     (case match_member st d 0 expected used a bs of
        (Some i, bs') \<Rightarrow> match_members st d expected (insert i used) as bs'
      | (None, bs') \<Rightarrow> (False, bs'))"
| "match_member st d i [] used a bs = (None, bs)"
| "match_member st d i (e # es) used a bs =
     (if i \<in> used then match_member st d (Suc i) es used a bs
      else case unifyTypes st d e a bs of
             (True, bs') \<Rightarrow> (Some i, bs')
           | (False, bs') \<Rightarrow> match_member st d (Suc i) es used a bs')"
  by pat_completeness auto

termination
  by (relation "measures
      [\<lambda>x. case x of Inl (st, d, e, a, bs) \<Rightarrow> type_weight e
                   | Inr (Inl (st, d, es, used, as, bs)) \<Rightarrow> types_weight es
                   | Inr (Inr (st, d, i, es, used, a, bs)) \<Rightarrow> types_weight es,
       \<lambda>x. case x of Inl _ \<Rightarrow> 0
                   | Inr (Inl (st, d, es, used, as, bs)) \<Rightarrow> length as
                   | Inr (Inr _) \<Rightarrow> 0]")
    (auto dest: nullable_element_weight UnionMembers_weight)

declare unifyTypes.simps [simp del]

section \<open>The parameter to blame\<close>

text \<open>The types \<open>typeContainsPlaceholder\<close> looks into, in its order. A nullable type shares the element
  and the signature of its base.\<close>

fun signature_types :: "htype \<Rightarrow> htype list" where
  "signature_types (FunT _ params result _ _) = params @ (case result of None \<Rightarrow> [] | Some r \<Rightarrow> [r])"
| "signature_types (NullableT _ b) = signature_types b"
| "signature_types _ = []"

definition placeholder_children :: "'a type_store_scheme \<Rightarrow> htype \<Rightarrow> htype list" where
  "placeholder_children st t =
     (case element_of t of None \<Rightarrow> [] | Some e \<Rightarrow> [e])
       @ (case NullableBase t of None \<Rightarrow> [] | Some b \<Rightarrow> [b])
       @ (case t of
            ContainerT _ (HttpC _) _ \<Rightarrow> []
          | ContainerT _ _ e \<Rightarrow> [e]
          | DictT _ k v \<Rightarrow> [k, v]
          | UnionT _ members \<Rightarrow> members
          | _ \<Rightarrow> [])
       @ signature_types t
       @ (case t of
            ObjectT _ i \<Rightarrow> map om_type (ot_members (object_at st i))
          | AdtT _ i \<Rightarrow> adt_payload_types (adt_at st i)
          | _ \<Rightarrow> [])"

fun any_of :: "bool option list \<Rightarrow> bool option" where
  "any_of [] = Some False"
| "any_of (None # answers) = None"
| "any_of (Some True # answers) = Some True"
| "any_of (Some False # answers) = any_of answers"

text \<open>The recursion keeps no record of the nominal types it has entered: with the given depth of
  calls it answers, or \<open>None\<close>. Nothing in the source bounds the depth.\<close>

fun typeContainsPlaceholder :: "nat \<Rightarrow> 'a type_store_scheme \<Rightarrow> htype \<Rightarrow> htype \<Rightarrow> bool option" where
  "typeContainsPlaceholder 0 st t placeholder = None"
| "typeContainsPlaceholder (Suc depth) st t placeholder =
     (if Equal t placeholder then Some True
      else any_of (map (\<lambda>u. typeContainsPlaceholder depth st u placeholder) (placeholder_children st t)))"

section \<open>Inference\<close>

datatype inference_error =
    FunctionArity nat nat bool
  | ConflictingInferredTypes string
  | GenericParameterCannotBeInferred string
  | GenericSpecializationHasUnresolvedArguments

text \<open>The parameter named by a conflict: the one the declared type is, or the first whose placeholder
  occurs in it, or the first of all.\<close>

fun first_contained :: "nat \<Rightarrow> 'a type_store_scheme \<Rightarrow> htype \<Rightarrow> (string \<times> htype) list \<Rightarrow> string \<Rightarrow> string option" where
  "first_contained depth st expected [] fallback = Some fallback"
| "first_contained depth st expected ((nm, placeholder) # rest) fallback =
     (case typeContainsPlaceholder depth st expected placeholder of
        None \<Rightarrow> None
      | Some True \<Rightarrow> Some nm
      | Some False \<Rightarrow> first_contained depth st expected rest fallback)"

definition conflicting_parameter ::
    "nat \<Rightarrow> 'a type_store_scheme \<Rightarrow> nat \<Rightarrow> string list \<Rightarrow> htype list \<Rightarrow> htype \<Rightarrow> string option" where
  "conflicting_parameter depth st d names placeholders expected =
     (case expected of
        GenericT _ declaration i \<Rightarrow>
          if declaration = d \<and> i < length names then Some (names ! i)
          else first_contained depth st expected (zip names placeholders) (hd names)
      | _ \<Rightarrow> first_contained depth st expected (zip names placeholders) (hd names))"

text \<open>The loop over the arguments; \<open>None\<close> when the search for the parameter does not return.\<close>

fun bind_arguments ::
    "nat \<Rightarrow> 'a type_store_scheme \<Rightarrow> nat \<Rightarrow> string list \<Rightarrow> htype list \<Rightarrow> (htype \<times> htype) list \<Rightarrow> bindings
       \<Rightarrow> (inference_error + bindings) option" where
  "bind_arguments depth st d names placeholders [] bs = Some (Inr bs)"
| "bind_arguments depth st d names placeholders ((expected, actual) # pairs) bs =
     (case unifyTypes st d expected actual bs of
        (True, bs') \<Rightarrow> bind_arguments depth st d names placeholders pairs bs'
      | (False, _) \<Rightarrow>
          map_option (\<lambda>nm. Inl (ConflictingInferredTypes nm))
            (conflicting_parameter depth st d names placeholders expected))"

fun check_bindings ::
    "'a type_store_scheme \<Rightarrow> (string \<times> htype option) list \<Rightarrow> htype list \<Rightarrow> inference_error + htype list" where
  "check_bindings st [] bound = Inr bound"
| "check_bindings st ((nm, None) # rest) bound = Inl (GenericParameterCannotBeInferred nm)"
| "check_bindings st ((nm, Some t) # rest) bound =
     (if ContainsTypeParameter st t then Inl GenericSpecializationHasUnresolvedArguments
      else check_bindings st rest (bound @ [t]))"

definition pair_arguments :: "htype list \<Rightarrow> bool \<Rightarrow> htype list \<Rightarrow> inference_error + (htype \<times> htype) list" where
  "pair_arguments expected rest actual =
     (let fixed = (if rest then length expected - 1 else length expected)
      in if rest \<and> length actual < fixed then Inl (FunctionArity fixed (length actual) True)
         else if \<not> rest \<and> length expected \<noteq> length actual
         then Inl (FunctionArity (length expected) (length actual) False)
         else Inr (map (\<lambda>i. (expected ! (if rest \<and> fixed \<le> i then fixed else i), actual ! i))
                    [0..<length actual]))"

text \<open>\<open>inferTypeArguments\<close> after the declared parameter types have been resolved under the
  placeholders.\<close>

definition inferTypeArguments ::
    "nat \<Rightarrow> 'a type_store_scheme \<Rightarrow> nat \<Rightarrow> string list \<Rightarrow> htype list \<Rightarrow> htype list \<Rightarrow> bool \<Rightarrow> htype list
       \<Rightarrow> (inference_error + htype list) option" where
  "inferTypeArguments depth st d names placeholders expected rest actual =
     (case pair_arguments expected rest actual of
        Inl e \<Rightarrow> Some (Inl e)
      | Inr pairs \<Rightarrow>
          (case bind_arguments depth st d names placeholders pairs (replicate (length names) None) of
             None \<Rightarrow> None
           | Some (Inl e) \<Rightarrow> Some (Inl e)
           | Some (Inr bs) \<Rightarrow> Some (check_bindings st (zip names bs) [])))"

section \<open>Bindings only grow\<close>

definition keeps :: "bindings \<Rightarrow> bindings \<Rightarrow> bool" where
  "keeps bs bs' \<longleftrightarrow> length bs' = length bs \<and> (\<forall>i<length bs. bs ! i \<noteq> None \<longrightarrow> bs' ! i = bs ! i)"

lemma keeps_refl [simp]: "keeps bs bs"
  by (simp add: keeps_def)

lemma keeps_trans: "keeps a b \<Longrightarrow> keeps b c \<Longrightarrow> keeps a c"
  by (simp add: keeps_def)

lemma keeps_update: "bs ! i = None \<Longrightarrow> keeps bs (bs[i := x])"
  by (auto simp: keeps_def) (metis nth_list_update_neq option.distinct(1))

lemma unify_keeps:
  "keeps bs (snd (unifyTypes st d e a bs))"
  "keeps bs (snd (match_members st d es used as bs))"
  "keeps bs (snd (match_member st d i es used a bs))"
proof (induction st d e a bs and st d es used as bs and st d i es used a bs
    rule: unifyTypes_match_members_match_member.induct)
  case (1 st d expected actual bs)
  then show ?case
    by (subst unifyTypes.simps)
      (auto simp: keeps_update split: htype.splits option.splits if_splits)
qed (auto split: prod.splits option.splits bool.splits intro: keeps_trans)

lemma unify_parameter:
  assumes "unifyTypes st d (GenericT h d i) a bs = (True, bs')"
  shows "\<exists>t. i < length bs' \<and> bs' ! i = Some t \<and> Equal t a"
  using assms by (auto simp: unifyTypes.simps split: if_splits option.splits)

lemma bind_arguments_binds:
  assumes "bind_arguments depth st d names placeholders pairs bs = Some (Inr bs')"
  shows "keeps bs bs' \<and> (\<forall>h i a. (GenericT h d i, a) \<in> set pairs \<longrightarrow>
           (\<exists>t. i < length bs' \<and> bs' ! i = Some t \<and> Equal t a))"
  using assms
proof (induction pairs arbitrary: bs)
  case (Cons p pairs)
  obtain expected actual where p: "p = (expected, actual)" by fastforce
  with Cons.prems obtain bs1 where u: "unifyTypes st d expected actual bs = (True, bs1)"
      and rest: "bind_arguments depth st d names placeholders pairs bs1 = Some (Inr bs')"
    by (auto split: prod.splits bool.splits)
  have grow: "keeps bs bs1" using unify_keeps(1) [of bs st d expected actual] u by simp
  note IH = Cons.IH [OF rest]
  show ?case
  proof (intro conjI allI impI)
    show "keeps bs bs'" using grow IH keeps_trans by blast
    fix h i a assume "(GenericT h d i, a) \<in> set (p # pairs)"
    then consider "expected = GenericT h d i" "a = actual" | "(GenericT h d i, a) \<in> set pairs"
      using p by auto
    then show "\<exists>t. i < length bs' \<and> bs' ! i = Some t \<and> Equal t a"
    proof cases
      case 1
      then obtain t where "i < length bs1" "bs1 ! i = Some t" "Equal t a"
        using unify_parameter u by blast
      then show ?thesis using IH by (auto simp: keeps_def)
    qed (use IH in blast)
  qed
qed simp

lemma check_bindings_complete:
  "check_bindings st (zip names bs) bound = Inr ts \<Longrightarrow> length names = length bs
     \<Longrightarrow> ts = bound @ map the bs \<and> (\<forall>b\<in>set bs. \<exists>t. b = Some t \<and> \<not> ContainsTypeParameter st t)"
proof (induction bs arbitrary: names bound)
  case (Cons b bs)
  then obtain nm names' where "names = nm # names'" by (cases names) auto
  with Cons.prems obtain t where t: "b = Some t" "\<not> ContainsTypeParameter st t"
      "check_bindings st (zip names' bs) (bound @ [t]) = Inr ts"
    by (cases b) (auto split: if_splits)
  then show ?case using Cons.IH [of names' "bound @ [t]"] Cons.prems(2) \<open>names = nm # names'\<close> by simp
qed simp

lemma inferTypeArguments_Inr:
  assumes "inferTypeArguments depth st d names placeholders expected rest actual = Some (Inr ts)"
  obtains pairs where "pair_arguments expected rest actual = Inr pairs" "length ts = length names"
    "\<forall>t\<in>set ts. \<not> ContainsTypeParameter st t"
    "\<And>h i a. (GenericT h d i, a) \<in> set pairs \<Longrightarrow> i < length ts \<and> Equal (ts ! i) a"
proof -
  from assms obtain pairs bs where b: "pair_arguments expected rest actual = Inr pairs"
      "bind_arguments depth st d names placeholders pairs (replicate (length names) None) = Some (Inr bs)"
      "check_bindings st (zip names bs) [] = Inr ts"
    by (auto simp: inferTypeArguments_def split: sum.splits option.splits)
  note binds = bind_arguments_binds [OF b(2)]
  then have len: "length names = length bs" by (simp add: keeps_def)
  note complete = check_bindings_complete [OF b(3) len]
  show thesis
  proof (rule that [OF b(1)])
    show "length ts = length names" "\<forall>t\<in>set ts. \<not> ContainsTypeParameter st t"
      using complete len by auto
    fix h i a assume "(GenericT h d i, a) \<in> set pairs"
    then obtain t where "i < length bs" "bs ! i = Some t" "Equal t a" using binds by blast
    then show "i < length ts \<and> Equal (ts ! i) a" using complete by simp
  qed
qed

section \<open>Depth\<close>

text \<open>An answer stays with any greater depth; a record that reaches itself gives no answer at any.\<close>

lemma endless_search:
  assumes "\<And>u. u \<in> S \<Longrightarrow> \<not> Equal u p \<and> (\<exists>c cs. placeholder_children st u = c # cs \<and> c \<in> S)" "t \<in> S"
  shows "typeContainsPlaceholder depth st t p = None"
  using assms(2)
proof (induction depth arbitrary: t)
  case (Suc depth)
  with assms(1) obtain c cs where "\<not> Equal t p" "placeholder_children st t = c # cs" "c \<in> S" by blast
  with Suc.IH show ?case by simp
qed simp

lemma typeContainsPlaceholder_mono:
  "typeContainsPlaceholder depth st t p = Some b \<Longrightarrow> depth \<le> depth' \<Longrightarrow> typeContainsPlaceholder depth' st t p = Some b"
proof (induction depth arbitrary: t b depth')
  case (Suc depth)
  then obtain k where k: "depth' = Suc k" "depth \<le> k" by (cases depth') auto
  have "any_of (map (\<lambda>u. typeContainsPlaceholder depth st u p) us) = Some b
      \<Longrightarrow> any_of (map (\<lambda>u. typeContainsPlaceholder k st u p) us) = Some b" for us b
  proof (induction us)
    case (Cons u us)
    then obtain c where "typeContainsPlaceholder depth st u p = Some c"
      by (cases "typeContainsPlaceholder depth st u p") auto
    with Suc.IH k(2) have "typeContainsPlaceholder k st u p = Some c" by blast
    with Cons \<open>typeContainsPlaceholder depth st u p = Some c\<close> show ?case by (cases c) auto
  qed simp
  with Suc.prems(1) k(1) show ?case by (auto split: if_splits)
qed simp

end
