(* ===== verification/TypeProps.thy ===== *)
theory TypeProps
  imports TypeIdentity TypeUnionLaws GenericInference
begin

text \<open>
  The main properties of the type system's core: module ownership, the scalar registries and numeric
  widening, the arena of interned types as a state machine, unions, assignment and the inference of
  type arguments.
\<close>

section \<open>Inputs of the examples\<close>

definition narrow_result :: htype where
  "narrow_result = UnionT (plain_head ''Bool | Int8'' ''u'' (unionKey [Bool_type, Int8]) 100 []) [Bool_type, Int8]"

definition wide_result :: htype where
  "wide_result = UnionT (plain_head ''Bool | Int8 | String'' ''v'' (unionKey [Bool_type, Int8, StringType]) 101 [])
     [Bool_type, Int8, StringType]"

definition function_to :: "htype \<Rightarrow> htype" where
  "function_to result = FunT (plain_head (funName [HeapType] (Some result) False) [] (funKey [HeapType] (Some result) False)
     (Suc (ty_ident result)) (funKey [HeapType] (Some result) False)) [HeapType] (Some result) False None"

definition placeholder_of :: "nat \<Rightarrow> nat \<Rightarrow> htype" where
  "placeholder_of d ident = GenericT ((plain_head ''T'' [] ''T'' ident [])\<lparr>th_incomplete := True\<rparr>) d 0"

definition self_linked :: object_type where
  "self_linked = zero_object\<lparr>ot_name := ''Node'', ot_ident := 40,
     ot_members := [\<lparr>om_name = ''next'',
       om_type = NullableT (plain_head ''Ptr<Node> | Nil'' ''p'' ''n'' 42 [])
         (PtrT (plain_head ''Ptr<Node>'' ''p'' ''p'' 41 []) (ObjectT (plain_head ''Node'' ''hex_t_Node'' ''Node'' 40 []) 0) False),
       om_mutable = True, om_cname = ''next''\<rparr>]\<rparr>"

definition two_generics :: type_state where
  "two_generics =
     \<lparr>st_objects = [], st_adts = [], ar_families = (\<lambda>_. []), ar_definition_names = [], ar_foreign_objects = [],
      ar_collection_cnames = [],
      ar_declarations =
        [\<lparr>gd_name = ''first'', gd_arity = 1, gd_parameters = [''T''], gd_placeholders = [None]\<rparr>,
         \<lparr>gd_name = ''second'', gd_arity = 1, gd_parameters = [''T''], gd_placeholders = [None]\<rparr>],
      ar_next_ident = 100\<rparr>"

section \<open>Module ownership\<close>

text \<open>C26. Two declarations of named modules share a C type name or a canonical key only if they are the
  same name in the same module: the encoded owner can be read back from the C name. Include guards
  and artifact paths identify their module.\<close>

theorem module_owned_names_distinct:
  assumes "m \<noteq> []" "m' \<noteq> []" "\<forall>c\<in>set a. identifier_byte c" "\<forall>c\<in>set b. identifier_byte c"
  shows "(nominal_c_name (EncodeModuleOwner m) a = nominal_c_name (EncodeModuleOwner m') b \<longleftrightarrow> m = m' \<and> a = b)
    \<and> (canonicalNominalKey a m = canonicalNominalKey b m' \<longleftrightarrow> m = m' \<and> a = b)
    \<and> (ModuleHeaderGuard m = ModuleHeaderGuard m' \<longleftrightarrow> m = m')
    \<and> (ModuleArtifactStem m = ModuleArtifactStem m' \<longleftrightarrow> m = m')
    \<and> read_owner (EncodeModuleOwner m @ ''_'' @ a) = (m, ''_'' @ a)"
  using assms owner_then_name_inject [of m m' "CHR ''_''" a b] owner_then_name_inject [of m m' "CHR '':''" a b]
    read_owner_encode [of m "''_'' @ a"]
  by (simp add: nominal_c_name_def canonicalNominalKey_def ModuleHeaderGuard_def sanitize_identifier_id
      is_digit_def byte_between_def)

theorem module_owned_names_distinct_witness:
  "nominal_c_name (EncodeModuleOwner ''a/b_1'') ''T'' \<noteq> nominal_c_name (EncodeModuleOwner ''a'') ''b_1_T''
    \<and> canonicalNominalKey ''T'' ''a'' \<noteq> canonicalNominalKey ''T'' ''std/a''
    \<and> ModuleHeaderGuard ''a/b'' \<noteq> ModuleHeaderGuard ''a_b''"
  using module_owned_names_distinct [of "''a/b_1''" "''a''" "''T''" "''b_1_T''"]
    module_owned_names_distinct [of "''a''" "''std/a''" "''T''" "''T''"]
    module_owned_names_distinct [of "''a/b''" "''a_b''" "''T''" "''T''"]
  by (simp add: identifier_byte_def is_digit_def byte_between_def)

section \<open>Scalars\<close>

text \<open>C12. An implicit numeric conversion is admitted between two fixed-width scalars exactly when every
  value of the first is a value of the second.\<close>

theorem widening_exact:
  "\<forall>s\<in>set fixed_width. \<forall>t\<in>set fixed_width. WidensTo s t \<longleftrightarrow> scalar_values s \<subseteq> scalar_values t"
  using widening_is_inclusion by blast

theorem widening_exact_witness:
  "scalar_values UInt32 \<subseteq> scalar_values Float64 \<and> \<not> scalar_values Int64 \<subseteq> scalar_values Float64"
proof -
  have "WidensTo UInt32 Float64" "\<not> WidensTo Int64 Float64" by code_simp+
  then show ?thesis using widening_exact by (simp add: fixed_width_def)
qed

text \<open>C27. The common type of mixed operands is symmetric and the smallest by rank of all types both
  operands widen to; it is refused only when there is none.\<close>

theorem common_type_smallest:
  assumes "s \<in> set fixed_width" "t \<in> set fixed_width"
  shows "LosslessCommonType s t = LosslessCommonType t s
    \<and> (case LosslessCommonType s t of
        None \<Rightarrow> common_bounds s t = {}
      | Some u \<Rightarrow> u \<in> common_bounds s t \<and> (\<forall>v\<in>common_bounds s t. the (rank_of u) \<le> the (rank_of v)))"
  using common_type_least [OF assms] common_type_sym [OF assms] by simp

theorem common_type_smallest_witness:
  "LosslessCommonType Int32 UInt32 = LosslessCommonType UInt32 Int32 \<and> common_bounds Int64 UInt64 = {}"
proof -
  have "LosslessCommonType Int64 UInt64 = None" by code_simp
  then show ?thesis
    using common_type_smallest [of Int32 UInt32] common_type_smallest [of Int64 UInt64]
    by (auto simp: fixed_width_def split: option.splits)
qed

text \<open>Every pair of numeric identities has an explicit conversion and no other identity has one; the
  operator, target and scalar registries pass their own validation; the C spellings of the two
  targets differ in the long family only.\<close>

theorem registries_valid:
  "(Conversion a b \<longleftrightarrow> a \<in> set numericIdentities \<and> b \<in> set numericIdentities)
    \<and> validateOperators \<and> validateTargets targetFacts \<and> validateScalars targetScalars
    \<and> map fst (snd (targetScalars ! 0)) = map fst (snd (targetScalars ! 1))
    \<and> filter (\<lambda>row. fst row \<notin> set long_family) (snd (targetScalars ! 0))
       = filter (\<lambda>row. fst row \<notin> set long_family) (snd (targetScalars ! 1))"
proof -
  have "validateTargets targetFacts" "validateScalars targetScalars" by code_simp+
  then show ?thesis using Conversion_iff validateOperators_holds cscalar_tables by blast
qed

section \<open>The arena as a state machine\<close>

text \<open>C6. In every arena reachable by the operations of the environment, an entry is interned under its
  own canonical key, equality of two entries is identity of family and key, and no two entries of the builtin
  collection and handle families (slices, lists, inline lists, inline strings, dictionaries, tasks, channels, atomics
  and pools) share a C name. The C names of unions, dictionary entries and declared types, which have
  definitions in C too, are not part of the claim.\<close>

theorem reachable_arena_interned:
  assumes "arena_reachable st" "family_lookup st f k = Some t" "family_lookup st g l = Some u"
  shows "ty_key t = k \<and> (Equal t u \<longleftrightarrow> f = g \<and> k = l)
    \<and> (\<not> (f \<in> named_families \<and> g \<in> named_families \<and> ty_cname t = ty_cname u) \<or> f = g \<and> k = l)"
proof -
  have ok: "keys_ok st" "idents_ok st" "cnames_ok st"
    using arena_reachable_ok [OF assms(1)] by (simp_all add: arena_ok_def)
  have "ty_key t = k" using ok(1) assms(2) by (simp add: keys_ok_def)
  moreover have "Equal t u \<longleftrightarrow> f = g \<and> k = l"
    using ok(2) assms(2,3) unfolding idents_ok_def Equal_def by (metis option.inject)
  moreover have "\<lbrakk>f \<in> named_families; g \<in> named_families; ty_cname t = ty_cname u\<rbrakk> \<Longrightarrow> f = g \<and> k = l"
    using ok(3) assms(2,3) unfolding cnames_ok_def by blast
  ultimately show ?thesis by blast
qed

theorem reachable_arena_interned_witness:
  "\<exists>t u. family_lookup NewArena ListTypes (ty_key JsonValueListType) = Some t
     \<and> family_lookup NewArena SliceTypes (ty_key HttpByteSliceType) = Some u \<and> \<not> Equal t u \<and> ty_cname t \<noteq> ty_cname u"
proof -
  have l: "family_lookup NewArena ListTypes (ty_key JsonValueListType) = Some JsonValueListType"
    and s: "family_lookup NewArena SliceTypes (ty_key HttpByteSliceType) = Some HttpByteSliceType"
    by (simp_all add: family_lookup_def NewArena_def seed_family_def seeded_lists_def seeded_slices_def)
  show ?thesis
    using reachable_arena_interned [OF arena_reachable.initial l s] l s by (auto simp: named_families_def)
qed

text \<open>C19. Constructing a type is stable: whatever the environment does afterwards, the same construction
  answers the same type or is refused, and in either case changes nothing. It is refused only where its guards,
  which look at the members of declared types, have changed; an inline string is answered again always.\<close>

theorem construction_stable:
  assumes "arena_reachable st" "construct st request = (Some t, st1)" "arena_steps st1 st2"
  shows "(construct st2 request = (Some t, st2) \<or> construct st2 request = (None, st2))
    \<and> (request = InlineStringR n \<longrightarrow> construct st2 request = (Some t, st2))"
proof -
  have "arena_ok st1"
    using assms(1,2) by (blast intro: arena_reachable_ok arena_reachable.step construct_step)
  then have entry: "request_entry st2 request = Some t"
    using arena_steps_ok [OF assms(3)] construct_interned [OF assms(2)] by (simp add: extends_arena_def)
  moreover have "fst (construct st2 (InlineStringR n)) \<noteq> None" if "request = InlineStringR n"
    using assms(2) entry unfolding that
    by (simp add: InlineStringType_def Let_def intern_cached split: if_splits)
  ultimately show ?thesis
    using construct_again [OF entry] by (cases "construct st2 request") auto
qed

theorem construction_stable_witness:
  "\<exists>t st1. construct NewArena (InlineStringR 1000) = (Some t, st1) \<and> construct st1 (InlineStringR 1000) = (Some t, st1)"
proof -
  have "\<exists>t st'. construct st (InlineStringR 1000) = (Some t, st')" for st
    by (auto simp: InlineStringType_def MaxInlineStringCapacity_def intern_def Let_def split: option.splits prod.splits)
  then obtain t st1 where first: "construct NewArena (InlineStringR 1000) = (Some t, st1)" by blast
  from construction_stable [OF arena_reachable.initial first rtranclp.rtrancl_refl, of 1000] first
  show ?thesis by blast
qed



text \<open>The searches for an unused C name end: a collection gets its base name when that is unused and
  in any case an unused one, which is then used; a union gets the first of its candidates that no
  other type owns.\<close>

theorem free_names_found:
  assumes "base \<noteq> []" "uniqueCollectionCName st base e = (nm, st')"
  shows "nm \<notin> set (ar_collection_cnames st) \<and> ar_collection_cnames st' = nm # ar_collection_cnames st
    \<and> (base \<in> set (ar_collection_cnames st) \<or> nm = base)
    \<and> union_free_name st base t
        = candidate base (LEAST n. \<not> union_name_taken (ar_definition_names st) t (candidate base n))
    \<and> \<not> union_name_taken (ar_definition_names st) t (union_free_name st base t)"
proof (intro conjI)
  show "nm \<notin> set (ar_collection_cnames st)" "ar_collection_cnames st' = nm # ar_collection_cnames st"
    using uniqueCollectionCName_fresh(1,2) [OF assms(2)] .
  show "base \<in> set (ar_collection_cnames st) \<or> nm = base"
    using assms(2) by (cases "base \<in> set (ar_collection_cnames st)") (simp_all add: uniqueCollectionCName_def Let_def)
  show "union_free_name st base t
      = candidate base (LEAST n. \<not> union_name_taken (ar_definition_names st) t (candidate base n))"
    using definition_names.first_free_least [of "ar_definition_names st" t base] assms(1)
    by (simp add: union_free_name_def)
  show "\<not> union_name_taken (ar_definition_names st) t (union_free_name st base t)"
    using assms(1) by (rule union_free_name_free)
qed

theorem free_names_found_witness:
  "fst (uniqueCollectionCName NewArena ''hex_list_Int32'' (Some Int32)) \<notin> set (ar_collection_cnames NewArena)"
  using free_names_found [of "''hex_list_Int32''" NewArena "Some Int32"] by (metis list.discI prod.collapse)

section \<open>Unions\<close>

text \<open>C25. The union interned for a list of members depends on the set of the flattened members only, not
  on their order or repetition, as long as members are told apart by their canonical keys.\<close>

theorem union_order_irrelevant:
  assumes "interned_set (set (flatten_members ms))" "set (flatten_members ms) = set (flatten_members ns)"
  shows "UnionType st ms = UnionType st ns"
  using assms by (rule UnionType_determined)

theorem union_order_irrelevant_witness:
  "UnionType NewArena [Int32, Bool_type, Int32] = UnionType NewArena [Bool_type, Int32]"
proof (rule union_order_irrelevant)
  have flat: "flatten_members [Int32, Bool_type, Int32] = [Int32, Bool_type, Int32]"
    "flatten_members [Bool_type, Int32] = [Bool_type, Int32]"
    by code_simp+
  have "\<not> Equal Int32 Bool_type" "ty_key Int32 \<noteq> ty_key Bool_type" by code_simp+
  then show "interned_set (set (flatten_members [Int32, Bool_type, Int32]))"
    using Equal_sym by (auto simp: flat interned_set_def)
  show "set (flatten_members [Int32, Bool_type, Int32]) = set (flatten_members [Bool_type, Int32])"
    by (simp add: flat insert_commute)
qed

text \<open>Narrowing a union by a member is refused exactly when the member is not one of its members or
  no other member remains; the only remaining member is answered itself and the arena is unchanged.\<close>

theorem narrowing_removes_member:
  assumes "IsUnion u"
  shows "(RemoveUnionMember st u m = ((None, False), st)
      \<longleftrightarrow> \<not> (ContainsUnionMember u m \<and> (\<exists>c\<in>set (UnionMembers u). \<not> Equal c m)))
    \<and> (\<forall>t. filter (\<lambda>c. \<not> Equal c m) (UnionMembers u) = [t] \<and> ContainsUnionMember u m
          \<longrightarrow> RemoveUnionMember st u m = ((Some t, True), st))
    \<and> map (view_At u) (map int [0..<view_Len u]) = map Some (UnionMembers u)"
  using RemoveUnionMember_refused [of st u m] RemoveUnionMember_last [of m u _ st] RemoveUnionMember_refused_state [of st u m]
    view_At_members [of u] assms
  by (metis fst_conv snd_conv)

theorem narrowing_removes_member_witness:
  "RemoveUnionMember NewArena RegexCaptureType NilType \<noteq> ((None, False), NewArena)"
proof -
  have "IsUnion RegexCaptureType" "ContainsUnionMember RegexCaptureType NilType"
    "\<exists>c\<in>set (UnionMembers RegexCaptureType). \<not> Equal c NilType"
    by code_simp+
  then show ?thesis using narrowing_removes_member [of RegexCaptureType NewArena NilType] by blast
qed

lemma example_display_keys:
  "unionDisplayKey st Int32 = (0, ''07'')" "unionDisplayKey st StringType = (3, ''String'')"
  "unionDisplayKey st (function_to narrow_result) = (3, ''Fun<(Heap) : Bool | Int8>'')"
  "unionDisplayKey st (function_to wide_result) = (3, ''Fun<(Heap) : Bool | Int8 | String>'')"
  by code_simp+

text \<open>C40. Two unions of different members have one canonical key: a function type with a union result
  followed by a further member reads like a function type whose result has that member. The second
  is therefore answered with the first once that is interned.\<close>

theorem union_keys_collide:
  "unionKey [Int32, function_to narrow_result, StringType] = unionKey [Int32, function_to wide_result]
    \<and> sort_stable (compareUnionMembers st) [StringType, function_to narrow_result, Int32]
        = [Int32, function_to narrow_result, StringType]
    \<and> sort_stable (compareUnionMembers st) [function_to wide_result, Int32] = [Int32, function_to wide_result]
    \<and> intern (family_insert st UnionTypes (unionKey [Int32, function_to narrow_result, StringType]) u) UnionTypes
          (unionKey [Int32, function_to wide_result]) build
        = (Some u, family_insert st UnionTypes (unionKey [Int32, function_to narrow_result, StringType]) u)"
proof (intro conjI)
  show key: "unionKey [Int32, function_to narrow_result, StringType] = unionKey [Int32, function_to wide_result]"
    by code_simp
  note keys = compareUnionMembers_def sort_stable_def example_display_keys
  show "sort_stable (compareUnionMembers st) [StringType, function_to narrow_result, Int32]
      = [Int32, function_to narrow_result, StringType]"
    by (simp add: keys)
  show "sort_stable (compareUnionMembers st) [function_to wide_result, Int32] = [Int32, function_to wide_result]"
    by (simp add: keys)
  show "intern (family_insert st UnionTypes (unionKey [Int32, function_to narrow_result, StringType]) u) UnionTypes
          (unionKey [Int32, function_to wide_result]) build
        = (Some u, family_insert st UnionTypes (unionKey [Int32, function_to narrow_result, StringType]) u)"
    unfolding key by (rule intern_cached) (simp add: family_lookup_insert)
qed

section \<open>Assignment\<close>

text \<open>C7. Assignment is sound: a value of the source type is a value of any type the source may be
  assigned to, unless the source is a pointer to Unknown. The types are of one compilation: they and the types
  a nullable or a union of them mentions are known to a reachable arena, that is builtin, answered by a constructor, or
  declared with an identity of their own, incomplete and completed copies included.\<close>

theorem assignable_sound:
  assumes "arena_reachable st" "\<forall>u\<in>parts t \<union> parts s. known_type st u"
    and "Assignable t s" "inhabits v s" "\<not> erased_pointer s"
  shows "inhabits v t"
  using Assignable_inhabits_in [OF known_one_type [OF assms(1)] _ _ assms(3-5)] fixed_width_known assms(2) by blast

theorem assignable_sound_witness:
  "inhabits (VNum 7) Int16 \<and> inhabits (VNum 7) Int32"
proof -
  have v: "inhabits (VNum 7) Int16"
    by (simp add: inhabits_fixed_width fixed_width_def scalar_values_simps image_iff)
  moreover have "inhabits (VNum 7) Int32"
  proof (rule assignable_sound [OF arena_reachable.initial, of Int32 Int16])
    show "\<forall>u\<in>parts Int32 \<union> parts Int16. known_type NewArena u"
      using fixed_width_known(1) by (simp add: Int32_def Int16_def scalarType_def fixed_width_def)
    show "Assignable Int32 Int16" by code_simp
    show "\<not> erased_pointer Int16" by (simp add: erased_pointer_def Int16_def scalarType_def)
  qed (rule v)
  ultimately show ?thesis by simp
qed

section \<open>Inference of type arguments\<close>

text \<open>C20. An inferred argument list has one type for every parameter, none of which ContainsTypeParameter
  finds a parameter in, and every argument whose declared type is a parameter has the type inferred for that
  parameter; with a rest parameter, whose element type is the last of the declared types, every argument from its
  position on.\<close>

theorem inference_binds_arguments:
  assumes "inferTypeArguments depth st d names placeholders expected rest actual = Some (Inr ts)"
    "j < length actual"
    "expected ! (if rest \<and> length expected - 1 \<le> j then length expected - 1 else j) = GenericT h d i"
  shows "length ts = length names
    \<and> (if rest then length expected - 1 \<le> length actual else length expected = length actual)
    \<and> (\<forall>t\<in>set ts. \<not> ContainsTypeParameter st t) \<and> i < length ts \<and> Equal (ts ! i) (actual ! j)"
proof -
  obtain pairs where p: "pair_arguments expected rest actual = Inr pairs" "length ts = length names"
      "\<forall>t\<in>set ts. \<not> ContainsTypeParameter st t"
      "\<And>h i a. (GenericT h d i, a) \<in> set pairs \<Longrightarrow> i < length ts \<and> Equal (ts ! i) a"
    using inferTypeArguments_Inr [OF assms(1)] by metis
  let ?at = "\<lambda>i. if rest \<and> length expected - 1 \<le> i then length expected - 1 else i"
  from p(1) have pairs: "pairs = map (\<lambda>i. (expected ! ?at i, actual ! i)) [0..<length actual]"
    and lengths: "if rest then length expected - 1 \<le> length actual else length expected = length actual"
    by (auto simp: pair_arguments_def Let_def split: if_splits)
  have "(expected ! ?at j, actual ! j) \<in> set pairs" unfolding pairs using assms(2) by auto
  then show ?thesis using p(2-4) lengths assms(3) by simp
qed

theorem inference_binds_arguments_witness:
  "inferTypeArguments 3 \<lparr>st_objects = [], st_adts = []\<rparr> 0 [''T''] [placeholder_of 0 50]
       [Bool_type, placeholder_of 0 50] True [Bool_type, Int32, Int32] = Some (Inr [Int32])
     \<and> Equal ([Int32] ! 0) Int32"
proof -
  have run: "inferTypeArguments 3 \<lparr>st_objects = [], st_adts = []\<rparr> 0 [''T''] [placeholder_of 0 50]
       [Bool_type, placeholder_of 0 50] True [Bool_type, Int32, Int32] = Some (Inr [Int32])"
    by code_simp
  show ?thesis
    using inference_binds_arguments [OF run, of 2 _ 0] run by (simp add: placeholder_of_def)
qed

text \<open>C39. A call of a function with one parameter, declared as a record whose first member is a nullable
  pointer to that record, is never answered when its argument has another type: the search for the parameter to name
  enters the record again and again, before any other member.\<close>

theorem recursive_record_inference_diverges:
  assumes "i < length (st_objects st)" "map om_type (ot_members (object_at st i)) = NullableT h1 (PtrT h2 (ObjectT h3 i) w) # rest"
    "th_ident p \<notin> {th_ident h, th_ident h1, th_ident h2, th_ident h3}" "\<not> Equal (ObjectT h i) a"
  shows "inferTypeArguments depth st d (nm # names) (GenericT p d 0 # ps) [ObjectT h i] False [a] = None"
proof -
  let ?S = "{ObjectT h i, ObjectT h3 i, NullableT h1 (PtrT h2 (ObjectT h3 i) w), PtrT h2 (ObjectT h3 i) w}"
  have "typeContainsPlaceholder depth st (ObjectT h i) (GenericT p d 0) = None"
    by (rule endless_search [of ?S]) (use assms(2,3) in \<open>auto simp: placeholder_children_def Equal_def\<close>)
  then show ?thesis
    using assms(4)
    by (simp add: inferTypeArguments_def pair_arguments_def unifyTypes.simps IsUnion_def IsNullable_def
        conflicting_parameter_def)
qed

theorem recursive_record_inference_diverges_witness:
  "inferTypeArguments 1000 \<lparr>st_objects = [self_linked], st_adts = []\<rparr> 0 [''T''] [placeholder_of 0 50]
     [ObjectT (plain_head ''Node'' ''hex_t_Node'' ''Node'' 40 []) 0] False [Int32] = None"
  unfolding placeholder_of_def
  by (rule recursive_record_inference_diverges
      [where w = False and rest = "[]" and ?h1.0 = "plain_head ''Ptr<Node> | Nil'' ''p'' ''n'' 42 []"
        and ?h2.0 = "plain_head ''Ptr<Node>'' ''p'' ''p'' 41 []" and ?h3.0 = "plain_head ''Node'' ''hex_t_Node'' ''Node'' 40 []"])
    (simp_all add: object_at_def self_linked_def Equal_def)

lemma placeholder_contains [simp]: "ContainsTypeParameter st (GenericT h d i)"
  by (simp add: ContainsTypeParameter_def contains_type_parameter.simps)

lemma placeholder_admitted:
  assumes "100 \<le> th_ident h"
  shows "pointer_admitted st (GenericT h d i)"
proof -
  have "\<not> IsNil (GenericT h d i)" "fact_id (GenericT h d i) = None"
    using assms
    by (simp_all add: fact_id_def IsNil_def IsUnknown_def IsHeap_def IsString_def IsIO_def IsBytes_def UnknownType_def
        HeapType_def StringType_def IOType_def BytesType_def opaqueType_def)
  then show ?thesis
    by (simp add: pointer_admitted_def canonical_argument_def isCanonicalForEnvironment_def canonical.simps
        shape_canonical_def building_flags_def isManaged_def resolveTypeFacts_def)
qed

lemma pointer_to_placeholder:
  assumes "100 \<le> th_ident h" "family_lookup st PointerTypes (pointerKey (GenericT h d i) w) = None"
  shows "\<exists>t st'. pointerType st (GenericT h d i) w = (Some t, st') \<and> ty_ident t = ar_next_ident st
    \<and> ar_declarations st' = ar_declarations st \<and> ar_next_ident st' = Suc (ar_next_ident st)
    \<and> family_lookup st' PointerTypes (pointerKey (GenericT h d i) w) = Some t"
  using placeholder_admitted [OF assms(1), of st d i] assms(2)
  by (simp add: pointerType_def intern_def Let_def newTypeIdentity_def family_insert_def family_lookup_def)

lemma two_generics_run:
  "\<exists>p st1 t st2 q st3 t' st4. TypeParameter two_generics 0 0 = (Some p, st1) \<and> pointerType st1 p False = (Some t, st2)
     \<and> TypeParameter st2 1 0 = (Some q, st3) \<and> pointerType st3 q False = (Some t', st4) \<and> ty_ident t \<noteq> 90"
proof -
  let ?h = "\<lambda>n. (plain_head ''T'' [] ''T'' n [])\<lparr>th_incomplete := True\<rparr>"
  obtain st1 where 1: "TypeParameter two_generics 0 0 = (Some (GenericT (?h 100) 0 0), st1)"
      "ar_declarations st1 ! 1 = ar_declarations two_generics ! 1" "length (ar_declarations st1) = 2"
      "ar_next_ident st1 = 101" "ar_families st1 = (\<lambda>_. [])"
    by (simp add: TypeParameter_def two_generics_def Let_def newTypeIdentity_def)
  obtain t st2 where 2: "pointerType st1 (GenericT (?h 100) 0 0) False = (Some t, st2)" "ty_ident t = 101"
      "ar_declarations st2 = ar_declarations st1" "ar_next_ident st2 = 102"
      "family_lookup st2 PointerTypes (pointerKey (GenericT (?h 100) 0 0) False) = Some t"
    using pointer_to_placeholder [of "?h 100" st1 0 0 False] 1 by (auto simp: family_lookup_def)
  obtain st3 where 3: "TypeParameter st2 1 0 = (Some (GenericT (?h 102) 1 0), st3)"
      "ar_families st3 = ar_families st2"
    using 1 2 by (simp add: TypeParameter_def two_generics_def Let_def newTypeIdentity_def)
  have "family_lookup st3 PointerTypes (pointerKey (GenericT (?h 102) 1 0) False) = Some t"
    using 2(5) 3(2) by (simp add: family_lookup_def pointerKey_def)
  then have "pointerType st3 (GenericT (?h 102) 1 0) False = (Some t, st3)"
    using placeholder_admitted [of "?h 102" st3 1 0] by (simp add: pointerType_def intern_def Let_def)
  then show ?thesis using 1(1) 2(1,2) 3(1) by fastforce
qed

text \<open>The placeholders of parameters of one name have one canonical key, so a pointer to the second
  declaration's parameter is answered with the pointer interned for the first's, and unification for
  the second declaration fails on it whatever the argument points to.\<close>

theorem placeholder_pointers_shared:
  assumes "d < length (ar_declarations st)" "d' < length (ar_declarations st)" "d \<noteq> d'"
    "ar_declarations st ! d = \<lparr>gd_name = f, gd_arity = 1, gd_parameters = [nm], gd_placeholders = [None]\<rparr>"
    "ar_declarations st ! d' = \<lparr>gd_name = g, gd_arity = 1, gd_parameters = [nm], gd_placeholders = [None]\<rparr>"
    "TypeParameter st d 0 = (Some p, st1)" "pointerType st1 p w = (Some t, st2)"
    "TypeParameter st2 d' 0 = (Some q, st3)" "pointerType st3 q w = (Some t', st4)"
    "family_lookup st PointerTypes (pointerKey p w) = None" "th_ident h \<noteq> ty_ident t"
  shows "t' = t \<and> element_of t' = Some p \<and> \<not> Equal p q
    \<and> unifyTypes (store_of st4) d' t' (PtrT h a w) [None] = (False, [None])"
proof -
  have p: "p = GenericT ((plain_head nm [] nm (ar_next_ident st) [])\<lparr>th_incomplete := True\<rparr>) d 0"
    and st1: "ar_families st1 = ar_families st" "ar_next_ident st1 = Suc (ar_next_ident st)"
      "ar_declarations st1 = (ar_declarations st)[d := ar_declarations st1 ! d]"
    using assms(1,4,6) by (auto simp: TypeParameter_def newTypeIdentity_def Let_def)
  have miss: "family_lookup st1 PointerTypes (pointerKey p w) = None"
    using assms(10) st1(1) by (simp add: family_lookup_def)
  have t: "element_of t = Some p" "pointee_writable t = w" and
    st2: "family_lookup st2 PointerTypes (pointerKey p w) = Some t" "ar_next_ident st2 = Suc (ar_next_ident st1)"
      "ar_declarations st2 = ar_declarations st1"
    using assms(7) miss
    by (auto simp: pointerType_def intern_def Let_def newTypeIdentity_def family_lookup_insert family_insert_def
        family_lookup_def split: if_splits)
  have "ar_declarations st2 ! d' = ar_declarations st ! d'"
    using st2(3) st1(3) assms(3) by (metis nth_list_update_neq)
  moreover have "d' < length (ar_declarations st2)" using st2(3) st1(3) assms(2) by (metis length_list_update)
  ultimately have q: "q = GenericT ((plain_head nm [] nm (ar_next_ident st2) [])\<lparr>th_incomplete := True\<rparr>) d' 0"
    and st3: "ar_families st3 = ar_families st2"
    using assms(5,8) by (auto simp: TypeParameter_def newTypeIdentity_def Let_def)
  have "pointerKey q w = pointerKey p w" by (simp add: pointerKey_def p q)
  moreover have "family_lookup st3 PointerTypes (pointerKey p w) = Some t"
    using st2(1) st3 by (simp add: family_lookup_def)
  ultimately have "t' = t"
    using assms(9) by (auto simp: pointerType_def intern_cached Let_def split: if_splits)
  moreover obtain h' where "t = PtrT h' p w"
    using assms(7) miss by (auto simp: pointerType_def intern_def Let_def newTypeIdentity_def split: if_splits)
  moreover have "\<not> Equal p q" using st1(2) st2(2) by (simp add: Equal_def p q)
  ultimately show ?thesis
    using assms(3,11) p by (simp add: unifyTypes.simps Equal_def)
qed

theorem placeholder_pointers_shared_witness:
  "\<exists>p st1 t st2 q st3 t' st4. TypeParameter two_generics 0 0 = (Some p, st1) \<and> pointerType st1 p False = (Some t, st2)
     \<and> TypeParameter st2 1 0 = (Some q, st3) \<and> pointerType st3 q False = (Some t', st4) \<and> t' = t
     \<and> unifyTypes (store_of st4) 1 t' (PtrT (plain_head ''Ptr<Int32>'' ''p'' ''Ptr:Int32'' 90 []) Int32 False) [None]
         = (False, [None])"
proof -
  obtain p st1 t st2 q st3 t' st4 where run: "TypeParameter two_generics 0 0 = (Some p, st1)"
      "pointerType st1 p False = (Some t, st2)" "TypeParameter st2 1 0 = (Some q, st3)"
      "pointerType st3 q False = (Some t', st4)" "ty_ident t \<noteq> 90"
    using two_generics_run by blast
  have state: "0 < length (ar_declarations two_generics)" "1 < length (ar_declarations two_generics)"
    "ar_declarations two_generics ! 0 = \<lparr>gd_name = ''first'', gd_arity = 1, gd_parameters = [''T''], gd_placeholders = [None]\<rparr>"
    "ar_declarations two_generics ! 1 = \<lparr>gd_name = ''second'', gd_arity = 1, gd_parameters = [''T''], gd_placeholders = [None]\<rparr>"
    "family_lookup two_generics PointerTypes (pointerKey p False) = None"
    by (simp_all add: two_generics_def family_lookup_def)
  have "t' = t \<and> element_of t' = Some p \<and> \<not> Equal p q
      \<and> unifyTypes (store_of st4) 1 t' (PtrT (plain_head ''Ptr<Int32>'' ''p'' ''Ptr:Int32'' 90 []) Int32 False) [None]
        = (False, [None])"
    by (rule placeholder_pointers_shared [OF state(1,2) _ state(3,4) run(1,2,3,4) state(5)]) (use run(5) in simp_all)
  then show ?thesis using run by blast
qed

end
