(* ===== verification/FloatBits.thy ===== *)
theory FloatBits
  imports Complex_Main "HOL-Library.Log_Nat"
begin

text \<open>
  Go's \<open>float32\<close> and \<open>float64\<close> as bit patterns: the conversions \<open>math.Float64frombits\<close> and
  \<open>math.Float64bits\<close>, rounding of an exact value to the nearest representable one with ties to
  even, the arithmetic and the comparisons. A finite value is a sign and an exact rational
  magnitude. The bits of a NaN made by an invalid operation depend on the machine and are a
  parameter; an operand that is a NaN is passed on, the left one first.
\<close>

section \<open>Formats\<close>

text \<open>The number of fraction bits and of exponent bits.\<close>

record float_format =
  ff_fraction :: nat
  ff_exponent :: nat

definition binary32 :: float_format where
  "binary32 = \<lparr>ff_fraction = 23, ff_exponent = 8\<rparr>"

definition binary64 :: float_format where
  "binary64 = \<lparr>ff_fraction = 52, ff_exponent = 11\<rparr>"

definition ff_bias :: "float_format \<Rightarrow> int" where
  "ff_bias f = 2 ^ (ff_exponent f - 1) - 1"

text \<open>The exponent of the smallest positive value.\<close>

definition ff_emin :: "float_format \<Rightarrow> int" where
  "ff_emin f = 1 - ff_bias f - int (ff_fraction f)"

definition infinity_bits :: "float_format \<Rightarrow> int" where
  "infinity_bits f = (2 ^ ff_exponent f - 1) * 2 ^ ff_fraction f"

definition sign_weight :: "float_format \<Rightarrow> int" where
  "sign_weight f = 2 ^ (ff_fraction f + ff_exponent f)"

section \<open>Reading bits\<close>

datatype ieee = Nan int | Infinite bool | Finite bool rat

definition sign_bit :: "float_format \<Rightarrow> int \<Rightarrow> bool" where
  "sign_bit f bits = odd (bits div sign_weight f)"

definition exponent_bits :: "float_format \<Rightarrow> int \<Rightarrow> int" where
  "exponent_bits f bits = bits div 2 ^ ff_fraction f mod 2 ^ ff_exponent f"

definition fraction_bits :: "float_format \<Rightarrow> int \<Rightarrow> int" where
  "fraction_bits f bits = bits mod 2 ^ ff_fraction f"

definition float_frombits :: "float_format \<Rightarrow> int \<Rightarrow> ieee" where
  "float_frombits f bits =
     (let e = exponent_bits f bits; m = fraction_bits f bits; s = sign_bit f bits
      in if e = 2 ^ ff_exponent f - 1 then (if m = 0 then Infinite s else Nan bits)
         else if e = 0 then Finite s (of_int m * 2 powi ff_emin f)
         else Finite s (of_int (2 ^ ff_fraction f + m) * 2 powi (e - 1 + ff_emin f)))"

definition special_bits :: "float_format \<Rightarrow> int \<Rightarrow> bool" where
  "special_bits f bits \<longleftrightarrow> exponent_bits f bits = 2 ^ ff_exponent f - 1"

section \<open>Rounding\<close>

text \<open>The exponent of the leading bit of a positive rational.\<close>

definition ilog2 :: "rat \<Rightarrow> int" where
  "ilog2 q =
     (let (a, b) = quotient_of q; k = bitlen a - bitlen b
      in if q < 2 powi k then k - 1 else k)"

definition round_half_even :: "rat \<Rightarrow> int" where
  "round_half_even q =
     (let n = \<lfloor>q\<rfloor>; d = q - of_int n
      in if d < 1 / 2 then n else if 1 / 2 < d then n + 1 else if even n then n else n + 1)"

text \<open>The bits of the magnitude nearest to a nonnegative rational; at and above the largest finite
  value plus half a unit, those of infinity.\<close>

definition round_magnitude :: "float_format \<Rightarrow> rat \<Rightarrow> int" where
  "round_magnitude f q =
     (if q = 0 then 0
      else
        let e = max (ff_emin f) (ilog2 q - int (ff_fraction f));
            n = round_half_even (q * 2 powi (- e));
            bits = (e - ff_emin f) * 2 ^ ff_fraction f + n
        in min bits (infinity_bits f))"

definition with_sign :: "float_format \<Rightarrow> bool \<Rightarrow> int \<Rightarrow> int" where
  "with_sign f s bits = (if s then sign_weight f + bits else bits)"

definition float_round :: "float_format \<Rightarrow> rat \<Rightarrow> int" where
  "float_round f q = with_sign f (q < 0) (round_magnitude f \<bar>q\<bar>)"

section \<open>Arithmetic\<close>

datatype float_operation = FloatAdd | FloatSub | FloatMul | FloatDiv

definition signed_value :: "bool \<Rightarrow> rat \<Rightarrow> rat" where
  "signed_value s q = (if s then - q else q)"

fun float_add :: "float_format \<Rightarrow> int \<Rightarrow> ieee \<Rightarrow> ieee \<Rightarrow> int" where
  "float_add f qnan (Nan a) y = a"
| "float_add f qnan x (Nan b) = b"
| "float_add f qnan (Infinite s) (Infinite t) = (if s = t then with_sign f s (infinity_bits f) else qnan)"
| "float_add f qnan (Infinite s) (Finite t q) = with_sign f s (infinity_bits f)"
| "float_add f qnan (Finite s p) (Infinite t) = with_sign f t (infinity_bits f)"
| "float_add f qnan (Finite s p) (Finite t q) =
     (let r = signed_value s p + signed_value t q
      in if r = 0 then with_sign f (s \<and> t) 0 else float_round f r)"

fun float_negate :: "ieee \<Rightarrow> ieee" where
  "float_negate (Nan a) = Nan a"
| "float_negate (Infinite s) = Infinite (\<not> s)"
| "float_negate (Finite s q) = Finite (\<not> s) q"

fun float_mul :: "float_format \<Rightarrow> int \<Rightarrow> ieee \<Rightarrow> ieee \<Rightarrow> int" where
  "float_mul f qnan (Nan a) y = a"
| "float_mul f qnan x (Nan b) = b"
| "float_mul f qnan (Infinite s) (Infinite t) = with_sign f (s \<noteq> t) (infinity_bits f)"
| "float_mul f qnan (Infinite s) (Finite t q) = (if q = 0 then qnan else with_sign f (s \<noteq> t) (infinity_bits f))"
| "float_mul f qnan (Finite s p) (Infinite t) = (if p = 0 then qnan else with_sign f (s \<noteq> t) (infinity_bits f))"
| "float_mul f qnan (Finite s p) (Finite t q) = with_sign f (s \<noteq> t) (round_magnitude f (p * q))"

fun float_div :: "float_format \<Rightarrow> int \<Rightarrow> ieee \<Rightarrow> ieee \<Rightarrow> int" where
  "float_div f qnan (Nan a) y = a"
| "float_div f qnan x (Nan b) = b"
| "float_div f qnan (Infinite s) (Infinite t) = qnan"
| "float_div f qnan (Infinite s) (Finite t q) = with_sign f (s \<noteq> t) (infinity_bits f)"
| "float_div f qnan (Finite s p) (Infinite t) = with_sign f (s \<noteq> t) 0"
| "float_div f qnan (Finite s p) (Finite t q) =
     (if q = 0 then if p = 0 then qnan else with_sign f (s \<noteq> t) (infinity_bits f)
      else with_sign f (s \<noteq> t) (round_magnitude f (p / q)))"

definition float_arithmetic :: "float_format \<Rightarrow> int \<Rightarrow> float_operation \<Rightarrow> int \<Rightarrow> int \<Rightarrow> int" where
  "float_arithmetic f qnan op left right =
     (let x = float_frombits f left; y = float_frombits f right
      in case op of
           FloatAdd \<Rightarrow> float_add f qnan x y
         | FloatSub \<Rightarrow> float_add f qnan x (float_negate y)
         | FloatMul \<Rightarrow> float_mul f qnan x y
         | FloatDiv \<Rightarrow> float_div f qnan x y)"

section \<open>Comparison\<close>

fun float_eq :: "ieee \<Rightarrow> ieee \<Rightarrow> bool" where
  "float_eq (Infinite s) (Infinite t) = (s = t)"
| "float_eq (Finite s p) (Finite t q) = (signed_value s p = signed_value t q)"
| "float_eq _ _ = False"

fun float_less :: "ieee \<Rightarrow> ieee \<Rightarrow> bool" where
  "float_less (Nan _) y = False"
| "float_less x (Nan _) = False"
| "float_less (Infinite s) (Infinite t) = (s \<and> \<not> t)"
| "float_less (Infinite s) (Finite _ _) = s"
| "float_less (Finite _ _) (Infinite t) = (\<not> t)"
| "float_less (Finite s p) (Finite t q) = (signed_value s p < signed_value t q)"

section \<open>Reading back what was rounded\<close>

lemma bitlen_rat:
  assumes "0 < (a :: int)"
  shows "2 powi (bitlen a - 1) \<le> (of_int a :: rat)" "(of_int a :: rat) < 2 powi bitlen a"
proof -
  have b: "2 ^ nat (bitlen a - 1) \<le> a" "a < 2 ^ nat (bitlen a)" "1 \<le> bitlen a"
    using bitlen_bounds [OF assms] bitlen_ge_iff_power [of 1 a] assms by simp_all
  have pos: "bitlen a - 1 = int (nat (bitlen a - 1))" "bitlen a = int (nat (bitlen a))" using b(3) by simp_all
  have "(of_int (2 ^ nat (bitlen a - 1)) :: rat) \<le> of_int a" using b(1) by (simp only: of_int_le_iff)
  then show "2 powi (bitlen a - 1) \<le> (of_int a :: rat)" by (subst pos(1)) (simp only: power_int_of_nat of_int_power of_int_numeral)
  have "(of_int a :: rat) < of_int (2 ^ nat (bitlen a))" using b(2) by (simp only: of_int_less_iff)
  then show "(of_int a :: rat) < 2 powi bitlen a" by (subst pos(2)) (simp only: power_int_of_nat of_int_power of_int_numeral)
qed

lemma ilog2_bounds:
  assumes "0 < q"
  shows "2 powi ilog2 q \<le> q" "q < 2 powi (ilog2 q + 1)"
proof -
  obtain a b where ab: "quotient_of q = (a, b)" by fastforce
  have q: "q = of_int a / of_int b" and b: "0 < b" using quotient_of_div [OF ab] quotient_of_denom_pos [OF ab] .
  with assms have a: "0 < a" by (simp add: zero_less_divide_iff)
  let ?j = "bitlen a" and ?l = "bitlen b"
  note ar = bitlen_rat [OF a] and br = bitlen_rat [OF b]
  have pos: "0 < (of_int b :: rat)" using b by simp
  have "2 powi (?j - ?l - 1) = (2 powi (?j - 1) / 2 powi ?l :: rat)"
    by (simp add: power_int_diff)
  also have "\<dots> \<le> of_int a / of_int b"
    using ar(1) br(2) pos a by (intro frac_le) simp_all
  finally have low: "2 powi (?j - ?l - 1) \<le> q" using q by simp
  have "of_int a / of_int b < (2 powi ?j / 2 powi (?l - 1) :: rat)"
    using ar(2) br(1) a by (intro frac_less) simp_all
  also have "\<dots> = 2 powi (?j - ?l + 1)" by (simp add: power_int_diff power_int_add)
  finally have high: "q < 2 powi (?j - ?l + 1)" using q by simp
  show "2 powi ilog2 q \<le> q" "q < 2 powi (ilog2 q + 1)"
    using low high by (auto simp: ilog2_def ab Let_def not_less split: if_splits)
qed

lemma ilog2_unique: "2 powi k \<le> q \<Longrightarrow> q < 2 powi (k + 1) \<Longrightarrow> ilog2 q = k"
proof -
  assume *: "2 powi k \<le> q" "q < 2 powi (k + 1)"
  then have "0 < q" using zero_less_power_int [of "2 :: rat" k] by (simp del: zero_less_power_int)
  have step: "i \<le> j" if "(2 :: rat) powi i < 2 powi (j + 1)" for i j :: int
    using that power_int_increasing [of "j + 1" i "2 :: rat"] by (cases "i \<le> j") simp_all
  show ?thesis
    using step [of k "ilog2 q"] step [of "ilog2 q" k] * ilog2_bounds [OF \<open>0 < q\<close>] by simp
qed

lemma round_half_even_int [simp]: "round_half_even (of_int n) = n"
  by (simp add: round_half_even_def)

text \<open>A multiple of the unit of its binade that fits the fraction is rounded to itself.\<close>

lemma round_magnitude_exact:
  assumes "0 < n" "n < 2 ^ (ff_fraction f + 1)" "0 \<le> k" "k = 0 \<or> 2 ^ ff_fraction f \<le> n"
    "k * 2 ^ ff_fraction f + n < infinity_bits f"
  shows "round_magnitude f (of_int n * 2 powi (k + ff_emin f)) = k * 2 ^ ff_fraction f + n"
proof -
  let ?m = "ff_fraction f" and ?q = "of_int n * 2 powi (k + ff_emin f) :: rat"
  have bounds: "2 powi (bitlen n - 1) \<le> (of_int n :: rat)" "(of_int n :: rat) < 2 powi bitlen n"
    using bitlen_rat [OF assms(1)] .
  have log: "ilog2 ?q = bitlen n - 1 + k + ff_emin f"
  proof (rule ilog2_unique)
    have "2 powi (bitlen n - 1 + k + ff_emin f)
        = (2 powi (bitlen n - 1) * 2 powi (k + ff_emin f) :: rat)"
      by (simp flip: power_int_add add: algebra_simps)
    also have "\<dots> \<le> ?q" using bounds(1) by (intro mult_right_mono) simp_all
    finally show "2 powi (bitlen n - 1 + k + ff_emin f) \<le> ?q" .
    have "?q < 2 powi bitlen n * 2 powi (k + ff_emin f)"
      using bounds(2) by (intro mult_strict_right_mono) simp_all
    also have "\<dots> = 2 powi (bitlen n + (k + ff_emin f))"
      by (rule power_int_add [symmetric]) simp
    also have "bitlen n + (k + ff_emin f) = bitlen n - 1 + k + ff_emin f + 1" by simp
    finally show "?q < 2 powi (bitlen n - 1 + k + ff_emin f + 1)" .
  qed
  have fits: "bitlen n \<le> int ?m + 1"
    using assms(2) by (simp add: bitlen_le_iff_power nat_add_distrib)
  have e: "max (ff_emin f) (ilog2 ?q - int ?m) = k + ff_emin f"
  proof (cases "k = 0")
    case False
    then have "int ?m + 1 \<le> bitlen n" using assms(4) by (simp add: bitlen_ge_iff_power nat_add_distrib)
    with fits show ?thesis using log assms(3) by simp
  qed (use fits log in simp)
  have "(of_int n * 2 powi x) * 2 powi (- x) = (of_int n :: rat)" for x :: int
    by (simp add: power_int_minus)
  then have "round_half_even (?q * 2 powi (- (k + ff_emin f))) = n" by (simp only: round_half_even_int)
  moreover have "?q \<noteq> 0" using assms(1) by simp
  ultimately show ?thesis
    using assms(5) e unfolding round_magnitude_def Let_def by (simp only: if_False add_diff_cancel_right' min_absorb1 less_imp_le)
qed

text \<open>Bits of a format, and the parts of finite ones put together again.\<close>

definition format_bits :: "float_format \<Rightarrow> int \<Rightarrow> bool" where
  "format_bits f bits \<longleftrightarrow> 0 \<le> bits \<and> bits < 2 * sign_weight f"

lemma format_bits_parts:
  assumes "format_bits f bits"
  shows "bits = with_sign f (sign_bit f bits) (exponent_bits f bits * 2 ^ ff_fraction f + fraction_bits f bits)"
proof -
  let ?m = "2 ^ ff_fraction f :: int" and ?e = "2 ^ ff_exponent f :: int"
  have w: "sign_weight f = ?m * ?e" by (simp add: sign_weight_def power_add)
  have top: "bits div sign_weight f = bits div ?m div ?e" by (simp add: w zdiv_zmult2_eq)
  have "bits div sign_weight f < 2" "0 \<le> bits div sign_weight f"
    using assms div_pos_geq [of "sign_weight f" bits] div_pos_pos_trivial [of "bits - sign_weight f" "sign_weight f"] div_pos_pos_trivial [of bits "sign_weight f"]
    by (cases "sign_weight f \<le> bits"; simp add: format_bits_def pos_imp_zdiv_nonneg_iff sign_weight_def)+
  then have s: "bits div sign_weight f = (if sign_bit f bits then 1 else 0)"
    by (auto simp: sign_bit_def elim!: oddE)
  have "bits = bits div ?m * ?m + fraction_bits f bits" by (simp only: fraction_bits_def div_mult_mod_eq)
  also have "bits div ?m = bits div ?m div ?e * ?e + exponent_bits f bits" by (simp only: exponent_bits_def div_mult_mod_eq)
  finally show ?thesis
    using s unfolding top [symmetric] by (simp add: with_sign_def w algebra_simps split: if_splits)
qed

lemma exponent_bits_range: "0 \<le> exponent_bits f bits" "exponent_bits f bits < 2 ^ ff_exponent f"
  by (simp_all add: exponent_bits_def)

lemma fraction_bits_range: "0 \<le> fraction_bits f bits" "fraction_bits f bits < 2 ^ ff_fraction f"
  by (simp_all add: fraction_bits_def)

text \<open>Rounding the value of finite bits gives the bits back, up to the sign of zero.\<close>

lemma float_frombits_finite:
  assumes "\<not> special_bits f bits"
  shows "\<exists>q. float_frombits f bits = Finite (sign_bit f bits) q \<and> 0 \<le> q
    \<and> round_magnitude f q = exponent_bits f bits * 2 ^ ff_fraction f + fraction_bits f bits"
proof -
  let ?e = "exponent_bits f bits" and ?m = "fraction_bits f bits" and ?p = "2 ^ ff_fraction f :: int"
  note range = exponent_bits_range [of f bits] fraction_bits_range [of f bits]
  have "?e \<le> 2 ^ ff_exponent f - 2" using range(2) assms by (simp add: special_bits_def)
  then have "?e * ?p + ?p \<le> infinity_bits f"
    using mult_right_mono [of "?e + 1" "2 ^ ff_exponent f - 1" ?p] by (simp add: infinity_bits_def algebra_simps)
  then have top: "?e * ?p + ?m < infinity_bits f" using range(4) by simp
  show ?thesis
  proof (cases "?e = 0")
    case True
    then have "round_magnitude f (of_int ?m * 2 powi ff_emin f) = ?m"
    proof (cases "?m = 0")
      case False
      then show ?thesis
        using round_magnitude_exact [of ?m f 0] range top True by simp
    qed (simp add: round_magnitude_def)
    then show ?thesis
      using True assms range by (auto simp: float_frombits_def special_bits_def Let_def)
  next
    case False
    have "round_magnitude f (of_int (?p + ?m) * 2 powi (?e - 1 + ff_emin f)) = (?e - 1) * ?p + (?p + ?m)"
      by (rule round_magnitude_exact) (use False range top in \<open>simp_all add: algebra_simps\<close>)
    moreover have "float_frombits f bits = Finite (sign_bit f bits) (of_int (?p + ?m) * 2 powi (?e - 1 + ff_emin f))"
      using False assms by (simp add: float_frombits_def special_bits_def Let_def)
    moreover have "0 \<le> (of_int (?p + ?m) * 2 powi (?e - 1 + ff_emin f) :: rat)"
      using range by (intro mult_nonneg_nonneg) (simp_all only: of_int_0_le_iff, simp_all)
    moreover have "(?e - 1) * ?p + (?p + ?m) = ?e * ?p + ?m" by (simp add: algebra_simps)
    ultimately show ?thesis by metis
  qed
qed

end
