(* ===== verification/GoConstant.thy ===== *)
theory GoConstant
  imports FloatBits ModuleNames "HOL-Library.Signed_Division"
begin

unbundle bit_operations_syntax

text \<open>
  The values and operations of Go's \<open>go/constant\<close> that the compiler uses: exact integers and
  rationals, Booleans and the unknown value. An operation the package panics on is \<open>None\<close>. Rationals
  are exact here; the package rounds to 512 bits only beyond exponents of 4096, which no value of a
  64-bit format reaches.
\<close>

section \<open>Values\<close>

datatype const_value = CUnknown | CBool bool | CInt int | CRat rat

datatype constant_kind = KindUnknown | KindBool | KindInt | KindFloat

fun Kind :: "const_value \<Rightarrow> constant_kind" where
  "Kind CUnknown = KindUnknown"
| "Kind (CBool _) = KindBool"
| "Kind (CInt _) = KindInt"
| "Kind (CRat _) = KindFloat"

fun number :: "const_value \<Rightarrow> rat option" where
  "number (CInt i) = Some (of_int i)"
| "number (CRat q) = Some q"
| "number _ = None"

definition Sign :: "const_value \<Rightarrow> int" where
  "Sign x = (case number x of None \<Rightarrow> 1 | Some q \<Rightarrow> if q < 0 then - 1 else if q = 0 then 0 else 1)"

section \<open>Comparison\<close>

datatype comparison = EQL | NEQ | LSS | LEQ | GTR | GEQ

fun compare_ordered :: "comparison \<Rightarrow> 'a::linorder \<Rightarrow> 'a \<Rightarrow> bool" where
  "compare_ordered EQL x y = (x = y)"
| "compare_ordered NEQ x y = (x \<noteq> y)"
| "compare_ordered LSS x y = (x < y)"
| "compare_ordered LEQ x y = (x \<le> y)"
| "compare_ordered GTR x y = (y < x)"
| "compare_ordered GEQ x y = (y \<le> x)"

text \<open>A comparison with the unknown value is false. Booleans are compared for equality only; the
  package panics on any other mix, which no caller reaches.\<close>

fun Compare :: "const_value \<Rightarrow> comparison \<Rightarrow> const_value \<Rightarrow> bool" where
  "Compare (CBool a) op (CBool b) = (op = EQL \<and> a = b \<or> op = NEQ \<and> a \<noteq> b)"
| "Compare x op y =
     (case (number x, number y) of (Some p, Some q) \<Rightarrow> compare_ordered op p q | _ \<Rightarrow> False)"

section \<open>Arithmetic\<close>

datatype go_token = ADD_T | SUB_T | MUL_T | QUO_ASSIGN_T | REM_T | AND_T | OR_T | XOR_T | SHL_T | SHR_T | ILLEGAL_T

text \<open>Integers that fit \<open>int64\<close> are divided as machine integers.\<close>

fun int_op :: "int \<Rightarrow> go_token \<Rightarrow> int \<Rightarrow> int option" where
  "int_op a ADD_T b = Some (a + b)"
| "int_op a SUB_T b = Some (a - b)"
| "int_op a MUL_T b = Some (a * b)"
| "int_op a QUO_ASSIGN_T b =
     (if b = 0 then None else if a = - (2 ^ 63) \<and> b = - 1 then Some a else Some (a sdiv b))"
| "int_op a REM_T b = (if b = 0 then None else Some (a smod b))"
| "int_op a AND_T b = Some (a AND b)"
| "int_op a OR_T b = Some (a OR b)"
| "int_op a XOR_T b = Some (a XOR b)"
| "int_op a _ b = None"

fun rat_op :: "rat \<Rightarrow> go_token \<Rightarrow> rat \<Rightarrow> rat option" where
  "rat_op a ADD_T b = Some (a + b)"
| "rat_op a SUB_T b = Some (a - b)"
| "rat_op a MUL_T b = Some (a * b)"
| "rat_op a _ b = None"

fun BinaryOp :: "const_value \<Rightarrow> go_token \<Rightarrow> const_value \<Rightarrow> const_value option" where
  "BinaryOp CUnknown op y = Some CUnknown"
| "BinaryOp x op CUnknown = Some CUnknown"
| "BinaryOp (CInt a) op (CInt b) = map_option CInt (int_op a op b)"
| "BinaryOp x op y =
     (case (number x, number y) of (Some p, Some q) \<Rightarrow> map_option CRat (rat_op p op q) | _ \<Rightarrow> None)"

text \<open>\<open>UnaryOp(SUB, x, 0)\<close>.\<close>

fun Negate :: "const_value \<Rightarrow> const_value option" where
  "Negate CUnknown = Some CUnknown"
| "Negate (CBool _) = None"
| "Negate (CInt i) = Some (CInt (- i))"
| "Negate (CRat q) = Some (CRat (- q))"

fun Shift :: "const_value \<Rightarrow> go_token \<Rightarrow> nat \<Rightarrow> const_value option" where
  "Shift CUnknown op n = Some CUnknown"
| "Shift (CInt a) SHL_T n = Some (CInt (a * 2 ^ n))"
| "Shift (CInt a) SHR_T n = Some (CInt (a div 2 ^ n))"
| "Shift _ _ _ = None"

section \<open>Conversions\<close>

fun ToInt :: "const_value \<Rightarrow> const_value" where
  "ToInt (CInt i) = CInt i"
| "ToInt (CRat q) = (if snd (quotient_of q) = 1 then CInt (fst (quotient_of q)) else CUnknown)"
| "ToInt _ = CUnknown"

fun ToFloat :: "const_value \<Rightarrow> const_value" where
  "ToFloat (CInt i) = CRat (of_int i)"
| "ToFloat (CRat q) = CRat q"
| "ToFloat _ = CUnknown"

fun Num :: "const_value \<Rightarrow> const_value" where
  "Num (CInt i) = CInt i"
| "Num (CRat q) = CInt (fst (quotient_of q))"
| "Num _ = CUnknown"

fun Denom :: "const_value \<Rightarrow> const_value" where
  "Denom (CInt i) = CInt 1"
| "Denom (CRat q) = CInt (snd (quotient_of q))"
| "Denom _ = CUnknown"

text \<open>\<open>Float32Val\<close> and \<open>Float64Val\<close> followed by \<open>math.Float32bits\<close> and \<open>math.Float64bits\<close>; the
  unknown value reads as zero.\<close>

definition FloatVal :: "float_format \<Rightarrow> const_value \<Rightarrow> int" where
  "FloatVal f x = (case number x of None \<Rightarrow> 0 | Some q \<Rightarrow> float_round f q)"

definition MakeFloat64 :: "ieee \<Rightarrow> const_value" where
  "MakeFloat64 x = (case x of Finite s q \<Rightarrow> CRat (signed_value s q) | _ \<Rightarrow> CUnknown)"

text \<open>\<open>Int64Val\<close> and \<open>Uint64Val\<close>: the value modulo the word size, and whether it is exact.\<close>

definition Int64Val :: "int \<Rightarrow> int \<times> bool" where
  "Int64Val i = (signed_take_bit 63 i, - (2 ^ 63) \<le> i \<and> i < 2 ^ 63)"

definition Uint64Val :: "int \<Rightarrow> int \<times> bool" where
  "Uint64Val i = (take_bit 64 i, 0 \<le> i \<and> i < 2 ^ 64)"

section \<open>Text\<close>

definition int_string :: "int \<Rightarrow> string" where
  "int_string i = (if i < 0 then CHR ''-'' # decimal (nat (- i)) else decimal (nat i))"

fun ExactString :: "const_value \<Rightarrow> string" where
  "ExactString CUnknown = ''unknown''"
| "ExactString (CBool b) = (if b then ''true'' else ''false'')"
| "ExactString (CInt i) = int_string i"
| "ExactString (CRat q) =
     (case quotient_of q of (a, b) \<Rightarrow> if b = 1 then int_string a else int_string a @ CHR ''/'' # int_string b)"

definition digit_of :: "char \<Rightarrow> nat option" where
  "digit_of c =
     (if is_digit c then Some (byte_val c - 48)
      else if byte_between (CHR ''a'') c (CHR ''f'') then Some (byte_val c - 87)
      else if byte_between (CHR ''A'') c (CHR ''F'') then Some (byte_val c - 55)
      else None)"

fun digits_value :: "int \<Rightarrow> int \<Rightarrow> string \<Rightarrow> int option" where
  "digits_value base acc [] = Some acc"
| "digits_value base acc (c # cs) =
     (case digit_of c of
        None \<Rightarrow> None
      | Some d \<Rightarrow> if int d < base then digits_value base (base * acc + int d) cs else None)"

definition parse_digits :: "int \<Rightarrow> string \<Rightarrow> int option" where
  "parse_digits base s = (if s = [] then None else digits_value base 0 s)"

definition ParseUint :: "string \<Rightarrow> int \<Rightarrow> int option" where
  "ParseUint s base =
     (case parse_digits base s of None \<Rightarrow> None | Some v \<Rightarrow> if v < 2 ^ 64 then Some v else None)"

text \<open>\<open>MakeFromLiteral(s, INT, 0)\<close>: a prefix selects the base, and so does a leading zero.\<close>

definition MakeIntLiteral :: "string \<Rightarrow> const_value" where
  "MakeIntLiteral s =
     (case (if take 2 s = ''0x'' then parse_digits 16 (drop 2 s)
            else if take 2 s = ''0b'' then parse_digits 2 (drop 2 s)
            else if take 2 s = ''0o'' then parse_digits 8 (drop 2 s)
            else if take 1 s = ''0'' \<and> length s > 1 then parse_digits 8 (drop 1 s)
            else parse_digits 10 s) of
        None \<Rightarrow> CUnknown
      | Some v \<Rightarrow> CInt v)"

text \<open>\<open>MakeFromLiteral(s, FLOAT, 0)\<close> on decimal forms: digits, an optional fraction and an optional
  exponent. The other forms it reads do not occur.\<close>

definition exponent_value :: "string \<Rightarrow> int option" where
  "exponent_value s =
     (if take 1 s = ''-'' then map_option uminus (parse_digits 10 (drop 1 s))
      else if take 1 s = ''+'' then parse_digits 10 (drop 1 s)
      else parse_digits 10 s)"

definition MakeFloatLiteral :: "string \<Rightarrow> const_value" where
  "MakeFloatLiteral s =
     (let mantissa = takeWhile (\<lambda>c. c \<noteq> CHR ''e'' \<and> c \<noteq> CHR ''E'') s;
          tail = drop (length mantissa) s;
          whole = takeWhile (\<lambda>c. c \<noteq> CHR ''.'') mantissa;
          fraction = drop (Suc (length whole)) mantissa
      in case (parse_digits 10 (whole @ fraction), if tail = [] then Some 0 else exponent_value (tl tail)) of
           (Some m, Some e) \<Rightarrow> CRat (of_int m * 10 powi (e - int (length fraction)))
         | _ \<Rightarrow> CUnknown)"

end
