(* ===== verification/ConstantFolding.thy ===== *)
theory ConstantFolding
  imports GoConstant Numerics TypeFacts
begin

text \<open>
  Compile-time evaluation in the checker (\<open>checker/constant_folding.go\<close>, \<open>literals.go\<close>, the folding
  parts of \<open>conversions.go\<close> and the operator tables of \<open>operator_checking.go\<close>). An operation is
  folded to a constant operand, stays a runtime operation, is refused with a diagnostic, or makes
  \<open>go/constant\<close> panic. The syntax node built for a runtime operation is not part of the model.
\<close>

section \<open>Operators\<close>

datatype hoperator =
    InvalidOperator | NegateOperator | LogicalNotOperator | BitwiseNotOperator
  | AddOperator | SubtractOperator | MultiplyOperator | DivideOperator | RemainderOperator
  | BitwiseAndOperator | BitwiseXorOperator | BitwiseOrOperator | ShiftLeftOperator | ShiftRightOperator
  | EqualOperator | NotEqualOperator | LessOperator | LessEqualOperator | GreaterOperator | GreaterEqualOperator
  | LogicalAndOperator | LogicalOrOperator

definition isIntegerArithmetic :: "hoperator \<Rightarrow> bool" where
  "isIntegerArithmetic op \<longleftrightarrow>
     op \<in> {AddOperator, SubtractOperator, MultiplyOperator, DivideOperator, RemainderOperator}"

definition isBitwiseArithmetic :: "hoperator \<Rightarrow> bool" where
  "isBitwiseArithmetic op \<longleftrightarrow> op \<in> {BitwiseAndOperator, BitwiseXorOperator, BitwiseOrOperator}"

definition isShiftOperator :: "hoperator \<Rightarrow> bool" where
  "isShiftOperator op \<longleftrightarrow> op \<in> {ShiftLeftOperator, ShiftRightOperator}"

definition isFloatArithmetic :: "hoperator \<Rightarrow> bool" where
  "isFloatArithmetic op \<longleftrightarrow> op \<in> {AddOperator, SubtractOperator, MultiplyOperator, DivideOperator}"

definition isComparison :: "hoperator \<Rightarrow> bool" where
  "isComparison op \<longleftrightarrow>
     op \<in> {EqualOperator, NotEqualOperator, LessOperator, LessEqualOperator, GreaterOperator, GreaterEqualOperator}"

definition isConnective :: "hoperator \<Rightarrow> bool" where
  "isConnective op \<longleftrightarrow> op \<in> {LogicalAndOperator, LogicalOrOperator}"

fun integerConstantOperator :: "hoperator \<Rightarrow> go_token option" where
  "integerConstantOperator AddOperator = Some ADD_T"
| "integerConstantOperator SubtractOperator = Some SUB_T"
| "integerConstantOperator MultiplyOperator = Some MUL_T"
| "integerConstantOperator DivideOperator = Some QUO_ASSIGN_T"
| "integerConstantOperator RemainderOperator = Some REM_T"
| "integerConstantOperator BitwiseAndOperator = Some AND_T"
| "integerConstantOperator BitwiseXorOperator = Some XOR_T"
| "integerConstantOperator BitwiseOrOperator = Some OR_T"
| "integerConstantOperator ShiftLeftOperator = Some SHL_T"
| "integerConstantOperator ShiftRightOperator = Some SHR_T"
| "integerConstantOperator _ = None"

fun operatorIdentity :: "hoperator \<Rightarrow> string option" where
  "operatorIdentity InvalidOperator = None"
| "operatorIdentity NegateOperator = Some ''negate''"
| "operatorIdentity LogicalNotOperator = Some ''logical_not''"
| "operatorIdentity BitwiseNotOperator = Some ''bitwise_not''"
| "operatorIdentity AddOperator = Some ''add''"
| "operatorIdentity SubtractOperator = Some ''subtract''"
| "operatorIdentity MultiplyOperator = Some ''multiply''"
| "operatorIdentity DivideOperator = Some ''divide''"
| "operatorIdentity RemainderOperator = Some ''remainder''"
| "operatorIdentity BitwiseAndOperator = Some ''bitwise_and''"
| "operatorIdentity BitwiseXorOperator = Some ''bitwise_xor''"
| "operatorIdentity BitwiseOrOperator = Some ''bitwise_or''"
| "operatorIdentity ShiftLeftOperator = Some ''shift_left''"
| "operatorIdentity ShiftRightOperator = Some ''shift_right''"
| "operatorIdentity EqualOperator = Some ''equal''"
| "operatorIdentity NotEqualOperator = Some ''not_equal''"
| "operatorIdentity LessOperator = Some ''less''"
| "operatorIdentity LessEqualOperator = Some ''less_equal''"
| "operatorIdentity GreaterOperator = Some ''greater''"
| "operatorIdentity GreaterEqualOperator = Some ''greater_equal''"
| "operatorIdentity LogicalAndOperator = Some ''logical_and''"
| "operatorIdentity LogicalOrOperator = Some ''logical_or''"

text \<open>The lookup of a resolved operator's row cannot miss (\<open>operator_rows_present\<close>); the source panics
  there.\<close>

definition operatorAllowsType :: "hoperator \<Rightarrow> htype \<Rightarrow> bool" where
  "operatorAllowsType op t =
     (case Option.bind (operatorIdentity op) Operator_row of
        None \<Rightarrow> False
      | Some row \<Rightarrow>
          os_any_operand row
            \<or> (case SpecID t of None \<Rightarrow> False | Some operand \<Rightarrow> operand \<in> set (os_operands row)))"

lemma operator_rows_present: "operatorIdentity op = Some i \<Longrightarrow> Operator_row i \<noteq> None"
  by (cases op) (auto simp: Operator_row_def operators_def)

definition isBitwiseEligible :: "htype \<Rightarrow> bool" where
  "isBitwiseEligible t = IsInteger t"

text \<open>The context an operator passes to its operands; \<open>None\<close> is the absent type.\<close>

definition operandContextType :: "hoperator \<Rightarrow> htype option \<Rightarrow> htype option" where
  "operandContextType op expected =
     (case expected of
        None \<Rightarrow> None
      | Some t \<Rightarrow>
          if isComparison op \<or> isConnective op \<or> op = LogicalNotOperator then None
          else if operatorAllowsType op t then Some t else None)"

record type_hint =
  hint_type :: "htype option"
  hint_contextual :: bool

text \<open>\<open>operatorAllowsType\<close> of a type that may be absent: an absent type has no identity.\<close>

definition allows_context :: "hoperator \<Rightarrow> htype option \<Rightarrow> bool" where
  "allows_context op context =
     (case context of
        Some t \<Rightarrow> operatorAllowsType op t
      | None \<Rightarrow> (case Option.bind (operatorIdentity op) Operator_row of None \<Rightarrow> False | Some row \<Rightarrow> os_any_operand row))"

definition binaryOperandType :: "hoperator \<Rightarrow> htype option \<Rightarrow> type_hint \<Rightarrow> type_hint \<Rightarrow> htype option" where
  "binaryOperandType op expected left right =
     (if hint_contextual left \<and> \<not> hint_contextual right \<and> allows_context op (hint_type right) then hint_type right
      else if hint_contextual right \<and> \<not> hint_contextual left \<and> allows_context op (hint_type left) then hint_type left
      else if hint_contextual left \<and> hint_contextual right \<and> allows_context op expected then expected
      else hint_type left)"

definition unaryResultType :: "hoperator \<Rightarrow> htype \<Rightarrow> htype" where
  "unaryResultType op t = (if op = LogicalNotOperator then Bool_type else t)"

definition binaryResultType :: "hoperator \<Rightarrow> htype \<Rightarrow> htype" where
  "binaryResultType op t = (if isComparison op \<or> isConnective op then Bool_type else t)"

section \<open>Operands and outcomes\<close>

datatype literal_radix = DecimalRadix | HexadecimalRadix | BinaryRadix | OctalRadix

text \<open>The fields of a checked operand that folding reads and writes.\<close>

record operand =
  od_is_constant :: bool
  od_type :: htype
  od_constant :: "const_value option"
  od_literal :: string
  od_radix :: literal_radix
  od_negative :: bool
  od_bits :: int

record checked_expression =
  ce_source :: operand
  ce_type :: htype
  ce_known :: "operand option"

datatype fold_diagnostic =
    NumericLiteralOutOfRange string
  | NegatedIntegerRequiresSignedType
  | DivisionByZero
  | ShiftCountOutOfRange int string
  | NumericOperandsNoCommonType
  | IntegerOperandsNoCommonType
  | RemainderRequiresInteger string
  | OperatorRequiresIntegerOperands string string string
  | OperatorRequiresIntegerLeft string string
  | ShiftCountRequiresInteger string
  | ConversionValueUnrepresentable string
  | FloatToIntegerConversionInvalid string
  | ConversionRequiresInteger
  | ConversionValueOutOfRange string string
  | ConversionValueNotScalar string
  | TextResultUnionUnavailable string
  | UnsupportedConversion string string
  | NoLosslessCommonNumericComparisonType
  | OperatorRequiresIdenticalOperands string string string
  | EqualityRequiresIdenticalCanonicalTypes
  | OrderingUnavailableFor string
  | OperatorRequiresIdenticalTypes string string string
  | OperatorRequiresNumericOperands string string
  | OperatorRequiresOrderedOperands string string
  | LogicalOperatorRequiresBool string string
  | EqualityOperatorRequiresScalar string string
  | UnaryOperatorRequiresBool string string
  | NegationRequiresSignedType string
  | BitwiseNotRequiresInteger string
  | UnsupportedOperator string
  | UnsupportedNegatedLiteral
  | BitCastIneligibleTypes string string
  | BitCastWidthMismatch string string
  | UnknownError

datatype fold_outcome =
    Folded operand
  | Runtime htype htype
  | Refused fold_diagnostic
  | Panics

text \<open>The checked expression a folded operand makes.\<close>

definition folded_expression :: "operand \<Rightarrow> checked_expression" where
  "folded_expression source = \<lparr>ce_source = source, ce_type = od_type source, ce_known = Some source\<rparr>"

definition constantOperand :: "htype \<Rightarrow> const_value option \<Rightarrow> string \<Rightarrow> operand" where
  "constantOperand t v literal =
     \<lparr>od_is_constant = True, od_type = t, od_constant = v, od_literal = literal, od_radix = DecimalRadix,
      od_negative = (case v of Some x \<Rightarrow> Kind x = KindInt \<and> Sign x < 0 | None \<Rightarrow> False), od_bits = 0\<rparr>"

definition float_format_of :: "htype \<Rightarrow> float_format" where
  "float_format_of t = (if Equal t Float32 then binary32 else binary64)"

text \<open>\<open>staticConstantValue\<close>: a constant, or the known value behind a read of an immutable binding.\<close>

definition staticConstantValue :: "checked_expression \<Rightarrow> const_value option" where
  "staticConstantValue e =
     (if od_is_constant (ce_source e) \<and> od_constant (ce_source e) \<noteq> None then od_constant (ce_source e)
      else case ce_known e of
             Some k \<Rightarrow> if od_is_constant k then od_constant k else None
           | None \<Rightarrow> None)"

definition bool_constant :: "const_value option \<Rightarrow> bool option" where
  "bool_constant v = (case v of Some (CBool b) \<Rightarrow> Some b | _ \<Rightarrow> None)"

definition knownTruthiness :: "checked_expression \<Rightarrow> bool option" where
  "knownTruthiness e =
     (if \<not> od_is_constant (ce_source e) then None
      else case Truthiness (ce_type e) of
             TruthinessBool \<Rightarrow> bool_constant (od_constant (ce_source e))
           | TruthinessAlwaysTrue \<Rightarrow> Some True
           | TruthinessNil \<Rightarrow> Some False
           | _ \<Rightarrow> None)"

definition knownTruthinessMetadata :: "checked_expression \<Rightarrow> bool option" where
  "knownTruthinessMetadata e =
     (case ce_known e of
        None \<Rightarrow> None
      | Some k \<Rightarrow>
          (case Truthiness (ce_type e) of
             TruthinessBool \<Rightarrow> bool_constant (od_constant k)
           | TruthinessAlwaysTrue \<Rightarrow> Some True
           | TruthinessNil \<Rightarrow> Some False
           | _ \<Rightarrow> None))"

section \<open>Integer ranges\<close>

definition integerBounds :: "htype \<Rightarrow> const_value \<times> const_value" where
  "integerBounds t =
     (if IsUnsignedInteger t then (CInt 0, CInt (drop_bit (64 - ty_bits t) (2 ^ 64 - 1)))
      else if ty_bits t = 64 then (CInt (- (2 ^ 63)), CInt (2 ^ 63 - 1))
      else let maximum = 2 ^ (ty_bits t - 1) - 1 in (CInt (- maximum - 1), CInt maximum))"

definition constantIntegerRange :: "htype \<Rightarrow> const_value \<times> const_value" where
  "constantIntegerRange t =
     (if IsUnsignedInteger t then
        (if ty_bits t = 64 then (CInt 0, CInt (2 ^ 64 - 1)) else (CInt 0, CInt (2 ^ ty_bits t - 1)))
      else if ty_bits t = 64 then (CInt (- (2 ^ 63)), CInt (2 ^ 63 - 1))
      else let maximum = 2 ^ (ty_bits t - 1) - 1 in (CInt (- maximum - 1), CInt maximum))"

definition outside :: "const_value \<Rightarrow> const_value \<times> const_value \<Rightarrow> bool" where
  "outside v limits \<longleftrightarrow> Compare v LSS (fst limits) \<or> Compare v GTR (snd limits)"

text \<open>\<open>wrapIntegerConstant\<close>; at 64 bits the modulus is the largest \<open>uint64\<close>.\<close>

definition wrap_modulus :: "nat \<Rightarrow> int" where
  "wrap_modulus width = (if 64 \<le> width then 2 ^ 64 - 1 else 2 ^ width)"

definition wrapIntegerConstant :: "const_value \<Rightarrow> htype \<Rightarrow> const_value option" where
  "wrapIntegerConstant v t =
     (let limits = integerBounds t
      in if Compare v GEQ (fst limits) \<and> Compare v LEQ (snd limits) then Some v
         else
           let modulus = CInt (wrap_modulus (ty_bits t));
               half = CInt (if 64 \<le> ty_bits t then 2 ^ 63 else 2 ^ (ty_bits t - 1))
           in Option.bind (BinaryOp v REM_T modulus) (\<lambda>reduced.
              Option.bind (if Compare reduced LSS (CInt 0) then BinaryOp reduced ADD_T modulus else Some reduced) (\<lambda>reduced.
                if \<not> IsSignedInteger t then Some reduced
                else if Compare reduced LSS half then Some reduced
                else BinaryOp reduced SUB_T modulus)))"

definition reduceSigned :: "const_value \<Rightarrow> htype \<Rightarrow> const_value option" where
  "reduceSigned v t =
     (if \<not> IsSignedInteger t then Some v
      else if Compare v LSS (CInt (2 ^ (ty_bits t - 1))) then Some v
      else BinaryOp v SUB_T (CInt ((2 ^ ty_bits t) mod 2 ^ 64)))"

section \<open>Literals\<close>

definition contextualIntegerType :: "htype option \<Rightarrow> htype" where
  "contextualIntegerType expected =
     (case expected of Some t \<Rightarrow> if IsInteger t then t else Int32 | None \<Rightarrow> Int32)"

definition contextualFloatType :: "htype option \<Rightarrow> htype" where
  "contextualFloatType expected =
     (case expected of Some t \<Rightarrow> if IsFloat t then t else Float64 | None \<Rightarrow> Float64)"

definition without_underscores :: "string \<Rightarrow> string" where
  "without_underscores s = filter (\<lambda>c. c \<noteq> CHR ''_'') s"

definition integerInitializer :: "string \<Rightarrow> literal_radix \<Rightarrow> htype \<Rightarrow> bool \<Rightarrow> fold_outcome" where
  "integerInitializer lexeme radix t negative =
     (let normalized = without_underscores lexeme
      in case MakeIntLiteral normalized of
           CInt magnitude \<Rightarrow>
             let v = CInt (if negative then - magnitude else magnitude)
             in if outside v (integerBounds t) then Refused (NumericLiteralOutOfRange (ty_name t))
                else Folded ((constantOperand t (Some v) normalized)\<lparr>od_radix := radix, od_negative := negative\<rparr>)
         | _ \<Rightarrow> Refused (NumericLiteralOutOfRange (ty_name t)))"

text \<open>A negative floating literal keeps its magnitude as the constant; the sign is in the mark and in
  the bits.\<close>

definition floatInitializer :: "string \<Rightarrow> htype \<Rightarrow> bool \<Rightarrow> fold_outcome" where
  "floatInitializer lexeme t negative =
     (let normalized = without_underscores lexeme; v = MakeFloatLiteral normalized; f = float_format_of t;
          bits = FloatVal f v
      in if v = CUnknown \<or> special_bits f bits then Refused (NumericLiteralOutOfRange (ty_name t))
         else Folded ((constantOperand t (Some v) normalized)
                \<lparr>od_negative := negative, od_bits := with_sign f negative bits\<rparr>))"

section \<open>Folded results\<close>

definition foldedIntegerResult :: "const_value \<Rightarrow> htype \<Rightarrow> operand" where
  "foldedIntegerResult v t =
     (constantOperand t (Some v) (ExactString v))
       \<lparr>od_negative := Sign v < 0, od_bits := (if IsFloat t then FloatVal (float_format_of t) v else 0)\<rparr>"

definition foldedBoolResult :: "bool \<Rightarrow> operand" where
  "foldedBoolResult b = constantOperand Bool_type (Some (CBool b)) (if b then ''true'' else ''false'')"

definition foldedFloatResult :: "htype \<Rightarrow> int \<Rightarrow> operand" where
  "foldedFloatResult t bits =
     (let f = float_format_of t
      in (constantOperand t (Some (MakeFloat64 (float_frombits f bits))) [])
           \<lparr>od_bits := bits, od_negative := sign_bit f bits\<rparr>)"

fun float_operation_of :: "hoperator \<Rightarrow> float_operation option" where
  "float_operation_of AddOperator = Some FloatAdd"
| "float_operation_of SubtractOperator = Some FloatSub"
| "float_operation_of MultiplyOperator = Some FloatMul"
| "float_operation_of DivideOperator = Some FloatDiv"
| "float_operation_of _ = None"

text \<open>The bits of a new NaN are the machine's.\<close>

definition foldedFloatResultFromBinary :: "int \<Rightarrow> hoperator \<Rightarrow> operand \<Rightarrow> operand \<Rightarrow> htype \<Rightarrow> fold_outcome" where
  "foldedFloatResultFromBinary qnan op left right t =
     (case float_operation_of op of
        None \<Rightarrow> Runtime t t
      | Some fop \<Rightarrow>
          Folded (foldedFloatResult t (float_arithmetic (float_format_of t) qnan fop (od_bits left) (od_bits right))))"

end
