(* ===== verification/ConstantOperations.thy ===== *)
theory ConstantOperations
  imports ConstantFolding Ast
begin

text \<open>
  The operations built on the folding primitives: \<open>foldUnary\<close>, \<open>foldBinary\<close>, \<open>foldWidenedArithmetic\<close>
  (\<open>checker/constant_folding.go\<close>), the comparison of constants and the arithmetic, bitwise, shift and
  scalar comparison branches of \<open>checkBinaryExpression\<close> (\<open>checker/operator_checking.go\<close>,
  \<open>equality.go\<close>), and the constant branch of an explicit conversion (\<open>checker/conversions.go\<close>).
  \<open>Runtime\<close> carries the operand type and the result type of the operation left to the generated
  program. Shifts of a constant are exact: no bound is put on the memory a count may ask for.
\<close>

section \<open>Tokens\<close>

definition operator_tokens :: "(token_kind \<times> hoperator) list" where
  "operator_tokens =
     [(T_Minus, SubtractOperator), (T_Plus, AddOperator), (T_Star, MultiplyOperator), (T_Slash, DivideOperator),
      (T_Percent, RemainderOperator), (T_EqualEqual, EqualOperator), (T_BangEqual, NotEqualOperator),
      (T_Less, LessOperator), (T_LessEqual, LessEqualOperator), (T_Greater, GreaterOperator),
      (T_GreaterEqual, GreaterEqualOperator), (T_And, LogicalAndOperator), (T_Or, LogicalOrOperator),
      (T_Bang, LogicalNotOperator), (T_Tilde, BitwiseNotOperator), (T_Amp, BitwiseAndOperator),
      (T_Caret, BitwiseXorOperator), (T_Pipe, BitwiseOrOperator), (T_ShiftLeft, ShiftLeftOperator),
      (T_ShiftRight, ShiftRightOperator)]"

definition operatorFromToken :: "token_kind \<Rightarrow> hoperator option" where
  "operatorFromToken k = map_of operator_tokens k"

text \<open>A prefix minus is a negation.\<close>

definition unary_operator :: "token_kind \<Rightarrow> hoperator option" where
  "unary_operator k = (if k = T_Minus then Some NegateOperator else operatorFromToken k)"

definition binary_operator :: "token_kind \<Rightarrow> hoperator option" where
  "binary_operator k =
     (case operatorFromToken k of
        Some op \<Rightarrow> if op = NegateOperator \<or> op = LogicalNotOperator then None else Some op
      | None \<Rightarrow> None)"

definition literalRadix :: "token_kind \<Rightarrow> literal_radix" where
  "literalRadix k =
     (if k = T_HexInteger then HexadecimalRadix
      else if k = T_BinaryInteger then BinaryRadix
      else if k = T_OctalInteger then OctalRadix
      else DecimalRadix)"

section \<open>Comparison of constants\<close>

fun comparison_of :: "hoperator \<Rightarrow> comparison option" where
  "comparison_of EqualOperator = Some EQL"
| "comparison_of NotEqualOperator = Some NEQ"
| "comparison_of LessOperator = Some LSS"
| "comparison_of LessEqualOperator = Some LEQ"
| "comparison_of GreaterOperator = Some GTR"
| "comparison_of GreaterEqualOperator = Some GEQ"
| "comparison_of _ = None"

definition compareFloatOperands :: "hoperator \<Rightarrow> int \<Rightarrow> int \<Rightarrow> htype \<Rightarrow> bool" where
  "compareFloatOperands op left right t =
     (let x = float_frombits (float_format_of t) left; y = float_frombits (float_format_of t) right
      in case op of
           EqualOperator \<Rightarrow> float_eq x y
         | NotEqualOperator \<Rightarrow> \<not> float_eq x y
         | LessOperator \<Rightarrow> float_less x y
         | LessEqualOperator \<Rightarrow> float_less x y \<or> float_eq x y
         | GreaterOperator \<Rightarrow> float_less y x
         | GreaterEqualOperator \<Rightarrow> float_less y x \<or> float_eq x y
         | _ \<Rightarrow> False)"

definition compareConstantOperands :: "hoperator \<Rightarrow> operand \<Rightarrow> operand \<Rightarrow> htype \<Rightarrow> bool option" where
  "compareConstantOperands op left right t =
     (if Equal t Bool_type then
        (case (bool_constant (od_constant left), bool_constant (od_constant right)) of
           (Some a, Some b) \<Rightarrow>
             (if op = EqualOperator then Some (a = b) else if op = NotEqualOperator then Some (a \<noteq> b) else None)
         | _ \<Rightarrow> None)
      else if IsFloat t then Some (compareFloatOperands op (od_bits left) (od_bits right) t)
      else if \<not> IsInteger t then None
      else case (od_constant left, od_constant right, comparison_of op) of
             (Some a, Some b, Some c) \<Rightarrow> Some (Compare a c b)
           | _ \<Rightarrow> None)"

section \<open>Folding\<close>

definition staticDivisionDiagnostic :: "hoperator \<Rightarrow> checked_expression \<Rightarrow> htype \<Rightarrow> fold_diagnostic option" where
  "staticDivisionDiagnostic op right t =
     (if op \<noteq> DivideOperator \<and> op \<noteq> RemainderOperator \<or> \<not> IsInteger t then None
      else case staticConstantValue right of
             None \<Rightarrow> None
           | Some divisor \<Rightarrow>
               if Kind divisor = KindUnknown then None else if Sign divisor = 0 then Some DivisionByZero else None)"

text \<open>The folded integer, or the panic of the operation before it.\<close>

definition folded_integer :: "htype \<Rightarrow> htype \<Rightarrow> const_value option \<Rightarrow> fold_outcome" where
  "folded_integer operand_type t v =
     (case Option.bind v (\<lambda>x. wrapIntegerConstant x operand_type) of
        None \<Rightarrow> Panics
      | Some x \<Rightarrow> Folded (foldedIntegerResult x t))"

definition flip_sign :: "float_format \<Rightarrow> int \<Rightarrow> int" where
  "flip_sign f bits = bits XOR sign_weight f"

definition foldUnary :: "hoperator \<Rightarrow> checked_expression \<Rightarrow> htype \<Rightarrow> htype \<Rightarrow> bool \<Rightarrow> fold_outcome" where
  "foldUnary op e t result evaluate =
     (let source = ce_source e
      in if \<not> evaluate \<or> \<not> od_is_constant source then Runtime t result
         else case op of
           NegateOperator \<Rightarrow>
             (case (IsInteger t, od_constant source) of
                (True, Some x) \<Rightarrow>
                  (case Negate x of
                     None \<Rightarrow> Panics
                   | Some v \<Rightarrow>
                       if outside v (integerBounds t) then Refused (NumericLiteralOutOfRange (ty_name t))
                       else Folded (foldedIntegerResult v result))
              | _ \<Rightarrow>
                  if IsFloat t then Folded (foldedFloatResult result (flip_sign (float_format_of t) (od_bits source)))
                  else Runtime t result)
         | LogicalNotOperator \<Rightarrow>
             (case knownTruthiness e of
                Some b \<Rightarrow> Folded (foldedBoolResult (\<not> b))
              | None \<Rightarrow> Runtime t result)
         | BitwiseNotOperator \<Rightarrow>
             (case (IsInteger t, od_constant source) of
                (True, Some x) \<Rightarrow>
                  folded_integer t result
                    (BinaryOp x XOR_T (CInt (if 64 \<le> ty_bits t then 2 ^ 64 - 1 else 2 ^ ty_bits t - 1)))
              | _ \<Rightarrow> Runtime t result)
         | _ \<Rightarrow> Runtime t result)"

text \<open>The least signed value divided by minus one: quotient and remainder have defined values.\<close>

definition signed_overflow :: "const_value \<Rightarrow> const_value \<Rightarrow> htype \<Rightarrow> bool" where
  "signed_overflow left right t \<longleftrightarrow>
     Compare left EQL (fst (integerBounds t)) \<and> Compare right EQL (CInt (- 1))"

definition overflow_value :: "hoperator \<Rightarrow> htype \<Rightarrow> const_value" where
  "overflow_value op t = (if op = RemainderOperator then CInt 0 else fst (integerBounds t))"

text \<open>A shift by a constant count.\<close>

definition shift_constant :: "go_token \<Rightarrow> const_value \<Rightarrow> const_value \<Rightarrow> const_value option" where
  "shift_constant operation left right =
     Shift left operation (case right of CInt n \<Rightarrow> nat (fst (Uint64Val n)) | _ \<Rightarrow> 0)"

definition foldBinary ::
  "int \<Rightarrow> hoperator \<Rightarrow> checked_expression \<Rightarrow> checked_expression \<Rightarrow> htype \<Rightarrow> htype \<Rightarrow> bool \<Rightarrow> fold_outcome" where
  "foldBinary qnan op left right t result evaluate =
     (let runtime = Runtime t result; l = ce_source left; r = ce_source right
      in if \<not> evaluate then runtime
         else case staticDivisionDiagnostic op right t of
           Some d \<Rightarrow> Refused d
         | None \<Rightarrow>
             if isConnective op then
               (case knownTruthiness left of
                  None \<Rightarrow> runtime
                | Some a \<Rightarrow>
                    if op = LogicalAndOperator \<and> \<not> a then Folded (foldedBoolResult False)
                    else if op = LogicalOrOperator \<and> a then Folded (foldedBoolResult True)
                    else (case knownTruthiness right of
                            Some b \<Rightarrow> Folded (foldedBoolResult b)
                          | None \<Rightarrow> runtime))
             else if \<not> od_is_constant l \<or> \<not> od_is_constant r then runtime
             else if IsInteger t \<and> (isIntegerArithmetic op \<or> isBitwiseArithmetic op \<or> isShiftOperator op) then
               (case (integerConstantOperator op, od_constant l, od_constant r) of
                  (Some operation, Some a, Some b) \<Rightarrow>
                    (case (if isShiftOperator op then shift_constant operation a b else BinaryOp a operation b) of
                       None \<Rightarrow> Panics
                     | Some v \<Rightarrow>
                         folded_integer t result
                           (Some (if op \<in> {DivideOperator, RemainderOperator} \<and> IsSignedInteger t \<and> signed_overflow a b t
                                  then overflow_value op t else v)))
                | _ \<Rightarrow> runtime)
             else if IsFloat t \<and> isFloatArithmetic op then foldedFloatResultFromBinary qnan op l r result
             else if isComparison op then
               (case compareConstantOperands op l r t of
                  Some b \<Rightarrow> Folded (foldedBoolResult b)
                | None \<Rightarrow> runtime)
             else runtime)"

text \<open>The test for the signed minimum is made of every division, and of signed remainders.\<close>

definition foldWidenedArithmetic ::
  "hoperator \<Rightarrow> checked_expression \<Rightarrow> checked_expression \<Rightarrow> htype \<Rightarrow> fold_outcome" where
  "foldWidenedArithmetic op left right common =
     (case staticDivisionDiagnostic op right common of
        Some d \<Rightarrow> Refused d
      | None \<Rightarrow>
          (case (integerConstantOperator op, od_constant (ce_source left), od_constant (ce_source right)) of
             (Some operation, Some a, Some b) \<Rightarrow>
               (case BinaryOp a operation b of
                  None \<Rightarrow> Panics
                | Some v \<Rightarrow>
                    folded_integer common common
                      (Some (if (op = DivideOperator \<or> op = RemainderOperator \<and> IsSignedInteger common)
                                \<and> signed_overflow a b common
                             then overflow_value op common else v)))
           | _ \<Rightarrow> Refused UnknownError))"

section \<open>Binary operations on scalars\<close>

definition is_numeric :: "htype \<Rightarrow> bool" where
  "is_numeric t \<longleftrightarrow> IsInteger t \<or> IsFloat t"

definition both_constant :: "checked_expression \<Rightarrow> checked_expression \<Rightarrow> bool" where
  "both_constant left right \<longleftrightarrow> od_is_constant (ce_source left) \<and> od_is_constant (ce_source right)"

definition operator_name :: "hoperator \<Rightarrow> string" where
  "operator_name op =
     (case op of
        NegateOperator \<Rightarrow> ''-'' | LogicalNotOperator \<Rightarrow> ''!'' | BitwiseNotOperator \<Rightarrow> ''~''
      | AddOperator \<Rightarrow> ''+'' | SubtractOperator \<Rightarrow> ''-'' | MultiplyOperator \<Rightarrow> ''*'' | DivideOperator \<Rightarrow> ''/''
      | RemainderOperator \<Rightarrow> ''%'' | BitwiseAndOperator \<Rightarrow> ''&'' | BitwiseXorOperator \<Rightarrow> ''^''
      | BitwiseOrOperator \<Rightarrow> ''|'' | ShiftLeftOperator \<Rightarrow> ''<<'' | ShiftRightOperator \<Rightarrow> ''>>''
      | EqualOperator \<Rightarrow> ''=='' | NotEqualOperator \<Rightarrow> ''!='' | LessOperator \<Rightarrow> ''<''
      | LessEqualOperator \<Rightarrow> ''<='' | GreaterOperator \<Rightarrow> ''>'' | GreaterEqualOperator \<Rightarrow> ''>=''
      | LogicalAndOperator \<Rightarrow> ''and'' | LogicalOrOperator \<Rightarrow> ''or'' | InvalidOperator \<Rightarrow> ''invalid operator'')"

definition unaryOperatorDiagnostic :: "hoperator \<Rightarrow> htype \<Rightarrow> fold_diagnostic" where
  "unaryOperatorDiagnostic op t =
     (if op = BitwiseNotOperator then BitwiseNotRequiresInteger (ty_name t)
      else if op = NegateOperator then NegationRequiresSignedType (ty_name t)
      else UnaryOperatorRequiresBool (operator_name op) (ty_name t))"

definition binaryOperatorDiagnostic :: "hoperator \<Rightarrow> htype \<Rightarrow> fold_diagnostic" where
  "binaryOperatorDiagnostic op t =
     (if op = RemainderOperator then RemainderRequiresInteger (ty_name t)
      else if op \<in> {LessOperator, LessEqualOperator, GreaterOperator, GreaterEqualOperator} then
        OperatorRequiresOrderedOperands (operator_name op) (ty_name t)
      else if isConnective op then LogicalOperatorRequiresBool (operator_name op) (ty_name t)
      else if op \<in> {EqualOperator, NotEqualOperator} then EqualityOperatorRequiresScalar (operator_name op) (ty_name t)
      else OperatorRequiresNumericOperands (operator_name op) (ty_name t))"

text \<open>Arithmetic on two different numeric types: the operation has their least lossless common type.\<close>

definition widened_arithmetic ::
  "hoperator \<Rightarrow> checked_expression \<Rightarrow> checked_expression \<Rightarrow> bool \<Rightarrow> fold_outcome" where
  "widened_arithmetic op left right evaluate =
     (case LosslessCommonType (ce_type left) (ce_type right) of
        None \<Rightarrow> Refused NumericOperandsNoCommonType
      | Some common \<Rightarrow>
          if op = RemainderOperator \<and> \<not> IsInteger common then Refused (binaryOperatorDiagnostic RemainderOperator common)
          else if evaluate \<and> both_constant left right then foldWidenedArithmetic op left right common
          else case staticDivisionDiagnostic op right common of
                 Some d \<Rightarrow> Refused d
               | None \<Rightarrow> Runtime common common)"

definition bitwise_arithmetic ::
  "hoperator \<Rightarrow> checked_expression \<Rightarrow> checked_expression \<Rightarrow> bool \<Rightarrow> fold_outcome" where
  "bitwise_arithmetic op left right evaluate =
     (if \<not> isBitwiseEligible (ce_type left) \<or> \<not> isBitwiseEligible (ce_type right) then
        Refused (OperatorRequiresIntegerOperands (operator_name op) (ty_name (ce_type left)) (ty_name (ce_type right)))
      else case (if Equal (ce_type left) (ce_type right) then Some (ce_type left)
                 else LosslessCommonType (ce_type left) (ce_type right)) of
             None \<Rightarrow> Refused IntegerOperandsNoCommonType
           | Some common \<Rightarrow>
               if evaluate \<and> both_constant left right then foldWidenedArithmetic op left right common
               else Runtime common common)"

text \<open>The range of a shift count is checked when \<open>Int64Val\<close> of a known count is exact.\<close>

definition shift_count_diagnostic :: "checked_expression \<Rightarrow> htype \<Rightarrow> fold_diagnostic option" where
  "shift_count_diagnostic right t =
     (case staticConstantValue right of
        Some (CInt n) \<Rightarrow>
          (case Int64Val n of (count, exact) \<Rightarrow>
             if exact \<and> (count < 0 \<or> int (ty_bits t) \<le> count) then Some (ShiftCountOutOfRange count (ty_name t))
             else None)
      | _ \<Rightarrow> None)"

definition shift_operation ::
  "hoperator \<Rightarrow> checked_expression \<Rightarrow> checked_expression \<Rightarrow> bool \<Rightarrow> fold_outcome" where
  "shift_operation op left right evaluate =
     (let t = ce_type left
      in if \<not> isBitwiseEligible t then Refused (OperatorRequiresIntegerLeft (operator_name op) (ty_name t))
         else if \<not> IsInteger (ce_type right) then Refused (ShiftCountRequiresInteger (ty_name (ce_type right)))
         else case shift_count_diagnostic right t of
           Some d \<Rightarrow> Refused d
         | None \<Rightarrow>
             if evaluate \<and> both_constant left right then
               (case (integerConstantOperator op, od_constant (ce_source left), od_constant (ce_source right)) of
                  (Some operation, Some a, Some b) \<Rightarrow> folded_integer t t (shift_constant operation a b)
                | _ \<Rightarrow> Runtime t t)
             else Runtime t t)"

text \<open>\<open>checkDeepComparison\<close> on scalars; \<open>None\<close> goes on with the ordinary path.\<close>

definition scalar_comparison :: "hoperator \<Rightarrow> htype \<Rightarrow> htype \<Rightarrow> fold_outcome option" where
  "scalar_comparison op left right =
     (let ordering = op \<noteq> EqualOperator \<and> op \<noteq> NotEqualOperator
      in if is_numeric left \<and> is_numeric right then
           (if Equal left right then None
            else case LosslessCommonType left right of
                   None \<Rightarrow> Some (Refused NoLosslessCommonNumericComparisonType)
                 | Some common \<Rightarrow> Some (Runtime common Bool_type))
         else if \<not> Equal left right then
           Some (Refused (if ordering then OperatorRequiresIdenticalOperands (operator_name op) (ty_name left) (ty_name right)
                          else EqualityRequiresIdenticalCanonicalTypes))
         else if \<not> ordering then None
         else if (case resolveTypeFacts left of Some f \<Rightarrow> tf_ordered f | None \<Rightarrow> False) then Some (Runtime left Bool_type)
         else Some (Refused (OrderingUnavailableFor (ty_name left))))"

text \<open>\<open>checkBinaryExpression\<close> from the arithmetic branches on, for operands of scalar types: such
  operands are not times, \<open>Nil\<close>, unions or open generics.\<close>

definition scalar_binary ::
  "int \<Rightarrow> hoperator \<Rightarrow> checked_expression \<Rightarrow> checked_expression \<Rightarrow> bool \<Rightarrow> fold_outcome" where
  "scalar_binary qnan op left right evaluate =
     (let l = ce_type left; r = ce_type right
      in if isIntegerArithmetic op \<and> is_numeric l \<and> is_numeric r \<and> \<not> Equal l r then
           widened_arithmetic op left right evaluate
         else if isBitwiseArithmetic op then bitwise_arithmetic op left right evaluate
         else if isShiftOperator op then shift_operation op left right evaluate
         else case (if isComparison op then scalar_comparison op l r else None) of
           Some outcome \<Rightarrow> outcome
         | None \<Rightarrow>
             if \<not> operatorAllowsType op l then Refused (binaryOperatorDiagnostic op l)
             else if \<not> operatorAllowsType op r then Refused (binaryOperatorDiagnostic op r)
             else if \<not> Equal l r \<and> \<not> isConnective op then
               Refused (OperatorRequiresIdenticalTypes (operator_name op) (ty_name l) (ty_name r))
             else foldBinary qnan op left right l (binaryResultType op l) evaluate)"

section \<open>Checking a scalar expression\<close>

datatype scalar_check = Checked checked_expression | Rejected "fold_diagnostic list" | Panicked | Unmodelled

definition runtime_operand :: "htype \<Rightarrow> operand" where
  "runtime_operand t =
     \<lparr>od_is_constant = False, od_type = t, od_constant = None, od_literal = [], od_radix = DecimalRadix,
      od_negative = False, od_bits = 0\<rparr>"

fun fold_checked :: "fold_outcome \<Rightarrow> scalar_check" where
  "fold_checked (Folded source) = Checked (folded_expression source)"
| "fold_checked (Runtime t result) = Checked \<lparr>ce_source = runtime_operand result, ce_type = result, ce_known = None\<rparr>"
| "fold_checked (Refused d) = Rejected [d]"
| "fold_checked Panics = Panicked"

definition negatedInitializer :: "expr \<Rightarrow> htype option \<Rightarrow> fold_outcome" where
  "negatedInitializer literal expected =
     (case literal of
        IntegerLiteral tok \<Rightarrow>
          if (case expected of Some t \<Rightarrow> IsUnsignedInteger t | None \<Rightarrow> False) then Refused NegatedIntegerRequiresSignedType
          else integerInitializer (tk_lexeme tok) (literalRadix (tk_kind tok)) (contextualIntegerType expected) True
      | DecimalLiteral tok \<Rightarrow> floatInitializer (tk_lexeme tok) (contextualFloatType expected) True
      | _ \<Rightarrow> Refused UnsupportedNegatedLiteral)"

definition negatedLiteralType :: "expr \<Rightarrow> htype option \<Rightarrow> htype" where
  "negatedLiteralType literal expected =
     (case literal of
        IntegerLiteral tok \<Rightarrow> contextualIntegerType expected
      | DecimalLiteral tok \<Rightarrow> contextualFloatType expected
      | _ \<Rightarrow> Int32)"

type_synonym inferred = "(fold_diagnostic + type_hint) option"

definition infer_unary :: "hoperator \<Rightarrow> inferred \<Rightarrow> inferred" where
  "infer_unary op operand =
     (case operand of
        Some (Inr hint) \<Rightarrow>
          Some (Inr \<lparr>hint_type = map_option (unaryResultType op) (hint_type hint), hint_contextual = hint_contextual hint\<rparr>)
      | failed \<Rightarrow> failed)"

definition infer_binary :: "hoperator \<Rightarrow> htype option \<Rightarrow> inferred \<Rightarrow> inferred \<Rightarrow> inferred" where
  "infer_binary op expected left right =
     (case (left, right) of
        (Some (Inr l), Some (Inr r)) \<Rightarrow>
          Some (Inr \<lparr>hint_type = map_option (binaryResultType op) (binaryOperandType op expected l r),
                     hint_contextual = hint_contextual l \<and> hint_contextual r\<rparr>)
      | (None, _) \<Rightarrow> None
      | (_, None) \<Rightarrow> None
      | (Some (Inl d), _) \<Rightarrow> Some (Inl d)
      | (_, failed) \<Rightarrow> failed)"

text \<open>\<open>inferExpressionType\<close> on literals and operators: a hint, the diagnostic it stops with, or
  \<open>None\<close> on the other expression forms.\<close>

fun inferExpressionType :: "expr \<Rightarrow> htype option \<Rightarrow> inferred" where
  "inferExpressionType (IntegerLiteral tok) expected =
     Some (Inr \<lparr>hint_type = Some (contextualIntegerType expected), hint_contextual = True\<rparr>)"
| "inferExpressionType (DecimalLiteral tok) expected =
     Some (Inr \<lparr>hint_type = Some (contextualFloatType expected), hint_contextual = True\<rparr>)"
| "inferExpressionType (NegatedNumericLiteral tok literal) expected =
     Some (Inr \<lparr>hint_type = Some (negatedLiteralType literal expected), hint_contextual = True\<rparr>)"
| "inferExpressionType (BooleanLiteral tok) expected =
     Some (Inr \<lparr>hint_type = Some Bool_type, hint_contextual = False\<rparr>)"
| "inferExpressionType (UnaryExpression tok operand) expected =
     (case unary_operator (tk_kind tok) of
        None \<Rightarrow> Some (Inl (UnsupportedOperator (tk_lexeme tok)))
      | Some op \<Rightarrow>
          infer_unary op (inferExpressionType operand (operandContextType op expected)))"
| "inferExpressionType (BinaryExpression left tok right) expected =
     (case binary_operator (tk_kind tok) of
        None \<Rightarrow> Some (Inl (UnsupportedOperator (tk_lexeme tok)))
      | Some op \<Rightarrow>
          (let context = operandContextType op expected
           in infer_binary op context (inferExpressionType left context) (inferExpressionType right context)))"
| "inferExpressionType _ expected = None"

text \<open>\<open>checkUnaryExpression\<close> and \<open>checkBinaryExpression\<close> after their operands are checked.\<close>

definition check_unary :: "hoperator \<Rightarrow> scalar_check \<Rightarrow> bool \<Rightarrow> scalar_check" where
  "check_unary op checked evaluate =
     (case checked of
        Checked e \<Rightarrow>
          if \<not> operatorAllowsType op (ce_type e) then Rejected [unaryOperatorDiagnostic op (ce_type e)]
          else fold_checked (foldUnary op e (ce_type e) (unaryResultType op (ce_type e)) evaluate)
      | failed \<Rightarrow> failed)"

fun check_binary :: "int \<Rightarrow> hoperator \<Rightarrow> scalar_check \<Rightarrow> scalar_check \<Rightarrow> bool \<Rightarrow> scalar_check" where
  "check_binary qnan op (Checked l) (Checked r) evaluate = fold_checked (scalar_binary qnan op l r evaluate)"
| "check_binary qnan op Panicked right evaluate = Panicked"
| "check_binary qnan op Unmodelled right evaluate = Unmodelled"
| "check_binary qnan op left Panicked evaluate = Panicked"
| "check_binary qnan op left Unmodelled evaluate = Unmodelled"
| "check_binary qnan op (Rejected ds) (Rejected es) evaluate = Rejected (ds @ es)"
| "check_binary qnan op (Rejected ds) right evaluate = Rejected ds"
| "check_binary qnan op left (Rejected es) evaluate = Rejected es"

text \<open>A connective decided by its left side leaves its right side unfolded.\<close>

definition right_evaluation :: "hoperator \<Rightarrow> scalar_check \<Rightarrow> bool \<Rightarrow> bool" where
  "right_evaluation op left evaluate =
     (case (isConnective op, left) of
        (True, Checked l) \<Rightarrow>
          (case knownTruthinessMetadata l of
             Some b \<Rightarrow> evaluate \<and> (op = LogicalAndOperator \<and> b \<or> op = LogicalOrOperator \<and> \<not> b)
           | None \<Rightarrow> evaluate)
      | _ \<Rightarrow> evaluate)"

definition unary_operand_type :: "hoperator \<Rightarrow> htype option \<Rightarrow> type_hint \<Rightarrow> htype option" where
  "unary_operand_type op expected hint =
     (case (hint_contextual hint, operandContextType op expected) of
        (True, Some t) \<Rightarrow> Some t
      | _ \<Rightarrow> hint_type hint)"

text \<open>\<open>checkExpression\<close> on literals and operators, where at most one type is expected.\<close>

fun checkScalarExpression :: "int \<Rightarrow> expr \<Rightarrow> htype option \<Rightarrow> bool \<Rightarrow> scalar_check" where
  "checkScalarExpression qnan (IntegerLiteral tok) expected evaluate =
     fold_checked (integerInitializer (tk_lexeme tok) (literalRadix (tk_kind tok)) (contextualIntegerType expected) False)"
| "checkScalarExpression qnan (DecimalLiteral tok) expected evaluate =
     fold_checked (floatInitializer (tk_lexeme tok) (contextualFloatType expected) False)"
| "checkScalarExpression qnan (NegatedNumericLiteral tok literal) expected evaluate =
     fold_checked (negatedInitializer literal expected)"
| "checkScalarExpression qnan (BooleanLiteral tok) expected evaluate =
     Checked (folded_expression (constantOperand Bool_type (Some (CBool (tk_kind tok = T_True))) (tk_lexeme tok)))"
| "checkScalarExpression qnan (UnaryExpression tok operand) expected evaluate =
     (case unary_operator (tk_kind tok) of
        None \<Rightarrow> Rejected [UnsupportedOperator (tk_lexeme tok)]
      | Some op \<Rightarrow>
          (case inferExpressionType operand (operandContextType op expected) of
             None \<Rightarrow> Unmodelled
           | Some (Inl d) \<Rightarrow> Rejected [d]
           | Some (Inr hint) \<Rightarrow>
               check_unary op (checkScalarExpression qnan operand (unary_operand_type op expected hint) evaluate) evaluate))"
| "checkScalarExpression qnan (BinaryExpression left tok right) expected evaluate =
     (case binary_operator (tk_kind tok) of
        None \<Rightarrow> Rejected [UnsupportedOperator (tk_lexeme tok)]
      | Some op \<Rightarrow>
          (let context = operandContextType op expected
           in case (inferExpressionType left context, inferExpressionType right context) of
                (Some (Inr l), Some (Inr r)) \<Rightarrow>
                  (let t = binaryOperandType op context l r;
                       checked = checkScalarExpression qnan left t evaluate
                   in check_binary qnan op checked
                        (checkScalarExpression qnan right t (right_evaluation op checked evaluate)) evaluate)
              | (None, _) \<Rightarrow> Unmodelled
              | (_, None) \<Rightarrow> Unmodelled
              | (Some (Inl d), _) \<Rightarrow> Rejected [d]
              | (_, Some (Inl d)) \<Rightarrow> Rejected [d]))"
| "checkScalarExpression qnan _ expected evaluate = Unmodelled"

section \<open>Conversions\<close>

definition truncateTowardZero :: "const_value \<Rightarrow> const_value option" where
  "truncateTowardZero v = (if Num v = CUnknown then Some CUnknown else BinaryOp (Num v) QUO_ASSIGN_T (Denom v))"

definition validScalarConstant :: "const_value \<Rightarrow> bool" where
  "validScalarConstant v \<longleftrightarrow>
     0 \<le> Sign v \<and> \<not> Compare v GTR (CInt 0x10FFFF) \<and> \<not> (Compare v GEQ (CInt 0xD800) \<and> Compare v LEQ (CInt 0xDFFF))"

definition conversionPairValid :: "'a type_store_scheme \<Rightarrow> htype \<Rightarrow> htype \<Rightarrow> bool" where
  "conversionPairValid st source target \<longleftrightarrow>
     ContainsTypeParameter st source \<or> ContainsTypeParameter st target
       \<or> (case (SpecID source, SpecID target) of (Some a, Some b) \<Rightarrow> Conversion a b | _ \<Rightarrow> False)"

datatype conversion = Converted const_value | Invalid fold_diagnostic | NotNumeric | ConversionPanics

definition foldIntegerConversion :: "const_value \<Rightarrow> htype \<Rightarrow> conversion" where
  "foldIntegerConversion v target =
     (let i = ToInt v
      in if Kind i = KindUnknown then Invalid ConversionRequiresInteger
         else if outside i (constantIntegerRange target) then
           Invalid (ConversionValueOutOfRange (ExactString i) (ty_name target))
         else case reduceSigned i target of None \<Rightarrow> ConversionPanics | Some x \<Rightarrow> Converted x)"

definition converted_float :: "const_value \<Rightarrow> htype \<Rightarrow> conversion" where
  "converted_float v target =
     (if Kind (ToFloat v) = KindUnknown then Invalid (ConversionValueUnrepresentable (ty_name target))
      else Converted (ToFloat v))"

definition foldNumericConversion :: "const_value \<Rightarrow> htype \<Rightarrow> htype \<Rightarrow> conversion" where
  "foldNumericConversion v source target =
     (if IsInteger source then
        (if IsInteger target then foldIntegerConversion v target else converted_float v target)
      else if IsFloat source then
        (if IsInteger target then
           (if Kind v = KindUnknown then Invalid (FloatToIntegerConversionInvalid (ty_name target))
            else case truncateTowardZero v of
                   None \<Rightarrow> ConversionPanics
                 | Some truncated \<Rightarrow> foldIntegerConversion truncated target)
         else converted_float v target)
      else NotNumeric)"

text \<open>The value a constant receiver is converted from: a float is rebuilt from the magnitude in its
  bits and its negative mark.\<close>

definition receiver_value :: "operand \<Rightarrow> htype \<Rightarrow> const_value \<Rightarrow> const_value option" where
  "receiver_value source t v =
     (if IsFloat t then
        let f = float_format_of t;
            magnitude = MakeFloat64 (float_frombits f (od_bits source mod sign_weight f))
        in if od_negative source then Negate magnitude else Some magnitude
      else Some v)"

definition converted_operand :: "const_value \<Rightarrow> htype \<Rightarrow> operand" where
  "converted_operand v target =
     (constantOperand target (Some v) [])
       \<lparr>od_bits := (if IsFloat target then FloatVal (float_format_of target) v else 0)\<rparr>"

text \<open>The scalar path of \<open>checkConversionCall\<close>, for destinations other than text and \<open>Rune\<close>.\<close>

definition checkScalarConversion :: "'a type_store_scheme \<Rightarrow> checked_expression \<Rightarrow> htype \<Rightarrow> fold_outcome" where
  "checkScalarConversion st receiver target =
     (let source = ce_source receiver; t = ce_type receiver
      in if \<not> conversionPairValid st t target then Refused (UnsupportedConversion (ty_name t) (ty_name target))
         else case (od_is_constant source, od_constant source) of
           (True, Some v) \<Rightarrow>
             (case receiver_value source t v of
                None \<Rightarrow> Panics
              | Some x \<Rightarrow>
                  (case foldNumericConversion x t target of
                     Converted y \<Rightarrow> Folded (converted_operand y target)
                   | Invalid d \<Rightarrow> Refused d
                   | ConversionPanics \<Rightarrow> Panics
                   | NotNumeric \<Rightarrow> Runtime t target))
         | _ \<Rightarrow> Runtime t target)"

text \<open>What a conversion call without value arguments is checked to: a conversion to text, which is not modelled
  further; a call that answers \<open>Rune | Error\<close>, of the type given; a refusal; or the outcome of the scalar path.\<close>

datatype conversion_call =
    TextConversion htype
  | RuneCall htype
  | ConversionRefused fold_diagnostic
  | ScalarConversion fold_outcome

text \<open>\<open>answer_type\<close> is what \<open>textFailureUnion\<close> gets from the arena for \<open>Rune\<close> and \<open>Error\<close>.\<close>

definition checkRuneConversion :: "htype option \<Rightarrow> checked_expression \<Rightarrow> conversion_call" where
  "checkRuneConversion answer_type receiver =
     (let t = ce_type receiver;
          answer = (case answer_type of
            None \<Rightarrow> ConversionRefused (TextResultUnionUnavailable (ty_name Rune_type)) | Some u \<Rightarrow> RuneCall u)
      in if \<not> IsInteger t then ConversionRefused (UnsupportedConversion (ty_name t) (ty_name Rune_type))
         else case staticConstantValue receiver of
           None \<Rightarrow> answer
         | Some v \<Rightarrow>
             (let i = ToInt v
              in if Kind i = KindUnknown \<or> \<not> validScalarConstant i
                 then ConversionRefused (ConversionValueNotScalar (ExactString v))
                 else answer))"

text \<open>A destination that depends on a type parameter keeps the scalar path.\<close>

definition checkConversionCall ::
    "'a type_store_scheme \<Rightarrow> htype option \<Rightarrow> checked_expression \<Rightarrow> htype \<Rightarrow> conversion_call" where
  "checkConversionCall st answer_type receiver target =
     (let closed = \<not> ContainsTypeParameter st (ce_type receiver) \<and> \<not> ContainsTypeParameter st target
      in if closed \<and> IsText target then TextConversion target
         else if closed \<and> IsRune target then checkRuneConversion answer_type receiver
         else ScalarConversion (checkScalarConversion st receiver target))"

section \<open>Bit reinterpretation\<close>

definition bitCastEligibleType :: "htype \<Rightarrow> bool" where
  "bitCastEligibleType t \<longleftrightarrow>
     (\<exists>s\<in>set [Int8, UInt8, Int16, UInt16, Int32, UInt32, Int64, UInt64, Float32, Float64]. Equal t s)"

definition endianEligibleType :: "htype \<Rightarrow> bool" where
  "endianEligibleType t \<longleftrightarrow> IsInteger t \<and> \<not> Equal t SizeType"

definition bit_cast_diagnostic :: "htype \<Rightarrow> htype \<Rightarrow> fold_diagnostic option" where
  "bit_cast_diagnostic source target =
     (if \<not> bitCastEligibleType source \<or> \<not> bitCastEligibleType target then
        Some (BitCastIneligibleTypes (ty_name source) (ty_name target))
      else if ty_bits source \<noteq> ty_bits target then Some (BitCastWidthMismatch (ty_name source) (ty_name target))
      else None)"

end
