(* ===== verification/ConstantValidation.thy ===== *)
theory ConstantValidation
  imports ConstantOperations TypeCanonical
begin

text \<open>
  The generator's second look at a scalar constant (\<open>generator/constant_validation.go\<close>) and its
  spelling of an integer constant in C (\<open>generator/render.go\<close>). The checks do not trust the checker:
  each recomputes the constant from its literal text or its bits. Every refusal is the same
  diagnostic; \<open>True\<close> accepts. Object values are not part of the model, and neither is the shortest
  decimal spelling of a finite float.
\<close>

section \<open>Types\<close>

definition supportedGeneratedScalarType :: "'a type_store_scheme \<Rightarrow> htype \<Rightarrow> bool" where
  "supportedGeneratedScalarType st t \<longleftrightarrow>
     element_of t = None \<and> (case t of ObjectT _ _ \<Rightarrow> False | _ \<Rightarrow> True) \<and> \<not> has_signature t \<and> IsCanonical st t"

section \<open>Floats\<close>

definition floatSignAndSpecial :: "float_format \<Rightarrow> int \<Rightarrow> bool \<times> bool" where
  "floatSignAndSpecial f bits = (sign_bit f bits, special_bits f bits)"

text \<open>Setting the sign bit keeps one that is set.\<close>

definition floatBitsForConstant :: "const_value \<Rightarrow> float_format \<Rightarrow> bool \<Rightarrow> int" where
  "floatBitsForConstant v f negative =
     (let bits = FloatVal f v in if negative then bits OR sign_weight f else bits)"

definition is_number :: "const_value \<Rightarrow> bool" where
  "is_number v \<longleftrightarrow> Kind v = KindInt \<or> Kind v = KindFloat"

definition has_sign_prefix :: "string \<Rightarrow> bool" where
  "has_sign_prefix s \<longleftrightarrow> take 1 s = ''+'' \<or> take 1 s = ''-''"

definition float_literal_valid :: "operand \<Rightarrow> const_value \<Rightarrow> float_format \<Rightarrow> int \<Rightarrow> bool" where
  "float_literal_valid source v f bits =
     (let literal = without_underscores (od_literal source); parsed = MakeFloatLiteral literal
      in \<not> has_sign_prefix literal \<and> is_number parsed \<and> 0 \<le> Sign v \<and> Compare v EQL parsed
           \<and> floatBitsForConstant parsed f (od_negative source) = bits)"

definition validateFloatConstant :: "operand \<Rightarrow> bool" where
  "validateFloatConstant source =
     (let t = od_type source; f = float_format_of t
      in if \<not> Equal t Float32 \<and> \<not> Equal t Float64 then False
         else if Equal t Float32 \<and> 2 ^ 32 - 1 < od_bits source then False
         else
           let bits = od_bits source; (negative, special) = floatSignAndSpecial f bits
           in if od_negative source \<noteq> negative then False
              else case od_constant source of
                None \<Rightarrow> False
              | Some v \<Rightarrow>
                  if special then Kind v = KindUnknown \<and> od_literal source = []
                  else if \<not> is_number v then False
                  else if od_literal source \<noteq> [] then float_literal_valid source v f bits
                  else floatBitsForConstant v f (od_negative source) = bits
                         \<and> \<not> (Sign v < 0 \<and> \<not> negative \<or> 0 < Sign v \<and> negative))"

section \<open>Integers\<close>

text \<open>The magnitude of a literal and whether it is written with a minus.\<close>

definition radix_prefix :: "literal_radix \<Rightarrow> string" where
  "radix_prefix r =
     (case r of DecimalRadix \<Rightarrow> [] | HexadecimalRadix \<Rightarrow> ''0x'' | BinaryRadix \<Rightarrow> ''0b'' | OctalRadix \<Rightarrow> ''0o'')"

definition radix_base :: "literal_radix \<Rightarrow> int" where
  "radix_base r = (case r of DecimalRadix \<Rightarrow> 10 | HexadecimalRadix \<Rightarrow> 16 | BinaryRadix \<Rightarrow> 2 | OctalRadix \<Rightarrow> 8)"

definition parseIntegerLiteral :: "string \<Rightarrow> literal_radix \<Rightarrow> (const_value \<times> bool) option" where
  "parseIntegerLiteral text radix =
     (let literal = without_underscores text;
          negative = (take 1 literal = ''-'');
          digits = (if negative then drop 1 literal else literal);
          prefix = radix_prefix radix
      in if digits = [] \<or> take 1 digits = ''+'' then None
         else if radix = DecimalRadix \<and> take 2 digits \<in> {''0x'', ''0b'', ''0o''} then None
         else if take (length prefix) digits \<noteq> prefix then None
         else case ParseUint (drop (length prefix) digits) (radix_base radix) of
           None \<Rightarrow> None
         | Some v \<Rightarrow> Some (CInt v, negative))"

definition validateIntegerConstant :: "'a type_store_scheme \<Rightarrow> operand \<Rightarrow> bool" where
  "validateIntegerConstant st source =
     (let t = od_type source; negative = od_negative source
      in case od_constant source of
        None \<Rightarrow> False
      | Some v \<Rightarrow>
          if \<not> od_is_constant source \<or> Kind v \<noteq> KindInt \<or> \<not> supportedGeneratedScalarType st t \<or> \<not> IsInteger t then False
          else if IsUnsignedInteger t \<and> (negative \<or> Sign v < 0) then False
          else if negative \<and> 0 < Sign v \<or> \<not> negative \<and> Sign v < 0 then False
          else if od_literal source = [] then True
          else case parseIntegerLiteral (od_literal source) (od_radix source) of
            None \<Rightarrow> False
          | Some (magnitude, written_negative) \<Rightarrow>
              if written_negative \<and> \<not> negative then False
              else if negative then
                (case Negate magnitude of Some m \<Rightarrow> Compare v EQL m | None \<Rightarrow> False)
              else Compare v EQL magnitude)"

section \<open>Integer spelling\<close>

definition hex_digit :: "nat \<Rightarrow> char" where
  "hex_digit d = (if d < 10 then char_of (48 + d) else char_of (55 + d))"

fun format_digits :: "nat \<Rightarrow> nat \<Rightarrow> string" where
  "format_digits base n =
     (if n < base \<or> base < 2 then [hex_digit (n mod base)] else format_digits base (n div base) @ [hex_digit (n mod base)])"

declare format_digits.simps [simp del]

definition formatInteger :: "nat \<Rightarrow> literal_radix \<Rightarrow> string" where
  "formatInteger n radix =
     (case radix of
        HexadecimalRadix \<Rightarrow> ''0x'' @ format_digits 16 n
      | BinaryRadix \<Rightarrow> ''0b'' @ format_digits 2 n
      | _ \<Rightarrow> decimal n)"

definition signedMinimumMacro :: "htype \<Rightarrow> string option" where
  "signedMinimumMacro t =
     (if ty_name t = ty_name Int8 then Some ''INT8_MIN''
      else if ty_name t = ty_name Int16 then Some ''INT16_MIN''
      else if ty_name t = ty_name Int32 then Some ''INT32_MIN''
      else if ty_name t = ty_name Int64 then Some ''INT64_MIN''
      else None)"

text \<open>The largest magnitude of an unsigned type, and whether a signed one can hold a magnitude.\<close>

definition magnitude_fits :: "htype \<Rightarrow> bool \<Rightarrow> int \<Rightarrow> bool" where
  "magnitude_fits t negative n =
     (if IsSignedInteger t then
        let limit = 2 ^ (ty_bits t - 1) in n \<le> limit \<and> (negative \<or> n \<noteq> limit)
      else n \<le> (if ty_bits t < 64 then 2 ^ ty_bits t - 1 else 2 ^ 64 - 1))"

definition spell_integer :: "htype \<Rightarrow> bool \<Rightarrow> literal_radix \<Rightarrow> nat \<Rightarrow> string" where
  "spell_integer t negative radix n =
     (let digits = formatInteger n radix; sign = (if negative then ''-'' else [])
      in if Equal t Int64 then sign @ ''INT64_C('' @ digits @ '')''
         else if Equal t UInt64 then ''UINT64_C('' @ digits @ '')''
         else sign @ digits)"

definition integerLiteral :: "'a type_store_scheme \<Rightarrow> operand \<Rightarrow> string option" where
  "integerLiteral st source =
     (if \<not> validateIntegerConstant st source then None
      else case od_constant source of
        Some (CInt i) \<Rightarrow>
          (let t = od_type source; negative = od_negative source; (unsigned, exact) = Uint64Val \<bar>i\<bar>
           in if \<not> exact \<or> \<not> magnitude_fits t negative unsigned then None
              else if negative \<and> unsigned = 2 ^ (ty_bits t - 1) \<and> IsSignedInteger t then signedMinimumMacro t
              else Some (spell_integer t negative (od_radix source) (nat unsigned)))
      | _ \<Rightarrow> None)"

section \<open>Constant operands\<close>

definition validateConstantOperand :: "'a type_store_scheme \<Rightarrow> operand \<Rightarrow> bool" where
  "validateConstantOperand st source =
     (let t = od_type source
      in if IsNil t \<or> IsEoS t \<or> IsHeap t then True
         else case od_constant source of
           None \<Rightarrow> False
         | Some v \<Rightarrow>
             (case ty_kind t of
                ScalarBool \<Rightarrow> Equal t Bool_type \<and> Kind v = KindBool
              | ScalarUnsignedInteger \<Rightarrow>
                  supportedGeneratedScalarType st t \<and> Kind v = KindInt \<and> integerLiteral st source \<noteq> None
              | ScalarSignedInteger \<Rightarrow>
                  supportedGeneratedScalarType st t \<and> Kind v = KindInt \<and> integerLiteral st source \<noteq> None
              | ScalarFloat \<Rightarrow> validateFloatConstant source
              | _ \<Rightarrow> False))"

end
