(* ===== verification/ConstantLaws.thy ===== *)
theory ConstantLaws
  imports ConstantValidation NumericLaws
begin

text \<open>
  Facts about the folding primitives and the generator's checks on integer constants: the range of
  each integer type, what wrapping does inside and outside it, that integer numerals read back as
  the numbers they spell, and that a constant whose sign mark and literal agree with its value
  passes every check.
\<close>

section \<open>Integer types and their ranges\<close>

definition signed_types :: "htype list" where
  "signed_types = [Int8, Int16, Int32, Int64]"

definition unsigned_types :: "htype list" where
  "unsigned_types = [UInt8, UInt16, UInt32, UInt64, Rune_type, SizeType]"

definition integer_types :: "htype list" where
  "integer_types = signed_types @ unsigned_types"

named_theorems scalar_facts

lemma signed_type_facts [scalar_facts]:
  assumes "t \<in> set signed_types"
  shows "IsSignedInteger t" "\<not> IsUnsignedInteger t" "IsInteger t" "\<not> IsFloat t" "ty_bits t \<in> {8, 16, 32, 64}"
  using assms by (auto simp: signed_types_def IsSignedInteger_def IsUnsignedInteger_def IsInteger_def IsFloat_def)

lemma unsigned_type_facts [scalar_facts]:
  assumes "t \<in> set unsigned_types"
  shows "\<not> IsSignedInteger t" "IsUnsignedInteger t" "IsInteger t" "\<not> IsFloat t" "ty_bits t \<in> {8, 16, 32, 64}"
  using assms by (auto simp: unsigned_types_def IsSignedInteger_def IsUnsignedInteger_def IsInteger_def IsFloat_def)

lemma integer_type_cases:
  assumes "t \<in> set integer_types"
  obtains (signed) "t \<in> set signed_types" | (unsigned) "t \<in> set unsigned_types"
  using assms by (auto simp: integer_types_def)

lemma integer_type_facts:
  assumes "t \<in> set integer_types"
  shows "IsInteger t" "\<not> IsFloat t" "ty_bits t \<in> {8, 16, 32, 64}" "IsUnsignedInteger t \<longleftrightarrow> \<not> IsSignedInteger t"
  using assms by (auto elim!: integer_type_cases dest: signed_type_facts unsigned_type_facts)

text \<open>The values of a type.\<close>

definition fits :: "htype \<Rightarrow> int \<Rightarrow> bool" where
  "fits t i \<longleftrightarrow>
     (if IsSignedInteger t then - (2 ^ (ty_bits t - 1)) \<le> i \<and> i < 2 ^ (ty_bits t - 1) else 0 \<le> i \<and> i < 2 ^ ty_bits t)"

definition limits_of :: "htype \<Rightarrow> int \<times> int" where
  "limits_of t =
     (if IsSignedInteger t then (- (2 ^ (ty_bits t - 1)), 2 ^ (ty_bits t - 1) - 1) else (0, 2 ^ ty_bits t - 1))"

lemma fits_limits: "fits t i \<longleftrightarrow> fst (limits_of t) \<le> i \<and> i \<le> snd (limits_of t)"
  by (auto simp: fits_def limits_of_def)

lemma integerBounds_limits:
  assumes "t \<in> set integer_types"
  shows "integerBounds t = (CInt (fst (limits_of t)), CInt (snd (limits_of t)))"
  using assms
proof (cases rule: integer_type_cases)
  case signed
  from signed_type_facts [OF this] show ?thesis by (auto simp: integerBounds_def limits_of_def Let_def)
next
  case unsigned
  from unsigned_type_facts [OF this] show ?thesis
    by (auto simp: integerBounds_def limits_of_def drop_bit_eq_div)
qed

lemma constantIntegerRange_limits:
  assumes "t \<in> set integer_types"
  shows "constantIntegerRange t = (CInt (fst (limits_of t)), CInt (snd (limits_of t)))"
  using assms
proof (cases rule: integer_type_cases)
  case signed
  from signed_type_facts [OF this] show ?thesis by (auto simp: constantIntegerRange_def limits_of_def Let_def)
next
  case unsigned
  from unsigned_type_facts [OF this] show ?thesis by (auto simp: constantIntegerRange_def limits_of_def)
qed

lemma Compare_ints [simp]: "Compare (CInt a) op (CInt b) = compare_ordered op a b"
  by (cases op) simp_all

declare Compare.simps [simp del]

lemma outside_ints [simp]: "outside (CInt i) (CInt a, CInt b) \<longleftrightarrow> \<not> (a \<le> i \<and> i \<le> b)"
  by (auto simp: outside_def)

lemma outside_bounds: "t \<in> set integer_types \<Longrightarrow> outside (CInt i) (integerBounds t) \<longleftrightarrow> \<not> fits t i"
  by (simp add: integerBounds_limits fits_limits)

lemma outside_range: "t \<in> set integer_types \<Longrightarrow> outside (CInt i) (constantIntegerRange t) \<longleftrightarrow> \<not> fits t i"
  by (simp add: constantIntegerRange_limits fits_limits)

section \<open>Wrapping\<close>

text \<open>What the modulus of the source makes of an integer.\<close>

definition wrapped :: "htype \<Rightarrow> int \<Rightarrow> int" where
  "wrapped t i =
     (if fits t i then i
      else let m = wrap_modulus (ty_bits t); r = i mod m
           in if IsSignedInteger t \<and> 2 ^ (ty_bits t - 1) \<le> r then r - m else r)"

lemma smod_then_add:
  assumes "0 < (m :: int)"
  shows "(if i smod m < 0 then i smod m + m else i smod m) = i mod m"
proof (cases "0 \<le> i")
  case True
  have "\<not> i mod m < 0" using assms by (simp add: not_less)
  with True show ?thesis using assms by (simp add: signed_modulo_int_def signed_divide_int_def sgn_if minus_mult_div_eq_mod abs_if)
next
  case False
  then have s: "i smod m = - (- i mod m)"
    using assms by (simp add: signed_modulo_int_def signed_divide_int_def sgn_if abs_if minus_mult_div_eq_mod [symmetric] algebra_simps)
  show ?thesis
    using assms unfolding s by (auto simp: zmod_zminus1_eq_if [of i m] zmod_zminus1_eq_if [of "- i" m] split: if_splits)
qed

lemma wrapIntegerConstant_int:
  assumes "t \<in> set integer_types"
  shows "wrapIntegerConstant (CInt i) t = Some (CInt (wrapped t i))"
proof -
  have w: "ty_bits t \<in> {8, 16, 32, 64}" using integer_type_facts [OF assms] by blast
  let ?m = "wrap_modulus (ty_bits t)"
  have m: "0 < ?m" using w by (auto simp: wrap_modulus_def)
  have half: "(if 64 \<le> ty_bits t then 2 ^ 63 else 2 ^ (ty_bits t - 1)) = (2 ^ (ty_bits t - 1) :: int)" using w by auto
  show ?thesis
    using m smod_then_add [OF m, of i]
    by (auto simp: wrapIntegerConstant_def integerBounds_limits [OF assms] wrapped_def fits_limits half Let_def split: if_splits)
qed

lemma wrapped_fits:
  assumes "t \<in> set integer_types"
  shows "fits t (wrapped t i)"
proof -
  let ?m = "wrap_modulus (ty_bits t)"
  have w: "ty_bits t \<in> {8, 16, 32, 64}" using integer_type_facts [OF assms] by blast
  then have "0 < ?m" "?m \<le> 2 ^ ty_bits t" "?m \<le> 2 * 2 ^ (ty_bits t - 1)" by (auto simp: wrap_modulus_def)
  moreover from this(1) have "0 \<le> i mod ?m" "i mod ?m < ?m" by simp_all
  ultimately show ?thesis by (auto simp: wrapped_def Let_def fits_def split: if_splits)
qed

lemma wrapped_id: "fits t i \<Longrightarrow> wrapped t i = i"
  by (simp add: wrapped_def)

text \<open>Below 64 bits this is the machine's reduction.\<close>

definition machine_reduce :: "htype \<Rightarrow> int \<Rightarrow> int" where
  "machine_reduce t i =
     (if IsSignedInteger t then signed_take_bit (ty_bits t - 1) i else take_bit (ty_bits t) i)"

lemma signed_take_bit_mod:
  "signed_take_bit n (i :: int) = (let r = i mod 2 ^ Suc n in if 2 ^ n \<le> r then r - 2 ^ Suc n else r)"
proof -
  let ?r = "i mod 2 ^ Suc n"
  have r: "0 \<le> ?r" "?r < 2 * 2 ^ n" "(2 :: int) ^ Suc n = 2 * 2 ^ n" "(0 :: int) < 2 ^ n" by (simp_all flip: power_Suc)
  have "(i + 2 ^ n) mod 2 ^ Suc n = (?r + 2 ^ n) mod 2 ^ Suc n" by (simp only: mod_add_left_eq)
  also have "\<dots> = (if 2 ^ n \<le> ?r then ?r - 2 ^ n else ?r + 2 ^ n)"
  proof (cases "2 ^ n \<le> ?r")
    case True
    have "?r + 2 ^ n = ?r - 2 ^ n + 2 ^ Suc n" by simp
    then have "(?r + 2 ^ n) mod 2 ^ Suc n = (?r - 2 ^ n + 2 ^ Suc n) mod 2 ^ Suc n" by (simp only:)
    also have "\<dots> = ?r - 2 ^ n" unfolding mod_add_self2 by (rule mod_pos_pos_trivial) (use True r in linarith)+
    finally show ?thesis using True by simp
  qed (use r in \<open>simp add: mod_pos_pos_trivial\<close>)
  finally show ?thesis by (simp add: signed_take_bit_eq_take_bit_shift take_bit_eq_mod Let_def)
qed

lemma wrapped_machine:
  assumes "t \<in> set integer_types" "ty_bits t < 64"
  shows "wrapped t i = machine_reduce t i"
proof -
  have w: "0 < ty_bits t" using integer_type_facts(3) [OF assms(1)] by auto
  then have S: "2 ^ Suc (ty_bits t - 1) = (2 ^ ty_bits t :: int)" by simp
  show ?thesis
  proof (cases "fits t i")
    case True
    with w show ?thesis
      by (auto simp: wrapped_def machine_reduce_def fits_def take_bit_int_eq_self signed_take_bit_int_eq_self)
  next
    case False
    with assms(2) show ?thesis
      using w by (simp add: wrapped_def machine_reduce_def wrap_modulus_def Let_def take_bit_eq_mod signed_take_bit_mod
          del: power_Suc)
  qed
qed

section \<open>Numerals\<close>

lemma digit_of_digit: "is_digit c \<Longrightarrow> digit_of c = Some (byte_val c - 48) \<and> byte_val c - 48 < 10"
  by (auto simp: digit_of_def is_digit_def byte_between_def)

lemma digits_value_append:
  "digits_value base acc (s @ u) = Option.bind (digits_value base acc s) (\<lambda>v. digits_value base v u)"
  by (induction s arbitrary: acc) (auto split: option.splits)

lemma digit_of_hex_digit: "d < 16 \<Longrightarrow> digit_of (hex_digit d) = Some d"
  by (auto simp: hex_digit_def digit_of_def is_digit_def byte_between_def)

lemma parse_digits_format:
  assumes "2 \<le> base" "base \<le> 16"
  shows "format_digits base n \<noteq> [] \<and> digits_value (int base) 0 (format_digits base n) = Some (int n)"
  using assms
proof (induction base n rule: format_digits.induct)
  case (1 base n)
  have d: "digit_of (hex_digit (n mod base)) = Some (n mod base)"
    using "1.prems" by (intro digit_of_hex_digit) (auto intro: less_le_trans [of _ base])
  have split: "int base * int (n div base) + int (n mod base) = int n"
    by (simp flip: of_nat_mult of_nat_add)
  show ?case
    using 1 d split "1.prems"
    by (subst (1 2) format_digits.simps) (auto simp: digits_value_append)
qed

lemma digits_value_decimal:
  "\<forall>c\<in>set s. is_digit c \<Longrightarrow>
     digits_value 10 (int acc) s = Some (int (foldl (\<lambda>v c. 10 * v + (byte_val c - 48)) acc s))"
proof (induction s arbitrary: acc)
  case (Cons c s)
  then have "digit_of c = Some (byte_val c - 48)" "byte_val c - 48 < 10" using digit_of_digit [of c] by auto
  moreover from this(2) have "int (byte_val c - 48) < 10" by simp
  moreover have "digits_value 10 (10 * int acc + int (byte_val c - 48)) s
      = Some (int (foldl (\<lambda>v c. 10 * v + (byte_val c - 48)) (10 * acc + (byte_val c - 48)) s))"
    using Cons.prems Cons.IH [of "10 * acc + (byte_val c - 48)"] by simp
  ultimately show ?case by simp
qed simp

lemma parse_digits_decimal: "parse_digits 10 (decimal n) = Some (int n)"
  using digits_value_decimal [of "decimal n" 0] decimal_digits numeral_value_decimal [of n]
  by (simp add: parse_digits_def numeral_value_def)

lemma digit_not_mark:
  assumes "is_digit c"
  shows "c \<noteq> CHR ''_''" "c \<noteq> CHR ''-''" "c \<noteq> CHR ''+''" "c \<noteq> CHR ''x''" "c \<noteq> CHR ''b''" "c \<noteq> CHR ''o''"
    "c \<noteq> CHR ''I''" "c \<noteq> CHR ''U''"
  using assms by (auto simp: is_digit_def byte_between_def)

lemma without_underscores_digits: "\<forall>c\<in>set s. is_digit c \<Longrightarrow> without_underscores s = s"
  by (auto simp: without_underscores_def filter_id_conv dest: digit_not_mark)

lemma digits_prefix:
  assumes "\<forall>c\<in>set s. is_digit c"
  shows "take 1 s \<noteq> ''-''" "take 1 s \<noteq> ''+''" "take 2 s \<notin> {''0x'', ''0b'', ''0o''}"
  using assms by (cases s; cases "tl s"; auto dest: digit_not_mark)+

text \<open>The exact string of an integer reads back as its magnitude and sign.\<close>

lemma parse_exact_string:
  assumes "\<bar>i\<bar> < 2 ^ 64"
  shows "parseIntegerLiteral (int_string i) DecimalRadix = Some (CInt \<bar>i\<bar>, i < 0)"
proof -
  define n where "n = nat \<bar>i\<bar>"
  note d = ballI [where A = "set (decimal n)", OF decimal_digits]
  have n: "int n = \<bar>i\<bar>" "ParseUint (decimal n) 10 = Some (int n)"
    using assms by (simp_all add: n_def ParseUint_def parse_digits_decimal)
  have s: "int_string i = (if i < 0 then ''-'' else []) @ decimal n" by (auto simp: int_string_def n_def)
  have u: "without_underscores (int_string i) = int_string i"
    using without_underscores_digits [OF d] by (simp add: s without_underscores_def)
  show ?thesis
    using digits_prefix [OF d] n unfolding parseIntegerLiteral_def u
    by (simp add: s radix_prefix_def radix_base_def Let_def)
qed

section \<open>Integer literals\<close>

text \<open>The text of an integer token of a radix, as the lexer leaves it.\<close>

definition integer_lexeme :: "string \<Rightarrow> literal_radix \<Rightarrow> bool" where
  "integer_lexeme text radix \<longleftrightarrow>
     (let s = without_underscores text
      in if radix = DecimalRadix then s \<noteq> [] \<and> (\<forall>c\<in>set s. is_digit c) \<and> (take 1 s = ''0'' \<longrightarrow> length s = 1)
         else take 2 s = radix_prefix radix \<and> parse_digits (radix_base radix) (drop 2 s) \<noteq> None)"

lemma digits_value_nonneg: "digits_value base acc s = Some v \<Longrightarrow> 0 \<le> base \<Longrightarrow> 0 \<le> acc \<Longrightarrow> 0 \<le> v"
  by (induction s arbitrary: acc) (auto split: option.splits if_splits)

lemma parse_digits_nonneg: "parse_digits base s = Some v \<Longrightarrow> 0 \<le> base \<Longrightarrow> 0 \<le> v"
  by (auto simp: parse_digits_def digits_value_nonneg split: if_splits)

lemma without_underscores_idem [simp]: "without_underscores (without_underscores s) = without_underscores s"
  by (simp add: without_underscores_def)

lemma parse_digits_exists: "s \<noteq> [] \<Longrightarrow> \<forall>c\<in>set s. is_digit c \<Longrightarrow> \<exists>v. parse_digits 10 s = Some v"
  using digits_value_decimal [of s 0] by (simp add: parse_digits_def)

text \<open>The checker and the generator read an integer token the same way.\<close>

lemma literal_readings_agree:
  assumes "integer_lexeme text radix"
  shows "\<exists>m. 0 \<le> m \<and> MakeIntLiteral (without_underscores text) = CInt m
    \<and> (m < 2 ^ 64 \<longrightarrow> parseIntegerLiteral (without_underscores text) radix = Some (CInt m, False))"
proof (cases "radix = DecimalRadix")
  case True
  let ?s = "without_underscores text"
  have s: "?s \<noteq> []" "\<forall>c\<in>set ?s. is_digit c" "take 1 ?s = ''0'' \<longrightarrow> length ?s = 1"
    using assms True by (auto simp: integer_lexeme_def Let_def)
  from parse_digits_exists [OF s(1,2)] obtain m where m: "parse_digits 10 ?s = Some m" by blast
  then show ?thesis
    using parse_digits_nonneg [OF m] digits_prefix [OF s(2)] s(1,3) True
    by (intro exI [of _ m])
      (auto simp: MakeIntLiteral_def parseIntegerLiteral_def Let_def radix_prefix_def radix_base_def ParseUint_def)
next
  case False
  define s where "s = without_underscores text"
  obtain rest where rest: "s = radix_prefix radix @ rest"
    using assms False unfolding s_def by (metis integer_lexeme_def append_take_drop_id)
  have "length (radix_prefix radix) = 2" using False by (cases radix) (simp_all add: radix_prefix_def)
  then obtain m where m: "parse_digits (radix_base radix) rest = Some m"
    using assms False rest unfolding s_def by (auto simp: integer_lexeme_def Let_def)
  have idem: "without_underscores (radix_prefix radix @ rest) = radix_prefix radix @ rest"
    using rest without_underscores_idem unfolding s_def by metis
  have "0 \<le> m" by (rule parse_digits_nonneg [OF m]) (cases radix; simp add: radix_base_def)
  with m False idem show ?thesis
    unfolding s_def [symmetric] rest MakeIntLiteral_def parseIntegerLiteral_def idem
    by (cases radix) (auto simp: Let_def radix_prefix_def radix_base_def ParseUint_def)
qed

section \<open>Constants the generator accepts\<close>

text \<open>An integer constant whose sign mark and literal text agree with its value.\<close>

definition integer_source :: "operand \<Rightarrow> bool" where
  "integer_source source \<longleftrightarrow>
     od_is_constant source \<and> od_type source \<in> set integer_types
       \<and> (case od_constant source of
            Some (CInt i) \<Rightarrow>
              fits (od_type source) i
                \<and> (if od_negative source then i \<le> 0 \<and> IsSignedInteger (od_type source) else 0 \<le> i)
                \<and> (od_literal source = []
                     \<or> (\<exists>w. parseIntegerLiteral (od_literal source) (od_radix source) = Some (CInt \<bar>i\<bar>, w)
                          \<and> (w \<longrightarrow> od_negative source)))
          | _ \<Rightarrow> False)"

lemma integer_sourceE:
  assumes "integer_source source"
  obtains i where "od_is_constant source" "od_type source \<in> set integer_types" "od_constant source = Some (CInt i)"
    "fits (od_type source) i" "if od_negative source then i \<le> 0 \<and> IsSignedInteger (od_type source) else 0 \<le> i"
  using assms by (auto simp: integer_source_def split: option.splits const_value.splits)

lemma fits_magnitude:
  assumes "t \<in> set integer_types" "fits t i"
  shows "\<bar>i\<bar> < 2 ^ 64" "magnitude_fits t (i < 0) \<bar>i\<bar>" "i = 0 \<Longrightarrow> magnitude_fits t b \<bar>i\<bar>"
  using assms(2) integer_type_facts [OF assms(1)]
  by (auto simp: fits_def magnitude_fits_def Let_def abs_if split: if_splits)

lemma canonical_Basic:
  assumes "\<not> IsNil (Basic h)" "\<not> IsUnknown (Basic h)" "isCanonicalScalar (Basic h)"
  shows "fst (canonical st names fl seen through_pointer (Basic h))"
  using assms by (subst canonical.simps) (simp add: shape_canonical_def)

lemma builtin_Lookup_integers:
  "builtin_Lookup ''Int8'' = Some Int8" "builtin_Lookup ''Int16'' = Some Int16"
  "builtin_Lookup ''Int32'' = Some Int32" "builtin_Lookup ''Int64'' = Some Int64"
  "builtin_Lookup ''UInt8'' = Some UInt8" "builtin_Lookup ''UInt16'' = Some UInt16"
  "builtin_Lookup ''UInt32'' = Some UInt32" "builtin_Lookup ''UInt64'' = Some UInt64"
  "builtin_Lookup ''Rune'' = Some Rune_type" "builtin_Lookup ''Size'' = Some SizeType"
  by (simp_all add: builtin_Lookup_def builtinTypes_def)

lemma integer_types_basic:
  assumes "t \<in> set integer_types"
  shows "\<exists>h. t = Basic h" "ty_ident t \<in> {0, 1, 2, 3, 4, 5, 6, 7, 8, 17}" "builtin_Lookup (ty_name t) = Some t"
    "\<not> ty_incomplete t"
proof -
  have names: "ty_name Rune_type = ''Rune''" "ty_name SizeType = ''Size''"
    by (simp_all add: Rune_type_def SizeType_def scalarType_def)
  consider "t = Int8" | "t = Int16" | "t = Int32" | "t = Int64" | "t = UInt8" | "t = UInt16" | "t = UInt32"
    | "t = UInt64" | "t = Rune_type" | "t = SizeType"
    using assms by (auto simp: integer_types_def signed_types_def unsigned_types_def)
  note cases = this
  show "ty_ident t \<in> {0, 1, 2, 3, 4, 5, 6, 7, 8, 17}" by (cases rule: cases) simp_all
  show "builtin_Lookup (ty_name t) = Some t" by (cases rule: cases) (simp_all add: builtin_Lookup_integers names)
  show "\<exists>h. t = Basic h" by (cases rule: cases) (simp_all add: scalar_defs scalarType_def)
  show "\<not> ty_incomplete t" by (cases rule: cases) (simp_all add: scalar_defs scalarType_def)
qed

lemma integer_types_distinct_kinds:
  assumes "t \<in> set integer_types"
  shows "\<not> IsNil t" "\<not> IsEoS t" "\<not> IsHeap t" "\<not> IsUnknown t"
  using integer_types_basic(2) [OF assms]
  by (auto simp: IsNil_def IsEoS_def IsHeap_def IsUnknown_def NilType_def EoSType_def HeapType_def UnknownType_def opaqueType_def)

lemma integer_types_supported:
  assumes "t \<in> set integer_types"
  shows "supportedGeneratedScalarType st t"
proof -
  obtain h where h: "t = Basic h" using integer_types_basic(1) [OF assms] by blast
  have "IsCanonical st t"
    unfolding IsCanonical_def isCanonicalForEnvironment_def h
    by (rule canonical_Basic) (use integer_types_distinct_kinds [OF assms] integer_types_basic(3,4) [OF assms] h in \<open>simp_all add: isCanonicalScalar_def\<close>)
  then show ?thesis by (simp add: supportedGeneratedScalarType_def h)
qed

lemma integer_source_valid:
  assumes "integer_source source"
  shows "validateIntegerConstant st source"
proof -
  from assms obtain i where i: "od_is_constant source" "od_type source \<in> set integer_types" "od_constant source = Some (CInt i)"
    "if od_negative source then i \<le> 0 \<and> IsSignedInteger (od_type source) else 0 \<le> i"
    by (rule integer_sourceE)
  have "od_literal source = []
      \<or> (\<exists>w. parseIntegerLiteral (od_literal source) (od_radix source) = Some (CInt \<bar>i\<bar>, w) \<and> (w \<longrightarrow> od_negative source))"
    using assms i(3) by (simp add: integer_source_def)
  with i show ?thesis
    using integer_type_facts(1,4) [OF i(2)] integer_types_supported [OF i(2), of st]
    by (auto simp: validateIntegerConstant_def Let_def Sign_def split: if_splits)
qed

section \<open>What a spelled integer denotes in C\<close>

definition c_digits :: "string \<Rightarrow> int option" where
  "c_digits s =
     (if take 2 s = ''0x'' then parse_digits 16 (drop 2 s)
      else if take 2 s = ''0b'' then parse_digits 2 (drop 2 s)
      else if take 1 s = ''0'' \<and> length s > 1 then parse_digits 8 (drop 1 s)
      else parse_digits 10 s)"

definition c_magnitude :: "string \<Rightarrow> int option" where
  "c_magnitude s =
     (if take 8 s = ''INT64_C('' then c_digits (butlast (drop 8 s))
      else if take 9 s = ''UINT64_C('' then c_digits (butlast (drop 9 s))
      else c_digits s)"

text \<open>The value of the spelling. An unsuffixed decimal constant of \<open>2 ^ 63\<close> or more, which a large \<open>Size\<close>
  gives, has no signed type in C; it is read as its value all the same.\<close>

definition c_integer :: "string \<Rightarrow> int option" where
  "c_integer s =
     (case map_of [(''INT8_MIN'', - (2 ^ 7)), (''INT16_MIN'', - (2 ^ 15)), (''INT32_MIN'', - (2 ^ 31)),
                   (''INT64_MIN'', - (2 ^ 63))] s of
        Some v \<Rightarrow> Some v
      | None \<Rightarrow> if take 1 s = ''-'' then map_option uminus (c_magnitude (drop 1 s)) else c_magnitude s)"

lemma decimal_no_leading_zero: "take 1 (decimal n) = ''0'' \<Longrightarrow> length (decimal n) = 1"
proof (induction n rule: decimal.induct)
  case (1 n)
  show ?case
  proof (cases "n < 10")
    case True
    then show ?thesis by (subst decimal.simps) simp
  next
    case False
    have "take 1 (decimal (n div 10)) = take 1 (decimal n)"
      using False decimal_not_Nil [of "n div 10"] by (subst (2) decimal.simps) (cases "decimal (n div 10)"; simp)
    with "1.prems" "1.IH" [OF False] obtain c where c: "decimal (n div 10) = [c]" "[c] = ''0''"
      by (cases "decimal (n div 10)") auto
    then have "n div 10 = 0" using numeral_value_decimal [of "n div 10"] by (simp add: numeral_value_def)
    with False show ?thesis by simp
  qed
qed

lemma c_digits_formatInteger: "c_digits (formatInteger n radix) = Some (int n)"
proof (cases "radix \<in> {HexadecimalRadix, BinaryRadix}")
  case True
  then show ?thesis
    using parse_digits_format [of 16 n] parse_digits_format [of 2 n]
    by (auto simp: formatInteger_def c_digits_def parse_digits_def)
next
  case False
  then have "formatInteger n radix = decimal n" by (cases radix) (simp_all add: formatInteger_def)
  moreover have "take 2 (decimal n) \<notin> {''0x'', ''0b'', ''0o''}" using digits_prefix(3) decimal_digits by blast
  ultimately show ?thesis
    using decimal_no_leading_zero [of n] by (auto simp: c_digits_def parse_digits_decimal)
qed

lemma formatInteger_head: "\<exists>c s. formatInteger n radix = c # s \<and> is_digit c"
proof -
  have "is_digit CHR ''0''" by (simp add: is_digit_def byte_between_def)
  moreover have "\<exists>c s. decimal n = c # s \<and> is_digit c"
    using decimal_digits [of _ n] by (cases "decimal n") auto
  ultimately show ?thesis by (cases radix) (simp_all add: formatInteger_def)
qed

lemma c_integer_spelled:
  assumes "negative \<Longrightarrow> \<not> Equal t UInt64"
  shows "c_integer (spell_integer t negative radix n) = Some (if negative then - int n else int n)"
proof -
  obtain c s where c: "formatInteger n radix = c # s" "is_digit c" using formatInteger_head by blast
  note d = c_digits_formatInteger [of n radix]
  note marks = digit_not_mark [OF c(2)]
  have magnitude: "c_magnitude (formatInteger n radix) = Some (int n)"
    "c_magnitude (''INT64_C('' @ formatInteger n radix @ '')'') = Some (int n)"
    "c_magnitude (''UINT64_C('' @ formatInteger n radix @ '')'') = Some (int n)"
    using d marks by (simp_all add: c_magnitude_def c(1))
  show ?thesis
    using magnitude marks assms by (auto simp: c_integer_def spell_integer_def Let_def c(1))
qed

text \<open>An accepted integer constant is spelled, and the spelling denotes its value.\<close>

lemma integer_source_spelled:
  assumes "integer_source source" "od_constant source = Some (CInt i)"
  shows "\<exists>s. integerLiteral st source = Some s \<and> c_integer s = Some i"
proof -
  let ?t = "od_type source"
  have i: "?t \<in> set integer_types" "fits ?t i"
    "if od_negative source then i \<le> 0 \<and> IsSignedInteger ?t else 0 \<le> i"
    using assms by (auto elim!: integer_sourceE)
  note valid = integer_source_valid [OF assms(1), of st]
  have u: "Uint64Val \<bar>i\<bar> = (\<bar>i\<bar>, True)"
    using fits_magnitude(1) [OF i(1,2)] by (simp add: Uint64Val_def take_bit_int_eq_self)
  have fit: "magnitude_fits ?t (od_negative source) \<bar>i\<bar>"
    using fits_magnitude(2,3) [OF i(1,2)] i(3) by (cases "i = 0"; cases "od_negative source"; simp)
  show ?thesis
  proof (cases "od_negative source \<and> \<bar>i\<bar> = 2 ^ (ty_bits ?t - 1) \<and> IsSignedInteger ?t")
    case True
    then have t: "i = - (2 ^ (ty_bits ?t - 1))" "?t \<in> set signed_types"
      using i by (auto elim: integer_type_cases dest: unsigned_type_facts)
    have "integerLiteral st source = signedMinimumMacro ?t"
      using valid u fit True assms(2) by (simp add: integerLiteral_def)
    moreover from t(2) consider "?t = Int8" | "?t = Int16" | "?t = Int32" | "?t = Int64"
      by (auto simp: signed_types_def)
    then have "\<exists>s. signedMinimumMacro ?t = Some s \<and> c_integer s = Some i"
      by cases (simp_all add: t(1) signedMinimumMacro_def c_integer_def)
    ultimately show ?thesis by simp
  next
    case False
    have unsigned: "od_negative source \<Longrightarrow> \<not> Equal ?t UInt64"
      using i(3) by (cases rule: integer_type_cases [OF i(1)]) (auto simp: signed_types_def Equal_def dest: unsigned_type_facts)
    from False have "integerLiteral st source
        = Some (spell_integer ?t (od_negative source) (od_radix source) (nat \<bar>i\<bar>))"
      using valid u fit assms(2) by (auto simp: integerLiteral_def)
    with unsigned i(3) show ?thesis by (auto simp: c_integer_spelled)
  qed
qed

end
