(* ===== verification/ConstantChecked.thy ===== *)
theory ConstantChecked
  imports ConstantLaws
begin

text \<open>
  The invariant of checked scalar expressions: every constant of an integer type that the checker
  makes, by reading a literal or by folding an operation, is a value of its type with a sign mark and
  a literal text that agree with it. The invariant is proved of each folding operation and then of
  every expression.
\<close>

section \<open>Scalar types\<close>

definition scalar_types :: "htype list" where
  "scalar_types = Bool_type # Float32 # Float64 # integer_types"

lemma Bool_type_facts [simp]: "\<not> IsInteger Bool_type" "\<not> IsFloat Bool_type"
  by (simp_all add: IsInteger_def IsFloat_def)

lemma Float_type_facts [simp]: "\<not> IsInteger Float32" "\<not> IsInteger Float64" "IsFloat Float32" "IsFloat Float64"
  by (simp_all add: IsInteger_def IsFloat_def)

lemma scalar_integer: "t \<in> set scalar_types \<Longrightarrow> IsInteger t \<Longrightarrow> t \<in> set integer_types"
  by (auto simp: scalar_types_def)

lemma scalar_members [simp]: "Bool_type \<in> set scalar_types" "Float64 \<in> set scalar_types" "Int32 \<in> set scalar_types"
  "Int32 \<in> set integer_types"
  by (simp_all add: scalar_types_def integer_types_def signed_types_def)

lemma scalar_Equal: "s \<in> set scalar_types \<Longrightarrow> t \<in> set scalar_types \<Longrightarrow> Equal s t \<Longrightarrow> s = t"
  by (auto simp: scalar_types_def integer_types_def signed_types_def unsigned_types_def Equal_def)

lemma scalar_names_distinct: "distinct (map ty_name scalar_types)"
  by (simp add: scalar_types_def integer_types_def signed_types_def unsigned_types_def scalar_defs scalarType_def)

lemma scalar_name_inject: "s \<in> set scalar_types \<Longrightarrow> t \<in> set scalar_types \<Longrightarrow> ty_name s = ty_name t \<Longrightarrow> s = t"
  using scalar_names_distinct by (auto simp: distinct_map inj_on_def)

section \<open>Common types\<close>

lemma wider_types:
  assumes "s \<in> set scalar_types" "w \<in> set (losslessWideningSet s)"
  shows "w \<in> set scalar_types" "IsInteger w \<Longrightarrow> IsInteger s"
proof -
  have fixed: "set fixed_width \<subseteq> set scalar_types"
    by (auto simp: fixed_width_def scalar_types_def integer_types_def signed_types_def unsigned_types_def)
  have w: "w = s \<or> (\<exists>a b. SpecID s = Some a \<and> b \<in> set (WideningTargets a) \<and> ResolveSpecID b = Some w)"
    using assms(2) by (cases "SpecID s") (auto simp: losslessWideningSet_def set_map_filter split: if_splits)
  then show "w \<in> set scalar_types" using assms(1) resolve_target fixed by fastforce
  show "IsInteger s" if "IsInteger w"
  proof (rule ccontr)
    assume "\<not> IsInteger s"
    with assms have "s = Float32 \<or> s = Float64"
      by (auto simp: scalar_types_def losslessWideningSet_def dest: integer_type_facts(1))
    with w that \<open>\<not> IsInteger s\<close> show False by (auto simp: WideningTargets_simps ResolveSpecID_simps)
  qed
qed

lemma foldl_better_candidate_member:
  "map_option fst (foldl better_candidate best ts) = Some t \<Longrightarrow> t \<in> set ts \<or> map_option fst best = Some t"
  by (induction ts arbitrary: best) (fastforce simp: better_candidate_def split: option.splits if_splits)+

lemma common_type_scalar:
  assumes "LosslessCommonType l r = Some c" "l \<in> set scalar_types" "r \<in> set scalar_types"
  shows "c \<in> set scalar_types" "IsInteger c \<Longrightarrow> IsInteger l \<and> IsInteger r"
proof -
  have "(c = l \<and> l = r)
      \<or> c \<in> set (losslessWideningSet l) \<and> (\<exists>other\<in>set (losslessWideningSet r). ty_name c = ty_name other)"
    using assms scalar_Equal foldl_better_candidate_member [of None]
    by (fastforce simp: LosslessCommonType_def Let_def split: if_splits)
  then show "c \<in> set scalar_types" "IsInteger c \<Longrightarrow> IsInteger l \<and> IsInteger r"
    using assms(2,3) wider_types scalar_name_inject by metis+
qed

section \<open>The invariant\<close>

definition source_ok :: "operand \<Rightarrow> bool" where
  "source_ok source \<longleftrightarrow>
     od_type source \<in> set scalar_types
       \<and> (od_is_constant source \<and> IsInteger (od_type source) \<longrightarrow> integer_source source)"

definition outcome_ok :: "fold_outcome \<Rightarrow> bool" where
  "outcome_ok outcome =
     (case outcome of Folded source \<Rightarrow> source_ok source | Runtime t result \<Rightarrow> result \<in> set scalar_types | _ \<Rightarrow> True)"

lemma outcome_ok_simps [simp]:
  "outcome_ok (Folded source) = source_ok source" "outcome_ok (Runtime t result) = (result \<in> set scalar_types)"
  "outcome_ok (Refused d)" "outcome_ok Panics"
  by (simp_all add: outcome_ok_def)

definition expression_ok :: "checked_expression \<Rightarrow> bool" where
  "expression_ok e \<longleftrightarrow> ce_type e = od_type (ce_source e) \<and> source_ok (ce_source e)"

lemma expression_ok_type: "expression_ok e \<Longrightarrow> ce_type e \<in> set scalar_types"
  by (simp add: expression_ok_def source_ok_def)

lemma fold_checked_ok: "outcome_ok outcome \<Longrightarrow> fold_checked outcome = Checked e \<Longrightarrow> expression_ok e"
  by (cases outcome) (auto simp: expression_ok_def folded_expression_def runtime_operand_def source_ok_def)

lemma expression_constant:
  assumes "expression_ok e" "IsInteger (ce_type e)" "od_is_constant (ce_source e)"
  shows "\<exists>i. od_constant (ce_source e) = Some (CInt i) \<and> fits (ce_type e) i"
  using assms by (auto simp: expression_ok_def source_ok_def elim: integer_sourceE)

section \<open>Literals\<close>

lemma contextual_integer: "(\<And>t. expected = Some t \<Longrightarrow> t \<in> set scalar_types) \<Longrightarrow> contextualIntegerType expected \<in> set integer_types"
  by (auto simp: contextualIntegerType_def scalar_integer split: option.splits)

lemma contextual_float: "(\<And>t. expected = Some t \<Longrightarrow> t \<in> set scalar_types) \<Longrightarrow> contextualFloatType expected \<in> set scalar_types"
  by (auto simp: contextualFloatType_def split: option.splits)

lemma integerInitializer_ok:
  assumes "integer_lexeme text radix" "t \<in> set integer_types" "negative \<Longrightarrow> IsSignedInteger t"
  shows "outcome_ok (integerInitializer text radix t negative)"
proof -
  obtain m where m: "0 \<le> m" "MakeIntLiteral (without_underscores text) = CInt m"
    "m < 2 ^ 64 \<longrightarrow> parseIntegerLiteral (without_underscores text) radix = Some (CInt m, False)"
    using literal_readings_agree [OF assms(1)] by blast
  let ?v = "if negative then - m else m"
  have "\<bar>?v\<bar> = m" using m(1) by simp
  moreover from this have "fits t ?v \<Longrightarrow> m < 2 ^ 64" using fits_magnitude(1) [OF assms(2), of ?v] by simp
  ultimately show ?thesis
    using m assms
    by (auto simp: integerInitializer_def Let_def outside_bounds source_ok_def integer_source_def constantOperand_def
        scalar_types_def)
qed

lemma floatInitializer_ok: "t \<in> set scalar_types \<Longrightarrow> IsFloat t \<Longrightarrow> outcome_ok (floatInitializer text t negative)"
  by (auto simp: floatInitializer_def Let_def source_ok_def constantOperand_def dest: integer_type_facts(2) scalar_integer)

section \<open>Folded operations\<close>

lemma foldedIntegerResult_ok:
  assumes "t \<in> set scalar_types" "t \<in> set integer_types \<Longrightarrow> \<exists>i. v = CInt i \<and> fits t i"
  shows "source_ok (foldedIntegerResult v t)"
proof (cases "IsInteger t")
  case True
  then have t: "t \<in> set integer_types" using assms(1) scalar_integer by blast
  then obtain i where i: "v = CInt i" "fits t i" using assms(2) by blast
  have "i < 0 \<Longrightarrow> IsSignedInteger t" using i(2) by (auto simp: fits_def split: if_splits)
  then show ?thesis
    using t i assms(1) parse_exact_string [OF fits_magnitude(1) [OF t i(2)]]
    by (auto simp: source_ok_def foldedIntegerResult_def constantOperand_def integer_source_def Sign_def)
qed (simp add: source_ok_def foldedIntegerResult_def constantOperand_def assms(1))

lemma foldedBoolResult_ok [simp]: "source_ok (foldedBoolResult b)"
  by (simp add: source_ok_def foldedBoolResult_def constantOperand_def)

lemma foldedFloatResult_ok: "t \<in> set scalar_types \<Longrightarrow> \<not> IsInteger t \<Longrightarrow> source_ok (foldedFloatResult t bits)"
  by (simp add: source_ok_def foldedFloatResult_def constantOperand_def Let_def)

lemma folded_integer_ok:
  assumes "t \<in> set scalar_types" "t \<in> set integer_types \<Longrightarrow> v = None \<or> (\<exists>i. v = Some (CInt i))"
  shows "outcome_ok (folded_integer t t v)"
proof (cases "t \<in> set integer_types")
  case True
  then show ?thesis
    using assms wrapIntegerConstant_int [OF True] wrapped_fits [OF True]
    by (auto simp: folded_integer_def intro!: foldedIntegerResult_ok)
next
  case False
  then show ?thesis
    using assms(1) by (auto simp: folded_integer_def intro!: foldedIntegerResult_ok split: option.splits)
qed

lemma BinaryOp_ints: "BinaryOp (CInt a) op (CInt b) = None \<or> (\<exists>i. BinaryOp (CInt a) op (CInt b) = Some (CInt i))"
  by (cases "int_op a op b") simp_all

lemma shift_constant_int: "shift_constant op (CInt a) b = None \<or> (\<exists>i. shift_constant op (CInt a) b = Some (CInt i))"
  by (cases op) (simp_all add: shift_constant_def)

lemma overflow_value_int: "t \<in> set integer_types \<Longrightarrow> \<exists>i. overflow_value op t = CInt i"
  by (simp add: overflow_value_def integerBounds_limits)

lemma foldWidenedArithmetic_ok:
  assumes "expression_ok l" "expression_ok r" "both_constant l r" "common \<in> set scalar_types"
    "IsInteger common \<Longrightarrow> IsInteger (ce_type l) \<and> IsInteger (ce_type r)"
  shows "outcome_ok (foldWidenedArithmetic op l r common)"
proof -
  have ints: "\<exists>a b. od_constant (ce_source l) = Some (CInt a) \<and> od_constant (ce_source r) = Some (CInt b)"
    if "common \<in> set integer_types"
    using assms that integer_type_facts(1) [OF that] expression_constant by (fastforce simp: both_constant_def)
  show ?thesis
  proof (cases "common \<in> set integer_types")
    case True
    from ints [OF True] obtain a b
      where ab: "od_constant (ce_source l) = Some (CInt a)" "od_constant (ce_source r) = Some (CInt b)" by blast
    obtain m where m: "overflow_value op common = CInt m" using overflow_value_int [OF True] by blast
    show ?thesis
      using ab m BinaryOp_ints [of a _ b] assms(4)
      by (auto simp: foldWidenedArithmetic_def intro!: folded_integer_ok split: option.splits)
  next
    case False
    then show ?thesis
      using assms(4) by (auto simp: foldWidenedArithmetic_def intro!: folded_integer_ok split: option.splits)
  qed
qed

lemma foldUnary_ok:
  assumes "expression_ok e"
  shows "outcome_ok (foldUnary op e (ce_type e) (unaryResultType op (ce_type e)) evaluate)"
proof -
  let ?t = "ce_type e"
  have t: "?t \<in> set scalar_types" using assms by (rule expression_ok_type)
  have int: "\<exists>i. od_constant (ce_source e) = Some (CInt i)" "?t \<in> set integer_types"
    if "IsInteger ?t" "od_is_constant (ce_source e)"
    using expression_constant [OF assms that] scalar_integer [OF t that(1)] by auto
  show ?thesis
    using t int
    by (cases op; cases "IsInteger ?t"; cases "od_is_constant (ce_source e)"; cases evaluate)
      (auto simp: foldUnary_def Let_def unaryResultType_def outside_bounds
        intro!: foldedIntegerResult_ok foldedFloatResult_ok folded_integer_ok split: option.splits bool.splits)
qed

lemma foldedFloatResultFromBinary_ok:
  "t \<in> set scalar_types \<Longrightarrow> \<not> IsInteger t \<Longrightarrow> outcome_ok (foldedFloatResultFromBinary qnan op l r t)"
  by (simp add: foldedFloatResultFromBinary_def foldedFloatResult_ok split: option.splits)

lemma foldBinary_ok:
  assumes "expression_ok l" "expression_ok r" "isConnective op \<or> Equal (ce_type l) (ce_type r)"
  shows "outcome_ok (foldBinary qnan op l r (ce_type l) (binaryResultType op (ce_type l)) evaluate)"
proof -
  let ?t = "ce_type l" and ?result = "binaryResultType op (ce_type l)"
  have t: "?t \<in> set scalar_types" "?result \<in> set scalar_types"
    using expression_ok_type [OF assms(1)] by (simp_all add: binaryResultType_def)
  have same: "ce_type r = ?t" if "\<not> isConnective op"
    using assms that scalar_Equal [OF t(1) expression_ok_type] by metis
  consider (connective) "isConnective op"
    | (arithmetic) "\<not> isConnective op" "IsInteger ?t" "isIntegerArithmetic op \<or> isBitwiseArithmetic op \<or> isShiftOperator op"
    | (other) "\<not> isConnective op" "\<not> (IsInteger ?t \<and> (isIntegerArithmetic op \<or> isBitwiseArithmetic op \<or> isShiftOperator op))"
    by blast
  then show ?thesis
  proof cases
    case connective
    then show ?thesis using t by (auto simp: foldBinary_def Let_def split: option.splits)
  next
    case arithmetic
    then have result: "?result = ?t" "?t \<in> set integer_types"
      using scalar_integer [OF t(1)]
      by (auto simp: binaryResultType_def isComparison_def isIntegerArithmetic_def isBitwiseArithmetic_def isShiftOperator_def)
    obtain m where m: "overflow_value op ?t = CInt m" using overflow_value_int [OF result(2)] by blast
    have folded: "outcome_ok (folded_integer ?t ?t (Some (if c then overflow_value op ?t else v)))"
      if "Some v = (if isShiftOperator op then shift_constant operation (CInt a) (CInt b)
                    else BinaryOp (CInt a) operation (CInt b))" for c v operation a b
      using that t(1) m BinaryOp_ints [of a operation b] shift_constant_int [of operation a "CInt b"]
      by (intro folded_integer_ok) (auto split: if_splits)
    have ints: "\<exists>a b. od_constant (ce_source l) = Some (CInt a) \<and> od_constant (ce_source r) = Some (CInt b)"
      if "od_is_constant (ce_source l)" "od_is_constant (ce_source r)"
      using expression_constant [OF assms(1)] expression_constant [OF assms(2)] same arithmetic that by fastforce
    show ?thesis
    proof (cases "od_is_constant (ce_source l) \<and> od_is_constant (ce_source r)")
      case True
      with ints obtain a b
        where "od_constant (ce_source l) = Some (CInt a)" "od_constant (ce_source r) = Some (CInt b)" by blast
      then show ?thesis
        using arithmetic t True folded [OF sym] unfolding foldBinary_def Let_def result
        by (auto split: option.splits)
    qed (use arithmetic t in \<open>auto simp: foldBinary_def Let_def split: option.splits\<close>)
  next
    case other
    have "\<not> IsInteger ?t \<and> ?result = ?t" if "IsFloat ?t" "isFloatArithmetic op"
      using that t(1) integer_type_facts(2)
      by (auto simp: scalar_types_def binaryResultType_def isComparison_def isConnective_def isFloatArithmetic_def)
    then show ?thesis
      using other t foldedFloatResultFromBinary_ok [OF t(1)] unfolding foldBinary_def Let_def
      by (auto split: option.splits)
  qed
qed

section \<open>Binary operations\<close>

lemma widened_arithmetic_ok:
  assumes "expression_ok l" "expression_ok r"
  shows "outcome_ok (widened_arithmetic op l r evaluate)"
  using common_type_scalar [OF _ expression_ok_type [OF assms(1)] expression_ok_type [OF assms(2)]]
  by (auto simp: widened_arithmetic_def intro: foldWidenedArithmetic_ok [OF assms] split: option.splits)

lemma bitwise_arithmetic_ok:
  assumes "expression_ok l" "expression_ok r"
  shows "outcome_ok (bitwise_arithmetic op l r evaluate)"
  using common_type_scalar [OF _ expression_ok_type [OF assms(1)] expression_ok_type [OF assms(2)]]
    expression_ok_type [OF assms(1)]
  by (auto simp: bitwise_arithmetic_def isBitwiseEligible_def intro: foldWidenedArithmetic_ok [OF assms]
      split: option.splits)

lemma shift_operation_ok:
  assumes "expression_ok l" "expression_ok r"
  shows "outcome_ok (shift_operation op l r evaluate)"
proof -
  let ?t = "ce_type l"
  have t: "?t \<in> set scalar_types" by (rule expression_ok_type [OF assms(1)])
  have "outcome_ok (folded_integer ?t ?t (shift_constant operation a b))"
    if "IsInteger ?t" "od_is_constant (ce_source l)" "od_constant (ce_source l) = Some a" for operation a b
    using expression_constant [OF assms(1) that(1,2)] that(3) shift_constant_int [of operation _ b]
    by (intro folded_integer_ok [OF t]) auto
  then show ?thesis
    using t by (auto simp: shift_operation_def Let_def isBitwiseEligible_def both_constant_def split: option.splits)
qed

lemma scalar_binary_ok:
  assumes "expression_ok l" "expression_ok r"
  shows "outcome_ok (scalar_binary qnan op l r evaluate)"
proof -
  have compared: "scalar_comparison op (ce_type l) (ce_type r) = Some outcome \<Longrightarrow> outcome_ok outcome" for outcome
    by (auto simp: scalar_comparison_def Let_def split: if_splits option.splits)
  show ?thesis
    using assms compared
    by (auto simp: scalar_binary_def Let_def split: option.splits
        intro: widened_arithmetic_ok bitwise_arithmetic_ok shift_operation_ok foldBinary_ok)
qed

section \<open>Expressions\<close>

abbreviation type_ok :: "htype option \<Rightarrow> bool" where
  "type_ok context \<equiv> \<forall>t. context = Some t \<longrightarrow> t \<in> set scalar_types"

lemma operandContextType_ok: "type_ok expected \<Longrightarrow> type_ok (operandContextType op expected)"
  by (auto simp: operandContextType_def split: option.splits if_splits)

lemma binaryOperandType_ok:
  "type_ok expected \<Longrightarrow> type_ok (hint_type l) \<Longrightarrow> type_ok (hint_type r) \<Longrightarrow> type_ok (binaryOperandType op expected l r)"
  by (auto simp: binaryOperandType_def)

lemma integer_scalar: "t \<in> set integer_types \<Longrightarrow> t \<in> set scalar_types"
  by (simp add: scalar_types_def)

lemma negatedLiteralType_ok: "type_ok expected \<Longrightarrow> negatedLiteralType literal expected \<in> set scalar_types"
  by (cases literal) (simp_all add: negatedLiteralType_def contextual_integer integer_scalar contextual_float)

lemma result_types_ok:
  "t \<in> set scalar_types \<Longrightarrow> unaryResultType op t \<in> set scalar_types"
  "t \<in> set scalar_types \<Longrightarrow> binaryResultType op t \<in> set scalar_types"
  by (simp_all add: unaryResultType_def binaryResultType_def)

lemma inferExpressionType_ok:
  "inferExpressionType e expected = Some (Inr hint) \<Longrightarrow> type_ok expected \<Longrightarrow> type_ok (hint_type hint)"
proof (induction e expected arbitrary: hint rule: inferExpressionType.induct)
  case (1 tok expected)
  then show ?case by (auto simp: contextual_integer integer_scalar)
next
  case (2 tok expected)
  then show ?case by (auto simp: contextual_float)
next
  case (3 tok literal expected)
  then show ?case by (auto simp: negatedLiteralType_ok)
next
  case (5 tok operand expected)
  obtain op h where "unary_operator (tk_kind tok) = Some op"
    "inferExpressionType operand (operandContextType op expected) = Some (Inr h)"
    "hint_type hint = map_option (unaryResultType op) (hint_type h)"
    using "5.prems"(1) by (auto simp: infer_unary_def split: option.splits sum.splits)
  with "5.IH" operandContextType_ok [OF "5.prems"(2)] show ?case by (auto simp: result_types_ok)
next
  case (6 left tok right expected)
  obtain op l r where op: "binary_operator (tk_kind tok) = Some op"
    "inferExpressionType left (operandContextType op expected) = Some (Inr l)"
    "inferExpressionType right (operandContextType op expected) = Some (Inr r)"
    "hint_type hint = map_option (binaryResultType op) (binaryOperandType op (operandContextType op expected) l r)"
    using "6.prems"(1) by (auto simp: infer_binary_def Let_def split: option.splits sum.splits)
  note ctx = operandContextType_ok [OF "6.prems"(2), of op]
  have "type_ok (hint_type l)" "type_ok (hint_type r)"
    using "6.IH" op ctx by (simp_all add: Let_def)
  from binaryOperandType_ok [OF ctx this] show ?case using op(4) by (auto simp: result_types_ok)
qed simp_all

text \<open>The integer tokens of an expression are of the lexer's forms.\<close>

fun literals_ok :: "expr \<Rightarrow> bool" where
  "literals_ok (IntegerLiteral tok) = integer_lexeme (tk_lexeme tok) (literalRadix (tk_kind tok))"
| "literals_ok (NegatedNumericLiteral tok literal) = literals_ok literal"
| "literals_ok (UnaryExpression tok operand) = literals_ok operand"
| "literals_ok (BinaryExpression left tok right) = (literals_ok left \<and> literals_ok right)"
| "literals_ok _ = True"

lemma negatedInitializer_ok:
  assumes "literals_ok literal" "type_ok expected"
  shows "outcome_ok (negatedInitializer literal expected)"
proof -
  have signed: "IsSignedInteger (contextualIntegerType expected)"
    if "\<not> (case expected of Some t \<Rightarrow> IsUnsignedInteger t | None \<Rightarrow> False)"
    using that by (auto simp: contextualIntegerType_def IsInteger_def IsSignedInteger_def IsUnsignedInteger_def split: option.splits)
  have float: "IsFloat (contextualFloatType expected)"
    by (simp add: contextualFloatType_def split: option.splits)
  show ?thesis
  proof (cases literal)
    case (IntegerLiteral tok)
    then show ?thesis
      using assms signed by (auto simp: negatedInitializer_def intro!: integerInitializer_ok contextual_integer)
  next
    case (DecimalLiteral tok)
    then show ?thesis
      using assms(2) float by (auto simp: negatedInitializer_def intro!: floatInitializer_ok contextual_float)
  qed (simp_all add: negatedInitializer_def)
qed

lemma unary_operand_type_ok:
  assumes "type_ok expected" "type_ok (hint_type hint)"
  shows "type_ok (unary_operand_type op expected hint)"
proof -
  have "unary_operand_type op expected hint \<in> {operandContextType op expected, hint_type hint}"
    by (simp add: unary_operand_type_def split: option.split bool.split)
  then show ?thesis using operandContextType_ok [OF assms(1), of op] assms(2) by (elim insertE emptyE) simp_all
qed

lemma check_unary_ok:
  assumes "check_unary op checked evaluate = Checked e" "\<And>x. checked = Checked x \<Longrightarrow> expression_ok x"
  shows "expression_ok e"
proof (cases checked)
  case (Checked x)
  then show ?thesis
    using assms fold_checked_ok [OF foldUnary_ok [of x op evaluate]] by (auto simp: check_unary_def split: if_splits)
qed (use assms in \<open>simp_all add: check_unary_def\<close>)

lemma check_binary_Checked:
  "check_binary qnan op left right evaluate = Checked e
     \<Longrightarrow> \<exists>l r. left = Checked l \<and> right = Checked r \<and> fold_checked (scalar_binary qnan op l r evaluate) = Checked e"
  by (cases left; cases right) auto

lemma checkScalarExpression_ok:
  "checkScalarExpression qnan e expected evaluate = Checked c \<Longrightarrow> literals_ok e \<Longrightarrow> type_ok expected \<Longrightarrow> expression_ok c"
proof (induction qnan e expected evaluate arbitrary: c rule: checkScalarExpression.induct)
  case (1 qnan tok expected evaluate)
  have "outcome_ok (integerInitializer (tk_lexeme tok) (literalRadix (tk_kind tok)) (contextualIntegerType expected) False)"
    using 1 by (intro integerInitializer_ok contextual_integer) simp_all
  then show ?case using 1 fold_checked_ok by simp
next
  case (2 qnan tok expected evaluate)
  have "IsFloat (contextualFloatType expected)" by (simp add: contextualFloatType_def split: option.splits)
  then have "outcome_ok (floatInitializer (tk_lexeme tok) (contextualFloatType expected) False)"
    using 2 by (intro floatInitializer_ok contextual_float) simp_all
  then show ?case using 2 fold_checked_ok by simp
next
  case (3 qnan tok literal expected evaluate)
  then have "outcome_ok (negatedInitializer literal expected)" by (intro negatedInitializer_ok) simp_all
  then show ?case using 3 fold_checked_ok by simp
next
  case (4 qnan tok expected evaluate)
  then show ?case
    by (auto simp: expression_ok_def folded_expression_def source_ok_def constantOperand_def)
next
  case (5 qnan tok operand expected evaluate)
  from "5.prems"(1) obtain op hint where op: "unary_operator (tk_kind tok) = Some op"
    "inferExpressionType operand (operandContextType op expected) = Some (Inr hint)"
    "check_unary op (checkScalarExpression qnan operand (unary_operand_type op expected hint) evaluate) evaluate = Checked c"
    by (auto split: option.splits sum.splits)
  have "type_ok (unary_operand_type op expected hint)"
    using unary_operand_type_ok inferExpressionType_ok [OF op(2) operandContextType_ok] "5.prems"(3) by blast
  then show ?case using "5.IH" [OF op(1,2) refl] "5.prems"(2) by (intro check_unary_ok [OF op(3)]) auto
next
  case (6 qnan left tok right expected evaluate)
  from "6.prems"(1) obtain op l r where op: "binary_operator (tk_kind tok) = Some op"
    "inferExpressionType left (operandContextType op expected) = Some (Inr l)"
    "inferExpressionType right (operandContextType op expected) = Some (Inr r)"
    by (auto simp: Let_def split: option.splits sum.splits)
  let ?t = "binaryOperandType op (operandContextType op expected) l r"
  let ?left = "checkScalarExpression qnan left ?t evaluate"
  let ?right = "checkScalarExpression qnan right ?t (right_evaluation op ?left evaluate)"
  have "check_binary qnan op ?left ?right evaluate = Checked c" using "6.prems"(1) op by (simp add: Let_def)
  then obtain x y where xy: "?left = Checked x" "?right = Checked y"
    "fold_checked (scalar_binary qnan op x y evaluate) = Checked c"
    using check_binary_Checked by blast
  note ctx = operandContextType_ok [OF "6.prems"(3), of op]
  have t: "type_ok ?t"
    using binaryOperandType_ok [OF ctx inferExpressionType_ok [OF op(2) ctx] inferExpressionType_ok [OF op(3) ctx]] .
  have hints: "(Some (Inr l), Some (Inr r))
      = (inferExpressionType left (operandContextType op expected), inferExpressionType right (operandContextType op expected))"
    using op by simp
  have "expression_ok x"
    using "6.IH"(1) [OF op(1) refl hints refl refl refl refl refl xy(1)] "6.prems"(2) t by simp
  moreover have "expression_ok y"
    using "6.IH"(2) [OF op(1) refl hints refl refl refl refl refl refl xy(2)] "6.prems"(2) t by simp
  ultimately show ?case using fold_checked_ok [OF scalar_binary_ok xy(3)] by blast
qed simp_all

end
