(* ===== verification/ConstantMachine.thy ===== *)
theory ConstantMachine
  imports ConstantChecked "HOL-Library.Word"
begin

unbundle bit_operations_syntax

text \<open>
  Folding against the machine: the operations of the compiled program on words of the width of an
  integer type, that the exact value \<open>go/constant\<close> computes reduces to theirs, that folded floats pass
  the generator's check of their bits, and what a conversion does with a float's value.
\<close>

section \<open>Words\<close>

definition word_value :: "bool \<Rightarrow> 'a::len word \<Rightarrow> int" where
  "word_value signed_word x = (if signed_word then sint x else uint x)"

text \<open>The operation on words; \<open>None\<close> where the program is refused or traps.\<close>

definition word_operation :: "hoperator \<Rightarrow> bool \<Rightarrow> 'a::len word \<Rightarrow> 'a word \<Rightarrow> 'a word option" where
  "word_operation op signed_word x y =
     (let count = word_value signed_word y
      in case op of
        AddOperator \<Rightarrow> Some (x + y)
      | SubtractOperator \<Rightarrow> Some (x - y)
      | MultiplyOperator \<Rightarrow> Some (x * y)
      | DivideOperator \<Rightarrow>
          if y = 0 then None else Some (if signed_word then word_of_int (sint x sdiv sint y) else x div y)
      | RemainderOperator \<Rightarrow>
          if y = 0 then None else Some (if signed_word then word_of_int (sint x smod sint y) else x mod y)
      | BitwiseAndOperator \<Rightarrow> Some (x AND y)
      | BitwiseXorOperator \<Rightarrow> Some (x XOR y)
      | BitwiseOrOperator \<Rightarrow> Some (x OR y)
      | ShiftLeftOperator \<Rightarrow>
          if 0 \<le> count \<and> count < int LENGTH('a) then Some (push_bit (nat count) x) else None
      | ShiftRightOperator \<Rightarrow>
          if 0 \<le> count \<and> count < int LENGTH('a)
          then Some (if signed_word then signed_drop_bit (nat count) x else drop_bit (nat count) x)
          else None
      | _ \<Rightarrow> None)"

lemma word_of_word_value [simp]: "word_of_int (word_value s x) = x"
  by (simp add: word_value_def)

lemma word_value_of_int:
  fixes i :: int
  assumes "LENGTH('a::len) = ty_bits t"
  shows "word_value (IsSignedInteger t) (word_of_int i :: 'a word) = machine_reduce t i"
  using assms by (simp add: word_value_def machine_reduce_def sint_sbintrunc' uint_word_of_int_eq)

lemma word_value_fits:
  fixes x :: "'a::len word"
  assumes "LENGTH('a) = ty_bits t"
  shows "fits t (word_value (IsSignedInteger t) x)"
  using assms sint_greater_eq [of x] sint_less [of x] uint_lt2p [of x] by (auto simp: fits_def word_value_def)

lemma word_value_eq_0 [simp]: "word_value s (x :: 'a::len word) = 0 \<longleftrightarrow> x = 0"
proof
  assume "word_value s x = 0"
  then have "(word_of_int (word_value s x) :: 'a word) = 0" by simp
  then show "x = 0" by simp
qed (simp add: word_value_def)

text \<open>What \<open>go/constant\<close> computes, seen as a word.\<close>

lemma exact_operation:
  fixes x y :: "'a::len word"
  assumes "word_operation op s x y = Some z" "\<not> isShiftOperator op" "integerConstantOperator op = Some operation"
    "LENGTH('a) < 64"
  shows "\<exists>i. BinaryOp (CInt (word_value s x)) operation (CInt (word_value s y)) = Some (CInt i) \<and> word_of_int i = z"
proof -
  have small: "- (2 ^ 63) < sint x"
  proof -
    have "(2 :: int) ^ (LENGTH('a) - Suc 0) < 2 ^ 63" using assms(4) by (intro power_strict_increasing) auto
    then show ?thesis using sint_greater_eq [of x] by simp
  qed
  have div: "uint x sdiv uint y = uint x div uint y" "uint x smod uint y = uint x mod uint y"
    by (cases "uint x = 0"; cases "uint y = 0";
        simp add: signed_divide_int_def signed_modulo_int_def sgn_if minus_div_mult_eq_mod less_le)+
  have zero: "sint y = 0 \<longleftrightarrow> y = 0" "uint y = 0 \<longleftrightarrow> y = 0"
    using word_value_eq_0 [of True y] word_value_eq_0 [of False y] by (simp_all add: word_value_def)
  have unsigned: "uint x \<noteq> - 9223372036854775808" using uint_ge_0 [of x] by linarith
  show ?thesis
    using assms(1-3) small zero unsigned
    by (cases op)
      (auto simp: word_operation_def isShiftOperator_def word_value_def Let_def div of_int_and_eq of_int_or_eq of_int_xor_eq
        simp flip: uint_div uint_mod split: if_splits)
qed

lemma exact_shift:
  fixes x y :: "'a::len word"
  assumes "word_operation op s x y = Some z" "isShiftOperator op" "integerConstantOperator op = Some operation"
    "LENGTH('a) < 64"
  shows "\<exists>i. shift_constant operation (CInt (word_value s x)) (CInt (word_value s y)) = Some (CInt i) \<and> word_of_int i = z"
    "0 \<le> word_value s y" "word_value s y < int LENGTH('a)"
proof -
  show c: "0 \<le> word_value s y" "word_value s y < int LENGTH('a)"
    using assms(1,2) by (auto simp: word_operation_def isShiftOperator_def Let_def split: if_splits)
  let ?n = "nat (word_value s y)"
  have n: "nat (fst (Uint64Val (word_value s y))) = ?n"
    using c assms(4) by (simp add: Uint64Val_def take_bit_int_eq_self)
  have left: "word_of_int (word_value s x * 2 ^ ?n) = push_bit ?n x"
    by (simp add: push_bit_eq_mult)
  have drop: "drop_bit ?n (uint x) = uint (drop_bit ?n x)"
    by (simp add: unsigned_drop_bit_eq take_bit_int_eq_self uint_lt2p)
  have right: "word_of_int (word_value s x div 2 ^ ?n) = (if s then signed_drop_bit ?n x else drop_bit ?n x)"
    using drop unfolding word_value_def drop_bit_eq_div [symmetric]
    by (cases s) (simp_all only: if_True if_False sint_signed_drop_bit_eq [symmetric] of_int_sint of_int_uint scast_id ucast_id)
  show "\<exists>i. shift_constant operation (CInt (word_value s x)) (CInt (word_value s y)) = Some (CInt i) \<and> word_of_int i = z"
    using assms(1-3) c left right n
    by (auto simp: isShiftOperator_def word_operation_def shift_constant_def Let_def)
qed

text \<open>Where each operator goes.\<close>

definition constant_source :: "operand \<Rightarrow> int \<Rightarrow> bool" where
  "constant_source source i \<longleftrightarrow> od_is_constant source \<and> od_constant source = Some (CInt i)"

lemma staticConstantValue_source:
  "constant_source (ce_source e) i \<Longrightarrow> staticConstantValue e = Some (CInt i)"
  by (simp add: constant_source_def staticConstantValue_def)

lemma arithmetic_allowed:
  assumes "t \<in> set integer_types" "isIntegerArithmetic op"
  shows "operatorAllowsType op t"
proof -
  have ids: "SpecID t \<in> Some ` set integerIdentities" "set integerIdentities \<subseteq> set numericIdentities"
    using assms(1) by (auto simp: integer_types_def signed_types_def unsigned_types_def integerIdentities_def numericIdentities_def)
  have "\<exists>row. Option.bind (operatorIdentity op) Operator_row = Some row \<and> set integerIdentities \<subseteq> set (os_operands row)"
    using assms(2) ids(2) by (cases op) (simp_all add: isIntegerArithmetic_def Operator_row_def operators_def Let_def)
  then show ?thesis using ids(1) by (auto simp: operatorAllowsType_def)
qed

lemma folded_word:
  fixes i :: int
  assumes "t \<in> set integer_types" "ty_bits t < 64" "LENGTH('a::len) = ty_bits t"
  shows "folded_integer t t (Some (CInt i))
    = Folded (foldedIntegerResult (CInt (word_value (IsSignedInteger t) (word_of_int i :: 'a word))) t)"
  using assms by (simp add: folded_integer_def wrapIntegerConstant_int wrapped_machine word_value_of_int)

text \<open>A signed minimum divided by minus one, as a word.\<close>

lemma overflow_word:
  fixes x y :: "'a::len word"
  assumes "t \<in> set integer_types" "LENGTH('a) = ty_bits t" "IsSignedInteger t"
    "signed_overflow (CInt (sint x)) (CInt (sint y)) t"
    "word_operation op True x y = Some z" "op \<in> {DivideOperator, RemainderOperator}"
  shows "\<exists>i. overflow_value op t = CInt i \<and> word_of_int i = z"
proof -
  have xy: "sint x = fst (limits_of t)" "sint y = - 1"
    using assms(4) by (simp_all add: signed_overflow_def integerBounds_limits [OF assms(1)])
  have divide: "sint x sdiv - 1 = - sint x" "sint x smod - 1 = 0"
    by (simp_all add: signed_divide_int_def signed_modulo_int_def sgn_if abs_if)
  have zero: "y \<noteq> 0" using xy(2) by auto
  have "- x = x"
  proof -
    have "sint x + sint x = - (2 ^ LENGTH('a))"
      using xy(1) assms(2,3) len_gt_0 [where 'a = 'a] by (simp add: limits_of_def mult_2 [symmetric] flip: power_Suc)
    then have "(word_of_int (sint x + sint x) :: 'a word) = 0" using word_of_int_2p_len [where 'a = 'a] by simp
    then have "x + x = 0" by simp
    then show ?thesis by (simp add: minus_unique)
  qed
  then have z: "z = (if op = RemainderOperator then 0 else x)"
    using assms(5,6) divide zero by (auto simp: word_operation_def xy(2) Let_def)
  have "overflow_value op t = CInt (if op = RemainderOperator then 0 else sint x)"
    by (simp add: overflow_value_def integerBounds_limits [OF assms(1)] xy(1))
  then show ?thesis by (simp add: z)
qed

text \<open>Two constants of one type below 64 bits, and the word operation on them.\<close>

definition word_operands ::
  "htype \<Rightarrow> hoperator \<Rightarrow> checked_expression \<Rightarrow> checked_expression \<Rightarrow> 'a::len word \<Rightarrow> 'a word \<Rightarrow> 'a word \<Rightarrow> bool" where
  "word_operands t op l r x y z \<longleftrightarrow>
     t \<in> set integer_types \<and> LENGTH('a) = ty_bits t \<and> ty_bits t < 64 \<and> ce_type l = t \<and> ce_type r = t
       \<and> constant_source (ce_source l) (word_value (IsSignedInteger t) x)
       \<and> constant_source (ce_source r) (word_value (IsSignedInteger t) y)
       \<and> word_operation op (IsSignedInteger t) x y = Some z"

definition word_folded :: "htype \<Rightarrow> 'a::len word \<Rightarrow> fold_outcome" where
  "word_folded t z = Folded (foldedIntegerResult (CInt (word_value (IsSignedInteger t) z)) t)"

lemma word_operands_facts:
  fixes x y z :: "'a::len word"
  assumes "word_operands t op l r x y z"
  shows "IsInteger t" "\<not> IsFloat t" "ce_type l = t" "ce_type r = t"
    "od_is_constant (ce_source l)" "od_constant (ce_source l) = Some (CInt (word_value (IsSignedInteger t) x))"
    "od_is_constant (ce_source r)" "od_constant (ce_source r) = Some (CInt (word_value (IsSignedInteger t) y))"
    "staticConstantValue r = Some (CInt (word_value (IsSignedInteger t) y))"
    "word_of_int i = z \<Longrightarrow> folded_integer t t (Some (CInt i)) = word_folded t z"
  using assms integer_type_facts(1,2) staticConstantValue_source folded_word [where 'a = 'a]
  by (auto simp: word_operands_def constant_source_def word_folded_def)

lemma fold_bitwise_words:
  fixes x y z :: "'a::len word"
  assumes "word_operands t op l r x y z" "isBitwiseArithmetic op"
  shows "bitwise_arithmetic op l r True = word_folded t z"
proof -
  obtain operation where operation: "integerConstantOperator op = Some operation"
    using assms(2) by (cases op) (simp_all add: isBitwiseArithmetic_def)
  have w: "word_operation op (IsSignedInteger t) x y = Some z" "LENGTH('a) = ty_bits t" "ty_bits t < 64"
    using assms(1) by (simp_all add: word_operands_def)
  have op: "\<not> isShiftOperator op" "op \<noteq> DivideOperator" "op \<noteq> RemainderOperator"
    using assms(2) by (auto simp: isBitwiseArithmetic_def isShiftOperator_def)
  obtain i where "BinaryOp (CInt (word_value (IsSignedInteger t) x)) operation (CInt (word_value (IsSignedInteger t) y))
      = Some (CInt i)" "word_of_int i = z"
    using exact_operation [OF w(1) op(1) operation] w by auto
  then show ?thesis
    using word_operands_facts [OF assms(1)] op operation
    by (simp add: bitwise_arithmetic_def isBitwiseEligible_def both_constant_def foldWidenedArithmetic_def
        staticDivisionDiagnostic_def)
qed

lemma fold_shift_words:
  fixes x y z :: "'a::len word"
  assumes "word_operands t op l r x y z" "isShiftOperator op"
  shows "shift_operation op l r True = word_folded t z"
proof -
  obtain operation where operation: "integerConstantOperator op = Some operation"
    using assms(2) by (cases op) (simp_all add: isShiftOperator_def)
  note facts = word_operands_facts [OF assms(1)]
  have w: "word_operation op (IsSignedInteger t) x y = Some z" "LENGTH('a) = ty_bits t" "ty_bits t < 64"
    using assms(1) by (simp_all add: word_operands_def)
  obtain i where i: "shift_constant operation (CInt (word_value (IsSignedInteger t) x)) (CInt (word_value (IsSignedInteger t) y))
      = Some (CInt i)" "word_of_int i = z"
    using exact_shift(1) [OF w(1) assms(2) operation] w by auto
  have count: "0 \<le> word_value (IsSignedInteger t) y" "word_value (IsSignedInteger t) y < int (ty_bits t)"
    using exact_shift(2,3) [OF w(1) assms(2) operation] w by auto
  then have "word_value (IsSignedInteger t) y < 2 ^ 63" using w(3) by simp
  then have "shift_count_diagnostic r t = None"
    using count facts by (simp add: shift_count_diagnostic_def Int64Val_def signed_take_bit_int_eq_self)
  then show ?thesis
    using facts i operation
    by (simp add: shift_operation_def isBitwiseEligible_def both_constant_def)
qed

lemma fold_arithmetic_words:
  fixes x y z :: "'a::len word"
  assumes "word_operands t op l r x y z" "isIntegerArithmetic op"
  shows "foldBinary qnan op l r t t True = word_folded t z"
proof -
  let ?s = "IsSignedInteger t"
  obtain operation where operation: "integerConstantOperator op = Some operation"
    using assms(2) by (cases op) (simp_all add: isIntegerArithmetic_def)
  note facts = word_operands_facts [OF assms(1)]
  have w: "word_operation op ?s x y = Some z" "LENGTH('a) = ty_bits t" "ty_bits t < 64" "t \<in> set integer_types"
    using assms(1) by (simp_all add: word_operands_def)
  have op: "\<not> isShiftOperator op" "\<not> isConnective op"
    using assms(2) by (auto simp: isIntegerArithmetic_def isShiftOperator_def isConnective_def)
  obtain i where i: "BinaryOp (CInt (word_value ?s x)) operation (CInt (word_value ?s y)) = Some (CInt i)" "word_of_int i = z"
    using exact_operation [OF w(1) op(1) operation] w by auto
  have "staticDivisionDiagnostic op r t = None"
    using facts(9) w(1) by (auto simp: staticDivisionDiagnostic_def Sign_def word_operation_def Let_def split: if_splits)
  moreover have "\<exists>j. overflow_value op t = CInt j \<and> word_of_int j = z"
    if "op \<in> {DivideOperator, RemainderOperator}" "?s" "signed_overflow (CInt (word_value ?s x)) (CInt (word_value ?s y)) t"
    using overflow_word [OF w(4,2) that(2)] that w(1) by (simp add: word_value_def)
  ultimately show ?thesis
    using facts i op operation assms(2) unfolding foldBinary_def Let_def by auto
qed

end
