(* ===== verification/ConstantFloats.thy ===== *)
theory ConstantFloats
  imports ConstantChecked
begin

unbundle bit_operations_syntax

text \<open>
  Folded floats and conversions. The bits every float operation makes are bits of the format, and a
  constant built from such bits passes the generator's check: its value rounds back to them. A
  conversion to an integer type truncates the value behind the bits.
\<close>

section \<open>Results stay in the format\<close>

lemma infinity_bits_less: "0 < ff_exponent f \<Longrightarrow> infinity_bits f < sign_weight f"
  by (simp add: infinity_bits_def sign_weight_def power_add)

lemma round_half_even_nonneg: "0 \<le> q \<Longrightarrow> 0 \<le> round_half_even q"
  by (simp add: round_half_even_def Let_def)

lemma infinity_bits_nonneg: "0 \<le> infinity_bits f"
  by (simp add: infinity_bits_def)

lemma round_magnitude_bounds:
  assumes "0 \<le> q"
  shows "0 \<le> round_magnitude f q" "round_magnitude f q \<le> infinity_bits f"
proof -
  have "0 \<le> round_half_even (q * 2 powi k)" for k :: int using assms by (intro round_half_even_nonneg) simp
  then show "0 \<le> round_magnitude f q"
    by (simp add: round_magnitude_def Let_def infinity_bits_nonneg)
  show "round_magnitude f q \<le> infinity_bits f"
    using infinity_bits_nonneg by (simp add: round_magnitude_def Let_def)
qed

lemma with_sign_format:
  assumes "0 < ff_exponent f" "0 \<le> m" "m \<le> infinity_bits f"
  shows "format_bits f (with_sign f s m)"
  using assms infinity_bits_less [OF assms(1)] by (simp add: format_bits_def with_sign_def)

lemma float_round_format: "0 < ff_exponent f \<Longrightarrow> format_bits f (float_round f q)"
  unfolding float_round_def by (rule with_sign_format) (simp_all add: round_magnitude_bounds)

lemma float_frombits_parts:
  assumes "float_frombits f bits = Finite s q"
  shows "0 \<le> q" "s = sign_bit f bits" "\<not> special_bits f bits"
proof -
  show special: "\<not> special_bits f bits"
    using assms by (auto simp: float_frombits_def special_bits_def Let_def split: if_splits)
  from float_frombits_finite [OF this] assms show "0 \<le> q" "s = sign_bit f bits" by auto
qed

definition ieee_format :: "float_format \<Rightarrow> ieee \<Rightarrow> bool" where
  "ieee_format f x = (case x of Nan a \<Rightarrow> format_bits f a | Infinite s \<Rightarrow> True | Finite s q \<Rightarrow> 0 \<le> q)"

lemma float_frombits_format: "format_bits f bits \<Longrightarrow> ieee_format f (float_frombits f bits)"
  using float_frombits_parts(1) [of f bits]
  by (auto simp: ieee_format_def float_frombits_def Let_def split: ieee.splits if_splits)

lemma float_arithmetic_format:
  assumes "0 < ff_exponent f" "format_bits f qnan" "format_bits f a" "format_bits f b"
  shows "format_bits f (float_arithmetic f qnan op a b)"
proof -
  have zero: "format_bits f (with_sign f s 0)" and inf: "format_bits f (with_sign f s (infinity_bits f))"
    and rounded: "0 \<le> q \<Longrightarrow> format_bits f (with_sign f s (round_magnitude f q))" for s q
    by (rule with_sign_format; use assms(1) infinity_bits_nonneg round_magnitude_bounds in simp)+
  note closed = zero inf rounded float_round_format [OF assms(1)] assms(2)
  have add: "format_bits f (float_add f qnan x y)" if "ieee_format f x" "ieee_format f y" for x y
    using that closed by (cases x; cases y) (auto simp: ieee_format_def Let_def)
  have mul: "format_bits f (float_mul f qnan x y)" if "ieee_format f x" "ieee_format f y" for x y
    using that closed by (cases x; cases y) (auto simp: ieee_format_def)
  have div: "format_bits f (float_div f qnan x y)" if "ieee_format f x" "ieee_format f y" for x y
    using that closed by (cases x; cases y) (auto simp: ieee_format_def)
  have neg: "ieee_format f (float_negate y)" if "ieee_format f y" for y
    using that by (cases y) (auto simp: ieee_format_def)
  show ?thesis
    using add mul div neg float_frombits_format assms(3,4) by (cases op) (simp_all add: float_arithmetic_def)
qed

lemma flip_sign_format: "format_bits f bits \<Longrightarrow> format_bits f (flip_sign f bits)"
  using XOR_upper [of bits "Suc (ff_fraction f + ff_exponent f)" "sign_weight f"] XOR_lower [of bits "sign_weight f"]
  by (simp add: format_bits_def flip_sign_def sign_weight_def)

section \<open>The generator's check of a folded float\<close>

lemma or_sign_weight:
  assumes "0 \<le> m" "m < sign_weight f"
  shows "m OR sign_weight f = sign_weight f + m" "(sign_weight f + m) OR sign_weight f = sign_weight f + m"
proof -
  let ?k = "ff_fraction f + ff_exponent f"
  have w: "sign_weight f = 2 ^ ?k" by (simp add: sign_weight_def)
  have "m AND sign_weight f = 0"
  proof (rule bit_eqI)
    fix n
    have "m div 2 ^ ?k = 0" using assms by (simp add: w)
    then have "\<not> bit m ?k" by (simp add: bit_iff_odd)
    then show "bit (m AND sign_weight f) n = bit (0 :: int) n"
      by (auto simp: bit_and_iff w bit_exp_iff)
  qed
  then show or: "m OR sign_weight f = sign_weight f + m"
    using disjunctive_add_eq_or [of m "sign_weight f"] by (simp add: add.commute)
  show "(sign_weight f + m) OR sign_weight f = sign_weight f + m"
    unfolding or [symmetric] by (simp add: or.assoc)
qed

definition float_types :: "htype list" where
  "float_types = [Float32, Float64]"

lemma float_type_facts:
  assumes "t \<in> set float_types"
  shows "IsFloat t" "\<not> IsInteger t" "t \<in> set scalar_types" "0 < ff_exponent (float_format_of t)"
    "Equal t Float32 \<Longrightarrow> sign_weight (float_format_of t) = 2 ^ 31" "Equal t Float32 \<or> Equal t Float64"
  using assms by (auto simp: float_types_def scalar_types_def float_format_of_def sign_weight_def binary32_def binary64_def)

text \<open>Rounding a signed value and marking its sign gives the bits it was read from.\<close>

lemma floatBitsForConstant_back:
  assumes "0 < ff_exponent f" "format_bits f bits" "float_frombits f bits = Finite s q"
  shows "floatBitsForConstant (CRat (signed_value s q)) f s = bits"
proof -
  note parts = float_frombits_parts [OF assms(3)]
  have m: "round_magnitude f q = exponent_bits f bits * 2 ^ ff_fraction f + fraction_bits f bits"
    using float_frombits_finite [OF parts(3)] assms(3) by auto
  have bits: "bits = with_sign f s (round_magnitude f q)"
    using format_bits_parts [OF assms(2)] m parts(2) by simp
  have range: "0 \<le> round_magnitude f q" "round_magnitude f q < sign_weight f"
    using round_magnitude_bounds [OF parts(1), of f] infinity_bits_less [OF assms(1)] by simp_all
  have "q = 0 \<Longrightarrow> round_magnitude f q = 0" by (simp add: round_magnitude_def)
  then show ?thesis
    using or_sign_weight [OF range] parts(1)
    by (subst bits) (auto simp: floatBitsForConstant_def FloatVal_def float_round_def with_sign_def signed_value_def Let_def)
qed

lemma folded_float_valid:
  assumes "t \<in> set float_types" "format_bits (float_format_of t) bits"
  shows "validateFloatConstant (foldedFloatResult t bits)"
proof -
  let ?f = "float_format_of t"
  note facts = float_type_facts [OF assms(1)]
  have small: "\<not> (Equal t Float32 \<and> 2 ^ 32 - 1 < bits)" using facts(5) assms(2) by (auto simp: format_bits_def)
  show ?thesis
  proof (cases "float_frombits ?f bits")
    case (Finite s q)
    note parts = float_frombits_parts [OF Finite]
    have "floatBitsForConstant (CRat (signed_value s q)) ?f s = bits"
      by (rule floatBitsForConstant_back [OF facts(4) assms(2) Finite])
    then show ?thesis
      using parts small facts(6) Finite
      by (auto simp: validateFloatConstant_def foldedFloatResult_def constantOperand_def floatSignAndSpecial_def
          MakeFloat64_def is_number_def Sign_def signed_value_def Let_def)
  qed (use small facts(6) in \<open>auto simp: validateFloatConstant_def foldedFloatResult_def constantOperand_def
      floatSignAndSpecial_def MakeFloat64_def float_frombits_def special_bits_def Let_def split: if_splits\<close>)
qed

section \<open>Conversions\<close>

lemma conversion_valid:
  assumes "t \<in> set scalar_types" "u \<in> set scalar_types" "t \<noteq> Bool_type" "u \<noteq> Bool_type"
  shows "conversionPairValid st t u"
proof -
  have "SpecID v \<in> Some ` set numericIdentities" if "v \<in> set scalar_types" "v \<noteq> Bool_type" for v
    using that by (auto simp: scalar_types_def integer_types_def signed_types_def unsigned_types_def numericIdentities_def)
  from this [OF assms(1,3)] this [OF assms(2,4)] show ?thesis by (auto simp: conversionPairValid_def Conversion_iff)
qed

lemma numeric_not_Bool: "t \<in> set float_types \<Longrightarrow> t \<noteq> Bool_type" "t \<in> set integer_types \<Longrightarrow> t \<noteq> Bool_type"
  using float_type_facts(1) integer_type_facts(1) Bool_type_facts by blast+

text \<open>A conversion call between scalar types, and to \<open>Rune\<close>.\<close>

lemma scalar_closed: "t \<in> set scalar_types \<Longrightarrow> \<not> ContainsTypeParameter st t \<and> \<not> IsText t"
  by (auto simp: scalar_types_def integer_types_def signed_types_def unsigned_types_def ContainsTypeParameter_def
      contains_type_parameter.simps IsText_def IsString_def scalar_defs scalarType_def StringType_def opaqueType_def)

lemma checkConversionCall_scalar:
  assumes "ce_type e \<in> set scalar_types" "target \<in> set scalar_types"
  shows "checkConversionCall st answer_type e target =
    (if IsRune target then checkRuneConversion answer_type e else ScalarConversion (checkScalarConversion st e target))"
  using scalar_closed [OF assms(1), of st] scalar_closed [OF assms(2), of st] by (simp add: checkConversionCall_def)

lemma validScalarConstant_int:
  "validScalarConstant (CInt i) \<longleftrightarrow> 0 \<le> i \<and> i \<le> 0x10FFFF \<and> \<not> (0xD800 \<le> i \<and> i \<le> 0xDFFF)"
  by (auto simp: validScalarConstant_def Sign_def)

lemma checkRuneConversion_int:
  assumes "ce_type e \<in> set integer_types" "staticConstantValue e = Some (CInt i)"
  shows "checkRuneConversion (Some u) e =
    (if 0 \<le> i \<and> i \<le> 0x10FFFF \<and> \<not> (0xD800 \<le> i \<and> i \<le> 0xDFFF) then RuneCall u
     else ConversionRefused (ConversionValueNotScalar (int_string i)))"
  using assms(2) integer_type_facts(1) [OF assms(1)]
  by (simp add: checkRuneConversion_def validScalarConstant_int Let_def)

lemma checkRuneConversion_float:
  "ce_type e \<in> set float_types \<Longrightarrow>
     checkRuneConversion answer_type e = ConversionRefused (UnsupportedConversion (ty_name (ce_type e)) (ty_name Rune_type))"
  using float_type_facts(2) by (simp add: checkRuneConversion_def Let_def)

text \<open>Rounding towards zero.\<close>

definition truncated :: "rat \<Rightarrow> int" where
  "truncated q = (if 0 \<le> q then \<lfloor>q\<rfloor> else \<lceil>q\<rceil>)"

lemma truncateTowardZero_rat: "truncateTowardZero (CRat q) = Some (CInt (truncated q))"
proof -
  obtain a b where ab: "quotient_of q = (a, b)" by fastforce
  then have b: "0 < b" and q: "q = of_int a / of_int b"
    using quotient_of_denom_pos quotient_of_div by blast+
  have "a sdiv b = truncated q"
  proof (cases "0 \<le> a")
    case True
    then have "a sdiv b = a div b" using b by (auto simp: signed_divide_int_def sgn_if)
    moreover have "0 \<le> q" using True b by (simp add: q)
    ultimately show ?thesis by (simp add: truncated_def q floor_divide_of_int_eq)
  next
    case False
    then have "a sdiv b = - (- a div b)" using b by (simp add: signed_divide_int_def sgn_if)
    moreover have "\<not> 0 \<le> q" using False b by (simp add: q zero_le_divide_iff)
    moreover have "\<lceil>q\<rceil> = - (- a div b)"
      using floor_divide_of_int_eq [of "- a" b, where ?'a = rat] by (simp add: ceiling_def q)
    ultimately show ?thesis by (simp add: truncated_def)
  qed
  with b show ?thesis by (simp add: truncateTowardZero_def ab)
qed

lemma foldIntegerConversion_int:
  assumes "target \<in> set integer_types"
  shows "foldIntegerConversion (CInt i) target =
    (if fits target i then Converted (CInt i) else Invalid (ConversionValueOutOfRange (int_string i) (ty_name target)))"
  using outside_range [OF assms, of i]
  by (auto simp: foldIntegerConversion_def reduceSigned_def fits_def)

lemma magnitude_parts:
  "exponent_bits f (bits mod sign_weight f) = exponent_bits f bits"
  "fraction_bits f (bits mod sign_weight f) = fraction_bits f bits"
  "\<not> sign_bit f (bits mod sign_weight f)"
proof -
  let ?m = "ff_fraction f" and ?e = "ff_exponent f"
  have w: "bits mod sign_weight f = take_bit (?m + ?e) bits" by (simp add: sign_weight_def take_bit_eq_mod)
  have "take_bit ?e (drop_bit ?m (take_bit (?m + ?e) bits)) = take_bit ?e (drop_bit ?m bits)"
    by (rule bit_eqI) (auto simp: bit_simps)
  then show "exponent_bits f (bits mod sign_weight f) = exponent_bits f bits"
    by (simp only: exponent_bits_def w take_bit_eq_mod drop_bit_eq_div)
  have "take_bit ?m (take_bit (?m + ?e) bits) = take_bit ?m bits" by (simp add: take_bit_take_bit)
  then show "fraction_bits f (bits mod sign_weight f) = fraction_bits f bits"
    by (simp only: fraction_bits_def w take_bit_eq_mod)
  have "0 < sign_weight f" by (simp add: sign_weight_def)
  then show "\<not> sign_bit f (bits mod sign_weight f)" by (simp add: sign_bit_def)
qed

lemma magnitude_value:
  assumes "float_frombits f bits = Finite s q"
  shows "float_frombits f (bits mod sign_weight f) = Finite False q"
  using assms by (auto simp: float_frombits_def magnitude_parts Let_def split: if_splits)

lemma receiver_value_float:
  assumes "IsFloat t" "float_frombits (float_format_of t) (od_bits source) = Finite (od_negative source) q"
  shows "receiver_value source t v = Some (CRat (signed_value (od_negative source) q))"
  using magnitude_value [OF assms(2)] assms(1)
  by (simp add: receiver_value_def MakeFloat64_def signed_value_def Let_def)

lemma converted_integer_ok:
  assumes "target \<in> set integer_types" "fits target i"
  shows "integer_source (converted_operand (CInt i) target)"
  using assms integer_type_facts(2) [OF assms(1)]
  by (auto simp: integer_source_def converted_operand_def constantOperand_def Sign_def fits_def split: if_splits)

text \<open>The sign bit of a rounded negative number is set.\<close>

lemma float_round_sign:
  assumes "0 < ff_exponent f" "q < 0"
  shows "sign_bit f (float_round f q)"
proof -
  have m: "0 \<le> round_magnitude f \<bar>q\<bar>" "round_magnitude f \<bar>q\<bar> < sign_weight f"
    using round_magnitude_bounds [of "\<bar>q\<bar>" f] infinity_bits_less [OF assms(1)] by simp_all
  then have "(sign_weight f + round_magnitude f \<bar>q\<bar>) div sign_weight f = 1"
    by (simp add: div_add_self1)
  then show ?thesis using assms(2) by (simp add: sign_bit_def float_round_def with_sign_def)
qed

end
