(* ===== verification/ConstantProps.thy ===== *)
theory ConstantProps
  imports ConstantMachine ConstantFloats TypeEnvironment
begin

text \<open>
  Properties of compile-time evaluation: folding integers is machine arithmetic, what the checker folds
  the generator accepts and spells with the same value, floats keep their bits, conversions truncate
  and range-check; and two behaviours that are not what the comments promise, the reduction modulo
  the largest 64-bit number and the sign lost by a conversion to a float.
\<close>

section \<open>Inputs of the witnesses\<close>

definition constant_expression :: "operand \<Rightarrow> checked_expression" where
  "constant_expression source = \<lparr>ce_source = source, ce_type = od_type source, ce_known = Some source\<rparr>"

definition int_constant :: "htype \<Rightarrow> int \<Rightarrow> checked_expression" where
  "int_constant t i = constant_expression (foldedIntegerResult (CInt i) t)"

definition float_constant :: "htype \<Rightarrow> int \<Rightarrow> checked_expression" where
  "float_constant t bits = constant_expression (foldedFloatResult t bits)"

definition rune_result :: htype where
  "rune_result = UnionT (plain_head ''Rune | Error'' ''u'' (unionKey [Rune_type, ErrorType]) 100 []) [Rune_type, ErrorType]"


lemma int_constant_facts [simp]:
  "ce_type (int_constant t i) = t" "constant_source (ce_source (int_constant t i)) i"
  "od_is_constant (ce_source (int_constant t i))"
  by (simp_all add: int_constant_def constant_expression_def constant_source_def foldedIntegerResult_def constantOperand_def)

lemma float_constant_facts [simp]:
  "ce_type (float_constant t bits) = t" "od_bits (ce_source (float_constant t bits)) = bits"
  "od_is_constant (ce_source (float_constant t bits))" "od_constant (ce_source (float_constant t bits)) \<noteq> None"
  "od_negative (ce_source (float_constant t bits)) = sign_bit (float_format_of t) bits"
  by (simp_all add: float_constant_def constant_expression_def foldedFloatResult_def constantOperand_def Let_def)

section \<open>Integer arithmetic\<close>

text \<open>C8. Folding two constants of an integer type narrower than 64 bits computes what the compiled
  program computes: the operation on machine words of that width, for arithmetic with wrap-around and
  truncated division including the least value divided by minus one, for the bitwise operators and
  for shifts by a count below the width.\<close>

theorem integer_folding_is_machine_arithmetic:
  fixes x y z :: "'a::len word"
  assumes "t \<in> set integer_types" "LENGTH('a) = ty_bits t" "ty_bits t < 64" "ce_type l = t" "ce_type r = t"
    "constant_source (ce_source l) (word_value (IsSignedInteger t) x)"
    "constant_source (ce_source r) (word_value (IsSignedInteger t) y)"
    "word_operation op (IsSignedInteger t) x y = Some z"
  shows "scalar_binary qnan op l r True = Folded (foldedIntegerResult (CInt (word_value (IsSignedInteger t) z)) t)"
proof -
  have words: "word_operands t op l r x y z" using assms by (simp add: word_operands_def)
  have op: "isIntegerArithmetic op \<or> isBitwiseArithmetic op \<or> isShiftOperator op"
    using assms(8) by (cases op) (simp_all add: word_operation_def isIntegerArithmetic_def isBitwiseArithmetic_def isShiftOperator_def)
  have kinds: "isIntegerArithmetic op \<Longrightarrow> \<not> isBitwiseArithmetic op \<and> \<not> isShiftOperator op \<and> \<not> isComparison op \<and> \<not> isConnective op"
    "isBitwiseArithmetic op \<Longrightarrow> \<not> isShiftOperator op"
    by (auto simp: isIntegerArithmetic_def isBitwiseArithmetic_def isShiftOperator_def isComparison_def isConnective_def)
  then show ?thesis
    using op assms(4,5) arithmetic_allowed [OF assms(1)] fold_arithmetic_words [OF words, of qnan]
      fold_bitwise_words [OF words] fold_shift_words [OF words]
    by (auto simp: scalar_binary_def Let_def word_folded_def binaryResultType_def)
qed

theorem integer_folding_is_machine_arithmetic_witness:
  "scalar_binary 0 AddOperator (int_constant Int8 100) (int_constant Int8 100) True
     = Folded (foldedIntegerResult (CInt (- 56)) Int8)"
  using integer_folding_is_machine_arithmetic [where x = "100 :: 8 word" and y = 100 and t = Int8 and op = AddOperator
      and l = "int_constant Int8 100" and r = "int_constant Int8 100" and qnan = 0]
  by (simp add: word_operation_def word_value_def integer_types_def signed_types_def IsSignedInteger_def)

section \<open>From the checker to C\<close>



section \<open>Floats\<close>

text \<open>C30. Folding an arithmetic operation on two constants of one float type, or a negation of one, gives a
  constant whose bits, sign mark and value agree: the generator's validation accepts it, signed zeros,
  infinities and NaNs included. Operands of two types are folded by foldWidenedArithmetic, which is not
  part of the claim.\<close>

theorem folded_floats_accepted:
  assumes "t \<in> set float_types" "ce_type l = t" "ce_type r = t" "od_is_constant (ce_source l)" "od_is_constant (ce_source r)"
    "format_bits (float_format_of t) (od_bits (ce_source l))" "format_bits (float_format_of t) (od_bits (ce_source r))"
    "format_bits (float_format_of t) qnan" "isFloatArithmetic op"
  shows "(\<exists>s. foldBinary qnan op l r t t True = Folded s \<and> od_type s = t \<and> validateFloatConstant s)
    \<and> (\<exists>s. foldUnary NegateOperator l t t True = Folded s \<and> od_type s = t \<and> validateFloatConstant s)"
proof
  note facts = float_type_facts [OF assms(1)]
  obtain fop where fop: "float_operation_of op = Some fop"
    using assms(9) by (cases op) (simp_all add: isFloatArithmetic_def)
  have type: "od_type (foldedFloatResult t bits) = t" for bits
    by (simp add: foldedFloatResult_def constantOperand_def Let_def)
  have kinds: "\<not> isConnective op" using assms(9) by (auto simp: isFloatArithmetic_def isConnective_def)
  have "validateFloatConstant (foldedFloatResult t (float_arithmetic (float_format_of t) qnan fop
      (od_bits (ce_source l)) (od_bits (ce_source r))))"
    by (rule folded_float_valid [OF assms(1) float_arithmetic_format [OF facts(4) assms(8,6,7)]])
  then show "\<exists>s. foldBinary qnan op l r t t True = Folded s \<and> od_type s = t \<and> validateFloatConstant s"
    using facts(1,2) assms(4,5,9) kinds fop type
    by (simp add: foldBinary_def staticDivisionDiagnostic_def foldedFloatResultFromBinary_def Let_def)
  have "validateFloatConstant (foldedFloatResult t (flip_sign (float_format_of t) (od_bits (ce_source l))))"
    by (rule folded_float_valid [OF assms(1) flip_sign_format [OF assms(6)]])
  then show "\<exists>s. foldUnary NegateOperator l t t True = Folded s \<and> od_type s = t \<and> validateFloatConstant s"
    using facts(1,2) assms(4) type by (simp add: foldUnary_def Let_def)
qed

theorem folded_floats_accepted_witness:
  "\<exists>s. foldBinary 0x7FC00000 DivideOperator (float_constant Float32 0) (float_constant Float32 0x80000000) Float32 Float32 True
     = Folded s \<and> validateFloatConstant s"
  using folded_floats_accepted [where t = Float32 and l = "float_constant Float32 0" and r = "float_constant Float32 0x80000000"
      and qnan = "0x7FC00000" and op = DivideOperator]
  by (auto simp: float_types_def format_bits_def float_format_of_def sign_weight_def binary32_def isFloatArithmetic_def)

section \<open>Conversions\<close>

text \<open>C29. Converting a float constant to an integer type other than Rune truncates the value its bits stand
  for and is refused exactly when the result is not a value of the type; converting an integer constant to such a type
  keeps the value under the same condition. The constant made is accepted by the generator's validation. A conversion to
  Rune makes no constant: an integer constant that is a Unicode scalar value gives a call that answers
  Rune | Error, any other and every float is refused.\<close>

theorem constant_conversions_truncate:
  assumes "target \<in> set integer_types" "od_is_constant (ce_source e)" "od_constant (ce_source e) = Some v"
    "ce_type e \<in> set float_types \<and> (\<exists>q. float_frombits (float_format_of (ce_type e)) (od_bits (ce_source e))
           = Finite (od_negative (ce_source e)) q \<and> i = truncated (signed_value (od_negative (ce_source e)) q))
       \<or> ce_type e \<in> set integer_types \<and> v = CInt i"
  shows "checkConversionCall st (Some answer_type) e target =
      (if IsRune target then
         if IsFloat (ce_type e) then ConversionRefused (UnsupportedConversion (ty_name (ce_type e)) (ty_name Rune_type))
         else if 0 \<le> i \<and> i \<le> 0x10FFFF \<and> \<not> (0xD800 \<le> i \<and> i \<le> 0xDFFF) then RuneCall answer_type
         else ConversionRefused (ConversionValueNotScalar (int_string i))
       else ScalarConversion
         (if fits target i then Folded (converted_operand (CInt i) target)
          else Refused (ConversionValueOutOfRange (int_string i) (ty_name target))))
    \<and> (fits target i \<longrightarrow> validateIntegerConstant st (converted_operand (CInt i) target))"
proof
  have scalar: "ce_type e \<in> set scalar_types" "ce_type e \<noteq> Bool_type" "target \<in> set scalar_types" "target \<noteq> Bool_type"
    using assms(1,4) float_type_facts(3) numeric_not_Bool by (auto simp: integer_scalar)
  note fold = foldIntegerConversion_int [OF assms(1), of i]
  have "\<exists>x. receiver_value (ce_source e) (ce_type e) v = Some x
      \<and> foldNumericConversion x (ce_type e) target = foldIntegerConversion (CInt i) target"
    using assms(4)
  proof
    assume e: "ce_type e \<in> set float_types \<and> (\<exists>q. float_frombits (float_format_of (ce_type e)) (od_bits (ce_source e))
           = Finite (od_negative (ce_source e)) q \<and> i = truncated (signed_value (od_negative (ce_source e)) q))"
    then show ?thesis
      using receiver_value_float float_type_facts(1,2) [of "ce_type e"] integer_type_facts(1) [OF assms(1)]
      by (auto simp: foldNumericConversion_def truncateTowardZero_rat)
  next
    assume "ce_type e \<in> set integer_types \<and> v = CInt i"
    then show ?thesis
      using integer_type_facts(1,2) assms(1) by (simp add: receiver_value_def foldNumericConversion_def)
  qed
  then have "checkScalarConversion st e target =
      (if fits target i then Folded (converted_operand (CInt i) target)
       else Refused (ConversionValueOutOfRange (int_string i) (ty_name target)))"
    using assms(2,3) conversion_valid [OF scalar(1,3,2,4), of st] fold
    by (auto simp: checkScalarConversion_def Let_def)
  moreover have "checkRuneConversion (Some answer_type) e =
      (if IsFloat (ce_type e) then ConversionRefused (UnsupportedConversion (ty_name (ce_type e)) (ty_name Rune_type))
       else if 0 \<le> i \<and> i \<le> 0x10FFFF \<and> \<not> (0xD800 \<le> i \<and> i \<le> 0xDFFF) then RuneCall answer_type
       else ConversionRefused (ConversionValueNotScalar (int_string i)))"
    using assms(4)
  proof
    assume "ce_type e \<in> set integer_types \<and> v = CInt i"
    then show ?thesis
      using checkRuneConversion_int [of e i answer_type] integer_type_facts(2) assms(2,3)
      by (simp add: staticConstantValue_def)
  qed (use checkRuneConversion_float float_type_facts(1) in auto)
  ultimately show "checkConversionCall st (Some answer_type) e target =
      (if IsRune target then
         if IsFloat (ce_type e) then ConversionRefused (UnsupportedConversion (ty_name (ce_type e)) (ty_name Rune_type))
         else if 0 \<le> i \<and> i \<le> 0x10FFFF \<and> \<not> (0xD800 \<le> i \<and> i \<le> 0xDFFF) then RuneCall answer_type
         else ConversionRefused (ConversionValueNotScalar (int_string i))
       else ScalarConversion
         (if fits target i then Folded (converted_operand (CInt i) target)
          else Refused (ConversionValueOutOfRange (int_string i) (ty_name target))))"
    using checkConversionCall_scalar [OF scalar(1,3), of st "Some answer_type"] by simp
  show "fits target i \<longrightarrow> validateIntegerConstant st (converted_operand (CInt i) target)"
    using converted_integer_ok [OF assms(1)] integer_source_valid by blast
qed

theorem constant_conversions_truncate_witness:
  "checkConversionCall NewArena (Some rune_result) (float_constant Float64 0xC00599999999999A) Int8
     = ScalarConversion (Folded (converted_operand (CInt (- 2)) Int8))
   \<and> checkConversionCall NewArena (Some rune_result) (int_constant Int32 0xD800) Rune_type
     = ConversionRefused (ConversionValueNotScalar (int_string 0xD800))"
proof
  let ?e = "float_constant Float64 0xC00599999999999A"
  have f: "float_format_of Float64 = binary64" by (simp add: float_format_of_def Equal_def)
  have bits: "float_frombits binary64 0xC00599999999999A = Finite True (3039929748475085 / 1125899906842624)"
    "sign_bit binary64 0xC00599999999999A" "- 2 = truncated (signed_value True (3039929748475085 / 1125899906842624))"
    by code_simp+
  obtain v where v: "od_constant (ce_source ?e) = Some v" using float_constant_facts(4) by blast
  have "ce_type ?e \<in> set float_types \<and> (\<exists>q. float_frombits (float_format_of (ce_type ?e)) (od_bits (ce_source ?e))
      = Finite (od_negative (ce_source ?e)) q \<and> - 2 = truncated (signed_value (od_negative (ce_source ?e)) q))"
    using bits by (intro conjI exI [of _ "3039929748475085 / 1125899906842624"]) (simp_all add: float_types_def f)
  from constant_conversions_truncate [OF _ _ v disjI1 [OF this], of Int8 NewArena rune_result]
  show "checkConversionCall NewArena (Some rune_result) ?e Int8 = ScalarConversion (Folded (converted_operand (CInt (- 2)) Int8))"
    by (simp add: integer_types_def signed_types_def fits_def IsSignedInteger_def IsRune_def)
  show "checkConversionCall NewArena (Some rune_result) (int_constant Int32 0xD800) Rune_type
     = ConversionRefused (ConversionValueNotScalar (int_string 0xD800))"
    using constant_conversions_truncate [where target = Rune_type and e = "int_constant Int32 0xD800" and v = "CInt 0xD800"
        and i = "0xD800" and st = NewArena and answer_type = rune_result] int_constant_facts(2) [where t = Int32 and i = "0xD800"]
    by (simp add: integer_types_def signed_types_def unsigned_types_def constant_source_def IsRune_def IsFloat_def)
qed

section \<open>Behaviours that differ from the comments\<close>

text \<open>C37. At 64 bits the reduction of a folded result is off by one: its modulus is the largest 64-bit
  number instead of the number of values, so a result just above the range comes out one too large
  and one just below it one too small.\<close>

theorem wrap_at_64_bits_off_by_one:
  "(2 ^ 63 \<le> i \<and> i < 2 ^ 64 \<longrightarrow> wrapIntegerConstant (CInt i) Int64 = Some (CInt (machine_reduce Int64 i + 1)))
    \<and> (- (2 ^ 64) < i \<and> i < - (2 ^ 63) \<longrightarrow> wrapIntegerConstant (CInt i) Int64 = Some (CInt (machine_reduce Int64 i - 1)))
    \<and> (2 ^ 64 \<le> i \<and> i < 2 ^ 65 - 2 \<longrightarrow> wrapIntegerConstant (CInt i) UInt64 = Some (CInt (machine_reduce UInt64 i + 1)))
    \<and> (- (2 ^ 64) < i \<and> i < 0 \<longrightarrow> wrapIntegerConstant (CInt i) UInt64 = Some (CInt (machine_reduce UInt64 i - 1)))"
proof (intro conjI impI; elim conjE)
  have types: "Int64 \<in> set integer_types" "UInt64 \<in> set integer_types" "IsSignedInteger Int64" "\<not> IsSignedInteger UInt64"
    by (simp_all add: integer_types_def signed_types_def unsigned_types_def IsSignedInteger_def)
  have up: "j mod a = j - a" if "a \<le> j" "j < 2 * a" for j a :: int
    using that minus_mod_self2 [of j a] mod_pos_pos_trivial [of "j - a" a] by simp
  have down: "j mod a = j + a" if "- a \<le> j" "j < 0" for j a :: int
    using that mod_add_self2 [of j a] mod_pos_pos_trivial [of "j + a" a] by simp
  note reduce = wrapIntegerConstant_int [OF types(1)] wrapIntegerConstant_int [OF types(2)] wrapped_def machine_reduce_def
    fits_def wrap_modulus_def types(3,4) take_bit_eq_mod signed_take_bit_mod Let_def
  show "wrapIntegerConstant (CInt i) Int64 = Some (CInt (machine_reduce Int64 i + 1))" if "2 ^ 63 \<le> i" "i < 2 ^ 64"
    using that up [of "2 ^ 64 - 1" i] by (cases "i = 2 ^ 64 - 1") (simp_all add: reduce)
  show "wrapIntegerConstant (CInt i) Int64 = Some (CInt (machine_reduce Int64 i - 1))" if "- (2 ^ 64) < i" "i < - (2 ^ 63)"
    using that down [of "2 ^ 64 - 1" i] down [of "2 ^ 64" i] by (simp add: reduce)
  show "wrapIntegerConstant (CInt i) UInt64 = Some (CInt (machine_reduce UInt64 i + 1))" if "2 ^ 64 \<le> i" "i < 2 ^ 65 - 2"
    using that up [of "2 ^ 64 - 1" i] up [of "2 ^ 64" i] by (simp add: reduce)
  show "wrapIntegerConstant (CInt i) UInt64 = Some (CInt (machine_reduce UInt64 i - 1))" if "- (2 ^ 64) < i" "i < 0"
    using that down [of "2 ^ 64 - 1" i] down [of "2 ^ 64" i] by (simp add: reduce)
qed

theorem wrap_at_64_bits_off_by_one_witness:
  "foldBinary 0 AddOperator (int_constant Int64 (2 ^ 63 - 1)) (int_constant Int64 1) Int64 Int64 True
     = Folded (foldedIntegerResult (CInt (- (2 ^ 63) + 1)) Int64)"
proof -
  have wrap: "wrapIntegerConstant (CInt (2 ^ 63)) Int64 = Some (CInt (- (2 ^ 63) + 1))"
    using wrap_at_64_bits_off_by_one [of "2 ^ 63"]
    by (simp add: machine_reduce_def IsSignedInteger_def signed_take_bit_mod Let_def)
  have "IsInteger Int64" "IsSignedInteger Int64" by (simp_all add: IsInteger_def IsSignedInteger_def)
  then show ?thesis
    using wrap int_constant_facts(2) [of Int64 "2 ^ 63 - 1"] int_constant_facts(2) [of Int64 1]
    by (simp add: foldBinary_def staticDivisionDiagnostic_def isConnective_def isIntegerArithmetic_def isShiftOperator_def
        constant_source_def folded_integer_def Let_def)
qed

text \<open>C38. Converting a negative integer constant to a float type loses the sign mark: the folded constant is
  refused by the generator's validation, and a further conversion to an integer type makes a
  nonnegative number of it.\<close>

theorem float_conversion_loses_sign:
  assumes "ce_type e \<in> set signed_types" "constant_source (ce_source e) i" "i < 0" "target \<in> set float_types"
  shows "\<exists>s. checkConversionCall st answer_type e target = ScalarConversion (Folded s)
    \<and> checkScalarConversion st e target = Folded s \<and> \<not> validateFloatConstant s
    \<and> (\<forall>u r j. u \<in> set integer_types \<and> checkScalarConversion st (folded_expression s) u = Folded r
          \<and> od_constant r = Some (CInt j) \<longrightarrow> 0 \<le> j)"
proof -
  let ?f = "float_format_of target" and ?s = "converted_operand (CRat (of_int i)) target"
  note facts = float_type_facts [OF assms(4)] signed_type_facts [OF assms(1)]
  have scalar: "ce_type e \<in> set scalar_types" "ce_type e \<noteq> Bool_type" "target \<noteq> Bool_type"
    using assms(1,4) numeric_not_Bool by (auto simp: scalar_types_def integer_types_def)
  have fold: "checkScalarConversion st e target = Folded ?s"
    using facts assms(2) conversion_valid [OF scalar(1) facts(3) scalar(2,3)]
    by (simp add: checkScalarConversion_def constant_source_def receiver_value_def foldNumericConversion_def
        converted_float_def Let_def)
  have call: "checkConversionCall st answer_type e target = ScalarConversion (Folded ?s)"
    using checkConversionCall_scalar [OF scalar(1) facts(3), of st answer_type] fold facts(1)
    using assms(4) by (auto simp: float_types_def IsRune_def)
  have s: "od_type ?s = target" "od_is_constant ?s" "od_constant ?s = Some (CRat (of_int i))" "\<not> od_negative ?s"
    by (simp_all add: converted_operand_def constantOperand_def)
  have "sign_bit ?f (od_bits ?s)"
    using float_round_sign [OF facts(4), of "of_int i"] assms(3) facts(1)
    by (simp add: converted_operand_def FloatVal_def)
  then have "\<not> validateFloatConstant ?s"
    using s by (auto simp: validateFloatConstant_def floatSignAndSpecial_def Let_def)
  moreover have "0 \<le> j" if "u \<in> set integer_types" "checkScalarConversion st (folded_expression ?s) u = Folded r"
    "od_constant r = Some (CInt j)" for u r j
  proof -
    let ?x = "MakeFloat64 (float_frombits ?f (od_bits ?s mod sign_weight ?f))"
    have "receiver_value ?s target (CRat (of_int i)) = Some ?x"
      using facts(1) s(4) by (simp add: receiver_value_def Let_def)
    then have j: "foldNumericConversion ?x target u = Converted (CInt j)"
      using that(2,3) s facts(1)
      by (auto simp: checkScalarConversion_def folded_expression_def Let_def converted_operand_def constantOperand_def
          split: if_splits conversion.splits)
    show ?thesis
    proof (cases "float_frombits ?f (od_bits ?s mod sign_weight ?f)")
      case (Finite n q)
      note parts = float_frombits_parts [OF Finite]
      have "\<not> n" using parts(2) magnitude_parts(3) by simp
      then show ?thesis
        using j Finite parts(1) facts(1,2) integer_type_facts(1) [OF that(1)] foldIntegerConversion_int [OF that(1)]
        by (auto simp: foldNumericConversion_def MakeFloat64_def signed_value_def truncateTowardZero_rat truncated_def
            split: if_splits)
    qed (use j facts(1,2) integer_type_facts(1) [OF that(1)] in
        \<open>simp_all add: foldNumericConversion_def MakeFloat64_def\<close>)
  qed
  ultimately show ?thesis using fold call by blast
qed

theorem float_conversion_loses_sign_witness:
  "\<exists>s. checkConversionCall NewArena None (int_constant Int32 (- 5)) Float64 = ScalarConversion (Folded s)
     \<and> \<not> validateFloatConstant s"
  using float_conversion_loses_sign [of "int_constant Int32 (- 5)" "- 5" Float64 NewArena None]
  by (auto simp: signed_types_def float_types_def)

end
