(* ===== verification/GraphWalk.thy ===== *)
theory GraphWalk
  imports Main
begin

text \<open>
  The depth-first walk of \<open>internal/graph/graph.go\<close>: a visited set, the active path and the
  post-order, with the three operations the caller drives it by. The caller owns the recursion;
  what the walk promises is that the order and the active path never repeat a node, that together they are the
  nodes entered, and that a reported cycle is a suffix of the active path closed by the node.
\<close>

record 'n walker =
  wk_visited :: "'n set"
  wk_active :: "'n list"
  wk_order :: "'n list"

definition NewWalker :: "'n walker" where
  "NewWalker = \<lparr>wk_visited = {}, wk_active = [], wk_order = []\<rparr>"

definition Enter :: "'n walker \<Rightarrow> 'n \<Rightarrow> bool \<times> 'n walker" where
  "Enter w node =
     (if node \<in> wk_visited w then (False, w)
      else (True, w\<lparr>wk_visited := insert node (wk_visited w), wk_active := wk_active w @ [node]\<rparr>))"

text \<open>\<open>Leave\<close> reads the last active node; with none active the index is out of range and Go
  panics, which is \<open>None\<close>.\<close>

definition Leave :: "'n walker \<Rightarrow> 'n walker option" where
  "Leave w =
     (if wk_active w = [] then None
      else Some (w\<lparr>wk_active := butlast (wk_active w), wk_order := wk_order w @ [last (wk_active w)]\<rparr>))"

definition Cycle :: "'n walker \<Rightarrow> 'n \<Rightarrow> 'n list option" where
  "Cycle w node =
     (if node \<in> set (wk_active w) then Some (dropWhile (\<lambda>n. n \<noteq> node) (wk_active w) @ [node]) else None)"

definition Order :: "'n walker \<Rightarrow> 'n list" where
  "Order w = wk_order w"

section \<open>What the walk keeps\<close>

definition walk_ok :: "'n walker \<Rightarrow> bool" where
  "walk_ok w \<longleftrightarrow> distinct (wk_order w @ wk_active w) \<and> wk_visited w = set (wk_order w) \<union> set (wk_active w)"

lemma walk_ok_new [simp]: "walk_ok NewWalker"
  by (simp add: walk_ok_def NewWalker_def)

lemma Enter_cases:
  obtains "node \<in> wk_visited w" "Enter w node = (False, w)"
  | "node \<notin> wk_visited w"
    "Enter w node = (True, w\<lparr>wk_visited := insert node (wk_visited w), wk_active := wk_active w @ [node]\<rparr>)"
  by (auto simp: Enter_def)

lemma walk_ok_enter:
  assumes "walk_ok w" "node \<notin> wk_visited w"
  shows "walk_ok (w\<lparr>wk_visited := insert node (wk_visited w), wk_active := wk_active w @ [node]\<rparr>)"
  using assms by (auto simp: walk_ok_def)

lemma Leave_active:
  assumes "wk_active w = path @ [node]"
  shows "Leave w = Some (w\<lparr>wk_active := path, wk_order := wk_order w @ [node]\<rparr>)"
  using assms by (simp add: Leave_def)

lemma walk_ok_leave:
  assumes "walk_ok w" "wk_active w = path @ [node]"
  shows "walk_ok (w\<lparr>wk_active := path, wk_order := wk_order w @ [node]\<rparr>)"
  using assms by (auto simp: walk_ok_def)

text \<open>A list of nodes is a path of a relation when the relation holds between neighbours.\<close>

definition path_of :: "('n \<Rightarrow> 'n \<Rightarrow> bool) \<Rightarrow> 'n list \<Rightarrow> bool" where
  "path_of R nodes \<longleftrightarrow> (\<forall>i. Suc i < length nodes \<longrightarrow> R (nodes ! i) (nodes ! Suc i))"

lemma path_of_single [simp]: "path_of R []" "path_of R [n]"
  by (simp_all add: path_of_def)

lemma path_of_snoc:
  "path_of R (nodes @ [n]) \<longleftrightarrow> path_of R nodes \<and> (nodes \<noteq> [] \<longrightarrow> R (last nodes) n)"
proof (cases nodes rule: rev_cases)
  case (snoc ns m)
  then show ?thesis
    by (auto simp: path_of_def nth_append less_Suc_eq last_conv_nth)
qed simp

lemma path_of_mono: "path_of R nodes \<Longrightarrow> (\<And>a b. R a b \<Longrightarrow> S a b) \<Longrightarrow> path_of S nodes"
  by (simp add: path_of_def)

lemma path_of_drop: "path_of R nodes \<Longrightarrow> path_of R (drop k nodes)"
  by (simp add: path_of_def)

lemma path_of_reach:
  assumes "path_of R nodes" "nodes \<noteq> []"
  shows "R\<^sup>*\<^sup>* (hd nodes) (last nodes)"
  using assms
proof (induction nodes rule: rev_induct)
  case (snoc n ns)
  then show ?case
    by (cases "ns = []") (auto simp: path_of_snoc intro: rtranclp.rtrancl_into_rtrancl)
qed simp

lemma Cycle_closes:
  assumes "Cycle w node = Some cycle" and path: "path_of R (wk_active w)"
    and edge: "R (last (wk_active w)) node"
  shows "path_of R cycle" "hd cycle = node" "last cycle = node" "2 \<le> length cycle"
    "set cycle \<subseteq> set (wk_active w)"
proof -
  let ?d = "dropWhile (\<lambda>n. n \<noteq> node) (wk_active w)"
  have node: "node \<in> set (wk_active w)" and cycle: "cycle = ?d @ [node]"
    using assms(1) by (auto simp: Cycle_def split: if_splits)
  obtain k where k: "?d = drop k (wk_active w)" by (metis dropWhile_eq_drop)
  have ne: "?d \<noteq> []" using node by (auto simp: dropWhile_eq_Nil_conv)
  have "last ?d = last (wk_active w)" using ne k by (metis drop_eq_Nil last_drop linorder_not_le)
  then show "path_of R cycle"
    using edge path_of_drop [OF path, of k] by (simp add: cycle path_of_snoc k)
  show "hd cycle = node" using ne hd_dropWhile [of "\<lambda>n. n \<noteq> node" "wk_active w"] by (simp add: cycle)
  show "last cycle = node" by (simp add: cycle)
  show "2 \<le> length cycle" using ne by (cases ?d) (auto simp: cycle)
  show "set cycle \<subseteq> set (wk_active w)" using node set_dropWhileD by (fastforce simp: cycle)
qed

end
