(* ===== verification/Diagnostics.thy ===== *)
theory Diagnostics
  imports Literals ParserMessages ModuleNames TypeUnions
begin

text \<open>
  Diagnostics as one compilation reports them (\<open>compiler/diagnostics/diagnostics.go\<close>,
  \<open>compiler/types/diagnostic.go\<close>): the texts of the lexer's messages, the messages of the pipeline
  itself (\<open>diagnostics/compile.go\<close>), a stage's error value, its attribution to a module, the order
  within a module and the rendered lines. Every identity a message is built with is registered with
  the category and stage given here, so the registry's panic is not reached and is left out.
\<close>

section \<open>The lexer's sentences\<close>

text \<open>\<open>strconv.QuoteRune\<close> of a rune below 256.\<close>

definition latin_printable :: "nat \<Rightarrow> bool" where
  "latin_printable r \<longleftrightarrow> 32 \<le> r \<and> r < 127 \<or> 161 \<le> r \<and> r \<noteq> 173"

definition hex_char :: "nat \<Rightarrow> char" where
  "hex_char d = (if d < 10 then char_of (48 + d) else char_of (87 + d))"

definition quote_rune :: "nat \<Rightarrow> string" where
  "quote_rune r =
     SQUOTE #
     (if r = byte_val SQUOTE \<or> r = byte_val BACKSLASH then [BACKSLASH, char_of r]
      else if latin_printable r then encode_rune r
      else BACKSLASH #
        (if r = 7 then ''a'' else if r = 8 then ''b'' else if r = 12 then ''f'' else if r = 10 then ''n''
         else if r = 13 then ''r'' else if r = 9 then ''t'' else if r = 11 then ''v''
         else if r < 32 \<or> r = 127 then [CHR ''x'', hex_char (r div 16), hex_char (r mod 16)]
         else ''u00'' @ [hex_char (r div 16), hex_char (r mod 16)]))
     @ [SQUOTE]"

fun message_text :: "lex_message \<Rightarrow> string" where
  "message_text UnterminatedMultilineComment = ''unterminated multiline comment''"
| "message_text UnterminatedByteLiteral = ''unterminated Byte literal''"
| "message_text UnterminatedRuneLiteral = ''unterminated Rune literal''"
| "message_text IdentifierMustBeginWithLetter = ''identifiers must begin with a letter''"
| "message_text MalformedFloatingLiteral = ''malformed floating literal''"
| "message_text UnterminatedCHeaderLiteral = ''unterminated C header literal''"
| "message_text InvalidCHeaderLiteral = ''invalid C header literal''"
| "message_text UnterminatedModulePathLiteral = ''unterminated module path literal''"
| "message_text InvalidModulePathLiteral = ''invalid module-path literal''"
| "message_text (UnexpectedCharacter c) = ''unexpected character '' @ quote_rune (byte_val c)"
| "message_text NestingLimit = ''nesting exceeds the maximum depth of 128''"
| "message_text RawNewlineInString = ''String literal cannot contain a raw newline; use '' @ [BACKSLASH] @ ''n''"
| "message_text UnterminatedStringLiteral = ''unterminated string literal''"
| "message_text UnterminatedStringInterpolation = ''unterminated string interpolation''"
| "message_text UnterminatedRawStringLiteral = ''unterminated raw string literal''"
| "message_text UppercaseIntegerBasePrefix = ''integer base prefixes must be lowercase''"
| "message_text MalformedDecimalIntegerLiteral = ''malformed decimal integer literal''"
| "message_text DecimalIntegerLeadingZero = ''decimal integer literals cannot have leading zeros''"
| "message_text MalformedDecimalFloatingLiteral = ''malformed decimal floating literal''"
| "message_text MalformedBinaryIntegerLiteral = ''malformed binary integer literal''"
| "message_text MalformedOctalIntegerLiteral = ''malformed octal integer literal''"
| "message_text MalformedHexadecimalLiteral = ''malformed hexadecimal literal''"
| "message_text ByteLiteralPrintableCardinality = ''Byte literal must contain exactly one printable ASCII byte''"
| "message_text IncompleteEscapeSequence = ''literal ends with an incomplete escape sequence''"
| "message_text UnsupportedByteQuoteEscape = ''unsupported escape '' @ [BACKSLASH] @ [DQUOTE] @ '' in Byte literal''"
| "message_text (UnsupportedEscape c) = ''unsupported escape '' @ [BACKSLASH] @ encode_rune (byte_val c)"
| "message_text UnsupportedHexEscape = ''unsupported escape '' @ [BACKSLASH] @ ''x; Byte literals use '' @ [BACKSLASH] @ ''xHH''"
| "message_text ByteHexEscapeNeedsTwoDigits = ''Byte literal escape '' @ [BACKSLASH] @ ''x requires exactly two hex digits''"
| "message_text UnicodeEscapeIsNotByteEscape = ''Unicode escapes are not Byte escapes''"
| "message_text UnicodeEscapeRequiresBracedHex = ''Unicode escape requires '' @ [BACKSLASH] @ ''u{HEX}''"
| "message_text InvalidUnicodeScalarEscape = ''invalid Unicode scalar value in escape''"
| "message_text ByteLiteralCardinality = ''Byte literal must contain exactly one byte''"
| "message_text RuneLiteralCardinality = ''Rune literal must contain exactly one Unicode scalar''"
| "message_text InvalidUTF8StringLiteral = ''string literal contains invalid UTF-8''"

text \<open>The lexer's diagnostic as the \<open>types.Diagnostic\<close> that \<open>literalDiagnostic\<close> builds.\<close>

definition lexer_located :: "diagnostic \<Rightarrow> located" where
  "lexer_located d =
     diagnostic_at
       \<lparr>msg_id = message_id (dg_message d), msg_category = CategorySyntax, msg_stage = StageLexer,
        msg_text = message_text (dg_message d)\<rparr>
       zero_span \<lparr>pos_line = int (dg_line d), pos_column = int (dg_column d)\<rparr>"

section \<open>The pipeline's messages\<close>

definition compile_message :: "string \<Rightarrow> category \<Rightarrow> string \<Rightarrow> message" where
  "compile_message i c t = \<lparr>msg_id = i, msg_category = c, msg_stage = StageCompile, msg_text = t\<rparr>"

definition UnknownCompiler :: message where
  "UnknownCompiler = compile_message ''internal.compiler-error'' CategoryUnknown ''internal compiler error''"

datatype logical_key_problem = LogicalKeyInvalid | LogicalKeyReservedStd | LogicalKeyReservedCBindings

datatype import_path_problem = ImportPathNotRelative | ImportPathAboveRoot | ImportPathInvalidComponent

definition quoted :: "string \<Rightarrow> string" where
  "quoted s = DQUOTE # s @ [DQUOTE]"

definition MissingEntrypoint :: "string \<Rightarrow> message" where
  "MissingEntrypoint key =
     compile_message ''module.entrypoint-not-found'' CategoryModule
       (''entrypoint '' @ key @ '' was not found in the supplied sources'')"

definition InvalidLogicalKey :: "string \<Rightarrow> logical_key_problem \<Rightarrow> message" where
  "InvalidLogicalKey key problem =
     (case problem of
        LogicalKeyReservedStd \<Rightarrow> compile_message ''module.logical-key-reserved-stdlib'' CategoryModule
          (''logical key '' @ quoted key @ '' is invalid: the '' @ quoted ''std''
             @ '' path prefix is reserved for the standard library'')
      | LogicalKeyReservedCBindings \<Rightarrow> compile_message ''module.logical-key-reserved-c-bindings'' CategoryModule
          (''logical key '' @ quoted key @ '' is invalid: the '' @ quoted ''hexalc''
             @ '' path prefix is reserved for prepared C bindings'')
      | LogicalKeyInvalid \<Rightarrow> compile_message ''module.logical-key-invalid'' CategoryModule
          (''logical key '' @ quoted key @ '' is invalid: a logical key must be relative, use '' @ quoted ''/''
             @ '' as its only separator, end in exactly one '' @ quoted ''.hex''
             @ '' extension, and have every path component be a Hexal identifier''))"

definition ImportPathError :: "import_path_problem \<Rightarrow> string \<Rightarrow> string \<Rightarrow> message" where
  "ImportPathError problem raw_path component =
     (case problem of
        ImportPathNotRelative \<Rightarrow> compile_message ''module.import-path-not-relative'' CategoryModule
          (''import path '' @ raw_path @ '' is not relative'')
      | ImportPathAboveRoot \<Rightarrow> compile_message ''module.import-path-above-root'' CategoryModule
          ''import resolves above the logical source-map root''
      | ImportPathInvalidComponent \<Rightarrow> compile_message ''module.import-path-invalid-component'' CategoryModule
          (''invalid component '' @ component @ '' in import path '' @ raw_path))"

definition PreparedBindingMissing :: "string \<Rightarrow> message" where
  "PreparedBindingMissing header =
     compile_message ''configuration.prepared-c-binding-missing'' CategoryConfiguration
       (''prepared C binding missing for '' @ header)"

definition CInteropNeedsTarget :: message where
  "CInteropNeedsTarget =
     compile_message ''configuration.c-interop-target-required'' CategoryConfiguration
       ''C interoperability requires a qualified target''"

definition UnknownStdlibModule :: "string \<Rightarrow> message" where
  "UnknownStdlibModule display =
     compile_message ''module.unknown-stdlib-module'' CategoryModule (''unknown stdlib module '' @ display)"

definition ImportedModuleNotFound :: "string \<Rightarrow> message" where
  "ImportedModuleNotFound display =
     compile_message ''module.imported-module-not-found'' CategoryModule
       (''imported module '' @ display @ '' was not found'')"

definition DuplicateImport :: "string \<Rightarrow> message" where
  "DuplicateImport target =
     compile_message ''module.duplicate-import'' CategoryModule (''duplicate import of canonical module '' @ target)"

definition ImportCycle :: "string \<Rightarrow> message" where
  "ImportCycle cycle = compile_message ''module.import-cycle'' CategoryModule (''import cycle: '' @ cycle)"

definition DuplicateSourceKeys :: "string \<Rightarrow> string \<Rightarrow> string \<Rightarrow> message" where
  "DuplicateSourceKeys first second module_id =
     compile_message ''module.duplicate-source-key'' CategoryModule
       (''sources contain both '' @ first @ '' and '' @ second @ '' for module '' @ module_id)"

definition ProjectTaskStackCommitExceeds :: "nat \<Rightarrow> nat \<Rightarrow> message" where
  "ProjectTaskStackCommitExceeds commit reserve =
     compile_message ''configuration.task-stack-commit-exceeds-reserve'' CategoryConfiguration
       (''TaskStackCommit '' @ decimal commit @ '' exceeds TaskStackReserve '' @ decimal reserve)"

definition ProjectTaskStackReserveAlignment :: "nat \<Rightarrow> nat \<Rightarrow> message" where
  "ProjectTaskStackReserveAlignment reserve page_size =
     compile_message ''configuration.task-stack-reserve-alignment'' CategoryConfiguration
       (''TaskStackReserve '' @ decimal reserve @ '' is not a multiple of '' @ decimal page_size)"

definition ProjectTaskStackCommitAlignment :: "nat \<Rightarrow> nat \<Rightarrow> message" where
  "ProjectTaskStackCommitAlignment commit page_size =
     compile_message ''configuration.task-stack-commit-alignment'' CategoryConfiguration
       (''TaskStackCommit '' @ decimal commit @ '' is not a multiple of '' @ decimal page_size)"

definition UnknownTargetProfile :: "string \<Rightarrow> message" where
  "UnknownTargetProfile target =
     compile_message ''configuration.unknown-target-profile'' CategoryConfiguration
       (''unknown target profile '' @ target)"

definition MissingTargetRecord :: message where
  "MissingTargetRecord =
     compile_message ''internal.target-registry-record-missing'' CategoryUnknown ''internal compiler error''"

section \<open>Errors of a stage\<close>

text \<open>The error a stage returns: one diagnostic, a set of them, or a Go panic, which only \<open>Compile\<close>'s
  recovery turns into a diagnostic.\<close>

datatype stage_error =
    CompilerPanic
  | OneDiagnostic located
  | ManyDiagnostics "located list"

definition in_module :: "string \<Rightarrow> located \<Rightarrow> located" where
  "in_module module_key d = (if ld_module d = [] then d\<lparr>ld_module := module_key\<rparr> else d)"

definition StampModule :: "stage_error \<Rightarrow> string \<Rightarrow> stage_error" where
  "StampModule err module_key =
     (case err of
        ManyDiagnostics ds \<Rightarrow> ManyDiagnostics (map (in_module module_key) ds)
      | OneDiagnostic d \<Rightarrow> OneDiagnostic (in_module module_key d)
      | CompilerPanic \<Rightarrow> CompilerPanic)"

definition CompareDiagnostic :: "located \<Rightarrow> located \<Rightarrow> int" where
  "CompareDiagnostic a b =
     (if pos_line (ld_position a) \<noteq> pos_line (ld_position b)
      then pos_line (ld_position a) - pos_line (ld_position b)
      else pos_column (ld_position a) - pos_column (ld_position b))"

text \<open>\<open>mergeDiagnostics\<close>, of a list of stage errors; no error is the empty list's \<open>None\<close>.\<close>

definition error_diagnostics :: "stage_error \<Rightarrow> located list" where
  "error_diagnostics err =
     (case err of ManyDiagnostics ds \<Rightarrow> ds | OneDiagnostic d \<Rightarrow> [d] | CompilerPanic \<Rightarrow> [locationless UnknownCompiler])"

definition mergeDiagnostics :: "stage_error list \<Rightarrow> stage_error option" where
  "mergeDiagnostics errs =
     (let ds = concat (map error_diagnostics errs) in
      if ds = [] then None else Some (ManyDiagnostics (sort_stable CompareDiagnostic ds)))"

section \<open>Rendering\<close>

fun category_text :: "category \<Rightarrow> string" where
  "category_text CategorySemantic = ''Semantic Error''"
| "category_text CategoryType = ''Type Error''"
| "category_text CategoryName = ''Name Error''"
| "category_text CategoryModule = ''Module Error''"
| "category_text CategoryConfiguration = ''Configuration Error''"
| "category_text CategoryUnknown = ''Unknown Error''"
| "category_text CategorySyntax = ''Syntax Error''"

text \<open>\<open>fmt.Sprintf("%d", n)\<close>.\<close>

definition itoa :: "int \<Rightarrow> string" where
  "itoa n = (if n < 0 then CHR ''-'' # decimal (nat (- n)) else decimal (nat n))"

definition Render :: "message \<Rightarrow> string \<Rightarrow> int \<Rightarrow> int \<Rightarrow> string" where
  "Render m module_key line column =
     ''['' @ category_text (msg_category m) @ '' '' @ msg_id m @ ''] '' @ msg_text m
     @ (if line > 0 then
          '' at '' @ (if module_key \<noteq> [] then module_key @ '':'' else []) @ itoa line @ '':'' @ itoa column
        else [])"

definition diagnostic_error :: "located \<Rightarrow> string" where
  "diagnostic_error d =
     Render (ld_message d) (ld_module d) (pos_line (ld_position d)) (pos_column (ld_position d))"

definition ErrorMessages :: "stage_error \<Rightarrow> string list" where
  "ErrorMessages err =
     (case err of
        ManyDiagnostics ds \<Rightarrow> map diagnostic_error ds
      | OneDiagnostic d \<Rightarrow> [diagnostic_error d]
      | CompilerPanic \<Rightarrow> [Render UnknownCompiler [] 0 0])"

definition HasUnknownError :: "stage_error \<Rightarrow> bool" where
  "HasUnknownError err =
     (case err of
        ManyDiagnostics ds \<Rightarrow> list_ex (\<lambda>d. msg_category (ld_message d) = CategoryUnknown) ds
      | OneDiagnostic d \<Rightarrow> msg_category (ld_message d) = CategoryUnknown
      | CompilerPanic \<Rightarrow> True)"

end
