(* ===== verification/Sha256.thy ===== *)
theory Sha256
  imports Diagnostics "HOL-Library.Word"
begin

unbundle bit_operations_syntax

text \<open>
  SHA-256 of Go's \<open>crypto/sha256\<close> and the lower-case hexadecimal of \<open>encoding/hex\<close>, which name the
  prepared bindings of C headers (\<open>compiler/cinterop.go\<close>), and the binding key itself.
\<close>

type_synonym word32 = "32 word"

definition sha_constants :: "word32 list" where
  "sha_constants =
     [0x428a2f98, 0x71374491, 0xb5c0fbcf, 0xe9b5dba5, 0x3956c25b, 0x59f111f1, 0x923f82a4, 0xab1c5ed5,
      0xd807aa98, 0x12835b01, 0x243185be, 0x550c7dc3, 0x72be5d74, 0x80deb1fe, 0x9bdc06a7, 0xc19bf174,
      0xe49b69c1, 0xefbe4786, 0x0fc19dc6, 0x240ca1cc, 0x2de92c6f, 0x4a7484aa, 0x5cb0a9dc, 0x76f988da,
      0x983e5152, 0xa831c66d, 0xb00327c8, 0xbf597fc7, 0xc6e00bf3, 0xd5a79147, 0x06ca6351, 0x14292967,
      0x27b70a85, 0x2e1b2138, 0x4d2c6dfc, 0x53380d13, 0x650a7354, 0x766a0abb, 0x81c2c92e, 0x92722c85,
      0xa2bfe8a1, 0xa81a664b, 0xc24b8b70, 0xc76c51a3, 0xd192e819, 0xd6990624, 0xf40e3585, 0x106aa070,
      0x19a4c116, 0x1e376c08, 0x2748774c, 0x34b0bcb5, 0x391c0cb3, 0x4ed8aa4a, 0x5b9cca4f, 0x682e6ff3,
      0x748f82ee, 0x78a5636f, 0x84c87814, 0x8cc70208, 0x90befffa, 0xa4506ceb, 0xbef9a3f7, 0xc67178f2]"

definition sha_initial :: "word32 list" where
  "sha_initial =
     [0x6a09e667, 0xbb67ae85, 0x3c6ef372, 0xa54ff53a, 0x510e527f, 0x9b05688c, 0x1f83d9ab, 0x5be0cd19]"

definition rotate_right :: "nat \<Rightarrow> word32 \<Rightarrow> word32" where
  "rotate_right n x = drop_bit n x OR push_bit (32 - n) x"

definition small_sigma0 :: "word32 \<Rightarrow> word32" where
  "small_sigma0 x = rotate_right 7 x XOR rotate_right 18 x XOR drop_bit 3 x"

definition small_sigma1 :: "word32 \<Rightarrow> word32" where
  "small_sigma1 x = rotate_right 17 x XOR rotate_right 19 x XOR drop_bit 10 x"

definition big_sigma0 :: "word32 \<Rightarrow> word32" where
  "big_sigma0 x = rotate_right 2 x XOR rotate_right 13 x XOR rotate_right 22 x"

definition big_sigma1 :: "word32 \<Rightarrow> word32" where
  "big_sigma1 x = rotate_right 6 x XOR rotate_right 11 x XOR rotate_right 25 x"

text \<open>The message schedule: each further word from the sixteen before it.\<close>

fun sha_schedule :: "nat \<Rightarrow> word32 list \<Rightarrow> word32 list" where
  "sha_schedule 0 w = w"
| "sha_schedule (Suc n) w =
     (let t = length w in
      sha_schedule n (w @ [w ! (t - 16) + small_sigma0 (w ! (t - 15)) + w ! (t - 7) + small_sigma1 (w ! (t - 2))]))"

type_synonym sha_registers = "word32 \<times> word32 \<times> word32 \<times> word32 \<times> word32 \<times> word32 \<times> word32 \<times> word32"

fun sha_round :: "sha_registers \<Rightarrow> word32 \<times> word32 \<Rightarrow> sha_registers" where
  "sha_round (a, b, c, d, e, f, g, h) (k, w) =
     (let t1 = h + big_sigma1 e + ((e AND f) XOR (NOT e AND g)) + k + w;
          t2 = big_sigma0 a + ((a AND b) XOR (a AND c) XOR (b AND c)) in
      (t1 + t2, a, b, c, d + t1, e, f, g))"

definition sha_registers :: "word32 list \<Rightarrow> sha_registers" where
  "sha_registers h = (h ! 0, h ! 1, h ! 2, h ! 3, h ! 4, h ! 5, h ! 6, h ! 7)"

definition register_list :: "sha_registers \<Rightarrow> word32 list" where
  "register_list r = (case r of (a, b, c, d, e, f, g, h) \<Rightarrow> [a, b, c, d, e, f, g, h])"

definition sha_block :: "word32 list \<Rightarrow> word32 list \<Rightarrow> word32 list" where
  "sha_block h block =
     map2 (+) h (register_list (foldl sha_round (sha_registers h) (zip sha_constants (sha_schedule 48 block))))"

text \<open>The padded message as big-endian words, and its blocks.\<close>

definition sha_padded :: "string \<Rightarrow> nat list" where
  "sha_padded s =
     map byte_val s @ [128] @ replicate ((119 - length s mod 64) mod 64) 0
     @ map (\<lambda>i. 8 * length s div 256 ^ i mod 256) [7, 6, 5, 4, 3, 2, 1, 0]"

fun sha_words :: "nat list \<Rightarrow> word32 list" where
  "sha_words (a # b # c # d # rest) = word_of_nat (((a * 256 + b) * 256 + c) * 256 + d) # sha_words rest"
| "sha_words _ = []"

fun sha_blocks :: "nat \<Rightarrow> word32 list \<Rightarrow> word32 list \<Rightarrow> word32 list" where
  "sha_blocks 0 h ws = h"
| "sha_blocks (Suc n) h ws = sha_blocks n (sha_block h (take 16 ws)) (drop 16 ws)"

definition word_bytes :: "word32 \<Rightarrow> nat list" where
  "word_bytes w = map (\<lambda>i. unat w div 256 ^ i mod 256) [3, 2, 1, 0]"

definition sha256 :: "string \<Rightarrow> nat list" where
  "sha256 s =
     (let ws = sha_words (sha_padded s) in
      concat (map word_bytes (sha_blocks (length ws div 16) sha_initial ws)))"

definition hex_encode :: "nat list \<Rightarrow> string" where
  "hex_encode bytes = concat (map (\<lambda>b. [hex_char (b div 16), hex_char (b mod 16)]) bytes)"

section \<open>Binding keys\<close>

text \<open>\<open>CImportRequest\<close>.\<close>

record c_import_request =
  rq_header :: string
  rq_system :: bool

definition CBindingKey :: "string \<Rightarrow> c_import_request \<Rightarrow> string" where
  "CBindingKey profile request =
     (let form = (if rq_system request then ''system'' else ''quoted'') in
      ''hexalc/h'' @ hex_encode (sha256 (profile @ CHR 0x00 # form @ CHR 0x00 # rq_header request)) @ ''.hex'')"

section \<open>The shape of a key\<close>

lemma length_sha_block: "length h = 8 \<Longrightarrow> length (sha_block h block) = 8"
  by (simp add: sha_block_def register_list_def split: prod.splits)

lemma length_sha_blocks: "length h = 8 \<Longrightarrow> length (sha_blocks n h ws) = 8"
  by (induction n h ws rule: sha_blocks.induct) (auto simp: length_sha_block)

lemma length_concat_same: "(\<And>x. x \<in> set xs \<Longrightarrow> length (f x) = k) \<Longrightarrow> length (concat (map f xs)) = k * length xs"
  by (induction xs) auto

lemma length_sha256: "length (sha256 s) = 32"
proof -
  have "length (sha_blocks n sha_initial ws) = 8" for n ws
    by (rule length_sha_blocks) (simp add: sha_initial_def)
  then show ?thesis by (simp add: sha256_def Let_def length_concat_same [where k = 4] word_bytes_def)
qed

lemma sha256_bytes: "b \<in> set (sha256 s) \<Longrightarrow> b < 256"
  by (auto simp: sha256_def Let_def word_bytes_def)

definition lower_hex :: "char \<Rightarrow> bool" where
  "lower_hex c \<longleftrightarrow> byte_between (CHR ''0'') c (CHR ''9'') \<or> byte_between (CHR ''a'') c (CHR ''f'')"

lemma hex_char_lower: "d < 16 \<Longrightarrow> lower_hex (hex_char d)"
  by (simp add: hex_char_def lower_hex_def byte_between_def)

lemma hex_encode_lower: "(\<And>b. b \<in> set bs \<Longrightarrow> b < 256) \<Longrightarrow> list_all lower_hex (hex_encode bs)"
  by (auto simp: hex_encode_def list_all_iff intro!: hex_char_lower less_mult_imp_div_less)

lemma length_hex_encode: "length (hex_encode bs) = 2 * length bs"
  by (simp add: hex_encode_def length_concat_same)

lemma CBindingKey_shape:
  "\<exists>digits. CBindingKey profile request = ''hexalc/h'' @ digits @ ''.hex'' \<and> length digits = 64
     \<and> list_all lower_hex digits"
  unfolding CBindingKey_def Let_def
  by (intro exI conjI, rule refl) (auto simp: length_hex_encode length_sha256 intro: hex_encode_lower sha256_bytes)

end
