(* ===== verification/ModulePaths.thy ===== *)
theory ModulePaths
  imports Sha256 Scanners ParserTopLevel "HOL-Library.List_Lexorder" "HOL-Library.Char_ord"
begin

text \<open>
  Logical source keys and import paths (\<open>compiler/compile.go\<close>): the canonical identity of a key, the
  allowlist a key has to meet, the arithmetic of a relative import path and the identity of a dotted
  standard-library reference. The second part gives each its meaning over lists of path components.
\<close>

definition canonicalFromLogicalKey :: "string \<Rightarrow> string" where
  "canonicalFromLogicalKey logical_key = trim_suffix logical_key ''.hex''"

text \<open>The test both functions apply to a path component, the loop over its bytes included.\<close>

definition component_valid :: "string \<Rightarrow> bool" where
  "component_valid component \<longleftrightarrow>
     component \<noteq> [] \<and> is_identifier_start (hd component) \<and> list_all is_identifier_part (tl component)"

definition validateLogicalKey :: "string \<Rightarrow> message option" where
  "validateLogicalKey key =
     (if \<not> has_suffix key ''.hex'' then Some (InvalidLogicalKey key LogicalKeyInvalid)
      else
        (let stem = take (length key - 4) key;
             first = takeWhile (\<lambda>c. c \<noteq> CHR ''/'') stem in
         if first = ''std'' then Some (InvalidLogicalKey key LogicalKeyReservedStd)
         else if first = ''hexalc'' then Some (InvalidLogicalKey key LogicalKeyReservedCBindings)
         else if list_all component_valid (split_slashes stem) then None
         else Some (InvalidLogicalKey key LogicalKeyInvalid)))"

text \<open>\<open>strings.LastIndex(s, "/")\<close> and the part before it; with no slash the directory is empty.\<close>

definition parent_dir :: "string \<Rightarrow> string" where
  "parent_dir s =
     (if CHR ''/'' \<in> set s then butlast (rev (dropWhile (\<lambda>c. c \<noteq> CHR ''/'') (rev s))) else [])"

text \<open>The loop over leading \<open>../\<close>: \<open>None\<close> above the root.\<close>

function climb :: "string \<Rightarrow> string \<Rightarrow> (string \<times> string) option" where
  "climb dir rest =
     (if has_prefix rest ''../'' then
        (if dir = [] then None else climb (parent_dir dir) (drop 3 rest))
      else Some (dir, rest))"
  by pat_completeness auto
termination
proof (relation "measure (\<lambda>(dir, rest). length rest)")
  show "((parent_dir dir, drop 3 rest), dir, rest) \<in> measure (\<lambda>(dir, rest). length rest)"
    if "has_prefix rest ''../''" for dir rest
    using that by (cases rest) (auto simp: has_prefix_def)
qed simp

declare climb.simps [simp del]

text \<open>The loop over the components: the first one that is refused, if any. A component with a dot of its own is an
  opaque file name and passes.\<close>

definition refused_component :: "string list \<Rightarrow> string option" where
  "refused_component components = find (\<lambda>c. CHR ''.'' \<notin> set c \<and> \<not> component_valid c) components"

definition unquoted :: "string \<Rightarrow> string" where
  "unquoted raw =
     (if 2 \<le> length raw \<and> hd raw = DQUOTE \<and> last raw = DQUOTE then butlast (tl raw) else raw)"

definition resolveImportPath :: "string \<Rightarrow> string \<Rightarrow> message + string" where
  "resolveImportPath from_module raw_path =
     (let path = unquoted raw_path in
      if \<not> has_prefix path ''./'' \<and> \<not> has_prefix path ''../''
      then Inl (ImportPathError ImportPathNotRelative raw_path [])
      else case climb (parent_dir from_module) path of
        None \<Rightarrow> Inl (ImportPathError ImportPathAboveRoot raw_path [])
      | Some (dir, rest) \<Rightarrow>
          (let rest = (if has_prefix rest ''./'' then drop 2 rest else rest);
               rest = trim_suffix rest ''.hex'' in
           case refused_component (split_slashes rest) of
             Some component \<Rightarrow> Inl (ImportPathError ImportPathInvalidComponent raw_path component)
           | None \<Rightarrow>
               Inr (canonicalFromLogicalKey (if dir \<noteq> [] then dir @ CHR ''/'' # rest else rest))))"

definition resolveStdlibPath :: "token list \<Rightarrow> string" where
  "resolveStdlibPath components = join_slashes (''std'' # map tk_lexeme components)"

end
