(* ===== verification/ModuleResolution.thy ===== *)
theory ModuleResolution
  imports GraphWalk ModulePaths Lexer "HOL-Library.AList"
begin

text \<open>
  Reachability (\<open>compiler/compile.go\<close>): every module reachable from the entrypoint is lexed and parsed
  once, its imports are resolved in source order, and the modules come out dependencies first. The
  graph record is that of \<open>checker/modulegraph.go\<close>. The recursion of \<open>visit\<close> through \<open>resolveImport\<close>
  is open: each method takes the visit as an argument, and \<open>visit\<close> closes it with fuel. The bound the entry
  points start it with is one more than the number of canonical identities that have a source.

  A value of type \<open>'a outcome\<close> is \<open>None\<close> when the fuel is spent, \<open>Inl\<close> the error that aborts the scan, or \<open>Inr\<close>
  the result with the state in it. A Go map read by key is a function to an option; the one map that is
  iterated in an order Go leaves open is an association list, iterated in an order the environment
  gives.
\<close>

section \<open>State\<close>

type_synonym 'a outcome = "(stage_error + 'a) option"

definition o_return :: "'a \<Rightarrow> 'a outcome" where
  "o_return x = Some (Inr x)"

definition o_abort :: "stage_error \<Rightarrow> 'a outcome" where
  "o_abort e = Some (Inl e)"

definition o_bind :: "'a outcome \<Rightarrow> ('a \<Rightarrow> 'b outcome) \<Rightarrow> 'b outcome" where
  "o_bind r f = (case r of None \<Rightarrow> None | Some (Inl e) \<Rightarrow> Some (Inl e) | Some (Inr x) \<Rightarrow> f x)"

record module_edge =
  edge_alias :: string
  edge_target :: string
  edge_c_import :: bool
  edge_c_display :: string

record module_node =
  mn_canonical :: string
  mn_logical_key :: string
  mn_program :: program
  mn_imports :: "module_edge list"
  mn_token_count :: nat
  mn_source_lines :: nat

record module_graph =
  mg_order :: "string list"
  mg_modules :: "string \<rightharpoonup> module_node"
  mg_root :: string

record prepared_expectation =
  pe_request :: c_import_request
  pe_from_module :: string
  pe_line :: int
  pe_column :: int
  pe_display :: string

text \<open>The fields of \<open>reachState\<close> that the walk only reads, and those it writes.\<close>

record reach_env =
  re_sources :: "string \<rightharpoonup> string"
  re_keys :: "string \<rightharpoonup> string list"
  re_stdlib :: "string \<rightharpoonup> string"
  re_target :: string
  re_discover :: bool
  re_iteration :: "string list \<Rightarrow> string list"

record reach_state =
  rs_nodes :: "string \<rightharpoonup> module_node"
  rs_walk :: "string walker"
  rs_by_module :: "string \<Rightarrow> located list"
  rs_prepared :: "string set"
  rs_requests :: "c_import_request list"
  rs_expectations :: "(string \<times> prepared_expectation) list"

definition initial_reach :: reach_state where
  "initial_reach =
     \<lparr>rs_nodes = Map.empty, rs_walk = NewWalker, rs_by_module = (\<lambda>_. []), rs_prepared = {},
      rs_requests = [], rs_expectations = []\<rparr>"

section \<open>Sources\<close>

text \<open>A Go map's contents as a list of pairs; its keys are the distinct first components.\<close>

definition indexSourceKeys :: "(string \<times> string) list \<Rightarrow> string \<rightharpoonup> string list" where
  "indexSourceKeys sources canon_id =
     (let keys = sort (filter (\<lambda>key. canonicalFromLogicalKey key = canon_id) (remdups (map fst sources))) in
      if keys = [] then None else Some keys)"

definition sourceKeyFor :: "reach_env \<Rightarrow> string \<Rightarrow> string list" where
  "sourceKeyFor env i = (case re_keys env i of None \<Rightarrow> [] | Some keys \<Rightarrow> keys)"

text \<open>\<open>stdlib.Sources\<close> over the embedded files (path below the embed root and contents), its keys, and
  the rekeying by canonical identity.\<close>

definition stdlib_Sources :: "(string \<times> string) list \<Rightarrow> (string \<times> string) list" where
  "stdlib_Sources embedded = map (\<lambda>(path, body). (''stdlib/'' @ path, body)) embedded"

definition stdlib_SourceKey :: "string \<Rightarrow> string" where
  "stdlib_SourceKey canon_id = ''stdlib/'' @ canon_id @ ''.hex''"

definition canonicalFromSourceKey :: "string \<Rightarrow> string" where
  "canonicalFromSourceKey key = trim_suffix (trim_prefix key ''stdlib/'') ''.hex''"

definition stdlibSourcesByCanonical :: "(string \<times> string) list \<Rightarrow> (string \<times> string) list" where
  "stdlibSourcesByCanonical embedded =
     map (\<lambda>(key, text). (canonicalFromSourceKey key, text)) (stdlib_Sources embedded)"

definition IsSourceModule :: "reach_env \<Rightarrow> string \<Rightarrow> bool" where
  "IsSourceModule env canon_id \<longleftrightarrow> re_stdlib env canon_id \<noteq> None"

definition coreModuleIds :: "string list" where
  "coreModuleIds =
     [''std/io'', ''std/fs'', ''std/time'', ''std/net'', ''std/process'', ''std/signal'', ''std/terminal'',
      ''std/json'', ''std/regex'', ''std/http'', ''std/program'', ''std/entropy'']"

definition CoreModuleKnown :: "string \<Rightarrow> bool" where
  "CoreModuleKnown i \<longleftrightarrow> i \<in> set coreModuleIds"

definition sourceLineCount :: "string \<Rightarrow> nat" where
  "sourceLineCount source = (if source = [] then 0 else length (filter (\<lambda>c. c = LF) source) + 1)"

section \<open>Diagnostics of the walk\<close>

definition record_diagnostic ::
  "reach_env \<Rightarrow> string \<Rightarrow> int \<Rightarrow> int \<Rightarrow> message \<Rightarrow> reach_state \<Rightarrow> reach_state" where
  "record_diagnostic env module_id line column m s =
     (let line = (if line < 1 then 1 else line);
          column = (if column < 1 then 1 else column);
          logical_key = (case rs_nodes s module_id of
              Some node \<Rightarrow> mn_logical_key node
            | None \<Rightarrow> (case sourceKeyFor env module_id of [] \<Rightarrow> [] | key # _ \<Rightarrow> key));
          d = in_module logical_key (diagnostic_at m zero_span \<lparr>pos_line = line, pos_column = column\<rparr>) in
      s\<lparr>rs_by_module := (rs_by_module s)(module_id := rs_by_module s module_id @ [d])\<rparr>)"

text \<open>The key and text of a canonical module.\<close>

definition sourceFor :: "reach_env \<Rightarrow> string \<Rightarrow> reach_state \<Rightarrow> (string \<times> string) option \<times> reach_state" where
  "sourceFor env canon_id s =
     (case re_stdlib env canon_id of
        Some text \<Rightarrow>
          (Some (stdlib_SourceKey canon_id, text),
           (case sourceKeyFor env canon_id of
              [] \<Rightarrow> s
            | key # _ \<Rightarrow> record_diagnostic env canon_id 1 1 (InvalidLogicalKey key LogicalKeyReservedStd) s))
      | None \<Rightarrow>
          (case sourceKeyFor env canon_id of
             [] \<Rightarrow> (None, s)
           | [key] \<Rightarrow> (Some (key, case re_sources env key of Some text \<Rightarrow> text | None \<Rightarrow> []), s)
           | key # second # _ \<Rightarrow>
               (Some (key, case re_sources env key of Some text \<Rightarrow> text | None \<Rightarrow> []),
                record_diagnostic env canon_id 1 1 (DuplicateSourceKeys key second canon_id) s)))"

section \<open>Imports\<close>

definition add_edge :: "string \<Rightarrow> module_edge \<Rightarrow> reach_state \<Rightarrow> reach_state outcome" where
  "add_edge from_module edge s =
     (case rs_nodes s from_module of
        None \<Rightarrow> o_abort CompilerPanic
      | Some node \<Rightarrow>
          o_return (s\<lparr>rs_nodes := (rs_nodes s)(from_module \<mapsto> node\<lparr>mn_imports := mn_imports node @ [edge]\<rparr>)\<rparr>))"

text \<open>The first switch of \<open>resolveImport\<close>: the target a reference names, or nothing when the import
  ends there.\<close>

definition import_target ::
  "reach_env \<Rightarrow> string \<Rightarrow> import_reference \<Rightarrow> reach_state \<Rightarrow> string option \<times> reach_state" where
  "import_target env from_module ref s =
     (let line = int (tk_line (ir_token ref)); column = int (tk_column (ir_token ref)) in
      case ir_kind ref of
        RelativeImportReference \<Rightarrow>
          (case resolveImportPath from_module (tk_lexeme (ir_relative_path ref)) of
             Inl m \<Rightarrow> (None, record_diagnostic env from_module line column m s)
           | Inr target \<Rightarrow> (Some target, s))
      | StandardLibraryImportReference \<Rightarrow> (Some (resolveStdlibPath (ir_components ref)), s)
      | CHeaderImportReference \<Rightarrow>
          (let request = \<lparr>rq_header = ir_c_header ref, rq_system = ir_system ref\<rparr> in
           if re_discover env then (None, s\<lparr>rs_requests := rs_requests s @ [request]\<rparr>)
           else if re_target env = [] then (None, record_diagnostic env from_module line column CInteropNeedsTarget s)
           else
             (let key = CBindingKey (re_target env) request in
              if re_sources env key = None
              then (None, record_diagnostic env from_module line column (PreparedBindingMissing (ir_display ref)) s)
              else
                (let target = trim_suffix key ''.hex'' in
                 (Some target,
                  s\<lparr>rs_prepared := insert target (rs_prepared s),
                    rs_expectations := AList.update target
                      \<lparr>pe_request = request, pe_from_module = from_module, pe_line = line, pe_column = column,
                       pe_display = ir_display ref\<rparr> (rs_expectations s)\<rparr>)))))"

text \<open>The steps every import of a module with a source ends with: the duplicate check, the test
  against the active path, the visit. The result carries the targets the file has bound.\<close>

definition join_arrows :: "string list \<Rightarrow> string" where
  "join_arrows parts = (case parts of [] \<Rightarrow> [] | p # ps \<Rightarrow> p @ concat (map (\<lambda>q. '' -> '' @ q) ps))"

type_synonym visitor = "string \<Rightarrow> reach_state \<Rightarrow> reach_state outcome"

definition bind_import ::
  "reach_env \<Rightarrow> visitor \<Rightarrow> string \<Rightarrow> import_reference \<Rightarrow> string \<Rightarrow> string set \<Rightarrow> reach_state
     \<Rightarrow> (string set \<times> reach_state) outcome" where
  "bind_import env v from_module ref target imported s =
     (let line = int (tk_line (ir_token ref)); column = int (tk_column (ir_token ref)) in
      if target \<in> imported
      then o_return (imported, record_diagnostic env from_module line column (DuplicateImport target) s)
      else case Cycle (rs_walk s) target of
        Some cycle \<Rightarrow>
          o_return (insert target imported,
            record_diagnostic env from_module line column (ImportCycle (join_arrows cycle)) s)
      | None \<Rightarrow> o_bind (v target s) (\<lambda>s. o_return (insert target imported, s)))"

definition resolveImport ::
  "reach_env \<Rightarrow> visitor \<Rightarrow> string \<Rightarrow> import_entry \<Rightarrow> string set \<times> reach_state
     \<Rightarrow> (string set \<times> reach_state) outcome" where
  "resolveImport env v from_module entry st =
     (case (entry, st) of ((alias, from_token, ref), (imported, s)) \<Rightarrow>
      (let line = int (tk_line (ir_token ref)); column = int (tk_column (ir_token ref)) in
       case import_target env from_module ref s of
         (None, s) \<Rightarrow> o_return (imported, s)
       | (Some target, s) \<Rightarrow>
           (let c_import = (ir_kind ref = CHeaderImportReference);
                edge = \<lparr>edge_alias = tk_lexeme alias, edge_target = target, edge_c_import = c_import,
                        edge_c_display = (if c_import then ir_display ref else [])\<rparr> in
            o_bind (add_edge from_module edge s) (\<lambda>s.
            if ir_kind ref = StandardLibraryImportReference then
              (if CoreModuleKnown target then
                 (if target \<in> imported
                  then o_return (imported, record_diagnostic env from_module line column (DuplicateImport target) s)
                  else o_return (insert target imported, s))
               else if IsSourceModule env target then bind_import env v from_module ref target imported s
               else o_return (imported,
                 record_diagnostic env from_module line column (UnknownStdlibModule (ir_display ref)) s))
            else if sourceKeyFor env target = []
            then o_return (imported,
              record_diagnostic env from_module line column (ImportedModuleNotFound (ir_display ref)) s)
            else bind_import env v from_module ref target imported s))))"

fun resolve_entries ::
  "reach_env \<Rightarrow> visitor \<Rightarrow> string \<Rightarrow> import_entry list \<Rightarrow> string set \<times> reach_state
     \<Rightarrow> (string set \<times> reach_state) outcome" where
  "resolve_entries env v from_module [] st = o_return st"
| "resolve_entries env v from_module (entry # entries) st =
     o_bind (resolveImport env v from_module entry st) (resolve_entries env v from_module entries)"

section \<open>The visit\<close>

definition leave_module :: "reach_state \<Rightarrow> reach_state outcome" where
  "leave_module s =
     (case Leave (rs_walk s) of
        None \<Rightarrow> o_abort CompilerPanic
      | Some w \<Rightarrow> o_return (s\<lparr>rs_walk := w\<rparr>))"

text \<open>The key rules, the lexer and the parser on one module's text; any diagnostic aborts the scan.\<close>

definition module_key_error :: "string \<Rightarrow> string \<Rightarrow> reach_state \<Rightarrow> stage_error option" where
  "module_key_error canon_id key s =
     (if canon_id \<in> rs_prepared s then None
      else map_option (\<lambda>m. OneDiagnostic
             (in_module key (diagnostic_at m zero_span \<lparr>pos_line = 1, pos_column = 1\<rparr>))) (validateLogicalKey key))"

definition abort_merged :: "located list \<Rightarrow> string \<Rightarrow> 'a outcome" where
  "abort_merged ds key =
     (case mergeDiagnostics [ManyDiagnostics ds] of
        None \<Rightarrow> o_abort CompilerPanic
      | Some e \<Rightarrow> o_abort (StampModule e key))"

definition parse_module :: "string \<Rightarrow> string \<Rightarrow> (token list \<times> program) outcome" where
  "parse_module key text =
     (case lex key text of
        None \<Rightarrow> None
      | Some (tokens, lex_diagnostics) \<Rightarrow>
          if lex_diagnostics \<noteq> [] then abort_merged (map lexer_located lex_diagnostics) key
          else (case parse tokens of
              None \<Rightarrow> None
            | Some (program, parse_diagnostics) \<Rightarrow>
                if parse_diagnostics \<noteq> [] then abort_merged parse_diagnostics key
                else o_return (tokens, program)))"

definition import_entries :: "program \<Rightarrow> import_entry list" where
  "import_entries program = (case pr_import program of None \<Rightarrow> [] | Some b \<Rightarrow> ib_entries b)"

definition visit_module :: "reach_env \<Rightarrow> visitor \<Rightarrow> visitor" where
  "visit_module env v canon_id s =
     (case Enter (rs_walk s) canon_id of
        (False, _) \<Rightarrow> o_return s
      | (True, w) \<Rightarrow>
          (case sourceFor env canon_id (s\<lparr>rs_walk := w\<rparr>) of
             (None, s) \<Rightarrow> leave_module s
           | (Some (key, text), s) \<Rightarrow>
               (case module_key_error canon_id key s of
                  Some e \<Rightarrow> o_abort e
                | None \<Rightarrow>
                    o_bind (parse_module key text) (\<lambda>(tokens, program).
                    (let node = \<lparr>mn_canonical = canon_id, mn_logical_key = key, mn_program = program,
                                 mn_imports = [], mn_token_count = length tokens,
                                 mn_source_lines = sourceLineCount text\<rparr>;
                         s = s\<lparr>rs_nodes := (rs_nodes s)(canon_id \<mapsto> node)\<rparr> in
                     o_bind (resolve_entries env v canon_id (import_entries program) ({}, s)) (\<lambda>(imported, s).
                     leave_module s))))))"

primrec visit :: "reach_env \<Rightarrow> nat \<Rightarrow> visitor" where
  "visit env 0 = (\<lambda>canon_id s. None)"
| "visit env (Suc n) = visit_module env (visit env n)"

section \<open>Prepared bindings\<close>

definition preparedModuleNamesHeader :: "program \<Rightarrow> c_import_request \<Rightarrow> bool" where
  "preparedModuleNamesHeader program request \<longleftrightarrow>
     list_ex (\<lambda>x. ir_kind (xb_header x) = CHeaderImportReference
        \<and> ir_c_header (xb_header x) = rq_header request \<and> ir_system (xb_header x) = rq_system request)
       (pr_externs program)"

definition validate_expectation :: "reach_env \<Rightarrow> reach_state \<Rightarrow> string \<Rightarrow> reach_state" where
  "validate_expectation env s canon_id =
     (case (map_of (rs_expectations s) canon_id, rs_nodes s canon_id) of
        (Some expectation, Some node) \<Rightarrow>
          if preparedModuleNamesHeader (mn_program node) (pe_request expectation) then s
          else record_diagnostic env (pe_from_module expectation) (pe_line expectation) (pe_column expectation)
                 (PreparedBindingMissing (pe_display expectation)) s
      | _ \<Rightarrow> s)"

definition validatePreparedBindings :: "reach_env \<Rightarrow> reach_state \<Rightarrow> reach_state" where
  "validatePreparedBindings env s =
     foldl (validate_expectation env) s (re_iteration env (map fst (rs_expectations s)))"

section \<open>Entry points\<close>

text \<open>A compilation's inputs: the sources, the embedded standard library, the selected target, and
  the order in which Go iterates over a map with the given keys.\<close>

record reach_input =
  in_sources :: "(string \<times> string) list"
  in_embedded :: "(string \<times> string) list"
  in_target :: string
  in_iteration :: "string list \<Rightarrow> string list"

definition build_env :: "reach_input \<Rightarrow> bool \<Rightarrow> reach_env" where
  "build_env inp discover =
     \<lparr>re_sources = map_of (in_sources inp), re_keys = indexSourceKeys (in_sources inp),
      re_stdlib = map_of (stdlibSourcesByCanonical (in_embedded inp)),
      re_target = (if discover then [] else in_target inp), re_discover = discover,
      re_iteration = in_iteration inp\<rparr>"

definition visit_fuel :: "reach_input \<Rightarrow> nat" where
  "visit_fuel inp = length (remdups (map fst (in_sources inp))) + length (in_embedded inp) + 1"

definition publish_graph :: "string \<Rightarrow> reach_state \<Rightarrow> module_graph outcome" where
  "publish_graph root s =
     (let order = Order (rs_walk s) in
      if list_ex (\<lambda>m. rs_nodes s m = None) order then o_abort CompilerPanic
      else o_return \<lparr>mg_order = order, mg_modules = rs_nodes s |` set order, mg_root = root\<rparr>)"

definition merged_diagnostics :: "reach_state \<Rightarrow> located list" where
  "merged_diagnostics s =
     concat (map (\<lambda>m. sort_stable CompareDiagnostic (rs_by_module s m)) (Order (rs_walk s)))"

text \<open>The graph and the resolution diagnostics; an empty list is Go's nil error.\<close>

definition reachableModulesTarget :: "reach_input \<Rightarrow> string \<Rightarrow> (module_graph \<times> located list) outcome" where
  "reachableModulesTarget inp entrypoint =
     (let env = build_env inp False; root = canonicalFromLogicalKey entrypoint in
      o_bind (visit env (visit_fuel inp) root initial_reach) (\<lambda>s.
      (let s = validatePreparedBindings env s in
       o_bind (publish_graph root s) (\<lambda>g. o_return (g, merged_diagnostics s)))))"

definition reachableModules :: "reach_input \<Rightarrow> string \<Rightarrow> (module_graph \<times> located list) outcome" where
  "reachableModules inp entrypoint = reachableModulesTarget (inp\<lparr>in_target := []\<rparr>) entrypoint"

definition DiscoverCImports :: "reach_input \<Rightarrow> string \<Rightarrow> c_import_request list outcome" where
  "DiscoverCImports inp entrypoint =
     o_bind (visit (build_env inp True) (visit_fuel inp) (canonicalFromLogicalKey entrypoint) initial_reach)
       (\<lambda>s. o_return (rs_requests s))"

end
