(* ===== verification/ModuleLaws.thy ===== *)
theory ModuleLaws
  imports ModuleResolution LexerSlices ParserProgram
begin

text \<open>
  What a visit promises. The invariant of the walk's state speaks of the import edges recorded so
  far: the active path is a path of edges, every module entered is reachable from the root,
  every finished module comes after the modules it imports unless a diagnostic was recorded for it, and every
  reported cycle is one. A locale states what \<open>resolveImport\<close> needs of the visit it calls; the
  induction over the fuel interprets it.
\<close>

section \<open>Outcomes\<close>

text \<open>The outcome is there, an abort is no Go panic and has a line to show, and a result satisfies \<open>P\<close>.\<close>

definition proper_error :: "stage_error \<Rightarrow> bool" where
  "proper_error e \<longleftrightarrow> e \<noteq> CompilerPanic \<and> ErrorMessages e \<noteq> []"

lemma proper_one [simp]: "proper_error (OneDiagnostic d)"
  by (simp add: proper_error_def ErrorMessages_def)

lemma proper_many [simp]: "proper_error (ManyDiagnostics ds) \<longleftrightarrow> ds \<noteq> []"
  by (simp add: proper_error_def ErrorMessages_def)

definition o_ok :: "('a \<Rightarrow> bool) \<Rightarrow> 'a outcome \<Rightarrow> bool" where
  "o_ok P r \<longleftrightarrow> (case r of None \<Rightarrow> False | Some (Inl e) \<Rightarrow> proper_error e | Some (Inr x) \<Rightarrow> P x)"

lemma o_ok_return [simp]: "o_ok P (o_return x) = P x"
  by (simp add: o_ok_def o_return_def)

lemma o_ok_abort [simp]: "o_ok P (o_abort e) \<longleftrightarrow> proper_error e"
  by (simp add: o_ok_def o_abort_def)

lemma o_ok_bind:
  assumes "o_ok P r" "\<And>x. P x \<Longrightarrow> o_ok Q (f x)"
  shows "o_ok Q (o_bind r f)"
proof (cases r)
  case (Some y)
  then show ?thesis using assms by (cases y) (auto simp: o_ok_def o_bind_def)
qed (use assms in \<open>simp add: o_ok_def\<close>)

lemma o_ok_mono: "o_ok P r \<Longrightarrow> (\<And>x. P x \<Longrightarrow> Q x) \<Longrightarrow> o_ok Q r"
  by (auto simp: o_ok_def split: option.splits sum.splits)

lemma o_ok_result: "o_ok P r \<Longrightarrow> r = Some (Inr x) \<Longrightarrow> P x"
  by (simp add: o_ok_def)

lemma o_bind_result: "o_bind r f = Some (Inr y) \<longleftrightarrow> (\<exists>x. r = Some (Inr x) \<and> f x = Some (Inr y))"
  by (auto simp: o_bind_def split: option.splits sum.splits)

lemma set_insert_by: "set (insert_by cmp x ys) = insert x (set ys)"
  by (induction ys) auto

lemma set_sort_stable [simp]: "set (sort_stable cmp xs) = set xs"
  by (induction xs) (simp_all add: sort_stable_def set_insert_by)

lemma sort_stable_Nil [simp]: "sort_stable cmp xs = [] \<longleftrightarrow> xs = []"
  by (metis set_empty set_sort_stable)

lemma abort_merged_ok: "ds \<noteq> [] \<Longrightarrow> o_ok P (abort_merged ds key)"
  by (simp add: abort_merged_def mergeDiagnostics_def error_diagnostics_def StampModule_def)

lemma parse_returns: "\<exists>program diagnostics. parse tokens = Some (program, diagnostics)"
proof -
  obtain program s where
    "parse_program (the_grammar (4 * length tokens + 8)) (initial_state tokens) = (Inr program, s)"
    using parse_levels_some [of tokens "4 * length tokens + 8"] by auto
  then show ?thesis by (simp add: parse_def parse_levels_def)
qed

lemma parse_module_ok:
  "o_ok (\<lambda>(tokens, program). lex key source = Some (tokens, []) \<and> parse tokens = Some (program, [])) (parse_module key source)"
proof -
  obtain tokens ds where lex: "lex key source = Some (tokens, ds)" using lex_total [of key source] by blast
  obtain program ps where "parse tokens = Some (program, ps)" using parse_returns by blast
  then show ?thesis by (simp add: parse_module_def lex abort_merged_ok)
qed

section \<open>Edges and the invariant\<close>

definition has_source :: "reach_env \<Rightarrow> string \<Rightarrow> bool" where
  "has_source env c \<longleftrightarrow> re_stdlib env c \<noteq> None \<or> sourceKeyFor env c \<noteq> []"

definition import_targets :: "(string \<rightharpoonup> module_node) \<Rightarrow> string \<Rightarrow> string list" where
  "import_targets nodes c = (case nodes c of None \<Rightarrow> [] | Some n \<Rightarrow> map edge_target (mn_imports n))"

abbreviation edge :: "reach_state \<Rightarrow> string \<Rightarrow> string \<Rightarrow> bool" where
  "edge s a b \<equiv> b \<in> set (import_targets (rs_nodes s) a)"

abbreviation visited :: "reach_state \<Rightarrow> string set" where "visited s \<equiv> wk_visited (rs_walk s)"
abbreviation active :: "reach_state \<Rightarrow> string list" where "active s \<equiv> wk_active (rs_walk s)"
abbreviation finished :: "reach_state \<Rightarrow> string list" where "finished s \<equiv> wk_order (rs_walk s)"

text \<open>The imports of \<open>c\<close> are settled against the modules finished so far: core libraries, modules among
  them, or refused with a diagnostic.\<close>

definition settled :: "reach_state \<Rightarrow> string list \<Rightarrow> string \<Rightarrow> bool" where
  "settled s done_before c \<longleftrightarrow>
     rs_by_module s c \<noteq> [] \<or>
     (distinct (import_targets (rs_nodes s) c) \<and> (\<forall>b. edge s c b \<longrightarrow> CoreModuleKnown b \<or> b \<in> set done_before))"

definition order_settled :: "reach_state \<Rightarrow> bool" where
  "order_settled s \<longleftrightarrow> (\<forall>xs c ys. finished s = xs @ c # ys \<longrightarrow> settled s xs c)"

definition real_cycle :: "reach_state \<Rightarrow> string \<Rightarrow> bool" where
  "real_cycle s t \<longleftrightarrow>
     (\<exists>cycle. t = ''import cycle: '' @ join_arrows cycle \<and> path_of (edge s) cycle \<and> 2 \<le> length cycle
        \<and> hd cycle = last cycle \<and> set cycle \<subseteq> visited s)"

definition cycles_real :: "reach_state \<Rightarrow> bool" where
  "cycles_real s \<longleftrightarrow>
     (\<forall>m. \<forall>d\<in>set (rs_by_module s m). msg_id (ld_message d) = ''module.import-cycle''
        \<longrightarrow> real_cycle s (msg_text (ld_message d)))"

definition reach_ok :: "string \<Rightarrow> reach_state \<Rightarrow> bool" where
  "reach_ok root s \<longleftrightarrow>
     walk_ok (rs_walk s) \<and> dom (rs_nodes s) = visited s \<and> path_of (edge s) (active s)
     \<and> (\<forall>c\<in>visited s. (edge s)\<^sup>*\<^sup>* root c) \<and> order_settled s
     \<and> (\<forall>m. rs_by_module s m \<noteq> [] \<longrightarrow> m \<in> visited s) \<and> cycles_real s"

text \<open>What no step undoes: outside \<open>F\<close> the nodes entered stay as they are, and everything else only
  grows.\<close>

definition grows :: "string set \<Rightarrow> reach_state \<Rightarrow> reach_state \<Rightarrow> bool" where
  "grows F s s' \<longleftrightarrow>
     active s' = active s \<and> visited s \<subseteq> visited s' \<and> (\<exists>new. finished s' = finished s @ new)
     \<and> (\<forall>m. \<exists>ds. rs_by_module s' m = rs_by_module s m @ ds)
     \<and> (\<forall>c\<in>visited s - F. rs_nodes s' c = rs_nodes s c) \<and> (\<forall>a b. edge s a b \<longrightarrow> edge s' a b)"

lemma grows_refl [simp]: "grows F s s"
  by (simp add: grows_def)

lemma grows_trans: "grows F s s' \<Longrightarrow> grows F s' s'' \<Longrightarrow> grows F s s''"
  unfolding grows_def by (elim conjE exE, intro conjI allI impI ballI) (simp, blast, force, metis append.assoc, force, blast)

lemma grows_weaken: "grows F s s' \<Longrightarrow> F \<subseteq> G \<Longrightarrow> grows G s s'"
  unfolding grows_def by blast

lemma grows_diagnosed: "grows F s s' \<Longrightarrow> rs_by_module s m \<noteq> [] \<Longrightarrow> rs_by_module s' m \<noteq> []"
  unfolding grows_def by (metis append_is_Nil_conv)

lemma grows_finished: "grows F s s' \<Longrightarrow> set (finished s) \<subseteq> set (finished s')"
  unfolding grows_def by auto

lemma grows_settled:
  assumes "settled s xs c" "grows F s s'" "rs_nodes s' c = rs_nodes s c" "set xs \<subseteq> set xs'"
  shows "settled s' xs' c"
  using assms by (fastforce simp: settled_def import_targets_def dest: grows_diagnosed)

section \<open>The steps of an import\<close>

lemma record_form:
  "\<exists>d. ld_message d = m \<and>
     record_diagnostic env i line column m s = s\<lparr>rs_by_module := (rs_by_module s)(i := rs_by_module s i @ [d])\<rparr>"
  unfolding record_diagnostic_def Let_def
  by (rule exI, rule conjI[rotated], rule refl) (simp add: in_module_def diagnostic_at_def)

lemma record_fields [simp]:
  "rs_nodes (record_diagnostic env i line column m s) = rs_nodes s"
  "rs_walk (record_diagnostic env i line column m s) = rs_walk s"
  "rs_prepared (record_diagnostic env i line column m s) = rs_prepared s"
  "rs_requests (record_diagnostic env i line column m s) = rs_requests s"
  "rs_expectations (record_diagnostic env i line column m s) = rs_expectations s"
  by (simp_all add: record_diagnostic_def Let_def)

lemma record_diagnosed [simp]: "rs_by_module (record_diagnostic env i line column m s) i \<noteq> []"
  by (simp add: record_diagnostic_def Let_def)

lemma grows_record: "grows F s (record_diagnostic env i line column m s)"
  using record_form [of m env i line column s] by (auto simp: grows_def)

lemma real_cycle_mono:
  assumes "real_cycle s t" "\<And>a b. edge s a b \<Longrightarrow> edge s' a b" "visited s \<subseteq> visited s'"
  shows "real_cycle s' t"
proof -
  obtain cycle where "t = ''import cycle: '' @ join_arrows cycle" "path_of (edge s) cycle" "2 \<le> length cycle"
      "hd cycle = last cycle" "set cycle \<subseteq> visited s"
    using assms(1) by (auto simp: real_cycle_def)
  moreover from this have "path_of (edge s') cycle" using assms(2) by (auto intro: path_of_mono)
  ultimately show ?thesis using assms(3) by (auto simp: real_cycle_def)
qed

lemma reach_ok_record:
  assumes ok: "reach_ok root s" and i: "i \<in> visited s"
    and cycle: "msg_id m = ''module.import-cycle'' \<Longrightarrow> real_cycle s (msg_text m)"
  shows "reach_ok root (record_diagnostic env i line column m s)" (is "reach_ok root ?s'")
proof -
  obtain d where d: "ld_message d = m"
    and s': "?s' = s\<lparr>rs_by_module := (rs_by_module s)(i := rs_by_module s i @ [d])\<rparr>"
    using record_form by blast
  have "order_settled ?s'"
    using ok by (auto simp: s' reach_ok_def order_settled_def settled_def)
  moreover have "cycles_real ?s'"
    using ok cycle d by (auto simp: s' reach_ok_def cycles_real_def real_cycle_def)
  ultimately show ?thesis using ok i by (auto simp: s' reach_ok_def)
qed

text \<open>The state between two imports of \<open>from_module\<close>, begun in \<open>s0\<close>.\<close>

definition linked :: "string \<Rightarrow> string \<Rightarrow> reach_state \<Rightarrow> reach_state \<Rightarrow> bool" where
  "linked root from_module s0 s \<longleftrightarrow>
     reach_ok root s \<and> grows {from_module} s0 s \<and> (\<exists>path. active s = path @ [from_module])"

definition resolving :: "string \<Rightarrow> string \<Rightarrow> reach_state \<Rightarrow> string set \<times> reach_state \<Rightarrow> bool" where
  "resolving root from_module s0 st \<longleftrightarrow>
     (case st of (imported, s) \<Rightarrow>
        linked root from_module s0 s \<and> settled s (finished s) from_module
        \<and> (rs_by_module s from_module \<noteq> [] \<or> set (import_targets (rs_nodes s) from_module) \<subseteq> imported))"

text \<open>The same after the edge to \<open>target\<close> is recorded and before it is followed.\<close>

definition pending :: "string \<Rightarrow> string \<Rightarrow> reach_state \<Rightarrow> string \<Rightarrow> string set \<Rightarrow> reach_state \<Rightarrow> bool" where
  "pending root from_module s0 target imported s \<longleftrightarrow>
     linked root from_module s0 s \<and> edge s from_module target
     \<and> (rs_by_module s from_module \<noteq> [] \<or>
        (\<exists>ts. import_targets (rs_nodes s) from_module = ts @ [target] \<and> distinct ts \<and> set ts \<subseteq> imported
            \<and> (\<forall>b\<in>set ts. CoreModuleKnown b \<or> b \<in> set (finished s))))"

lemma linked_active: "linked root f s0 s \<Longrightarrow> f \<in> set (active s) \<and> f \<in> visited s \<and> f \<notin> set (finished s) \<and> last (active s) = f"
  by (auto simp: linked_def reach_ok_def walk_ok_def)

lemma resolving_record:
  assumes "linked root f s0 s" "msg_id m = ''module.import-cycle'' \<Longrightarrow> real_cycle s (msg_text m)"
  shows "resolving root f s0 (imported, record_diagnostic env f line column m s)"
proof -
  have "linked root f s0 (record_diagnostic env f line column m s)"
    using assms reach_ok_record [of root s f m] linked_active [OF assms(1)]
    by (auto simp: linked_def intro: grows_trans grows_record)
  then show ?thesis by (simp add: resolving_def settled_def)
qed

lemma resolving_fields [simp]:
  "resolving root f s0 (imported, s\<lparr>rs_prepared := p\<rparr>) = resolving root f s0 (imported, s)"
  "resolving root f s0 (imported, s\<lparr>rs_requests := r\<rparr>) = resolving root f s0 (imported, s)"
  "resolving root f s0 (imported, s\<lparr>rs_expectations := e\<rparr>) = resolving root f s0 (imported, s)"
  by (simp_all add: resolving_def linked_def reach_ok_def order_settled_def settled_def cycles_real_def
      real_cycle_def grows_def)

lemma ordinary_message [simp]:
  "msg_id (ImportPathError q raw part) \<noteq> ''module.import-cycle''"
  "msg_id CInteropNeedsTarget \<noteq> ''module.import-cycle''"
  "msg_id (PreparedBindingMissing h) \<noteq> ''module.import-cycle''"
  "msg_id (DuplicateImport h) \<noteq> ''module.import-cycle''"
  "msg_id (UnknownStdlibModule h) \<noteq> ''module.import-cycle''"
  "msg_id (ImportedModuleNotFound h) \<noteq> ''module.import-cycle''"
  "msg_id (InvalidLogicalKey k p) \<noteq> ''module.import-cycle''"
  "msg_id (DuplicateSourceKeys k1 k2 c) \<noteq> ''module.import-cycle''"
  by (simp_all add: ImportPathError_def CInteropNeedsTarget_def PreparedBindingMissing_def DuplicateImport_def
      UnknownStdlibModule_def ImportedModuleNotFound_def InvalidLogicalKey_def DuplicateSourceKeys_def
      compile_message_def split: import_path_problem.splits logical_key_problem.splits)

lemma resolveImportPath_message: "resolveImportPath f raw = Inl m \<Longrightarrow> msg_id m \<noteq> ''module.import-cycle''"
  by (auto simp: resolveImportPath_def Let_def split: if_splits option.splits prod.splits)

lemma import_target_resolving:
  assumes "resolving root f s0 (imported, s)" "import_target env f ref s = (t, s')"
  shows "resolving root f s0 (imported, s')"
proof -
  have "linked root f s0 s" using assms(1) by (simp add: resolving_def)
  then have records: "msg_id m \<noteq> ''module.import-cycle'' \<Longrightarrow>
      resolving root f s0 (imported, record_diagnostic env f line column m s)" for m line column
    by (simp add: resolving_record)
  show ?thesis
  proof (cases "ir_kind ref")
    case RelativeImportReference
    then show ?thesis
      using assms by (auto simp: import_target_def records dest: resolveImportPath_message split: sum.splits)
  next
    case StandardLibraryImportReference
    then show ?thesis using assms by (simp add: import_target_def)
  next
    case CHeaderImportReference
    then show ?thesis
      using assms
      by (auto simp: import_target_def Let_def records split: if_splits)
  qed
qed

text \<open>Recording an edge of the module being resolved.\<close>

lemma add_edge_pending:
  assumes resolving: "resolving root f s0 (imported, s)"
  shows "o_ok (pending root f s0 (edge_target e) imported) (add_edge f e s)"
proof -
  have ok: "reach_ok root s" and linked: "linked root f s0 s" using resolving by (simp_all add: resolving_def linked_def)
  have "f \<in> dom (rs_nodes s)" using ok linked_active [OF linked] by (simp add: reach_ok_def)
  then obtain n where n: "rs_nodes s f = Some n" by blast
  define s' where "s' = s\<lparr>rs_nodes := (rs_nodes s)(f \<mapsto> n\<lparr>mn_imports := mn_imports n @ [e]\<rparr>)\<rparr>"
  have add: "add_edge f e s = o_return s'" by (simp add: add_edge_def n s'_def)
  have targets: "import_targets (rs_nodes s') c =
      import_targets (rs_nodes s) c @ (if c = f then [edge_target e] else [])" for c
    by (simp add: s'_def import_targets_def n)
  have walk: "rs_walk s' = rs_walk s" and buckets: "rs_by_module s' = rs_by_module s" by (simp_all add: s'_def)
  have grow: "grows {f} s s'" using targets by (auto simp: grows_def walk buckets s'_def)
  have "order_settled s'"
    unfolding order_settled_def
  proof (intro allI impI)
    fix xs c ys assume split: "finished s' = xs @ c # ys"
    then have "c \<noteq> f" using linked_active [OF linked] by (auto simp: walk)
    moreover have "settled s xs c" using ok split by (auto simp: reach_ok_def order_settled_def walk)
    ultimately show "settled s' xs c" by (simp add: settled_def targets buckets)
  qed
  moreover have "cycles_real s'"
    using ok real_cycle_mono [of s _ s'] grow by (auto simp: reach_ok_def cycles_real_def buckets grows_def)
  moreover have "(edge s')\<^sup>*\<^sup>* root c" if "(edge s)\<^sup>*\<^sup>* root c" for c
    using that by (rule rtranclp_mono [THEN predicate2D, rotated]) (auto simp: targets)
  moreover have "path_of (edge s') (active s')"
    using ok by (auto simp: reach_ok_def walk targets intro: path_of_mono)
  moreover have "dom (rs_nodes s') = dom (rs_nodes s)" using n by (auto simp: s'_def)
  ultimately have "reach_ok root s'" using ok by (simp add: reach_ok_def walk buckets)
  then have "linked root f s0 s'"
    using linked grow by (auto simp: linked_def walk intro: grows_trans)
  then have "pending root f s0 (edge_target e) imported s'"
    using resolving by (auto simp: pending_def resolving_def settled_def targets walk buckets)
  then show ?thesis by (simp add: add)
qed

lemma pending_diagnosed:
  assumes "pending root f s0 target imported s" "msg_id m \<noteq> ''module.import-cycle''"
  shows "resolving root f s0 (imported', record_diagnostic env f line column m s)"
  using assms by (auto simp: pending_def intro: resolving_record)

lemma pending_settles:
  assumes "pending root f s0 target imported s" "target \<notin> imported"
    "CoreModuleKnown target \<or> target \<in> set (finished s)"
  shows "resolving root f s0 (insert target imported, s)"
  using assms by (auto simp: pending_def resolving_def settled_def)

section \<open>The contract of a visit\<close>

definition visit_pre :: "reach_env \<Rightarrow> string \<Rightarrow> string \<Rightarrow> reach_state \<Rightarrow> bool" where
  "visit_pre env root c s \<longleftrightarrow>
     reach_ok root s \<and> has_source env c \<and> c \<notin> set (active s)
     \<and> (if active s = [] then c = root \<and> visited s = {} else edge s (last (active s)) c)"

definition visit_post :: "string \<Rightarrow> string \<Rightarrow> reach_state \<Rightarrow> reach_state \<Rightarrow> bool" where
  "visit_post root c s s' \<longleftrightarrow>
     reach_ok root s' \<and> grows {} s s' \<and> c \<in> set (finished s') \<and> (c \<notin> visited s \<longrightarrow> last (finished s') = c)"

text \<open>The identities with a source that the walk has yet to enter bound the depth of the recursion.\<close>

definition unvisited :: "reach_env \<Rightarrow> reach_state \<Rightarrow> nat" where
  "unvisited env s = card ({c. has_source env c} - visited s)"

lemma unvisited_grows:
  assumes "finite {c. has_source env c}" "grows F s s'"
  shows "unvisited env s' \<le> unvisited env s"
  using assms by (auto simp: unvisited_def grows_def intro!: card_mono)

lemma pending_visited:
  assumes pending: "pending root f s0 target imported s" and post: "visit_post root target s s'"
  shows "pending root f s0 target imported s' \<and> target \<in> set (finished s')"
proof -
  have linked: "linked root f s0 s" using pending by (simp add: pending_def)
  have grow: "grows {} s s'" and ok: "reach_ok root s'" using post by (simp_all add: visit_post_def)
  have nodes: "rs_nodes s' f = rs_nodes s f" using grow linked_active [OF linked] by (auto simp: grows_def)
  have linked': "linked root f s0 s'"
    unfolding linked_def
  proof (intro conjI)
    show "grows {f} s0 s'"
      using linked grows_weaken [OF grow, of "{f}"] by (auto simp: linked_def intro: grows_trans)
    have "active s' = active s" using grow by (simp add: grows_def)
    then show "\<exists>path. active s' = path @ [f]" using linked by (simp add: linked_def)
  qed (rule ok)
  have targets: "import_targets (rs_nodes s') f = import_targets (rs_nodes s) f"
    by (simp add: import_targets_def nodes)
  have later: "b \<in> set (finished s) \<Longrightarrow> b \<in> set (finished s')" for b using grows_finished [OF grow] by blast
  show ?thesis
    using pending post linked' grows_diagnosed [OF grow] later
    by (simp add: pending_def visit_post_def targets) blast
qed

text \<open>Entering a module: its source, its node, and the state its imports are resolved from.\<close>

lemma sourceFor_form:
  assumes "has_source env c"
    and that': "\<And>key source ds.
      \<lbrakk>sourceFor env c s = (Some (key, source), s\<lparr>rs_by_module := (rs_by_module s)(c := rs_by_module s c @ ds)\<rparr>);
       \<forall>d\<in>set ds. msg_id (ld_message d) \<noteq> ''module.import-cycle''\<rbrakk> \<Longrightarrow> thesis"
  shows thesis
proof -
  let ?with = "\<lambda>ds. s\<lparr>rs_by_module := (rs_by_module s)(c := rs_by_module s c @ ds)\<rparr>"
  have clean: "thesis" if "sourceFor env c s = (Some (key, source), s)" for key source
    using that that' [of key source "[]"] by simp
  have noted: "thesis"
    if "sourceFor env c s = (Some (key, source), record_diagnostic env c 1 1 m s)"
      "msg_id m \<noteq> ''module.import-cycle''" for key source m
  proof -
    obtain d where "ld_message d = m" "record_diagnostic env c 1 1 m s = ?with [d]" using record_form by blast
    then show thesis using that that' [of key source "[d]"] by simp
  qed
  show thesis
  proof (cases "re_stdlib env c")
    case (Some source)
    then show thesis
      using clean noted by (cases "sourceKeyFor env c") (simp_all add: sourceFor_def)
  next
    case None
    then obtain key keys where keys: "sourceKeyFor env c = key # keys"
      using assms by (cases "sourceKeyFor env c") (auto simp: has_source_def)
    show thesis
      using None keys clean noted by (cases keys) (simp_all add: sourceFor_def)
  qed
qed

definition entered :: "string \<Rightarrow> module_node \<Rightarrow> located list \<Rightarrow> reach_state \<Rightarrow> reach_state" where
  "entered c node ds s =
     s\<lparr>rs_walk := snd (Enter (rs_walk s) c), rs_by_module := (rs_by_module s)(c := rs_by_module s c @ ds),
       rs_nodes := (rs_nodes s)(c \<mapsto> node)\<rparr>"

lemma entered_resolving:
  assumes pre: "visit_pre env root c s" and new: "c \<notin> visited s" and fresh: "mn_imports node = []"
    and ds: "\<forall>d\<in>set ds. msg_id (ld_message d) \<noteq> ''module.import-cycle''"
  shows "resolving root c (entered c node ds s) ({}, entered c node ds s)" "grows {c} s (entered c node ds s\<lparr>rs_walk := rs_walk s\<rparr>)"
proof -
  let ?s = "entered c node ds s"
  have ok: "reach_ok root s" using pre by (simp add: visit_pre_def)
  have walk: "rs_walk ?s = (rs_walk s)\<lparr>wk_visited := insert c (visited s), wk_active := active s @ [c]\<rparr>"
    using new by (simp add: entered_def Enter_def)
  have targets: "import_targets (rs_nodes ?s) = import_targets (rs_nodes s)"
    using ok new fresh by (auto simp: entered_def import_targets_def reach_ok_def fun_eq_iff domIff split: option.splits)
  have clean: "rs_by_module s c = []" using ok new by (auto simp: reach_ok_def)
  have "order_settled ?s"
    unfolding order_settled_def
  proof (intro allI impI)
    fix xs c' ys assume split: "finished ?s = xs @ c' # ys"
    then have "settled s xs c'" using ok by (auto simp: reach_ok_def order_settled_def walk)
    moreover have "rs_by_module s c' \<noteq> [] \<Longrightarrow> rs_by_module ?s c' \<noteq> []" by (auto simp: entered_def)
    ultimately show "settled ?s xs c'" by (auto simp: settled_def targets)
  qed
  moreover have "cycles_real ?s"
    unfolding cycles_real_def
  proof (intro allI ballI impI)
    fix m d assume d: "d \<in> set (rs_by_module ?s m)" "msg_id (ld_message d) = ''module.import-cycle''"
    then have "d \<in> set (rs_by_module s m)" using ds by (auto simp: entered_def split: if_splits)
    then have "real_cycle s (msg_text (ld_message d))" using ok d(2) by (auto simp: reach_ok_def cycles_real_def)
    then show "real_cycle ?s (msg_text (ld_message d))" by (rule real_cycle_mono) (auto simp: targets walk)
  qed
  moreover have "path_of (edge ?s) (active ?s)"
    using pre by (auto simp: visit_pre_def reach_ok_def walk targets path_of_snoc split: if_splits)
  moreover have "(edge s)\<^sup>*\<^sup>* root c"
  proof (cases "active s = []")
    case False
    then have "last (active s) \<in> visited s" using ok by (auto simp: reach_ok_def walk_ok_def)
    then show ?thesis
      using pre False ok by (auto simp: visit_pre_def reach_ok_def intro: rtranclp.rtrancl_into_rtrancl)
  qed (use pre in \<open>simp add: visit_pre_def\<close>)
  moreover have "walk_ok (rs_walk ?s)" using ok new walk_ok_enter by (auto simp: reach_ok_def walk)
  ultimately have "reach_ok root ?s"
    using ok by (auto simp: reach_ok_def walk targets) (auto simp: entered_def split: if_splits)
  moreover have "import_targets (rs_nodes ?s) c = []" using fresh by (simp add: entered_def import_targets_def)
  ultimately show "resolving root c ?s ({}, ?s)"
    by (simp add: resolving_def linked_def settled_def walk)
  show "grows {c} s (?s\<lparr>rs_walk := rs_walk s\<rparr>)"
    by (auto simp: grows_def targets) (auto simp: entered_def split: if_splits)
qed

lemma unvisited_entered:
  assumes "finite {c. has_source env c}" "has_source env c" "c \<notin> visited s"
  shows "unvisited env (entered c node ds s) < unvisited env s"
proof -
  have "{x. has_source env x} - insert c (visited s) \<subset> {x. has_source env x} - visited s"
    using assms(2,3) by blast
  moreover have "visited (entered c node ds s) = insert c (visited s)"
    using assms(3) by (simp add: entered_def Enter_def)
  ultimately show ?thesis
    using assms(1) unfolding unvisited_def by (metis finite_Diff psubset_card_mono)
qed

text \<open>Leaving it.\<close>

lemma leave_module_ok:
  assumes resolving: "resolving root c (entered c node ds s) (imported, s')" and pre: "visit_pre env root c s"
    and new: "c \<notin> visited s" and grow: "grows {c} s (entered c node ds s\<lparr>rs_walk := rs_walk s\<rparr>)"
  shows "o_ok (visit_post root c s) (leave_module s')"
proof -
  let ?e = "entered c node ds s"
  have ok: "reach_ok root s'" and grow': "grows {c} ?e s'" and settled: "settled s' (finished s') c"
    using resolving by (simp_all add: resolving_def linked_def)
  have walk: "rs_walk ?e = (rs_walk s)\<lparr>wk_visited := insert c (visited s), wk_active := active s @ [c]\<rparr>"
    using new by (simp add: entered_def Enter_def)
  have active: "active s' = active s @ [c]" using grow' by (simp add: grows_def walk)
  define s2 where "s2 = s'\<lparr>rs_walk := (rs_walk s')\<lparr>wk_active := active s, wk_order := finished s' @ [c]\<rparr>\<rparr>"
  have leave: "leave_module s' = o_return s2"
    by (simp add: leave_module_def Leave_active [OF active] s2_def)
  have "order_settled s2"
    unfolding order_settled_def
  proof (intro allI impI)
    fix xs c' ys assume "finished s2 = xs @ c' # ys"
    then have "finished s' @ [c] = xs @ c' # ys" by (simp add: s2_def)
    then have "xs = finished s' \<and> c' = c \<or> (\<exists>ys'. finished s' = xs @ c' # ys')"
      by (cases ys rule: rev_cases) auto
    then have "settled s' xs c'" using ok settled by (auto simp: reach_ok_def order_settled_def)
    then show "settled s2 xs c'" by (simp add: settled_def s2_def)
  qed
  moreover have "cycles_real s2" using ok by (simp add: reach_ok_def cycles_real_def real_cycle_def s2_def)
  moreover have "walk_ok (rs_walk s2)"
    using ok walk_ok_leave [OF _ active] by (simp add: reach_ok_def s2_def)
  moreover have "path_of (edge s2) (active s2)" using ok by (simp add: reach_ok_def active path_of_snoc s2_def)
  ultimately have "reach_ok root s2" using ok by (simp add: reach_ok_def s2_def)
  moreover have "grows {} s s2"
  proof -
    have "\<exists>more. rs_by_module s2 m = rs_by_module s m @ more" for m
      using grow grow' by (auto simp: grows_def s2_def) (metis append.assoc)
    moreover have "rs_nodes s2 a = rs_nodes s a" if "a \<in> visited s" for a
      using that new grow grow' by (auto simp: grows_def s2_def walk)
    ultimately show ?thesis
      using grow grow' by (auto simp: grows_def s2_def walk)
  qed
  ultimately show ?thesis by (simp add: leave visit_post_def s2_def)
qed

locale import_visitor =
  fixes env :: reach_env and root :: string and v :: visitor and fuel :: nat
  assumes visits: "\<lbrakk>visit_pre env root c s; unvisited env s < fuel\<rbrakk> \<Longrightarrow> o_ok (visit_post root c s) (v c s)"
begin

lemma bind_import_resolving:
  assumes pending: "pending root f s0 target imported s" and source: "has_source env target"
    and room: "unvisited env s < fuel"
  shows "o_ok (resolving root f s0) (bind_import env v f ref target imported s)"
proof (cases "target \<in> imported")
  case True
  then show ?thesis using pending_diagnosed [OF pending] by (simp add: bind_import_def Let_def)
next
  case False
  have linked: "linked root f s0 s" and edge: "edge s f target" and ok: "reach_ok root s"
    using pending by (simp_all add: pending_def linked_def)
  have path: "path_of (edge s) (active s)" using ok by (simp add: reach_ok_def)
  show ?thesis
  proof (cases "Cycle (rs_walk s) target")
    case (Some cycle)
    have "real_cycle s (''import cycle: '' @ join_arrows cycle)"
      using Cycle_closes [OF Some path] edge linked_active [OF linked] ok
      by (auto simp: real_cycle_def reach_ok_def walk_ok_def)
    then show ?thesis
      using False resolving_record [OF linked] by (simp add: bind_import_def Let_def Some ImportCycle_def compile_message_def)
  next
    case None
    then have "target \<notin> set (active s)" by (simp add: Cycle_def split: if_splits)
    then have "visit_pre env root target s"
      using ok source edge linked_active [OF linked] by (auto simp: visit_pre_def)
    then have "o_ok (visit_post root target s) (v target s)" using room by (rule visits)
    then have "o_ok (resolving root f s0) (o_bind (v target s) (\<lambda>s. o_return (insert target imported, s)))"
      by (rule o_ok_bind) (use pending_visited [OF pending] False pending_settles in auto)
    then show ?thesis using False None by (simp add: bind_import_def Let_def)
  qed
qed

lemma resolveImport_resolving:
  assumes start: "resolving root f s0 (imported, s)" and room: "unvisited env s0 < fuel"
    and ids: "finite {c. has_source env c}"
  shows "o_ok (resolving root f s0) (resolveImport env v f entry (imported, s))"
proof -
  obtain nm from_token ref where entry: "entry = (nm, from_token, ref)" by (cases entry)
  obtain t s1 where target: "import_target env f ref s = (t, s1)" by fastforce
  have s1: "resolving root f s0 (imported, s1)" by (rule import_target_resolving [OF start target])
  show ?thesis
  proof (cases t)
    case None
    then show ?thesis using s1 by (simp add: resolveImport_def entry target Let_def)
  next
    case (Some t')
    show ?thesis
      unfolding resolveImport_def entry prod.case Let_def target Some option.case
    proof (rule o_ok_bind [OF add_edge_pending [OF s1]])
      fix s2
      let ?e = "\<lparr>edge_alias = tk_lexeme nm, edge_target = t', edge_c_import = (ir_kind ref = CHeaderImportReference),
                  edge_c_display = (if ir_kind ref = CHeaderImportReference then ir_display ref else [])\<rparr>"
      assume "pending root f s0 (edge_target ?e) imported s2"
      then have pending: "pending root f s0 t' imported s2" by simp
      then have "unvisited env s2 < fuel"
        using unvisited_grows [OF ids, of "{f}" s0 s2] room by (simp add: pending_def linked_def)
      note visited = bind_import_resolving [OF pending _ this, of ref]
      show "o_ok (resolving root f s0)
          (if ir_kind ref = StandardLibraryImportReference then
             (if CoreModuleKnown t' then
                (if t' \<in> imported
                 then o_return (imported, record_diagnostic env f (int (tk_line (ir_token ref)))
                        (int (tk_column (ir_token ref))) (DuplicateImport t') s2)
                 else o_return (insert t' imported, s2))
              else if IsSourceModule env t' then bind_import env v f ref t' imported s2
              else o_return (imported, record_diagnostic env f (int (tk_line (ir_token ref)))
                     (int (tk_column (ir_token ref))) (UnknownStdlibModule (ir_display ref)) s2))
           else if sourceKeyFor env t' = []
           then o_return (imported, record_diagnostic env f (int (tk_line (ir_token ref)))
                  (int (tk_column (ir_token ref))) (ImportedModuleNotFound (ir_display ref)) s2)
           else bind_import env v f ref t' imported s2)"
        using pending_diagnosed [OF pending] pending_settles [OF pending] visited
        by (simp add: has_source_def IsSourceModule_def)
    qed
  qed
qed

lemma resolve_entries_resolving:
  assumes "resolving root f s0 st" "unvisited env s0 < fuel" "finite {c. has_source env c}"
  shows "o_ok (resolving root f s0) (resolve_entries env v f entries st)"
  using assms(1)
proof (induction entries arbitrary: st)
  case (Cons entry entries)
  obtain imported s where "st = (imported, s)" by (cases st)
  then have "o_ok (resolving root f s0) (resolveImport env v f entry st)"
    using Cons.prems resolveImport_resolving [OF _ assms(2,3)] by simp
  then show ?case by (auto intro: o_ok_bind Cons.IH)
qed simp

lemma visit_module_meets:
  assumes pre: "visit_pre env root c s" and room: "unvisited env s < Suc fuel"
    and ids: "finite {c. has_source env c}"
  shows "o_ok (visit_post root c s) (visit_module env v c s)"
proof (cases "c \<in> visited s")
  case True
  then have "visit_post root c s s" using pre by (auto simp: visit_pre_def visit_post_def reach_ok_def walk_ok_def)
  then show ?thesis using True by (simp add: visit_module_def Enter_def)
next
  case False
  let ?w = "(rs_walk s)\<lparr>wk_visited := insert c (visited s), wk_active := active s @ [c]\<rparr>"
  have source: "has_source env c" using pre by (simp add: visit_pre_def)
  obtain key source ds where for_c: "sourceFor env c (s\<lparr>rs_walk := ?w\<rparr>) = (Some (key, source),
      s\<lparr>rs_walk := ?w, rs_by_module := (rs_by_module s)(c := rs_by_module s c @ ds)\<rparr>)"
    and ds: "\<forall>d\<in>set ds. msg_id (ld_message d) \<noteq> ''module.import-cycle''"
    using sourceFor_form [OF source, of "s\<lparr>rs_walk := ?w\<rparr>"] by auto
  let ?s = "s\<lparr>rs_walk := ?w, rs_by_module := (rs_by_module s)(c := rs_by_module s c @ ds)\<rparr>"
  show ?thesis
  proof (cases "module_key_error c key ?s")
    case (Some e)
    then have "proper_error e" by (auto simp: module_key_error_def split: if_splits)
    then show ?thesis using False Some by (simp add: visit_module_def Enter_def for_c)
  next
    case None
    have "o_ok (visit_post root c s)
      (o_bind (resolve_entries env v c (import_entries program) ({}, entered c node ds s))
        (\<lambda>(imported, s). leave_module s))" if "mn_imports node = []" for node program
    proof (rule o_ok_bind)
      note enter = entered_resolving [OF pre False that ds]
      have "unvisited env (entered c node ds s) < fuel"
        using unvisited_entered [OF ids source False, of node ds] room by simp
      then show "o_ok (resolving root c (entered c node ds s))
          (resolve_entries env v c (import_entries program) ({}, entered c node ds s))"
        by (rule resolve_entries_resolving [OF enter(1) _ ids])
      show "o_ok (visit_post root c s) (case st of (imported, s) \<Rightarrow> leave_module s)"
        if "resolving root c (entered c node ds s) st" for st
        using that leave_module_ok [OF _ pre False enter(2)] by (cases st) simp
    qed
    then show ?thesis
      using False None
      by (auto simp: visit_module_def Enter_def for_c entered_def Let_def intro!: o_ok_bind [OF parse_module_ok])
  qed
qed

end

text \<open>Every level of the visit meets the contract.\<close>

lemma visit_contract:
  assumes "finite {c. has_source env c}"
  shows "import_visitor env root (visit env n) n"
proof (induction n)
  case 0
  show ?case by unfold_locales simp
next
  case (Suc n)
  then show ?case using import_visitor.visit_module_meets [OF Suc _ _ assms] by unfold_locales simp
qed

section \<open>The environments of the entry points\<close>

lemma sourceKeyFor_build:
  "sourceKeyFor (build_env inp discover) c =
     sort (filter (\<lambda>key. canonicalFromLogicalKey key = c) (remdups (map fst (in_sources inp))))"
  by (simp add: sourceKeyFor_def build_env_def indexSourceKeys_def Let_def)

lemma has_source_subset:
  "{c. has_source (build_env inp discover) c} \<subseteq>
     set (map fst (stdlibSourcesByCanonical (in_embedded inp)))
       \<union> set (map canonicalFromLogicalKey (remdups (map fst (in_sources inp))))"
proof
  fix c assume "c \<in> {c. has_source (build_env inp discover) c}"
  then consider "map_of (stdlibSourcesByCanonical (in_embedded inp)) c \<noteq> None"
    | "sourceKeyFor (build_env inp discover) c \<noteq> []"
    by (auto simp: has_source_def build_env_def)
  then show "c \<in> set (map fst (stdlibSourcesByCanonical (in_embedded inp)))
       \<union> set (map canonicalFromLogicalKey (remdups (map fst (in_sources inp))))"
  proof cases
    case 1
    then show ?thesis by (simp add: map_of_eq_None_iff)
  next
    case 2
    then have "set (sourceKeyFor (build_env inp discover) c) \<noteq> {}" by simp
    then show ?thesis unfolding sourceKeyFor_build set_sort set_filter by auto
  qed
qed

lemma finite_ids: "finite {c. has_source (build_env inp discover) c}"
  using has_source_subset by (rule finite_subset) simp

lemma unvisited_initial: "unvisited (build_env inp discover) initial_reach < visit_fuel inp"
proof -
  let ?A = "set (map fst (stdlibSourcesByCanonical (in_embedded inp)))"
  let ?B = "set (map canonicalFromLogicalKey (remdups (map fst (in_sources inp))))"
  have "card {c. has_source (build_env inp discover) c} \<le> card (?A \<union> ?B)"
    by (rule card_mono [OF _ has_source_subset]) simp
  also have "\<dots> \<le> card ?A + card ?B" by (rule card_Un_le)
  also have "\<dots> \<le> length (in_embedded inp) + length (remdups (map fst (in_sources inp)))"
    using card_length [of "map fst (stdlibSourcesByCanonical (in_embedded inp))"]
      card_length [of "map canonicalFromLogicalKey (remdups (map fst (in_sources inp)))"]
    by (simp only: length_map stdlibSourcesByCanonical_def stdlib_Sources_def)
  finally show ?thesis by (simp add: unvisited_def visit_fuel_def initial_reach_def NewWalker_def)
qed

interpretation walk: import_visitor "build_env inp discover" root "visit (build_env inp discover) n" n
  for inp discover root n
  by (rule visit_contract [OF finite_ids])

lemma reach_ok_initial: "reach_ok root initial_reach"
  by (simp add: reach_ok_def initial_reach_def order_settled_def cycles_real_def NewWalker_def walk_ok_def)

lemma visit_root:
  assumes "has_source (build_env inp discover) root"
  shows "o_ok (\<lambda>s. reach_ok root s \<and> active s = [] \<and> root \<in> set (finished s) \<and> last (finished s) = root)
           (visit (build_env inp discover) (visit_fuel inp) root initial_reach)"
proof -
  have "visit_pre (build_env inp discover) root root initial_reach"
    using assms reach_ok_initial by (simp add: visit_pre_def initial_reach_def NewWalker_def)
  then have "o_ok (visit_post root root initial_reach)
      (visit (build_env inp discover) (visit_fuel inp) root initial_reach)"
    using unvisited_initial by (rule walk.visits)
  then show ?thesis
    by (rule o_ok_mono) (auto simp: visit_post_def grows_def initial_reach_def NewWalker_def)
qed

lemma entrypoint_source:
  assumes "entrypoint \<in> set (map fst (in_sources inp))"
  shows "has_source (build_env inp discover) (canonicalFromLogicalKey entrypoint)"
proof -
  have "entrypoint \<in> set (sourceKeyFor (build_env inp discover) (canonicalFromLogicalKey entrypoint))"
    using assms unfolding sourceKeyFor_build set_sort set_filter by simp
  then show ?thesis by (auto simp: has_source_def)
qed

text \<open>The check of the prepared bindings only adds its own diagnostics.\<close>

lemma validate_fields [simp]:
  "rs_nodes (validatePreparedBindings env s) = rs_nodes s"
  "rs_walk (validatePreparedBindings env s) = rs_walk s"
proof -
  have "rs_nodes (foldl (validate_expectation env) s ks) = rs_nodes s
      \<and> rs_walk (foldl (validate_expectation env) s ks) = rs_walk s" for ks
    by (induction ks arbitrary: s) (auto simp: validate_expectation_def split: option.splits)
  then show "rs_nodes (validatePreparedBindings env s) = rs_nodes s"
    "rs_walk (validatePreparedBindings env s) = rs_walk s" by (simp_all add: validatePreparedBindings_def)
qed

lemma validate_buckets:
  "\<exists>ds. rs_by_module (validatePreparedBindings env s) m = rs_by_module s m @ ds
     \<and> (\<forall>d\<in>set ds. msg_id (ld_message d) \<noteq> ''module.import-cycle'')"
proof -
  have step: "\<exists>ds. rs_by_module (validate_expectation env s k) m = rs_by_module s m @ ds
     \<and> (\<forall>d\<in>set ds. msg_id (ld_message d) \<noteq> ''module.import-cycle'')" for s k
  proof (cases "validate_expectation env s k = s")
    case False
    then obtain i l c h where "validate_expectation env s k = record_diagnostic env i l c (PreparedBindingMissing h) s"
      by (auto simp: validate_expectation_def split: option.splits if_splits)
    then show ?thesis using record_form [of "PreparedBindingMissing h" env i l c s] by auto
  qed simp
  have "\<exists>ds. rs_by_module (foldl (validate_expectation env) s ks) m = rs_by_module s m @ ds
     \<and> (\<forall>d\<in>set ds. msg_id (ld_message d) \<noteq> ''module.import-cycle'')" for ks
  proof (induction ks rule: rev_induct)
    case (snoc k ks)
    then show ?case using step [of "foldl (validate_expectation env) s ks" k] by fastforce
  qed simp
  then show ?thesis by (simp add: validatePreparedBindings_def)
qed

lemma publish_ok:
  assumes "reach_ok root s" "active s = []"
  shows "publish_graph r s = o_return \<lparr>mg_order = finished s, mg_modules = rs_nodes s, mg_root = r\<rparr>"
proof -
  have nodes: "dom (rs_nodes s) = set (finished s)" using assms by (auto simp: reach_ok_def walk_ok_def)
  have "(rs_nodes s |` set (finished s)) m = rs_nodes s m" for m
    using nodes by (cases "m \<in> set (finished s)") (simp, metis domIff restrict_out)
  then have "rs_nodes s |` set (finished s) = rs_nodes s" by blast
  moreover have "\<not> list_ex (\<lambda>m. rs_nodes s m = None) (finished s)" using nodes by (auto simp: list_ex_iff)
  ultimately show ?thesis by (simp add: publish_graph_def Order_def Let_def)
qed

lemma publish_validated:
  assumes "reach_ok root s" "active s = []"
  shows "publish_graph r (validatePreparedBindings env s) =
    o_return \<lparr>mg_order = finished s, mg_modules = rs_nodes s, mg_root = r\<rparr>"
proof -
  have "publish_graph r (validatePreparedBindings env s) = publish_graph r s"
    by (simp add: publish_graph_def Order_def Let_def)
  then show ?thesis using publish_ok [OF assms] by simp
qed

text \<open>What a resolution that returns a graph has built.\<close>

lemma resolution_state:
  assumes "reachableModulesTarget inp entrypoint = Some (Inr (g, ds))"
    and "entrypoint \<in> set (map fst (in_sources inp))"
  obtains s where "reach_ok (canonicalFromLogicalKey entrypoint) s" "active s = []"
    "finished s \<noteq> []" "last (finished s) = canonicalFromLogicalKey entrypoint"
    "g = \<lparr>mg_order = finished s, mg_modules = rs_nodes s, mg_root = canonicalFromLogicalKey entrypoint\<rparr>"
    "ds = merged_diagnostics (validatePreparedBindings (build_env inp False) s)"
proof -
  let ?root = "canonicalFromLogicalKey entrypoint"
  obtain s where visit: "visit (build_env inp False) (visit_fuel inp) ?root initial_reach = Some (Inr s)"
    and g: "o_bind (publish_graph ?root (validatePreparedBindings (build_env inp False) s))
       (\<lambda>g. o_return (g, merged_diagnostics (validatePreparedBindings (build_env inp False) s))) = Some (Inr (g, ds))"
    using assms(1) by (auto simp: reachableModulesTarget_def Let_def o_bind_result)
  have ok: "reach_ok ?root s" "active s = []" "?root \<in> set (finished s)" "last (finished s) = ?root"
    using o_ok_result [OF visit_root [OF entrypoint_source [OF assms(2)]] visit] by simp_all
  then have "g = \<lparr>mg_order = finished s, mg_modules = rs_nodes s, mg_root = ?root\<rparr>"
    "ds = merged_diagnostics (validatePreparedBindings (build_env inp False) s)"
    using g by (auto simp: publish_validated o_bind_def o_return_def)
  then show thesis using ok that by fastforce
qed

end
