(* ===== verification/ModulePathLaws.thy ===== *)
theory ModulePathLaws
  imports ModulePaths
begin

text \<open>
  Keys and import paths over lists of components: splitting and joining at slashes, the directory of
  a module, climbing out of it, and the suffixes that are stripped.
\<close>

lemma join_slashes_Cons: "join_slashes (part # parts) = part @ (if parts = [] then [] else CHR ''/'' # join_slashes parts)"
  by (cases parts) simp_all

lemma split_slashes_part: "CHR ''/'' \<notin> set part \<Longrightarrow> split_slashes (part @ CHR ''/'' # s) = part # split_slashes s"
  by (induction part) auto

lemma split_slashes_single: "CHR ''/'' \<notin> set part \<Longrightarrow> split_slashes part = [part]"
  by (induction part) auto

lemma split_join_slashes:
  "parts \<noteq> [] \<Longrightarrow> (\<And>p. p \<in> set parts \<Longrightarrow> CHR ''/'' \<notin> set p) \<Longrightarrow> split_slashes (join_slashes parts) = parts"
proof (induction parts)
  case (Cons p parts)
  then show ?case by (cases "parts = []") (simp_all add: join_slashes_Cons split_slashes_part split_slashes_single)
qed simp

lemma takeWhile_first: "takeWhile (\<lambda>c. c \<noteq> CHR ''/'') s = hd (split_slashes s)"
proof (induction s)
  case (Cons c s)
  then show ?case by (cases "split_slashes s") auto
qed simp

lemma join_slashes_append:
  "xs \<noteq> [] \<Longrightarrow> ys \<noteq> [] \<Longrightarrow> join_slashes (xs @ ys) = join_slashes xs @ CHR ''/'' # join_slashes ys"
  by (induction xs) (auto simp: join_slashes_Cons)

section \<open>Valid components\<close>

lemma identifier_part_facts:
  "\<not> is_identifier_part (CHR ''/'')" "\<not> is_identifier_part (CHR ''.'')"
  "\<not> is_identifier_part DQUOTE"
  by code_simp+

lemma is_identifier_start_part: "is_identifier_start c \<Longrightarrow> is_identifier_part c"
  by (simp add: is_identifier_part_def)

lemma component_bytes: "component_valid p \<Longrightarrow> c \<in> set p \<Longrightarrow> is_identifier_part c"
  by (cases p) (auto simp: component_valid_def list_all_iff is_identifier_start_part)

lemma component_free:
  assumes "component_valid p"
  shows "CHR ''/'' \<notin> set p" "CHR ''.'' \<notin> set p" "DQUOTE \<notin> set p" "p \<noteq> []"
  using component_bytes [OF assms] identifier_part_facts assms by (auto simp: component_valid_def)

definition valid_components :: "string list \<Rightarrow> bool" where
  "valid_components parts \<longleftrightarrow> list_all component_valid parts"

lemma split_join_valid: "valid_components parts \<Longrightarrow> parts \<noteq> [] \<Longrightarrow> split_slashes (join_slashes parts) = parts"
  by (rule split_join_slashes) (auto simp: valid_components_def list_all_iff component_free)

lemma join_valid_free: "valid_components parts \<Longrightarrow> CHR ''.'' \<notin> set (join_slashes parts)"
  by (induction parts) (auto simp: valid_components_def join_slashes_Cons component_free)

lemma join_valid_Nil: "valid_components parts \<Longrightarrow> join_slashes parts = [] \<longleftrightarrow> parts = []"
  by (cases parts) (auto simp: valid_components_def join_slashes_Cons component_free)

section \<open>Suffixes\<close>

lemma trim_suffix_append [simp]: "trim_suffix (s @ t) t = s"
  by (simp add: trim_suffix_def has_suffix_def)

lemma has_suffix_append [simp]: "has_suffix (s @ t) t"
  by (simp add: has_suffix_def)

lemma has_suffixE: assumes "has_suffix s t" obtains r where "s = r @ t"
  using assms that [of "take (length s - length t) s"] by (simp add: has_suffix_def) (metis append_take_drop_id)

lemma trim_suffix_absent: "c \<notin> set s \<Longrightarrow> c \<in> set t \<Longrightarrow> trim_suffix s t = s"
  by (auto simp: trim_suffix_def elim!: has_suffixE)

lemma canonical_valid: "valid_components parts \<Longrightarrow> canonicalFromLogicalKey (join_slashes parts) = join_slashes parts"
  unfolding canonicalFromLogicalKey_def by (rule trim_suffix_absent [of "CHR ''.''"]) (simp_all add: join_valid_free)

section \<open>Directories\<close>

lemma parent_dir_snoc:
  assumes "CHR ''/'' \<notin> set m"
  shows "parent_dir (join_slashes (dirs @ [m])) = join_slashes dirs"
proof (cases "dirs = []")
  case False
  have "dropWhile (\<lambda>c. c \<noteq> CHR ''/'') (rev m @ CHR ''/'' # x) = CHR ''/'' # x" for x
    using assms by (subst dropWhile_append2) auto
  then show ?thesis using False by (simp add: parent_dir_def join_slashes_append)
qed (use assms in \<open>simp add: parent_dir_def\<close>)

lemma climb_stop: "\<not> has_prefix rest ''../'' \<Longrightarrow> climb dir rest = Some (dir, rest)"
  by (subst climb.simps) simp

lemma climb_ups:
  assumes "valid_components dirs" "\<not> has_prefix rest ''../''"
  shows "climb (join_slashes dirs) (concat (replicate k ''../'') @ rest) =
    (if k \<le> length dirs then Some (join_slashes (take (length dirs - k) dirs), rest) else None)"
  using assms(1)
proof (induction k arbitrary: dirs)
  case (Suc k)
  have step: "climb d (''../'' @ s) = (if d = [] then None else climb (parent_dir d) s)" for d s
    by (subst climb.simps) (simp add: has_prefix_def)
  show ?case
  proof (cases dirs rule: rev_cases)
    case Nil
    then show ?thesis using step [of "[]"] by simp
  next
    case (snoc ds d)
    have valid: "valid_components ds" "component_valid d" using Suc.prems by (simp_all add: valid_components_def snoc)
    have "join_slashes dirs \<noteq> []" using join_valid_Nil [OF Suc.prems] snoc by simp
    then have "climb (join_slashes dirs) (concat (replicate (Suc k) ''../'') @ rest) =
        climb (join_slashes ds) (concat (replicate k ''../'') @ rest)"
      using step [of "join_slashes dirs"] parent_dir_snoc [OF component_free(1) [OF valid(2)], of ds]
      by (simp add: snoc)
    then show ?thesis using Suc.IH [OF valid(1)] by (auto simp: snoc)
  qed
qed (simp add: climb_stop [OF assms(2)])

lemma refused_none: "valid_components parts \<Longrightarrow> refused_component parts = None"
  by (auto simp: refused_component_def valid_components_def list_all_iff find_None_iff)

lemma unquoted_quoted [simp]: "unquoted (quoted s) = s"
  by (simp add: unquoted_def quoted_def)

lemma valid_no_prefix:
  assumes "valid_components parts" "parts \<noteq> []"
  shows "\<not> has_prefix (join_slashes parts @ ext) ''./''" "\<not> has_prefix (join_slashes parts @ ext) ''../''"
proof -
  obtain c s where "join_slashes parts = c # s" using join_valid_Nil [OF assms(1)] assms(2) by (cases "join_slashes parts") auto
  moreover have "c \<noteq> CHR ''.''" using join_valid_free [OF assms(1)] calculation by auto
  ultimately show "\<not> has_prefix (join_slashes parts @ ext) ''./''" "\<not> has_prefix (join_slashes parts @ ext) ''../''"
    by (auto simp: has_prefix_def)
qed

end
