(* ===== verification/ModuleProps.thy ===== *)
theory ModuleProps
  imports ModuleLaws ModulePathLaws
begin

text \<open>
  Properties of module resolution: the walk always ends, its result is a topological order of
  exactly the modules the entrypoint reaches, a reported cycle is one, the order a Go map iterates in does not show,
  and keys and import paths mean what their components say.
\<close>

section \<open>The graph\<close>

abbreviation graph_edge :: "module_graph \<Rightarrow> string \<Rightarrow> string \<Rightarrow> bool" where
  "graph_edge g a b \<equiv> b \<in> set (import_targets (mg_modules g) a)"

text \<open>Two small compilations the witnesses evaluate: a module that imports another and a core library, and one that
  imports itself.\<close>

definition importing_input :: reach_input where
  "importing_input =
     \<lparr>in_sources = [(''a.hex'', ''import b from '' @ quoted ''./b'' @ '', io from std.io end''), (''b.hex'', [])],
      in_embedded = [], in_target = [], in_iteration = id\<rparr>"

definition cyclic_input :: reach_input where
  "cyclic_input =
     \<lparr>in_sources = [(''a.hex'', ''import a from '' @ quoted ''./a'' @ '' end'')], in_embedded = [], in_target = [],
      in_iteration = id\<rparr>"

definition resolution_summary ::
  "(module_graph \<times> located list) outcome \<Rightarrow> (string list \<times> string list) option" where
  "resolution_summary r =
     (case r of Some (Inr (g, ds)) \<Rightarrow> Some (mg_order g, map (\<lambda>d. msg_id (ld_message d)) ds) | _ \<Rightarrow> None)"

lemma importing_resolves:
  "resolution_summary (reachableModulesTarget importing_input ''a.hex'') = Some ([''b'', ''a''], [])"
  by code_simp

lemma cyclic_resolves:
  "resolution_summary (reachableModulesTarget cyclic_input ''a.hex'') = Some ([''a''], [''module.import-cycle''])"
  by code_simp

lemma merged_empty: "merged_diagnostics s = [] \<Longrightarrow> m \<in> set (finished s) \<Longrightarrow> rs_by_module s m = []"
  by (simp add: merged_diagnostics_def Order_def)

lemma merged_member:
  assumes "d \<in> set (merged_diagnostics s)"
  obtains m where "d \<in> set (rs_by_module s m)"
  using assms by (auto simp: merged_diagnostics_def)

text \<open>
  C4. A resolution without diagnostics lists every module once, the root last, and only modules the root
  reaches along imports. Every import of a listed module is a core library or a module listed
  before it, and no module imports a target twice: the list is a topological order of all the modules the
  entrypoint reaches, and the graph holds exactly their nodes.
\<close>

theorem resolved_order_topological:
  assumes "reachableModulesTarget inp entrypoint = Some (Inr (g, []))"
    and "entrypoint \<in> set (map fst (in_sources inp))"
  shows "distinct (mg_order g) \<and> mg_order g \<noteq> [] \<and> last (mg_order g) = mg_root g
    \<and> dom (mg_modules g) = set (mg_order g)
    \<and> (\<forall>m\<in>set (mg_order g). (graph_edge g)\<^sup>*\<^sup>* (mg_root g) m)
    \<and> (\<forall>xs m ys. mg_order g = xs @ m # ys \<longrightarrow>
         distinct (import_targets (mg_modules g) m)
         \<and> (\<forall>t\<in>set (import_targets (mg_modules g) m). CoreModuleKnown t \<or> t \<in> set xs))"
proof -
  let ?root = "canonicalFromLogicalKey entrypoint"
  obtain s where s: "reach_ok ?root s" "active s = []" "finished s \<noteq> []" "last (finished s) = ?root"
    and g: "g = \<lparr>mg_order = finished s, mg_modules = rs_nodes s, mg_root = ?root\<rparr>"
    and merged: "merged_diagnostics (validatePreparedBindings (build_env inp False) s) = []"
    by (rule resolution_state [OF assms]) auto
  have clean: "rs_by_module s m = []" if "m \<in> set (finished s)" for m
    using merged_empty [OF merged, of m] that validate_buckets [of "build_env inp False" s m] by auto
  have walk: "distinct (finished s)" "visited s = set (finished s)" using s by (auto simp: reach_ok_def walk_ok_def)
  have "settled s xs m" "m \<in> set (finished s)" if "finished s = xs @ m # ys" for xs m ys
    using s that by (auto simp: reach_ok_def order_settled_def)
  then have "distinct (import_targets (rs_nodes s) m)
      \<and> (\<forall>t\<in>set (import_targets (rs_nodes s) m). CoreModuleKnown t \<or> t \<in> set xs)"
    if "finished s = xs @ m # ys" for xs m ys
    using that clean by (force simp: settled_def)
  then show ?thesis using s walk unfolding g by (simp add: reach_ok_def)
qed

theorem resolved_order_topological_witness:
  "\<exists>g. reachableModulesTarget importing_input ''a.hex'' = Some (Inr (g, [])) \<and> mg_order g = [''b'', ''a'']
    \<and> last (mg_order g) = mg_root g \<and> (graph_edge g)\<^sup>*\<^sup>* (mg_root g) ''b''"
proof -
  obtain g where g: "reachableModulesTarget importing_input ''a.hex'' = Some (Inr (g, []))" "mg_order g = [''b'', ''a'']"
    using importing_resolves by (auto simp: resolution_summary_def split: option.splits sum.splits)
  then show ?thesis using resolved_order_topological [OF g(1)] by (auto simp: importing_input_def)
qed

text \<open>
  C16. A reported import cycle is real: its text names modules of the graph, each of which imports
  the next, and the last is the first.
\<close>

theorem reported_cycle_is_a_cycle:
  assumes "reachableModulesTarget inp entrypoint = Some (Inr (g, ds))"
    and "entrypoint \<in> set (map fst (in_sources inp))"
    and "d \<in> set ds" "msg_id (ld_message d) = ''module.import-cycle''"
  shows "\<exists>cycle. msg_text (ld_message d) = ''import cycle: '' @ join_arrows cycle \<and> 2 \<le> length cycle
    \<and> hd cycle = last cycle \<and> path_of (graph_edge g) cycle \<and> set cycle \<subseteq> set (mg_order g)"
proof -
  let ?root = "canonicalFromLogicalKey entrypoint"
  obtain s where s: "reach_ok ?root s" "active s = []"
    and g: "g = \<lparr>mg_order = finished s, mg_modules = rs_nodes s, mg_root = ?root\<rparr>"
    and merged: "ds = merged_diagnostics (validatePreparedBindings (build_env inp False) s)"
    by (rule resolution_state [OF assms(1,2)]) auto
  obtain m where "d \<in> set (rs_by_module (validatePreparedBindings (build_env inp False) s) m)"
    using merged_member assms(3) unfolding merged by blast
  then have "d \<in> set (rs_by_module s m)"
    using assms(4) validate_buckets [of "build_env inp False" s m] by auto
  then have "real_cycle s (msg_text (ld_message d))"
    using s assms(4) by (auto simp: reach_ok_def cycles_real_def)
  then show ?thesis using s unfolding g by (auto simp: real_cycle_def reach_ok_def walk_ok_def)
qed

theorem reported_cycle_is_a_cycle_witness:
  "\<exists>g d. reachableModulesTarget cyclic_input ''a.hex'' = Some (Inr (g, [d]))
    \<and> (\<exists>cycle. msg_text (ld_message d) = ''import cycle: '' @ join_arrows cycle \<and> path_of (graph_edge g) cycle
        \<and> hd cycle = last cycle)"
proof -
  obtain g d where "reachableModulesTarget cyclic_input ''a.hex'' = Some (Inr (g, [d]))"
    "msg_id (ld_message d) = ''module.import-cycle''"
    using cyclic_resolves by (auto simp: resolution_summary_def split: option.splits sum.splits)
  then show ?thesis
    using reported_cycle_is_a_cycle [of cyclic_input "''a.hex''" g "[d]" d] by (auto simp: cyclic_input_def)
qed

lemma sorted_filter_set:
  assumes "set xs = set ys"
  shows "sort (filter P (remdups xs)) = sort (filter P (remdups (ys :: string list)))"
  using assms by (intro sorted_distinct_set_unique) auto

text \<open>
  C24. The sources are a Go map, and the order and repetition the model's list gives them do not
  show: two lists with the same contents resolve to the same graph and the same diagnostics.
\<close>

theorem resolution_independent_of_map_order:
  assumes "map_of (in_sources inp) = map_of sources"
  shows "reachableModulesTarget (inp\<lparr>in_sources := sources\<rparr>) entrypoint = reachableModulesTarget inp entrypoint"
proof -
  have keys: "set (map fst (in_sources inp)) = set (map fst sources)"
    using assms by (metis dom_map_of_conv_image_fst list.set_map)
  then have "length (remdups (map fst (in_sources inp))) = length (remdups (map fst sources))"
    by (metis length_remdups_card_conv)
  then have "visit_fuel (inp\<lparr>in_sources := sources\<rparr>) = visit_fuel inp" by (simp add: visit_fuel_def)
  moreover have "indexSourceKeys (in_sources inp) = indexSourceKeys sources"
    using sorted_filter_set [OF keys] by (simp add: indexSourceKeys_def Let_def fun_eq_iff)
  then have "build_env (inp\<lparr>in_sources := sources\<rparr>) False = build_env inp False"
    by (simp add: build_env_def assms)
  ultimately show ?thesis by (simp add: reachableModulesTarget_def)
qed

theorem resolution_independent_of_map_order_witness:
  "reachableModulesTarget (importing_input\<lparr>in_sources := rev (in_sources importing_input)\<rparr>) ''a.hex''
    = reachableModulesTarget importing_input ''a.hex''"
  by (rule resolution_independent_of_map_order) (auto simp: importing_input_def)

section \<open>Keys and paths\<close>

text \<open>
  C15. A logical key is accepted exactly when it is a slash-separated path of Hexal identifiers
  with one .hex suffix whose first component is neither std nor hexalc.
\<close>

theorem logical_key_accepted_iff:
  "validateLogicalKey key = None \<longleftrightarrow>
     (\<exists>parts. parts \<noteq> [] \<and> valid_components parts \<and> key = join_slashes parts @ ''.hex''
        \<and> hd parts \<notin> {''std'', ''hexalc''})"
proof
  assume accepted: "validateLogicalKey key = None"
  then obtain stem where key: "key = stem @ ''.hex''"
    by (auto simp: validateLogicalKey_def split: if_splits elim: has_suffixE)
  then show "\<exists>parts. parts \<noteq> [] \<and> valid_components parts \<and> key = join_slashes parts @ ''.hex''
        \<and> hd parts \<notin> {''std'', ''hexalc''}"
    using accepted
    by (intro exI [of _ "split_slashes stem"])
      (auto simp: validateLogicalKey_def Let_def takeWhile_first valid_components_def split: if_splits)
next
  assume "\<exists>parts. parts \<noteq> [] \<and> valid_components parts \<and> key = join_slashes parts @ ''.hex''
        \<and> hd parts \<notin> {''std'', ''hexalc''}"
  then show "validateLogicalKey key = None"
    by (auto simp: validateLogicalKey_def Let_def takeWhile_first split_join_valid) (simp add: valid_components_def)
qed

text \<open>
  C14. A relative import climbs out of the importing module's directory and descends: with k
  leading parent steps (or the current-directory prefix for none) and a path of identifiers,
  with or without .hex, it names the module at that place, and is refused exactly when it climbs above the root.
\<close>

theorem import_path_resolves:
  assumes "valid_components dirs" "component_valid m" "valid_components parts" "parts \<noteq> []" "ext \<in> {[], ''.hex''}"
    and raw: "raw = quoted ((if k = 0 then ''./'' else concat (replicate k ''../'')) @ join_slashes parts @ ext)"
  shows "resolveImportPath (join_slashes (dirs @ [m])) raw =
    (if k \<le> length dirs then Inr (join_slashes (take (length dirs - k) dirs @ parts))
     else Inl (ImportPathError ImportPathAboveRoot raw []))"
proof -
  let ?rest = "(if k = 0 then ''./'' else []) @ join_slashes parts @ ext"
  let ?up = "take (length dirs - k) dirs"
  have path: "unquoted raw = concat (replicate k ''../'') @ ?rest" by (simp add: raw)
  have no_climb: "\<not> has_prefix ?rest ''../''"
    using valid_no_prefix [OF assms(3,4), of ext] by (simp add: has_prefix_def)
  have relative: "has_prefix (unquoted raw) ''./'' \<or> has_prefix (unquoted raw) ''../''"
    unfolding path by (cases k) (auto simp: has_prefix_def)
  have climb: "climb (parent_dir (join_slashes (dirs @ [m]))) (unquoted raw) =
      (if k \<le> length dirs then Some (join_slashes ?up, ?rest) else None)"
    unfolding path parent_dir_snoc [OF component_free(1) [OF assms(2)]] by (rule climb_ups [OF assms(1) no_climb])
  have plain: "trim_suffix (join_slashes parts) ''.hex'' = join_slashes parts"
    using canonical_valid [OF assms(3)] by (simp add: canonicalFromLogicalKey_def)
  have rest: "trim_suffix (if has_prefix ?rest ''./'' then drop 2 ?rest else ?rest) ''.hex'' = join_slashes parts"
    using assms(5) plain valid_no_prefix(1) [OF assms(3,4), of ext] by (auto simp: has_prefix_def)
  have up: "valid_components ?up" using assms(1) by (auto simp: valid_components_def list_all_iff dest: in_set_takeD)
  have both: "valid_components (?up @ parts)" using up assms(3) by (simp add: valid_components_def)
  have joined: "join_slashes (?up @ parts) =
      (if join_slashes ?up = [] then join_slashes parts else join_slashes ?up @ CHR ''/'' # join_slashes parts)"
    using join_valid_Nil [OF up] assms(4) by (auto simp: join_slashes_append)
  have "(\<not> has_prefix (unquoted raw) ''./'' \<and> \<not> has_prefix (unquoted raw) ''../'') = False" using relative by blast
  then show ?thesis
    using canonical_valid [OF both] unfolding joined
    by (cases "join_slashes ?up = []";
      simp add: resolveImportPath_def Let_def climb rest split_join_valid [OF assms(3,4)]
        refused_none [OF assms(3)] joined; use relative in blast)
qed

theorem import_path_resolves_witness:
  "resolveImportPath ''app/ui/view'' (quoted ''../model/user.hex'') = Inr ''app/model/user''"
  using import_path_resolves [of "[''app'', ''ui'']" "''view''" "[''model'', ''user'']" "''.hex''"
    "quoted ''../model/user.hex''" 1]
  by (simp add: valid_components_def component_valid_def is_identifier_part_def is_identifier_start_def
      byte_between_def)

text \<open>
  The key of a prepared C binding is never a user's: it has the reserved prefix, so the key
  rules refuse it and only the resolver's own mark lets its module in.
\<close>

theorem binding_key_reserved:
  "validateLogicalKey (CBindingKey profile request)
     = Some (InvalidLogicalKey (CBindingKey profile request) LogicalKeyReservedCBindings)"
proof -
  obtain digits where key: "CBindingKey profile request = ''hexalc/h'' @ digits @ ''.hex''"
    using CBindingKey_shape by blast
  have "has_suffix ((''hexalc/h'' @ digits) @ ''.hex'') ''.hex''" by (rule has_suffix_append)
  then show ?thesis unfolding key by (simp add: validateLogicalKey_def)
qed

end
