(* ===== verification/Pipeline.thy ===== *)
theory Pipeline
  imports ModuleResolution Numerics
begin

text \<open>
  The rest of the compilation's entry point (\<open>compiler/compile.go\<close>): the project's settings
  (\<open>compiler/project.go\<close>, \<open>compiler/profile.go\<close>), the checks and the stage up to the resolved
  module graph, the failure a stage leads to, the table of sources, and the runtime dependencies of
  a generated program (\<open>compiler/runtime_dependency.go\<close>, the registry in
  \<open>specdata/components.go\<close>). Durations are not modelled.
\<close>

section \<open>Projects\<close>

text \<open>Both sizes are Go's \<open>uint64\<close>; nothing here computes with them beyond comparison and remainder, so
  they are natural numbers.\<close>

record project =
  pj_task_stack_reserve :: nat
  pj_task_stack_commit :: nat
  pj_target :: string

definition PageSizeBytes :: nat where "PageSizeBytes = 4096"

definition DefaultTaskStackReserveBytes :: nat where "DefaultTaskStackReserveBytes = 2 ^ 20"

definition DefaultTaskStackCommitBytes :: nat where "DefaultTaskStackCommitBytes = 8 * 2 ^ 10"

definition targetFactID :: "(string \<times> string) list" where
  "targetFactID = [(''x86_64-windows-gnu-ucrt'', ''windows-ucrt''), (''x86_64-linux-gnu'', ''linux-gnu'')]"

text \<open>The empty target selects no facts.\<close>

definition resolveTargetProfile :: "string \<Rightarrow> stage_error + target_facts option" where
  "resolveTargetProfile target =
     (if target = [] then Inr None
      else case map_of targetFactID target of
        None \<Rightarrow> Inl (OneDiagnostic (locationless (UnknownTargetProfile target)))
      | Some i \<Rightarrow> (case Target i of
            None \<Rightarrow> Inl (OneDiagnostic (locationless MissingTargetRecord))
          | Some facts \<Rightarrow> Inr (Some facts)))"

definition effective_reserve :: "project \<Rightarrow> nat" where
  "effective_reserve p =
     (if pj_task_stack_reserve p = 0 then DefaultTaskStackReserveBytes else pj_task_stack_reserve p)"

definition effective_commit :: "project \<Rightarrow> nat" where
  "effective_commit p =
     (if pj_task_stack_commit p = 0 then DefaultTaskStackCommitBytes else pj_task_stack_commit p)"

definition validateProject :: "project \<Rightarrow> stage_error option" where
  "validateProject p =
     (case resolveTargetProfile (pj_target p) of
        Inl e \<Rightarrow> Some e
      | Inr facts \<Rightarrow>
          (let reserve = effective_reserve p; commit = effective_commit p in
           if commit > reserve
           then Some (OneDiagnostic (locationless (ProjectTaskStackCommitExceeds commit reserve)))
           else if reserve mod PageSizeBytes \<noteq> 0
           then Some (OneDiagnostic (locationless (ProjectTaskStackReserveAlignment reserve PageSizeBytes)))
           else if commit mod PageSizeBytes \<noteq> 0
           then Some (OneDiagnostic (locationless (ProjectTaskStackCommitAlignment commit PageSizeBytes)))
           else None))"

section \<open>The source table\<close>

text \<open>Every supplied source, then every embedded module under the key the resolver lexes it from.\<close>

definition sourceTable :: "reach_input \<Rightarrow> span_table" where
  "sourceTable inp =
     foldl (\<lambda>t (canon_id, source). table_add t (stdlib_SourceKey canon_id) source)
       (foldl (\<lambda>t (key, source). table_add t key source) new_table (in_sources inp))
       (stdlibSourcesByCanonical (in_embedded inp))"

section \<open>The pipeline up to the graph\<close>

record compilation_stats =
  cs_token_count :: nat
  cs_source_lines :: nat

definition graph_stats :: "module_graph \<Rightarrow> compilation_stats" where
  "graph_stats g =
     foldl (\<lambda>stats m. case mg_modules g m of
         None \<Rightarrow> stats
       | Some node \<Rightarrow> \<lparr>cs_token_count = cs_token_count stats + mn_token_count node,
                      cs_source_lines = cs_source_lines stats + mn_source_lines node\<rparr>)
       \<lparr>cs_token_count = 0, cs_source_lines = 0\<rparr> (mg_order g)"

definition resolve_stage :: "reach_input \<Rightarrow> string \<Rightarrow> project \<Rightarrow> (module_graph \<times> compilation_stats) outcome" where
  "resolve_stage inp entrypoint p =
     (case validateProject p of
        Some e \<Rightarrow> o_abort e
      | None \<Rightarrow>
          if entrypoint \<notin> set (map fst (in_sources inp))
          then o_abort (OneDiagnostic
            (diagnostic_at (MissingEntrypoint entrypoint) zero_span \<lparr>pos_line = 1, pos_column = 1\<rparr>))
          else case validateLogicalKey entrypoint of
            Some m \<Rightarrow> o_abort (OneDiagnostic (diagnostic_at m zero_span \<lparr>pos_line = 1, pos_column = 1\<rparr>))
          | None \<Rightarrow>
              o_bind (reachableModulesTarget (inp\<lparr>in_target := pj_target p\<rparr>) entrypoint) (\<lambda>(g, ds).
              if ds \<noteq> [] then o_abort (ManyDiagnostics ds) else o_return (g, graph_stats g)))"

text \<open>\<open>failureResult\<close> and the recovery in \<open>Compile\<close>: the rendered lines and whether the failure is
  the compiler's own; files and dependencies are empty and the exit code is that of a failure.\<close>

record compile_failure =
  cf_stderr :: "string list"
  cf_exit_code :: int
  cf_compiler_defect :: bool

definition failureResult :: "stage_error \<Rightarrow> compile_failure" where
  "failureResult err =
     \<lparr>cf_stderr = ErrorMessages err, cf_exit_code = 1, cf_compiler_defect = HasUnknownError err\<rparr>"

section \<open>Runtime dependencies\<close>

definition dependencyRegistry :: "string list" where
  "dependencyRegistry = [''libuv'', ''mimalloc'', ''utf8proc'', ''yyjson'', ''pcre2'', ''llhttp'']"

definition Dependency :: "string \<Rightarrow> string option" where
  "Dependency i = find (\<lambda>d. d = i) dependencyRegistry"

text \<open>The loop stops with Go's panic at a name the registry does not have.\<close>

fun collect_dependencies :: "string list \<Rightarrow> string list \<Rightarrow> string list option" where
  "collect_dependencies seen [] = Some seen"
| "collect_dependencies seen (v # vs) =
     (if Dependency v = None then None
      else collect_dependencies (if v \<in> set seen then seen else seen @ [v]) vs)"

definition runtimeDependencies :: "string list \<Rightarrow> string list option" where
  "runtimeDependencies values = map_option sort (collect_dependencies [] values)"

end
