(* ===== verification/PipelineProps.thy ===== *)
theory PipelineProps
  imports Pipeline ModuleLaws ModulePathLaws
begin

text \<open>
  Properties of the pipeline up to the resolved graph: it always ends, what a project may select,
  the table a span is resolved in, and the dependencies of a generated program.
\<close>

text \<open>
  C10. The pipeline up to the module graph ends for every source map, entrypoint and project, with a
  graph or with an error that has a line to report, and never by a Go panic. The depth of the walk is bounded by
  the number of modules with a source.
\<close>

theorem resolve_stage_returns:
  "\<exists>r. resolve_stage inp entrypoint p = Some r \<and> r \<noteq> Inl CompilerPanic
     \<and> (case r of Inl e \<Rightarrow> cf_stderr (failureResult e) \<noteq> [] | Inr _ \<Rightarrow> True)"
proof -
  let ?inp = "inp\<lparr>in_target := pj_target p\<rparr>" and ?root = "canonicalFromLogicalKey entrypoint"
  have project: "proper_error e" if "validateProject p = Some e" for e
    using that
    by (auto simp: validateProject_def resolveTargetProfile_def Let_def split: if_splits option.splits sum.splits)
  have "o_ok (\<lambda>_. True) (reachableModulesTarget ?inp entrypoint)" if "entrypoint \<in> set (map fst (in_sources inp))"
  proof -
    have "entrypoint \<in> set (map fst (in_sources ?inp))" using that by simp
    note visit = visit_root [OF entrypoint_source [OF this]]
    show ?thesis
      unfolding reachableModulesTarget_def Let_def
      by (rule o_ok_bind [OF visit]) (auto simp: publish_validated intro!: o_ok_bind [where P = "\<lambda>_. True"])
  qed
  then have "o_ok (\<lambda>_. True) (resolve_stage inp entrypoint p)"
    unfolding resolve_stage_def
    by (auto simp: project intro!: o_ok_bind [where P = "\<lambda>_. True"] split: option.splits)
  then show ?thesis
    by (auto simp: o_ok_def proper_error_def failureResult_def split: option.splits sum.splits)
qed

text \<open>
  A project is accepted exactly when its target is empty or one of the two qualified
  identities, and its stack sizes, with zero standing for the defaults, are page multiples with the
  committed size within the reserve.
\<close>

theorem project_accepted_iff:
  "validateProject p = None \<longleftrightarrow>
     pj_target p \<in> {[], ''x86_64-windows-gnu-ucrt'', ''x86_64-linux-gnu''}
     \<and> 4096 dvd effective_reserve p \<and> 4096 dvd effective_commit p \<and> effective_commit p \<le> effective_reserve p"
proof -
  have "(\<exists>facts. resolveTargetProfile (pj_target p) = Inr facts) \<longleftrightarrow>
      pj_target p \<in> {[], ''x86_64-windows-gnu-ucrt'', ''x86_64-linux-gnu''}"
    by (auto simp: resolveTargetProfile_def targetFactID_def Target_def targetFacts_def)
  then show ?thesis
    by (cases "resolveTargetProfile (pj_target p)")
      (auto simp: validateProject_def Let_def PageSizeBytes_def dvd_eq_mod_eq_0)
qed

section \<open>The source table\<close>

lemma fold_table_lines:
  "tab_lines (foldl (\<lambda>t (key, source). table_add t (k key) source) t entries) i =
     (case map_of (rev (map (\<lambda>(key, source). (k key, source)) entries)) i of
        Some source \<Rightarrow> Some (line_starts source) | None \<Rightarrow> tab_lines t i)"
  by (induction entries rule: rev_induct) (auto simp: table_add_def)

text \<open>
  A user module can take the source key of an embedded one: the key rules accept
  the key the resolver lexes the library's module from, and the table then holds
  the library's line starts under it, whatever the user's text is, so a span of the user's module is resolved in the
  wrong text. Every other key keeps its own text.
\<close>

theorem stdlib_source_key_collides:
  "validateLogicalKey (stdlib_SourceKey ''std/ascii'') = None
   \<and> (\<forall>user library.
        tab_lines (sourceTable \<lparr>in_sources = [(stdlib_SourceKey ''std/ascii'', user), (''a.hex'', user)],
            in_embedded = [(''std/ascii.hex'', library)], in_target = [], in_iteration = id\<rparr>)
          (stdlib_SourceKey ''std/ascii'') = Some (line_starts library)
        \<and> tab_lines (sourceTable \<lparr>in_sources = [(stdlib_SourceKey ''std/ascii'', user), (''a.hex'', user)],
            in_embedded = [(''std/ascii.hex'', library)], in_target = [], in_iteration = id\<rparr>)
          ''a.hex'' = Some (line_starts user))"
proof -
  have "validateLogicalKey (stdlib_SourceKey ''std/ascii'') = None" by code_simp
  moreover have "canonicalFromSourceKey ''stdlib/std/ascii.hex'' = ''std/ascii''" by code_simp
  ultimately show ?thesis
    by (simp add: sourceTable_def table_add_def stdlibSourcesByCanonical_def stdlib_Sources_def stdlib_SourceKey_def)
qed

section \<open>Dependencies\<close>

lemma Dependency_known: "Dependency v \<noteq> None \<longleftrightarrow> v \<in> set dependencyRegistry"
  by (auto simp: Dependency_def find_Some_iff find_None_iff)

lemma collect_dependencies_result:
  assumes "distinct seen"
  shows "case collect_dependencies seen vs of
      None \<Rightarrow> \<not> set vs \<subseteq> set dependencyRegistry
    | Some r \<Rightarrow> set vs \<subseteq> set dependencyRegistry \<and> distinct r \<and> set r = set seen \<union> set vs"
  using assms
proof (induction vs arbitrary: seen)
  case (Cons v vs)
  show ?case
  proof (cases "v \<in> set dependencyRegistry")
    case True
    then show ?thesis
      using Dependency_known [of v] Cons.IH [of seen] Cons.IH [of "seen @ [v]"] Cons.prems
      by (cases "v \<in> set seen") (auto split: option.splits)
  next
    case False
    then show ?thesis using Dependency_known [of v] by auto
  qed
qed simp

text \<open>
  The runtime dependencies of a program are the sorted set of the names the generator gives,
  whatever their order and repetition, and an unregistered name is a panic.
\<close>

theorem runtime_dependencies_sorted_set:
  "runtimeDependencies names =
     (if set names \<subseteq> set dependencyRegistry then Some (sorted_list_of_set (set names)) else None)"
proof (cases "collect_dependencies [] names")
  case None
  then show ?thesis using collect_dependencies_result [of "[]" names] by (simp add: runtimeDependencies_def)
next
  case (Some r)
  then have r: "set names \<subseteq> set dependencyRegistry" "distinct r" "set r = set names"
    using collect_dependencies_result [of "[]" names] by simp_all
  then have "sort r = sorted_list_of_set (set names)"
    by (metis sorted_list_of_set_sort_remdups distinct_remdups_id)
  then show ?thesis using Some r(1) by (simp add: runtimeDependencies_def)
qed

end
