(* ===== verification/CheckedTree.thy ===== *)
theory CheckedTree
  imports GoConstant SpanTable
begin

text \<open>
  The checked syntax tree the checker's last passes and the generator read (\<open>checker/checker.go\<close>,
  \<open>checker/operands.go\<close>): one constructor per statement node. An expression node and an operand keep
  the fields the control-flow passes read: kind, name, subexpressions, arguments and constant. A Go
  slice that is nil or present is an option of a list.
\<close>

text \<open>\<open>type ExpressionKind uint8\<close> with its \<open>iota\<close> constants: a kind is its number. The passes modelled
  name these.\<close>

datatype expression_kind = ExpressionKind nat

abbreviation VariableExpression_K where "VariableExpression_K \<equiv> ExpressionKind 1"
abbreviation FunctionReferenceExpression_K where "FunctionReferenceExpression_K \<equiv> ExpressionKind 9"
abbreviation CallExpression_K where "CallExpression_K \<equiv> ExpressionKind 13"
abbreviation NullTestExpression_K where "NullTestExpression_K \<equiv> ExpressionKind 17"
abbreviation UnionTestExpression_K where "UnionTestExpression_K \<equiv> ExpressionKind 20"
abbreviation SpawnExpression_K where "SpawnExpression_K \<equiv> ExpressionKind 53"
abbreviation TaskYieldExpression_K where "TaskYieldExpression_K \<equiv> ExpressionKind 54"
abbreviation TaskMethodCallExpression_K where "TaskMethodCallExpression_K \<equiv> ExpressionKind 55"
abbreviation ChannelConstructorExpression_K where "ChannelConstructorExpression_K \<equiv> ExpressionKind 56"
abbreviation ChannelMethodCallExpression_K where "ChannelMethodCallExpression_K \<equiv> ExpressionKind 57"
abbreviation MutexConstructorExpression_K where "MutexConstructorExpression_K \<equiv> ExpressionKind 58"
abbreviation MutexMethodCallExpression_K where "MutexMethodCallExpression_K \<equiv> ExpressionKind 59"
abbreviation AtomicConstructorExpression_K where "AtomicConstructorExpression_K \<equiv> ExpressionKind 60"
abbreviation AtomicMethodCallExpression_K where "AtomicMethodCallExpression_K \<equiv> ExpressionKind 61"
abbreviation TimeExpression_K where "TimeExpression_K \<equiv> ExpressionKind 76"

datatype operand_kind = InvalidOperand | ConstantOperand | VariableOperand | ObjectOperand | ExpressionOperand

text \<open>\<open>Expression\<close>: kind, name, operand, left, right, arguments. \<open>Operand\<close>: kind, constant, node.\<close>

datatype (plugins only: code size) cnode =
    CNode (nd_kind: expression_kind) (nd_name: string) (nd_operand: "cnode option") (nd_left: "cnode option")
      (nd_right: "cnode option") (nd_arguments: "coperand list")
and coperand = COperand (op_kind: operand_kind) (op_constant: "const_value option") (op_node: cnode)

text \<open>The statements. \<open>IfStatement\<close>: condition, then, elseif branches, else. \<open>WhileStatement\<close>:
  condition, its known value, body, span.\<close>

datatype (plugins only: code size) cstmt =
    CDeclaration coperand
  | CAssignment coperand
  | CIf coperand "cstmt list" "(coperand \<times> cstmt list) list" "cstmt list option"
  | CWhile coperand "coperand option" "cstmt list" span
  | CFor coperand "cstmt list"
  | CBreak
  | CContinue
  | CDefer coperand
  | CErrdefer coperand
  | CReturn "coperand option"
  | CRootReturn "coperand option"
  | CCall coperand
  | CUnsafe "cstmt list"
  | CTry coperand
  | CFunction string "cstmt list"
  | CMethod string "cstmt list"

text \<open>\<open>FunctionDeclaration\<close>'s name and body, and the parts of \<open>Program\<close> the pass reads.\<close>

type_synonym function_body = "string \<times> cstmt list"

record checked_program =
  cp_statements :: "cstmt list"
  cp_specialized :: "function_body list"

lemma size_branch [termination_simp]:
  "(c, body) \<in> set branches \<Longrightarrow> size_list size body < Suc (size_list (size_prod size (size_list size)) branches)"
  by (induction branches) auto

end
