(* ===== verification/ControlFlow.thy ===== *)
theory ControlFlow
  imports CheckedTree
begin

text \<open>
  The termination tests of \<open>checker/control_flow.go\<close> on checked statements, and the paths of a statement
  list they are about. A path is nondeterministic in every condition and says how it leaves the list
  and whether it executed \<open>Task.yield()\<close> as a statement of the list itself, outside nested loops.
\<close>

section \<open>The code\<close>

fun statementFallsThrough :: "cstmt \<Rightarrow> bool" and FallsThrough :: "cstmt list \<Rightarrow> bool" where
  "statementFallsThrough (CReturn v) = False"
| "statementFallsThrough (CRootReturn v) = False"
| "statementFallsThrough (CIf c th branches el) =
     (case el of None \<Rightarrow> True
      | Some body \<Rightarrow> FallsThrough th \<or> (\<exists>(c, b)\<in>set branches. FallsThrough b) \<or> FallsThrough body)"
| "statementFallsThrough (CUnsafe body) = FallsThrough body"
| "statementFallsThrough s = True"
| "FallsThrough [] = True"
| "FallsThrough (s # ss) = (statementFallsThrough s \<and> FallsThrough ss)"

fun statementTerminates :: "cstmt \<Rightarrow> bool" and sequenceTerminates :: "cstmt list \<Rightarrow> bool" where
  "statementTerminates (CReturn v) = True"
| "statementTerminates (CRootReturn v) = True"
| "statementTerminates CBreak = True"
| "statementTerminates CContinue = True"
| "statementTerminates (CUnsafe body) = sequenceTerminates body"
| "statementTerminates (CIf c th branches el) =
     (case el of None \<Rightarrow> False
      | Some body \<Rightarrow> sequenceTerminates th \<and> (\<forall>(c, b)\<in>set branches. sequenceTerminates b) \<and> sequenceTerminates body)"
| "statementTerminates s = False"
| "sequenceTerminates [] = False"
| "sequenceTerminates (s # ss) = (statementTerminates s \<or> sequenceTerminates ss)"

text \<open>\<open>isLiteralTrue\<close>.\<close>

definition true_constant :: "coperand \<Rightarrow> bool option" where
  "true_constant operand =
     (if op_kind operand = ConstantOperand then
        (case op_constant operand of Some (CBool b) \<Rightarrow> Some b | _ \<Rightarrow> None) else None)"

definition isLiteralTrue :: "coperand \<Rightarrow> coperand option \<Rightarrow> bool" where
  "isLiteralTrue condition known =
     (case true_constant condition of
        Some b \<Rightarrow> b
      | None \<Rightarrow> (case known of None \<Rightarrow> False | Some k \<Rightarrow> true_constant k = Some True))"

section \<open>Paths\<close>

datatype path_exit = Ends | Breaks | Continues | Leaves

definition is_yield :: "coperand \<Rightarrow> bool" where
  "is_yield call \<longleftrightarrow> nd_kind (op_node call) = TaskYieldExpression_K"

inductive stmt_path :: "cstmt \<Rightarrow> bool \<Rightarrow> path_exit \<Rightarrow> bool"
  and list_path :: "cstmt list \<Rightarrow> bool \<Rightarrow> path_exit \<Rightarrow> bool" where
  path_call: "stmt_path (CCall call) (is_yield call) Ends"
| path_declaration: "stmt_path (CDeclaration v) False Ends"
| path_assignment: "stmt_path (CAssignment v) False Ends"
| path_defer_stmt: "stmt_path (CDefer v) False Ends"
| path_errdefer: "stmt_path (CErrdefer v) False Ends"
| path_try_ok: "stmt_path (CTry v) False Ends"
| path_try_error: "stmt_path (CTry v) False Leaves"
| path_nested_function: "stmt_path (CFunction name body) False Ends"
| path_nested_method: "stmt_path (CMethod name body) False Ends"
| path_break: "stmt_path CBreak False Breaks"
| path_continue: "stmt_path CContinue False Continues"
| path_return: "stmt_path (CReturn r) False Leaves"
| path_root_return: "stmt_path (CRootReturn r) False Leaves"
| path_if_then: "list_path th y e \<Longrightarrow> stmt_path (CIf c th branches el) y e"
| path_if_branch: "(c', body) \<in> set branches \<Longrightarrow> list_path body y e \<Longrightarrow> stmt_path (CIf c th branches el) y e"
| path_if_else: "list_path body y e \<Longrightarrow> stmt_path (CIf c th branches (Some body)) y e"
| path_if_skip: "stmt_path (CIf c th branches None) False Ends"
| path_unsafe: "list_path body y e \<Longrightarrow> stmt_path (CUnsafe body) y e"
| path_while_done: "\<not> isLiteralTrue c k \<Longrightarrow> stmt_path (CWhile c k body sp) False Ends"
| path_while_break: "list_path body y Breaks \<Longrightarrow> stmt_path (CWhile c k body sp) False Ends"
| path_while_leave: "list_path body y Leaves \<Longrightarrow> stmt_path (CWhile c k body sp) False Leaves"
| path_for_done: "stmt_path (CFor v body) False Ends"
| path_for_leave: "list_path body y Leaves \<Longrightarrow> stmt_path (CFor v body) False Leaves"
| path_nil: "list_path [] False Ends"
| path_cons: "stmt_path s y Ends \<Longrightarrow> list_path ss y' e \<Longrightarrow> list_path (s # ss) (y \<or> y') e"
| path_cut: "stmt_path s y e \<Longrightarrow> e \<noteq> Ends \<Longrightarrow> list_path (s # ss) y e"

inductive_cases stmt_pathE [elim]:
  "stmt_path (CCall call) y e" "stmt_path (CDeclaration v) y e" "stmt_path (CAssignment v) y e"
  "stmt_path (CDefer v) y e" "stmt_path (CErrdefer v) y e" "stmt_path (CTry v) y e"
  "stmt_path (CFunction name body) y e" "stmt_path (CMethod name body) y e" "stmt_path CBreak y e"
  "stmt_path CContinue y e" "stmt_path (CReturn r) y e" "stmt_path (CRootReturn r) y e"
  "stmt_path (CUnsafe body) y e" "stmt_path (CFor v body) y e"

inductive_cases if_pathE: "stmt_path (CIf c th branches el) y e"
inductive_cases while_pathE: "stmt_path (CWhile c k body sp) y e"
inductive_cases list_nilE [elim!]: "list_path [] y e"
inductive_cases list_consE: "list_path (s # ss) y e"

section \<open>What the tests prove\<close>

lemma falls_through_ends:
  "stmt_path s y e \<Longrightarrow> e = Ends \<Longrightarrow> statementFallsThrough s"
  "list_path ss y e \<Longrightarrow> e = Ends \<Longrightarrow> FallsThrough ss"
  by (induction rule: stmt_path_list_path.inducts) (auto split: option.splits)

lemma terminates_not_ends:
  "stmt_path s y e \<Longrightarrow> e = Ends \<Longrightarrow> \<not> statementTerminates s"
  "list_path ss y e \<Longrightarrow> e = Ends \<Longrightarrow> \<not> sequenceTerminates ss"
  by (induction rule: stmt_path_list_path.inducts) (auto split: option.splits)

end
