(* ===== verification/Starvation.thy ===== *)
theory Starvation
  imports ControlFlow Diagnostics "HOL-Library.AList"
begin

text \<open>
  The must-yield check of \<open>checker/starvation.go\<close>: the scan for scheduler use and spawn entries, the
  walk over loops reachable from the entry statements and the spawned functions, and the path test
  on the body of a literal \<open>while true\<close>. Diagnosing a call recurses through the table of function
  bodies; the visited names bound it, and the walk takes the recursion as an argument that fuel
  closes.
\<close>

section \<open>The path test\<close>

fun loopContainsDirectBreak :: "cstmt list \<Rightarrow> bool" where
  "loopContainsDirectBreak [] = False"
| "loopContainsDirectBreak (s # ss) =
     ((case s of
         CBreak \<Rightarrow> True
       | CUnsafe body \<Rightarrow> loopContainsDirectBreak body
       | CIf c th branches el \<Rightarrow>
           loopContainsDirectBreak th \<or> (\<exists>(c, b)\<in>set branches. loopContainsDirectBreak b)
           \<or> (case el of None \<Rightarrow> False | Some b \<Rightarrow> loopContainsDirectBreak b)
       | _ \<Rightarrow> False) \<or> loopContainsDirectBreak ss)"

definition loopFallsThrough :: "coperand \<Rightarrow> coperand option \<Rightarrow> cstmt list \<Rightarrow> bool" where
  "loopFallsThrough condition known body =
     (if \<not> isLiteralTrue condition known then True else loopContainsDirectBreak body)"

fun branchMayRepeatWithoutYield :: "cstmt list \<Rightarrow> bool \<Rightarrow> bool"
  and branches_may_repeat :: "(coperand \<times> cstmt list) list \<Rightarrow> bool \<Rightarrow> bool" where
  "branchMayRepeatWithoutYield [] bad = bad"
| "branchMayRepeatWithoutYield (s # ss) bad =
     (case s of
        CCall call \<Rightarrow> branchMayRepeatWithoutYield ss (if is_yield call then False else bad)
      | CIf c th branches el \<Rightarrow>
          branchMayRepeatWithoutYield ss
            (let bad = branches_may_repeat branches (branchMayRepeatWithoutYield th bad) in
             case el of None \<Rightarrow> bad
             | Some body \<Rightarrow> if body \<noteq> [] then branchMayRepeatWithoutYield body bad else bad)
      | CUnsafe body \<Rightarrow> branchMayRepeatWithoutYield ss (branchMayRepeatWithoutYield body bad)
      | CWhile c k body sp \<Rightarrow> branchMayRepeatWithoutYield ss (if \<not> loopFallsThrough c k body then False else bad)
      | CBreak \<Rightarrow> False
      | CContinue \<Rightarrow> if \<not> bad then False else branchMayRepeatWithoutYield ss bad
      | CReturn v \<Rightarrow> False
      | CRootReturn v \<Rightarrow> False
      | _ \<Rightarrow> branchMayRepeatWithoutYield ss bad)"
| "branches_may_repeat [] bad = bad"
| "branches_may_repeat ((c, body) # branches) bad =
     branches_may_repeat branches (branchMayRepeatWithoutYield body bad)"

text \<open>The loop of \<open>loopMayRepeatWithoutYield\<close> from a state \<open>bad\<close> on; the function starts it with true.\<close>

fun loop_may_repeat :: "cstmt list \<Rightarrow> bool \<Rightarrow> bool" where
  "loop_may_repeat [] bad = bad"
| "loop_may_repeat (s # ss) bad =
     (case s of
        CCall call \<Rightarrow> loop_may_repeat ss (if is_yield call then False else bad)
      | CIf c th branches el \<Rightarrow>
          loop_may_repeat ss
            (let bad = branches_may_repeat branches (branchMayRepeatWithoutYield th bad) in
             case el of None \<Rightarrow> bad
             | Some body \<Rightarrow> if body \<noteq> [] then branchMayRepeatWithoutYield body bad else bad)
      | CUnsafe body \<Rightarrow> loop_may_repeat ss (branchMayRepeatWithoutYield body bad)
      | CWhile c k body sp \<Rightarrow> loop_may_repeat ss (if \<not> loopFallsThrough c k body then False else bad)
      | CBreak \<Rightarrow> loop_may_repeat ss False
      | CContinue \<Rightarrow> if bad then True else loop_may_repeat ss bad
      | CReturn v \<Rightarrow> loop_may_repeat ss False
      | CRootReturn v \<Rightarrow> loop_may_repeat ss False
      | _ \<Rightarrow> loop_may_repeat ss bad)"

definition loopMayRepeatWithoutYield :: "cstmt list \<Rightarrow> bool" where
  "loopMayRepeatWithoutYield body = loop_may_repeat body True"

section \<open>The scan\<close>

record starvation_scanner =
  sc_by_name :: "function_body list"
  sc_spawn_entries :: "string list"
  sc_linked :: bool
  sc_visited :: "string set"
  sc_diagnostics :: "located list"

definition spawnTargetName :: "cnode \<Rightarrow> string" where
  "spawnTargetName node =
     (case nd_operand node of
        None \<Rightarrow> []
      | Some call \<Rightarrow>
          if nd_kind call \<noteq> CallExpression_K then []
          else (case nd_operand call of
              None \<Rightarrow> []
            | Some callee \<Rightarrow> if nd_kind callee \<noteq> FunctionReferenceExpression_K then [] else nd_name callee))"

text \<open>\<open>scanOperandTree\<close>: the nodes it visits, in order.\<close>

fun node_visits :: "cnode \<Rightarrow> cnode list" and scanOperandTree :: "coperand \<Rightarrow> cnode list" where
  "node_visits (CNode kind nm operand left right arguments) =
     CNode kind nm operand left right arguments
       # (case operand of None \<Rightarrow> [] | Some n \<Rightarrow> node_visits n)
       @ (case left of None \<Rightarrow> [] | Some n \<Rightarrow> node_visits n)
       @ (case right of None \<Rightarrow> [] | Some n \<Rightarrow> node_visits n)
       @ concat (map scanOperandTree arguments)"
| "scanOperandTree (COperand kind c node) = node_visits node"

definition note_spawn :: "cnode \<Rightarrow> starvation_scanner \<Rightarrow> starvation_scanner" where
  "note_spawn node sc =
     (let sc = sc\<lparr>sc_linked := True\<rparr>; name = spawnTargetName node in
      if name \<noteq> [] then sc\<lparr>sc_spawn_entries := sc_spawn_entries sc @ [name]\<rparr> else sc)"

definition visit_node :: "starvation_scanner \<Rightarrow> cnode \<Rightarrow> starvation_scanner" where
  "visit_node sc node =
     (if nd_kind node = SpawnExpression_K then note_spawn node sc
      else if nd_kind node \<in> {TaskYieldExpression_K, TaskMethodCallExpression_K, ChannelConstructorExpression_K,
          ChannelMethodCallExpression_K, MutexConstructorExpression_K, MutexMethodCallExpression_K,
          AtomicConstructorExpression_K, AtomicMethodCallExpression_K}
      then sc\<lparr>sc_linked := True\<rparr>
      else if nd_kind node = TimeExpression_K \<and> nd_name node = ''task_sleep'' then sc\<lparr>sc_linked := True\<rparr>
      else sc)"

definition scanOperand :: "coperand \<Rightarrow> starvation_scanner \<Rightarrow> starvation_scanner" where
  "scanOperand operand sc =
     foldl visit_node
       (if nd_kind (op_node operand) = SpawnExpression_K then note_spawn (op_node operand) sc else sc)
       (scanOperandTree operand)"

fun scanStatement :: "cstmt \<Rightarrow> starvation_scanner \<Rightarrow> starvation_scanner"
  and scanStatements :: "cstmt list \<Rightarrow> starvation_scanner \<Rightarrow> starvation_scanner"
  and scan_branches :: "(coperand \<times> cstmt list) list \<Rightarrow> starvation_scanner \<Rightarrow> starvation_scanner" where
  "scanStatement (CCall call) sc = scanOperand call sc"
| "scanStatement (CDeclaration source) sc = scanOperand source sc"
| "scanStatement (CAssignment source) sc = scanOperand source sc"
| "scanStatement (CIf c th branches el) sc =
     (let sc = scan_branches branches (scanStatements th (scanOperand c sc)) in
      case el of None \<Rightarrow> sc | Some body \<Rightarrow> scanStatements body sc)"
| "scanStatement (CWhile c k body sp) sc = scanStatements body (scanOperand c sc)"
| "scanStatement (CFor source body) sc = scanStatements body (scanOperand source sc)"
| "scanStatement (CUnsafe body) sc = scanStatements body sc"
| "scanStatement (CReturn v) sc = (case v of None \<Rightarrow> sc | Some operand \<Rightarrow> scanOperand operand sc)"
| "scanStatement (CRootReturn v) sc = (case v of None \<Rightarrow> sc | Some operand \<Rightarrow> scanOperand operand sc)"
| "scanStatement (CDefer v) sc = scanOperand v sc"
| "scanStatement (CErrdefer v) sc = scanOperand v sc"
| "scanStatement (CFunction name body) sc =
     scanStatements body (sc\<lparr>sc_by_name := AList.update name body (sc_by_name sc)\<rparr>)"
| "scanStatement s sc = sc"
| "scanStatements [] sc = sc"
| "scanStatements (s # ss) sc = scanStatements ss (scanStatement s sc)"
| "scan_branches [] sc = sc"
| "scan_branches ((c, body) # branches) sc = scan_branches branches (scanStatements body (scanOperand c sc))"

fun scanRoot :: "cstmt list \<Rightarrow> starvation_scanner \<Rightarrow> starvation_scanner" where
  "scanRoot [] sc = sc"
| "scanRoot (s # ss) sc =
     (let sc = scanStatement s sc in
      scanRoot ss (case s of
          CFunction name body \<Rightarrow> scanStatements body (sc\<lparr>sc_by_name := AList.update name body (sc_by_name sc)\<rparr>)
        | _ \<Rightarrow> sc))"

section \<open>The diagnosis\<close>

definition LoopMustYield :: message where
  "LoopMustYield =
     \<lparr>msg_id = ''semantic.loop-must-yield'', msg_category = CategorySemantic, msg_stage = StageChecker,
      msg_text = ''while true loop must execute Task.yield() on every repeating path''\<rparr>"

text \<open>\<open>tokenAt\<close> and \<open>messageAt\<close>: the diagnostic at a span, located through the source table.\<close>

definition loop_diagnostic :: "span_table option \<Rightarrow> span \<Rightarrow> located" where
  "loop_diagnostic table sp =
     diagnostic_at LoopMustYield sp (case table of None \<Rightarrow> zero_position | Some t \<Rightarrow> table_position t sp)"

definition directCallName :: "coperand \<Rightarrow> string" where
  "directCallName call =
     (if nd_kind (op_node call) \<noteq> CallExpression_K then []
      else case nd_operand (op_node call) of
        None \<Rightarrow> []
      | Some callee \<Rightarrow> if nd_kind callee \<noteq> FunctionReferenceExpression_K then [] else nd_name callee)"

type_synonym function_visitor = "string \<Rightarrow> cstmt list \<Rightarrow> starvation_scanner \<Rightarrow> starvation_scanner option"

definition bind_scanner ::
  "starvation_scanner option \<Rightarrow> (starvation_scanner \<Rightarrow> starvation_scanner option) \<Rightarrow> starvation_scanner option" where
  "bind_scanner r f = (case r of None \<Rightarrow> None | Some sc \<Rightarrow> f sc)"

lemma bind_scanner_cong [fundef_cong]:
  "r = r' \<Longrightarrow> (\<And>sc. f sc = g sc) \<Longrightarrow> bind_scanner r f = bind_scanner r' g"
  by (auto simp: bind_scanner_def split: option.splits)

fun diagnoseStatement ::
  "span_table option \<Rightarrow> function_visitor \<Rightarrow> cstmt \<Rightarrow> starvation_scanner \<Rightarrow> starvation_scanner option"
  and diagnoseStatements ::
  "span_table option \<Rightarrow> function_visitor \<Rightarrow> cstmt list \<Rightarrow> starvation_scanner \<Rightarrow> starvation_scanner option"
  and diagnose_branches ::
  "span_table option \<Rightarrow> function_visitor \<Rightarrow> (coperand \<times> cstmt list) list \<Rightarrow> starvation_scanner \<Rightarrow> starvation_scanner option"
  where
  "diagnoseStatement table v (CWhile c k body sp) sc =
     diagnoseStatements table v body
       (if isLiteralTrue c k \<and> loopMayRepeatWithoutYield body
        then sc\<lparr>sc_diagnostics := sc_diagnostics sc @ [loop_diagnostic table sp]\<rparr> else sc)"
| "diagnoseStatement table v (CIf c th branches el) sc =
     bind_scanner (diagnoseStatements table v th sc) (\<lambda>sc.
     bind_scanner (diagnose_branches table v branches sc) (\<lambda>sc.
     case el of None \<Rightarrow> Some sc | Some body \<Rightarrow> diagnoseStatements table v body sc))"
| "diagnoseStatement table v (CFor source body) sc = diagnoseStatements table v body sc"
| "diagnoseStatement table v (CUnsafe body) sc = diagnoseStatements table v body sc"
| "diagnoseStatement table v (CCall call) sc =
     (let name = directCallName call in
      if name = [] then Some sc
      else case map_of (sc_by_name sc) name of None \<Rightarrow> Some sc | Some body \<Rightarrow> v name body sc)"
| "diagnoseStatement table v s sc = Some sc"
| "diagnoseStatements table v [] sc = Some sc"
| "diagnoseStatements table v (s # ss) sc =
     bind_scanner (diagnoseStatement table v s sc) (diagnoseStatements table v ss)"
| "diagnose_branches table v [] sc = Some sc"
| "diagnose_branches table v ((c, body) # branches) sc =
     bind_scanner (diagnoseStatements table v body sc) (diagnose_branches table v branches)"

primrec diagnoseFunction :: "span_table option \<Rightarrow> nat \<Rightarrow> function_visitor" where
  "diagnoseFunction table 0 = (\<lambda>name body sc. None)"
| "diagnoseFunction table (Suc n) = (\<lambda>name body sc.
     if name \<in> sc_visited sc then Some sc
     else diagnoseStatements table (diagnoseFunction table n) body
            (sc\<lparr>sc_visited := insert name (sc_visited sc)\<rparr>))"

fun diagnose_entries ::
  "span_table option \<Rightarrow> nat \<Rightarrow> string list \<Rightarrow> starvation_scanner \<Rightarrow> starvation_scanner option" where
  "diagnose_entries table n [] sc = Some sc"
| "diagnose_entries table n (name # names) sc =
     bind_scanner
       (case map_of (sc_by_name sc) name of None \<Rightarrow> Some sc | Some body \<Rightarrow> diagnoseFunction table n name body sc)
       (diagnose_entries table n names)"

definition initial_scanner :: starvation_scanner where
  "initial_scanner =
     \<lparr>sc_by_name = [], sc_spawn_entries = [], sc_linked = False, sc_visited = {}, sc_diagnostics = []\<rparr>"

definition scan_program :: "checked_program \<Rightarrow> starvation_scanner" where
  "scan_program program =
     foldl (\<lambda>sc (name, body). scanStatements body (sc\<lparr>sc_by_name := AList.update name body (sc_by_name sc)\<rparr>))
       (scanRoot (cp_statements program) initial_scanner) (cp_specialized program)"

text \<open>The functions of the table bound the depth of the calls, so one level more than their number is
  enough.\<close>

definition checkStarvation :: "checked_program \<Rightarrow> span_table option \<Rightarrow> located list option" where
  "checkStarvation program table =
     (let sc = scan_program program; n = Suc (length (sc_by_name sc)) in
      if \<not> sc_linked sc then Some []
      else map_option sc_diagnostics
        (bind_scanner (diagnoseStatements table (diagnoseFunction table n) (cp_statements program) sc)
          (diagnose_entries table n (sc_spawn_entries sc))))"

end
