(* ===== verification/StarvationLaws.thy ===== *)
theory StarvationLaws
  imports Starvation
begin

text \<open>
  The path test against the paths: its states only fall, a state that stays true has a path without a
  yield behind it, and a loop without a direct break is not left by breaking. The second part bounds
  the walk through calls, with the visitor's contract as a locale.
\<close>

section \<open>Breaks\<close>

lemma no_direct_break:
  "stmt_path s y e \<Longrightarrow> e = Breaks \<Longrightarrow> loopContainsDirectBreak [s]"
  "list_path ss y e \<Longrightarrow> e = Breaks \<Longrightarrow> loopContainsDirectBreak ss"
  by (induction rule: stmt_path_list_path.inducts) (auto split: option.splits)

lemma endless_loop_not_left:
  assumes "\<not> loopFallsThrough c k body"
  shows "\<not> stmt_path (CWhile c k body sp) y Ends"
  using assms no_direct_break(2) [of body _ Breaks]
  by (auto simp: loopFallsThrough_def elim!: while_pathE split: if_splits)

section \<open>States of the path test\<close>

lemma branch_stays_false:
  "\<not> branchMayRepeatWithoutYield ss False" "\<not> branches_may_repeat branches False"
proof (induction ss "False" and branches "False" rule: branchMayRepeatWithoutYield_branches_may_repeat.induct)
  case (2 s ss)
  then show ?case by (auto split: cstmt.splits option.splits)
qed simp_all

lemma branch_falls:
  "branchMayRepeatWithoutYield ss bad \<Longrightarrow> bad" "branches_may_repeat branches bad \<Longrightarrow> bad"
  using branch_stays_false by (metis (full_types))+

lemma loop_stays_false: "\<not> loop_may_repeat ss False"
proof (induction ss)
  case (Cons s ss)
  then show ?case by (auto simp: branch_stays_false split: cstmt.splits option.splits)
qed simp

section \<open>A state that stays true\<close>

text \<open>Every nested loop the test steps over is controlled by a condition.\<close>

fun conditional_loops :: "cstmt list \<Rightarrow> bool" where
  "conditional_loops [] = True"
| "conditional_loops (s # ss) =
     ((case s of
         CIf c th branches el \<Rightarrow>
           conditional_loops th \<and> (\<forall>(c, b)\<in>set branches. conditional_loops b)
           \<and> (case el of None \<Rightarrow> True | Some b \<Rightarrow> conditional_loops b)
       | CUnsafe body \<Rightarrow> conditional_loops body
       | CWhile c k body sp \<Rightarrow> \<not> isLiteralTrue c k
       | _ \<Rightarrow> True) \<and> conditional_loops ss)"

text \<open>A path that comes back to the loop's start without a yield.\<close>

definition silent :: "cstmt list \<Rightarrow> bool" where
  "silent ss \<longleftrightarrow> list_path ss False Ends \<or> list_path ss False Continues"

lemma silent_Cons: "stmt_path s False Ends \<Longrightarrow> silent ss \<Longrightarrow> silent (s # ss)"
  using path_cons [of s False ss False] by (auto simp: silent_def)

lemma silent_cut: "stmt_path s False Continues \<Longrightarrow> silent (s # ss)"
  using path_cut [of s False Continues ss] by (auto simp: silent_def)

lemma silent_plain:
  "silent ss \<Longrightarrow> \<not> is_yield call \<Longrightarrow> silent (CCall call # ss)"
  "silent ss \<Longrightarrow> s \<in> {CDeclaration v, CAssignment v, CDefer v, CErrdefer v, CTry v, CFor v body, CFunction nm body, CMethod nm body}
     \<Longrightarrow> silent (s # ss)"
  "silent ss \<Longrightarrow> \<not> isLiteralTrue c k \<Longrightarrow> silent (CWhile c k body sp # ss)"
  "silent body \<Longrightarrow> silent ss \<Longrightarrow> silent (CUnsafe body # ss)"
  "silent th \<Longrightarrow> silent ss \<Longrightarrow> silent (CIf c th branches el # ss)"
  "silent (CContinue # ss)"
proof -
  show "silent ss \<Longrightarrow> \<not> is_yield call \<Longrightarrow> silent (CCall call # ss)"
    using path_call [of call] by (auto intro: silent_Cons)
  show "silent ss \<Longrightarrow> s \<in> {CDeclaration v, CAssignment v, CDefer v, CErrdefer v, CTry v, CFor v body, CFunction nm body, CMethod nm body}
     \<Longrightarrow> silent (s # ss)"
    by (auto intro!: silent_Cons intro: stmt_path_list_path.intros)
  show "silent ss \<Longrightarrow> \<not> isLiteralTrue c k \<Longrightarrow> silent (CWhile c k body sp # ss)"
    by (intro silent_Cons path_while_done)
  show "silent body \<Longrightarrow> silent ss \<Longrightarrow> silent (CUnsafe body # ss)"
    by (auto simp: silent_def [of body] intro: silent_Cons silent_cut path_unsafe)
  show "silent th \<Longrightarrow> silent ss \<Longrightarrow> silent (CIf c th branches el # ss)"
    by (auto simp: silent_def [of th] intro: silent_Cons silent_cut path_if_then)
  show "silent (CContinue # ss)" by (intro silent_cut path_continue)
qed

lemma branch_silent: "conditional_loops ss \<Longrightarrow> branchMayRepeatWithoutYield ss True \<Longrightarrow> silent ss"
proof (induction ss rule: conditional_loops.induct)
  case 1
  then show ?case by (simp add: silent_def path_nil)
next
  case (2 s ss)
  note falls = branch_falls branch_stays_false
  show ?case
  proof (cases s)
    case (CIf c th branches el)
    define after where "after = (case el of None \<Rightarrow> branches_may_repeat branches (branchMayRepeatWithoutYield th True)
        | Some body \<Rightarrow> if body \<noteq> [] then branchMayRepeatWithoutYield body
              (branches_may_repeat branches (branchMayRepeatWithoutYield th True))
            else branches_may_repeat branches (branchMayRepeatWithoutYield th True))"
    have rest: "branchMayRepeatWithoutYield ss after" using 2 by (simp add: CIf after_def Let_def)
    then have "after" by (rule branch_falls)
    then have "branchMayRepeatWithoutYield th True"
      by (auto simp: after_def split: option.splits if_splits dest!: falls(1,2))
    then show ?thesis using 2 rest \<open>after\<close> by (auto simp: CIf intro: silent_plain)
  next
    case (CUnsafe body)
    have rest: "branchMayRepeatWithoutYield ss (branchMayRepeatWithoutYield body True)" using 2 by (simp add: CUnsafe)
    then have "branchMayRepeatWithoutYield body True" by (rule branch_falls)
    then show ?thesis using 2 rest by (auto simp: CUnsafe intro: silent_plain)
  next
    case (CCall call)
    then show ?thesis using 2 falls by (auto intro: silent_plain split: if_splits)
  next
    case (CWhile c k body sp)
    then show ?thesis using 2 falls by (auto simp: loopFallsThrough_def intro: silent_plain)
  qed (use 2 in \<open>auto intro: silent_plain\<close>)
qed

lemma loop_silent: "conditional_loops ss \<Longrightarrow> loop_may_repeat ss True \<Longrightarrow> silent ss"
proof (induction ss)
  case Nil
  then show ?case by (simp add: silent_def path_nil)
next
  case (Cons s ss)
  show ?case
  proof (cases s)
    case (CIf c th branches el)
    define after where "after = (case el of None \<Rightarrow> branches_may_repeat branches (branchMayRepeatWithoutYield th True)
        | Some body \<Rightarrow> if body \<noteq> [] then branchMayRepeatWithoutYield body
              (branches_may_repeat branches (branchMayRepeatWithoutYield th True))
            else branches_may_repeat branches (branchMayRepeatWithoutYield th True))"
    have rest: "loop_may_repeat ss after" using Cons by (simp add: CIf after_def Let_def)
    then have "after" using loop_stays_false by (cases after) auto
    then have "branchMayRepeatWithoutYield th True"
      by (auto simp: after_def split: option.splits if_splits dest!: branch_falls(1,2))
    then show ?thesis using Cons rest \<open>after\<close> branch_silent [of th] by (auto simp: CIf intro: silent_plain)
  next
    case (CUnsafe body)
    have rest: "loop_may_repeat ss (branchMayRepeatWithoutYield body True)" using Cons by (simp add: CUnsafe)
    then have "branchMayRepeatWithoutYield body True"
      using loop_stays_false by (cases "branchMayRepeatWithoutYield body True") auto
    then show ?thesis using Cons rest branch_silent [of body] by (auto simp: CUnsafe intro: silent_plain)
  next
    case (CCall call)
    then show ?thesis using Cons by (auto simp: loop_stays_false intro: silent_plain split: if_splits)
  next
    case (CWhile c k body sp)
    then show ?thesis using Cons by (auto simp: loopFallsThrough_def loop_stays_false intro: silent_plain)
  qed (use Cons in \<open>auto simp: loop_stays_false intro: silent_plain\<close>)
qed

section \<open>A state that falls\<close>

text \<open>Statements whose conditionals decide nothing about the loop: no branch yields, jumps, returns or stays
  in an endless loop.\<close>

fun neutral :: "cstmt list \<Rightarrow> bool" where
  "neutral [] = True"
| "neutral (s # ss) =
     ((case s of
         CCall call \<Rightarrow> \<not> is_yield call
       | CIf c th branches el \<Rightarrow>
           neutral th \<and> (\<forall>(c, b)\<in>set branches. neutral b) \<and> (case el of None \<Rightarrow> True | Some b \<Rightarrow> neutral b)
       | CUnsafe body \<Rightarrow> neutral body
       | CWhile c k body sp \<Rightarrow> loopFallsThrough c k body
       | CBreak \<Rightarrow> False
       | CContinue \<Rightarrow> False
       | CReturn v \<Rightarrow> False
       | CRootReturn v \<Rightarrow> False
       | _ \<Rightarrow> True) \<and> neutral ss)"

definition neutral_if :: "cstmt list \<Rightarrow> (coperand \<times> cstmt list) list \<Rightarrow> cstmt list option \<Rightarrow> bool" where
  "neutral_if th branches el \<longleftrightarrow>
     neutral th \<and> (\<forall>(c, b)\<in>set branches. neutral b) \<and> (case el of None \<Rightarrow> True | Some b \<Rightarrow> neutral b)"

text \<open>At the loop's own level yields and exits are allowed where every path meets them; inside an
  unsafe block a continue is excluded as well, which the test takes to fall through.\<close>

fun decided :: "bool \<Rightarrow> cstmt list \<Rightarrow> bool" where
  "decided at_loop [] = True"
| "decided at_loop (s # ss) =
     ((case s of
         CIf c th branches el \<Rightarrow> neutral_if th branches el
       | CUnsafe body \<Rightarrow> decided False body
       | CContinue \<Rightarrow> at_loop
       | _ \<Rightarrow> True) \<and> decided at_loop ss)"

lemma neutral_paths:
  "stmt_path s y e \<Longrightarrow> neutral [s] \<Longrightarrow> \<not> y \<and> e \<in> {Ends, Leaves}"
  "list_path ss y e \<Longrightarrow> neutral ss \<Longrightarrow> \<not> y \<and> e \<in> {Ends, Leaves}"
  by (induction rule: stmt_path_list_path.inducts) (auto split: option.splits cstmt.splits)

lemma neutral_keeps: "neutral ss \<Longrightarrow> branchMayRepeatWithoutYield ss bad = bad"
  and neutral_branches_keep: "\<forall>(c, b)\<in>set branches. neutral b \<Longrightarrow> branches_may_repeat branches bad = bad"
proof (induction ss bad and branches bad rule: branchMayRepeatWithoutYield_branches_may_repeat.induct)
  case (2 s ss bad)
  then show ?case by (cases s) (auto split: option.splits)
qed auto

lemma neutral_if_path:
  assumes "stmt_path (CIf c th branches el) y e" "neutral_if th branches el"
  shows "\<not> y \<and> e \<in> {Ends, Leaves}"
proof -
  have "neutral [CIf c th branches el]" using assms(2) by (simp add: neutral_if_def)
  then show ?thesis using neutral_paths(1) [OF assms(1)] by blast
qed

lemma neutral_if_keeps:
  "neutral_if th branches el \<Longrightarrow>
   (let bad = branches_may_repeat branches (branchMayRepeatWithoutYield th bad) in
    case el of None \<Rightarrow> bad | Some body \<Rightarrow> if body \<noteq> [] then branchMayRepeatWithoutYield body bad else bad) = bad"
  by (auto simp: neutral_if_def neutral_keeps neutral_branches_keep split: option.splits)

lemma decided_branch:
  assumes "decided False ss" "list_path ss y e"
  shows "e \<noteq> Continues \<and> (e = Ends \<longrightarrow> bad \<longrightarrow> \<not> y \<longrightarrow> branchMayRepeatWithoutYield ss bad)"
  using assms
proof (induction "False" ss arbitrary: y e bad rule: decided.induct)
  case 1
  then show ?case by auto
next
  case (2 s ss)
  from 2(4) consider (more) y1 y2 where "stmt_path s y1 Ends" "list_path ss y2 e" "y = (y1 \<or> y2)"
    | (stop) "stmt_path s y e" "e \<noteq> Ends"
    by (cases rule: list_consE) auto
  then show ?case
  proof cases
    case more
    have rest: "e \<noteq> Continues \<and> (e = Ends \<longrightarrow> bad' \<longrightarrow> \<not> y2 \<longrightarrow> branchMayRepeatWithoutYield ss bad')" for bad'
      using 2(2) [of y2 e bad'] 2(3) more by auto
    show ?thesis
    proof (cases s)
      case (CIf c th branches el)
      then have "neutral_if th branches el" using 2(3) by simp
      then show ?thesis using more rest neutral_if_path by (auto simp: CIf neutral_if_keeps)
    next
      case (CUnsafe body)
      then have "decided False body" "list_path body y1 Ends" using 2(3) more by auto
      then have "bad \<longrightarrow> \<not> y1 \<longrightarrow> branchMayRepeatWithoutYield body bad" using 2(1) [OF CUnsafe] by blast
      then show ?thesis using more rest by (auto simp: CUnsafe)
    next
      case (CWhile c k body sp)
      then have "loopFallsThrough c k body" using more(1) endless_loop_not_left [of c k body] by blast
      then show ?thesis using more rest by (auto simp: CWhile)
    qed (use more rest in auto)
  next
    case stop
    show ?thesis
    proof (cases s)
      case (CIf c th branches el)
      then show ?thesis using stop 2(3) neutral_if_path [of c th branches el y e] by auto
    next
      case (CUnsafe body)
      then have "decided False body" "list_path body y e" using 2(3) stop by auto
      then show ?thesis using 2(1) [OF CUnsafe] stop by blast
    next
      case (CWhile c k body sp)
      then show ?thesis using stop by (auto elim: while_pathE)
    qed (use stop 2(3) in auto)
  qed
qed

lemma list_path_silent:
  assumes "list_path (s # ss) False e"
  shows "stmt_path s False Ends \<and> list_path ss False e \<or> stmt_path s False e \<and> e \<noteq> Ends"
proof -
  have "(\<exists>y1 y2. stmt_path s y1 Ends \<and> list_path ss y2 e \<and> (\<not> y1) \<and> (\<not> y2)) \<or> stmt_path s False e \<and> e \<noteq> Ends"
    using assms by (cases rule: list_consE) auto
  then show ?thesis by (metis (full_types))
qed

lemma decided_loop:
  assumes "decided True ss" "list_path ss False e" "e \<in> {Ends, Continues}"
  shows "loop_may_repeat ss True"
  using assms
proof (induction ss arbitrary: e)
  case (Cons s ss)
  from list_path_silent [OF Cons(3)] consider (more) "stmt_path s False Ends" "list_path ss False e"
    | (stop) "stmt_path s False e" "e \<noteq> Ends"
    by auto
  then show ?case
  proof cases
    case more
    have rest: "loop_may_repeat ss True" using Cons more by auto
    show ?thesis
    proof (cases s)
      case (CIf c th branches el)
      then have "neutral_if th branches el" using Cons(2) by simp
      then show ?thesis using rest by (simp add: CIf neutral_if_keeps)
    next
      case (CUnsafe body)
      then have "decided False body" "list_path body False Ends" using Cons(2) more by auto
      then have "branchMayRepeatWithoutYield body True" using decided_branch [of body False Ends True] by simp
      then show ?thesis using rest by (simp add: CUnsafe)
    next
      case (CWhile c k body sp)
      then have "loopFallsThrough c k body" using more(1) endless_loop_not_left [of c k body] by blast
      then show ?thesis using rest by (simp add: CWhile)
    qed (use more rest in auto)
  next
    case stop
    then have e: "e = Continues" using Cons(4) by auto
    show ?thesis
    proof (cases s)
      case (CIf c th branches el)
      then show ?thesis using stop e Cons(2) neutral_if_path [of c th branches el False e] by auto
    next
      case (CUnsafe body)
      then have "decided False body" "list_path body False e" using Cons(2) stop by auto
      then show ?thesis using decided_branch [of body False e] e by simp
    next
      case (CWhile c k body sp)
      then show ?thesis using stop e by (auto elim: while_pathE)
    qed (use stop e in auto)
  qed
qed auto

section \<open>The walk through calls\<close>

definition unvisited_functions :: "starvation_scanner \<Rightarrow> nat" where
  "unvisited_functions sc = card (set (map fst (sc_by_name sc)) - sc_visited sc)"

text \<open>The table stays, names only become visited, and diagnostics are only appended.\<close>

definition walks :: "starvation_scanner \<Rightarrow> starvation_scanner option \<Rightarrow> bool" where
  "walks sc r \<longleftrightarrow>
     (\<exists>sc'. r = Some sc' \<and> sc_by_name sc' = sc_by_name sc \<and> sc_visited sc \<subseteq> sc_visited sc'
        \<and> (\<exists>ds. sc_diagnostics sc' = sc_diagnostics sc @ ds \<and> (\<forall>d\<in>set ds. ld_message d = LoopMustYield)))"

lemma walks_refl [simp]: "walks sc (Some sc)"
  by (simp add: walks_def)

lemma unvisited_le:
  assumes "sc_by_name sc' = sc_by_name sc" "sc_visited sc \<subseteq> sc_visited sc'"
  shows "unvisited_functions sc' \<le> unvisited_functions sc"
  using assms by (auto simp: unvisited_functions_def intro!: card_mono)

lemma walks_bind:
  assumes "walks sc r"
    and "\<And>sc'. unvisited_functions sc' \<le> unvisited_functions sc \<Longrightarrow> walks sc' (f sc')"
  shows "walks sc (bind_scanner r f)"
proof -
  obtain sc' ds where r: "r = Some sc'" "sc_by_name sc' = sc_by_name sc" "sc_visited sc \<subseteq> sc_visited sc'"
    "sc_diagnostics sc' = sc_diagnostics sc @ ds" "\<forall>d\<in>set ds. ld_message d = LoopMustYield"
    using assms(1) by (auto simp: walks_def)
  have "walks sc' (f sc')" by (rule assms(2)) (rule unvisited_le [OF r(2,3)])
  then show ?thesis using r by (fastforce simp: walks_def bind_scanner_def)
qed

lemma walks_diagnosed:
  assumes "walks (sc\<lparr>sc_diagnostics := sc_diagnostics sc @ [loop_diagnostic table sp]\<rparr>) r"
  shows "walks sc r"
  using assms by (fastforce simp: walks_def loop_diagnostic_def diagnostic_at_def)

locale call_visitor =
  fixes v :: function_visitor and levels :: nat
  assumes visits: "\<lbrakk>map_of (sc_by_name sc) name = Some body; unvisited_functions sc < levels\<rbrakk> \<Longrightarrow> walks sc (v name body sc)"
begin

text \<open>The walk calls the visitor only with names of the table, so it needs no more than the contract.\<close>

lemma call_walks:
  assumes "unvisited_functions sc < levels"
  shows "walks sc (case map_of (sc_by_name sc) name of None \<Rightarrow> Some sc | Some body \<Rightarrow> v name body sc)"
  using assms visits by (auto split: option.splits)

end

lemma diagnose_walks:
  "call_visitor v levels \<Longrightarrow> unvisited_functions sc < levels \<Longrightarrow> walks sc (diagnoseStatement table v s sc)"
  "call_visitor v levels \<Longrightarrow> unvisited_functions sc < levels \<Longrightarrow> walks sc (diagnoseStatements table v ss sc)"
  "call_visitor v levels \<Longrightarrow> unvisited_functions sc < levels \<Longrightarrow> walks sc (diagnose_branches table v branches sc)"
proof (induction table v s sc and table v ss sc and table v branches sc
    rule: diagnoseStatement_diagnoseStatements_diagnose_branches.induct)
  case (1 table v c k body sp sc)
  then show ?case
    using walks_diagnosed [of sc table sp] by (auto simp: unvisited_functions_def)
next
  case (2 table v c th branches el sc)
  then show ?case by (auto intro!: walks_bind split: option.splits)
next
  case (5 table v call sc)
  then show ?case using call_visitor.call_walks [of v levels sc] by (simp add: Let_def)
qed (auto intro!: walks_bind)

context call_visitor
begin

lemma function_walks:
  assumes "map_of (sc_by_name sc) name = Some body" "unvisited_functions sc < Suc levels"
  shows "walks sc (if name \<in> sc_visited sc then Some sc
     else diagnoseStatements table v body (sc\<lparr>sc_visited := insert name (sc_visited sc)\<rparr>))"
proof (cases "name \<in> sc_visited sc")
  case False
  let ?sc = "sc\<lparr>sc_visited := insert name (sc_visited sc)\<rparr>"
  have name: "name \<in> set (map fst (sc_by_name sc))" using assms(1) map_of_SomeD by force
  then have "set (map fst (sc_by_name sc)) - insert name (sc_visited sc) \<subset> set (map fst (sc_by_name sc)) - sc_visited sc"
    using False by blast
  then have "unvisited_functions ?sc < unvisited_functions sc"
    unfolding unvisited_functions_def by (intro psubset_card_mono) auto
  then have "walks ?sc (diagnoseStatements table v body ?sc)"
    using assms(2) by (intro diagnose_walks(2) [OF call_visitor_axioms]) linarith
  then show ?thesis using False by (fastforce simp: walks_def)
qed simp

end

lemma diagnose_contract: "call_visitor (diagnoseFunction table n) n"
proof (induction n)
  case 0
  show ?case by unfold_locales simp
next
  case (Suc n)
  then show ?case using call_visitor.function_walks [OF Suc] by unfold_locales simp
qed

interpretation calls: call_visitor "diagnoseFunction table n" n for table n
  by (rule diagnose_contract)

lemma entries_walk:
  "unvisited_functions sc < n \<Longrightarrow> walks sc (diagnose_entries table n names sc)"
proof (induction names arbitrary: sc)
  case (Cons name names)
  have "walks sc (case map_of (sc_by_name sc) name of None \<Rightarrow> Some sc | Some body \<Rightarrow> diagnoseFunction table n name body sc)"
    by (rule calls.call_walks [OF Cons.prems])
  then show ?case using Cons by (auto intro!: walks_bind)
qed simp

lemma scan_keeps:
  "sc_visited (scanStatement s sc) = sc_visited sc \<and> sc_diagnostics (scanStatement s sc) = sc_diagnostics sc"
  "sc_visited (scanStatements ss sc) = sc_visited sc \<and> sc_diagnostics (scanStatements ss sc) = sc_diagnostics sc"
  "sc_visited (scan_branches branches sc) = sc_visited sc \<and> sc_diagnostics (scan_branches branches sc) = sc_diagnostics sc"
proof -
  have node: "sc_visited (visit_node sc node) = sc_visited sc \<and> sc_diagnostics (visit_node sc node) = sc_diagnostics sc"
    for sc node by (simp add: visit_node_def note_spawn_def Let_def)
  have nodes: "sc_visited (foldl visit_node sc ns) = sc_visited sc \<and> sc_diagnostics (foldl visit_node sc ns) = sc_diagnostics sc"
    for sc ns by (induction ns arbitrary: sc) (simp_all add: node)
  have operand: "sc_visited (scanOperand o1 sc) = sc_visited sc \<and> sc_diagnostics (scanOperand o1 sc) = sc_diagnostics sc"
    for sc o1 by (simp add: scanOperand_def nodes note_spawn_def Let_def)
  show
    "sc_visited (scanStatement s sc) = sc_visited sc \<and> sc_diagnostics (scanStatement s sc) = sc_diagnostics sc"
    "sc_visited (scanStatements ss sc) = sc_visited sc \<and> sc_diagnostics (scanStatements ss sc) = sc_diagnostics sc"
    "sc_visited (scan_branches branches sc) = sc_visited sc \<and> sc_diagnostics (scan_branches branches sc) = sc_diagnostics sc"
    by (induction s sc and ss sc and branches sc rule: scanStatement_scanStatements_scan_branches.induct)
      (auto simp: operand Let_def split: option.splits)
qed

lemma scan_program_fresh: "sc_visited (scan_program p) = {}" "sc_diagnostics (scan_program p) = []"
proof -
  have again: "sc_visited (case s of CFunction name body \<Rightarrow> scanStatements body (sc\<lparr>sc_by_name := f name body\<rparr>) | _ \<Rightarrow> sc)
      = sc_visited sc
    \<and> sc_diagnostics (case s of CFunction name body \<Rightarrow> scanStatements body (sc\<lparr>sc_by_name := f name body\<rparr>) | _ \<Rightarrow> sc)
      = sc_diagnostics sc" for s f sc
    by (cases s) (simp_all add: scan_keeps(2))
  have root: "sc_visited (scanRoot ss sc) = sc_visited sc \<and> sc_diagnostics (scanRoot ss sc) = sc_diagnostics sc" for ss sc
    by (induction ss arbitrary: sc) (simp_all add: Let_def again scan_keeps(1))
  have more: "sc_visited (foldl (\<lambda>sc (name, body). scanStatements body (sc\<lparr>sc_by_name := AList.update name body (sc_by_name sc)\<rparr>)) sc fs) = sc_visited sc
    \<and> sc_diagnostics (foldl (\<lambda>sc (name, body). scanStatements body (sc\<lparr>sc_by_name := AList.update name body (sc_by_name sc)\<rparr>)) sc fs) = sc_diagnostics sc" for fs sc
    by (induction fs arbitrary: sc) (auto simp: scan_keeps)
  show "sc_visited (scan_program p) = {}" "sc_diagnostics (scan_program p) = []"
    by (simp_all add: scan_program_def root more initial_scanner_def)
qed

lemma check_starvation_walks:
  "\<exists>ds. checkStarvation p table = Some ds \<and> (\<forall>d\<in>set ds. ld_message d = LoopMustYield)"
proof -
  let ?sc = "scan_program p" and ?n = "Suc (length (sc_by_name (scan_program p)))"
  have room: "unvisited_functions ?sc < ?n"
    using card_length [of "map fst (sc_by_name ?sc)"] by (simp add: unvisited_functions_def scan_program_fresh)
  have "walks ?sc (bind_scanner (diagnoseStatements table (diagnoseFunction table ?n) (cp_statements p) ?sc)
      (diagnose_entries table ?n (sc_spawn_entries ?sc)))"
    using room by (intro walks_bind diagnose_walks(2) [OF diagnose_contract] entries_walk) linarith+
  then show ?thesis by (auto simp: checkStarvation_def Let_def walks_def scan_program_fresh)
qed

end
