(* ===== verification/StarvationProps.thy ===== *)
theory StarvationProps
  imports StarvationLaws
begin

text \<open>
  Properties of the control-flow passes on checked statements: the termination tests are right about
  paths, the must-yield check always ends and only reports loops with a path that repeats without a yield, and it
  misses loops whose yields or exits stand under a condition.
\<close>

text \<open>Three expressions the examples use.\<close>

definition yield_call :: coperand where
  "yield_call = COperand ExpressionOperand None (CNode TaskYieldExpression_K [] None None None [])"

definition other_call :: coperand where
  "other_call = COperand ExpressionOperand None (CNode CallExpression_K [] None None None [])"

definition true_operand :: coperand where
  "true_operand = COperand ConstantOperand (Some (CBool True)) (CNode (ExpressionKind 0) [] None None None [])"

lemma yield_calls [simp]: "is_yield yield_call" "\<not> is_yield other_call"
  by (simp_all add: is_yield_def yield_call_def other_call_def)

text \<open>
  C23. No path runs off the end of a statement list that FallsThrough refuses, and none ends
  normally after a list sequenceTerminates accepts: the tests behind missing returns, joins of
  branches and unreachable statements never call a path impossible that can happen.
\<close>

theorem termination_tests_sound:
  "(list_path body y e \<longrightarrow> e = Ends \<longrightarrow> FallsThrough body \<and> \<not> sequenceTerminates body)
   \<and> (stmt_path s y e \<longrightarrow> e = Ends \<longrightarrow> statementFallsThrough s \<and> \<not> statementTerminates s)"
  using falls_through_ends terminates_not_ends by blast

theorem termination_tests_sound_witness:
  "FallsThrough [CIf other_call [CReturn None] [] None]
   \<and> \<not> FallsThrough [CIf other_call [CReturn None] [] (Some [CReturn None])]
   \<and> (\<forall>y. \<not> list_path [CIf other_call [CReturn None] [] (Some [CReturn None])] y Ends)"
  using termination_tests_sound [of "[CIf other_call [CReturn None] [] (Some [CReturn None])]" _ Ends] by simp

text \<open>
  C31. The must-yield check returns for every checked program, recursive call graphs included, and
  all it reports is the must-yield diagnostic.
\<close>

theorem starvation_check_returns:
  "\<exists>ds. checkStarvation program table = Some ds \<and> set (map ld_message ds) \<subseteq> {LoopMustYield}"
  using check_starvation_walks [of program table] by auto

text \<open>
  C21. A loop body the test objects to has a path back to the loop's start without a yield, when the
  loops nested in it are controlled by conditions; and where the conditionals of the body decide nothing about
  the loop and its unsafe blocks hold no continue of the loop, every body with such a path is objected to.
\<close>

theorem yield_test_agrees_with_paths:
  "(conditional_loops body \<longrightarrow> loopMayRepeatWithoutYield body \<longrightarrow> silent body)
   \<and> (decided True body \<longrightarrow> silent body \<longrightarrow> loopMayRepeatWithoutYield body)"
  using loop_silent decided_loop by (auto simp: loopMayRepeatWithoutYield_def silent_def)

theorem yield_test_agrees_with_paths_witness:
  "silent [CCall other_call, CIf other_call [CCall other_call] [] None]
   \<and> \<not> silent [CCall other_call, CIf other_call [CCall other_call] [] None, CCall yield_call]"
  using yield_test_agrees_with_paths [of "[CCall other_call, CIf other_call [CCall other_call] [] None]"]
    yield_test_agrees_with_paths [of "[CCall other_call, CIf other_call [CCall other_call] [] None, CCall yield_call]"]
  by (simp add: loopMayRepeatWithoutYield_def neutral_if_def)

lemma unreported_program:
  assumes "body \<in> {[CIf other_call [CCall yield_call] [] None], [CIf other_call [CBreak] [] None, CCall other_call],
    [CIf other_call [CContinue] [] None, CCall yield_call], [CUnsafe [CContinue], CCall yield_call]}"
  shows "checkStarvation \<lparr>cp_statements = [CCall yield_call, CWhile true_operand None body sp], cp_specialized = []\<rparr> table
    = Some []"
  using assms
  by (auto simp: checkStarvation_def Let_def bind_scanner_def scan_program_def scanOperand_def
      visit_node_def yield_call_def other_call_def true_operand_def initial_scanner_def loopMayRepeatWithoutYield_def
      directCallName_def is_yield_def)

text \<open>
  C35. The test reads the branches of a conditional one after the other, so a yield under a condition
  counts for the paths that skip it, a break under a condition stops the path that does not take it, and a continue
  under a condition, or in an unsafe block, is taken to fall through. In each case the test accepts a body that repeats without a yield, and the whole
  check accepts a program of it.
\<close>

theorem conditional_yield_accepted:
  "list_all (\<lambda>body. \<not> loopMayRepeatWithoutYield body \<and> silent body
     \<and> checkStarvation \<lparr>cp_statements = [CCall yield_call, CWhile true_operand None body sp], cp_specialized = []\<rparr> table
          = Some [])
     [[CIf other_call [CCall yield_call] [] None], [CIf other_call [CBreak] [] None, CCall other_call],
      [CIf other_call [CContinue] [] None, CCall yield_call], [CUnsafe [CContinue], CCall yield_call]]"
proof -
  have test: "\<not> loopMayRepeatWithoutYield [CIf other_call [CCall yield_call] [] None]"
    "\<not> loopMayRepeatWithoutYield [CIf other_call [CBreak] [] None, CCall other_call]"
    "\<not> loopMayRepeatWithoutYield [CIf other_call [CContinue] [] None, CCall yield_call]"
    "\<not> loopMayRepeatWithoutYield [CUnsafe [CContinue], CCall yield_call]"
    by (simp_all add: loopMayRepeatWithoutYield_def)
  have skip: "stmt_path (CIf c th [] None) False Ends" for c th by (rule path_if_skip)
  have "silent [CIf other_call [CCall yield_call] [] None]"
    by (rule silent_Cons [OF skip]) (simp add: silent_def path_nil)
  moreover have "silent [CIf other_call [CBreak] [] None, CCall other_call]"
    by (rule silent_Cons [OF skip], rule silent_plain(1)) (simp_all add: silent_def path_nil)
  moreover have "silent [CIf other_call [CContinue] [] None, CCall yield_call]"
  proof (rule silent_cut)
    have "list_path [CContinue] False Continues" by (rule path_cut [OF path_continue]) simp
    then show "stmt_path (CIf other_call [CContinue] [] None) False Continues" by (rule path_if_then)
  qed
  moreover have "silent [CUnsafe [CContinue], CCall yield_call]"
  proof (rule silent_cut)
    have "list_path [CContinue] False Continues" by (rule path_cut [OF path_continue]) simp
    then show "stmt_path (CUnsafe [CContinue]) False Continues" by (rule path_unsafe)
  qed
  ultimately show ?thesis using test unreported_program by simp
qed

end
