(* ===== verification/FlowState.thy ===== *)
theory FlowState
  imports TypeUnions "HOL-Library.Finite_Map" "HOL-Library.Word"
begin

text \<open>
  The branch-local flow facts of \<open>checker/flow.go\<close>: narrowing, allocation identities and cleanup,
  stream facts and, with the operations in \<open>checker/strings.go\<close>, string origins. A Go map is a finite map, and a loop
  over one is a map or filter over it: each iteration touches the entries of its own key, so
  their order cannot show. The counter \<open>nextAlloc\<close>, which all clones of one function's state share, is an
  argument and a result of the operations that mint. A state is a value, so \<open>clone\<close> is the identity.
  A function body always has a state; the tests for a nil receiver have no counterpart.
\<close>

unbundle bit_operations_syntax

section \<open>The state\<close>

type_synonym binding_id = nat
type_synonym allocation_id = nat

datatype allocatorKind = unknownAllocator | heapAllocator | stashAllocator | poolAllocator

text \<open>The zero type is \<open>None\<close>; a variant is named by its record and its index in it. A capability is
  \<open>compilerTypes.StreamCapability\<close>: 1 readable, 2 writable, 3 both.\<close>

record flow_fact =
  ff_type :: "htype option"
  ff_escaped :: bool
  ff_variant :: "(nat \<times> nat) option"
  ff_capability :: "8 word"

definition zero_fact :: flow_fact where
  "zero_fact = \<lparr>ff_type = None, ff_escaped = False, ff_variant = None, ff_capability = 0\<rparr>"

definition StreamReadWrite :: "8 word" where "StreamReadWrite = 3"

type_synonym string_origin_set = "8 word"

definition stringOriginStatic :: string_origin_set where "stringOriginStatic = 1"
definition stringOriginOwned :: string_origin_set where "stringOriginOwned = 2"
definition stringOriginOpaque :: string_origin_set where "stringOriginOpaque = 4"

record string_place =
  sp_root :: binding_id
  sp_member :: string
  sp_index :: "64 word"
  sp_indexed :: bool

record flow_state =
  fl_facts :: "(binding_id, flow_fact) fmap"
  fl_tracked :: "(binding_id, bool) fmap"
  fl_allocation :: "(binding_id, allocation_id) fmap"
  fl_freed_alloc :: "(allocation_id, bool) fmap"
  fl_allocator_kind :: "(allocation_id, allocatorKind) fmap"
  fl_provenance :: "(binding_id, binding_id) fmap"
  fl_released_sources :: "(binding_id, bool) fmap"
  fl_string_origins :: "(binding_id, string_origin_set) fmap"
  fl_string_places :: "(string_place, string_origin_set) fmap"

text \<open>Reading a map with the zero value for a missing key.\<close>

definition fm_get :: "'v \<Rightarrow> ('k, 'v) fmap \<Rightarrow> 'k \<Rightarrow> 'v" where
  "fm_get z m k = (case fmlookup m k of None \<Rightarrow> z | Some v \<Rightarrow> v)"

abbreviation holds :: "('k, bool) fmap \<Rightarrow> 'k \<Rightarrow> bool" where
  "holds \<equiv> fm_get False"

definition newFlowState :: flow_state where
  "newFlowState =
     \<lparr>fl_facts = fmempty, fl_tracked = fmempty, fl_allocation = fmempty, fl_freed_alloc = fmempty,
      fl_allocator_kind = fmempty, fl_provenance = fmempty, fl_released_sources = fmempty,
      fl_string_origins = fmempty, fl_string_places = fmempty\<rparr>"

definition withoutFreedChecks :: "flow_state \<Rightarrow> flow_state" where
  "withoutFreedChecks st = st\<lparr>fl_tracked := fmempty, fl_freed_alloc := fmempty\<rparr>"

definition set_fact :: "binding_id \<Rightarrow> flow_fact \<Rightarrow> flow_state \<Rightarrow> flow_state" where
  "set_fact b f st = st\<lparr>fl_facts := fmupd b f (fl_facts st)\<rparr>"

section \<open>Narrowing\<close>

definition narrowedType :: "flow_state \<Rightarrow> binding_id \<Rightarrow> htype option" where
  "narrowedType st b =
     (case fmlookup (fl_facts st) b of None \<Rightarrow> None | Some f \<Rightarrow> if ff_escaped f then None else ff_type f)"

definition narrow :: "binding_id \<Rightarrow> htype option \<Rightarrow> flow_state \<Rightarrow> flow_state" where
  "narrow b t st =
     (let f = fm_get zero_fact (fl_facts st) b in
      if ff_escaped f then st else set_fact b (f\<lparr>ff_type := t, ff_variant := None\<rparr>) st)"

definition narrowVariant :: "binding_id \<Rightarrow> (nat \<times> nat) option \<Rightarrow> flow_state \<Rightarrow> flow_state" where
  "narrowVariant b v st =
     (let f = fm_get zero_fact (fl_facts st) b in
      if ff_escaped f then st else set_fact b (f\<lparr>ff_type := None, ff_variant := v\<rparr>) st)"

definition narrowedVariant :: "flow_state \<Rightarrow> binding_id \<Rightarrow> (nat \<times> nat) option" where
  "narrowedVariant st b =
     (case fmlookup (fl_facts st) b of None \<Rightarrow> None | Some f \<Rightarrow> if ff_escaped f then None else ff_variant f)"

definition invalidateNarrowing :: "binding_id \<Rightarrow> flow_state \<Rightarrow> flow_state" where
  "invalidateNarrowing b st =
     (case fmlookup (fl_facts st) b of None \<Rightarrow> st | Some f \<Rightarrow> set_fact b (f\<lparr>ff_type := None\<rparr>) st)"

section \<open>Allocations\<close>

type_synonym counted = "allocation_id \<times> flow_state"

definition mintAllocationID :: "allocation_id \<Rightarrow> allocation_id \<times> allocation_id" where
  "mintAllocationID n = (n + 1, n + 1)"

text \<open>The identity a binding denotes; zero stands for none.\<close>

definition denoted :: "flow_state \<Rightarrow> binding_id \<Rightarrow> allocation_id option" where
  "denoted st b =
     (case fmlookup (fl_allocation st) b of None \<Rightarrow> None | Some a \<Rightarrow> if a = 0 then None else Some a)"

definition trackFreed :: "binding_id \<Rightarrow> counted \<Rightarrow> counted" where
  "trackFreed b = (\<lambda>(n, st).
     if b = 0 \<or> holds (fl_tracked st) b then (n, st)
     else (case mintAllocationID n of (a, n) \<Rightarrow>
       (n, st\<lparr>fl_tracked := fmupd b True (fl_tracked st), fl_allocation := fmupd b a (fl_allocation st),
              fl_facts := (case fmlookup (fl_facts st) b of
                None \<Rightarrow> fmupd b zero_fact (fl_facts st) | Some _ \<Rightarrow> fl_facts st)\<rparr>)))"

definition dropFreed :: "binding_id \<Rightarrow> flow_state \<Rightarrow> flow_state" where
  "dropFreed b st =
     st\<lparr>fl_tracked := fmdrop b (fl_tracked st), fl_allocation := fmdrop b (fl_allocation st)\<rparr>"

definition trackedAllocation :: "flow_state \<Rightarrow> binding_id \<Rightarrow> allocation_id option" where
  "trackedAllocation st b = (if holds (fl_tracked st) b then denoted st b else None)"

definition freed :: "flow_state \<Rightarrow> binding_id \<Rightarrow> bool" where
  "freed st b \<longleftrightarrow>
     (case trackedAllocation st b of None \<Rightarrow> False | Some a \<Rightarrow> holds (fl_freed_alloc st) a)"

definition aliasFreed :: "binding_id \<Rightarrow> binding_id \<Rightarrow> flow_state \<Rightarrow> flow_state" where
  "aliasFreed source target st =
     (if source = 0 \<or> target = 0 then st
      else case trackedAllocation st source of
        None \<Rightarrow> st
      | Some a \<Rightarrow>
          st\<lparr>fl_tracked := fmupd target True (fl_tracked st),
             fl_allocation := fmupd target a (fl_allocation st)\<rparr>)"

definition setAllocatorKind :: "binding_id \<Rightarrow> allocatorKind \<Rightarrow> flow_state \<Rightarrow> flow_state" where
  "setAllocatorKind b kind st =
     (if b = 0 \<or> kind = unknownAllocator then st
      else case denoted st b of
        None \<Rightarrow> st | Some a \<Rightarrow> st\<lparr>fl_allocator_kind := fmupd a kind (fl_allocator_kind st)\<rparr>)"

definition allocatorKindOf :: "flow_state \<Rightarrow> binding_id \<Rightarrow> allocatorKind" where
  "allocatorKindOf st b =
     (case trackedAllocation st b of
        None \<Rightarrow> unknownAllocator | Some a \<Rightarrow> fm_get unknownAllocator (fl_allocator_kind st) a)"

definition markFreedAlloc :: "allocation_id \<Rightarrow> flow_state \<Rightarrow> flow_state" where
  "markFreedAlloc a st = (if a = 0 then st else st\<lparr>fl_freed_alloc := fmupd a True (fl_freed_alloc st)\<rparr>)"

definition freedAllocReport :: "flow_state \<Rightarrow> allocation_id \<Rightarrow> bool" where
  "freedAllocReport st a \<longleftrightarrow> a \<noteq> 0 \<and> holds (fl_freed_alloc st) a"

definition markFreed :: "binding_id \<Rightarrow> flow_state \<Rightarrow> flow_state" where
  "markFreed b st =
     (case trackedAllocation st b of
        None \<Rightarrow> st | Some a \<Rightarrow> st\<lparr>fl_freed_alloc := fmupd a True (fl_freed_alloc st)\<rparr>)"

definition clearFreed :: "binding_id \<Rightarrow> counted \<Rightarrow> counted" where
  "clearFreed b = (\<lambda>(n, st).
     if \<not> holds (fl_tracked st) b then (n, st)
     else (case mintAllocationID n of (a, n) \<Rightarrow> (n, st\<lparr>fl_allocation := fmupd b a (fl_allocation st)\<rparr>)))"

section \<open>Streams and allocators\<close>

definition capabilityOf :: "flow_state \<Rightarrow> binding_id \<Rightarrow> 8 word" where
  "capabilityOf st b = ff_capability (fm_get zero_fact (fl_facts st) b)"

definition setCapability :: "binding_id \<Rightarrow> 8 word \<Rightarrow> flow_state \<Rightarrow> flow_state" where
  "setCapability b capability st =
     (if b = 0 then st
      else set_fact b ((fm_get zero_fact (fl_facts st) b)\<lparr>ff_capability := capability\<rparr>) st)"

definition setProvenance :: "binding_id \<Rightarrow> binding_id \<Rightarrow> flow_state \<Rightarrow> flow_state" where
  "setProvenance b source st =
     (if b = 0 then st
      else if source = 0 then st\<lparr>fl_provenance := fmdrop b (fl_provenance st)\<rparr>
      else st\<lparr>fl_provenance := fmupd b source (fl_provenance st)\<rparr>)"

definition releaseSource :: "binding_id \<Rightarrow> flow_state \<Rightarrow> flow_state" where
  "releaseSource b st =
     (if b = 0 then st else st\<lparr>fl_released_sources := fmupd b True (fl_released_sources st)\<rparr>)"

definition sourceReleased :: "flow_state \<Rightarrow> binding_id \<Rightarrow> bool" where
  "sourceReleased st b = holds (fl_released_sources st) b"

text \<open>The loop marks the identities of the bindings whose provenance is \<open>source\<close>.\<close>

definition invalidateAllocationsFrom :: "binding_id \<Rightarrow> flow_state \<Rightarrow> flow_state" where
  "invalidateAllocationsFrom source st =
     (if source = 0 then st
      else foldl (\<lambda>st derived. markFreed derived st) st
        (sorted_list_of_fset (fmdom (fmfilter (\<lambda>b. fmlookup (fl_provenance st) b = Some source) (fl_provenance st)))))"

definition hasLiveTrackedAllocation :: "flow_state \<Rightarrow> binding_id \<Rightarrow> bool" where
  "hasLiveTrackedAllocation st source \<longleftrightarrow>
     source \<noteq> 0
     \<and> \<not> fmpred (\<lambda>derived from. \<not> (from = source \<and> holds (fl_tracked st) derived \<and> \<not> freed st derived))
          (fl_provenance st)"

section \<open>String origins\<close>

definition stringOrigin :: "flow_state \<Rightarrow> binding_id \<Rightarrow> string_origin_set" where
  "stringOrigin st b = fm_get stringOriginOpaque (fl_string_origins st) b"

definition setStringOrigin :: "binding_id \<Rightarrow> string_origin_set \<Rightarrow> flow_state \<Rightarrow> flow_state" where
  "setStringOrigin b origins st = st\<lparr>fl_string_origins := fmupd b origins (fl_string_origins st)\<rparr>"

definition stringPlaceOrigin :: "flow_state \<Rightarrow> string_place \<Rightarrow> string_origin_set" where
  "stringPlaceOrigin st key = fm_get stringOriginOpaque (fl_string_places st) key"

definition setStringPlaceOrigin :: "string_place \<Rightarrow> string_origin_set \<Rightarrow> flow_state \<Rightarrow> flow_state" where
  "setStringPlaceOrigin key origins st = st\<lparr>fl_string_places := fmupd key origins (fl_string_places st)\<rparr>"

definition element_places :: "flow_state \<Rightarrow> binding_id \<Rightarrow> (string_place, string_origin_set) fmap" where
  "element_places st root = fmfilter (\<lambda>key. sp_root key = root \<and> sp_indexed key) (fl_string_places st)"

definition unionStringElements :: "flow_state \<Rightarrow> binding_id \<Rightarrow> string_origin_set" where
  "unionStringElements st root =
     (if element_places st root = fmempty then stringOriginOpaque
      else foldl (OR) 0 (sorted_list_of_fset (fmran (element_places st root))))"

definition joinStringElements :: "binding_id \<Rightarrow> string_origin_set \<Rightarrow> flow_state \<Rightarrow> flow_state" where
  "joinStringElements root origins st =
     st\<lparr>fl_string_places :=
       fmmap_keys (\<lambda>key recorded. if sp_root key = root \<and> sp_indexed key then recorded OR origins else recorded)
         (fl_string_places st)\<rparr>"

definition dropStringPlaces :: "binding_id \<Rightarrow> flow_state \<Rightarrow> flow_state" where
  "dropStringPlaces root st =
     st\<lparr>fl_string_places := fmfilter (\<lambda>key. sp_root key \<noteq> root) (fl_string_places st)\<rparr>"

section \<open>Escape\<close>

definition escape :: "binding_id \<Rightarrow> flow_state \<Rightarrow> flow_state" where
  "escape b st =
     (let st = set_fact b (zero_fact\<lparr>ff_escaped := True\<rparr>) (dropFreed b st);
          st = st\<lparr>fl_provenance :=
                 fmfilter (\<lambda>borrowed. \<not> (borrowed = b \<or> fmlookup (fl_provenance st) borrowed = Some b)) (fl_provenance st),
               fl_released_sources := fmdrop b (fl_released_sources st),
               fl_string_origins := fmdrop b (fl_string_origins st)\<rparr> in
      dropStringPlaces b st)"

end
