(* ===== verification/FlowJoin.thy ===== *)
theory FlowJoin
  imports FlowState
begin

text \<open>
  The joins of \<open>checker/flow.go\<close>: \<open>mergeBranches\<close>, one definition per loop, and \<open>adopt\<close>; and the places
  that drive the cleanup facts: declarations and assignments (\<open>declarations.go\<close>), releases
  (\<open>alloc.go\<close>) and the end of a conditional or a loop (\<open>control_flow.go\<close>). The call sites pass states that are
  present, so a branch is a state and the tests for a nil branch have no counterpart.
\<close>

section \<open>Merging\<close>

text \<open>The first loop, for one branch. \<open>compilerTypes.Equal\<close> on types that may be zero.\<close>

definition same_type :: "htype option \<Rightarrow> htype option \<Rightarrow> bool" where
  "same_type s t =
     (case (s, t) of (None, None) \<Rightarrow> True | (Some s, Some t) \<Rightarrow> Equal s t | _ \<Rightarrow> False)"

definition escaped_in :: "flow_state \<Rightarrow> binding_id \<Rightarrow> bool" where
  "escaped_in st b = ff_escaped (fm_get zero_fact (fl_facts st) b)"

definition branch_escapes :: "flow_state \<Rightarrow> binding_id list" where
  "branch_escapes branch = sorted_list_of_fset (fmdom (fmfilter (escaped_in branch) (fl_facts branch)))"

definition merge_facts :: "flow_state \<Rightarrow> flow_state \<Rightarrow> flow_state \<Rightarrow> flow_state" where
  "merge_facts parent st branch =
     (let st = foldl (\<lambda>st b. escape b st) st (branch_escapes branch) in
      st\<lparr>fl_facts := fmmap_keys (\<lambda>b current.
           case (fmlookup (fl_facts branch) b, fmlookup (fl_facts parent) b) of
             (Some f, Some parent_fact) \<Rightarrow>
               if \<not> ff_escaped f \<and> \<not> same_type (ff_type parent_fact) (ff_type f)
               then current\<lparr>ff_type := None\<rparr> else current
           | _ \<Rightarrow> current) (fl_facts st)\<rparr>)"

text \<open>Identity agreement: the identity a branch proves for a binding, and the one all branches agree on.\<close>

definition branch_allocation :: "binding_id \<Rightarrow> flow_state \<Rightarrow> allocation_id option" where
  "branch_allocation b branch =
     (if \<not> holds (fl_tracked branch) b then None
      else case fmlookup (fl_facts branch) b of
        None \<Rightarrow> None | Some f \<Rightarrow> if ff_escaped f then None else denoted branch b)"

definition common :: "('b \<Rightarrow> 'a option) \<Rightarrow> 'b list \<Rightarrow> 'a option" where
  "common f branches =
     (case branches of
        [] \<Rightarrow> None
      | b # bs \<Rightarrow> (case f b of None \<Rightarrow> None | Some a \<Rightarrow> if list_all (\<lambda>b. f b = Some a) bs then Some a else None))"

definition common_allocation :: "flow_state list \<Rightarrow> binding_id \<Rightarrow> allocation_id option" where
  "common_allocation branches b = common (branch_allocation b) branches"

definition merge_identities :: "flow_state \<Rightarrow> flow_state list \<Rightarrow> flow_state \<Rightarrow> flow_state" where
  "merge_identities parent branches st =
     (let kept = fmfilter (\<lambda>b. common_allocation branches b \<noteq> None) (fl_tracked parent);
          dropped = fmdom (fl_tracked parent) in
      st\<lparr>fl_tracked := fmdrop_fset dropped (fl_tracked st) ++\<^sub>f fmmap (\<lambda>_. True) kept,
         fl_allocation := fmdrop_fset dropped (fl_allocation st) ++\<^sub>f
           fmmap_keys (\<lambda>b _. case common_allocation branches b of None \<Rightarrow> 0 | Some a \<Rightarrow> a) kept\<rparr>)"

text \<open>Released identities: the intersection over the branches.\<close>

definition merged_freed :: "flow_state list \<Rightarrow> (allocation_id, bool) fmap" where
  "merged_freed branches =
     (case branches of
        [] \<Rightarrow> fmempty
      | first # rest \<Rightarrow>
          fmmap (\<lambda>_. True)
            (fmfilter (\<lambda>a. holds (fl_freed_alloc first) a \<and> list_all (\<lambda>branch. holds (fl_freed_alloc branch) a) rest)
              (fl_freed_alloc first)))"

text \<open>Stream facts. The bindings concerned are those with a capability or a borrow edge in some branch.\<close>

definition stream_ids :: "flow_state list \<Rightarrow> (binding_id, unit) fmap" where
  "stream_ids branches =
     foldl (\<lambda>ids branch.
         ids ++\<^sub>f fmmap (\<lambda>_. ()) (fmfilter (\<lambda>b. capabilityOf branch b \<noteq> 0) (fl_facts branch))
             ++\<^sub>f fmmap (\<lambda>_. ()) (fl_provenance branch)) fmempty branches"

definition merged_capability :: "flow_state list \<Rightarrow> binding_id \<Rightarrow> 8 word" where
  "merged_capability branches b =
     (if list_ex (\<lambda>branch. fmlookup (fl_facts branch) b = None \<or> escaped_in branch b) branches then 0
      else foldl (\<lambda>c branch. c AND capabilityOf branch b) StreamReadWrite branches)"

definition common_source :: "flow_state list \<Rightarrow> binding_id \<Rightarrow> binding_id option" where
  "common_source branches b = common (\<lambda>branch. fmlookup (fl_provenance branch) b) branches"

definition merge_streams :: "flow_state list \<Rightarrow> flow_state \<Rightarrow> flow_state" where
  "merge_streams branches st =
     (let ids = stream_ids branches;
          stream = (\<lambda>b. b |\<in>| fmdom ids);
          facts = fl_facts st ++\<^sub>f
            fmmap_keys (\<lambda>b _. (fm_get zero_fact (fl_facts st) b)\<lparr>ff_capability := merged_capability branches b\<rparr>) ids;
          sourced = fmfilter (\<lambda>b. common_source branches b \<noteq> None
                       \<and> \<not> ff_escaped (fm_get zero_fact facts b)) ids;
          released = fmfilter (\<lambda>b. list_all (\<lambda>branch. holds (fl_released_sources branch) b) branches) ids in
      st\<lparr>fl_facts := facts,
         fl_provenance := fmfilter (\<lambda>b. \<not> stream b) (fl_provenance st) ++\<^sub>f
           fmmap_keys (\<lambda>b _. case common_source branches b of None \<Rightarrow> 0 | Some s \<Rightarrow> s) sourced,
         fl_released_sources := fmfilter (\<lambda>b. \<not> stream b) (fl_released_sources st) ++\<^sub>f fmmap (\<lambda>_. True) released\<rparr>)"

text \<open>String origins: the union, on the keys of the parent.\<close>

definition merge_strings :: "flow_state \<Rightarrow> flow_state list \<Rightarrow> flow_state \<Rightarrow> flow_state" where
  "merge_strings parent branches st =
     st\<lparr>fl_string_origins :=
          fmmap_keys (\<lambda>b origins. foldl (\<lambda>m branch. m OR fm_get 0 (fl_string_origins branch) b) origins branches)
            (fmfilter (\<lambda>b. \<not> escaped_in st b) (fl_string_origins parent)),
        fl_string_places :=
          fmmap_keys (\<lambda>key origins. foldl (\<lambda>m branch. m OR fm_get 0 (fl_string_places branch) key) origins branches)
            (fmfilter (\<lambda>key. \<not> escaped_in st (sp_root key)) (fl_string_places parent))\<rparr>"

definition mergeBranches :: "flow_state \<Rightarrow> flow_state list \<Rightarrow> flow_state" where
  "mergeBranches parent branches =
     (if branches = [] then parent
      else
        (let st = foldl (merge_facts parent) parent branches;
             st = merge_identities parent branches st;
             st = st\<lparr>fl_freed_alloc := merged_freed branches\<rparr>;
             st = merge_streams branches st in
         merge_strings parent branches st))"

definition adopt :: "flow_state \<Rightarrow> flow_state \<Rightarrow> flow_state" where
  "adopt st branch =
     branch\<lparr>fl_tracked := fmmap (\<lambda>_. True) (fl_tracked branch),
            fl_released_sources := fmmap (\<lambda>_. True) (fl_released_sources branch)\<rparr>"

section \<open>The places that use them\<close>

text \<open>The end of \<open>checkIfStatement\<close> and of \<open>checkWhileStatement\<close> and \<open>checkForStatement\<close>.\<close>

definition join_continuing :: "flow_state \<Rightarrow> flow_state list \<Rightarrow> flow_state" where
  "join_continuing parent continuing =
     (case continuing of
        [] \<Rightarrow> parent
      | [st] \<Rightarrow> adopt parent st
      | _ \<Rightarrow> mergeBranches parent continuing)"

definition join_loop :: "flow_state \<Rightarrow> flow_state \<Rightarrow> flow_state" where
  "join_loop parent body = mergeBranches parent [parent, body]"

text \<open>A declaration or assignment of a binding that can be tracked; \<open>source\<close> is what \<open>directPointerBinding\<close> answers,
  zero when the value is not the plain name of a pointer.\<close>

definition declare_tracked :: "binding_id \<Rightarrow> binding_id \<Rightarrow> counted \<Rightarrow> counted" where
  "declare_tracked source b c =
     (case trackFreed b c of (n, st) \<Rightarrow> (n, if source \<noteq> 0 then aliasFreed source b st else st))"

definition assign_tracked :: "binding_id \<Rightarrow> binding_id \<Rightarrow> counted \<Rightarrow> counted" where
  "assign_tracked source b = (\<lambda>(n, st).
     let st = invalidateNarrowing b st in
     if source \<noteq> 0 then (n, aliasFreed source b st) else clearFreed b (n, st))"

text \<open>\<open>checkTrackedHeapFreeInState\<close> on a named binding and \<open>checkTrackedHeapFreeAlloc\<close>: whether it
  is a double free, and the state.\<close>

definition free_tracked :: "binding_id \<Rightarrow> flow_state \<Rightarrow> bool \<times> flow_state" where
  "free_tracked b st =
     (if b = 0 \<or> \<not> holds (fl_tracked st) b then (False, st)
      else if freed st b then (True, st)
      else (False, markFreed b st))"

definition free_captured :: "allocation_id \<Rightarrow> flow_state \<Rightarrow> bool \<times> flow_state" where
  "free_captured a st =
     (if a = 0 then (False, st)
      else if freedAllocReport st a then (True, st)
      else (False, markFreedAlloc a st))"

text \<open>\<open>borrowedSourceDiagnostic\<close>: a stream whose list is known to be released.\<close>

definition borrowed_source_released :: "flow_state \<Rightarrow> binding_id \<Rightarrow> bool" where
  "borrowed_source_released st b =
     (b \<noteq> 0 \<and> (let source = fm_get 0 (fl_provenance st) b in
       source \<noteq> 0 \<and> sourceReleased st source))"

end
