(* ===== verification/FlowLaws.thy ===== *)
theory FlowLaws
  imports FlowJoin
begin

text \<open>
  What the joins of the flow facts keep: escapes add up, identities and releases survive only where
  all branches agree. And the programs the facts are about: actions on bindings, what the checker does for
  each (\<open>check_actions\<close>), and how they change a memory in which a binding holds an object (\<open>executes\<close>).
\<close>

section \<open>Reading maps\<close>

lemma fm_get_simps [simp]:
  "fm_get z fmempty k = z"
  "fm_get z (fmupd k v m) k' = (if k = k' then v else fm_get z m k')"
  "fm_get z (fmdrop k m) k' = (if k = k' then z else fm_get z m k')"
  "fm_get z (fmfilter P m) k = (if P k then fm_get z m k else z)"
  "fm_get z (fmdrop_fset S m) k = (if k |\<in>| S then z else fm_get z m k)"
  by (simp_all add: fm_get_def)

lemma holds_iff: "holds m k \<longleftrightarrow> fmlookup m k = Some True"
  by (auto simp: fm_get_def split: option.splits)

lemma holds_map_True [simp]: "holds (fmmap (\<lambda>_. True) m) k \<longleftrightarrow> k |\<in>| fmdom m"
  by (auto simp: fm_get_def split: option.splits intro: fmdomI)

lemma trackedAllocation_Some:
  "trackedAllocation st b = Some a \<longleftrightarrow> holds (fl_tracked st) b \<and> fmlookup (fl_allocation st) b = Some a \<and> a \<noteq> 0"
  by (auto simp: trackedAllocation_def denoted_def split: option.splits if_splits)

lemma escaped_in_eq:
  "escaped_in st b \<longleftrightarrow> (case fmlookup (fl_facts st) b of None \<Rightarrow> False | Some f \<Rightarrow> ff_escaped f)"
  by (simp add: escaped_in_def fm_get_def zero_fact_def split: option.splits)

lemma common_Some: "common f branches = Some a \<longleftrightarrow> branches \<noteq> [] \<and> (\<forall>b\<in>set branches. f b = Some a)"
  by (cases branches) (auto simp: common_def list_all_iff split: option.splits)

section \<open>Joins\<close>

lemma escape_simps [simp]:
  "escaped_in (escape b st) b' \<longleftrightarrow> b = b' \<or> escaped_in st b'"
  "fl_tracked (escape b st) = fmdrop b (fl_tracked st)"
  "fl_allocation (escape b st) = fmdrop b (fl_allocation st)"
  "fl_freed_alloc (escape b st) = fl_freed_alloc st"
  by (auto simp: escape_def escaped_in_def set_fact_def dropFreed_def dropStringPlaces_def Let_def)

lemma escapes_fold:
  "escaped_in (foldl (\<lambda>st b. escape b st) st bs) b \<longleftrightarrow> b \<in> set bs \<or> escaped_in st b"
  "fmlookup (fl_allocation (foldl (\<lambda>st b. escape b st) st bs)) b
     = (if b \<in> set bs then None else fmlookup (fl_allocation st) b)"
  "fmlookup (fl_tracked (foldl (\<lambda>st b. escape b st) st bs)) b
     = (if b \<in> set bs then None else fmlookup (fl_tracked st) b)"
  by (induction bs arbitrary: st) auto

lemma branch_escapes_set [simp]: "b \<in> set (branch_escapes branch) \<longleftrightarrow> escaped_in branch b"
  by (auto simp: branch_escapes_def fmlookup_dom_iff escaped_in_def fm_get_def zero_fact_def split: option.splits if_splits)

lemma merge_facts_escaped [simp]:
  "escaped_in (merge_facts parent st branch) b \<longleftrightarrow> escaped_in branch b \<or> escaped_in st b"
proof -
  let ?st = "foldl (\<lambda>st b. escape b st) st (branch_escapes branch)"
  have "escaped_in (merge_facts parent st branch) b = escaped_in ?st b"
    by (auto simp: merge_facts_def escaped_in_eq Let_def split: option.splits)
  then show ?thesis by (simp add: escapes_fold)
qed

lemma merge_facts_allocation:
  "fmlookup (fl_allocation (merge_facts parent st branch)) b = Some a \<Longrightarrow> fmlookup (fl_allocation st) b = Some a"
  by (simp add: merge_facts_def escapes_fold Let_def split: if_splits)

lemma merge_facts_fold:
  "escaped_in (foldl (merge_facts parent) st branches) b \<longleftrightarrow> escaped_in st b \<or> (\<exists>br\<in>set branches. escaped_in br b)"
  "fmlookup (fl_allocation (foldl (merge_facts parent) st branches)) b = Some a
     \<Longrightarrow> fmlookup (fl_allocation st) b = Some a"
  by (induction branches arbitrary: st) (auto dest: merge_facts_allocation)

lemma merge_identities_simps [simp]:
  "fl_facts (merge_identities parent branches st) = fl_facts st"
  by (simp add: merge_identities_def Let_def)

lemma merge_streams_simps [simp]:
  "escaped_in (merge_streams branches st) b = escaped_in st b"
  "fl_tracked (merge_streams branches st) = fl_tracked st"
  "fl_allocation (merge_streams branches st) = fl_allocation st"
  "fl_freed_alloc (merge_streams branches st) = fl_freed_alloc st"
  by (auto simp: merge_streams_def Let_def escaped_in_eq fm_get_def zero_fact_def split: option.splits)

lemma merge_strings_simps [simp]:
  "escaped_in (merge_strings parent branches st) b = escaped_in st b"
  "fl_facts (merge_strings parent branches st) = fl_facts st"
  "fl_tracked (merge_strings parent branches st) = fl_tracked st"
  "fl_allocation (merge_strings parent branches st) = fl_allocation st"
  "fl_freed_alloc (merge_strings parent branches st) = fl_freed_alloc st"
  by (auto simp: merge_strings_def escaped_in_def)

lemma escaped_merge_identities [simp]:
  "escaped_in (merge_identities parent branches st) b = escaped_in st b"
  "escaped_in (st\<lparr>fl_freed_alloc := m\<rparr>) b = escaped_in st b"
  by (simp_all add: escaped_in_def)

lemma merge_escaped:
  "branches \<noteq> [] \<Longrightarrow>
     escaped_in (mergeBranches parent branches) b \<longleftrightarrow> escaped_in parent b \<or> (\<exists>br\<in>set branches. escaped_in br b)"
  by (simp add: mergeBranches_def merge_facts_fold Let_def)

lemma merge_freed:
  "branches \<noteq> [] \<Longrightarrow>
     holds (fl_freed_alloc (mergeBranches parent branches)) a \<longleftrightarrow> (\<forall>br\<in>set branches. holds (fl_freed_alloc br) a)"
  by (cases branches)
    (auto simp: mergeBranches_def Let_def merged_freed_def fmlookup_dom_iff list_all_iff holds_iff split: if_splits)

lemma branch_allocation_Some:
  "branch_allocation b br = Some a \<longleftrightarrow>
     trackedAllocation br b = Some a \<and> b |\<in>| fmdom (fl_facts br) \<and> \<not> escaped_in br b"
  by (auto simp: branch_allocation_def trackedAllocation_def escaped_in_eq fmlookup_dom_iff split: option.splits if_splits)

lemma common_allocation_Some:
  "common_allocation branches b = Some a \<longleftrightarrow>
     branches \<noteq> [] \<and> (\<forall>br\<in>set branches. trackedAllocation br b = Some a \<and> b |\<in>| fmdom (fl_facts br) \<and> \<not> escaped_in br b)"
  by (simp add: common_allocation_def common_Some branch_allocation_Some)

lemma common_allocation_nonzero: "common_allocation branches b = Some a \<Longrightarrow> a \<noteq> 0"
  by (cases branches) (auto simp: common_allocation_Some trackedAllocation_Some)

lemma foldl_facts_tracked:
  "fmlookup (fl_tracked (foldl (merge_facts parent) st branches)) b = Some x \<Longrightarrow> fmlookup (fl_tracked st) b = Some x"
proof (induction branches arbitrary: st)
  case (Cons br branches)
  then have "fmlookup (fl_tracked (merge_facts parent st br)) b = Some x" by simp
  then show ?case by (simp add: merge_facts_def Let_def escapes_fold split: if_splits)
qed simp

lemma merge_tracked:
  assumes "branches \<noteq> []"
  shows "fmlookup (fl_tracked (mergeBranches parent branches)) b =
    (if b |\<in>| fmdom (fl_tracked parent) \<and> common_allocation branches b \<noteq> None then Some True else None)"
proof -
  have "b |\<in>| fmdom (fl_tracked parent)"
    if "fmlookup (fl_tracked (foldl (merge_facts parent) parent branches)) b = Some x" for x
    using foldl_facts_tracked [OF that] by (rule fmdomI)
  then show ?thesis
    using assms by (cases "fmlookup (fl_tracked (foldl (merge_facts parent) parent branches)) b")
      (auto simp: mergeBranches_def Let_def merge_identities_def fmlookup_dom_iff split: option.splits)
qed

lemma merge_allocation:
  assumes "branches \<noteq> []" "fmlookup (fl_allocation (mergeBranches parent branches)) b = Some a"
  shows "(b |\<in>| fmdom (fl_tracked parent) \<and> common_allocation branches b = Some a)
    \<or> (b |\<notin>| fmdom (fl_tracked parent) \<and> fmlookup (fl_allocation parent) b = Some a)"
  using assms merge_facts_fold(2) [of parent parent branches b a]
  by (auto simp: mergeBranches_def Let_def merge_identities_def fmlookup_dom_iff split: if_splits option.splits)

lemma merge_identity:
  assumes "branches \<noteq> []"
  shows "trackedAllocation (mergeBranches parent branches) b = Some a \<longleftrightarrow>
    b |\<in>| fmdom (fl_tracked parent) \<and> common_allocation branches b = Some a"
proof (cases "b |\<in>| fmdom (fl_tracked parent) \<and> common_allocation branches b \<noteq> None")
  case True
  then obtain a' where a': "common_allocation branches b = Some a'" by blast
  then have "fmlookup (fl_allocation (mergeBranches parent branches)) b = Some a'"
    using assms True by (auto simp: mergeBranches_def Let_def merge_identities_def fmlookup_dom_iff)
  then show ?thesis
    using True a' common_allocation_nonzero [OF a'] assms by (auto simp: trackedAllocation_Some holds_iff merge_tracked)
next
  case False
  then show ?thesis using assms by (auto simp: trackedAllocation_Some holds_iff merge_tracked)
qed

text \<open>The stream facts of a binding no branch lets escape, before and after the stream loop.\<close>

lemma stream_ids_fold:
  "b |\<in>| fmdom (foldl (\<lambda>ids branch.
        ids ++\<^sub>f fmmap (\<lambda>_. ()) (fmfilter (\<lambda>b. capabilityOf branch b \<noteq> 0) (fl_facts branch))
            ++\<^sub>f fmmap (\<lambda>_. ()) (fl_provenance branch)) ids branches)
   \<Longrightarrow> b |\<in>| fmdom ids \<or> (\<exists>br\<in>set branches. capabilityOf br b \<noteq> 0 \<or> fmlookup (fl_provenance br) b \<noteq> None)"
  by (induction branches arbitrary: ids) (fastforce simp: fmlookup_dom_iff split: if_splits)+

lemma stream_ids_member:
  "b |\<in>| fmdom (stream_ids branches) \<Longrightarrow>
     \<exists>br\<in>set branches. capabilityOf br b \<noteq> 0 \<or> fmlookup (fl_provenance br) b \<noteq> None"
  unfolding stream_ids_def by (drule stream_ids_fold) simp

lemma escapes_fold_stream:
  "b \<notin> set bs \<Longrightarrow> fmlookup (fl_facts (foldl (\<lambda>st b. escape b st) st bs)) b = fmlookup (fl_facts st) b"
  "b \<notin> set bs \<Longrightarrow>
     fmlookup (fl_released_sources (foldl (\<lambda>st b. escape b st) st bs)) b = fmlookup (fl_released_sources st) b"
  "b \<notin> set bs \<Longrightarrow> s \<notin> set bs \<Longrightarrow> fmlookup (fl_provenance st) b = Some s \<Longrightarrow>
     fmlookup (fl_provenance (foldl (\<lambda>st b. escape b st) st bs)) b = Some s"
  by (induction bs arbitrary: st)
    (auto simp: escape_def set_fact_def dropFreed_def dropStringPlaces_def Let_def)

lemma merge_facts_stream:
  assumes "\<not> escaped_in br b"
  shows "capabilityOf (merge_facts parent st br) b = capabilityOf st b"
    "sourceReleased (merge_facts parent st br) b = sourceReleased st b"
    "\<not> escaped_in br s \<Longrightarrow> fmlookup (fl_provenance st) b = Some s \<Longrightarrow>
       fmlookup (fl_provenance (merge_facts parent st br)) b = Some s"
  using assms
  by (auto simp: merge_facts_def Let_def capabilityOf_def sourceReleased_def fm_get_def escapes_fold_stream
      split: option.splits)

lemma merge_facts_fold_stream:
  assumes "\<forall>br\<in>set branches. \<not> escaped_in br b"
  shows "capabilityOf (foldl (merge_facts parent) st branches) b = capabilityOf st b"
    "sourceReleased (foldl (merge_facts parent) st branches) b = sourceReleased st b"
    "\<forall>br\<in>set branches. \<not> escaped_in br s \<Longrightarrow> fmlookup (fl_provenance st) b = Some s \<Longrightarrow>
       fmlookup (fl_provenance (foldl (merge_facts parent) st branches)) b = Some s"
  using assms by (induction branches arbitrary: st) (auto simp: merge_facts_stream)

lemma merge_streams_other:
  assumes "b |\<notin>| fmdom (stream_ids branches)"
  shows "capabilityOf (merge_streams branches st) b = capabilityOf st b"
    "sourceReleased (merge_streams branches st) b = sourceReleased st b"
    "fmlookup (fl_provenance (merge_streams branches st)) b = fmlookup (fl_provenance st) b"
  using assms
  by (auto simp: merge_streams_def Let_def capabilityOf_def sourceReleased_def fm_get_def fmlookup_dom_iff
      split: option.splits)

lemma merge_stream_facts:
  assumes "branches \<noteq> []" "b |\<notin>| fmdom (stream_ids branches)" "\<forall>br\<in>set branches. \<not> escaped_in br b"
  shows "capabilityOf (mergeBranches parent branches) b = capabilityOf parent b"
    "sourceReleased (mergeBranches parent branches) b = sourceReleased parent b"
    "\<forall>br\<in>set branches. \<not> escaped_in br s \<Longrightarrow> fmlookup (fl_provenance parent) b = Some s \<Longrightarrow>
       fmlookup (fl_provenance (mergeBranches parent branches)) b = Some s"
proof -
  let ?st = "(merge_identities parent branches (foldl (merge_facts parent) parent branches))
      \<lparr>fl_freed_alloc := merged_freed branches\<rparr>"
  have "capabilityOf (mergeBranches parent branches) b = capabilityOf (merge_streams branches ?st) b"
    "sourceReleased (mergeBranches parent branches) b = sourceReleased (merge_streams branches ?st) b"
    "fmlookup (fl_provenance (mergeBranches parent branches)) b = fmlookup (fl_provenance (merge_streams branches ?st)) b"
    using assms(1) by (simp_all add: mergeBranches_def Let_def merge_strings_def capabilityOf_def sourceReleased_def)
  moreover have "capabilityOf ?st b = capabilityOf (foldl (merge_facts parent) parent branches) b"
    "sourceReleased ?st b = sourceReleased (foldl (merge_facts parent) parent branches) b"
    "fl_provenance ?st = fl_provenance (foldl (merge_facts parent) parent branches)"
    by (simp_all add: merge_identities_def Let_def capabilityOf_def sourceReleased_def)
  ultimately show "capabilityOf (mergeBranches parent branches) b = capabilityOf parent b"
    "sourceReleased (mergeBranches parent branches) b = sourceReleased parent b"
    "\<forall>br\<in>set branches. \<not> escaped_in br s \<Longrightarrow> fmlookup (fl_provenance parent) b = Some s \<Longrightarrow>
       fmlookup (fl_provenance (mergeBranches parent branches)) b = Some s"
    using merge_streams_other [OF assms(2), of ?st] merge_facts_fold_stream [OF assms(3)] by simp_all
qed

lemma adopt_simps [simp]:
  "fl_facts (adopt st br) = fl_facts br" "fl_allocation (adopt st br) = fl_allocation br"
  "fl_freed_alloc (adopt st br) = fl_freed_alloc br" "escaped_in (adopt st br) b = escaped_in br b"
  "fmdom (fl_tracked (adopt st br)) = fmdom (fl_tracked br)"
  by (simp_all add: adopt_def escaped_in_def)

end
