(* ===== verification/FlowSoundness.thy ===== *)
theory FlowSoundness
  imports FlowLaws ControlFlow
begin

text \<open>
  The must-released analysis against an abstract specification. A program is a list of actions on
  bindings; \<open>check_actions\<close> runs the operations the checker runs for each, and \<open>executes\<close> says how an
  action changes a memory, in which every binding holds an object, some objects are released, and an escaped
  binding may be written at any time; and how the action ends: by break, continue or return, or at its
  end. What a state says of a memory is \<open>describes\<close>: the bindings of one identity hold
  one object, and a released identity is a released object.
\<close>

section \<open>Programs\<close>

datatype flow_action =
    Declares binding_id
  | DeclaresCopy binding_id binding_id
  | Assigns binding_id
  | AssignsCopy binding_id binding_id
  | Releases binding_id
  | Escapes binding_id
  | WritesThrough binding_id
  | Uses binding_id
  | Chooses "flow_action list list"
  | Repeats "flow_action list"
  | Stops path_exit

text \<open>\<open>Chooses\<close> is \<open>checkIfStatement\<close>, a missing else an empty branch; \<open>Repeats\<close> is
  \<open>checkWhileStatement\<close> and \<open>checkForStatement\<close>; \<open>Stops\<close> is a break, a continue or a return. Conditions
  do nothing and are not decided. \<open>sequenceTerminates\<close> on actions:\<close>

fun terminates_action :: "flow_action \<Rightarrow> bool"
  and terminates_actions :: "flow_action list \<Rightarrow> bool" where
  "terminates_action (Stops exit) \<longleftrightarrow> exit \<noteq> Ends"
| "terminates_action (Chooses branches) \<longleftrightarrow> (\<forall>branch\<in>set branches. terminates_actions branch)"
| "terminates_action a \<longleftrightarrow> False"
| "terminates_actions [] \<longleftrightarrow> False"
| "terminates_actions (a # acts) \<longleftrightarrow> terminates_action a \<or> terminates_actions acts"

text \<open>What the checker does: a copy names its source first. Every branch of a conditional starts from
  the state before it, and the counter runs on through the branches. \<open>check_branches\<close> answers the states of
  \<open>continuing\<close>: a branch that terminates, or in which a use or a release of a released binding is reported, is
  checked, but its state is not joined. After a loop the state before it is joined with the state at the end of the
  body, unless something is reported in the body, and with no other. The first component of an answer says
  whether something is reported.\<close>

fun check_action :: "flow_action \<Rightarrow> counted \<Rightarrow> bool \<times> counted"
  and check_actions :: "flow_action list \<Rightarrow> counted \<Rightarrow> bool \<times> counted"
  and check_branches :: "flow_action list list \<Rightarrow> counted \<Rightarrow> bool \<times> allocation_id \<times> flow_state list" where
  "check_action (Declares b) c = (False, declare_tracked 0 b c)"
| "check_action (DeclaresCopy source b) c = (False, declare_tracked source b c)"
| "check_action (Assigns b) c = (False, assign_tracked 0 b c)"
| "check_action (AssignsCopy source b) c = (False, assign_tracked source b c)"
| "check_action (Releases b) c = (fst (free_tracked b (snd c)), fst c, snd (free_tracked b (snd c)))"
| "check_action (Escapes b) c = (False, fst c, escape b (snd c))"
| "check_action (WritesThrough b) c = (False, c)"
| "check_action (Uses b) c = (freed (snd c) b, c)"
| "check_action (Chooses branches) c =
     (case check_branches branches c of (r, n, states) \<Rightarrow> (r, n, join_continuing (snd c) states))"
| "check_action (Repeats body) c =
     (case check_actions body c of (r, n, st) \<Rightarrow> (r, n, if r then snd c else join_loop (snd c) st))"
| "check_action (Stops exit) c = (False, c)"
| "check_actions [] c = (False, c)"
| "check_actions (a # acts) c =
     (case check_action a c of (r, c) \<Rightarrow> (case check_actions acts c of (r', c) \<Rightarrow> (r \<or> r', c)))"
| "check_branches [] c = (False, fst c, [])"
| "check_branches (branch # branches) c =
     (case check_actions branch c of (r, n, st) \<Rightarrow>
      (case check_branches branches (n, snd c) of (r', n, states) \<Rightarrow>
         (r \<or> r', n, if r \<or> terminates_actions branch then states else st # states)))"

text \<open>The state after an action, and after a list of them.\<close>

abbreviation after :: "flow_action \<Rightarrow> counted \<Rightarrow> counted" where
  "after a c \<equiv> snd (check_action a c)"

abbreviation after_all :: "flow_action list \<Rightarrow> counted \<Rightarrow> counted" where
  "after_all acts c \<equiv> snd (check_actions acts c)"

lemma check_compound [simp]:
  "fst (check_action (Chooses branches) c) \<longleftrightarrow> fst (check_branches branches c)"
  "after (Chooses branches) c =
     (fst (snd (check_branches branches c)), join_continuing (snd c) (snd (snd (check_branches branches c))))"
  "fst (check_action (Repeats body) c) \<longleftrightarrow> fst (check_actions body c)"
  "after (Repeats body) c =
     (fst (after_all body c), if fst (check_actions body c) then snd c else join_loop (snd c) (snd (after_all body c)))"
  "fst (check_actions (a # acts) c) \<longleftrightarrow> fst (check_action a c) \<or> fst (check_actions acts (after a c))"
  "after_all (a # acts) c = after_all acts (after a c)"
  "fst (check_branches (branch # branches) c) \<longleftrightarrow>
     fst (check_actions branch c) \<or> fst (check_branches branches (fst (after_all branch c), snd c))"
  "snd (check_branches (branch # branches) c) =
     (case check_branches branches (fst (after_all branch c), snd c) of (r, n, states) \<Rightarrow>
       (n, if fst (check_actions branch c) \<or> terminates_actions branch then states
           else snd (after_all branch c) # states))"
  by (simp_all split: prod.splits)

declare check_action.simps(9,10) [simp del] check_actions.simps(2) [simp del] check_branches.simps(2) [simp del]

record 'o memory =
  mem_store :: "binding_id \<Rightarrow> 'o"
  mem_dead :: "'o set"
  mem_escaped :: "binding_id set"

definition put :: "binding_id \<Rightarrow> 'o \<Rightarrow> 'o memory \<Rightarrow> 'o memory" where
  "put b x m = m\<lparr>mem_store := (mem_store m)(b := x)\<rparr>"

text \<open>A loop repeats its body while the body ends or continues; a break ends the loop, a return leaves it.\<close>

inductive executes :: "flow_action \<Rightarrow> 'o memory \<Rightarrow> 'o memory \<Rightarrow> path_exit \<Rightarrow> bool"
  and executes_all :: "flow_action list \<Rightarrow> 'o memory \<Rightarrow> 'o memory \<Rightarrow> path_exit \<Rightarrow> bool" where
  declares: "executes (Declares b) m (put b x m) Ends"
| declares_copy: "executes (DeclaresCopy source b) m (put b (mem_store m source) m) Ends"
| assigns: "executes (Assigns b) m (put b x m) Ends"
| assigns_copy: "executes (AssignsCopy source b) m (put b (mem_store m source) m) Ends"
| releases: "executes (Releases b) m (m\<lparr>mem_dead := insert (mem_store m b) (mem_dead m)\<rparr>) Ends"
| escapes: "executes (Escapes b) m (m\<lparr>mem_escaped := insert b (mem_escaped m)\<rparr>) Ends"
| writes_through: "b \<in> mem_escaped m \<Longrightarrow> executes (WritesThrough b) m (put b x m) Ends"
| chooses: "branch \<in> set branches \<Longrightarrow> executes_all branch m m' e \<Longrightarrow> executes (Chooses branches) m m' e"
| uses: "executes (Uses b) m m Ends"
| stops: "executes (Stops e) m m e"
| repeats_done: "executes (Repeats body) m m Ends"
| repeats_again: "executes_all body m m' e \<Longrightarrow> e = Ends \<or> e = Continues \<Longrightarrow> executes (Repeats body) m' m'' e'
    \<Longrightarrow> executes (Repeats body) m m'' e'"
| repeats_break: "executes_all body m m' Breaks \<Longrightarrow> executes (Repeats body) m m' Ends"
| repeats_leave: "executes_all body m m' Leaves \<Longrightarrow> executes (Repeats body) m m' Leaves"
| executes_Nil: "executes_all [] m m Ends"
| executes_Cons: "executes a m m' Ends \<Longrightarrow> executes_all acts m' m'' e \<Longrightarrow> executes_all (a # acts) m m'' e"
| executes_cut: "executes a m m' e \<Longrightarrow> e \<noteq> Ends \<Longrightarrow> executes_all (a # acts) m m' e"

lemma terminates_not_end:
  "executes a m m' e \<Longrightarrow> e = Ends \<Longrightarrow> \<not> terminates_action a"
  "executes_all acts m m' e \<Longrightarrow> e = Ends \<Longrightarrow> \<not> terminates_actions acts"
  by (induction rule: executes_executes_all.inducts) auto

text \<open>The bindings an action may change, and those it may let escape.\<close>

fun changed :: "flow_action \<Rightarrow> binding_id list" where
  "changed (Declares b) = [b]"
| "changed (DeclaresCopy source b) = [b]"
| "changed (Assigns b) = [b]"
| "changed (AssignsCopy source b) = [b]"
| "changed (WritesThrough b) = [b]"
| "changed (Chooses branches) = concat (map (\<lambda>branch. concat (map changed branch)) branches)"
| "changed (Repeats body) = concat (map changed body)"
| "changed _ = []"

fun escaping :: "flow_action \<Rightarrow> binding_id list" where
  "escaping (Escapes b) = [b]"
| "escaping (Chooses branches) = concat (map (\<lambda>branch. concat (map escaping branch)) branches)"
| "escaping (Repeats body) = concat (map escaping body)"
| "escaping _ = []"

text \<open>The programs the analysis is right about: a declaration introduces its binding; a copy is made from a
  tracked binding to one that has not escaped, or concerns untracked bindings only; a loop changes no binding
  that is tracked after it and lets none escape that has not escaped after it, also on a path that
  breaks. A branch that terminates may hold any actions.\<close>

fun decided_action :: "flow_action \<Rightarrow> counted \<Rightarrow> bool"
  and decided_actions :: "flow_action list \<Rightarrow> counted \<Rightarrow> bool"
  and decided_branches :: "flow_action list list \<Rightarrow> counted \<Rightarrow> bool" where
  "decided_action (Declares b) c \<longleftrightarrow> b \<noteq> 0 \<and> \<not> holds (fl_tracked (snd c)) b \<and> \<not> escaped_in (snd c) b"
| "decided_action (DeclaresCopy source b) c \<longleftrightarrow>
     b \<noteq> 0 \<and> source \<noteq> b \<and> \<not> holds (fl_tracked (snd c)) b \<and> \<not> escaped_in (snd c) b"
| "decided_action (AssignsCopy source b) c \<longleftrightarrow>
     source \<noteq> 0 \<and> b \<noteq> 0
     \<and> (case trackedAllocation (snd c) source of
          None \<Rightarrow> \<not> holds (fl_tracked (snd c)) b | Some a \<Rightarrow> \<not> escaped_in (snd c) b)"
| "decided_action (Chooses branches) c \<longleftrightarrow> decided_branches branches c"
| "decided_action (Repeats body) c \<longleftrightarrow>
     list_all (\<lambda>b. \<not> holds (fl_tracked (snd (after (Repeats body) c))) b) (concat (map changed body))
     \<and> list_all (escaped_in (snd (after (Repeats body) c))) (concat (map escaping body))"
| "decided_action a c \<longleftrightarrow> True"
| "decided_actions [] c \<longleftrightarrow> True"
| "decided_actions (a # acts) c \<longleftrightarrow> decided_action a c \<and> decided_actions acts (after a c)"
| "decided_branches [] c \<longleftrightarrow> True"
| "decided_branches (branch # branches) c \<longleftrightarrow>
     (terminates_actions branch \<or> decided_actions branch c)
     \<and> decided_branches branches (fst (after_all branch c), snd c)"

section \<open>What a state says\<close>

definition describes :: "flow_state \<Rightarrow> (allocation_id \<Rightarrow> 'o) \<Rightarrow> 'o memory \<Rightarrow> bool" where
  "describes st obj m \<longleftrightarrow>
     (\<forall>b a. trackedAllocation st b = Some a \<longrightarrow> obj a = mem_store m b)
     \<and> (\<forall>a. holds (fl_freed_alloc st) a \<longrightarrow> obj a \<in> mem_dead m)
     \<and> (\<forall>b\<in>mem_escaped m. escaped_in st b)
     \<and> (\<forall>b. escaped_in st b \<longrightarrow> b |\<notin>| fmdom (fl_tracked st))
     \<and> (\<forall>b. fmlookup (fl_tracked st) b \<noteq> Some False)"

text \<open>Every identity in use has been minted.\<close>

definition minted :: "counted \<Rightarrow> bool" where
  "minted c \<longleftrightarrow>
     (\<forall>b a. fmlookup (fl_allocation (snd c)) b = Some a \<longrightarrow> a \<le> fst c)
     \<and> (\<forall>a. holds (fl_freed_alloc (snd c)) a \<longrightarrow> a \<le> fst c)"

text \<open>One step of the simulation: the memory after an execution is described by the state after
  the check, under an assignment of objects that agrees on the identities minted before.\<close>

definition simulates :: "counted \<Rightarrow> (allocation_id \<Rightarrow> 'o) \<Rightarrow> counted \<Rightarrow> 'o memory \<Rightarrow> bool" where
  "simulates c obj c' m' \<longleftrightarrow>
     fst c \<le> fst c' \<and> minted c'
     \<and> (\<exists>obj'. (\<forall>a\<le>fst c. obj' a = obj a) \<and> describes (snd c') obj' m')"

lemma simulatesI:
  "fst c \<le> fst c' \<Longrightarrow> minted c' \<Longrightarrow> (\<And>a. a \<le> fst c \<Longrightarrow> obj' a = obj a) \<Longrightarrow> describes (snd c') obj' m'
    \<Longrightarrow> simulates c obj c' m'"
  by (auto simp: simulates_def)

lemma trackedAllocation_minted: "minted c \<Longrightarrow> trackedAllocation (snd c) b = Some a \<Longrightarrow> a \<le> fst c"
  by (auto simp: minted_def trackedAllocation_Some)

section \<open>Steps\<close>

lemma invalidateNarrowing_simps [simp]:
  "fl_tracked (invalidateNarrowing b st) = fl_tracked st"
  "fl_allocation (invalidateNarrowing b st) = fl_allocation st"
  "fl_freed_alloc (invalidateNarrowing b st) = fl_freed_alloc st"
  "trackedAllocation (invalidateNarrowing b st) b' = trackedAllocation st b'"
  "escaped_in (invalidateNarrowing b st) b' = escaped_in st b'"
  by (auto simp: invalidateNarrowing_def set_fact_def escaped_in_eq trackedAllocation_def denoted_def split: option.splits)

lemma describes_put_fresh:
  assumes "describes st obj m" "minted (n, st)" "holds (fl_tracked st) b"
  shows "describes (st\<lparr>fl_allocation := fmupd b (Suc n) (fl_allocation st)\<rparr>) (obj(Suc n := x)) (put b x m)"
  using assms
  by (auto simp: describes_def put_def trackedAllocation_Some minted_def escaped_in_def) force+

lemma describes_put_untracked:
  assumes "describes st obj m" "\<not> holds (fl_tracked st) b"
  shows "describes st obj (put b x m)"
  using assms by (auto simp: describes_def put_def trackedAllocation_Some)

lemma describes_put_alias:
  assumes "describes st obj m" "trackedAllocation st source = Some a" "\<not> escaped_in st b"
  shows "describes (st\<lparr>fl_tracked := fmupd b True (fl_tracked st), fl_allocation := fmupd b a (fl_allocation st)\<rparr>)
    obj (put b (mem_store m source) m)"
  using assms by (auto simp: describes_def put_def trackedAllocation_Some escaped_in_def)

lemma trackFreed_describes:
  assumes "describes st obj m" "minted (n, st)" "b \<noteq> 0" "\<not> holds (fl_tracked st) b" "\<not> escaped_in st b"
  obtains st' where "trackFreed b (n, st) = (Suc n, st')" "describes st' (obj(Suc n := x)) (put b x m)"
    "minted (Suc n, st')" "\<not> escaped_in st' b"
    "\<And>source. source \<noteq> b \<Longrightarrow> trackedAllocation st' source = trackedAllocation st source"
    "trackedAllocation st' b = Some (Suc n)"
proof
  let ?st = "st\<lparr>fl_tracked := fmupd b True (fl_tracked st), fl_allocation := fmupd b (Suc n) (fl_allocation st),
      fl_facts := (case fmlookup (fl_facts st) b of None \<Rightarrow> fmupd b zero_fact (fl_facts st) | Some _ \<Rightarrow> fl_facts st)\<rparr>"
  have escaped: "escaped_in ?st b' = escaped_in st b'" for b'
    by (auto simp: escaped_in_eq zero_fact_def split: option.splits)
  show "trackFreed b (n, st) = (Suc n, ?st)"
    using assms(3,4) by (simp add: trackFreed_def mintAllocationID_def)
  show "describes ?st (obj(Suc n := x)) (put b x m)"
    using assms unfolding describes_def escaped
    by (auto simp: put_def trackedAllocation_Some minted_def) force+
  show "minted (Suc n, ?st)" using assms(2) by (auto simp: minted_def le_Suc_eq)
  show "\<not> escaped_in ?st b" using assms(5) escaped by simp
  show "trackedAllocation ?st source = trackedAllocation st source" if "source \<noteq> b" for source
    using that by (simp add: trackedAllocation_def denoted_def)
  show "trackedAllocation ?st b = Some (Suc n)" by (simp add: trackedAllocation_def denoted_def)
qed

lemma declare_simulates:
  assumes "describes st obj m" "minted (n, st)" "b \<noteq> 0" "\<not> holds (fl_tracked st) b" "\<not> escaped_in st b" "source \<noteq> b"
    and x: "source \<noteq> 0 \<Longrightarrow> x = mem_store m source"
  shows "simulates (n, st) obj (declare_tracked source b (n, st)) (put b x m)"
proof -
  obtain st' where st': "trackFreed b (n, st) = (Suc n, st')" "describes st' (obj(Suc n := x)) (put b x m)"
    "minted (Suc n, st')" "\<not> escaped_in st' b"
    and other: "\<And>source. source \<noteq> b \<Longrightarrow> trackedAllocation st' source = trackedAllocation st source"
    by (rule trackFreed_describes [OF assms(1-5)]) blast
  show ?thesis
  proof (cases "source = 0 \<or> trackedAllocation st source = None")
    case True
    then have "declare_tracked source b (n, st) = (Suc n, st')"
      using st'(1) other [OF assms(6)] by (auto simp: declare_tracked_def aliasFreed_def)
    then show ?thesis using st' by (auto intro!: simulatesI [where obj' = "obj(Suc n := x)"])
  next
    case False
    then obtain a where a: "trackedAllocation st source = Some a" "source \<noteq> 0" by blast
    let ?st = "st'\<lparr>fl_tracked := fmupd b True (fl_tracked st'), fl_allocation := fmupd b a (fl_allocation st')\<rparr>"
    have eq: "declare_tracked source b (n, st) = (Suc n, ?st)"
      using st'(1) other [OF assms(6)] a assms(3) by (simp add: declare_tracked_def aliasFreed_def)
    have "mem_store (put b x m) source = x" using x a assms(6) by (simp add: put_def)
    then have "describes ?st (obj(Suc n := x)) (put b x (put b x m))"
      using describes_put_alias [OF st'(2) _ st'(4), of source a] other [OF assms(6)] a by simp
    moreover have "a \<le> n" using trackedAllocation_minted [OF assms(2)] a by simp
    then have "minted (Suc n, ?st)" using st'(3) by (auto simp: minted_def)
    ultimately show ?thesis unfolding eq by (auto intro!: simulatesI [where obj' = "obj(Suc n := x)"] simp: put_def)
  qed
qed

lemma assign_simulates:
  assumes "describes st obj m" "minted (n, st)"
  shows "simulates (n, st) obj (assign_tracked 0 b (n, st)) (put b x m)"
proof -
  have st: "describes (invalidateNarrowing b st) obj m" "minted (n, invalidateNarrowing b st)"
    using assms by (simp_all add: describes_def minted_def)
  show ?thesis
  proof (cases "holds (fl_tracked st) b")
    case True
    then show ?thesis
      using describes_put_fresh [OF st, of b x] st(2)
      by (intro simulatesI [where obj' = "obj(Suc n := x)"])
        (auto simp: assign_tracked_def clearFreed_def mintAllocationID_def minted_def le_Suc_eq)
  next
    case False
    then show ?thesis
      using describes_put_untracked [OF st(1), of b x] st(2)
      by (intro simulatesI [where obj' = obj]) (auto simp: assign_tracked_def clearFreed_def)
  qed
qed

lemma assign_copy_simulates:
  assumes "describes st obj m" "minted (n, st)" "decided_action (AssignsCopy source b) (n, st)"
  shows "simulates (n, st) obj (assign_tracked source b (n, st)) (put b (mem_store m source) m)"
proof -
  let ?st = "invalidateNarrowing b st"
  have st: "describes ?st obj m" "minted (n, ?st)"
    using assms by (simp_all add: describes_def minted_def)
  show ?thesis
  proof (cases "trackedAllocation st source")
    case None
    then show ?thesis
      using describes_put_untracked [OF st(1), of b] st(2) assms(3)
      by (intro simulatesI [where obj' = obj]) (auto simp: assign_tracked_def aliasFreed_def)
  next
    case (Some a)
    have "a \<le> n" using trackedAllocation_minted [OF assms(2)] Some by simp
    then show ?thesis
      using describes_put_alias [OF st(1), of source a b] st(2) assms(3) Some
      by (intro simulatesI [where obj' = obj]) (auto simp: assign_tracked_def aliasFreed_def minted_def)
  qed
qed

lemma release_simulates:
  assumes "describes st obj m" "minted (n, st)"
  shows "simulates (n, st) obj (n, snd (free_tracked b st)) (m\<lparr>mem_dead := insert (mem_store m b) (mem_dead m)\<rparr>)"
proof (rule simulatesI)
  show "describes (snd (n, snd (free_tracked b st))) obj (m\<lparr>mem_dead := insert (mem_store m b) (mem_dead m)\<rparr>)"
    using assms(1)
    by (auto simp: describes_def free_tracked_def markFreed_def trackedAllocation_def denoted_def escaped_in_def
        split: option.splits if_splits)
  show "minted (n, snd (free_tracked b st))"
    using assms(2)
    by (auto simp: minted_def free_tracked_def markFreed_def trackedAllocation_Some split: option.splits)
qed simp_all

lemma escape_simulates:
  assumes "describes st obj m" "minted (n, st)"
  shows "simulates (n, st) obj (n, escape b st) (m\<lparr>mem_escaped := insert b (mem_escaped m)\<rparr>)"
  using assms
  by (intro simulatesI [where obj' = obj]) (auto simp: describes_def minted_def trackedAllocation_Some split: if_splits)

section \<open>Composition\<close>

lemma declare_counter: "fst c \<le> fst (declare_tracked source b c)"
  by (cases c) (auto simp: declare_tracked_def trackFreed_def mintAllocationID_def)

lemma assign_counter: "fst c \<le> fst (assign_tracked source b c)"
  by (cases c) (auto simp: assign_tracked_def clearFreed_def mintAllocationID_def Let_def)

lemma check_counter:
  "fst c \<le> fst (after a c)"
  "fst c \<le> fst (after_all acts c)"
  "fst c \<le> fst (snd (check_branches branches c))"
proof (induction a c and acts c and branches c rule: check_action_check_actions_check_branches.induct)
  case (13 a acts c)
  then show ?case by (cases "check_action a c") (auto intro: order_trans)
next
  case (15 branch branches c)
  then show ?case by (cases "check_actions branch c") (fastforce split: prod.splits intro: order_trans)
qed (auto simp: declare_counter assign_counter)

lemma trackFreed_escaped [simp]: "escaped_in (snd (trackFreed b c)) b' = escaped_in (snd c) b'"
  by (cases c) (auto simp: trackFreed_def mintAllocationID_def escaped_in_eq zero_fact_def split: option.splits)

lemma aliasFreed_escaped [simp]: "escaped_in (aliasFreed source b st) b' = escaped_in st b'"
  by (simp add: aliasFreed_def escaped_in_def split: option.splits)

lemma declare_escaped [simp]: "escaped_in (snd (declare_tracked source b c)) b' = escaped_in (snd c) b'"
proof -
  obtain n st where c: "trackFreed b c = (n, st)" by fastforce
  then show ?thesis using trackFreed_escaped [of b c b', unfolded c] by (simp add: declare_tracked_def)
qed

lemma clearFreed_escaped [simp]: "escaped_in (snd (clearFreed b c)) b' = escaped_in (snd c) b'"
  by (cases c) (simp add: clearFreed_def mintAllocationID_def escaped_in_def)

lemma assign_escaped [simp]: "escaped_in (snd (assign_tracked source b c)) b' = escaped_in (snd c) b'"
  by (cases c) (simp add: assign_tracked_def Let_def)

lemma free_escaped [simp]: "escaped_in (snd (free_tracked b st)) b' = escaped_in st b'"
  by (simp add: free_tracked_def markFreed_def escaped_in_def split: option.splits)

lemma join_continuing_escaped:
  "(\<And>st. st \<in> set states \<Longrightarrow> escaped_in parent b \<Longrightarrow> escaped_in st b) \<Longrightarrow>
   escaped_in (join_continuing parent states) b \<longleftrightarrow> escaped_in parent b \<or> (\<exists>st\<in>set states. escaped_in st b)"
  by (auto simp: join_continuing_def merge_escaped split: list.splits)

lemma check_branches_member:
  "branch \<in> set branches \<Longrightarrow> \<not> terminates_actions branch \<Longrightarrow> \<not> fst (check_branches branches c) \<Longrightarrow> \<exists>n. fst c \<le> n
     \<and> snd (after_all branch (n, snd c)) \<in> set (snd (snd (check_branches branches c)))
     \<and> fst (after_all branch (n, snd c)) \<le> fst (snd (check_branches branches c))
     \<and> (decided_branches branches c \<longrightarrow> decided_actions branch (n, snd c))
     \<and> \<not> fst (check_actions branch (n, snd c))"
proof (induction branches arbitrary: c)
  case (Cons b branches)
  obtain n st where b: "after_all b c = (n, st)" by fastforce
  obtain r n' states where rest: "check_branches branches (n, snd c) = (r, n', states)" using prod_cases3 by blast
  have counters: "fst c \<le> n" "n \<le> n'"
    using check_counter(2) [of c b] check_counter(3) [of "(n, snd c)" branches] b rest by simp_all
  show ?case
  proof (cases "branch = b")
    case True
    then show ?thesis using b rest counters Cons.prems(2,3) by (intro exI [of _ "fst c"]) simp
  next
    case False
    then obtain k where "n \<le> k" "snd (after_all branch (k, snd c)) \<in> set states"
      "fst (after_all branch (k, snd c)) \<le> n'"
      "decided_branches branches (n, snd c) \<longrightarrow> decided_actions branch (k, snd c)"
      "\<not> fst (check_actions branch (k, snd c))"
      using Cons.IH [of "(n, snd c)"] Cons.prems rest b by auto
    then show ?thesis using b rest counters by (intro exI [of _ k]) auto
  qed
qed simp

lemma executes_frame:
  "executes a m m' e \<Longrightarrow> mem_dead m \<subseteq> mem_dead m' \<and> mem_escaped m' \<subseteq> mem_escaped m \<union> set (escaping a)
     \<and> (\<forall>b. b \<notin> set (changed a) \<longrightarrow> mem_store m' b = mem_store m b)"
  "executes_all acts m m' e \<Longrightarrow>
     mem_dead m \<subseteq> mem_dead m' \<and> mem_escaped m' \<subseteq> mem_escaped m \<union> set (concat (map escaping acts))
     \<and> (\<forall>b. b \<notin> set (concat (map changed acts)) \<longrightarrow> mem_store m' b = mem_store m b)"
proof (induction rule: executes_executes_all.inducts)
  case (chooses branch branches m m' e)
  then show ?case by (auto 0 4)
qed (auto simp: put_def)

section \<open>The simulation\<close>

lemma merge_describes:
  assumes "st \<in> set states" "describes st obj m" "\<forall>b. escaped_in parent b \<longrightarrow> b |\<notin>| fmdom (fl_tracked parent)"
  shows "describes (mergeBranches parent states) obj m"
proof -
  have states: "states \<noteq> []" using assms(1) by auto
  have "b |\<notin>| fmdom (fl_tracked (mergeBranches parent states))"
    if "escaped_in parent b \<or> (\<exists>br\<in>set states. escaped_in br b)" for b
    using that assms(3) states by (auto simp: fmlookup_dom_iff merge_tracked common_allocation_Some)
  then show ?thesis
    using assms(1,2)
    by (auto simp: describes_def merge_identity [OF states] common_allocation_Some merge_freed [OF states]
        merge_escaped [OF states] merge_tracked [OF states] split: if_splits)
qed

lemma merge_minted:
  assumes "st \<in> set states" "minted (n, st)" "minted (k, parent)" "n \<le> n'" "k \<le> n'"
  shows "minted (n', mergeBranches parent states)"
proof -
  have states: "states \<noteq> []" using assms(1) by auto
  have "a \<le> n'" if "fmlookup (fl_allocation (mergeBranches parent states)) b = Some a" for a b
    using merge_allocation [OF states that] assms
    by (fastforce simp: common_allocation_Some trackedAllocation_Some minted_def)
  then show ?thesis
    using assms(1,2,4) by (fastforce simp: minted_def merge_freed [OF states])
qed


lemma adopt_describes:
  assumes "describes st obj m"
  shows "describes (adopt parent st) obj m"
proof -
  have "holds (fl_tracked (adopt parent st)) b = holds (fl_tracked st) b" for b
    using assms by (auto simp: describes_def adopt_def fmlookup_dom_iff holds_iff) (metis (full_types))
  then show ?thesis using assms by (auto simp: describes_def trackedAllocation_Some) (simp add: adopt_def)
qed

lemma join_describes:
  assumes "st \<in> set states" "describes st obj m" "\<forall>b. escaped_in parent b \<longrightarrow> b |\<notin>| fmdom (fl_tracked parent)"
  shows "describes (join_continuing parent states) obj m"
  using assms merge_describes [OF assms] adopt_describes [OF assms(2)]
  by (auto simp: join_continuing_def split: list.splits)

lemma join_minted:
  assumes "st \<in> set states" "minted (n, st)" "minted (k, parent)" "n \<le> n'" "k \<le> n'"
  shows "minted (n', join_continuing parent states)"
  using assms merge_minted [OF assms] by (fastforce simp: join_continuing_def minted_def split: list.splits)

lemma loop_simulates:
  assumes run: "executes (Repeats body) m m' e" and decided: "decided_action (Repeats body) (n, st)"
    and quiet: "\<not> fst (check_action (Repeats body) (n, st))"
    and st: "describes st obj m" "minted (n, st)"
  shows "simulates (n, st) obj (after (Repeats body) (n, st)) m'"
proof -
  obtain k s where body: "after_all body (n, st) = (k, s)" by fastforce
  let ?join = "mergeBranches st [st, s]"
  have check: "after (Repeats body) (n, st) = (k, ?join)" using body quiet by (simp add: join_loop_def)
  have k: "n \<le> k" using check_counter(2) [of "(n, st)" body] body by simp
  have j: "describes ?join obj m" using st by (intro merge_describes [of st]) (auto simp: describes_def)
  have kept: "mem_store m' b = mem_store m b" if "holds (fl_tracked ?join) b" for b
  proof -
    have "b \<notin> set (changed (Repeats body))" using decided that check by (auto simp: list_all_iff)
    then show ?thesis using executes_frame(1) [OF run] by blast
  qed
  have "escaped_in ?join b" if "b \<in> mem_escaped m'" for b
    using executes_frame(1) [OF run] decided that j check by (auto simp: describes_def list_all_iff)
  then have "describes ?join obj m'"
    using j kept executes_frame(1) [OF run] by (auto simp: describes_def trackedAllocation_Some)
  moreover have "minted (k, ?join)" using st k by (intro merge_minted [of st _ n n]) auto
  ultimately show ?thesis unfolding check using k by (intro simulatesI [where obj' = obj]) auto
qed

lemma simulates_trans:
  assumes "simulates c obj c1 m1" "\<And>obj. describes (snd c1) obj m1 \<Longrightarrow> simulates c1 obj c2 m2"
  shows "simulates c obj c2 m2"
proof -
  obtain obj1 where 1: "\<forall>a\<le>fst c. obj1 a = obj a" "describes (snd c1) obj1 m1" "fst c \<le> fst c1"
    using assms(1) by (auto simp: simulates_def)
  then obtain obj2 where "\<forall>a\<le>fst c1. obj2 a = obj1 a" "describes (snd c2) obj2 m2" "fst c1 \<le> fst c2" "minted c2"
    using assms(2) [of obj1] by (auto simp: simulates_def)
  then show ?thesis using 1 by (intro simulatesI [where obj' = obj2]) auto
qed

lemma executes_simulates:
  "executes a m m' e \<Longrightarrow> e = Ends \<Longrightarrow> decided_action a c \<Longrightarrow> \<not> fst (check_action a c) \<Longrightarrow> minted c \<Longrightarrow> describes (snd c) obj m
     \<Longrightarrow> simulates c obj (after a c) m'"
  "executes_all acts m m' e \<Longrightarrow> e = Ends \<Longrightarrow> decided_actions acts c \<Longrightarrow> \<not> fst (check_actions acts c) \<Longrightarrow> minted c \<Longrightarrow> describes (snd c) obj m
     \<Longrightarrow> simulates c obj (after_all acts c) m'"
proof (induction arbitrary: c obj and c obj rule: executes_executes_all.inducts)
  case (chooses branch branches m m' e)
  have "\<not> terminates_actions branch" using terminates_not_end(2) chooses.hyps(2) chooses.prems(1) by blast
  then obtain n where n: "fst c \<le> n" and
    member: "snd (after_all branch (n, snd c)) \<in> set (snd (snd (check_branches branches c)))"
      "fst (after_all branch (n, snd c)) \<le> fst (snd (check_branches branches c))"
    and decided: "decided_actions branch (n, snd c)" "\<not> fst (check_actions branch (n, snd c))"
    using check_branches_member [OF chooses.hyps(1), of c] chooses.prems(2,3) by auto
  have "minted (n, snd c)" using chooses.prems(4) n by (fastforce simp: minted_def)
  then have "simulates (n, snd c) obj (after_all branch (n, snd c)) m'"
    using chooses.IH [OF chooses.prems(1) decided] chooses.prems(5) by simp
  then obtain obj' k st where branch: "after_all branch (n, snd c) = (k, st)" "n \<le> k" "minted (k, st)"
    "\<forall>a\<le>n. obj' a = obj a" "describes st obj' m'"
    by (cases "after_all branch (n, snd c)") (auto simp: simulates_def)
  obtain r k' states where states: "check_branches branches c = (r, k', states)" using prod_cases3 by blast
  show ?case
  proof (rule simulatesI [where obj' = obj'])
    show "fst c \<le> fst (after (Chooses branches) c)" by (rule check_counter)
    show "minted (after (Chooses branches) c)"
      using join_minted [of st states k "fst c" "snd c" k'] member branch states n chooses.prems(4) by simp
    show "obj' a = obj a" if "a \<le> fst c" for a using branch(4) n that by simp
    have "\<forall>b. escaped_in (snd c) b \<longrightarrow> b |\<notin>| fmdom (fl_tracked (snd c))"
      using chooses.prems(5) unfolding describes_def by blast
    then show "describes (snd (after (Chooses branches) c)) obj' m'"
      using join_describes [of st states obj' m' "snd c"] member(1) branch(1,5) states by simp
  qed
next
  case (repeats_done body m)
  then show ?case using loop_simulates [OF executes_executes_all.repeats_done, of body "fst c" "snd c" obj m] by simp
next
  case (repeats_again body m m' e m'' e')
  then show ?case
    using loop_simulates [OF executes_executes_all.repeats_again [OF repeats_again.hyps], of "fst c" "snd c" obj] by simp
next
  case (repeats_break body m m')
  then show ?case
    using loop_simulates [OF executes_executes_all.repeats_break [OF repeats_break.hyps], of "fst c" "snd c" obj] by simp
next
  case (uses b m)
  then show ?case by (intro simulatesI [where obj' = obj]) auto
next
  case (stops e m)
  then show ?case by (intro simulatesI [where obj' = obj]) auto
next
  case (executes_Cons a m m' acts m'' e)
  have first: "simulates c obj (after a c) m'" using executes_Cons by simp
  then have "minted (after a c)" by (simp add: simulates_def)
  then have "simulates (after a c) obj' (after_all acts (after a c)) m''"
    if "describes (snd (after a c)) obj' m'" for obj'
    using executes_Cons.IH(2) executes_Cons.prems that by simp
  then show ?case using simulates_trans [OF first] by simp
next
  case (writes_through b m x)
  then have "describes (snd c) obj (put b x m)"
    by (intro describes_put_untracked) (auto simp: describes_def holds_iff fmlookup_dom_iff)
  then show ?case using writes_through.prems by (intro simulatesI [where obj' = obj]) auto
next
  case (executes_Nil m)
  then show ?case by (intro simulatesI [where obj' = obj]) auto
next
  case (declares b m x)
  then show ?case using declare_simulates [of "snd c" obj m "fst c" b 0 x] by simp
next
  case (declares_copy source b m)
  then show ?case using declare_simulates [of "snd c" obj m "fst c" b source "mem_store m source"] by simp
next
  case (assigns b m x)
  then show ?case using assign_simulates [of "snd c" obj m "fst c" b x] by simp
next
  case (assigns_copy source b m)
  then show ?case using assign_copy_simulates [of "snd c" obj m "fst c" source b] by simp
next
  case (releases b m)
  then show ?case using release_simulates [of "snd c" obj m "fst c" b] by simp
next
  case (escapes b m)
  then show ?case using escape_simulates [of "snd c" obj m "fst c" b] by simp
qed simp_all

end
