(* ===== verification/FlowProps.thy ===== *)
theory FlowProps
  imports FlowSoundness
begin

text \<open>
  Properties of the flow facts: a report of a released object is right for programs without the
  copies and the loops the analysis does not follow, wrong for each of them, what a join keeps, and the stream
  facts that survive a join no branch proves.
\<close>

section \<open>Reports\<close>

lemma new_state_describes: "mem_escaped m = {} \<Longrightarrow> describes newFlowState obj m \<and> minted (0, newFlowState)"
  by (simp add: describes_def minted_def newFlowState_def trackedAllocation_def escaped_in_def zero_fact_def)

text \<open>
  C5. The released state the checker reports is true of every execution that reaches the end of the
  program. In a decided program in which nothing has been reported before, with branches, loops, breaks, continues
  and returns, the object a binding counted as released holds has been released, and two bindings with one identity
  hold one object. Decided: a declaration is of a new binding; a copy is made from a tracked binding to one that has
  not escaped, or concerns untracked bindings; a loop changes no binding that is tracked after it and
  lets escape only bindings that have escaped after it, its breaking paths included. Branches that terminate are
  not joined, as in checkIfStatement, and may hold anything.
\<close>

theorem released_reports_sound:
  assumes "check_actions acts (0, newFlowState) = (False, n, st)" "decided_actions acts (0, newFlowState)"
    and "executes_all acts m m' Ends" "mem_escaped m = {}"
  shows "(freed st b \<longrightarrow> mem_store m' b \<in> mem_dead m')
    \<and> (trackedAllocation st b = Some a \<longrightarrow> trackedAllocation st b' = Some a \<longrightarrow> mem_store m' b = mem_store m' b')"
proof -
  have "simulates (0, newFlowState) obj (n, st) m'" for obj
    using executes_simulates(2) [OF assms(3) refl assms(2), of obj] new_state_describes [OF assms(4)] assms(1) by simp
  then obtain obj where "describes st obj m'" by (auto simp: simulates_def)
  then have held: "\<And>b a. trackedAllocation st b = Some a \<Longrightarrow> obj a = mem_store m' b"
    and dead: "\<And>a. holds (fl_freed_alloc st) a \<Longrightarrow> obj a \<in> mem_dead m'"
    unfolding describes_def by blast+
  have "mem_store m' b \<in> mem_dead m'" if "freed st b"
    using that held dead by (fastforce simp: freed_def split: option.splits)
  moreover have "mem_store m' b = mem_store m' b'" if "trackedAllocation st b = Some a" "trackedAllocation st b' = Some a"
    using held [OF that(1)] held [OF that(2)] by simp
  ultimately show ?thesis by blast
qed

lemma runs:
  "executes_all acts (put b x m) m' e \<Longrightarrow> executes_all (Declares b # acts) m m' e"
  "executes_all acts (put b (mem_store m source) m) m' e \<Longrightarrow> executes_all (DeclaresCopy source b # acts) m m' e"
  "executes_all acts (put b (mem_store m source) m) m' e \<Longrightarrow> executes_all (AssignsCopy source b # acts) m m' e"
  "executes_all acts (m\<lparr>mem_dead := insert (mem_store m b) (mem_dead m)\<rparr>) m' e \<Longrightarrow> executes_all (Releases b # acts) m m' e"
  "executes_all acts (m\<lparr>mem_escaped := insert b (mem_escaped m)\<rparr>) m' e \<Longrightarrow> executes_all (Escapes b # acts) m m' e"
  "b \<in> mem_escaped m \<Longrightarrow> executes_all acts (put b x m) m' e \<Longrightarrow> executes_all (WritesThrough b # acts) m m' e"
  "branch \<in> set branches \<Longrightarrow> executes_all branch m m1 Ends \<Longrightarrow> executes_all acts m1 m' e
    \<Longrightarrow> executes_all (Chooses branches # acts) m m' e"
  "executes_all acts (put b x m) m' e \<Longrightarrow> executes_all (Assigns b # acts) m m' e"
  "executes_all body m m1 Breaks \<Longrightarrow> executes_all acts m1 m' e \<Longrightarrow> executes_all (Repeats body # acts) m m' e"
  "branch \<in> set branches \<Longrightarrow> executes_all branch m m' Breaks \<Longrightarrow> executes_all (Chooses branches # acts) m m' Breaks"
  by (rule executes_Cons, rule executes_executes_all.intros, assumption?)+
    (auto intro: chooses repeats_break executes_Cons executes_cut executes_executes_all.assigns)

definition start_memory :: "nat memory" where
  "start_memory = \<lparr>mem_store = id, mem_dead = {}, mem_escaped = {}\<rparr>"

text \<open>A binding is copied, then released in two branches under either name; a third branch rebinds it
  and returns; a loop that may break follows.\<close>

definition release_both :: "flow_action list" where
  "release_both =
     [Declares 1, DeclaresCopy 1 2, Chooses [[Releases 1], [Assigns 3, Releases 2], [Assigns 1, Stops Leaves]],
      Repeats [Chooses [[Assigns 3, Stops Breaks], []]]]"

theorem released_reports_sound_witness:
  "\<exists>m'. executes_all release_both start_memory m' Ends \<and> mem_store m' 1 \<in> mem_dead m' \<and> mem_store m' 1 = mem_store m' 2"
proof -
  have "\<exists>m'. executes_all release_both start_memory m' Ends"
    unfolding release_both_def
    by (rule exI, rule runs(1), rule runs(2), rule runs(7) [where branch = "[Releases 1]"], simp,
        rule runs(4), rule executes_Nil, rule runs(9), rule runs(10) [where branch = "[Assigns 3, Stops Breaks]"], simp,
        rule runs(8), rule executes_cut, rule stops, simp, rule executes_Nil)
  then obtain m' where run: "executes_all release_both start_memory m' Ends" by blast
  obtain r n st where check: "check_actions release_both (0, newFlowState) = (r, n, st)" using prod_cases3 by blast
  have "decided_actions release_both (0, newFlowState)" by code_simp
  moreover have "case check_actions release_both (0, newFlowState) of (r, n, st) \<Rightarrow>
      \<not> r \<and> freed st 1 \<and> trackedAllocation st 1 = Some 1 \<and> trackedAllocation st 2 = Some 1"
    by code_simp
  ultimately show ?thesis
    using released_reports_sound [OF _ _ run, of n st 1 1 2] run check by (auto simp: start_memory_def)
qed

text \<open>Three programs with a copy the analysis does not follow, and one with a path that breaks.\<close>

definition copy_from_untracked :: "flow_action list" where
  "copy_from_untracked = [Declares 1, Declares 2, Escapes 2, Releases 1, AssignsCopy 2 1]"

definition copy_to_escaped :: "flow_action list" where
  "copy_to_escaped = [Declares 1, Declares 2, Escapes 1, AssignsCopy 2 1, WritesThrough 1, Releases 2]"

definition copies_in_loop :: "flow_action list" where
  "copies_in_loop =
     [Declares 1, DeclaresCopy 1 2, Declares 3, DeclaresCopy 1 4, Repeats [AssignsCopy 1 2, AssignsCopy 3 1],
      Releases 4]"

definition rebound_before_break :: "flow_action list" where
  "rebound_before_break =
     [Declares 1, DeclaresCopy 1 4, Repeats [Chooses [[Assigns 1, Stops Breaks], []]], Releases 4]"

text \<open>Nothing is reported, and the binding counts as released at the end.\<close>

definition counts_released :: "flow_action list \<Rightarrow> binding_id \<Rightarrow> bool" where
  "counts_released acts b = (case check_actions acts (0, newFlowState) of (r, n, st) \<Rightarrow> \<not> r \<and> freed st b)"

lemma counted_programs:
  "counts_released copy_from_untracked 1" "counts_released copy_to_escaped 1"
  "counts_released rebound_before_break 1"
  by code_simp+

lemma counted_loop: "counts_released copies_in_loop 2"
  by code_simp

definition wrongly_reported :: "flow_action list \<Rightarrow> binding_id \<Rightarrow> bool" where
  "wrongly_reported acts b \<longleftrightarrow>
     counts_released acts b
     \<and> (\<exists>m'. executes_all acts start_memory m' Ends \<and> mem_store m' b \<notin> mem_dead m')"

text \<open>
  C34. Three kinds of copies and one kind of loop make the report wrong, so a valid program is refused. A copy
  from a binding that is not tracked leaves the target its old identity; a copy to a binding that has escaped tracks
  it again, although it may be written unseen; the join after a loop trusts one pass through its body, so a copy that
  moves along a chain is missed; and it leaves out the paths that break, so a binding rebound on such a path keeps its
  old identity. In each program nothing is reported before, and an execution reaches the end
  with a binding counted as released that holds an object that is not.
\<close>

theorem released_reports_wrong:
  "wrongly_reported copy_from_untracked 1 \<and> wrongly_reported copy_to_escaped 1 \<and> wrongly_reported copies_in_loop 2
   \<and> wrongly_reported rebound_before_break 1"
proof -
  have "\<exists>m'. executes_all copy_from_untracked start_memory m' Ends \<and> mem_store m' 1 \<notin> mem_dead m'"
    unfolding copy_from_untracked_def
    by (intro exI conjI, rule runs(1) [where x = 1], rule runs(1) [where x = 2], rule runs, rule runs, rule runs,
      rule executes_Nil) (simp add: put_def start_memory_def)
  moreover have "\<exists>m'. executes_all copy_to_escaped start_memory m' Ends \<and> mem_store m' 1 \<notin> mem_dead m'"
    unfolding copy_to_escaped_def
    by (intro exI conjI, rule runs(1) [where x = 1], rule runs(1) [where x = 2], rule runs, rule runs,
      rule runs(6) [where x = 7], simp add: put_def, rule runs, rule executes_Nil) (simp add: put_def start_memory_def)
  moreover have "\<exists>m'. executes_all copies_in_loop start_memory m' Ends \<and> mem_store m' 2 \<notin> mem_dead m'"
    unfolding copies_in_loop_def
    by (intro exI conjI, rule runs(1) [where x = 1], rule runs(2), rule runs(1) [where x = 3], rule runs(2),
      rule executes_Cons, rule repeats_again, rule runs, rule runs, rule executes_Nil, rule disjI1, rule refl,
      rule repeats_again, rule runs, rule runs, rule executes_Nil, rule disjI1, rule refl, rule repeats_done, rule runs,
      rule executes_Nil) (simp add: put_def start_memory_def)
  moreover have "\<exists>m'. executes_all rebound_before_break start_memory m' Ends \<and> mem_store m' 1 \<notin> mem_dead m'"
    unfolding rebound_before_break_def
    by (intro exI conjI, rule runs(1) [where x = 1], rule runs(2), rule runs(9),
      rule runs(10) [where branch = "[Assigns 1, Stops Breaks]"], simp, rule runs(8) [where x = 2],
      rule executes_cut, rule stops, simp, rule runs, rule executes_Nil) (simp add: put_def start_memory_def)
  ultimately show ?thesis unfolding wrongly_reported_def using counted_programs counted_loop by blast
qed

section \<open>Joins\<close>

text \<open>
  C22. After a join of branches a binding has an identity exactly when it was tracked before and every
  branch gives it that identity and has not let it escape; an identity is released exactly when every branch
  released it; a binding has escaped exactly when it had before or some branch let it.
\<close>

theorem merge_keeps_agreement:
  assumes "branches \<noteq> []"
  shows "(trackedAllocation (mergeBranches parent branches) b = Some a \<longleftrightarrow>
      b |\<in>| fmdom (fl_tracked parent)
      \<and> (\<forall>br\<in>set branches. trackedAllocation br b = Some a \<and> b |\<in>| fmdom (fl_facts br) \<and> \<not> escaped_in br b))
    \<and> (freedAllocReport (mergeBranches parent branches) a \<longleftrightarrow> (\<forall>br\<in>set branches. freedAllocReport br a))
    \<and> (escaped_in (mergeBranches parent branches) b \<longleftrightarrow> escaped_in parent b \<or> (\<exists>br\<in>set branches. escaped_in br b))"
  using assms merge_identity [OF assms] merge_freed [OF assms] merge_escaped [OF assms]
  by (cases branches) (auto simp: common_allocation_Some freedAllocReport_def)

theorem merge_keeps_agreement_witness:
  "freedAllocReport (mergeBranches newFlowState [markFreedAlloc 4 newFlowState, markFreedAlloc 4 newFlowState]) 4
   \<and> \<not> freedAllocReport (mergeBranches newFlowState [markFreedAlloc 4 newFlowState, newFlowState]) 4"
  using merge_keeps_agreement [of "[markFreedAlloc 4 newFlowState, markFreedAlloc 4 newFlowState]" newFlowState _ 4]
    merge_keeps_agreement [of "[markFreedAlloc 4 newFlowState, newFlowState]" newFlowState _ 4]
  by (simp add: freedAllocReport_def markFreedAlloc_def newFlowState_def)

text \<open>A stream with a known capability and one with a known list, and two branches.\<close>

definition stream_parent :: flow_state where
  "stream_parent = setProvenance 6 7 (setCapability 5 1 newFlowState)"

definition rebinding_branch :: flow_state where
  "rebinding_branch = setProvenance 6 0 (setCapability 5 0 stream_parent)"

definition releasing_branch :: flow_state where
  "releasing_branch = releaseSource 7 stream_parent"

text \<open>
  C36. Stream facts outlive their proof. At a join of any branches, for a binding no branch lets escape or has
  a capability or a borrowed list for, the join keeps the capability and the list from before the branches (the
  list as long as no branch lets it escape), although no branch proves them: the loop looks only at bindings some branch
  still has a fact for. For the same reason such a binding, seen as a list, counts as released after the join
  exactly when it did before, whatever the branches released. So when every branch rebinds a stream its old capability
  stays, and when every branch releases a list a stream that borrows it is not refused.
\<close>

theorem stream_facts_outlive_proof:
  assumes "branches \<noteq> []"
    and "\<forall>br\<in>set branches. capabilityOf br b = 0 \<and> fmlookup (fl_provenance br) b = None \<and> \<not> escaped_in br b"
  shows "capabilityOf (mergeBranches parent branches) b = capabilityOf parent b
    \<and> (\<forall>s. fmlookup (fl_provenance parent) b = Some s \<longrightarrow> (\<forall>br\<in>set branches. \<not> escaped_in br s) \<longrightarrow>
         fmlookup (fl_provenance (mergeBranches parent branches)) b = Some s)
    \<and> sourceReleased (mergeBranches parent branches) b = sourceReleased parent b"
proof -
  have "b |\<notin>| fmdom (stream_ids branches)" using stream_ids_member [of b branches] assms(2) by auto
  then show ?thesis using merge_stream_facts [OF assms(1), of b, where parent = parent] assms(2) by blast
qed

theorem stream_facts_outlive_proof_witness:
  "capabilityOf rebinding_branch 5 = 0 \<and> fmlookup (fl_provenance rebinding_branch) 6 = None
   \<and> capabilityOf (mergeBranches stream_parent [rebinding_branch, rebinding_branch]) 5 = 1
   \<and> fmlookup (fl_provenance (mergeBranches stream_parent [rebinding_branch, rebinding_branch])) 6 = Some 7
   \<and> borrowed_source_released releasing_branch 6
   \<and> \<not> borrowed_source_released (mergeBranches stream_parent [releasing_branch, releasing_branch]) 6"
proof -
  let ?bs = "[rebinding_branch, rebinding_branch]" and ?rs = "[releasing_branch, releasing_branch]"
  have none: "capabilityOf rebinding_branch 5 = 0" "fmlookup (fl_provenance rebinding_branch) 5 = None"
    "\<not> escaped_in rebinding_branch 5" "capabilityOf rebinding_branch 6 = 0"
    "fmlookup (fl_provenance rebinding_branch) 6 = None" "\<not> escaped_in rebinding_branch 6"
    "\<not> escaped_in rebinding_branch 7" "capabilityOf releasing_branch 7 = 0"
    "fmlookup (fl_provenance releasing_branch) 7 = None" "\<not> escaped_in releasing_branch 7"
    "capabilityOf stream_parent 5 = 1" "fmlookup (fl_provenance stream_parent) 6 = Some 7"
    "\<not> sourceReleased stream_parent 7" "borrowed_source_released releasing_branch 6"
    "fm_get 0 (fl_provenance (mergeBranches stream_parent ?rs)) 6 = 7"
    by code_simp+
  have "capabilityOf (mergeBranches stream_parent ?bs) 5 = 1"
    "fmlookup (fl_provenance (mergeBranches stream_parent ?bs)) 6 = Some 7"
    "\<not> sourceReleased (mergeBranches stream_parent ?rs) 7"
    using stream_facts_outlive_proof [of ?bs 5 stream_parent] stream_facts_outlive_proof [of ?bs 6 stream_parent]
      stream_facts_outlive_proof [of ?rs 7 stream_parent] none by simp_all
  with none show ?thesis by (simp add: borrowed_source_released_def)
qed

end
