(* ===== verification/Spec2Isabelle.thy ===== *)
theory Spec2Isabelle
  imports LexerProps ParserProps TypeProps ConstantProps ModuleProps PipelineProps StarvationProps
    FlowProps
begin

text \<open>
  A verification development for the Hexal compiler (\<open>src/compiler\<close>, written in Go).

  \<^bold>\<open>The program.\<close> Hexal compiles modules to C. A source text is a byte string. \<open>compiler/span\<close>
  maps byte offsets to lines and columns. \<open>compiler/lexer\<close> turns the bytes into tokens and
  diagnostics. \<open>compiler/parser\<close> turns the tokens into a syntax tree and diagnostics, and recovers
  after each error. \<open>compiler/types\<close> interns types in an arena that one compilation shares, with
  the rules of \<open>compiler/specdata\<close> as its tables. \<open>compiler/checker\<close> resolves names, folds
  constants and builds the checked program, and \<open>compiler/generator\<close> validates that program again
  and renders it as C. \<open>compiler/compile.go\<close> drives these stages: it resolves the modules an entrypoint
  reaches into a graph, with the depth-first walker of \<open>internal/graph\<close>, and hands the graph on. The
  development models the front end whole, the resolution of modules whole, the type system whole,
  and of the checker and the generator the parts that compute: inference of type arguments, constant
  folding, the passes over control flow, the facts about released storage, and the validation and spelling of constants.

  \<^bold>\<open>Foundations.\<close> \<open>Prelude\<close> has byte strings, slices and the fact collections. \<open>Utf8\<close> has the
  parts of \<open>unicode/utf8\<close> and \<open>strconv\<close> the lexer uses, with the classification of the encodings
  that decode.

  \<^bold>\<open>Source positions\<close> (\<open>compiler/span/span.go\<close>): \<open>SpanTable\<close> has the spans, the table of line
  starts and \<open>Table.Position\<close>, whose binary search is proved to count the line starts up to an
  offset.

  \<^bold>\<open>Lexer\<close> (\<open>compiler/lexer/lexer.go\<close>, \<open>diagnostics/lexer.go\<close>, \<open>config/config.go\<close>):
  \<^item> \<open>Tokens\<close>: the token kinds, the keyword table and the names of kinds.
  \<^item> \<open>Literals\<close>: \<open>DecodeLiteralBody\<close> and the diagnostics of literals, against a grammar of items.
  \<^item> \<open>Scanners\<close>: identifiers, numbers, quoted and raw strings, headers, module paths, comments.
  \<^item> \<open>Lexer\<close>: \<open>scanToken\<close>, the interpolated strings that call it again, and \<open>Lex\<close>. The state
    is the byte index with the line and column the source counts.
  \<^item> \<open>LexerSlices\<close>: every call of the scanner advances and emits slices of the bytes it passed.
    A locale states what a scanner owes to the loops around it, and the model's scanner interprets
    it. \<open>LexerPositions\<close>: the same for the counters, related to the span table.
  \<^item> \<open>LexerProps\<close>: the properties.

  \<^bold>\<open>Parser\<close> (\<open>compiler/parser\<close>, \<open>diagnostics/parser.go\<close>):
  \<^item> \<open>Ast\<close> and \<open>ParserMessages\<close>: the tree (one constructor per node type) and the messages.
  \<^item> \<open>ParserState\<close>: the parser struct as a record, its token primitives, and the sequencing of
    parsing functions. A parsing function answers with a result and a new state, with a failure
    (the Go code's panic, caught at the recovery points) and a new state, or not at all when its
    fuel is spent.
  \<^item> \<open>ParserTypes\<close>, \<open>ParserExpressions\<close>, \<open>ParserStatements\<close>, \<open>ParserTopLevel\<close>: one definition per
    method. The mutually recursive entries (expression, unary operand, address operand, statement, block and
    their like) are fields of a record that a method takes as an argument, and \<open>ParserStatements\<close>
    closes the knot, one level of recursion per unit of fuel.
  \<^item> \<open>ParserContract\<close>: a small program logic. A contract says that a function returns within its
    fuel, never moves the cursor back, restores what it must, and reports. \<open>ParserTypeTotal\<close>,
    \<open>ParserExpressionTotal\<close>, \<open>ParserStatementTotal\<close> and \<open>ParserTotal\<close> prove it of each method,
    inside locales whose assumptions are the contracts of the recursive entries; the induction
    over the fuel interprets them. \<open>ParserProgram\<close> does the top level and \<open>Parse\<close>.
  \<^item> \<open>ParserFuel\<close>: more fuel never changes a result, so the fuel is only a bound. The fuel of
    \<open>parse\<close> is four times the number of tokens plus eight: between two tokens consumed the
    recursive entries nest at most four deep.
  \<^item> \<open>ParserProps\<close>: the properties, and two inputs on which the code and the language reference
    disagree.

  \<^bold>\<open>Type system\<close> (\<open>compiler/types\<close>, tables of \<open>compiler/specdata\<close>):
  \<^item> \<open>TypeModel\<close>: the \<open>Type\<close> struct and the nominal records. Go's pointers to types become values
    that carry their identity; the nominal contents that are completed later, and may be cyclic, live in the
    store of the arena and are reached by identity.
  \<^item> \<open>TypeBuiltins\<close>, \<open>TypeFacts\<close>: the compiler-owned types and the facts the registry records.
    Package initialisation hands out identities in the model's fixed order.
  \<^item> \<open>TypeCanonical\<close>, \<open>TypeArena\<close>, \<open>TypeUnions\<close>, \<open>TypeEnvironment\<close>: canonicality, interning,
    structural unions, module environments, generics.
  \<^item> \<open>ModuleNames\<close>: the C spellings derived from module paths.
  \<^item> \<open>Numerics\<close>, \<open>Assignability\<close>: ranks, widening, conversion, assignment.
  \<^item> \<open>GenericInference\<close>: \<open>checker/generic_calls.go\<close>, unification and the search for the
    conflicting parameter. That search keeps no record of the types it has seen and does not end on
    a self-referential record. It takes a depth, which a theorem shows no bound is enough for there.
  \<^item> \<open>TypeArenaLaws\<close>, \<open>TypeUnionLaws\<close>, \<open>NumericLaws\<close>: the invariant of the arena, canonical
    unions, and widening against value sets. \<open>TypeReachability\<close>: the arena as a state machine,
    the reachable states and the invariant by rule induction, and construction as a refinement of a
    fixed map. \<open>TypeIdentity\<close>: the types known to an arena, builtin, interned or declared; two of
    one identity are one type or copies of one declaration, which discharges what \<open>Assignability\<close> assumes.
    \<open>TypeProps\<close>: the properties.

  \<^bold>\<open>Compile-time evaluation\<close> (\<open>checker/constant_folding.go\<close> and the scalar parts of \<open>literals.go\<close>,
  \<open>operator_checking.go\<close>, \<open>conversions.go\<close>, \<open>bitwise.go\<close>, \<open>operands.go\<close>, \<open>expressions.go\<close>,
  \<open>equality.go\<close>; \<open>generator/constant_validation.go\<close> with the spelling of integers in \<open>render.go\<close>):
  \<^item> \<open>FloatBits\<close>: Go's floats as bit patterns with their exact rational values and rounding to
    nearest even. Which bits an arithmetic NaN has depends on the machine; they are a parameter.
  \<^item> \<open>GoConstant\<close>: the values of \<open>go/constant\<close>. Integers and fractions are exact. The library
    turns a fraction into a 512-bit float when its terms get large; the operations modelled here
    do not reach that size, and a shift that would exhaust memory is not represented.
  \<^item> \<open>ConstantFolding\<close>, \<open>ConstantOperations\<close>: literals, folding of unary and binary operations,
    mixed-type arithmetic, comparisons, conversions, and the checking of expressions of literals
    and operators.
  \<^item> \<open>ConstantValidation\<close>: the generator's second look and the C spelling.
  \<^item> \<open>ConstantLaws\<close>, \<open>ConstantChecked\<close>, \<open>ConstantMachine\<close>, \<open>ConstantFloats\<close>: wrapping and ranges,
    the invariant of checked constants, folding against words of the machine's width, and floats.
    \<open>ConstantProps\<close>: the properties, two of which state where the code does not do what its
    comments promise.

  \<^bold>\<open>Module resolution and the pipeline\<close> (\<open>compiler/compile.go\<close>, \<open>project.go\<close>, \<open>profile.go\<close>,
  \<open>cinterop.go\<close>, \<open>runtime_dependency.go\<close>, \<open>internal/graph/graph.go\<close>, \<open>checker/modulegraph.go\<close>,
  \<open>stdlib/stdlib.go\<close>):
  \<^item> \<open>GraphWalk\<close>: the walker with its visited set, active path and post-order, and its laws.
  \<^item> \<open>Diagnostics\<close>: message texts of the lexer and of this stage, located diagnostics, rendering,
    merging. \<open>Sha256\<close>: the hash in the key of a prepared C binding.
  \<^item> \<open>ModulePaths\<close>: logical keys, canonical identities, relative and standard library paths.
  \<^item> \<open>ModuleResolution\<close>: \<open>reachState\<close> with its methods, \<open>reachableModulesTarget\<close> and
    \<open>DiscoverCImports\<close>. A module's text goes through the models of the lexer and the parser. An
    outcome is a result, an error of a stage (a Go panic is one), or nothing when the fuel is
    spent. The fuel is the number of sources and embedded modules plus one: every nested visit enters
    another module that has a source. The sources are a list read as a map; the order Go iterates over the
    prepared bindings, and the embedded standard library files, are inputs of the model.
  \<^item> \<open>ModuleLaws\<close>: the invariant of the walk, proved in a locale whose assumption is the contract of
    the recursive visit; the induction over the fuel interprets it. \<open>ModulePathLaws\<close>: splitting, joining and
    climbing. \<open>ModuleProps\<close>: the properties.
  \<^item> \<open>Pipeline\<close>, \<open>PipelineProps\<close>: the project's rules, the source table, \<open>compilePipeline\<close> up to the
    graph, the result of a failure and the runtime dependencies. Durations are not modelled.

  \<^bold>\<open>Control-flow passes of the checker\<close> (\<open>checker/starvation.go\<close>, parts of \<open>control_flow.go\<close>):
  \<^item> \<open>CheckedTree\<close>: the checked statements, and of expressions and operands the fields the passes
    read. \<open>ControlFlow\<close>: the termination tests, and the paths of a statement list as an inductive
    relation. \<open>Starvation\<close>: the must-yield check. Its recursion over calls has one level per known
    function plus one, enough because a function is visited once.
  \<^item> \<open>StarvationLaws\<close>, \<open>StarvationProps\<close>: the tests against the paths, termination of the check
    (again by a locale for the recursive visit), and the programs it wrongly accepts.

  \<^bold>\<open>Flow facts of the checker\<close> (\<open>checker/flow.go\<close>, the place records of \<open>strings.go\<close>, and the
  statements of \<open>declarations.go\<close>, \<open>alloc.go\<close>, \<open>io.go\<close> and \<open>control_flow.go\<close> that use them):
  \<^item> \<open>FlowState\<close>: \<open>flowState\<close> as a record of finite maps and its operations. The counter the clones
    share is passed along; identities are unbounded numbers, since one is minted for each statement.
  \<^item> \<open>FlowJoin\<close>: \<open>mergeBranches\<close>, one definition per loop, \<open>adopt\<close>, and the call sites.
  \<^item> \<open>FlowLaws\<close>: what a join keeps. \<open>FlowSoundness\<close>: programs of actions on bindings, with branches, loops,
    breaks, continues and returns, what the checker does for them (the branches it leaves out of a join included) and how
    they change a memory; the state after the check describes the memory after any execution that reaches the
    end, for programs without the copies and loops named there and in which nothing is reported before. Conditions, with
    the narrowing they bring, and deferred actions are not part of these programs.
  \<^item> \<open>FlowProps\<close>: the properties, a wrong report for each kind of copy and for a loop left by a break, and
    stream facts that a join keeps without proof.

  \<^bold>\<open>Not modelled.\<close> The rest of the checker (declarations, places, methods, exports of modules) keeps the
  whole checked tree as its state. The generator's rendering makes text whose meaning is that
  of C and of a runtime written in C. The registries of library methods and messages are tables read by
  those parts. The driver, the backend and the tools work on processes and files. Inside the
  modelled parts the shortest decimal spelling of floats, the constants of object types and the nodes built for
  operations at run time are left out.
\<close>

end
